(* ===== verification/Prelude.thy ===== *)
theory Prelude
  imports Main "HOL-Library.Char_ord"
begin

text \<open>
  The vocabulary shared by every component of the development.

  \<^item> \<open>Go strings\<close>: a Go \<open>string\<close> is a list of bytes, here \<^typ>\<open>string\<close> (a list of \<^typ>\<open>char\<close>).
    The functions of the packages \<open>strings\<close>, \<open>strconv\<close> and \<open>math/big\<close> that the gateway
    calls are written out on ASCII text (white space and letter case outside ASCII are not
    modelled).
  \<^item> \<open>Errors\<close>: a Go result \<open>(v, err)\<close> is a value of \<open>'e + 'a\<close>, \<open>Inl\<close> for the error.
  \<^item> \<open>Integers\<close>: an \<open>int64\<close> is an \<^typ>\<open>int\<close> with the range test \<open>is_int64\<close>, and
    \<open>wrap64\<close> where the Go code multiplies without a check.
  \<^item> \<open>Time\<close>: a \<open>time.Time\<close> is a number of nanoseconds since the Unix epoch; a nullable
    column (\<open>pgtype.Text\<close>, \<open>pgtype.Timestamptz\<close>, ...) is an \<open>option\<close>.
  \<^item> \<open>Tables\<close>: a database table is a list of rows in insertion order; the generic selection
    and update of rows carries the lemmas every query relies on.
\<close>

named_theorems go_simps "equations of the Go library functions used by the gateway"
named_theorems sql_defs "definitions of the queries of internal/db/sqlcgen"
named_theorems handler_defs "definitions of the request handlers"

section \<open>Machine integers\<close>

definition is_int64 :: "int \<Rightarrow> bool" where
  "is_int64 n \<longleftrightarrow> - (2 ^ 63) \<le> n \<and> n < 2 ^ 63"

definition wrap64 :: "int \<Rightarrow> int" where
  "wrap64 n = (n + 2 ^ 63) mod 2 ^ 64 - 2 ^ 63"

lemma wrap64_in_range: "is_int64 (wrap64 n)"
proof -
  have "0 \<le> (n + 2 ^ 63) mod 2 ^ 64" and "(n + 2 ^ 63) mod 2 ^ 64 < (2 ^ 64 :: int)"
    by simp_all
  then show ?thesis by (simp add: wrap64_def is_int64_def)
qed

lemma wrap64_id: "is_int64 n \<Longrightarrow> wrap64 n = n"
  by (simp add: wrap64_def is_int64_def)

section \<open>Package strings on ASCII text\<close>

definition HasPrefix :: "string \<Rightarrow> string \<Rightarrow> bool" where
  "HasPrefix s p \<longleftrightarrow> take (length p) s = p"

definition HasSuffix :: "string \<Rightarrow> string \<Rightarrow> bool" where
  "HasSuffix s p \<longleftrightarrow> length p \<le> length s \<and> drop (length s - length p) s = p"

definition TrimPrefix :: "string \<Rightarrow> string \<Rightarrow> string" where
  "TrimPrefix s p = (if HasPrefix s p then drop (length p) s else s)"

definition TrimSuffix :: "string \<Rightarrow> string \<Rightarrow> string" where
  "TrimSuffix s p = (if HasSuffix s p then take (length s - length p) s else s)"

text \<open>\<open>strings.Cut\<close> with a one-byte separator: the text before it, the text after it, found.\<close>

fun Cut :: "char \<Rightarrow> string \<Rightarrow> string \<times> string \<times> bool" where
  "Cut c [] = ([], [], False)"
| "Cut c (x # xs) =
     (if x = c then ([], xs, True)
      else (case Cut c xs of (b, a, f) \<Rightarrow> (x # b, a, f)))"

text \<open>\<open>strings.Split\<close> with a one-byte separator: always at least one part.\<close>

fun Split :: "char \<Rightarrow> string \<Rightarrow> string list" where
  "Split c [] = [[]]"
| "Split c (x # xs) =
     (if x = c then [] # Split c xs
      else (case Split c xs of [] \<Rightarrow> [[x]] | p # ps \<Rightarrow> (x # p) # ps))"

definition TrimLeft :: "char \<Rightarrow> string \<Rightarrow> string" where
  "TrimLeft c s = dropWhile (\<lambda>x. x = c) s"

definition TrimRight :: "char \<Rightarrow> string \<Rightarrow> string" where
  "TrimRight c s = rev (dropWhile (\<lambda>x. x = c) (rev s))"

definition is_space :: "char \<Rightarrow> bool" where
  "is_space c \<longleftrightarrow> (of_char c :: nat) \<in> {9, 10, 11, 12, 13, 32}"

definition TrimSpace :: "string \<Rightarrow> string" where
  "TrimSpace s = rev (dropWhile is_space (rev (dropWhile is_space s)))"

definition lower_char :: "char \<Rightarrow> char" where
  "lower_char c = (let n = (of_char c :: nat) in if 65 \<le> n \<and> n \<le> 90 then char_of (n + 32) else c)"

definition upper_char :: "char \<Rightarrow> char" where
  "upper_char c = (let n = (of_char c :: nat) in if 97 \<le> n \<and> n \<le> 122 then char_of (n - 32) else c)"

definition ToLower :: "string \<Rightarrow> string" where
  "ToLower s = map lower_char s"

definition ToUpper :: "string \<Rightarrow> string" where
  "ToUpper s = map upper_char s"

lemma Cut_append: "c \<notin> set a \<Longrightarrow> Cut c (a @ c # b) = (a, b, True)"
  by (induction a) auto

lemma Cut_none: "c \<notin> set a \<Longrightarrow> Cut c a = (a, [], False)"
  by (induction a) auto

lemma Cut_not_found: "Cut c s = (b, a, d) \<Longrightarrow> \<not> d \<Longrightarrow> b = s \<and> a = []"
  by (induction s arbitrary: b) (auto split: prod.splits if_splits)

lemma Split_append: "c \<notin> set a \<Longrightarrow> Split c (a @ c # b) = a # Split c b"
  by (induction a) auto

lemma Split_none: "c \<notin> set a \<Longrightarrow> Split c a = [a]"
  by (induction a) auto

lemma Split_not_Nil [simp]: "Split c s \<noteq> []"
  by (cases s) (auto split: list.splits)

lemma HasPrefix_append [simp]: "HasPrefix (p @ s) p"
  by (simp add: HasPrefix_def)

lemma HasPrefix_Nil [simp]: "HasPrefix s []"
  by (simp add: HasPrefix_def)

lemma HasPrefix_conv: "HasPrefix s p \<longleftrightarrow> (\<exists>t. s = p @ t)"
  unfolding HasPrefix_def by (metis append_eq_conv_conj append_take_drop_id)

lemma TrimSpace_id:
  assumes "\<forall>c \<in> set s. \<not> is_space c"
  shows "TrimSpace s = s"
proof -
  have "dropWhile is_space s = s"
    using assms by (cases s) auto
  moreover have "dropWhile is_space (rev s) = rev s"
    using assms by (cases s rule: rev_cases) simp_all
  ultimately show ?thesis by (simp add: TrimSpace_def)
qed

lemma TrimRight_append_same: "TrimRight c (s @ replicate n c) = TrimRight c s"
  by (simp add: TrimRight_def) (induction n; simp)

lemma TrimRight_id: "s \<noteq> [] \<Longrightarrow> last s \<noteq> c \<Longrightarrow> TrimRight c s = s"
  by (cases s rule: rev_cases) (simp_all add: TrimRight_def)

lemma TrimRight_decomp: "\<exists>n. s = TrimRight c s @ replicate n c"
proof (induction s rule: rev_induct)
  case (snoc x s)
  show ?case
  proof (cases "x = c")
    case True
    from snoc obtain n where "s = TrimRight c s @ replicate n c" by blast
    then have "s @ [c] = TrimRight c s @ replicate (Suc n) c"
      by (metis append_assoc replicate_append_same replicate_Suc)
    then show ?thesis using True by (metis TrimRight_append_same replicate_0 replicate_Suc append_assoc)
  next
    case False
    then show ?thesis by (simp add: TrimRight_def exI [of _ 0])
  qed
qed (simp add: TrimRight_def)

section \<open>Decimal numerals\<close>

definition is_digit :: "char \<Rightarrow> bool" where
  "is_digit c \<longleftrightarrow> 48 \<le> (of_char c :: nat) \<and> (of_char c :: nat) \<le> 57"

definition digit_val :: "char \<Rightarrow> nat" where
  "digit_val c = of_char c - 48"

definition digit_char :: "nat \<Rightarrow> char" where
  "digit_char d = char_of (48 + d)"

definition all_digits :: "string \<Rightarrow> bool" where
  "all_digits s \<longleftrightarrow> list_all is_digit s"

definition dec_val :: "string \<Rightarrow> nat" where
  "dec_val s = foldl (\<lambda>a c. 10 * a + digit_val c) 0 s"

text \<open>\<open>strconv.Itoa\<close> / \<open>%d\<close> on a non-negative number.\<close>

fun nat_to_dec :: "nat \<Rightarrow> string" where
  "nat_to_dec n =
     (if n < 10 then [digit_char n] else nat_to_dec (n div 10) @ [digit_char (n mod 10)])"

declare nat_to_dec.simps [simp del]

text \<open>\<open>%d\<close> on a signed number, and the zero padding of \<open>%0wd\<close> (the sign counts as width).\<close>

definition int_to_dec :: "int \<Rightarrow> string" where
  "int_to_dec n = (if n < 0 then CHR ''-'' # nat_to_dec (nat (- n)) else nat_to_dec (nat n))"

definition pad0 :: "nat \<Rightarrow> int \<Rightarrow> string" where
  "pad0 w n =
     (if n < 0
      then (let s = nat_to_dec (nat (- n)) in CHR ''-'' # replicate (w - 1 - length s) CHR ''0'' @ s)
      else (let s = nat_to_dec (nat n) in replicate (w - length s) CHR ''0'' @ s))"

text \<open>
  \<open>big.Int.SetString(s, 10)\<close>: an optional sign and at least one digit (no underscores in
  base 10).
\<close>

definition big_SetString :: "string \<Rightarrow> int option" where
  "big_SetString s =
     (case s of
        [] \<Rightarrow> None
      | c # cs \<Rightarrow>
          (if c = CHR ''-'' then (if cs \<noteq> [] \<and> all_digits cs then Some (- int (dec_val cs)) else None)
           else if c = CHR ''+'' then (if cs \<noteq> [] \<and> all_digits cs then Some (int (dec_val cs)) else None)
           else if all_digits s then Some (int (dec_val s)) else None))"

text \<open>\<open>strconv.ParseInt(s, 10, bits)\<close>: the same syntax and the range of a signed \<open>bits\<close>-bit integer.\<close>

definition ParseInt :: "nat \<Rightarrow> string \<Rightarrow> int option" where
  "ParseInt bits s =
     (case big_SetString s of
        None \<Rightarrow> None
      | Some n \<Rightarrow> if - (2 ^ (bits - 1)) \<le> n \<and> n < 2 ^ (bits - 1) then Some n else None)"

lemma is_digit_digit_char [simp]: "d < 10 \<Longrightarrow> is_digit (digit_char d)"
  by (simp add: is_digit_def digit_char_def)

lemma digit_val_digit_char [simp]: "d < 10 \<Longrightarrow> digit_val (digit_char d) = d"
  by (simp add: digit_val_def digit_char_def)

lemma digit_val_less: "is_digit c \<Longrightarrow> digit_val c < 10"
  by (auto simp: is_digit_def digit_val_def)

lemma digit_char_digit_val: "is_digit c \<Longrightarrow> digit_char (digit_val c) = c"
  by (simp add: is_digit_def digit_val_def digit_char_def)

lemma digit_char_eval [simp]:
  "digit_char 0 = CHR ''0''"
  "digit_char (Suc 0) = CHR ''1''"
  "digit_char 2 = CHR ''2''"
  "digit_char 3 = CHR ''3''"
  "digit_char 4 = CHR ''4''"
  "digit_char 5 = CHR ''5''"
  "digit_char 6 = CHR ''6''"
  "digit_char 7 = CHR ''7''"
  "digit_char 8 = CHR ''8''"
  "digit_char 9 = CHR ''9''"
  "digit_char 1 = CHR ''1''"
  by code_simp+

lemma not_digit_simps [simp]:
  "\<not> is_digit (CHR ''-'')" "\<not> is_digit (CHR ''+'')" "\<not> is_digit (CHR ''.'')" "\<not> is_digit (CHR '' '')"
  by (simp_all add: is_digit_def)

lemma is_digit_not_space: "is_digit c \<Longrightarrow> \<not> is_space c"
  by (auto simp: is_digit_def is_space_def)

lemma all_digits_Nil [simp]: "all_digits []"
  by (simp add: all_digits_def)

lemma all_digits_Cons [simp]: "all_digits (c # s) \<longleftrightarrow> is_digit c \<and> all_digits s"
  by (simp add: all_digits_def)

lemma all_digits_append [simp]: "all_digits (s @ t) \<longleftrightarrow> all_digits s \<and> all_digits t"
  by (simp add: all_digits_def)

lemma all_digits_replicate [simp]: "all_digits (replicate n (CHR ''0''))"
  by (simp add: all_digits_def list_all_iff is_digit_def)

lemma all_digits_dropWhile: "all_digits s \<Longrightarrow> all_digits (dropWhile P s)"
  by (auto simp: all_digits_def list_all_iff dest: set_dropWhileD)

lemma all_digits_set: "all_digits s \<longleftrightarrow> (\<forall>c \<in> set s. is_digit c)"
  by (simp add: all_digits_def list_all_iff)

lemma dec_val_Nil [simp]: "dec_val [] = 0"
  by (simp add: dec_val_def)

lemma dec_val_snoc [simp]: "dec_val (s @ [c]) = 10 * dec_val s + digit_val c"
  by (simp add: dec_val_def)

lemma dec_val_append: "dec_val (s @ t) = dec_val s * 10 ^ length t + dec_val t"
proof (induction t rule: rev_induct)
  case (snoc c t)
  have "dec_val (s @ t @ [c]) = 10 * dec_val (s @ t) + digit_val c"
    using dec_val_snoc [of "s @ t" c] by simp
  then show ?case using snoc by (simp add: algebra_simps)
qed simp

lemma dec_val_Cons: "dec_val (c # s) = digit_val c * 10 ^ length s + dec_val s"
  using dec_val_append [of "[c]" s] by (simp add: dec_val_def)

lemma digit_val_0 [simp]: "digit_val (CHR ''0'') = 0"
  by (simp add: digit_val_def)

lemma dec_val_zeros [simp]: "dec_val (replicate n (CHR ''0'')) = 0"
  by (induction n) (simp_all add: dec_val_Cons)

lemma dec_val_dropWhile_0 [simp]: "dec_val (dropWhile (\<lambda>x. x = CHR ''0'') s) = dec_val s"
  by (induction s) (simp_all add: dec_val_Cons)

lemma dec_val_bound: "all_digits s \<Longrightarrow> dec_val s < 10 ^ length s"
proof (induction s rule: rev_induct)
  case (snoc c s)
  then have "dec_val s + 1 \<le> 10 ^ length s" and "digit_val c < 10"
    by (simp_all add: digit_val_less)
  then have "10 * dec_val s + digit_val c < 10 * 10 ^ length s" by linarith
  then show ?case by simp
qed simp

lemma nat_to_dec_ne [simp]: "nat_to_dec n \<noteq> []"
  by (subst nat_to_dec.simps) simp

lemma all_digits_nat_to_dec [simp]: "all_digits (nat_to_dec n)"
proof (induction n rule: nat_to_dec.induct)
  case (1 n)
  then show ?case by (subst nat_to_dec.simps) (auto simp: all_digits_def)
qed

lemma dec_val_nat_to_dec [simp]: "dec_val (nat_to_dec n) = n"
proof (induction n rule: nat_to_dec.induct)
  case (1 n)
  then show ?case
    by (subst nat_to_dec.simps) (auto simp: dec_val_Cons)
qed

lemma nat_to_dec_inj: "nat_to_dec m = nat_to_dec n \<longleftrightarrow> m = n"
  by (metis dec_val_nat_to_dec)

lemma hd_nat_to_dec: "0 < n \<Longrightarrow> hd (nat_to_dec n) \<noteq> CHR ''0''"
proof (induction n rule: nat_to_dec.induct)
  case (1 n)
  show ?case
  proof (cases "n < 10")
    case True
    have "digit_char n \<noteq> CHR ''0''"
      using \<open>n < 10\<close> \<open>0 < n\<close> digit_val_digit_char [of n] by force
    then show ?thesis using True by (subst nat_to_dec.simps) simp
  next
    case False
    then have "hd (nat_to_dec (n div 10)) \<noteq> CHR ''0''" using "1.IH" by simp
    then show ?thesis using False by (subst nat_to_dec.simps) simp
  qed
qed

lemma length_nat_to_dec_le: "n < 10 ^ k \<Longrightarrow> 0 < k \<Longrightarrow> length (nat_to_dec n) \<le> k"
proof (induction k arbitrary: n)
  case (Suc k)
  show ?case
  proof (cases "n < 10")
    case True
    then show ?thesis by (subst nat_to_dec.simps) simp
  next
    case False
    then have "n div 10 < 10 ^ k" using Suc.prems by (simp add: less_mult_imp_div_less mult.commute)
    moreover have "0 < k" using False Suc.prems by (cases k) auto
    ultimately have "length (nat_to_dec (n div 10)) \<le> k" by (rule Suc.IH)
    then show ?thesis using False by (subst nat_to_dec.simps) simp
  qed
qed simp

lemma big_SetString_digits:
  "s \<noteq> [] \<Longrightarrow> all_digits s \<Longrightarrow> big_SetString s = Some (int (dec_val s))"
  by (cases s) (auto simp: big_SetString_def)

section \<open>Time\<close>

type_synonym time = int

definition second :: int where "second = 1000000000"
definition minute :: int where "minute = 60 * second"
definition hour :: int where "hour = 60 * minute"

text \<open>\<open>time.Time{}\<close>: 1 January of the year 1, 00:00 UTC.\<close>

definition zero_time :: time where "zero_time = - 62135596800 * second"

definition IsZero :: "time \<Rightarrow> bool" where "IsZero t \<longleftrightarrow> t = zero_time"

lemmas duration_defs = second_def minute_def hour_def

section \<open>Tables of rows\<close>

text \<open>
  \<open>SELECT * ... WHERE p\<close> as a \<open>:one\<close> query reads the first row; as a \<open>:many\<close> query all of them.
  \<open>UPDATE ... SET f WHERE p RETURNING *\<close> rewrites every row that matches and returns the first.
\<close>

definition upd_where :: "('r \<Rightarrow> bool) \<Rightarrow> ('r \<Rightarrow> 'r) \<Rightarrow> 'r list \<Rightarrow> 'r list" where
  "upd_where p f rs = map (\<lambda>r. if p r then f r else r) rs"

definition pk_unique :: "('r \<Rightarrow> 'k) \<Rightarrow> 'r list \<Rightarrow> bool" where
  "pk_unique key rs \<longleftrightarrow> distinct (map key rs)"

lemma length_upd_where [simp]: "length (upd_where p f rs) = length rs"
  by (simp add: upd_where_def)

lemma upd_where_Nil [simp]: "upd_where p f [] = []"
  by (simp add: upd_where_def)

lemma upd_where_Cons [simp]:
  "upd_where p f (r # rs) = (if p r then f r else r) # upd_where p f rs"
  by (simp add: upd_where_def)

lemma set_upd_where: "set (upd_where p f rs) = (\<lambda>r. if p r then f r else r) ` set rs"
  by (simp add: upd_where_def)

lemma upd_where_no_match: "\<forall>r \<in> set rs. \<not> p r \<Longrightarrow> upd_where p f rs = rs"
  by (induction rs) auto

lemma find_Some_D: "List.find p rs = Some r \<Longrightarrow> r \<in> set rs \<and> p r"
  by (auto simp: find_Some_iff)

lemma find_None_D: "List.find p rs = None \<Longrightarrow> r \<in> set rs \<Longrightarrow> \<not> p r"
  by (auto simp: find_None_iff)

lemma find_append:
  "List.find p (xs @ ys) = (case List.find p xs of None \<Rightarrow> List.find p ys | Some x \<Rightarrow> Some x)"
  by (induction xs) auto

lemma pk_unique_find:
  assumes "pk_unique key rs" and "r \<in> set rs"
  shows "List.find (\<lambda>x. key x = key r) rs = Some r"
  using assms by (induction rs) (auto simp: pk_unique_def)

lemma pk_unique_same:
  "pk_unique key rs \<Longrightarrow> r \<in> set rs \<Longrightarrow> r' \<in> set rs \<Longrightarrow> key r = key r' \<Longrightarrow> r = r'"
  by (metis option.inject pk_unique_find)

lemma pk_unique_snoc [simp]:
  "pk_unique key (rs @ [r]) \<longleftrightarrow> pk_unique key rs \<and> key r \<notin> key ` set rs"
  by (auto simp: pk_unique_def)

text \<open>
  The contract of an \<open>UPDATE\<close>: it leaves the primary key alone. Every update statement of the
  schema is shown to satisfy it, and gets the lookup-after-update laws from here.
\<close>

locale row_update =
  fixes key :: "'r \<Rightarrow> 'k" and upd :: "'r \<Rightarrow> 'r"
  assumes key_upd: "key (upd r) = key r"
begin

lemma map_key_upd_where: "map key (upd_where p upd rs) = map key rs"
  by (induction rs) (simp_all add: key_upd)

lemma pk_unique_upd_where: "pk_unique key (upd_where p upd rs) \<longleftrightarrow> pk_unique key rs"
  by (simp add: pk_unique_def map_key_upd_where)

lemma find_upd_where_other:
  "(\<And>r. p r \<Longrightarrow> key r \<noteq> k) \<Longrightarrow>
   List.find (\<lambda>r. key r = k) (upd_where p upd rs) = List.find (\<lambda>r. key r = k) rs"
  by (induction rs) (auto simp: key_upd)

lemma find_upd_where_key:
  "List.find (\<lambda>r. key r = k) (upd_where (\<lambda>r. key r = k) upd rs) =
   map_option upd (List.find (\<lambda>r. key r = k) rs)"
  by (induction rs) (auto simp: key_upd)

lemma find_upd_where_guarded:
  "List.find (\<lambda>r. key r = k) (upd_where (\<lambda>r. key r = k \<and> g r) upd rs) =
   map_option (\<lambda>r. if g r then upd r else r) (List.find (\<lambda>r. key r = k) rs)"
  by (induction rs) (auto simp: key_upd)

end

end
