(* ===== verification/Schema.thy ===== *)
theory Schema
  imports Prelude
begin

text \<open>
  The rows of the database (\<open>internal/db/sqlcgen/models.go\<close>), the tables, and the constraints of
  \<open>internal/db/migrations\<close>. A nullable column is an \<open>option\<close>; a \<open>JSONB\<close> column is JSON at
  the level of values. A table lists its rows in insertion order. A failing statement leaves the
  database as it was and returns a \<open>db_error\<close>.
\<close>

section \<open>Column types\<close>

type_synonym bytes = string

text \<open>
  \<open>pgtype.Numeric\<close> (package pgx): the value \<open>Int * 10 ^ Exp\<close>, or one of the special values a
  \<open>NUMERIC\<close> column can hold. SQL \<open>NULL\<close> (\<open>Valid = false\<close>) is \<open>None\<close> of \<open>numeric option\<close>.
\<close>

datatype numeric = Numeric int int | NumericNaN | NumericInf bool

datatype json =
  JNull | JBool bool | JNum string | JStr string | JArr "json list" | JObj "(string \<times> json) list"

text \<open>What a Go \<open>[]byte\<close> holds when it is read as JSON: nothing, malformed text, or a value.\<close>

datatype jsonb = JEmpty | JBad | JVal json

definition empty_object :: jsonb where "empty_object = JVal (JObj [])"
definition empty_array :: jsonb where "empty_array = JVal (JArr [])"

text \<open>
  \<open>json.Unmarshal\<close> into \<open>[]string\<close>: an array of strings, a \<open>null\<close> element leaves the zero value
  \<open>""\<close>; \<open>null\<close> itself gives the nil slice; anything else is an error. \<open>json.Marshal\<close> of a
  \<open>[]string\<close> (a nil slice marshals to \<open>null\<close>, which is left to the callers).
\<close>

fun json_string :: "json \<Rightarrow> string option" where
  "json_string (JStr s) = Some s"
| "json_string JNull = Some []"
| "json_string _ = None"

fun unmarshal_strings :: "jsonb \<Rightarrow> string list option" where
  "unmarshal_strings (JVal (JArr js)) = those (map json_string js)"
| "unmarshal_strings (JVal JNull) = Some []"
| "unmarshal_strings _ = None"

definition marshal_strings :: "string list \<Rightarrow> jsonb" where
  "marshal_strings ss = JVal (JArr (map JStr ss))"

lemma those_map_Some: "those (map (\<lambda>s. Some (f s)) ss) = Some (map f ss)"
  by (induction ss) simp_all

lemma unmarshal_marshal [simp]: "unmarshal_strings (marshal_strings ss) = Some ss"
  using those_map_Some [of "\<lambda>s. s" ss] by (simp add: marshal_strings_def comp_def)

text \<open>\<open>pgxText\<close> and its copies: the empty string becomes SQL NULL.\<close>

definition pgxText :: "string \<Rightarrow> string option" where
  "pgxText s = (if s = [] then None else Some s)"

lemma pgxText_eq_Some [simp]: "pgxText s = Some t \<longleftrightarrow> s = t \<and> t \<noteq> []"
  by (auto simp: pgxText_def)

text \<open>Reading \<open>.String\<close> of a \<open>pgtype.Text\<close>: the zero value when NULL.\<close>

definition text_String :: "string option \<Rightarrow> string" where
  "text_String t = (case t of None \<Rightarrow> [] | Some s \<Rightarrow> s)"

lemma text_String_pgxText [simp]: "text_String (pgxText s) = s"
  by (simp add: text_String_def pgxText_def)

lemma text_String_Some [simp]: "text_String (Some s) = s"
  by (simp add: text_String_def)

lemma text_String_None [simp]: "text_String None = []"
  by (simp add: text_String_def)

section \<open>Rows\<close>

record ApiKey =
  ak_ID :: string
  ak_TenantID :: string
  ak_CreatedBy :: "string option"
  ak_Name :: string
  ak_Environment :: string
  ak_KeyPrefix :: string
  ak_KeyHash :: bytes
  ak_LastUsedAt :: "time option"
  ak_RevokedAt :: "time option"
  ak_RevokedReason :: "string option"
  ak_CreatedAt :: time

record LimitPolicy =
  lp_ID :: string
  lp_TenantID :: string
  lp_ScopeType :: string
  lp_ScopeID :: "string option"
  lp_PerTxAmount :: "numeric option"
  lp_PerTxAsset :: "string option"
  lp_DailyAmount :: "numeric option"
  lp_WeeklyAmount :: "numeric option"
  lp_MonthlyAmount :: "numeric option"
  lp_PeriodAsset :: string
  lp_Timezone :: string
  lp_ResetDayOfWeek :: int
  lp_ResetDayOfMonth :: int
  lp_AllowedRecipients :: jsonb
  lp_DeniedRecipients :: jsonb
  lp_ExpiresAt :: "time option"
  lp_Enabled :: bool
  lp_Metadata :: jsonb
  lp_CreatedAt :: time
  lp_UpdatedAt :: time

record LimitViolation =
  lv_ID :: int
  lv_TenantID :: string
  lv_PolicyID :: "string option"
  lv_WalletID :: "string option"
  lv_SessionKeyID :: "string option"
  lv_TransactionID :: "string option"
  lv_ViolationType :: string
  lv_AttemptedAmount :: "numeric option"
  lv_AttemptedAsset :: "string option"
  lv_AttemptedRecipient :: "string option"
  lv_LimitValue :: "numeric option"
  lv_CurrentUsed :: "numeric option"
  lv_Metadata :: jsonb
  lv_CreatedAt :: time

record OnrampOrder =
  oo_ID :: string
  oo_TenantID :: string
  oo_WalletID :: string
  oo_GroupID :: string
  oo_Provider :: string
  oo_ProviderOrderID :: "string option"
  oo_CheckoutUrl :: "string option"
  oo_FiatAmount :: string
  oo_FiatCurrency :: string
  oo_Asset :: string
  oo_Chain :: string
  oo_CryptoAmount :: "numeric option"
  oo_Status :: string
  oo_InitiatedByApikey :: "string option"
  oo_IdempotencyKey :: "string option"
  oo_ErrorCode :: "string option"
  oo_ErrorMessage :: "string option"
  oo_Metadata :: jsonb
  oo_CreatedAt :: time
  oo_UpdatedAt :: time
  oo_ExpiresAt :: "time option"
  oo_CompletedAt :: "time option"

record SessionKey =
  sk_ID :: string
  sk_TenantID :: string
  sk_WalletID :: string
  sk_GroupID :: string
  sk_Name :: string
  sk_PublicAddress :: string
  sk_EncryptedPrivKey :: bytes
  sk_KeyVersion :: int
  sk_PolicyID :: "string option"
  sk_RotationMode :: string
  sk_RotationIntervalS :: int
  sk_NextRotationAt :: "time option"
  sk_ExpiresAt :: time
  sk_Status :: string
  sk_RevokedReason :: "string option"
  sk_RevokedAt :: "time option"
  sk_RailNative :: bool
  sk_OnChainTxHash :: "string option"
  sk_Metadata :: jsonb
  sk_CreatedAt :: time
  sk_UpdatedAt :: time

record Tenant =
  tn_ID :: string
  tn_Name :: string
  tn_PrimaryEmail :: string
  tn_Plan :: string
  tn_Status :: string
  tn_Metadata :: jsonb
  tn_CreatedAt :: time
  tn_UpdatedAt :: time

record Transaction =
  tx_ID :: string
  tx_TenantID :: string
  tx_WalletID :: string
  tx_GroupID :: string
  tx_Rail :: string
  tx_Chain :: string
  tx_Direction :: string
  tx_Counterparty :: string
  tx_Amount :: string
  tx_Asset :: string
  tx_AmountUsd :: "numeric option"
  tx_Status :: string
  tx_TxHash :: "string option"
  tx_BlockNumber :: "int option"
  tx_ProviderTxID :: "string option"
  tx_SessionKeyID :: "string option"
  tx_InitiatedByUser :: "string option"
  tx_InitiatedByApikey :: "string option"
  tx_IdempotencyKey :: "string option"
  tx_ErrorCode :: "string option"
  tx_ErrorMessage :: "string option"
  tx_Metadata :: jsonb
  tx_CreatedAt :: time
  tx_UpdatedAt :: time
  tx_BroadcastAt :: "time option"
  tx_ConfirmedAt :: "time option"

record UsageCounter =
  uc_PolicyID :: string
  uc_PeriodKey :: string
  uc_UsedAmount :: string
  uc_UsedAsset :: string
  uc_LastTxID :: "string option"
  uc_FlushedAt :: time

record User =
  us_ID :: string
  us_TenantID :: string
  us_Email :: string
  us_PasswordHash :: string
  us_Role :: string
  us_EmailVerified :: bool
  us_LastLoginAt :: "time option"
  us_CreatedAt :: time
  us_UpdatedAt :: time

record VirtualAddress =
  va_ID :: string
  va_TenantID :: string
  va_WalletID :: string
  va_GroupID :: string
  va_Label :: string
  va_Address :: string
  va_RegistrationTxHash :: "string option"
  va_Metadata :: jsonb
  va_CreatedAt :: time

record Wallet =
  wl_ID :: string
  wl_GroupID :: string
  wl_TenantID :: string
  wl_Rail :: string
  wl_Chain :: string
  wl_Address :: string
  wl_ProviderLocator :: string
  wl_Custody :: string
  wl_EncryptedPrivateKey :: "bytes option"
  wl_KeyVersion :: "int option"
  wl_Status :: string
  wl_Metadata :: jsonb
  wl_CreatedAt :: time
  wl_UpdatedAt :: time

record WalletGroup =
  wg_ID :: string
  wg_TenantID :: string
  wg_OwnerType :: string
  wg_OwnerRef :: string
  wg_ParentGroupID :: "string option"
  wg_Custody :: string
  wg_DisplayName :: "string option"
  wg_Metadata :: jsonb
  wg_CreatedAt :: time
  wg_UpdatedAt :: time
  wg_DeletedAt :: "time option"

record WebhookEndpoint =
  we_ID :: string
  we_TenantID :: string
  we_Url :: string
  we_Secret :: bytes
  we_SecretVersion :: int
  we_SubscribedEvents :: jsonb
  we_Status :: string
  we_Description :: "string option"
  we_LastSuccessAt :: "time option"
  we_LastFailureAt :: "time option"
  we_ConsecutiveFailures :: int
  we_Metadata :: jsonb
  we_CreatedAt :: time
  we_UpdatedAt :: time

record WebhookEvent =
  ev_ID :: string
  ev_TenantID :: string
  ev_EndpointID :: "string option"
  ev_EventType :: string
  ev_EventData :: jsonb
  ev_RelatedWalletID :: "string option"
  ev_RelatedGroupID :: "string option"
  ev_RelatedTransactionID :: "string option"
  ev_RelatedOnrampOrderID :: "string option"
  ev_RelatedSessionKeyID :: "string option"
  ev_Status :: string
  ev_Attempts :: int
  ev_NextAttemptAt :: time
  ev_LastResponseCode :: "int option"
  ev_LastResponseBody :: "string option"
  ev_LastError :: "string option"
  ev_DeliveredAt :: "time option"
  ev_SignatureVersion :: "int option"
  ev_Metadata :: jsonb
  ev_CreatedAt :: time
  ev_UpdatedAt :: time
section \<open>Tables and errors\<close>

record db =
  tenants :: "Tenant list"
  users :: "User list"
  api_keys :: "ApiKey list"
  wallet_groups :: "WalletGroup list"
  wallets :: "Wallet list"
  transactions :: "Transaction list"
  onramp_orders :: "OnrampOrder list"
  limit_policies :: "LimitPolicy list"
  session_keys :: "SessionKey list"
  limit_violations :: "LimitViolation list"
  limit_violations_seq :: int
  webhook_endpoints :: "WebhookEndpoint list"
  webhook_events :: "WebhookEvent list"
  virtual_addresses :: "VirtualAddress list"

definition empty_db :: db where
  "empty_db = \<lparr> tenants = [], users = [], api_keys = [], wallet_groups = [], wallets = [],
     transactions = [], onramp_orders = [], limit_policies = [], session_keys = [],
     limit_violations = [], limit_violations_seq = 1, webhook_endpoints = [], webhook_events = [],
     virtual_addresses = [] \<rparr>"

text \<open>
  \<open>NoRows\<close> is \<open>pgx.ErrNoRows\<close>; the three constraint errors are the SQLSTATE classes 23505, 23514
  and 23503; \<open>BadInput\<close> is a value a column cannot hold (22P02, 22003); \<open>ConnError\<close> any failure
  of the connection.
\<close>

datatype db_error = NoRows | UniqueViolation | CheckViolation | ForeignKeyViolation | BadInput | ConnError

type_synonym 'a query_result = "db_error + 'a"

section \<open>Constraints\<close>

definition exists_row :: "('r \<Rightarrow> 'k) \<Rightarrow> 'k \<Rightarrow> 'r list \<Rightarrow> bool" where
  "exists_row key k rs \<longleftrightarrow> list_ex (\<lambda>r. key r = k) rs"

text \<open>A nullable foreign key.\<close>

definition fk_opt :: "('r \<Rightarrow> string) \<Rightarrow> string option \<Rightarrow> 'r list \<Rightarrow> bool" where
  "fk_opt key k rs \<longleftrightarrow> (case k of None \<Rightarrow> True | Some s \<Rightarrow> exists_row key s rs)"

definition json_ok :: "jsonb \<Rightarrow> bool" where
  "json_ok j \<longleftrightarrow> (case j of JVal _ \<Rightarrow> True | _ \<Rightarrow> False)"

lemma json_ok_simps [simp]:
  "json_ok (JVal v)" "\<not> json_ok JEmpty" "\<not> json_ok JBad" "json_ok empty_object" "json_ok empty_array"
  "json_ok (marshal_strings ss)"
  by (simp_all add: json_ok_def empty_object_def empty_array_def marshal_strings_def)

definition wallet_check :: "Wallet \<Rightarrow> bool" where
  "wallet_check w \<longleftrightarrow>
     wl_Rail w \<in> {''crossmint'', ''tempo'', ''loka-ln''} \<and>
     wl_Custody w \<in> {''platform'', ''user'', ''mpc''} \<and>
     wl_Status w \<in> {''active'', ''frozen'', ''deleted''} \<and>
     ((wl_Custody w = ''platform'' \<and> wl_Rail w = ''tempo'' \<and> wl_EncryptedPrivateKey w \<noteq> None)
      \<or> wl_EncryptedPrivateKey w = None)"

definition wallet_group_check :: "WalletGroup \<Rightarrow> bool" where
  "wallet_group_check g \<longleftrightarrow>
     wg_OwnerType g \<in> {''user'', ''agent'', ''merchant'', ''treasury''} \<and>
     wg_Custody g \<in> {''platform'', ''user'', ''mpc''}"

definition tx_statuses :: "string set" where
  "tx_statuses = {''prepared'', ''pending'', ''broadcast'', ''succeeded'', ''failed'', ''cancelled''}"

definition transaction_check :: "Transaction \<Rightarrow> bool" where
  "transaction_check t \<longleftrightarrow>
     tx_Direction t \<in> {''outbound'', ''inbound'', ''internal''} \<and> tx_Status t \<in> tx_statuses"

definition onramp_check :: "OnrampOrder \<Rightarrow> bool" where
  "onramp_check r \<longleftrightarrow> oo_Status r \<in>
     {''pending'', ''checkout_opened'', ''paid'', ''delivering'', ''completed'', ''failed'', ''expired''}"

definition policy_check :: "LimitPolicy \<Rightarrow> bool" where
  "policy_check p \<longleftrightarrow>
     lp_ScopeType p \<in> {''tenant_default'', ''wallet_group'', ''wallet'', ''session_key''} \<and>
     (lp_ScopeType p = ''tenant_default'' \<longleftrightarrow> lp_ScopeID p = None) \<and>
     1 \<le> lp_ResetDayOfWeek p \<and> lp_ResetDayOfWeek p \<le> 7 \<and>
     1 \<le> lp_ResetDayOfMonth p \<and> lp_ResetDayOfMonth p \<le> 28"

definition session_key_statuses :: "string set" where
  "session_key_statuses = {''pending_authorize'', ''active'', ''rotating'', ''expired'', ''revoked''}"

definition session_key_check :: "SessionKey \<Rightarrow> bool" where
  "session_key_check k \<longleftrightarrow>
     sk_RotationMode k \<in> {''auto_rotate'', ''notify_only'', ''hard_expire''} \<and>
     sk_Status k \<in> session_key_statuses"

definition violation_check :: "LimitViolation \<Rightarrow> bool" where
  "violation_check v \<longleftrightarrow> lv_ViolationType v \<in>
     {''per_tx_exceeded'', ''daily_exceeded'', ''weekly_exceeded'', ''monthly_exceeded'',
      ''recipient_denied'', ''recipient_not_allowlisted'', ''policy_expired'', ''session_key_expired''}"

definition endpoint_check :: "WebhookEndpoint \<Rightarrow> bool" where
  "endpoint_check e \<longleftrightarrow> we_Status e \<in> {''active'', ''paused'', ''deleted''}"

definition event_check :: "WebhookEvent \<Rightarrow> bool" where
  "event_check e \<longleftrightarrow> ev_Status e \<in> {''pending'', ''delivering'', ''delivered'', ''failed'', ''dead''}"

text \<open>The partial unique index on enabled tenant defaults.\<close>

definition is_tenant_default :: "string \<Rightarrow> LimitPolicy \<Rightarrow> bool" where
  "is_tenant_default tid p \<longleftrightarrow>
     lp_TenantID p = tid \<and> lp_ScopeType p = ''tenant_default'' \<and> lp_Enabled p"

section \<open>Statements\<close>

text \<open>\<open>SELECT ... :one\<close>, \<open>ORDER BY c DESC\<close>, \<open>LIMIT n OFFSET m\<close>, \<open>INSERT ... RETURNING *\<close>.\<close>

definition select_one :: "('r \<Rightarrow> bool) \<Rightarrow> 'r list \<Rightarrow> 'r query_result" where
  "select_one p rs = (case List.find p rs of None \<Rightarrow> Inl NoRows | Some r \<Rightarrow> Inr r)"

definition order_desc :: "('r \<Rightarrow> int) \<Rightarrow> 'r list \<Rightarrow> 'r list" where
  "order_desc c rs = sort_key (\<lambda>r. - c r) rs"

definition page :: "int \<Rightarrow> int \<Rightarrow> 'r list \<Rightarrow> 'r list" where
  "page lim off rs = take (nat lim) (drop (nat off) rs)"

lemma select_one_Inr: "select_one p rs = Inr r \<longleftrightarrow> List.find p rs = Some r"
  by (auto simp: select_one_def split: option.splits)

lemma select_one_Inl: "select_one p rs = Inl e \<longleftrightarrow> e = NoRows \<and> List.find p rs = None"
  by (auto simp: select_one_def split: option.splits)

lemma select_one_D: "select_one p rs = Inr r \<Longrightarrow> r \<in> set rs \<and> p r"
  by (simp add: select_one_Inr find_Some_D)

lemma set_order_desc [simp]: "set (order_desc c rs) = set rs"
  by (simp add: order_desc_def)

text \<open>
  The call of a query from Go: the environment may fail it (\<open>Some e\<close>), in which case nothing is
  written.
\<close>

definition db_read :: "db_error option \<Rightarrow> 'a query_result \<Rightarrow> 'a query_result" where
  "db_read f r = (case f of Some e \<Rightarrow> Inl e | None \<Rightarrow> r)"

definition db_write :: "db_error option \<Rightarrow> 'd \<Rightarrow> 'a query_result \<times> 'd \<Rightarrow> 'a query_result \<times> 'd" where
  "db_write f d r = (case f of Some e \<Rightarrow> (Inl e, d) | None \<Rightarrow> r)"

lemma db_read_simps [simp]: "db_read None r = r" "db_read (Some e) r = Inl e"
  by (simp_all add: db_read_def)

lemma db_write_simps [simp]: "db_write None d r = r" "db_write (Some e) d r = (Inl e, d)"
  by (simp_all add: db_write_def)

lemma db_read_Inr: "db_read f r = Inr x \<longleftrightarrow> f = None \<and> r = Inr x"
  by (cases f) simp_all

end
