(* ===== verification/Queries.thy ===== *)
theory Queries
  imports Schema
begin

text \<open>
  The queries of \<open>internal/db/sqlcgen\<close> that the gateway calls, one definition per query, written
  from the SQL text (\<open>internal/db/queries\<close>) and the constraints of the migrations. \<open>now\<close> is
  the value of \<open>NOW()\<close>. An \<open>INSERT\<close> takes the row to be inserted and overwrites the columns the
  statement does not set with their defaults. Rows that tie under an \<open>ORDER BY\<close> keep their insertion
  order. What PostgreSQL and pgx make of a \<open>NUMERIC(38, 18)\<close> column is not code of the repository:
  it is the parameter \<open>pg_driver\<close>.
\<close>

record pg_driver =
  pg_numeric_text :: "string \<Rightarrow> string option" \<comment> \<open>text written to a NUMERIC column, as read back\<close>
  pg_numeric_col :: "numeric \<Rightarrow> numeric option" \<comment> \<open>pgtype.Numeric written to a column, as read back\<close>

definition store_numeric :: "pg_driver \<Rightarrow> numeric option \<Rightarrow> numeric option option" where
  "store_numeric pg n = (case n of None \<Rightarrow> Some None | Some x \<Rightarrow> map_option Some (pg_numeric_col pg x))"

lemma store_numeric_None [simp]: "store_numeric pg None = Some None"
  by (simp add: store_numeric_def)

section \<open>Update statements\<close>

text \<open>
  \<open>UPDATE t SET f WHERE p RETURNING *\<close> read as \<open>:one\<close>: no row is \<open>NoRows\<close>; a new row that breaks a
  \<open>CHECK\<close> fails the statement. \<open>:exec\<close> statements do not report the missing row.
\<close>

definition update_one :: "('r \<Rightarrow> bool) \<Rightarrow> ('r \<Rightarrow> bool) \<Rightarrow> ('r \<Rightarrow> 'r) \<Rightarrow> 'r list \<Rightarrow> 'r query_result \<times> 'r list" where
  "update_one chk p f rs =
     (case List.find p rs of
        None \<Rightarrow> (Inl NoRows, rs)
      | Some r \<Rightarrow> if list_ex (\<lambda>r. p r \<and> \<not> chk (f r)) rs then (Inl CheckViolation, rs)
                  else (Inr (f r), upd_where p f rs))"

lemma update_one_Inl: "update_one chk p f rs = (Inl e, rs') \<Longrightarrow> rs' = rs"
  by (auto simp: update_one_def split: option.splits if_splits)

lemma update_one_Inr:
  "update_one chk p f rs = (Inr r', rs') \<longleftrightarrow>
   (\<exists>r. List.find p rs = Some r \<and> r' = f r \<and> rs' = upd_where p f rs \<and> (\<forall>x \<in> set rs. p x \<longrightarrow> chk (f x)))"
  by (auto simp: update_one_def list_ex_iff split: option.splits if_splits)

section \<open>tenants, users, api\_keys\<close>

definition CreateTenant :: "time \<Rightarrow> Tenant \<Rightarrow> db \<Rightarrow> Tenant query_result \<times> db" where
  "CreateTenant now a d =
     (let r = a\<lparr>tn_CreatedAt := now, tn_UpdatedAt := now\<rparr> in
      if \<not> json_ok (tn_Metadata r) then (Inl BadInput, d)
      else if exists_row tn_ID (tn_ID r) (tenants d)
           \<or> exists_row tn_PrimaryEmail (tn_PrimaryEmail r) (tenants d) then (Inl UniqueViolation, d)
      else (Inr r, d\<lparr>tenants := tenants d @ [r]\<rparr>))"

definition GetTenantByID :: "string \<Rightarrow> db \<Rightarrow> Tenant query_result" where
  "GetTenantByID i d = select_one (\<lambda>r. tn_ID r = i) (tenants d)"

definition CreateUser :: "time \<Rightarrow> User \<Rightarrow> db \<Rightarrow> User query_result \<times> db" where
  "CreateUser now a d =
     (let r = a\<lparr>us_EmailVerified := False, us_LastLoginAt := None, us_CreatedAt := now, us_UpdatedAt := now\<rparr> in
      if exists_row us_ID (us_ID r) (users d)
         \<or> exists_row (\<lambda>u. (us_TenantID u, us_Email u)) (us_TenantID r, us_Email r) (users d)
      then (Inl UniqueViolation, d)
      else if \<not> exists_row tn_ID (us_TenantID r) (tenants d) then (Inl ForeignKeyViolation, d)
      else (Inr r, d\<lparr>users := users d @ [r]\<rparr>))"

definition GetUserByID :: "string \<Rightarrow> db \<Rightarrow> User query_result" where
  "GetUserByID i d = select_one (\<lambda>r. us_ID r = i) (users d)"

definition GetUserByEmail :: "string \<Rightarrow> db \<Rightarrow> User list" where
  "GetUserByEmail em d = sort_key us_CreatedAt (filter (\<lambda>r. us_Email r = em) (users d))"

definition touch_user_login :: "time \<Rightarrow> User \<Rightarrow> User" where
  "touch_user_login now r = r\<lparr>us_LastLoginAt := Some now, us_UpdatedAt := now\<rparr>"

definition TouchUserLogin :: "time \<Rightarrow> string \<Rightarrow> db \<Rightarrow> db" where
  "TouchUserLogin now i d = d\<lparr>users := upd_where (\<lambda>r. us_ID r = i) (touch_user_login now) (users d)\<rparr>"

definition CreateAPIKey :: "time \<Rightarrow> ApiKey \<Rightarrow> db \<Rightarrow> ApiKey query_result \<times> db" where
  "CreateAPIKey now a d =
     (let r = a\<lparr>ak_LastUsedAt := None, ak_RevokedAt := None, ak_RevokedReason := None, ak_CreatedAt := now\<rparr> in
      if ak_Environment r \<notin> {''test'', ''live''} then (Inl CheckViolation, d)
      else if exists_row ak_ID (ak_ID r) (api_keys d) \<or> exists_row ak_KeyHash (ak_KeyHash r) (api_keys d)
      then (Inl UniqueViolation, d)
      else if \<not> exists_row tn_ID (ak_TenantID r) (tenants d) \<or> \<not> fk_opt us_ID (ak_CreatedBy r) (users d)
      then (Inl ForeignKeyViolation, d)
      else (Inr r, d\<lparr>api_keys := api_keys d @ [r]\<rparr>))"

definition GetAPIKeyByID :: "string \<Rightarrow> db \<Rightarrow> ApiKey query_result" where
  "GetAPIKeyByID i d = select_one (\<lambda>r. ak_ID r = i) (api_keys d)"

definition GetAPIKeyByHash :: "bytes \<Rightarrow> db \<Rightarrow> ApiKey query_result" where
  "GetAPIKeyByHash h d = select_one (\<lambda>r. ak_KeyHash r = h \<and> ak_RevokedAt r = None) (api_keys d)"

definition touch_api_key :: "time \<Rightarrow> ApiKey \<Rightarrow> ApiKey" where
  "touch_api_key now r = r\<lparr>ak_LastUsedAt := Some now\<rparr>"

definition TouchAPIKeyUsage :: "time \<Rightarrow> string \<Rightarrow> db \<Rightarrow> db" where
  "TouchAPIKeyUsage now i d = d\<lparr>api_keys := upd_where (\<lambda>r. ak_ID r = i) (touch_api_key now) (api_keys d)\<rparr>"

definition ListAPIKeysInTenant :: "string \<Rightarrow> db \<Rightarrow> ApiKey list" where
  "ListAPIKeysInTenant t d = order_desc ak_CreatedAt (filter (\<lambda>r. ak_TenantID r = t) (api_keys d))"

definition revoke_api_key :: "time \<Rightarrow> string option \<Rightarrow> ApiKey \<Rightarrow> ApiKey" where
  "revoke_api_key now reason r = r\<lparr>ak_RevokedAt := Some now, ak_RevokedReason := reason\<rparr>"

definition RevokeAPIKey :: "time \<Rightarrow> string \<Rightarrow> string option \<Rightarrow> db \<Rightarrow> ApiKey query_result \<times> db" where
  "RevokeAPIKey now i reason d =
     (case update_one (\<lambda>_. True) (\<lambda>r. ak_ID r = i \<and> ak_RevokedAt r = None) (revoke_api_key now reason) (api_keys d)
      of (res, rs) \<Rightarrow> (res, d\<lparr>api_keys := rs\<rparr>))"

section \<open>wallet\_groups, wallets\<close>

definition CreateWalletGroup :: "time \<Rightarrow> WalletGroup \<Rightarrow> db \<Rightarrow> WalletGroup query_result \<times> db" where
  "CreateWalletGroup now a d =
     (let r = a\<lparr>wg_CreatedAt := now, wg_UpdatedAt := now, wg_DeletedAt := None\<rparr> in
      if \<not> json_ok (wg_Metadata r) then (Inl BadInput, d)
      else if \<not> wallet_group_check r then (Inl CheckViolation, d)
      else if exists_row wg_ID (wg_ID r) (wallet_groups d)
              \<or> exists_row (\<lambda>g. (wg_TenantID g, wg_OwnerRef g)) (wg_TenantID r, wg_OwnerRef r) (wallet_groups d)
      then (Inl UniqueViolation, d)
      else if \<not> exists_row tn_ID (wg_TenantID r) (tenants d) \<or> \<not> fk_opt wg_ID (wg_ParentGroupID r) (wallet_groups d)
      then (Inl ForeignKeyViolation, d)
      else (Inr r, d\<lparr>wallet_groups := wallet_groups d @ [r]\<rparr>))"

definition GetWalletGroupByID :: "string \<Rightarrow> db \<Rightarrow> WalletGroup query_result" where
  "GetWalletGroupByID i d = select_one (\<lambda>r. wg_ID r = i \<and> wg_DeletedAt r = None) (wallet_groups d)"

definition GetWalletGroupByOwnerRef :: "string \<Rightarrow> string \<Rightarrow> db \<Rightarrow> WalletGroup query_result" where
  "GetWalletGroupByOwnerRef t ref d =
     select_one (\<lambda>r. wg_TenantID r = t \<and> wg_OwnerRef r = ref \<and> wg_DeletedAt r = None) (wallet_groups d)"

definition ListWalletGroupsInTenant :: "string \<Rightarrow> int \<Rightarrow> int \<Rightarrow> db \<Rightarrow> WalletGroup list" where
  "ListWalletGroupsInTenant t lim off d =
     page lim off (order_desc wg_CreatedAt (filter (\<lambda>r. wg_TenantID r = t \<and> wg_DeletedAt r = None) (wallet_groups d)))"

definition CreateWallet :: "time \<Rightarrow> Wallet \<Rightarrow> db \<Rightarrow> Wallet query_result \<times> db" where
  "CreateWallet now a d =
     (let r = a\<lparr>wl_CreatedAt := now, wl_UpdatedAt := now\<rparr> in
      if \<not> json_ok (wl_Metadata r) then (Inl BadInput, d)
      else if \<not> wallet_check r then (Inl CheckViolation, d)
      else if exists_row wl_ID (wl_ID r) (wallets d)
              \<or> exists_row (\<lambda>w. (wl_GroupID w, wl_Rail w, wl_Chain w)) (wl_GroupID r, wl_Rail r, wl_Chain r) (wallets d)
      then (Inl UniqueViolation, d)
      else if \<not> exists_row wg_ID (wl_GroupID r) (wallet_groups d) \<or> \<not> exists_row tn_ID (wl_TenantID r) (tenants d)
      then (Inl ForeignKeyViolation, d)
      else (Inr r, d\<lparr>wallets := wallets d @ [r]\<rparr>))"

definition GetWalletByID :: "string \<Rightarrow> db \<Rightarrow> Wallet query_result" where
  "GetWalletByID i d = select_one (\<lambda>r. wl_ID r = i \<and> wl_Status r \<noteq> ''deleted'') (wallets d)"

definition GetWalletByGroupAndRail :: "string \<Rightarrow> string \<Rightarrow> db \<Rightarrow> Wallet query_result" where
  "GetWalletByGroupAndRail g rail d =
     select_one (\<lambda>r. wl_GroupID r = g \<and> wl_Rail r = rail \<and> wl_Status r = ''active'') (wallets d)"

definition rail_rank :: "string \<Rightarrow> int" where
  "rail_rank r = (if r = ''crossmint'' then 1 else if r = ''tempo'' then 2 else if r = ''loka-ln'' then 3 else 99)"

definition ListWalletsByGroup :: "string \<Rightarrow> db \<Rightarrow> Wallet list" where
  "ListWalletsByGroup g d =
     sort_key (\<lambda>r. rail_rank (wl_Rail r)) (filter (\<lambda>r. wl_GroupID r = g \<and> wl_Status r \<noteq> ''deleted'') (wallets d))"

section \<open>transactions, onramp\_orders\<close>

definition CreateTransaction :: "pg_driver \<Rightarrow> time \<Rightarrow> Transaction \<Rightarrow> db \<Rightarrow> Transaction query_result \<times> db" where
  "CreateTransaction pg now a d =
     (case (pg_numeric_text pg (tx_Amount a), store_numeric pg (tx_AmountUsd a)) of
        (Some amt, Some usd) \<Rightarrow>
          (let r = a\<lparr>tx_Amount := amt, tx_AmountUsd := usd, tx_BlockNumber := None, tx_ErrorCode := None,
                     tx_ErrorMessage := None, tx_CreatedAt := now, tx_UpdatedAt := now,
                     tx_BroadcastAt := None, tx_ConfirmedAt := None\<rparr> in
           if \<not> json_ok (tx_Metadata r) then (Inl BadInput, d)
           else if \<not> transaction_check r then (Inl CheckViolation, d)
           else if exists_row tx_ID (tx_ID r) (transactions d)
                   \<or> (tx_IdempotencyKey r \<noteq> None
                      \<and> exists_row (\<lambda>t. (tx_TenantID t, tx_IdempotencyKey t)) (tx_TenantID r, tx_IdempotencyKey r)
                          (transactions d))
           then (Inl UniqueViolation, d)
           else if \<not> exists_row tn_ID (tx_TenantID r) (tenants d) \<or> \<not> exists_row wl_ID (tx_WalletID r) (wallets d)
                   \<or> \<not> exists_row wg_ID (tx_GroupID r) (wallet_groups d)
                   \<or> \<not> fk_opt sk_ID (tx_SessionKeyID r) (session_keys d)
                   \<or> \<not> fk_opt us_ID (tx_InitiatedByUser r) (users d)
                   \<or> \<not> fk_opt ak_ID (tx_InitiatedByApikey r) (api_keys d)
           then (Inl ForeignKeyViolation, d)
           else (Inr r, d\<lparr>transactions := transactions d @ [r]\<rparr>))
      | _ \<Rightarrow> (Inl BadInput, d))"

definition GetTransactionByID :: "string \<Rightarrow> db \<Rightarrow> Transaction query_result" where
  "GetTransactionByID i d = select_one (\<lambda>r. tx_ID r = i) (transactions d)"

definition GetTransactionByIdempotencyKey :: "string \<Rightarrow> string option \<Rightarrow> db \<Rightarrow> Transaction query_result" where
  "GetTransactionByIdempotencyKey t k d =
     select_one (\<lambda>r. tx_TenantID r = t \<and> k \<noteq> None \<and> tx_IdempotencyKey r = k) (transactions d)"

definition coalesce :: "'a option \<Rightarrow> 'a option \<Rightarrow> 'a option" where
  "coalesce a b = (case a of None \<Rightarrow> b | Some _ \<Rightarrow> a)"

lemma coalesce_simps [simp]: "coalesce None b = b" "coalesce (Some x) b = Some x"
  by (simp_all add: coalesce_def)

definition set_tx_status :: "time \<Rightarrow> string \<Rightarrow> string option \<Rightarrow> int option \<Rightarrow> Transaction \<Rightarrow> Transaction" where
  "set_tx_status now st h b r =
     r\<lparr>tx_Status := st, tx_TxHash := coalesce h (tx_TxHash r), tx_BlockNumber := coalesce b (tx_BlockNumber r),
       tx_ConfirmedAt := (if st \<in> {''succeeded'', ''failed''} then Some now else tx_ConfirmedAt r),
       tx_UpdatedAt := now\<rparr>"

definition UpdateTransactionStatus ::
    "time \<Rightarrow> string \<Rightarrow> string \<Rightarrow> string option \<Rightarrow> int option \<Rightarrow> db \<Rightarrow> Transaction query_result \<times> db" where
  "UpdateTransactionStatus now i st h b d =
     (case update_one transaction_check (\<lambda>r. tx_ID r = i) (set_tx_status now st h b) (transactions d)
      of (res, rs) \<Rightarrow> (res, d\<lparr>transactions := rs\<rparr>))"

definition CreateOnrampOrder :: "pg_driver \<Rightarrow> time \<Rightarrow> OnrampOrder \<Rightarrow> db \<Rightarrow> OnrampOrder query_result \<times> db" where
  "CreateOnrampOrder pg now a d =
     (case (pg_numeric_text pg (oo_FiatAmount a), store_numeric pg (oo_CryptoAmount a)) of
        (Some amt, Some crypto) \<Rightarrow>
          (let r = a\<lparr>oo_FiatAmount := amt, oo_CryptoAmount := crypto, oo_ErrorCode := None, oo_ErrorMessage := None,
                     oo_CreatedAt := now, oo_UpdatedAt := now, oo_CompletedAt := None\<rparr> in
           if \<not> json_ok (oo_Metadata r) then (Inl BadInput, d)
           else if \<not> onramp_check r then (Inl CheckViolation, d)
           else if exists_row oo_ID (oo_ID r) (onramp_orders d)
                   \<or> (oo_IdempotencyKey r \<noteq> None
                      \<and> exists_row (\<lambda>t. (oo_TenantID t, oo_IdempotencyKey t)) (oo_TenantID r, oo_IdempotencyKey r)
                          (onramp_orders d))
           then (Inl UniqueViolation, d)
           else if \<not> exists_row tn_ID (oo_TenantID r) (tenants d) \<or> \<not> exists_row wl_ID (oo_WalletID r) (wallets d)
                   \<or> \<not> exists_row wg_ID (oo_GroupID r) (wallet_groups d)
                   \<or> \<not> fk_opt ak_ID (oo_InitiatedByApikey r) (api_keys d)
           then (Inl ForeignKeyViolation, d)
           else (Inr r, d\<lparr>onramp_orders := onramp_orders d @ [r]\<rparr>))
      | _ \<Rightarrow> (Inl BadInput, d))"

section \<open>limit\_policies, limit\_violations\<close>

definition CreateLimitPolicy :: "pg_driver \<Rightarrow> time \<Rightarrow> LimitPolicy \<Rightarrow> db \<Rightarrow> LimitPolicy query_result \<times> db" where
  "CreateLimitPolicy pg now a d =
     (case (store_numeric pg (lp_PerTxAmount a), store_numeric pg (lp_DailyAmount a),
            store_numeric pg (lp_WeeklyAmount a), store_numeric pg (lp_MonthlyAmount a)) of
        (Some pt, Some da, Some we, Some mo) \<Rightarrow>
          (let r = a\<lparr>lp_PerTxAmount := pt, lp_DailyAmount := da, lp_WeeklyAmount := we, lp_MonthlyAmount := mo,
                     lp_CreatedAt := now, lp_UpdatedAt := now\<rparr> in
           if \<not> json_ok (lp_AllowedRecipients r) \<or> \<not> json_ok (lp_DeniedRecipients r) \<or> \<not> json_ok (lp_Metadata r)
           then (Inl BadInput, d)
           else if \<not> policy_check r then (Inl CheckViolation, d)
           else if exists_row lp_ID (lp_ID r) (limit_policies d)
                   \<or> (is_tenant_default (lp_TenantID r) r \<and> list_ex (is_tenant_default (lp_TenantID r)) (limit_policies d))
           then (Inl UniqueViolation, d)
           else if \<not> exists_row tn_ID (lp_TenantID r) (tenants d) then (Inl ForeignKeyViolation, d)
           else (Inr r, d\<lparr>limit_policies := limit_policies d @ [r]\<rparr>))
      | _ \<Rightarrow> (Inl BadInput, d))"

definition GetTenantDefaultPolicy :: "string \<Rightarrow> db \<Rightarrow> LimitPolicy query_result" where
  "GetTenantDefaultPolicy t d = select_one (is_tenant_default t) (limit_policies d)"

definition scope_matches :: "string \<Rightarrow> string \<Rightarrow> string option \<Rightarrow> LimitPolicy \<Rightarrow> bool" where
  "scope_matches t ty sid r \<longleftrightarrow>
     lp_TenantID r = t \<and> lp_ScopeType r = ty \<and> sid \<noteq> None \<and> lp_ScopeID r = sid \<and> lp_Enabled r"

definition GetPolicyForScope :: "string \<Rightarrow> string \<Rightarrow> string option \<Rightarrow> db \<Rightarrow> LimitPolicy query_result" where
  "GetPolicyForScope t ty sid d =
     (case order_desc lp_CreatedAt (filter (scope_matches t ty sid) (limit_policies d)) of
        [] \<Rightarrow> Inl NoRows | r # _ \<Rightarrow> Inr r)"

definition disable_policy :: "time \<Rightarrow> LimitPolicy \<Rightarrow> LimitPolicy" where
  "disable_policy now r = r\<lparr>lp_Enabled := False, lp_UpdatedAt := now\<rparr>"

definition DisableLimitPolicy :: "time \<Rightarrow> string \<Rightarrow> db \<Rightarrow> LimitPolicy query_result \<times> db" where
  "DisableLimitPolicy now i d =
     (case update_one (\<lambda>_. True) (\<lambda>r. lp_ID r = i) (disable_policy now) (limit_policies d)
      of (res, rs) \<Rightarrow> (res, d\<lparr>limit_policies := rs\<rparr>))"

definition CreateLimitViolation :: "pg_driver \<Rightarrow> time \<Rightarrow> LimitViolation \<Rightarrow> db \<Rightarrow> LimitViolation query_result \<times> db" where
  "CreateLimitViolation pg now a d0 =
     (let d = d0\<lparr>limit_violations_seq := limit_violations_seq d0 + 1\<rparr> in
      case (store_numeric pg (lv_AttemptedAmount a), store_numeric pg (lv_LimitValue a), store_numeric pg (lv_CurrentUsed a)) of
        (Some am, Some lim, Some used) \<Rightarrow>
          (let r = a\<lparr>lv_ID := limit_violations_seq d0, lv_AttemptedAmount := am, lv_LimitValue := lim,
                     lv_CurrentUsed := used, lv_CreatedAt := now\<rparr> in
           if \<not> json_ok (lv_Metadata r) then (Inl BadInput, d)
           else if \<not> violation_check r then (Inl CheckViolation, d)
           else if \<not> exists_row tn_ID (lv_TenantID r) (tenants d) \<or> \<not> fk_opt lp_ID (lv_PolicyID r) (limit_policies d)
                   \<or> \<not> fk_opt wl_ID (lv_WalletID r) (wallets d) \<or> \<not> fk_opt sk_ID (lv_SessionKeyID r) (session_keys d)
                   \<or> \<not> fk_opt tx_ID (lv_TransactionID r) (transactions d)
           then (Inl ForeignKeyViolation, d)
           else (Inr r, d\<lparr>limit_violations := limit_violations d @ [r]\<rparr>))
      | _ \<Rightarrow> (Inl BadInput, d))"

definition ListLimitViolationsByTenant :: "string \<Rightarrow> int \<Rightarrow> int \<Rightarrow> db \<Rightarrow> LimitViolation list" where
  "ListLimitViolationsByTenant t lim off d =
     page lim off (order_desc lv_CreatedAt (filter (\<lambda>r. lv_TenantID r = t) (limit_violations d)))"

section \<open>session\_keys\<close>

definition CreateSessionKey :: "time \<Rightarrow> SessionKey \<Rightarrow> db \<Rightarrow> SessionKey query_result \<times> db" where
  "CreateSessionKey now a d =
     (let r = a\<lparr>sk_RevokedReason := None, sk_RevokedAt := None, sk_CreatedAt := now, sk_UpdatedAt := now\<rparr> in
      if \<not> json_ok (sk_Metadata r) then (Inl BadInput, d)
      else if \<not> session_key_check r then (Inl CheckViolation, d)
      else if exists_row sk_ID (sk_ID r) (session_keys d) then (Inl UniqueViolation, d)
      else if \<not> exists_row tn_ID (sk_TenantID r) (tenants d) \<or> \<not> exists_row wl_ID (sk_WalletID r) (wallets d)
              \<or> \<not> exists_row wg_ID (sk_GroupID r) (wallet_groups d) \<or> \<not> fk_opt lp_ID (sk_PolicyID r) (limit_policies d)
      then (Inl ForeignKeyViolation, d)
      else (Inr r, d\<lparr>session_keys := session_keys d @ [r]\<rparr>))"

definition GetSessionKeyByID :: "string \<Rightarrow> db \<Rightarrow> SessionKey query_result" where
  "GetSessionKeyByID i d = select_one (\<lambda>r. sk_ID r = i) (session_keys d)"

definition ListSessionKeysForWallet :: "string \<Rightarrow> int \<Rightarrow> int \<Rightarrow> db \<Rightarrow> SessionKey list" where
  "ListSessionKeysForWallet w lim off d =
     page lim off (order_desc sk_CreatedAt (filter (\<lambda>r. sk_WalletID r = w) (session_keys d)))"

definition revoke_session_key :: "time \<Rightarrow> string option \<Rightarrow> SessionKey \<Rightarrow> SessionKey" where
  "revoke_session_key now reason r =
     r\<lparr>sk_Status := ''revoked'', sk_RevokedReason := reason, sk_RevokedAt := Some now, sk_UpdatedAt := now\<rparr>"

definition RevokeSessionKey :: "time \<Rightarrow> string \<Rightarrow> string option \<Rightarrow> db \<Rightarrow> SessionKey query_result \<times> db" where
  "RevokeSessionKey now i reason d =
     (case update_one session_key_check (\<lambda>r. sk_ID r = i \<and> sk_Status r = ''active'') (revoke_session_key now reason)
             (session_keys d)
      of (res, rs) \<Rightarrow> (res, d\<lparr>session_keys := rs\<rparr>))"

definition due_for_rotation :: "time \<Rightarrow> SessionKey \<Rightarrow> bool" where
  "due_for_rotation t r \<longleftrightarrow>
     sk_RotationMode r = ''auto_rotate'' \<and> sk_Status r = ''active''
     \<and> (case sk_NextRotationAt r of None \<Rightarrow> False | Some n \<Rightarrow> n \<le> t)"

definition ListSessionKeysDueForRotation :: "time \<Rightarrow> int \<Rightarrow> db \<Rightarrow> SessionKey list" where
  "ListSessionKeysDueForRotation t lim d =
     take (nat lim) (sort_key (\<lambda>r. the (sk_NextRotationAt r)) (filter (due_for_rotation t) (session_keys d)))"

definition is_expired_key :: "time \<Rightarrow> SessionKey \<Rightarrow> bool" where
  "is_expired_key t r \<longleftrightarrow> sk_Status r \<in> {''active'', ''rotating''} \<and> sk_ExpiresAt r \<le> t"

definition ListExpiredSessionKeys :: "time \<Rightarrow> int \<Rightarrow> db \<Rightarrow> SessionKey list" where
  "ListExpiredSessionKeys t lim d =
     take (nat lim) (sort_key sk_ExpiresAt (filter (is_expired_key t) (session_keys d)))"

definition set_session_key_status :: "time \<Rightarrow> string \<Rightarrow> SessionKey \<Rightarrow> SessionKey" where
  "set_session_key_status now st r = r\<lparr>sk_Status := st, sk_UpdatedAt := now\<rparr>"

definition UpdateSessionKeyStatus :: "time \<Rightarrow> string \<Rightarrow> string \<Rightarrow> db \<Rightarrow> SessionKey query_result \<times> db" where
  "UpdateSessionKeyStatus now i st d =
     (case update_one session_key_check (\<lambda>r. sk_ID r = i) (set_session_key_status now st) (session_keys d)
      of (res, rs) \<Rightarrow> (res, d\<lparr>session_keys := rs\<rparr>))"

section \<open>webhook\_endpoints\<close>

definition CreateWebhookEndpoint :: "time \<Rightarrow> WebhookEndpoint \<Rightarrow> db \<Rightarrow> WebhookEndpoint query_result \<times> db" where
  "CreateWebhookEndpoint now a d =
     (let r = a\<lparr>we_LastSuccessAt := None, we_LastFailureAt := None, we_ConsecutiveFailures := 0,
                we_CreatedAt := now, we_UpdatedAt := now\<rparr> in
      if \<not> json_ok (we_SubscribedEvents r) \<or> \<not> json_ok (we_Metadata r) then (Inl BadInput, d)
      else if \<not> endpoint_check r then (Inl CheckViolation, d)
      else if exists_row we_ID (we_ID r) (webhook_endpoints d) then (Inl UniqueViolation, d)
      else if \<not> exists_row tn_ID (we_TenantID r) (tenants d) then (Inl ForeignKeyViolation, d)
      else (Inr r, d\<lparr>webhook_endpoints := webhook_endpoints d @ [r]\<rparr>))"

definition GetWebhookEndpointByID :: "string \<Rightarrow> db \<Rightarrow> WebhookEndpoint query_result" where
  "GetWebhookEndpointByID i d = select_one (\<lambda>r. we_ID r = i) (webhook_endpoints d)"

definition ListWebhookEndpointsForTenant :: "string \<Rightarrow> int \<Rightarrow> int \<Rightarrow> db \<Rightarrow> WebhookEndpoint list" where
  "ListWebhookEndpointsForTenant t lim off d =
     page lim off (order_desc we_CreatedAt
       (filter (\<lambda>r. we_TenantID r = t \<and> we_Status r \<noteq> ''deleted'') (webhook_endpoints d)))"

definition ListActiveEndpointsForTenant :: "string \<Rightarrow> db \<Rightarrow> WebhookEndpoint list" where
  "ListActiveEndpointsForTenant t d =
     filter (\<lambda>r. we_TenantID r = t \<and> we_Status r = ''active'') (webhook_endpoints d)"

definition update_endpoint ::
    "time \<Rightarrow> string option \<Rightarrow> jsonb option \<Rightarrow> string option \<Rightarrow> string option \<Rightarrow> WebhookEndpoint \<Rightarrow> WebhookEndpoint" where
  "update_endpoint now url evs desc st r =
     r\<lparr>we_Url := (case url of None \<Rightarrow> we_Url r | Some u \<Rightarrow> u),
       we_SubscribedEvents := (case evs of None \<Rightarrow> we_SubscribedEvents r | Some j \<Rightarrow> j),
       we_Description := coalesce desc (we_Description r),
       we_Status := (case st of None \<Rightarrow> we_Status r | Some s \<Rightarrow> s),
       we_UpdatedAt := now\<rparr>"

definition UpdateWebhookEndpoint ::
    "time \<Rightarrow> string \<Rightarrow> string option \<Rightarrow> jsonb option \<Rightarrow> string option \<Rightarrow> string option \<Rightarrow> db
     \<Rightarrow> WebhookEndpoint query_result \<times> db" where
  "UpdateWebhookEndpoint now i url evs desc st d =
     (if (case evs of None \<Rightarrow> False | Some j \<Rightarrow> \<not> json_ok j) then (Inl BadInput, d)
      else (case update_one endpoint_check (\<lambda>r. we_ID r = i) (update_endpoint now url evs desc st) (webhook_endpoints d)
            of (res, rs) \<Rightarrow> (res, d\<lparr>webhook_endpoints := rs\<rparr>)))"

definition rotate_secret :: "time \<Rightarrow> bytes \<Rightarrow> WebhookEndpoint \<Rightarrow> WebhookEndpoint" where
  "rotate_secret now s r = r\<lparr>we_Secret := s, we_SecretVersion := we_SecretVersion r + 1, we_UpdatedAt := now\<rparr>"

text \<open>\<open>secret_version\<close> is a \<open>SMALLINT\<close>: PostgreSQL refuses the increment past 32767.\<close>

definition RotateWebhookEndpointSecret :: "time \<Rightarrow> string \<Rightarrow> bytes \<Rightarrow> db \<Rightarrow> WebhookEndpoint query_result \<times> db" where
  "RotateWebhookEndpointSecret now i s d =
     (if list_ex (\<lambda>r. we_ID r = i \<and> 32767 \<le> we_SecretVersion r) (webhook_endpoints d) then (Inl BadInput, d)
      else (case update_one (\<lambda>_. True) (\<lambda>r. we_ID r = i) (rotate_secret now s) (webhook_endpoints d)
            of (res, rs) \<Rightarrow> (res, d\<lparr>webhook_endpoints := rs\<rparr>)))"

definition set_endpoint_status :: "time \<Rightarrow> string \<Rightarrow> WebhookEndpoint \<Rightarrow> WebhookEndpoint" where
  "set_endpoint_status now st r = r\<lparr>we_Status := st, we_UpdatedAt := now\<rparr>"

definition DeleteWebhookEndpoint :: "time \<Rightarrow> string \<Rightarrow> db \<Rightarrow> db" where
  "DeleteWebhookEndpoint now i d =
     d\<lparr>webhook_endpoints := upd_where (\<lambda>r. we_ID r = i \<and> we_Status r \<noteq> ''deleted'')
         (set_endpoint_status now ''deleted'') (webhook_endpoints d)\<rparr>"

definition PauseWebhookEndpoint :: "time \<Rightarrow> string \<Rightarrow> db \<Rightarrow> db" where
  "PauseWebhookEndpoint now i d =
     d\<lparr>webhook_endpoints := upd_where (\<lambda>r. we_ID r = i \<and> we_Status r = ''active'')
         (set_endpoint_status now ''paused'') (webhook_endpoints d)\<rparr>"

definition endpoint_success :: "time \<Rightarrow> WebhookEndpoint \<Rightarrow> WebhookEndpoint" where
  "endpoint_success now r = r\<lparr>we_LastSuccessAt := Some now, we_ConsecutiveFailures := 0, we_UpdatedAt := now\<rparr>"

definition TouchWebhookEndpointSuccess :: "time \<Rightarrow> string \<Rightarrow> db \<Rightarrow> db" where
  "TouchWebhookEndpointSuccess now i d =
     d\<lparr>webhook_endpoints := upd_where (\<lambda>r. we_ID r = i) (endpoint_success now) (webhook_endpoints d)\<rparr>"

definition endpoint_failure :: "time \<Rightarrow> WebhookEndpoint \<Rightarrow> WebhookEndpoint" where
  "endpoint_failure now r =
     r\<lparr>we_LastFailureAt := Some now, we_ConsecutiveFailures := we_ConsecutiveFailures r + 1, we_UpdatedAt := now\<rparr>"

definition TouchWebhookEndpointFailure :: "time \<Rightarrow> string \<Rightarrow> db \<Rightarrow> int query_result \<times> db" where
  "TouchWebhookEndpointFailure now i d =
     (case update_one (\<lambda>_. True) (\<lambda>r. we_ID r = i) (endpoint_failure now) (webhook_endpoints d) of
        (Inl e, rs) \<Rightarrow> (Inl e, d\<lparr>webhook_endpoints := rs\<rparr>)
      | (Inr r, rs) \<Rightarrow> (Inr (we_ConsecutiveFailures r), d\<lparr>webhook_endpoints := rs\<rparr>))"

section \<open>webhook\_events\<close>

definition CreateWebhookEvent :: "time \<Rightarrow> WebhookEvent \<Rightarrow> db \<Rightarrow> WebhookEvent query_result \<times> db" where
  "CreateWebhookEvent now a d =
     (let r = a\<lparr>ev_LastResponseCode := None, ev_LastResponseBody := None, ev_LastError := None,
                ev_DeliveredAt := None, ev_CreatedAt := now, ev_UpdatedAt := now\<rparr> in
      if \<not> json_ok (ev_EventData r) \<or> \<not> json_ok (ev_Metadata r) then (Inl BadInput, d)
      else if \<not> event_check r then (Inl CheckViolation, d)
      else if exists_row ev_ID (ev_ID r) (webhook_events d) then (Inl UniqueViolation, d)
      else if \<not> exists_row tn_ID (ev_TenantID r) (tenants d) \<or> \<not> fk_opt we_ID (ev_EndpointID r) (webhook_endpoints d)
      then (Inl ForeignKeyViolation, d)
      else (Inr r, d\<lparr>webhook_events := webhook_events d @ [r]\<rparr>))"

definition GetWebhookEventByID :: "string \<Rightarrow> db \<Rightarrow> WebhookEvent query_result" where
  "GetWebhookEventByID i d = select_one (\<lambda>r. ev_ID r = i) (webhook_events d)"

definition is_due :: "time \<Rightarrow> WebhookEvent \<Rightarrow> bool" where
  "is_due t r \<longleftrightarrow> ev_Status r \<in> {''pending'', ''failed''} \<and> ev_NextAttemptAt r \<le> t"

definition ListDueWebhookEvents :: "time \<Rightarrow> int \<Rightarrow> db \<Rightarrow> WebhookEvent list" where
  "ListDueWebhookEvents t lim d =
     take (nat lim) (sort_key ev_NextAttemptAt (filter (is_due t) (webhook_events d)))"

definition set_event_delivering :: "time \<Rightarrow> WebhookEvent \<Rightarrow> WebhookEvent" where
  "set_event_delivering now r = r\<lparr>ev_Status := ''delivering'', ev_UpdatedAt := now\<rparr>"

definition MarkWebhookEventDelivering :: "time \<Rightarrow> string \<Rightarrow> db \<Rightarrow> WebhookEvent query_result \<times> db" where
  "MarkWebhookEventDelivering now i d =
     (case update_one event_check (\<lambda>r. ev_ID r = i \<and> ev_Status r \<in> {''pending'', ''failed''})
             (set_event_delivering now) (webhook_events d)
      of (res, rs) \<Rightarrow> (res, d\<lparr>webhook_events := rs\<rparr>))"

definition set_event_delivered :: "time \<Rightarrow> int option \<Rightarrow> WebhookEvent \<Rightarrow> WebhookEvent" where
  "set_event_delivered now code r =
     r\<lparr>ev_Status := ''delivered'', ev_LastResponseCode := code, ev_DeliveredAt := Some now, ev_UpdatedAt := now\<rparr>"

definition MarkWebhookEventDelivered :: "time \<Rightarrow> string \<Rightarrow> int option \<Rightarrow> db \<Rightarrow> WebhookEvent query_result \<times> db" where
  "MarkWebhookEventDelivered now i code d =
     (case update_one event_check (\<lambda>r. ev_ID r = i) (set_event_delivered now code) (webhook_events d)
      of (res, rs) \<Rightarrow> (res, d\<lparr>webhook_events := rs\<rparr>))"

definition set_event_failed ::
    "time \<Rightarrow> time \<Rightarrow> int option \<Rightarrow> string option \<Rightarrow> string option \<Rightarrow> WebhookEvent \<Rightarrow> WebhookEvent" where
  "set_event_failed now next code body err r =
     r\<lparr>ev_Status := ''failed'', ev_Attempts := ev_Attempts r + 1, ev_NextAttemptAt := next,
       ev_LastResponseCode := code, ev_LastResponseBody := body, ev_LastError := err, ev_UpdatedAt := now\<rparr>"

definition MarkWebhookEventFailed ::
    "time \<Rightarrow> string \<Rightarrow> time \<Rightarrow> int option \<Rightarrow> string option \<Rightarrow> string option \<Rightarrow> db \<Rightarrow> WebhookEvent query_result \<times> db" where
  "MarkWebhookEventFailed now i next code body err d =
     (case update_one event_check (\<lambda>r. ev_ID r = i) (set_event_failed now next code body err) (webhook_events d)
      of (res, rs) \<Rightarrow> (res, d\<lparr>webhook_events := rs\<rparr>))"

definition set_event_dead :: "time \<Rightarrow> WebhookEvent \<Rightarrow> WebhookEvent" where
  "set_event_dead now r = r\<lparr>ev_Status := ''dead'', ev_UpdatedAt := now\<rparr>"

definition MarkWebhookEventDead :: "time \<Rightarrow> string \<Rightarrow> db \<Rightarrow> db" where
  "MarkWebhookEventDead now i d =
     d\<lparr>webhook_events := upd_where (\<lambda>r. ev_ID r = i) (set_event_dead now) (webhook_events d)\<rparr>"

section \<open>virtual\_addresses\<close>

definition CreateVirtualAddress :: "time \<Rightarrow> VirtualAddress \<Rightarrow> db \<Rightarrow> VirtualAddress query_result \<times> db" where
  "CreateVirtualAddress now a d =
     (let r = a\<lparr>va_CreatedAt := now\<rparr> in
      if \<not> json_ok (va_Metadata r) then (Inl BadInput, d)
      else if exists_row va_ID (va_ID r) (virtual_addresses d)
              \<or> exists_row (\<lambda>v. (va_WalletID v, va_Label v)) (va_WalletID r, va_Label r) (virtual_addresses d)
      then (Inl UniqueViolation, d)
      else if \<not> exists_row tn_ID (va_TenantID r) (tenants d) \<or> \<not> exists_row wl_ID (va_WalletID r) (wallets d)
              \<or> \<not> exists_row wg_ID (va_GroupID r) (wallet_groups d)
      then (Inl ForeignKeyViolation, d)
      else (Inr r, d\<lparr>virtual_addresses := virtual_addresses d @ [r]\<rparr>))"

definition GetVirtualAddressByLabel :: "string \<Rightarrow> string \<Rightarrow> db \<Rightarrow> VirtualAddress query_result" where
  "GetVirtualAddressByLabel w l d = select_one (\<lambda>r. va_WalletID r = w \<and> va_Label r = l) (virtual_addresses d)"

definition ListVirtualAddressesForWallet :: "string \<Rightarrow> int \<Rightarrow> int \<Rightarrow> db \<Rightarrow> VirtualAddress list" where
  "ListVirtualAddressesForWallet w lim off d =
     page lim off (order_desc va_CreatedAt (filter (\<lambda>r. va_WalletID r = w) (virtual_addresses d)))"

section \<open>Every update keeps the primary key\<close>

interpretation upd_user: row_update us_ID "touch_user_login now" for now
  by unfold_locales (simp add: touch_user_login_def)

interpretation upd_ak: row_update ak_ID "touch_api_key now" for now
  by unfold_locales (simp add: touch_api_key_def)

interpretation upd_ak_revoke: row_update ak_ID "revoke_api_key now reason" for now reason
  by unfold_locales (simp add: revoke_api_key_def)

interpretation upd_tx: row_update tx_ID "set_tx_status now st h b" for now st h b
  by unfold_locales (simp add: set_tx_status_def)

interpretation upd_policy: row_update lp_ID "disable_policy now" for now
  by unfold_locales (simp add: disable_policy_def)

interpretation upd_sk: row_update sk_ID "set_session_key_status now st" for now st
  by unfold_locales (simp add: set_session_key_status_def)

interpretation upd_sk_revoke: row_update sk_ID "revoke_session_key now reason" for now reason
  by unfold_locales (simp add: revoke_session_key_def)

interpretation upd_ep: row_update we_ID "update_endpoint now url evs desc st" for now url evs desc st
  by unfold_locales (simp add: update_endpoint_def)

interpretation upd_ep_secret: row_update we_ID "rotate_secret now s" for now s
  by unfold_locales (simp add: rotate_secret_def)

interpretation upd_ep_status: row_update we_ID "set_endpoint_status now st" for now st
  by unfold_locales (simp add: set_endpoint_status_def)

interpretation upd_ep_ok: row_update we_ID "endpoint_success now" for now
  by unfold_locales (simp add: endpoint_success_def)

interpretation upd_ep_fail: row_update we_ID "endpoint_failure now" for now
  by unfold_locales (simp add: endpoint_failure_def)

interpretation upd_ev_delivering: row_update ev_ID "set_event_delivering now" for now
  by unfold_locales (simp add: set_event_delivering_def)

interpretation upd_ev_delivered: row_update ev_ID "set_event_delivered now code" for now code
  by unfold_locales (simp add: set_event_delivered_def)

interpretation upd_ev_failed: row_update ev_ID "set_event_failed now nxt code body err" for now nxt code body err
  by unfold_locales (simp add: set_event_failed_def)

interpretation upd_ev_dead: row_update ev_ID "set_event_dead now" for now
  by unfold_locales (simp add: set_event_dead_def)

section \<open>Facts about lookups\<close>

lemma exists_row_iff: "exists_row key k rs \<longleftrightarrow> k \<in> key ` set rs"
  by (auto simp: exists_row_def list_ex_iff)

lemma GetPolicyForScope_D:
  assumes "GetPolicyForScope t ty sid d = Inr p"
  shows "p \<in> set (limit_policies d)" "scope_matches t ty sid p"
proof -
  obtain ps where "order_desc lp_CreatedAt (filter (scope_matches t ty sid) (limit_policies d)) = p # ps"
    using assms by (auto simp: GetPolicyForScope_def split: list.splits)
  then have "p \<in> set (order_desc lp_CreatedAt (filter (scope_matches t ty sid) (limit_policies d)))" by simp
  then show "p \<in> set (limit_policies d)" "scope_matches t ty sid p" by simp_all
qed

lemma GetPolicyForScope_NoRows:
  "GetPolicyForScope t ty sid d = Inl e \<longleftrightarrow> e = NoRows \<and> (\<forall>p \<in> set (limit_policies d). \<not> scope_matches t ty sid p)"
proof -
  have "order_desc lp_CreatedAt (filter (scope_matches t ty sid) (limit_policies d)) = []
    \<longleftrightarrow> (\<forall>p \<in> set (limit_policies d). \<not> scope_matches t ty sid p)"
    by (metis (no_types, lifting) filter_empty_conv list.set(1) set_empty set_order_desc)
  then show ?thesis by (auto simp: GetPolicyForScope_def split: list.splits)
qed

text \<open>The newest matching policy is the one that is returned.\<close>

lemma GetPolicyForScope_newest:
  assumes "GetPolicyForScope t ty sid d = Inr p" "q \<in> set (limit_policies d)" "scope_matches t ty sid q"
  shows "lp_CreatedAt q \<le> lp_CreatedAt p"
proof -
  let ?m = "filter (scope_matches t ty sid) (limit_policies d)"
  obtain ps where ps: "order_desc lp_CreatedAt ?m = p # ps"
    using assms(1) by (auto simp: GetPolicyForScope_def split: list.splits)
  have "sorted (map (\<lambda>r. - lp_CreatedAt r) (order_desc lp_CreatedAt ?m))"
    by (simp add: order_desc_def)
  moreover have "q \<in> set (order_desc lp_CreatedAt ?m)" using assms by simp
  ultimately show ?thesis unfolding ps by auto
qed

lemma GetTenantDefaultPolicy_D:
  "GetTenantDefaultPolicy t d = Inr p \<Longrightarrow> p \<in> set (limit_policies d) \<and> is_tenant_default t p"
  by (simp add: GetTenantDefaultPolicy_def select_one_D)

end
