(* ===== verification/Go_Time.thy ===== *)
theory Go_Time
  imports Prelude
begin

text \<open>
  The part of Go's package \<open>time\<close> that the period accounting uses: the proleptic Gregorian
  calendar, weekdays, ISO weeks, \<open>time.Date\<close> at midnight and \<open>AddDate\<close>. A
  \<open>*time.Location\<close> is the function that gives the offset (in seconds east of UTC) in force at
  a Unix time; \<open>time.UTC\<close> is the constant 0. The lemmas relate a day number to its calendar
  date in both directions, so that the buckets of \<open>internal/limits/period.go\<close> can be shown to
  be intervals.
\<close>

section \<open>Years\<close>

definition is_leap :: "int \<Rightarrow> bool" where
  "is_leap y \<longleftrightarrow> y mod 4 = 0 \<and> (y mod 100 \<noteq> 0 \<or> y mod 400 = 0)"

definition year_len :: "int \<Rightarrow> int" where
  "year_len y = (if is_leap y then 366 else 365)"

text \<open>Days from 1 January of the year 1 to 1 January of the year \<open>y\<close>.\<close>

definition year_start :: "int \<Rightarrow> int" where
  "year_start y = (let p = y - 1 in 365 * p + p div 4 - p div 100 + p div 400)"

text \<open>Days from 1 January of the year 1 to 1 January 1970.\<close>

definition epoch_days :: int where "epoch_days = 719162"

text \<open>Year and day of the year (from 0) of a day counted from the epoch: cut off 400-, 100-, 4- and
  1-year cycles.\<close>

definition year_yday :: "int \<Rightarrow> int \<times> int" where
  "year_yday days =
     (let d = days + epoch_days;
          n400 = d div 146097; d1 = d - 146097 * n400;
          n100 = min (d1 div 36524) 3; d2 = d1 - 36524 * n100;
          n4 = d2 div 1461; d3 = d2 - 1461 * n4;
          n1 = min (d3 div 365) 3
      in (1 + 400 * n400 + 100 * n100 + 4 * n4 + n1, d3 - 365 * n1))"

lemma div_cycle:
  fixes p :: int
  assumes "p = k * q + r" "0 \<le> r" "r < k"
  shows "p div k = q"
  using assms by (simp add: div_pos_pos_trivial)

lemma mod_cycle:
  fixes p :: int
  assumes "p = k * q + r" "0 \<le> r" "r < k"
  shows "p mod k = r"
  using assms by (simp add: mod_pos_pos_trivial)

lemma cycle_rest:
  fixes p k :: int
  assumes "0 < k"
  shows "0 \<le> p - k * (p div k)" "p - k * (p div k) < k" "0 \<le> p \<Longrightarrow> 0 \<le> p div k"
proof -
  have "p - k * (p div k) = p mod k" using mult_div_mod_eq [of k p] by linarith
  then show "0 \<le> p - k * (p div k)" "p - k * (p div k) < k" using assms by simp_all
  show "0 \<le> p div k" if "0 \<le> p" using that assms by (simp add: pos_imp_zdiv_nonneg_iff)
qed

lemma capped_cycle:
  fixes p k :: int
  assumes "0 < k" "0 \<le> p"
  shows "0 \<le> min (p div k) 3" "min (p div k) 3 \<le> 3"
    "min (p div k) 3 < 3 \<Longrightarrow> p - k * min (p div k) 3 < k"
    "0 \<le> p - k * min (p div k) 3"
    "min (p div k) 3 = 3 \<Longrightarrow> p - k * min (p div k) 3 = p - 3 * k"
proof -
  obtain q where q: "q = p div k" by blast
  note r = cycle_rest [OF assms(1), of p, folded q]
  show "0 \<le> min (p div k) 3" "min (p div k) 3 \<le> 3"
    using r(3) assms(2) by (simp_all flip: q)
  show "p - k * min (p div k) 3 < k" if "min (p div k) 3 < 3"
    using r(2) that by (simp add: min_def flip: q split: if_splits)
  have "k * min q 3 \<le> k * q" using assms(1) by (simp add: mult_left_mono)
  then show "0 \<le> p - k * min (p div k) 3" using r(1) by (simp flip: q)
  show "p - k * min (p div k) 3 = p - 3 * k" if "min (p div k) 3 = 3" using that by simp
qed

lemma le_div_iff_int:
  fixes p k a :: int
  assumes "0 < k"
  shows "a \<le> p div k \<longleftrightarrow> k * a \<le> p"
proof
  assume "a \<le> p div k"
  then have "k * a \<le> k * (p div k)" using assms by simp
  then show "k * a \<le> p" using cycle_rest(1) [OF assms, of p] by linarith
next
  assume "k * a \<le> p"
  then have "k * a < k * (p div k + 1)"
    using cycle_rest(2) [OF assms, of p] by (simp add: distrib_left)
  then show "a \<le> p div k" using assms by simp
qed

lemma div_pred_step:
  fixes y k :: int
  assumes "1 < k"
  shows "y div k = (y - 1) div k + (if y mod k = 0 then 1 else 0)"
proof (cases "y mod k = 0")
  case True
  then have "y = k * (y div k)" by (metis add.right_neutral mult_div_mod_eq)
  then have "(y - 1) div k = y div k - 1"
    using assms by (intro div_cycle [of _ _ _ "k - 1"]) (simp_all add: algebra_simps)
  then show ?thesis using True by simp
next
  case False
  have "0 \<le> y mod k" "y mod k < k" using assms by simp_all
  then have "(y - 1) div k = y div k"
    using False assms mult_div_mod_eq [of k y]
    by (intro div_cycle [of _ _ _ "y mod k - 1"]) linarith+
  then show ?thesis using False by simp
qed

lemma year_start_cycles:
  assumes "0 \<le> b" "b \<le> 3" "0 \<le> c" "c \<le> 24" "0 \<le> e" "e \<le> 3"
  shows "year_start (1 + 400 * a + 100 * b + 4 * c + e) = 146097 * a + 36524 * b + 1461 * c + 365 * e"
proof -
  let ?p = "400 * a + 100 * b + 4 * c + e"
  have d4: "?p div 4 = 100 * a + 25 * b + c"
    by (rule div_cycle [of _ _ _ e]) (use assms in simp_all)
  have d100: "?p div 100 = 4 * a + b"
    by (rule div_cycle [of _ _ _ "4 * c + e"]) (use assms in simp_all)
  have d400: "?p div 400 = a"
    by (rule div_cycle [of _ _ _ "100 * b + 4 * c + e"]) (use assms in simp_all)
  have "1 + 400 * a + 100 * b + 4 * c + e - 1 = ?p" by simp
  then show ?thesis unfolding year_start_def Let_def by (simp only: d4 d100 d400) simp
qed

lemma is_leap_cycles:
  assumes "0 \<le> b" "b \<le> 3" "0 \<le> c" "c \<le> 24" "0 \<le> e" "e \<le> 3"
  shows "is_leap (1 + 400 * a + 100 * b + 4 * c + e) \<longleftrightarrow> e = 3 \<and> (c \<noteq> 24 \<or> b = 3)"
proof (cases "e = 3")
  case False
  then have "(1 + 400 * a + 100 * b + 4 * c + e) mod 4 = e + 1"
    by (intro mod_cycle [of _ _ "100 * a + 25 * b + c"]) (use assms in simp_all)
  then show ?thesis using False assms by (simp add: is_leap_def)
next
  case True
  let ?y = "1 + 400 * a + 100 * b + 4 * c + e"
  have m4: "?y mod 4 = 0"
    by (rule mod_cycle [of _ _ "100 * a + 25 * b + c + 1"]) (use True in simp_all)
  show ?thesis
  proof (cases "c = 24")
    case False
    then have "?y mod 100 = 4 * c + 4"
      by (intro mod_cycle [of _ _ "4 * a + b"]) (use assms True in simp_all)
    then show ?thesis using m4 assms True False by (simp add: is_leap_def)
  next
    case c: True
    then have "?y mod 100 = 0"
      by (intro mod_cycle [of _ _ "4 * a + b + 1"]) (use True in simp_all)
    moreover have "b = 3 \<Longrightarrow> ?y mod 400 = 0"
      by (rule mod_cycle [of _ _ "a + 1"]) (use c True in simp_all)
    moreover have "b \<noteq> 3 \<Longrightarrow> ?y mod 400 = 100 * b + 100"
      by (rule mod_cycle [of _ _ "a"]) (use c True assms in simp_all)
    moreover have "100 * b + 100 \<noteq> 0" using assms by simp
    ultimately show ?thesis using m4 c True unfolding is_leap_def by metis
  qed
qed

lemma leap_steps:
  fixes y q4 q100 q400 :: int
  assumes "q4 = p4 + (if A then 1 else 0)" "q100 = p100 + (if B then 1 else 0)"
    "q400 = p400 + (if C then 1 else 0)" "C \<Longrightarrow> B" "B \<Longrightarrow> A"
  shows "365 * y + q4 - q100 + q400
    = 365 * (y - 1) + p4 - p100 + p400 + (if A \<and> (\<not> B \<or> C) then 366 else 365)"
  using assms by (cases A; cases B; cases C) auto

lemma year_start_Suc: "year_start (y + 1) = year_start y + year_len y"
proof -
  have "y mod 400 mod 100 = y mod 100" "y mod 100 mod 4 = y mod 4"
    by (rule mod_mod_cancel, simp)+
  then have "y mod 400 = 0 \<Longrightarrow> y mod 100 = 0" "y mod 100 = 0 \<Longrightarrow> y mod 4 = 0" by auto
  moreover have "y + 1 - 1 = y" by simp
  ultimately show ?thesis
    unfolding year_start_def year_len_def is_leap_def Let_def
    by (simp only:) (rule leap_steps; (rule div_pred_step)?; simp)
qed

lemma year_len_pos: "365 \<le> year_len y" "year_len y \<le> 366"
  by (simp_all add: year_len_def)

lemma year_start_mono: "a \<le> b \<Longrightarrow> year_start a \<le> year_start b"
proof (induction b rule: int_ge_induct)
  case (step i)
  then show ?case using year_start_Suc [of i] year_len_pos(1) [of i] by linarith
qed simp

lemma year_yday_spec:
  assumes "year_yday days = (y, yd)"
  shows "year_start y + yd = days + epoch_days" and "0 \<le> yd" and "yd < year_len y"
proof -
  define d where "d = days + epoch_days"
  define a where "a = d div 146097"
  define d1 where "d1 = d - 146097 * a"
  define b where "b = min (d1 div 36524) 3"
  define d2 where "d2 = d1 - 36524 * b"
  define c where "c = d2 div 1461"
  define d3 where "d3 = d2 - 1461 * c"
  define e where "e = min (d3 div 365) 3"
  have "year_yday days = (1 + 400 * a + 100 * b + 4 * c + e, d3 - 365 * e)"
    unfolding year_yday_def Let_def d_def a_def d1_def b_def d2_def c_def d3_def e_def
    by (rule refl)
  then have y: "y = 1 + 400 * a + 100 * b + 4 * c + e" and yd: "yd = d3 - 365 * e"
    using assms by simp_all
  have d1: "0 \<le> d1" "d1 < 146097"
    unfolding d1_def a_def by (rule cycle_rest; simp)+
  have b: "0 \<le> b" "b \<le> 3" "b < 3 \<Longrightarrow> d2 < 36524" "0 \<le> d2" "d2 \<le> 36524"
    using capped_cycle [OF _ d1(1), of 36524] d1(2) unfolding b_def [symmetric] d2_def [symmetric]
    by (cases "b = 3"; simp)+
  have c0: "0 \<le> c" "0 \<le> d3" "d3 < 1461"
    unfolding c_def d3_def by (rule cycle_rest; simp add: b)+
  have c: "c \<le> 24" "c = 24 \<Longrightarrow> b < 3 \<Longrightarrow> d3 < 1460"
    using b c0 d3_def by linarith+
  note c = c0(1) c(1) c0(2,3) c(2)
  have e: "0 \<le> e" "e \<le> 3" "0 \<le> yd" "e < 3 \<Longrightarrow> yd < 365" "e = 3 \<Longrightarrow> yd \<le> 365"
    using capped_cycle [OF _ c(3), of 365] c(4) unfolding e_def [symmetric] yd [symmetric]
    by auto
  have e3: "e = 3 \<Longrightarrow> c = 24 \<Longrightarrow> b < 3 \<Longrightarrow> yd < 365"
    unfolding yd using c by linarith
  show "0 \<le> yd" by fact
  show "year_start y + yd = days + epoch_days"
    unfolding y using year_start_cycles [OF b(1,2) c(1,2) e(1,2), of a]
    by (simp add: yd d3_def d2_def d1_def d_def)
  have "is_leap y \<longleftrightarrow> e = 3 \<and> (c \<noteq> 24 \<or> b = 3)"
    unfolding y using is_leap_cycles [OF b(1,2) c(1,2) e(1,2), of a] by simp
  then show "yd < year_len y"
    using e e3 b by (cases "e = 3"; cases "b = 3") (auto simp: year_len_def)
qed

text \<open>The year of a day is determined by the interval its day number lies in.\<close>

lemma year_yday_unique:
  assumes "year_start y + yd = days + epoch_days" and "0 \<le> yd" and "yd < year_len y"
  shows "year_yday days = (y, yd)"
proof -
  obtain y' yd' where e: "year_yday days = (y', yd')" by force
  note s = year_yday_spec [OF e]
  have "y' = y"
  proof (rule ccontr)
    assume "y' \<noteq> y"
    then consider "y' + 1 \<le> y" | "y + 1 \<le> y'" by linarith
    then show False
    proof cases
      case 1
      then show False using year_start_mono [OF 1] year_start_Suc [of y'] s assms by linarith
    next
      case 2
      then show False using year_start_mono [OF 2] year_start_Suc [of y] s assms by linarith
    qed
  qed
  then show ?thesis using e s(1) assms(1) by simp
qed

section \<open>Months\<close>

text \<open>\<open>daysBefore\<close>: days of a common year before the month \<open>m\<close> (1 to 13).\<close>

definition days_before :: "int \<Rightarrow> int" where
  "days_before m = [0, 31, 59, 90, 120, 151, 181, 212, 243, 273, 304, 334, 365] ! nat (m - 1)"

definition month_start :: "int \<Rightarrow> int \<Rightarrow> int" where
  "month_start y m = days_before m + (if is_leap y \<and> 3 \<le> m then 1 else 0)"

text \<open>Month (from 1) of a day of the year, and the day of the month (from 1).\<close>

definition month_of :: "int \<Rightarrow> int \<Rightarrow> int" where
  "month_of y yd =
     (if yd < month_start y 2 then 1 else if yd < month_start y 3 then 2
      else if yd < month_start y 4 then 3 else if yd < month_start y 5 then 4
      else if yd < month_start y 6 then 5 else if yd < month_start y 7 then 6
      else if yd < month_start y 8 then 7 else if yd < month_start y 9 then 8
      else if yd < month_start y 10 then 9 else if yd < month_start y 11 then 10
      else if yd < month_start y 12 then 11 else 12)"

definition civil :: "int \<Rightarrow> int \<times> int \<times> int" where
  "civil days =
     (let (y, yd) = year_yday days; m = month_of y yd in (y, m, yd - month_start y m + 1))"

text \<open>
  \<open>time.Date\<close>: months outside 1 to 12 are carried into the year, days outside the month are
  carried by adding them to the day number.
\<close>

definition days_of_civil :: "int \<Rightarrow> int \<Rightarrow> int \<Rightarrow> int" where
  "days_of_civil y m d =
     (let y' = y + (m - 1) div 12; m' = (m - 1) mod 12 + 1
      in year_start y' + month_start y' m' + (d - 1) - epoch_days)"

lemma month_start_values:
  "month_start y 1 = 0" "month_start y 2 = 31"
  "month_start y 3 = 59 + (if is_leap y then 1 else 0)"
  "month_start y 4 = 90 + (if is_leap y then 1 else 0)"
  "month_start y 5 = 120 + (if is_leap y then 1 else 0)"
  "month_start y 6 = 151 + (if is_leap y then 1 else 0)"
  "month_start y 7 = 181 + (if is_leap y then 1 else 0)"
  "month_start y 8 = 212 + (if is_leap y then 1 else 0)"
  "month_start y 9 = 243 + (if is_leap y then 1 else 0)"
  "month_start y 10 = 273 + (if is_leap y then 1 else 0)"
  "month_start y 11 = 304 + (if is_leap y then 1 else 0)"
  "month_start y 12 = 334 + (if is_leap y then 1 else 0)"
  "month_start y 13 = 365 + (if is_leap y then 1 else 0)"
  by (simp_all add: month_start_def days_before_def)

lemma month_range_cases:
  fixes m :: int
  assumes "1 \<le> m" "m \<le> 12"
  obtains "m = 1" | "m = 2" | "m = 3" | "m = 4" | "m = 5" | "m = 6" | "m = 7" | "m = 8"
        | "m = 9" | "m = 10" | "m = 11" | "m = 12"
proof -
  have "m \<in> set [1..12]" using assms by simp
  also have "set [1..12] = {1, 2, 3, 4, 5, 6, 7, 8, 9, 10, 11, 12 :: int}"
    by (simp add: upto.simps)
  finally show ?thesis using that by auto
qed

lemma month_of_spec:
  assumes "0 \<le> yd" "yd < year_len y"
  shows "1 \<le> month_of y yd" "month_of y yd \<le> 12"
    "month_start y (month_of y yd) \<le> yd" "yd < month_start y (month_of y yd + 1)"
  using assms
  by (auto simp: month_of_def month_start_values year_len_def)

lemma month_of_unique:
  assumes "1 \<le> m" "m \<le> 12" "month_start y m \<le> yd" "yd < month_start y (m + 1)"
  shows "month_of y yd = m"
  using assms by (elim month_range_cases) (simp_all add: month_of_def month_start_values split: if_splits)

lemma month_start_bounds:
  assumes "1 \<le> m" "m \<le> 12"
  shows "0 \<le> month_start y m" "month_start y (m + 1) \<le> year_len y"
    "month_start y m + 28 \<le> month_start y (m + 1)"
  using assms by (elim month_range_cases; simp add: month_start_values year_len_def)+

lemma days_of_civil_in_range:
  "1 \<le> m \<Longrightarrow> m \<le> 12 \<Longrightarrow> days_of_civil y m d = year_start y + month_start y m + (d - 1) - epoch_days"
  by (simp add: days_of_civil_def Let_def div_pos_pos_trivial mod_pos_pos_trivial)

lemma days_of_civil_next_month:
  assumes "1 \<le> m" "m \<le> 12"
  shows "days_of_civil y (m + 1) 1 = year_start y + month_start y (m + 1) - epoch_days"
proof (cases "m = 12")
  case True
  then show ?thesis
    using year_start_Suc [of y]
    by (simp add: days_of_civil_def Let_def month_start_values year_len_def)
next
  case False
  then show ?thesis using assms days_of_civil_in_range [of "m + 1" y 1] by simp
qed

text \<open>Day number to date and back.\<close>

lemma civil_range:
  assumes "civil days = (y, m, d)"
  shows "1 \<le> m" "m \<le> 12" "1 \<le> d" "d \<le> month_start y (m + 1) - month_start y m"
proof -
  obtain yd where yy: "year_yday days = (y, yd)" and m: "m = month_of y yd"
    and d: "d = yd - month_start y m + 1"
    using assms by (auto simp: civil_def Let_def split: prod.splits)
  note s = month_of_spec [OF year_yday_spec(2,3) [OF yy]]
  show "1 \<le> m" "m \<le> 12" "1 \<le> d" "d \<le> month_start y (m + 1) - month_start y m"
    using s unfolding m [symmetric] using d by linarith+
qed

lemma days_of_civil_civil:
  assumes "civil days = (y, m, d)"
  shows "days_of_civil y m d = days"
proof -
  obtain yd where yy: "year_yday days = (y, yd)" and "m = month_of y yd"
    and d: "d = yd - month_start y m + 1"
    using assms by (auto simp: civil_def Let_def split: prod.splits)
  then show ?thesis
    using days_of_civil_in_range [OF civil_range(1,2) [OF assms], of y d]
      year_yday_spec(1) [OF yy] by simp
qed

lemma civil_days_of_civil:
  assumes "1 \<le> m" "m \<le> 12" "1 \<le> d" "d \<le> month_start y (m + 1) - month_start y m"
  shows "civil (days_of_civil y m d) = (y, m, d)"
proof -
  let ?days = "days_of_civil y m d"
  let ?yd = "month_start y m + (d - 1)"
  note b = month_start_bounds [OF assms(1,2), of y]
  have yy: "year_yday ?days = (y, ?yd)"
    by (rule year_yday_unique) (use assms b days_of_civil_in_range [OF assms(1,2), of y d] in linarith)+
  have "month_of y ?yd = m"
    by (rule month_of_unique) (use assms in linarith)+
  then show ?thesis by (simp add: civil_def yy)
qed

lemma civil_inj: "civil a = civil b \<Longrightarrow> a = b"
  by (metis days_of_civil_civil prod.exhaust)

section \<open>Instants, locations, weekdays\<close>

type_synonym location = "int \<Rightarrow> int"

definition UTC :: location where "UTC = (\<lambda>_. 0)"

text \<open>\<open>t.In(loc)\<close> as a local day number; \<open>Weekday()\<close> with Sunday 0; \<open>ISOWeek()\<close> by the Thursday of the week.\<close>

definition local_day :: "location \<Rightarrow> time \<Rightarrow> int" where
  "local_day loc t = (let u = t div second in (u + loc u) div 86400)"

definition weekday :: "int \<Rightarrow> int" where
  "weekday days = (days + 4) mod 7"

definition week_thursday :: "int \<Rightarrow> int" where
  "week_thursday days = (let d = 4 - weekday days in days + (if d = 4 then - 3 else d))"

definition ISOWeek :: "int \<Rightarrow> int \<times> int" where
  "ISOWeek days = (let (y, yd) = year_yday (week_thursday days) in (y, yd div 7 + 1))"

text \<open>
  \<open>time.Date(y, m, d, h, mi, s, 0, loc)\<close> with the time of day in seconds: Go looks the offset up
  at the guessed Unix time, and again at the corrected one when it is not zero.
  \<open>AddDate(0, 0, n)\<close> takes the local date and clock apart and calls \<open>time.Date\<close> with the day
  advanced.
\<close>

definition go_Date :: "location \<Rightarrow> int \<Rightarrow> int \<Rightarrow> int \<Rightarrow> int \<Rightarrow> time" where
  "go_Date loc y m d sod =
     (let u = 86400 * days_of_civil y m d + sod; off = loc u
      in (if off = 0 then u else u - loc (u - off)) * second)"

definition clock_of :: "location \<Rightarrow> time \<Rightarrow> int" where
  "clock_of loc t = (let u = t div second in (u + loc u) mod 86400)"

definition AddDate_days :: "location \<Rightarrow> time \<Rightarrow> int \<Rightarrow> time" where
  "AddDate_days loc t n =
     (case civil (local_day loc t) of (y, m, d) \<Rightarrow>
        go_Date loc y m (d + n) (clock_of loc t) + t mod second)"

text \<open>
  \<open>Format\<close> pads with \<open>appendInt\<close>: the sign first, then the absolute value padded to the width.
\<close>

definition appendInt :: "int \<Rightarrow> nat \<Rightarrow> string" where
  "appendInt x w =
     (if x < 0 then ''-'' else '''') @
     (let s = nat_to_dec (nat \<bar>x\<bar>) in replicate (w - length s) CHR ''0'' @ s)"

lemma weekday_range: "0 \<le> weekday d" "weekday d < 7"
  by (simp_all add: weekday_def)

lemma days_of_civil_add: "days_of_civil y m (d + n) = days_of_civil y m d + n"
  by (simp add: days_of_civil_def Let_def)

lemma appendInt_nonneg:
  "0 \<le> x \<Longrightarrow> all_digits (appendInt x w)" "0 \<le> x \<Longrightarrow> int (dec_val (appendInt x w)) = x"
  by (simp_all add: appendInt_def Let_def dec_val_append)

subsection \<open>Locations with a fixed offset\<close>

definition fixed_zone :: "int \<Rightarrow> location" where "fixed_zone off = (\<lambda>_. off)"

lemma UTC_fixed: "UTC = fixed_zone 0"
  by (simp add: UTC_def fixed_zone_def)

lemma second_pos: "0 < second" "second \<noteq> 0"
  by (simp_all add: second_def)

lemma go_Date_fixed:
  "go_Date (fixed_zone off) y m d sod = (86400 * days_of_civil y m d + sod - off) * second"
  by (simp add: go_Date_def fixed_zone_def Let_def)

lemma local_day_fixed: "local_day (fixed_zone off) t = (t div second + off) div 86400"
  by (simp add: local_day_def fixed_zone_def Let_def)

text \<open>Local midnight of the day \<open>D\<close>; the days partition the time line.\<close>

definition midnight :: "int \<Rightarrow> int \<Rightarrow> time" where
  "midnight off D = (86400 * D - off) * second"

lemma midnight_le_iff: "midnight off D \<le> t \<longleftrightarrow> D \<le> local_day (fixed_zone off) t"
proof -
  have "midnight off D \<le> t \<longleftrightarrow> 86400 * D - off \<le> t div second"
    by (simp add: midnight_def le_div_iff_int [OF second_pos(1)] mult.commute)
  also have "\<dots> \<longleftrightarrow> 86400 * D \<le> t div second + off" by linarith
  also have "\<dots> \<longleftrightarrow> D \<le> (t div second + off) div 86400"
    by (rule le_div_iff_int [symmetric]) simp
  finally show ?thesis by (simp add: local_day_fixed)
qed

lemma less_midnight_iff: "t < midnight off D \<longleftrightarrow> local_day (fixed_zone off) t < D"
  using midnight_le_iff [of off D t] by linarith

lemma local_day_midnight [simp]: "local_day (fixed_zone off) (midnight off D) = D"
  using midnight_le_iff [of off D "midnight off D"]
    midnight_le_iff [of off "D + 1" "midnight off D"]
  by (simp add: midnight_def second_def)

lemma clock_of_midnight [simp]: "clock_of (fixed_zone off) (midnight off D) = 0"
  by (simp add: clock_of_def midnight_def fixed_zone_def Let_def second_pos)

lemma midnight_inj: "midnight off D = midnight off D' \<longleftrightarrow> D = D'"
  by (simp add: midnight_def second_pos)

lemma local_day_mono: "s \<le> t \<Longrightarrow> local_day (fixed_zone off) s \<le> local_day (fixed_zone off) t"
  using midnight_le_iff [of off "local_day (fixed_zone off) s"] by (metis order_trans order_refl)

lemma go_Date_midnight:
  "go_Date (fixed_zone off) y m d 0 = midnight off (days_of_civil y m d)"
  by (simp add: go_Date_fixed midnight_def)

lemma AddDate_days_midnight:
  "AddDate_days (fixed_zone off) (midnight off D) n = midnight off (D + n)"
proof -
  obtain y m d where c: "civil D = (y, m, d)" by (metis prod.exhaust)
  have "midnight off D mod second = 0" by (simp add: midnight_def)
  then show ?thesis
    by (simp add: AddDate_days_def c go_Date_midnight days_of_civil_add days_of_civil_civil [OF c])
qed

subsection \<open>Weeks\<close>

text \<open>The Monday that starts the week of a day.\<close>

definition week_monday :: "int \<Rightarrow> int" where
  "week_monday D = D - (D + 3) mod 7"

lemma week_thursday_monday: "week_thursday D = week_monday D + 3"
proof -
  define r where "r = (D + 3) mod 7"
  have r: "0 \<le> r" "r < 7" by (simp_all add: r_def)
  have "(D + 4) mod 7 = (r + 1) mod 7"
    unfolding r_def using mod_add_left_eq [of "D + 3" 7 1] by (simp add: add.assoc)
  also have "\<dots> = (if r = 6 then 0 else r + 1)" using r by (simp add: mod_pos_pos_trivial)
  finally show ?thesis
    using r by (simp add: week_thursday_def weekday_def week_monday_def Let_def flip: r_def)
qed

lemma week_monday_bounds: "week_monday D \<le> D" "D < week_monday D + 7"
  using pos_mod_sign [of 7 "D + 3"] pos_mod_bound [of 7 "D + 3"] by (simp_all add: week_monday_def)

lemma week_monday_week:
  assumes "week_monday D \<le> E" "E < week_monday D + 7"
  shows "week_monday E = week_monday D"
proof -
  have m: "week_monday D = 7 * ((D + 3) div 7) - 3"
    using mult_div_mod_eq [of 7 "D + 3"] unfolding week_monday_def by (simp only:)
  have "(E + 3) mod 7 = E - week_monday D"
    by (rule mod_cycle [of _ _ "(D + 3) div 7"]) (use assms m in \<open>simp_all only:\<close>)
  then show ?thesis by (simp add: week_monday_def)
qed

lemma ISOWeek_monday:
  "ISOWeek D = ISOWeek E \<longleftrightarrow> week_monday D = week_monday E"
proof
  assume eq: "ISOWeek D = ISOWeek E"
  obtain y yd where T: "year_yday (week_thursday D) = (y, yd)" by force
  obtain y' yd' where T': "year_yday (week_thursday E) = (y', yd')" by force
  have yy: "y' = y" and w: "yd' div 7 = yd div 7"
    using eq by (simp_all add: ISOWeek_def T T')
  have "week_monday D = 7 * ((D + 3) div 7) - 3" "week_monday E = 7 * ((E + 3) div 7) - 3"
    using mult_div_mod_eq [of 7 "D + 3"] mult_div_mod_eq [of 7 "E + 3"]
    unfolding week_monday_def by (simp_all only:)
  moreover have "week_thursday D - week_thursday E = yd - yd'"
    using year_yday_spec(1) [OF T] year_yday_spec(1) [OF T'] unfolding yy by linarith
  ultimately have "yd - yd' = 7 * ((D + 3) div 7 - (E + 3) div 7)"
    by (simp add: week_thursday_monday)
  then have "yd mod 7 = yd' mod 7" by (metis mod_eq_dvd_iff dvd_triv_left)
  then have "yd = yd'" using w by (metis mult_div_mod_eq)
  then have "week_thursday D = week_thursday E"
    using \<open>week_thursday D - week_thursday E = yd - yd'\<close> by simp
  then show "week_monday D = week_monday E" by (simp add: week_thursday_monday)
qed (simp add: ISOWeek_def week_thursday_monday)

end
