(* ===== verification/Limits_Period.thy ===== *)
theory Limits_Period
  imports Go_Time
begin

text \<open>
  \<open>internal/limits/period.go\<close>: the name of the accounting bucket a payment falls into and the
  instant the bucket rolls over. The database of time zones is not part of the repository;
  \<open>time.LoadLocation\<close> is the parameter \<open>LoadLocation\<close> of \<open>loadTimezone\<close>. The bucket lemmas
  are for locations with a fixed offset (UTC is one), where every local day has 24 hours.
\<close>

section \<open>The source's definitions\<close>

datatype period = periodDaily | periodWeekly | periodMonthly

fun period_string :: "period \<Rightarrow> string" where
  "period_string periodDaily = ''daily''"
| "period_string periodWeekly = ''weekly''"
| "period_string periodMonthly = ''monthly''"

definition Format_date :: "int \<times> int \<times> int \<Rightarrow> string" where
  "Format_date = (\<lambda>(y, m, d). appendInt y 4 @ ''-'' @ appendInt m 2 @ ''-'' @ appendInt d 2)"

definition Format_month :: "int \<times> int \<times> int \<Rightarrow> string" where
  "Format_month = (\<lambda>(y, m, d). appendInt y 4 @ ''-'' @ appendInt m 2)"

text \<open>The location is an option: a nil \<open>*time.Location\<close> means UTC.\<close>

definition tz_or_UTC :: "location option \<Rightarrow> location" where
  "tz_or_UTC tz = (case tz of None \<Rightarrow> UTC | Some l \<Rightarrow> l)"

fun periodKey :: "period \<Rightarrow> time \<Rightarrow> location option \<Rightarrow> string" where
  "periodKey periodDaily now tz =
     ''daily:'' @ Format_date (civil (local_day (tz_or_UTC tz) now))"
| "periodKey periodWeekly now tz =
     (case ISOWeek (local_day (tz_or_UTC tz) now) of (y, w) \<Rightarrow>
        ''weekly:'' @ int_to_dec y @ ''-W'' @ pad0 2 w)"
| "periodKey periodMonthly now tz =
     ''monthly:'' @ Format_month (civil (local_day (tz_or_UTC tz) now))"

definition daysUntilMonday :: "int \<Rightarrow> int" where
  "daysUntilMonday w =
     (if w = 1 then 7 else (let d = (1 - w + 7) mod 7 in if d = 0 then 7 else d))"

fun nextReset :: "period \<Rightarrow> time \<Rightarrow> location option \<Rightarrow> time" where
  "nextReset periodDaily now tz =
     (let loc = tz_or_UTC tz in
      case civil (local_day loc now) of (y, m, d) \<Rightarrow> AddDate_days loc (go_Date loc y m d 0) 1)"
| "nextReset periodWeekly now tz =
     (let loc = tz_or_UTC tz; days = daysUntilMonday (weekday (local_day loc now)) in
      case civil (local_day loc now) of (y, m, d) \<Rightarrow> AddDate_days loc (go_Date loc y m d 0) days)"
| "nextReset periodMonthly now tz =
     (let loc = tz_or_UTC tz in
      case civil (local_day loc now) of (y, m, d) \<Rightarrow> go_Date loc y (m + 1) 1 0)"

definition loadTimezone :: "(string \<Rightarrow> location option) \<Rightarrow> string \<Rightarrow> location option" where
  "loadTimezone LoadLocation name =
     (if name = '''' then Some UTC
      else (case LoadLocation name of None \<Rightarrow> Some UTC | Some loc \<Rightarrow> Some loc))"

section \<open>Buckets as intervals of days\<close>

text \<open>First day of the bucket of a local day, and first day after it.\<close>

fun bucket_first :: "period \<Rightarrow> int \<Rightarrow> int" where
  "bucket_first periodDaily D = D"
| "bucket_first periodWeekly D = week_monday D"
| "bucket_first periodMonthly D = (case civil D of (y, m, d) \<Rightarrow> days_of_civil y m 1)"

fun bucket_next :: "period \<Rightarrow> int \<Rightarrow> int" where
  "bucket_next periodDaily D = D + 1"
| "bucket_next periodWeekly D = week_monday D + 7"
| "bucket_next periodMonthly D = (case civil D of (y, m, d) \<Rightarrow> days_of_civil y (m + 1) 1)"

lemma daysUntilMonday_weekday: "D + daysUntilMonday (weekday D) = week_monday D + 7"
proof -
  define r where "r = (D + 3) mod 7"
  have r: "0 \<le> r" "r < 7" by (simp_all add: r_def)
  have "weekday D = (r + 1) mod 7"
    unfolding r_def weekday_def using mod_add_left_eq [of "D + 3" 7 1] by (simp add: add.assoc)
  moreover have "r \<in> {0, 1, 2, 3, 4, 5, 6}" using r by auto
  ultimately have "daysUntilMonday (weekday D) = 7 - r"
    by (elim insertE emptyE) (simp_all add: daysUntilMonday_def Let_def)
  then show ?thesis by (simp add: week_monday_def r_def)
qed

lemma nextReset_midnight:
  "nextReset p now (Some (fixed_zone off))
   = midnight off (bucket_next p (local_day (fixed_zone off) now))"
proof -
  define D where "D = local_day (fixed_zone off) now"
  obtain y m d where c: "civil D = (y, m, d)" by (metis prod.exhaust)
  then show ?thesis
    using daysUntilMonday_weekday [of D]
    by (cases p) (simp_all add: tz_or_UTC_def go_Date_midnight AddDate_days_midnight
        days_of_civil_civil [OF c] Let_def flip: D_def)
qed

lemma month_days_unique:
  assumes c: "civil D = (y, m, d)" and "days_of_civil y m 1 \<le> E" "E < days_of_civil y (m + 1) 1"
  shows "civil E = (y, m, E - days_of_civil y m 1 + 1)"
proof -
  let ?d = "E - days_of_civil y m 1 + 1"
  note r = civil_range [OF c]
  have E: "E = days_of_civil y m ?d" using days_of_civil_add [of y m 1 "E - days_of_civil y m 1"]
    by (simp add: add.commute)
  have "?d \<le> month_start y (m + 1) - month_start y m"
    using assms(3) days_of_civil_next_month [OF r(1,2), of y] days_of_civil_in_range [OF r(1,2), of y 1]
    by linarith
  then show ?thesis using civil_days_of_civil [OF r(1,2), of ?d y] E assms(2) by simp
qed

lemma civil_month_first:
  assumes "civil D = (y, m, d)"
  shows "civil (days_of_civil y m 1) = (y, m, 1)"
proof (rule civil_days_of_civil)
  show "1 \<le> m" "m \<le> 12" using civil_range [OF assms] by auto
  then show "1 \<le> month_start y (m + 1) - month_start y m" using month_start_bounds(3) [of m y] by linarith
qed simp

lemma month_first_inj:
  assumes "civil D = (y, m, d)" "civil E = (y', m', d')" "days_of_civil y m 1 = days_of_civil y' m' 1"
  shows "y = y' \<and> m = m'"
  using civil_month_first [OF assms(1)] civil_month_first [OF assms(2)] unfolding assms(3) by simp

lemma bucket_bounds: "bucket_first p D \<le> D" "D < bucket_next p D"
proof -
  obtain y m d where c: "civil D = (y, m, d)" by (metis prod.exhaust)
  note r = civil_range [OF c]
  have D: "D = days_of_civil y m 1 + (d - 1)"
    using days_of_civil_civil [OF c] days_of_civil_add [of y m 1 "d - 1"] by simp
  have "D < days_of_civil y (m + 1) 1"
    using D r(4) days_of_civil_next_month [OF r(1,2), of y] days_of_civil_in_range [OF r(1,2), of y 1]
    by linarith
  moreover have "days_of_civil y m 1 \<le> D" using D r(3) by linarith
  ultimately show "bucket_first p D \<le> D" "D < bucket_next p D"
    using week_monday_bounds [of D] by (cases p; simp add: c)+
qed

lemma bucket_eqI:
  assumes "bucket_first p D \<le> E" "E < bucket_next p D"
  shows "bucket_first p E = bucket_first p D" "bucket_next p E = bucket_next p D"
proof -
  obtain y m d where c: "civil D = (y, m, d)" by (metis prod.exhaust)
  have "bucket_first p E = bucket_first p D \<and> bucket_next p E = bucket_next p D"
    using assms week_monday_week [of D E] month_days_unique [OF c, of E]
    by (cases p) (simp_all add: c)
  then show "bucket_first p E = bucket_first p D" "bucket_next p E = bucket_next p D" by simp_all
qed

lemma bucket_next_eq_iff: "bucket_next p D = bucket_next p E \<longleftrightarrow> bucket_first p D = bucket_first p E"
proof -
  have fwd: "bucket_first p D = bucket_first p E"
    if e: "bucket_next p D = bucket_next p E" and le: "D \<le> E" for D E
  proof -
    have "bucket_first p D \<le> E" using bucket_bounds(1) [of p D] le by linarith
    moreover have "E < bucket_next p D" unfolding e by (rule bucket_bounds(2))
    ultimately show ?thesis by (rule bucket_eqI(1) [symmetric])
  qed
  have bwd: "bucket_next p D = bucket_next p E"
    if e: "bucket_first p D = bucket_first p E" and le: "D \<le> E" for D E
  proof -
    have "bucket_first p E \<le> D" unfolding e [symmetric] by (rule bucket_bounds(1))
    moreover have "D < bucket_next p E" using bucket_bounds(2) [of E p] le by linarith
    ultimately show ?thesis by (rule bucket_eqI(2))
  qed
  show ?thesis using fwd [of D E] fwd [of E D] bwd [of D E] bwd [of E D] by (metis linear)
qed

section \<open>The key names the bucket\<close>

lemma digits_prefix_inj:
  assumes "all_digits a" "all_digits a'" "\<not> is_digit c" "a @ c # b = a' @ c # b'"
  shows "a = a'" "b = b'"
proof -
  have "takeWhile is_digit (a @ c # b) = a" "takeWhile is_digit (a' @ c # b') = a'"
    using assms(1-3) by (simp_all add: all_digits_set)
  then show "a = a'" using assms(4) by simp
  then show "b = b'" using assms(4) by simp
qed

lemma appendInt_inj: "0 \<le> x \<Longrightarrow> 0 \<le> y \<Longrightarrow> appendInt x w = appendInt y w \<longleftrightarrow> x = y"
  by (metis appendInt_nonneg(2))

lemma pad0_inj: "0 \<le> x \<Longrightarrow> 0 \<le> y \<Longrightarrow> pad0 w x = pad0 w y \<longleftrightarrow> x = y"
  by (rule iffI, drule arg_cong [of _ _ dec_val]) (simp_all add: pad0_def Let_def dec_val_append)

lemma int_to_dec_nonneg: "0 \<le> x \<Longrightarrow> all_digits (int_to_dec x)" "0 \<le> x \<Longrightarrow> int (dec_val (int_to_dec x)) = x"
  by (simp_all add: int_to_dec_def)

lemma Format_month_inj:
  assumes "0 \<le> y" "0 \<le> y'" "0 \<le> m" "0 \<le> m'"
  shows "Format_month (y, m, d) = Format_month (y', m', d') \<longleftrightarrow> y = y' \<and> m = m'"
proof
  assume "Format_month (y, m, d) = Format_month (y', m', d')"
  then have "appendInt y 4 @ CHR ''-'' # appendInt m 2 = appendInt y' 4 @ CHR ''-'' # appendInt m' 2"
    by (simp add: Format_month_def)
  from digits_prefix_inj [OF _ _ _ this] show "y = y' \<and> m = m'"
    using assms by (simp add: appendInt_nonneg appendInt_inj)
qed (simp add: Format_month_def)

lemma Format_date_inj:
  assumes "0 \<le> y" "0 \<le> y'" "0 \<le> m" "0 \<le> m'" "0 \<le> d" "0 \<le> d'"
  shows "Format_date (y, m, d) = Format_date (y', m', d') \<longleftrightarrow> (y, m, d) = (y', m', d')"
proof
  assume "Format_date (y, m, d) = Format_date (y', m', d')"
  then have e: "appendInt y 4 @ CHR ''-'' # (appendInt m 2 @ CHR ''-'' # appendInt d 2)
     = appendInt y' 4 @ CHR ''-'' # (appendInt m' 2 @ CHR ''-'' # appendInt d' 2)"
    by (simp add: Format_date_def)
  have y: "y = y'" and e': "appendInt m 2 @ CHR ''-'' # appendInt d 2 = appendInt m' 2 @ CHR ''-'' # appendInt d' 2"
    using digits_prefix_inj [OF _ _ _ e] assms by (simp_all add: appendInt_nonneg appendInt_inj)
  show "(y, m, d) = (y', m', d')"
    using y digits_prefix_inj [OF _ _ _ e'] assms by (simp add: appendInt_nonneg appendInt_inj)
qed simp

lemma year_nonneg:
  assumes "- epoch_days \<le> D" "year_yday D = (y, yd)"
  shows "1 \<le> y"
proof (rule ccontr)
  assume "\<not> 1 \<le> y"
  then have "year_start (y + 1) \<le> year_start 1" by (intro year_start_mono) simp
  then show False
    using year_yday_spec [OF assms(2)] year_start_Suc [of y] assms(1) by (simp add: year_start_def)
qed

lemma civil_year_nonneg: "- epoch_days \<le> D \<Longrightarrow> civil D = (y, m, d) \<Longrightarrow> 1 \<le> y"
  using year_nonneg [of D] by (auto simp: civil_def Let_def split: prod.splits)

lemma ISOWeek_nonneg:
  assumes "- epoch_days + 6 \<le> D" "ISOWeek D = (y, w)"
  shows "0 \<le> y" "0 \<le> w"
proof -
  obtain yd where T: "year_yday (week_thursday D) = (y, yd)" and w: "w = yd div 7 + 1"
    using assms(2) by (auto simp: ISOWeek_def split: prod.splits)
  have "- epoch_days \<le> week_thursday D"
    using assms(1) week_monday_bounds(2) [of D] by (simp add: week_thursday_monday)
  then show "0 \<le> y" using year_nonneg [OF _ T] by simp
  show "0 \<le> w" unfolding w using year_yday_spec(2) [OF T] by (simp add: pos_imp_zdiv_nonneg_iff)
qed

lemma periodKey_bucket:
  assumes "- epoch_days + 6 \<le> local_day loc s" "- epoch_days + 6 \<le> local_day loc t"
  shows "periodKey p s (Some loc) = periodKey p t (Some loc)
    \<longleftrightarrow> bucket_first p (local_day loc s) = bucket_first p (local_day loc t)"
proof -
  define D E where "D = local_day loc s" and "E = local_day loc t"
  obtain y m d where c: "civil D = (y, m, d)" by (metis prod.exhaust)
  obtain y' m' d' where c': "civil E = (y', m', d')" by (metis prod.exhaust)
  obtain yw w where i: "ISOWeek D = (yw, w)" by force
  obtain yw' w' where i': "ISOWeek E = (yw', w')" by force
  have ge: "- epoch_days \<le> D" "- epoch_days \<le> E" "- epoch_days + 6 \<le> D" "- epoch_days + 6 \<le> E"
    using assms by (simp_all add: D_def E_def)
  have nn: "0 \<le> y" "0 \<le> y'" "0 \<le> m" "0 \<le> m'" "0 \<le> d" "0 \<le> d'"
    using civil_year_nonneg [OF ge(1) c] civil_year_nonneg [OF ge(2) c'] civil_range [OF c]
      civil_range [OF c'] by simp_all
  show ?thesis
  proof (cases p)
    case periodDaily
    have "civil D = civil E \<longleftrightarrow> D = E" using civil_inj by blast
    then show ?thesis
      using Format_date_inj [OF nn] periodDaily c c' by (simp add: tz_or_UTC_def flip: D_def E_def)
  next
    case periodWeekly
    note wn = ISOWeek_nonneg [OF ge(3) i] ISOWeek_nonneg [OF ge(4) i']
    have "int_to_dec yw @ CHR ''-'' # CHR ''W'' # pad0 2 w = int_to_dec yw' @ CHR ''-'' # CHR ''W'' # pad0 2 w'
      \<longleftrightarrow> yw = yw' \<and> w = w'" (is "?l = ?r \<longleftrightarrow> _")
    proof
      assume e: "?l = ?r"
      have "int_to_dec yw = int_to_dec yw'" "w = w'"
        using digits_prefix_inj [OF _ _ _ e] wn by (simp_all add: int_to_dec_nonneg pad0_inj)
      then show "yw = yw' \<and> w = w'" using wn int_to_dec_nonneg(2) by metis
    qed simp
    then show ?thesis
      using ISOWeek_monday [of D E] periodWeekly i i' by (simp add: tz_or_UTC_def flip: D_def E_def)
  next
    case periodMonthly
    have "days_of_civil y m 1 = days_of_civil y' m' 1 \<longleftrightarrow> y = y' \<and> m = m'"
      using month_first_inj [OF c c'] by blast
    then show ?thesis
      using Format_month_inj [OF nn(1-4), of d d'] periodMonthly c c'
      by (simp add: tz_or_UTC_def flip: D_def E_def)
  qed
qed

section \<open>Properties\<close>

definition real_zone :: "int \<Rightarrow> bool" where
  "real_zone off \<longleftrightarrow> - 86400 \<le> off \<and> off \<le> 86400"

lemma local_day_after_epoch:
  assumes "real_zone off" "0 \<le> t"
  shows "- epoch_days + 6 \<le> local_day (fixed_zone off) t"
proof -
  have "midnight off (- 1) \<le> t"
    using assms by (simp add: midnight_def real_zone_def second_def)
  then have "- 1 \<le> local_day (fixed_zone off) t" by (simp add: midnight_le_iff)
  then show ?thesis by (simp add: epoch_days_def)
qed

text \<open>
  In a zone with a fixed offset, for instants after the epoch, two payments share the bucket
  name of a period exactly when they share its roll-over instant; a payment falls strictly before
  the roll-over of its own bucket; every instant from it up to the roll-over is in the same
  bucket; and the roll-over instant itself is in another one. So the Redis key expires exactly when
  the bucket it counts ends.
\<close>

theorem periodKey_is_interval:
  assumes "real_zone off" "0 \<le> s" "0 \<le> t"
  shows "(periodKey p s (Some (fixed_zone off)) = periodKey p t (Some (fixed_zone off))
           \<longleftrightarrow> nextReset p s (Some (fixed_zone off)) = nextReset p t (Some (fixed_zone off)))
    \<and> s < nextReset p s (Some (fixed_zone off))
    \<and> (s \<le> t \<and> t < nextReset p s (Some (fixed_zone off))
         \<longrightarrow> periodKey p t (Some (fixed_zone off)) = periodKey p s (Some (fixed_zone off)))
    \<and> periodKey p (nextReset p s (Some (fixed_zone off))) (Some (fixed_zone off))
         \<noteq> periodKey p s (Some (fixed_zone off))"
proof -
  let ?z = "fixed_zone off"
  define D E where "D = local_day ?z s" and "E = local_day ?z t"
  note big = local_day_after_epoch [OF assms(1,2)] local_day_after_epoch [OF assms(1,3)]
  have N: "nextReset p s (Some ?z) = midnight off (bucket_next p D)"
    "nextReset p t (Some ?z) = midnight off (bucket_next p E)"
    by (simp_all add: nextReset_midnight D_def E_def)
  have key: "periodKey p s (Some ?z) = periodKey p t (Some ?z) \<longleftrightarrow> bucket_first p D = bucket_first p E"
    using periodKey_bucket [OF big] by (simp add: D_def E_def)
  have lt: "s < midnight off (bucket_next p D)"
    by (simp add: less_midnight_iff D_def bucket_bounds(2))
  have same: "bucket_first p E = bucket_first p D" if "s \<le> t" "t < midnight off (bucket_next p D)"
    using that bucket_eqI(1) [of p D E] bucket_bounds(1) [of p D] local_day_mono [of s t off]
    by (simp add: less_midnight_iff D_def E_def)
  let ?n = "midnight off (bucket_next p D)"
  have "bucket_first p (bucket_next p D) \<noteq> bucket_first p D"
    using bucket_next_eq_iff [of p "bucket_next p D" D] bucket_bounds(2) [of "bucket_next p D" p] by auto
  moreover have "- epoch_days + 6 \<le> bucket_next p D"
    using big(1) bucket_bounds(2) [of D p] by (simp add: D_def)
  ultimately have "periodKey p ?n (Some ?z) \<noteq> periodKey p s (Some ?z)"
    using periodKey_bucket [of ?z ?n s p] big(1) by (simp add: D_def)
  then show ?thesis
    using key lt same by (auto simp: N midnight_inj bucket_next_eq_iff)
qed

theorem periodKey_is_interval_witness:
  "real_zone 0
   \<and> periodKey periodWeekly 1700000000000000000 (Some (fixed_zone 0)) = ''weekly:2023-W46''
   \<and> nextReset periodWeekly 1700000000000000000 (Some (fixed_zone 0)) = 1700438400000000000
   \<and> periodKey periodWeekly 1700438400000000000 (Some (fixed_zone 0))
       \<noteq> periodKey periodWeekly 1700000000000000000 (Some (fixed_zone 0))"
proof -
  let ?t = "1700000000000000000 :: int"
  have k: "periodKey periodWeekly ?t (Some (fixed_zone 0)) = ''weekly:2023-W46''" by code_simp
  have n: "nextReset periodWeekly ?t (Some (fixed_zone 0)) = 1700438400000000000"
    by (simp add: nextReset_midnight midnight_def local_day_fixed week_monday_def second_def
        del: nextReset.simps)
  have z: "real_zone 0" by (simp add: real_zone_def)
  have "periodKey periodWeekly (nextReset periodWeekly ?t (Some (fixed_zone 0))) (Some (fixed_zone 0))
      \<noteq> periodKey periodWeekly ?t (Some (fixed_zone 0))"
    using periodKey_is_interval [OF z, of ?t ?t periodWeekly] by simp
  then show ?thesis using k n z by (simp del: periodKey.simps nextReset.simps)
qed

text \<open>
  The distance to the next Monday is between one and seven days, and adding it to a day
  always lands on a Monday.
\<close>

theorem daysUntilMonday_lands_on_monday:
  "1 \<le> daysUntilMonday (weekday D) \<and> daysUntilMonday (weekday D) \<le> 7
   \<and> weekday (D + daysUntilMonday (weekday D)) = 1"
proof -
  obtain q where q: "q = (D + 3) div 7" by blast
  have "week_monday D = 7 * q - 3"
    using mult_div_mod_eq [of 7 "D + 3"] unfolding week_monday_def q by (simp only:)
  then have "weekday (week_monday D + 7) = 1"
    unfolding weekday_def by (intro mod_cycle [of _ _ "q + 1"]) simp_all
  then show ?thesis
    using daysUntilMonday_weekday [of D] week_monday_bounds [of D] by simp
qed

end
