(* ===== verification/Env.thy ===== *)
theory Env
  imports Queries Limits_Period
begin

text \<open>
  What a request reads from outside the program. A value of \<open>env\<close> belongs to one request (or one
  tick of a worker) and answers, per call site (the name of the call and, inside a loop, the key of the row it is for), what the clock shows, which identifier \<open>id.New\<close>
  returns, what \<open>crypto/rand\<close> yields and whether a database call fails. \<open>MarshalJSON\<close> (pgx) and \<open>LoadLocation\<close> (the time zone
  database) are code outside the repository.
\<close>

record env =
  clock :: "string \<Rightarrow> string \<Rightarrow> time"
  fresh_id :: "string \<Rightarrow> string \<Rightarrow> string"
  fault :: "string \<Rightarrow> string \<Rightarrow> db_error option"
  rand_bytes :: "string \<Rightarrow> string \<Rightarrow> nat \<Rightarrow> string + bytes"
  pg :: pg_driver
  MarshalJSON :: "numeric \<Rightarrow> string option"
  LoadLocation :: "string \<Rightarrow> location option"

text \<open>An environment for concrete runs: the clock stands at \<open>t\<close>, nothing fails, an id names its
  row and a numeric column prints six decimals.\<close>

definition calm_env :: "time \<Rightarrow> env" where
  "calm_env t =
     \<lparr> clock = (\<lambda>_ _. t), fresh_id = (\<lambda>site key. site @ key), fault = (\<lambda>_ _. None),
       rand_bytes = (\<lambda>_ _ n. Inr (replicate n CHR ''r'')),
       pg = \<lparr> pg_numeric_text = Some, pg_numeric_col = Some \<rparr>,
       MarshalJSON = (\<lambda>n. case n of Numeric i e \<Rightarrow> (if e = 0 then Some (int_to_dec i @ ''.000000'') else None) | _ \<Rightarrow> None),
       LoadLocation = (\<lambda>_. None) \<rparr>"

section \<open>Formatting\<close>

text \<open>\<open>t.UTC().Format(time.RFC3339)\<close>.\<close>

definition Format_RFC3339_UTC :: "time \<Rightarrow> string" where
  "Format_RFC3339_UTC t =
     (let s = clock_of UTC t in
      Format_date (civil (local_day UTC t)) @ ''T'' @ appendInt (s div 3600) 2 @ '':''
      @ appendInt (s mod 3600 div 60) 2 @ '':'' @ appendInt (s mod 60) 2 @ ''Z'')"

text \<open>\<open>%q\<close> on ASCII text: quotes, backslashes and control characters are escaped.\<close>

definition hex_digit :: "nat \<Rightarrow> char" where
  "hex_digit n = (if n < 10 then char_of (48 + n) else char_of (87 + n))"

definition quote_char :: "char \<Rightarrow> string" where
  "quote_char c =
     (let n = (of_char c :: nat) in
      if n = 34 then [CHR 92, CHR 34] else if n = 92 then [CHR 92, CHR 92]
      else if n = 7 then [CHR 92, CHR ''a''] else if n = 8 then [CHR 92, CHR ''b'']
      else if n = 12 then [CHR 92, CHR ''f''] else if n = 10 then [CHR 92, CHR ''n'']
      else if n = 13 then [CHR 92, CHR ''r''] else if n = 9 then [CHR 92, CHR ''t'']
      else if n = 11 then [CHR 92, CHR ''v'']
      else if n < 32 \<or> n = 127 then [CHR 92, CHR ''x'', hex_digit (n div 16), hex_digit (n mod 16)]
      else [c])"

definition go_quote :: "string \<Rightarrow> string" where
  "go_quote s = [CHR 34] @ concat (map quote_char s) @ [CHR 34]"

end
