(* ===== verification/Webhook_Publisher.thy ===== *)
theory Webhook_Publisher
  imports Env
begin

text \<open>
  \<open>internal/webhooks\<close>: the event catalogue (\<open>events.go\<close>), the publisher that fans an event out
  to the subscribed endpoints (\<open>publisher.go\<close>), the adapter the limits engine calls
  (\<open>limits_emitter.go\<close>) and the signature (\<open>signing.go\<close>). HMAC-SHA256 is a parameter.
\<close>

section \<open>events.go\<close>

definition EventOnrampCompleted :: string where "EventOnrampCompleted = ''onramp.completed''"
definition EventOnrampFailed :: string where "EventOnrampFailed = ''onramp.failed''"
definition EventTransactionSucceeded :: string where "EventTransactionSucceeded = ''transaction.succeeded''"
definition EventTransactionFailed :: string where "EventTransactionFailed = ''transaction.failed''"
definition EventSessionKeyCreated :: string where "EventSessionKeyCreated = ''session_key.created''"
definition EventSessionKeyRevoked :: string where "EventSessionKeyRevoked = ''session_key.revoked''"
definition EventWalletGroupCreated :: string where "EventWalletGroupCreated = ''wallet_group.created''"
definition EventLimitExceeded :: string where "EventLimitExceeded = ''limit.exceeded''"

record ResourceRefs =
  rr_WalletID :: string
  rr_GroupID :: string
  rr_TransactionID :: string
  rr_OnrampOrderID :: string
  rr_SessionKeyID :: string

definition no_refs :: ResourceRefs where
  "no_refs = \<lparr> rr_WalletID = [], rr_GroupID = [], rr_TransactionID = [], rr_OnrampOrderID = [], rr_SessionKeyID = [] \<rparr>"

section \<open>publisher.go\<close>

definition endpointSubscribed :: "WebhookEndpoint \<Rightarrow> string \<Rightarrow> bool" where
  "endpointSubscribed ep eventType =
     (if we_SubscribedEvents ep = JEmpty \<or> we_SubscribedEvents ep = JVal (JArr []) then True
      else (case unmarshal_strings (we_SubscribedEvents ep) of
              None \<Rightarrow> False
            | Some l \<Rightarrow> list_ex (\<lambda>s. s = eventType) l))"

definition new_event ::
    "env \<Rightarrow> string \<Rightarrow> string \<Rightarrow> jsonb \<Rightarrow> ResourceRefs \<Rightarrow> WebhookEndpoint \<Rightarrow> WebhookEvent" where
  "new_event e tenantID eventType body refs ep =
     \<lparr> ev_ID = fresh_id e ''Publish.evt'' (we_ID ep), ev_TenantID = tenantID, ev_EndpointID = pgxText (we_ID ep),
       ev_EventType = eventType, ev_EventData = body,
       ev_RelatedWalletID = pgxText (rr_WalletID refs), ev_RelatedGroupID = pgxText (rr_GroupID refs),
       ev_RelatedTransactionID = pgxText (rr_TransactionID refs),
       ev_RelatedOnrampOrderID = pgxText (rr_OnrampOrderID refs),
       ev_RelatedSessionKeyID = pgxText (rr_SessionKeyID refs),
       ev_Status = ''pending'', ev_Attempts = 0, ev_NextAttemptAt = clock e ''Publish.now'' (we_ID ep),
       ev_LastResponseCode = None, ev_LastResponseBody = None, ev_LastError = None, ev_DeliveredAt = None,
       ev_SignatureVersion = Some (we_SecretVersion ep), ev_Metadata = empty_object,
       ev_CreatedAt = 0, ev_UpdatedAt = 0 \<rparr>"

fun publish_loop ::
    "env \<Rightarrow> string \<Rightarrow> string \<Rightarrow> jsonb \<Rightarrow> ResourceRefs \<Rightarrow> WebhookEndpoint list \<Rightarrow> int \<Rightarrow> db \<Rightarrow> int \<times> db" where
  "publish_loop e tenantID eventType body refs [] inserted d = (inserted, d)"
| "publish_loop e tenantID eventType body refs (ep # eps) inserted d =
     (if \<not> endpointSubscribed ep eventType then publish_loop e tenantID eventType body refs eps inserted d
      else (case db_write (fault e ''Publish.CreateWebhookEvent'' (we_ID ep)) d
                   (CreateWebhookEvent (clock e ''Publish.sqlnow'' (we_ID ep))
                      (new_event e tenantID eventType body refs ep) d) of
              (Inl _, d') \<Rightarrow> publish_loop e tenantID eventType body refs eps inserted d'
            | (Inr _, d') \<Rightarrow> publish_loop e tenantID eventType body refs eps (inserted + 1) d'))"

datatype publish_error = MarshalError | ListSubscribersError db_error

definition Publish ::
    "env \<Rightarrow> string \<Rightarrow> string \<Rightarrow> json option \<Rightarrow> ResourceRefs \<Rightarrow> db \<Rightarrow> (publish_error + int) \<times> db" where
  "Publish e tenantID eventType data refs d =
     (case data of
        None \<Rightarrow> (Inl MarshalError, d)
      | Some j \<Rightarrow>
          (case db_read (fault e ''Publish.ListActiveEndpointsForTenant'' []) (Inr (ListActiveEndpointsForTenant tenantID d)) of
             Inl err \<Rightarrow> (Inl (ListSubscribersError err), d)
           | Inr endpoints \<Rightarrow>
               (case publish_loop e tenantID eventType (JVal j) refs endpoints 0 d of
                  (inserted, d') \<Rightarrow> (Inr inserted, d'))))"

section \<open>limits\_emitter.go\<close>

record limit_exceeded_args =
  le_tenantID :: string
  le_policyID :: string
  le_violationType :: string
  le_walletID :: string
  le_sessionKeyID :: string
  le_attemptedAmount :: string
  le_asset :: string
  le_recipient :: string

definition limit_exceeded_payload :: "limit_exceeded_args \<Rightarrow> json" where
  "limit_exceeded_payload a = JObj
     [(''policy_id'', JStr (le_policyID a)), (''violation_type'', JStr (le_violationType a)),
      (''wallet_id'', JStr (le_walletID a)), (''session_key_id'', JStr (le_sessionKeyID a)),
      (''attempted_amount'', JStr (le_attemptedAmount a)), (''asset'', JStr (le_asset a)),
      (''attempted_recipient'', JStr (le_recipient a))]"

definition EmitLimitExceeded :: "env \<Rightarrow> limit_exceeded_args \<Rightarrow> db \<Rightarrow> db" where
  "EmitLimitExceeded e a d =
     snd (Publish e (le_tenantID a) EventLimitExceeded (Some (limit_exceeded_payload a))
            (no_refs\<lparr>rr_WalletID := le_walletID a, rr_SessionKeyID := le_sessionKeyID a\<rparr>) d)"

section \<open>signing.go\<close>

fun hex_encode :: "bytes \<Rightarrow> string" where
  "hex_encode [] = []"
| "hex_encode (c # s) = hex_digit (of_char c div 16) # hex_digit (of_char c mod 16) # hex_encode s"

definition from_hex :: "char \<Rightarrow> nat option" where
  "from_hex c =
     (let n = (of_char c :: nat) in
      if 48 \<le> n \<and> n \<le> 57 then Some (n - 48) else if 97 \<le> n \<and> n \<le> 102 then Some (n - 87)
      else if 65 \<le> n \<and> n \<le> 70 then Some (n - 55) else None)"

fun hex_decode :: "string \<Rightarrow> bytes option" where
  "hex_decode [] = Some []"
| "hex_decode [c] = None"
| "hex_decode (a # b # s) =
     (case (from_hex a, from_hex b, hex_decode s) of
        (Some x, Some y, Some r) \<Rightarrow> Some (char_of (16 * x + y) # r)
      | _ \<Rightarrow> None)"

definition Sign :: "(bytes \<Rightarrow> bytes \<Rightarrow> bytes) \<Rightarrow> bytes \<Rightarrow> bytes \<Rightarrow> string" where
  "Sign hmac_sha256 secret body = hex_encode (hmac_sha256 secret body)"

definition Verify :: "(bytes \<Rightarrow> bytes \<Rightarrow> bytes) \<Rightarrow> bytes \<Rightarrow> bytes \<Rightarrow> string \<Rightarrow> bool" where
  "Verify hmac_sha256 secret body signatureHex =
     (case hex_decode signatureHex of None \<Rightarrow> False | Some want \<Rightarrow> want = hmac_sha256 secret body)"

section \<open>Publishing touches nothing but the event table\<close>

definition add_events :: "WebhookEvent list \<Rightarrow> db \<Rightarrow> db" where
  "add_events evs d = d\<lparr>webhook_events := webhook_events d @ evs\<rparr>"

lemma add_events_Nil [simp]: "add_events [] d = d"
  by (simp add: add_events_def)

lemma add_events_add [simp]: "add_events ys (add_events xs d) = add_events (xs @ ys) d"
  by (simp add: add_events_def)

lemma add_events_sel [simp]:
  "webhook_events (add_events evs d) = webhook_events d @ evs"
  "tenants (add_events evs d) = tenants d" "users (add_events evs d) = users d"
  "api_keys (add_events evs d) = api_keys d" "wallet_groups (add_events evs d) = wallet_groups d"
  "wallets (add_events evs d) = wallets d" "transactions (add_events evs d) = transactions d"
  "onramp_orders (add_events evs d) = onramp_orders d" "limit_policies (add_events evs d) = limit_policies d"
  "session_keys (add_events evs d) = session_keys d" "limit_violations (add_events evs d) = limit_violations d"
  "limit_violations_seq (add_events evs d) = limit_violations_seq d"
  "webhook_endpoints (add_events evs d) = webhook_endpoints d"
  "virtual_addresses (add_events evs d) = virtual_addresses d"
  by (simp_all add: add_events_def)

text \<open>The row an \<open>INSERT\<close> stores.\<close>

definition stamp_event :: "time \<Rightarrow> WebhookEvent \<Rightarrow> WebhookEvent" where
  "stamp_event now a = a\<lparr>ev_LastResponseCode := None, ev_LastResponseBody := None, ev_LastError := None,
     ev_DeliveredAt := None, ev_CreatedAt := now, ev_UpdatedAt := now\<rparr>"

definition event_insertable :: "WebhookEvent \<Rightarrow> db \<Rightarrow> bool" where
  "event_insertable a d \<longleftrightarrow> json_ok (ev_EventData a) \<and> json_ok (ev_Metadata a) \<and> event_check a
     \<and> \<not> exists_row ev_ID (ev_ID a) (webhook_events d)
     \<and> exists_row tn_ID (ev_TenantID a) (tenants d) \<and> fk_opt we_ID (ev_EndpointID a) (webhook_endpoints d)"

lemma CreateWebhookEvent_ok:
  "event_insertable a d \<Longrightarrow> CreateWebhookEvent now a d = (Inr (stamp_event now a), add_events [stamp_event now a] d)"
  by (simp add: CreateWebhookEvent_def event_insertable_def stamp_event_def add_events_def event_check_def Let_def)

lemma CreateWebhookEvent_fail:
  "\<not> event_insertable a d \<Longrightarrow> \<exists>err. CreateWebhookEvent now a d = (Inl err, d)"
  by (auto simp: CreateWebhookEvent_def event_insertable_def event_check_def Let_def)

lemma publish_step:
  "\<exists>evs r. db_write f d (CreateWebhookEvent now a d) = (r, add_events evs d)
     \<and> (evs = [] \<or> evs = [stamp_event now a])"
proof (cases f)
  case None
  then show ?thesis
    using CreateWebhookEvent_ok [of a d now] CreateWebhookEvent_fail [of a d now] add_events_Nil by (metis db_write_simps(1))
qed (use add_events_Nil in \<open>metis db_write_simps(2)\<close>)

lemma publish_loop_frame:
  "\<exists>evs n'. publish_loop e t ty body refs eps n d = (n', add_events evs d)
     \<and> (\<forall>v \<in> set evs. ev_TenantID v = t \<and> ev_Status v = ''pending'' \<and> ev_Attempts v = 0)"
proof (induction eps arbitrary: n d)
  case Nil
  then show ?case by (intro exI [of _ "[]"]) simp
next
  case (Cons ep eps)
  show ?case
  proof (cases "endpointSubscribed ep ty")
    case False
    then show ?thesis using Cons.IH [of n d] by simp
  next
    case True
    let ?now = "clock e ''Publish.sqlnow'' (we_ID ep)" and ?a = "new_event e t ty body refs ep"
    let ?w = "db_write (fault e ''Publish.CreateWebhookEvent'' (we_ID ep)) d (CreateWebhookEvent ?now ?a d)"
    obtain xs r where w: "?w = (r, add_events xs d)" and xs: "xs = [] \<or> xs = [stamp_event ?now ?a]"
      using publish_step by blast
    obtain k where k: "publish_loop e t ty body refs (ep # eps) n d = publish_loop e t ty body refs eps k (add_events xs d)"
      using True w by (cases r) auto
    obtain ys n' where "publish_loop e t ty body refs eps k (add_events xs d) = (n', add_events ys (add_events xs d))"
      and ys: "\<forall>v \<in> set ys. ev_TenantID v = t \<and> ev_Status v = ''pending'' \<and> ev_Attempts v = 0"
      using Cons.IH by blast
    then have "publish_loop e t ty body refs (ep # eps) n d = (n', add_events (xs @ ys) d)" by (simp only: k add_events_add)
    moreover have "\<forall>v \<in> set xs. ev_TenantID v = t \<and> ev_Status v = ''pending'' \<and> ev_Attempts v = 0"
      using xs by (auto simp: stamp_event_def new_event_def)
    ultimately show ?thesis using ys by (intro exI [of _ "xs @ ys"]) auto
  qed
qed

lemma Publish_frame:
  "\<exists>evs. snd (Publish e t ty data refs d) = add_events evs d
     \<and> (\<forall>v \<in> set evs. ev_TenantID v = t \<and> ev_Status v = ''pending'' \<and> ev_Attempts v = 0)"
proof (cases data)
  case None
  then show ?thesis by (intro exI [of _ "[]"]) (simp add: Publish_def)
next
  case (Some j)
  show ?thesis
  proof (cases "fault e ''Publish.ListActiveEndpointsForTenant'' []")
    case None
    then show ?thesis
      using publish_loop_frame [of e t ty "JVal j" refs "ListActiveEndpointsForTenant t d" 0 d] Some
      by (auto simp: Publish_def)
  next
    case f: (Some err)
    then show ?thesis using Some by (intro exI [of _ "[]"]) (simp add: Publish_def)
  qed
qed

section \<open>Who receives an event\<close>

definition receivers :: "env \<Rightarrow> string \<Rightarrow> WebhookEndpoint list \<Rightarrow> WebhookEndpoint list" where
  "receivers e ty eps =
     filter (\<lambda>ep. endpointSubscribed ep ty \<and> fault e ''Publish.CreateWebhookEvent'' (we_ID ep) = None) eps"

definition published :: "env \<Rightarrow> string \<Rightarrow> string \<Rightarrow> jsonb \<Rightarrow> ResourceRefs \<Rightarrow> WebhookEndpoint \<Rightarrow> WebhookEvent" where
  "published e t ty body refs ep =
     stamp_event (clock e ''Publish.sqlnow'' (we_ID ep)) (new_event e t ty body refs ep)"

text \<open>The ids \<open>id.New\<close> returns for the endpoints are new and pairwise different.\<close>

definition ids_fresh :: "env \<Rightarrow> WebhookEndpoint list \<Rightarrow> db \<Rightarrow> bool" where
  "ids_fresh e eps d \<longleftrightarrow>
     distinct (map (\<lambda>ep. fresh_id e ''Publish.evt'' (we_ID ep)) eps)
     \<and> (\<forall>ep \<in> set eps. \<not> exists_row ev_ID (fresh_id e ''Publish.evt'' (we_ID ep)) (webhook_events d))"

lemma ids_fresh_Cons:
  assumes "ids_fresh e (ep # eps) d" "xs = [] \<or> xs = [v]" "ev_ID v = fresh_id e ''Publish.evt'' (we_ID ep)"
  shows "ids_fresh e eps (add_events xs d)"
  using assms by (auto simp: ids_fresh_def exists_row_iff image_iff)

lemma published_ID [simp]: "ev_ID (published e t ty body refs ep) = fresh_id e ''Publish.evt'' (we_ID ep)"
  by (simp add: published_def stamp_event_def new_event_def)

lemma new_event_insertable:
  assumes "json_ok body" "exists_row tn_ID t (tenants d)" "exists_row we_ID (we_ID ep) (webhook_endpoints d)"
    "ids_fresh e (ep # eps) d"
  shows "event_insertable (new_event e t ty body refs ep) d"
  using assms by (auto simp: event_insertable_def new_event_def event_check_def fk_opt_def pgxText_def ids_fresh_def)

lemma publish_loop_exact:
  assumes "json_ok body" "exists_row tn_ID t (tenants d)"
    "\<forall>ep \<in> set eps. exists_row we_ID (we_ID ep) (webhook_endpoints d)" "ids_fresh e eps d"
  shows "publish_loop e t ty body refs eps n d =
    (n + int (length (receivers e ty eps)), add_events (map (published e t ty body refs) (receivers e ty eps)) d)"
  using assms(2-4)
proof (induction eps arbitrary: n d)
  case (Cons ep eps)
  have ins: "event_insertable (new_event e t ty body refs ep) d"
    using new_event_insertable [OF assms(1)] Cons.prems by simp
  let ?v = "published e t ty body refs ep"
  have step: "CreateWebhookEvent (clock e ''Publish.sqlnow'' (we_ID ep)) (new_event e t ty body refs ep) d
      = (Inr ?v, add_events [?v] d)"
    using CreateWebhookEvent_ok [OF ins] by (simp add: published_def)
  have fr: "ids_fresh e eps d" "ids_fresh e eps (add_events [?v] d)"
    using ids_fresh_Cons [OF Cons.prems(3), of "[]" ?v] ids_fresh_Cons [OF Cons.prems(3), of "[?v]" ?v] by simp_all
  show ?case
    using Cons.IH [of d n] Cons.IH [of d "n + 1"] Cons.IH [of "add_events [?v] d" "n + 1"] Cons.prems fr step
    by (cases "fault e ''Publish.CreateWebhookEvent'' (we_ID ep)") (simp_all add: receivers_def)
qed (simp add: receivers_def)

text \<open>
  C17: a published event reaches exactly the endpoints of the tenant that are active and subscribed
  (an empty list subscribes to everything) and whose insert does not fail: one new pending row
  each, in the order of the table, and the count returned is their number. No other table changes.
\<close>

theorem Publish_fans_out:
  assumes "exists_row tn_ID t (tenants d)" "ids_fresh e (ListActiveEndpointsForTenant t d) d"
    "fault e ''Publish.ListActiveEndpointsForTenant'' [] = None"
  shows "Publish e t ty (Some j) refs d =
    (Inr (int (length (receivers e ty (ListActiveEndpointsForTenant t d)))),
     add_events (map (published e t ty (JVal j) refs) (receivers e ty (ListActiveEndpointsForTenant t d))) d)"
proof -
  have "\<forall>ep \<in> set (ListActiveEndpointsForTenant t d). exists_row we_ID (we_ID ep) (webhook_endpoints d)"
    by (auto simp: ListActiveEndpointsForTenant_def exists_row_iff)
  then show ?thesis
    using publish_loop_exact [of "JVal j" t d "ListActiveEndpointsForTenant t d" e ty refs 0] assms
    by (simp add: Publish_def)
qed

definition demo_tenant :: Tenant where
  "demo_tenant = \<lparr> tn_ID = ''tn'', tn_Name = ''Acme'', tn_PrimaryEmail = ''a@b'', tn_Plan = ''free'',
     tn_Status = ''active'', tn_Metadata = empty_object, tn_CreatedAt = 0, tn_UpdatedAt = 0 \<rparr>"

definition demo_endpoint :: "string \<Rightarrow> string list \<Rightarrow> string \<Rightarrow> WebhookEndpoint" where
  "demo_endpoint i evs st = \<lparr> we_ID = i, we_TenantID = ''tn'', we_Url = ''https://x'', we_Secret = ''k'',
     we_SecretVersion = 1, we_SubscribedEvents = marshal_strings evs, we_Status = st, we_Description = None,
     we_LastSuccessAt = None, we_LastFailureAt = None, we_ConsecutiveFailures = 0, we_Metadata = empty_object,
     we_CreatedAt = 0, we_UpdatedAt = 0 \<rparr>"

definition demo_hooks :: db where
  "demo_hooks = empty_db\<lparr>tenants := [demo_tenant], webhook_endpoints :=
     [demo_endpoint ''we1'' [] ''active'', demo_endpoint ''we2'' [''limit.exceeded''] ''active'',
      demo_endpoint ''we3'' [''onramp.completed''] ''active'', demo_endpoint ''we4'' [] ''paused'']\<rparr>"

lemmas demo_hooks_defs =
  demo_hooks_def demo_endpoint_def demo_tenant_def empty_db_def marshal_strings_def calm_env_def

theorem Publish_fans_out_witness:
  "fst (Publish (calm_env 0) ''tn'' ''limit.exceeded'' (Some JNull) no_refs demo_hooks) = Inr 2"
  using Publish_fans_out [of "''tn''" demo_hooks "calm_env 0" "''limit.exceeded''" JNull no_refs]
  by (simp add: demo_hooks_defs exists_row_def ids_fresh_def ListActiveEndpointsForTenant_def receivers_def
      endpointSubscribed_def)

section \<open>Signatures\<close>

lemma from_hex_hex_digit: "n < 16 \<Longrightarrow> from_hex (hex_digit n) = Some n"
proof -
  assume "n < 16"
  then have "n \<in> set [0..<16]" by simp
  then show ?thesis by (auto simp: upt_rec hex_digit_def from_hex_def)
qed

lemma hex_decode_encode: "hex_decode (hex_encode s) = Some s"
proof (induction s)
  case (Cons c s)
  have "(of_char c :: nat) < 256" using nat_of_char_less_256 by simp
  then have "(of_char c div 16 :: nat) < 16" by (simp add: div_less_iff_less_mult)
  then show ?case using Cons by (simp add: from_hex_hex_digit)
qed simp

text \<open>
  A signature is accepted by \<open>Verify\<close> under the secret and body it was made from, and the
  signature of a body is accepted for another body or secret only when the HMACs coincide.
\<close>

theorem Verify_Sign:
  "Verify hmac secret' body' (Sign hmac secret body) \<longleftrightarrow> hmac secret body = hmac secret' body'"
  by (simp add: Verify_def Sign_def hex_decode_encode)

end
