(* ===== verification/Decimal.thy ===== *)
theory Decimal
  imports Schema
begin

text \<open>
  Decimal amounts as text and as integers: \<open>scaleToMicros\<close>, \<open>microsToDecimal\<close>,
  \<open>numericToString\<close> and \<open>numericToMicros\<close> of \<open>internal/limits\<close>, and the independent pair
  \<open>parseUnits\<close> / \<open>formatUnits\<close> of \<open>internal/adapters/tempo/adapter.go\<close>. The lemmas give the
  value of every well-formed decimal, the round trips, and the agreement of the two parsers: the
  amount that is charged against a cap is the amount that is put on the chain.
\<close>

section \<open>internal/limits/counter.go\<close>

definition microScale :: int where "microScale = 1000000"

datatype scale_error =
  EmptyAmount | NegativeAmount | TooManyDecimals string | NotNumeric string | OverflowsInt64 string

definition scaleToMicros :: "string \<Rightarrow> scale_error + int" where
  "scaleToMicros raw =
     (let decimal = TrimSpace raw in
      if decimal = [] then Inl EmptyAmount
      else if HasPrefix decimal ''-'' then Inl NegativeAmount
      else
        (case Cut CHR ''.'' decimal of (intPart, frac0, hasDot) \<Rightarrow>
         let fracPart = (if hasDot then frac0 else []) in
         if 6 < length fracPart then Inl (TooManyDecimals decimal)
         else
           let combined = TrimLeft CHR ''0'' (intPart @ fracPart @ replicate (6 - length fracPart) CHR ''0'') in
           if combined = [] then Inr 0
           else (case big_SetString combined of
                   None \<Rightarrow> Inl (NotNumeric decimal)
                 | Some n \<Rightarrow> if is_int64 n then Inr n else Inl (OverflowsInt64 decimal))))"

text \<open>Go's \<open>/\<close> and \<open>%\<close> truncate towards zero.\<close>

definition go_quot :: "int \<Rightarrow> int \<Rightarrow> int" where
  "go_quot a b = (if a < 0 then - ((- a) div b) else a div b)"

definition go_rem :: "int \<Rightarrow> int \<Rightarrow> int" where
  "go_rem a b = (if a < 0 then - ((- a) mod b) else a mod b)"

definition microsToDecimal :: "int \<Rightarrow> string" where
  "microsToDecimal m =
     (if m = 0 then ''0''
      else
        (let intPart = go_quot m microScale; frac = go_rem m microScale in
         if frac = 0 then int_to_dec intPart
         else TrimRight CHR ''0'' (int_to_dec intPart @ ''.'' @ pad0 6 frac)))"

section \<open>internal/limits/helpers.go\<close>

text \<open>
  \<open>numericToString\<close> on the two column types it is called with. \<open>MarshalJSON\<close> is the method of
  pgx's \<open>pgtype.Numeric\<close>, a parameter (\<open>None\<close> when it returns an error); a surrounding pair of
  quotes is removed.
\<close>

datatype numeric_col = ColString string | ColNumeric "numeric option"

definition strip_quotes :: "string \<Rightarrow> string" where
  "strip_quotes s =
     (if 2 \<le> length s \<and> s ! 0 = CHR 34 \<and> s ! (length s - 1) = CHR 34
      then take (length s - 2) (drop 1 s) else s)"

fun numericToString :: "(numeric \<Rightarrow> string option) \<Rightarrow> numeric_col \<Rightarrow> string" where
  "numericToString MarshalJSON (ColString x) = x"
| "numericToString MarshalJSON (ColNumeric None) = []"
| "numericToString MarshalJSON (ColNumeric (Some x)) =
     (case MarshalJSON x of None \<Rightarrow> [] | Some b \<Rightarrow> strip_quotes b)"

definition numericToMicros :: "(numeric \<Rightarrow> string option) \<Rightarrow> numeric_col \<Rightarrow> int" where
  "numericToMicros MarshalJSON v =
     (let s = numericToString MarshalJSON v in
      if s = [] then 0
      else (case scaleToMicros s of Inl _ \<Rightarrow> 0 | Inr m \<Rightarrow> if m < 0 then 0 else m))"

definition parseJSONStringList :: "jsonb \<Rightarrow> string list" where
  "parseJSONStringList raw =
     (if raw = JEmpty then []
      else (case unmarshal_strings raw of None \<Rightarrow> [] | Some out \<Rightarrow> out))"

section \<open>internal/adapters/tempo/adapter.go\<close>

datatype units_error = UEmptyAmount | UNegativeAmount | UFracTooLong nat | UInvalidNumber

definition SplitN2 :: "char \<Rightarrow> string \<Rightarrow> string list" where
  "SplitN2 c s = (case Cut c s of (b, a, found) \<Rightarrow> if found then [b, a] else [b])"

definition parseUnits :: "string \<Rightarrow> nat \<Rightarrow> units_error + int" where
  "parseUnits raw decimals =
     (let amount = TrimSpace raw in
      if amount = [] then Inl UEmptyAmount
      else if HasPrefix amount ''-'' then Inl UNegativeAmount
      else
        (let parts = SplitN2 CHR ''.'' amount;
             intPart = parts ! 0;
             fracPart = (if length parts = 2 then parts ! 1 else []) in
         if decimals < length fracPart then Inl (UFracTooLong decimals)
         else
           (let trimmed = TrimLeft CHR ''0''
                  (intPart @ fracPart @ replicate (decimals - length fracPart) CHR ''0'');
                combined = (if trimmed = [] then ''0'' else trimmed) in
            case big_SetString combined of None \<Rightarrow> Inl UInvalidNumber | Some out \<Rightarrow> Inr out)))"

definition formatUnits :: "int option \<Rightarrow> nat \<Rightarrow> string" where
  "formatUnits n decimals =
     (case n of
        None \<Rightarrow> ''0''
      | Some v \<Rightarrow>
          (let s0 = int_to_dec v;
               s = (if length s0 \<le> decimals then replicate (decimals - length s0 + 1) CHR ''0'' @ s0 else s0);
               cut = length s - decimals;
               intPart = take cut s;
               fracPart = TrimRight CHR ''0'' (drop cut s) in
           if fracPart = [] then intPart else intPart @ ''.'' @ fracPart))"

section \<open>The value of a decimal text\<close>

text \<open>\<open>decimal_value k i f\<close>: the integer \<open>i.f\<close> stands for when scaled by \<open>10 ^ k\<close>.\<close>

definition decimal_value :: "nat \<Rightarrow> string \<Rightarrow> string \<Rightarrow> int" where
  "decimal_value k i f = int (dec_val i * 10 ^ k + dec_val f * 10 ^ (k - length f))"

lemma dot_not_digits: "all_digits s \<Longrightarrow> CHR ''.'' \<notin> set s"
  by (auto simp: all_digits_set)

lemma no_space_decimal:
  assumes "all_digits i" "all_digits f"
  shows "TrimSpace (i @ CHR ''.'' # f) = i @ CHR ''.'' # f"
proof (rule TrimSpace_id)
  show "\<forall>c \<in> set (i @ CHR ''.'' # f). \<not> is_space c"
    using assms is_digit_not_space by (auto simp: all_digits_set is_space_def)
qed

lemma no_space_digits: "all_digits i \<Longrightarrow> TrimSpace i = i"
  by (rule TrimSpace_id) (auto simp: all_digits_set is_digit_not_space)

lemma not_neg_digits: "all_digits i \<Longrightarrow> \<not> HasPrefix (i @ CHR ''.'' # f) ''-''" "all_digits i \<Longrightarrow> \<not> HasPrefix i ''-''"
  by (cases i; auto simp: HasPrefix_def)+

lemma SplitN2_dot: "all_digits i \<Longrightarrow> SplitN2 CHR ''.'' (i @ CHR ''.'' # f) = [i, f]"
  "all_digits i \<Longrightarrow> SplitN2 CHR ''.'' i = [i]"
  by (simp_all add: SplitN2_def Cut_append Cut_none dot_not_digits)

lemma big_SetString_0 [simp]: "big_SetString ''0'' = Some 0"
  by (simp add: big_SetString_def dec_val_Cons is_digit_def)

text \<open>Dropping leading zeros does not change the number that is read.\<close>

lemma trimmed_digits:
  assumes "all_digits s"
  shows "(if TrimLeft CHR ''0'' s = [] then Some 0 else big_SetString (TrimLeft CHR ''0'' s))
         = Some (int (dec_val s))"
proof (cases "TrimLeft CHR ''0'' s = []")
  case True
  then have "dec_val s = 0" using dec_val_dropWhile_0 [of s] unfolding TrimLeft_def by (metis dec_val_Nil)
  then show ?thesis using True by simp
next
  case False
  have "big_SetString (TrimLeft CHR ''0'' s) = Some (int (dec_val (TrimLeft CHR ''0'' s)))"
    using False all_digits_dropWhile [OF assms] by (intro big_SetString_digits) (simp_all add: TrimLeft_def)
  then show ?thesis using False by (simp add: TrimLeft_def del: dropWhile_eq_Nil_conv)
qed

lemma padded_value:
  "length f \<le> k \<Longrightarrow>
   int (dec_val (i @ f @ replicate (k - length f) CHR ''0'')) = decimal_value k i f"
  by (simp add: dec_val_append decimal_value_def algebra_simps flip: power_add)

lemma parseUnits_decimal:
  assumes "all_digits i" "all_digits f" "length f \<le> k"
  shows "parseUnits (i @ CHR ''.'' # f) k = Inr (decimal_value k i f)"
  using assms trimmed_digits [of "i @ f @ replicate (k - length f) CHR ''0''"]
  by (auto simp: parseUnits_def no_space_decimal not_neg_digits SplitN2_dot padded_value Let_def
      big_SetString_digits split: if_splits)

lemma parseUnits_integer:
  assumes "all_digits i" "i \<noteq> []"
  shows "parseUnits i k = Inr (decimal_value k i [])"
  using assms trimmed_digits [of "i @ replicate k CHR ''0''"] padded_value [of "[]" k i]
  by (auto simp: parseUnits_def no_space_digits not_neg_digits SplitN2_dot Let_def
      big_SetString_digits split: if_splits)

text \<open>The two parsers are the same function up to the range check and the zero case.\<close>

definition units_digits :: "nat \<Rightarrow> string \<Rightarrow> string \<Rightarrow> string" where
  "units_digits k i f = TrimLeft CHR ''0'' (i @ f @ replicate (k - length f) CHR ''0'')"

lemma scaleToMicros_alt:
  assumes "Cut CHR ''.'' (TrimSpace s) = (i, f, d)" "TrimSpace s \<noteq> []" "\<not> HasPrefix (TrimSpace s) ''-''"
    "length f \<le> 6"
  shows "scaleToMicros s = Inr n \<longleftrightarrow>
    (if units_digits 6 i f = [] then n = 0
     else big_SetString (units_digits 6 i f) = Some n \<and> is_int64 n)"
proof -
  have "\<not> d \<Longrightarrow> f = []" using Cut_not_found [OF assms(1)] by simp
  then show ?thesis
    using assms by (cases d) (auto simp: scaleToMicros_def units_digits_def Let_def split: option.splits)
qed

lemma parseUnits_alt:
  assumes "Cut CHR ''.'' (TrimSpace s) = (i, f, d)" "TrimSpace s \<noteq> []" "\<not> HasPrefix (TrimSpace s) ''-''"
    "length f \<le> k"
  shows "parseUnits s k = Inr n \<longleftrightarrow>
    (if units_digits k i f = [] then n = 0 else big_SetString (units_digits k i f) = Some n)"
proof -
  have "\<not> d \<Longrightarrow> f = []" using Cut_not_found [OF assms(1)] by simp
  then show ?thesis
    using assms
    by (cases d) (auto simp: parseUnits_def SplitN2_def units_digits_def Let_def split: option.splits)
qed

lemma scale_rejects:
  assumes "Cut CHR ''.'' (TrimSpace s) = (i, f, d)"
    "TrimSpace s = [] \<or> HasPrefix (TrimSpace s) ''-'' \<or> 6 < length f"
  shows "scaleToMicros s \<noteq> Inr n" "parseUnits s 6 \<noteq> Inr n"
proof -
  have "\<not> d \<Longrightarrow> f = []" using Cut_not_found [OF assms(1)] by simp
  then show "scaleToMicros s \<noteq> Inr n" "parseUnits s 6 \<noteq> Inr n"
    using assms by (cases d; auto simp: scaleToMicros_def parseUnits_def SplitN2_def Let_def)+
qed

lemma scale_units_core: "scaleToMicros s = Inr n \<longleftrightarrow> parseUnits s 6 = Inr n \<and> is_int64 n"
proof -
  obtain i f d where c: "Cut CHR ''.'' (TrimSpace s) = (i, f, d)" by (metis prod.exhaust)
  show ?thesis
  proof (cases "TrimSpace s = [] \<or> HasPrefix (TrimSpace s) ''-'' \<or> 6 < length f")
    case True
    then show ?thesis using scale_rejects [OF c] by simp
  next
    case False
    then show ?thesis
      using scaleToMicros_alt [OF c, of n] parseUnits_alt [OF c, of 6 n] by (auto simp: is_int64_def)
  qed
qed

section \<open>Round trips\<close>

lemma decimal_value_trim:
  assumes "length f \<le> k"
  shows "decimal_value k i (TrimRight CHR ''0'' f) = decimal_value k i f"
proof -
  obtain n where n: "f = TrimRight CHR ''0'' f @ replicate n CHR ''0''" using TrimRight_decomp by blast
  define g where "g = TrimRight CHR ''0'' f"
  have f: "f = g @ replicate n CHR ''0''" using n by (simp add: g_def)
  then have "dec_val g * 10 ^ (k - length g) = dec_val f * 10 ^ (k - length f)"
    using assms by (simp add: dec_val_append flip: power_add)
  then show ?thesis unfolding g_def [symmetric] by (simp add: decimal_value_def)
qed

lemma all_digits_TrimRight: "all_digits s \<Longrightarrow> all_digits (TrimRight c s)"
  by (metis TrimRight_decomp all_digits_append)

lemma length_TrimRight: "length (TrimRight c s) \<le> length s"
  by (metis TrimRight_decomp length_append le_add1)

text \<open>Cutting a digit string of length \<open>> k\<close> \<open>k\<close> digits before its end.\<close>

lemma decimal_value_split:
  assumes "k \<le> length s"
  shows "decimal_value k (take (length s - k) s) (drop (length s - k) s) = int (dec_val s)"
  using assms dec_val_append [of "take (length s - k) s" "drop (length s - k) s"]
  by (simp add: decimal_value_def)

lemma parse_split_decimal:
  assumes "all_digits s" "k < length s"
  shows "parseUnits (let f = TrimRight CHR ''0'' (drop (length s - k) s); i = take (length s - k) s
                     in if f = [] then i else i @ ''.'' @ f) k = Inr (int (dec_val s))"
proof -
  let ?i = "take (length s - k) s" and ?f = "drop (length s - k) s"
  have d: "all_digits ?i" "all_digits ?f" using assms(1) by (metis all_digits_append append_take_drop_id)+
  have ne: "?i \<noteq> []" using assms(2) by (cases s) auto
  have len: "length ?f \<le> k" by simp
  have v: "decimal_value k ?i (TrimRight CHR ''0'' ?f) = int (dec_val s)"
    using decimal_value_trim [OF len, of ?i] decimal_value_split [of k s] assms(2) by simp
  have "length (TrimRight CHR ''0'' ?f) \<le> k" using length_TrimRight [of _ ?f] len by (rule le_trans)
  then show ?thesis
    using parseUnits_decimal [OF d(1) all_digits_TrimRight [OF d(2)], of _ k]
      parseUnits_integer [OF d(1) ne, of k] v by (auto simp: Let_def)
qed

lemma parse_format_core: "0 \<le> n \<Longrightarrow> parseUnits (formatUnits (Some n) k) k = Inr n"
proof -
  assume n: "0 \<le> n"
  define s0 where "s0 = nat_to_dec (nat n)"
  define s where "s = (if length s0 \<le> k then replicate (k - length s0 + 1) CHR ''0'' @ s0 else s0)"
  have "all_digits s" "int (dec_val s) = n" "k < length s"
    using n by (auto simp: s_def s0_def dec_val_append simp del: replicate.simps)
  note parse_split_decimal [OF this(1,3), unfolded this(2)]
  moreover have "formatUnits (Some n) k =
      (let f = TrimRight CHR ''0'' (drop (length s - k) s); i = take (length s - k) s
       in if f = [] then i else i @ ''.'' @ f)"
    using n unfolding s_def s0_def formatUnits_def int_to_dec_def Let_def by simp
  ultimately show ?thesis by (simp only:)
qed

lemma TrimRight_append: "TrimRight c b \<noteq> [] \<Longrightarrow> TrimRight c (a @ b) = a @ TrimRight c b"
  by (auto simp: TrimRight_def dropWhile_append)

lemma pad0_fraction:
  assumes "0 \<le> r" "r < 10 ^ k" "0 < k"
  shows "all_digits (pad0 k r)" "length (pad0 k r) = k" "int (dec_val (pad0 k r)) = r"
  using assms length_nat_to_dec_le [of "nat r" k]
  by (simp_all add: pad0_def Let_def dec_val_append nat_less_iff)

lemma parse_micros_core:
  assumes "0 \<le> m"
  shows "parseUnits (microsToDecimal m) 6 = Inr m"
proof (cases "m = 0")
  case True
  then show ?thesis
    using parseUnits_integer [of "''0''" 6]
    by (simp add: microsToDecimal_def decimal_value_def dec_val_Cons is_digit_def)
next
  case False
  define q r where "q = m div microScale" and "r = m mod microScale"
  have m: "m = q * 10 ^ 6 + r" and q: "0 \<le> q" and r: "0 \<le> r" "r < 10 ^ 6"
    using assms unfolding q_def r_def microScale_def by simp_all
  have i: "all_digits (nat_to_dec (nat q))" "nat_to_dec (nat q) \<noteq> []" by simp_all
  have go: "go_quot m microScale = q" "go_rem m microScale = r"
    using assms by (simp_all add: go_quot_def go_rem_def q_def r_def)
  have dec: "int_to_dec q = nat_to_dec (nat q)" using q by (simp add: int_to_dec_def)
  show ?thesis
  proof (cases "r = 0")
    case True
    then have "microsToDecimal m = nat_to_dec (nat q)" using False by (simp add: microsToDecimal_def go dec)
    then show ?thesis
      using True m q parseUnits_integer [OF i, of 6] by (simp add: decimal_value_def)
  next
    case r0: False
    note p = pad0_fraction [OF r, simplified]
    let ?f = "TrimRight CHR ''0'' (pad0 6 r)"
    have ne: "?f \<noteq> []"
    proof
      assume "?f = []"
      then have "dec_val (pad0 6 r) = 0" using TrimRight_decomp [of "pad0 6 r" "CHR ''0''"] by auto
      then show False using p(3) r0 by simp
    qed
    have "TrimRight CHR ''0'' (nat_to_dec (nat q) @ CHR ''.'' # pad0 6 r)
        = nat_to_dec (nat q) @ CHR ''.'' # ?f"
      using TrimRight_append [OF ne, of "nat_to_dec (nat q) @ ''.''"] by simp
    moreover have "decimal_value 6 (nat_to_dec (nat q)) ?f = m"
      using decimal_value_trim [of "pad0 6 r" 6] p q m by (simp add: decimal_value_def)
    moreover have "length ?f \<le> 6" using length_TrimRight [of "CHR ''0''" "pad0 6 r"] p(2) by simp
    ultimately show ?thesis
      using False r0 parseUnits_decimal [OF i(1) all_digits_TrimRight [OF p(1)], of "CHR ''0''" 6]
      by (simp add: microsToDecimal_def go dec)
  qed
qed

text \<open>A plain decimal: digits, and after a point, if there is one, more digits.\<close>

definition number_text :: "string \<Rightarrow> string option \<Rightarrow> string" where
  "number_text i mf = i @ (case mf of None \<Rightarrow> [] | Some f \<Rightarrow> CHR ''.'' # f)"

definition frac_digits :: "string option \<Rightarrow> string" where
  "frac_digits mf = (case mf of None \<Rightarrow> [] | Some f \<Rightarrow> f)"

lemma frac_digits_simps [simp]: "frac_digits None = []" "frac_digits (Some f) = f"
  by (simp_all add: frac_digits_def)

text \<open>Evaluation of the definitions on concrete texts.\<close>

lemmas decimal_eval =
  scaleToMicros_def parseUnits_def formatUnits_def microsToDecimal_def microScale_def go_quot_def
  go_rem_def int_to_dec_def pad0_def nat_to_dec.simps Let_def TrimSpace_def is_space_def
  TrimLeft_def TrimRight_def HasPrefix_def big_SetString_def dec_val_Cons is_digit_def digit_val_def
  SplitN2_def is_int64_def

section \<open>Properties\<close>

text \<open>
  C14: a decimal text, a whole number \<open>i\<close> or \<open>i.f\<close> with white space around it or none, is charged at exactly its value in
  millionths when it has at most six fractional digits, and is refused when that value does not fit in an \<open>int64\<close>; with
  more than six fractional digits it is refused.
\<close>

theorem scaleToMicros_value:
  assumes "TrimSpace raw = number_text i mf" "TrimSpace raw \<noteq> []" "all_digits i" "all_digits (frac_digits mf)"
  shows "scaleToMicros raw =
    (if 6 < length (frac_digits mf) then Inl (TooManyDecimals (TrimSpace raw))
     else if decimal_value 6 i (frac_digits mf) < 2 ^ 63 then Inr (decimal_value 6 i (frac_digits mf))
     else Inl (OverflowsInt64 (TrimSpace raw)))"
proof (cases "6 < length (frac_digits mf)")
  case True
  then show ?thesis
    using assms(2-4) unfolding scaleToMicros_def assms(1)
    by (cases mf) (simp_all add: number_text_def not_neg_digits Cut_append dot_not_digits)
next
  case False
  let ?f = "frac_digits mf"
  have d: "all_digits (i @ ?f @ replicate (6 - length ?f) CHR ''0'')" using assms(3,4) by simp
  have v: "int (dec_val (i @ ?f @ replicate (6 - length ?f) CHR ''0'')) = decimal_value 6 i ?f"
    using False by (simp add: padded_value)
  have nn: "0 \<le> decimal_value 6 i ?f" by (simp add: decimal_value_def)
  show ?thesis
    using False assms(2-4) trimmed_digits [OF d] v nn unfolding scaleToMicros_def assms(1)
    by (cases mf) (auto simp: number_text_def not_neg_digits Cut_append Cut_none dot_not_digits Let_def
        is_int64_def split: if_splits)
qed

theorem scaleToMicros_value_witness:
  "scaleToMicros ''1.25'' = Inr 1250000 \<and> scaleToMicros '' 3'' = Inr 3000000"
  using scaleToMicros_value [of "''1.25''" "''1''" "Some ''25''"] scaleToMicros_value [of "'' 3''" "''3''" None]
  by (simp add: number_text_def is_digit_def decimal_value_def dec_val_Cons digit_val_def TrimSpace_def TrimRight_def is_space_def)

text \<open>
  C15: writing an amount of micro-units as a decimal and reading it back gives the amount, for
  every non-negative \<open>int64\<close>.
\<close>

theorem scaleToMicros_microsToDecimal:
  assumes "0 \<le> m" "m < 2 ^ 63"
  shows "scaleToMicros (microsToDecimal m) = Inr m"
  using assms parse_micros_core [OF assms(1)] by (simp add: scale_units_core is_int64_def)

theorem scaleToMicros_microsToDecimal_witness:
  "microsToDecimal 1250000 = ''1.25'' \<and> scaleToMicros (microsToDecimal 1250000) = Inr 1250000"
proof
  show "microsToDecimal 1250000 = ''1.25''" by (simp add: decimal_eval)
qed (rule scaleToMicros_microsToDecimal; simp)

text \<open>
  The amount the limits engine charges and the amount the Tempo adapter transfers are the
  same number: \<open>scaleToMicros\<close> accepts a text as \<open>n\<close> exactly when \<open>parseUnits\<close> at the six decimals
  of a TIP-20 token reads \<open>n\<close> and \<open>n\<close> is an \<open>int64\<close>.
\<close>

theorem limits_and_tempo_agree: "scaleToMicros s = Inr n \<longleftrightarrow> parseUnits s 6 = Inr n \<and> is_int64 n"
  by (rule scale_units_core)

text \<open>
  \<open>formatUnits\<close> is inverted by \<open>parseUnits\<close> for every non-negative amount and number of
  decimals.
\<close>

theorem parseUnits_formatUnits: "0 \<le> n \<Longrightarrow> parseUnits (formatUnits (Some n) k) k = Inr n"
  by (rule parse_format_core)

theorem parseUnits_formatUnits_witness:
  "formatUnits (Some 1250000) 6 = ''1.25'' \<and> parseUnits (formatUnits (Some 1250000) 6) 6 = Inr 1250000"
proof
  show "formatUnits (Some 1250000) 6 = ''1.25''" by (simp add: decimal_eval)
qed (rule parseUnits_formatUnits; simp)

text \<open>
  A sign inside the digits is not seen by the test for a leading minus: once the leading zeros are
  trimmed the text is read as a negative number by both parsers.
\<close>

lemma hidden_sign_is_accepted:
  "scaleToMicros ''0-5'' = Inr (- 5000000)" "parseUnits ''0-5'' 6 = Inr (- 5000000)"
  by (simp_all add: decimal_eval)

text \<open>
  A cap whose text has more than six fractional digits counts as no cap at all (the column
  is \<open>NUMERIC(38, 18)\<close>).
\<close>

theorem numericToMicros_drops_fine_caps:
  assumes "MarshalJSON x = Some (i @ CHR ''.'' # f)" "all_digits i" "all_digits f" "6 < length f"
  shows "numericToMicros MarshalJSON (ColNumeric (Some x)) = 0"
proof -
  have "(i @ CHR ''.'' # f) ! 0 \<noteq> CHR 34" using assms(2) by (cases i) (auto simp: is_digit_def)
  then have "strip_quotes (i @ CHR ''.'' # f) = i @ CHR ''.'' # f" by (simp add: strip_quotes_def)
  moreover have "scaleToMicros (i @ CHR ''.'' # f) = Inl (TooManyDecimals (i @ CHR ''.'' # f))"
    using assms
    by (simp add: scaleToMicros_def no_space_decimal not_neg_digits Cut_append dot_not_digits)
  ultimately show ?thesis using assms(1) by (simp add: numericToMicros_def)
qed

theorem numericToMicros_drops_fine_caps_witness:
  "numericToMicros (\<lambda>_. Some ''20.0000000'') (ColNumeric (Some (Numeric 200000000 (- 7)))) = 0"
  using numericToMicros_drops_fine_caps
    [of "\<lambda>_. Some ''20.0000000''" "Numeric 200000000 (- 7)" "''20''" "''0000000''"]
  by (simp add: is_digit_def)

end
