(* ===== verification/Big_Float.thy ===== *)
theory Big_Float
  imports Complex_Main Decimal "HOL-Library.Log_Nat"
begin

text \<open>
  \<open>new(big.Float).SetString\<close> and \<open>Cmp\<close> of Go's \<open>math/big\<close>, which the per-transaction gate of
  the limits engine uses: the number syntax of base 0 (sign, \<open>0b\<close>, \<open>0o\<close>, \<open>0x\<close> prefixes,
  underscores between digits, \<open>e\<close> and \<open>p\<close> exponents, \<open>Inf\<close>), and rounding to the nearest value
  with a 64-bit mantissa, ties to even. A finite value is a rational. (For decimal exponents beyond
  55 Go multiplies by a rounded power of five; the model rounds once.) The lemmas show that rounding
  is monotone and that it separates amounts of six decimals below \<open>2 ^ 43\<close>, so that
  \<open>exceedsNumeric\<close> is exact on them.
\<close>

section \<open>Syntax\<close>

datatype bfloat = Fin rat | PInf | NInf

definition digit_value :: "char \<Rightarrow> nat" where
  "digit_value c =
     (let n = (of_char c :: nat) in
      if 48 \<le> n \<and> n \<le> 57 then n - 48
      else if 97 \<le> n \<and> n \<le> 122 then n - 97 + 10
      else if 65 \<le> n \<and> n \<le> 90 then n - 65 + 10
      else 100)"

text \<open>
  The loop of \<open>nat.scan\<close> with base argument 0: \<open>b\<close> the actual base, \<open>prev\<close> the class of the
  previous character (\<open>0\<close> digit, \<open>_\<close> separator, \<open>.\<close> start or point), \<open>dp\<close> the number of digits
  before the point.
\<close>

record scan_state =
  sc_fracOk :: bool
  sc_prev :: char
  sc_invalSep :: bool
  sc_mant :: nat
  sc_count :: int
  sc_dp :: "int option"

fun scan_loop :: "nat \<Rightarrow> scan_state \<Rightarrow> string \<Rightarrow> scan_state \<times> string" where
  "scan_loop b st [] = (st, [])"
| "scan_loop b st (ch # s) =
     (if ch = CHR ''.'' \<and> sc_fracOk st then
        scan_loop b (st\<lparr>sc_fracOk := False, sc_invalSep := sc_invalSep st \<or> sc_prev st = CHR ''_'',
                        sc_prev := CHR ''.'', sc_dp := Some (sc_count st)\<rparr>) s
      else if ch = CHR ''_'' then
        scan_loop b (st\<lparr>sc_invalSep := sc_invalSep st \<or> sc_prev st \<noteq> CHR ''0'', sc_prev := CHR ''_''\<rparr>) s
      else if b \<le> digit_value ch then (st, ch # s)
      else scan_loop b (st\<lparr>sc_prev := CHR ''0'', sc_mant := sc_mant st * b + digit_value ch,
                           sc_count := sc_count st + 1\<rparr>) s)"

definition scan_init :: scan_state where
  "scan_init = \<lparr> sc_fracOk = True, sc_prev = CHR ''.'', sc_invalSep = False, sc_mant = 0, sc_count = 0, sc_dp = None \<rparr>"

definition scan_prefix :: "string \<Rightarrow> (nat \<times> string) option" where
  "scan_prefix s =
     (case s of
        c0 # c1 # rest \<Rightarrow>
          if c0 \<noteq> CHR ''0'' then None
          else if c1 = CHR ''b'' \<or> c1 = CHR ''B'' then Some (2, rest)
          else if c1 = CHR ''o'' \<or> c1 = CHR ''O'' then Some (8, rest)
          else if c1 = CHR ''x'' \<or> c1 = CHR ''X'' then Some (16, rest)
          else None
      | _ \<Rightarrow> None)"

text \<open>Mantissa, base, digits after the point (as a count \<open>\<le> 0\<close>), rest; \<open>None\<close> on an error.\<close>

definition scan_mantissa :: "string \<Rightarrow> (nat \<times> nat \<times> int \<times> string) option" where
  "scan_mantissa s =
     (let (b, st0, s0) = (case scan_prefix s of
             Some (b, rest) \<Rightarrow> (b, scan_init\<lparr>sc_prev := CHR ''0''\<rparr>, rest)
           | None \<Rightarrow> (10, scan_init, s));
          (st, rest) = scan_loop b st0 s0 in
      if sc_invalSep st \<or> sc_prev st = CHR ''_'' \<or> sc_count st = 0 then None
      else Some (sc_mant st, b, (case sc_dp st of None \<Rightarrow> 0 | Some dp \<Rightarrow> dp - sc_count st), rest))"

fun scan_exp_digits :: "char \<Rightarrow> bool \<Rightarrow> string \<Rightarrow> string \<Rightarrow> string \<times> char \<times> bool \<times> string" where
  "scan_exp_digits prev inval ds [] = (ds, prev, inval, [])"
| "scan_exp_digits prev inval ds (ch # s) =
     (if is_digit ch then scan_exp_digits CHR ''0'' inval (ds @ [ch]) s
      else if ch = CHR ''_'' then scan_exp_digits CHR ''_'' (inval \<or> prev \<noteq> CHR ''0'') ds s
      else (ds, prev, inval, ch # s))"

definition scanExponent :: "string \<Rightarrow> (int \<times> bool \<times> string) option" where
  "scanExponent s =
     (case s of
        [] \<Rightarrow> Some (0, True, [])
      | c # rest \<Rightarrow>
          if c \<in> {CHR ''e'', CHR ''E'', CHR ''p'', CHR ''P''} then
            (let base10 = (c = CHR ''e'' \<or> c = CHR ''E'');
                 (sgn_text, rest1) = (case rest of
                    x # xs \<Rightarrow> if x = CHR ''+'' then ([], xs) else if x = CHR ''-'' then (''-'', xs) else ([], rest)
                  | [] \<Rightarrow> ([], []));
                 (ds, prev, inval, rest2) = scan_exp_digits CHR ''.'' False [] rest1 in
             if ds = [] then None
             else (case ParseInt 64 (sgn_text @ ds) of
                     None \<Rightarrow> None
                   | Some e \<Rightarrow> if inval \<or> prev = CHR ''_'' then None else Some (e, base10, rest2)))
          else Some (0, True, s))"

section \<open>Rounding\<close>

definition zpow :: "rat \<Rightarrow> int \<Rightarrow> rat" where
  "zpow x n = (if 0 \<le> n then x ^ nat n else 1 / x ^ nat (- n))"

definition rne :: "rat \<Rightarrow> int" where
  "rne y = (let f = \<lfloor>y\<rfloor>; r = y - of_int f in
            if r < 1 / 2 then f else if 1 / 2 < r then f + 1 else if even f then f else f + 1)"

text \<open>The exponent that puts \<open>x > 0\<close> between \<open>2 ^ 63\<close> and \<open>2 ^ 64\<close>.\<close>

definition exp64 :: "rat \<Rightarrow> int" where
  "exp64 x = (let (p, q) = quotient_of x; e = bitlen p - bitlen q - 64 in
              if 2 ^ 64 \<le> x / zpow 2 e then e + 1 else e)"

definition round64 :: "rat \<Rightarrow> rat" where
  "round64 x = (if x \<le> 0 then 0 else of_int (rne (x / zpow 2 (exp64 x))) * zpow 2 (exp64 x))"

text \<open>\<open>SetString\<close>: the exponent of two must fit in 32 bits.\<close>

definition bf_SetString :: "string \<Rightarrow> bfloat option" where
  "bf_SetString s =
     (if s \<in> {''Inf'', ''inf'', ''+Inf'', ''+inf''} then Some PInf
      else if s \<in> {''-Inf'', ''-inf''} then Some NInf
      else
        (let neg = HasPrefix s ''-'';
             s0 = (if HasPrefix s ''-'' \<or> HasPrefix s ''+'' then drop 1 s else s) in
         case scan_mantissa s0 of
           None \<Rightarrow> None
         | Some (mant, b, fcount, rest) \<Rightarrow>
             (case scanExponent rest of
                None \<Rightarrow> None
              | Some (e, base10, rest') \<Rightarrow>
                  if rest' \<noteq> [] then None
                  else if mant = 0 then Some (Fin 0)
                  else
                    (let exp5 = (if b = 10 then fcount else 0) + (if base10 then e else 0);
                         exp2 = (if b = 10 \<or> b = 2 then fcount else if b = 8 then 3 * fcount else 4 * fcount) + e in
                     if bitlen (int mant) + exp2 < - (2 ^ 31) \<or> 2 ^ 31 - 1 < bitlen (int mant) + exp2 then None
                     else (let x = round64 (of_nat mant * zpow 2 exp2 * zpow 5 exp5) in
                           Some (Fin (if neg then - x else x)))))))"

text \<open>\<open>x.Cmp(y) > 0\<close>.\<close>

fun bf_greater :: "bfloat \<Rightarrow> bfloat \<Rightarrow> bool" where
  "bf_greater (Fin x) (Fin y) = (y < x)"
| "bf_greater NInf _ = False"
| "bf_greater _ NInf = True"
| "bf_greater _ PInf = False"
| "bf_greater PInf _ = True"

section \<open>internal/limits/service.go: exceedsNumeric\<close>

datatype numeric_error = MalformedCap | MalformedAmount

definition exceedsNumeric ::
    "(numeric \<Rightarrow> string option) \<Rightarrow> numeric_col \<Rightarrow> string \<Rightarrow> numeric_error + bool \<times> string" where
  "exceedsNumeric MarshalJSON cap amount =
     (let capStr = numericToString MarshalJSON cap in
      if capStr = [] then Inr (False, [])
      else (case bf_SetString capStr of
              None \<Rightarrow> Inl MalformedCap
            | Some capDec \<Rightarrow>
                (case bf_SetString amount of
                   None \<Rightarrow> Inl MalformedAmount
                 | Some amtDec \<Rightarrow> Inr (bf_greater amtDec capDec, capStr))))"

section \<open>Rounding is monotone\<close>

lemma zpow_pos: "0 < x \<Longrightarrow> 0 < zpow x n"
  by (simp add: zpow_def)

lemma zpow_add: "x \<noteq> 0 \<Longrightarrow> zpow x (m + n) = zpow x m * zpow x n"
proof -
  assume "x \<noteq> 0"
  then have "zpow x k = power_int x k" for k
    by (simp add: zpow_def power_int_def inverse_eq_divide power_one_over flip: power_inverse)
  then show ?thesis using \<open>x \<noteq> 0\<close> by (simp add: power_int_add)
qed

lemma rne_bounds: "\<bar>of_int (rne y) - y\<bar> \<le> 1 / 2"
proof -
  have b: "of_int \<lfloor>y\<rfloor> \<le> y" "y < of_int \<lfloor>y\<rfloor> + 1" by linarith+
  consider "y - of_int \<lfloor>y\<rfloor> < 1 / 2" | "1 / 2 < y - of_int \<lfloor>y\<rfloor>" | "y - of_int \<lfloor>y\<rfloor> = 1 / 2" by linarith
  then show ?thesis
  proof cases
    case 1
    then have "rne y = \<lfloor>y\<rfloor>" by (simp add: rne_def)
    then show ?thesis using 1 b by linarith
  next
    case 2
    then have "rne y = \<lfloor>y\<rfloor> + 1" by (simp add: rne_def)
    then show ?thesis using 2 b by simp
  next
    case 3
    then have "rne y = \<lfloor>y\<rfloor> \<or> rne y = \<lfloor>y\<rfloor> + 1" by (auto simp: rne_def Let_def)
    then show ?thesis using 3 by auto
  qed
qed

lemma rne_mono:
  assumes "x \<le> y"
  shows "rne x \<le> rne y"
proof (rule ccontr)
  assume "\<not> rne x \<le> rne y"
  then have "rne y + 1 \<le> rne x" by simp
  then have le: "of_int (rne y) + 1 \<le> (of_int (rne x) :: rat)" by (metis of_int_1 of_int_add of_int_le_iff)
  note bx = rne_bounds [of x] and by' = rne_bounds [of y]
  have "x = y" using le bx by' assms by linarith
  then show False using \<open>rne y + 1 \<le> rne x\<close> by simp
qed

lemma rne_of_int [simp]: "rne (of_int k) = k"
  by (simp add: rne_def)

lemma rne_numeral [simp]: "rne (numeral k) = numeral k"
  using rne_of_int [of "numeral k"] by simp

lemma zpow_nat: "zpow x (int n) = x ^ n"
  by (simp add: zpow_def)

lemma zpow_less_iff: "zpow 2 m < zpow 2 n \<longleftrightarrow> m < n"
proof -
  have "zpow 2 n = zpow 2 m * zpow 2 (n - m)" using zpow_add [of 2 m "n - m"] by simp
  moreover have "1 < zpow 2 (n - m) \<longleftrightarrow> m < n" 
    by (cases m n rule: linorder_cases) (simp_all add: zpow_def divide_simps not_less)
  ultimately show ?thesis using zpow_pos [of 2 m] by (simp add: mult_less_cancel_left_pos)
qed

lemma bitlen_zpow:
  assumes "0 < p"
  shows "zpow 2 (bitlen p - 1) \<le> of_int p" "of_int p < zpow 2 (bitlen p)"
proof -
  have b: "2 ^ nat (bitlen p - 1) \<le> p" "p < 2 ^ nat (bitlen p)" using bitlen_bounds [OF assms] by auto
  have "0 \<le> bitlen p - 1" using assms bitlen_eq_zero_iff [of p] bitlen_nonneg [of p] by linarith
  moreover have "(2 ^ nat (bitlen p - 1) :: rat) \<le> of_int p" using b(1) by (metis of_int_le_iff of_int_numeral of_int_power)
  moreover have "of_int p < (2 ^ nat (bitlen p) :: rat)" using b(2) by (metis of_int_less_iff of_int_numeral of_int_power)
  ultimately show "zpow 2 (bitlen p - 1) \<le> of_int p" "of_int p < zpow 2 (bitlen p)" by (simp_all add: zpow_def)
qed

lemma exp64_spec:
  assumes "0 < x"
  shows "2 ^ 63 \<le> x / zpow 2 (exp64 x)" "x / zpow 2 (exp64 x) < 2 ^ 64"
proof -
  obtain p q where pq: "quotient_of x = (p, q)" by force
  have q: "0 < q" using quotient_of_denom_pos [OF pq] .
  have x: "x = of_int p / of_int q" by (rule quotient_of_div [OF pq])
  have p: "0 < p" using assms q by (simp add: x zero_less_divide_iff)
  define e where "e = bitlen p - bitlen q - 64"
  have "zpow 2 (e + 63) * of_int q \<le> zpow 2 (e + 63) * zpow 2 (bitlen q)"
    using bitlen_zpow(2) [OF q] zpow_pos [of 2 "e + 63"] by simp
  also have "\<dots> = zpow 2 (bitlen p - 1)" by (simp add: e_def flip: zpow_add)
  finally have lo: "zpow 2 (e + 63) \<le> x" using bitlen_zpow(1) [OF p] q by (simp add: x pos_le_divide_eq)
  have "of_int p < zpow 2 (e + 65) * zpow 2 (bitlen q - 1)"
    using bitlen_zpow(2) [OF p] by (simp add: e_def flip: zpow_add)
  also have "\<dots> \<le> zpow 2 (e + 65) * of_int q"
    using bitlen_zpow(1) [OF q] zpow_pos [of 2 "e + 65"] by simp
  finally have hi: "x < zpow 2 (e + 65)" using q by (simp add: x pos_divide_less_eq)
  have two_nz: "(2 :: rat) \<noteq> 0" by simp
  have E: "exp64 x = (if 2 ^ 64 \<le> x / zpow 2 e then e + 1 else e)" by (simp add: exp64_def pq e_def Let_def)
  have s: "zpow 2 (e + 63) = 2 ^ 63 * zpow 2 e" "zpow 2 (e + 65) = 2 ^ 65 * zpow 2 e" "zpow 2 (e + 1) = 2 * zpow 2 e"
    unfolding zpow_add [OF two_nz] by (simp_all add: zpow_def [of 2 63] zpow_def [of 2 65] zpow_def [of 2 1])
  have pe: "0 < zpow 2 e" by (simp add: zpow_pos)
  show "2 ^ 63 \<le> x / zpow 2 (exp64 x)" "x / zpow 2 (exp64 x) < 2 ^ 64"
    using lo hi pe unfolding E s by (auto simp: s pos_le_divide_eq pos_divide_less_eq split: if_splits)
qed

lemma exp64_mono:
  assumes "0 < x" "x \<le> y"
  shows "exp64 x \<le> exp64 y"
proof (rule ccontr)
  assume "\<not> exp64 x \<le> exp64 y"
  then have "zpow 2 (exp64 y + 1) \<le> zpow 2 (exp64 x)" using zpow_less_iff [of "exp64 x" "exp64 y + 1"] by linarith
  then have "2 ^ 64 * zpow 2 (exp64 y) \<le> 2 ^ 63 * zpow 2 (exp64 x)" by (simp add: zpow_add zpow_def [of 2 1])
  moreover have "2 ^ 63 * zpow 2 (exp64 x) \<le> x"
    using exp64_spec(1) [OF assms(1)] zpow_pos [of 2 "exp64 x"] by (simp add: pos_le_divide_eq)
  moreover have "y < 2 ^ 64 * zpow 2 (exp64 y)"
    using exp64_spec(2) [of y] assms zpow_pos [of 2 "exp64 y"] by (simp add: pos_divide_less_eq)
  ultimately show False using assms(2) by linarith
qed

lemma round64_range:
  assumes "0 < x"
  shows "2 ^ 63 * zpow 2 (exp64 x) \<le> round64 x" "round64 x \<le> 2 ^ 64 * zpow 2 (exp64 x)"
proof -
  have "2 ^ 63 \<le> rne (x / zpow 2 (exp64 x))"
    using rne_mono [of "of_int (2 ^ 63)" "x / zpow 2 (exp64 x)"] exp64_spec(1) [OF assms] by simp
  moreover have "rne (x / zpow 2 (exp64 x)) \<le> 2 ^ 64"
    using rne_mono [of "x / zpow 2 (exp64 x)" "of_int (2 ^ 64)"] exp64_spec(2) [OF assms] by simp
  ultimately have "(2 ^ 63 :: rat) \<le> of_int (rne (x / zpow 2 (exp64 x)))"
    "of_int (rne (x / zpow 2 (exp64 x))) \<le> (2 ^ 64 :: rat)"
    by (metis of_int_le_iff of_int_numeral of_int_power)+
  then show "2 ^ 63 * zpow 2 (exp64 x) \<le> round64 x" "round64 x \<le> 2 ^ 64 * zpow 2 (exp64 x)"
    using assms zpow_pos [of 2 "exp64 x"] by (simp_all add: round64_def)
qed

lemma round64_mono:
  assumes "x \<le> y"
  shows "round64 x \<le> round64 y"
proof (cases "0 < x")
  case False
  have "0 \<le> round64 y"
    using round64_range(1) [of y] zpow_pos [of 2 "exp64 y"] by (cases "0 < y") (simp_all add: round64_def)
  then show ?thesis using False by (simp add: round64_def)
next
  case True
  then have y: "0 < y" using assms by simp
  show ?thesis
  proof (cases "exp64 x = exp64 y")
    case True
    then have "rne (x / zpow 2 (exp64 x)) \<le> rne (y / zpow 2 (exp64 y))"
      using assms zpow_pos [of 2 "exp64 y"] by (intro rne_mono) (simp add: divide_right_mono)
    then show ?thesis
      using True \<open>0 < x\<close> y zpow_pos [of 2 "exp64 y"] by (simp add: round64_def)
  next
    case False
    then have "exp64 x < exp64 y" using exp64_mono [OF True assms] by simp
    then have "zpow 2 (exp64 x + 1) \<le> zpow 2 (exp64 y)" using zpow_less_iff [of "exp64 y" "exp64 x + 1"] by linarith
    then have "2 ^ 64 * zpow 2 (exp64 x) \<le> 2 ^ 63 * zpow 2 (exp64 y)" by (simp add: zpow_add zpow_def [of 2 1])
    then show ?thesis using round64_range(2) [OF True] round64_range(1) [OF y] by linarith
  qed
qed

text \<open>Below \<open>2 ^ 43\<close> the rounding error is at most \<open>2 ^ -22\<close>.\<close>

lemma round64_error:
  assumes "0 \<le> x" "x < 2 ^ 43"
  shows "\<bar>round64 x - x\<bar> \<le> 1 / 2 ^ 22"
proof (cases "x = 0")
  case False
  then have x: "0 < x" using assms(1) by simp
  define z where "z = zpow 2 (exp64 x)"
  have z: "0 < z" by (simp add: z_def zpow_pos)
  have "2 ^ 63 * z \<le> x" using exp64_spec(1) [OF x] z by (simp add: z_def pos_le_divide_eq)
  then have "z < 1 / 2 ^ 20" using assms(2) by simp
  then have "exp64 x < - 20" using zpow_less_iff [of "exp64 x" "- 20"] by (simp add: z_def zpow_def [of 2 "- 20"])
  then have "exp64 x \<le> - 21" by simp
  then have z21: "z \<le> 1 / 2 ^ 21" using zpow_less_iff [of "- 21" "exp64 x"] by (simp add: z_def zpow_def [of 2 "- 21"])
  have "\<bar>round64 x - x\<bar> = \<bar>of_int (rne (x / z)) - x / z\<bar> * z"
    using x z by (simp add: round64_def abs_mult_pos left_diff_distrib flip: z_def)
  also have "\<dots> \<le> 1 / 2 * z" using rne_bounds [of "x / z"] z by (intro mult_right_mono) simp_all
  finally show ?thesis using z21 by simp
qed (simp add: round64_def)

lemma round64_separates:
  assumes "0 \<le> a" "a < 2 ^ 43" "0 \<le> c" "c < 2 ^ 43" "c + 1 / 10 ^ 6 \<le> a"
  shows "round64 c < round64 a"
proof -
  have "a - 1 / 2 ^ 22 \<le> round64 a" "round64 c \<le> c + 1 / 2 ^ 22"
    using round64_error [OF assms(1,2)] round64_error [OF assms(3,4)] by linarith+
  moreover have "2 / 2 ^ 22 < (1 / 10 ^ 6 :: rat)" by simp
  ultimately show ?thesis using assms(5) by simp
qed

section \<open>Reading a plain decimal\<close>

lemma digit_value_digit: "is_digit c \<Longrightarrow> digit_value c = digit_val c \<and> digit_value c < 10"
  by (auto simp: digit_value_def is_digit_def digit_val_def Let_def)

lemma digit_neq: "is_digit c \<Longrightarrow> c \<noteq> CHR ''.'' \<and> c \<noteq> CHR ''_''"
  by (auto simp: is_digit_def)

lemma scan_loop_digits:
  "all_digits ds \<Longrightarrow>
   scan_loop 10 st (ds @ rest) =
   scan_loop 10 (st\<lparr>sc_prev := (if ds = [] then sc_prev st else CHR ''0''),
                    sc_mant := sc_mant st * 10 ^ length ds + dec_val ds,
                    sc_count := sc_count st + int (length ds)\<rparr>) rest"
proof (induction ds arbitrary: st)
  case (Cons c ds)
  then have c: "is_digit c" and ds: "all_digits ds" by simp_all
  have "scan_loop 10 st ((c # ds) @ rest) =
    scan_loop 10 (st\<lparr>sc_prev := CHR ''0'', sc_mant := sc_mant st * 10 + digit_val c, sc_count := sc_count st + 1\<rparr>)
      (ds @ rest)"
    using digit_value_digit [OF c] digit_neq [OF c] by simp
  then show ?case unfolding Cons.IH [OF ds] by (simp add: dec_val_Cons algebra_simps)
qed simp

definition dec_rat :: "string \<Rightarrow> string \<Rightarrow> rat" where
  "dec_rat i f = of_nat (dec_val (i @ f)) / 10 ^ length f"

lemma scan_prefix_digit:
  assumes "is_digit c1"
  shows "scan_prefix (c0 # c1 # s) = None"
proof -
  have "c1 \<noteq> CHR ''b''" "c1 \<noteq> CHR ''B''" "c1 \<noteq> CHR ''o''" "c1 \<noteq> CHR ''O''" "c1 \<noteq> CHR ''x''" "c1 \<noteq> CHR ''X''"
    using assms by (auto simp: is_digit_def)
  then show ?thesis by (simp add: scan_prefix_def)
qed

lemma scan_prefix_short: "scan_prefix [] = None" "scan_prefix [c] = None"
  by (simp_all add: scan_prefix_def)

lemma scan_prefix_integer: "all_digits i \<Longrightarrow> scan_prefix i = None"
  using scan_prefix_digit by (cases i; cases "tl i") (auto simp: scan_prefix_short)

lemma scan_prefix_dot: "scan_prefix (CHR ''.'' # f) = None" "scan_prefix (c # CHR ''.'' # f) = None"
  by (cases f) (simp_all add: scan_prefix_def)

lemma scan_prefix_digits: "all_digits i \<Longrightarrow> scan_prefix (i @ CHR ''.'' # f) = None"
  using scan_prefix_digit by (cases i; cases "tl i") (auto simp: scan_prefix_dot)

lemma scan_mantissa_integer:
  assumes "all_digits i" "i \<noteq> []"
  shows "scan_mantissa i = Some (dec_val i, 10, 0, [])"
proof -
  have "scan_loop 10 scan_init i
      = (scan_init\<lparr>sc_prev := CHR ''0'', sc_mant := dec_val i, sc_count := int (length i)\<rparr>, [])"
    using scan_loop_digits [OF assms(1), of scan_init "[]"] assms(2) by (simp add: scan_init_def)
  then show ?thesis using assms(2) by (simp add: scan_mantissa_def scan_prefix_integer [OF assms(1)] scan_init_def)
qed

lemma scan_mantissa_decimal:
  assumes "all_digits i" "all_digits f" "i @ f \<noteq> []"
  shows "scan_mantissa (i @ CHR ''.'' # f) = Some (dec_val (i @ f), 10, - int (length f), [])"
proof -
  note f = scan_loop_digits [OF assms(2), where rest = "[]", simplified]
  have "int (length i) + int (length f) \<noteq> 0" using assms(3) by (cases i; cases f) simp_all
  then show ?thesis
    using assms by (auto simp: scan_mantissa_def scan_prefix_digits scan_loop_digits [OF assms(1)] f
        scan_init_def dec_val_append)
qed

lemma scan_mantissa_number:
  assumes "all_digits i" "all_digits (frac_digits mf)" "i @ frac_digits mf \<noteq> []"
  shows "scan_mantissa (number_text i mf) = Some (dec_val (i @ frac_digits mf), 10, - int (length (frac_digits mf)), [])"
  using assms scan_mantissa_decimal scan_mantissa_integer by (cases mf) (simp_all add: number_text_def)

lemma bf_SetString_decimal:
  assumes "all_digits i" "all_digits (frac_digits mf)" "i @ frac_digits mf \<noteq> []" "length (frac_digits mf) \<le> 55"
    "dec_rat i (frac_digits mf) < 2 ^ 43"
  shows "bf_SetString (number_text i mf) = Some (Fin (round64 (dec_rat i (frac_digits mf))))"
proof -
  let ?f = "frac_digits mf"
  let ?m = "dec_val (i @ ?f)" and ?k = "length ?f"
  define s where "s = number_text i mf"
  have ne: "s \<noteq> []" using assms(3) by (cases mf) (simp_all add: s_def number_text_def)
  have "hd s = CHR ''.'' \<or> is_digit (hd s)" using assms(1) ne by (cases i; cases mf) (auto simp: s_def number_text_def)
  then have h: "hd s \<noteq> CHR ''-''" "hd s \<noteq> CHR ''+''" "hd s \<noteq> CHR ''I''" "hd s \<noteq> CHR ''i''"
    by (auto simp: is_digit_def)
  have p: "\<not> HasPrefix s ''-''" "\<not> HasPrefix s ''+''" using h ne by (cases s; simp add: HasPrefix_def)+
  have q: "s \<notin> {''Inf'', ''inf'', ''+Inf'', ''+inf''}" "s \<notin> {''-Inf'', ''-inf''}" using h by auto
  note plain = p [unfolded s_def] q [unfolded s_def]
  have val: "of_nat ?m * zpow 2 (- int ?k) * zpow 5 (- int ?k) = dec_rat i ?f"
    by (simp add: zpow_def dec_rat_def flip: power_mult_distrib)
  have range: "\<not> (bitlen (int ?m) - int ?k < - (2 ^ 31) \<or> 2 ^ 31 - 1 < bitlen (int ?m) - int ?k)"
  proof -
    have "of_nat ?m < (2 ^ 43 * 10 ^ ?k :: rat)" using assms(5) by (simp add: dec_rat_def pos_divide_less_eq)
    then have "(of_nat ?m :: rat) < of_nat (2 ^ 43 * 10 ^ ?k)" by simp
    then have "?m < 2 ^ 43 * 10 ^ ?k" unfolding of_nat_less_iff .
    also have "\<dots> \<le> 2 ^ 43 * 10 ^ 55" using assms(4) by (intro mult_left_mono power_increasing) simp_all
    also have "\<dots> \<le> (2 ^ 43 * 16 ^ 55 :: nat)" by (intro mult_left_mono power_mono) simp_all
    also have "\<dots> = 2 ^ 263" by (simp flip: power_mult power_add)
    finally have "int ?m < int (2 ^ 263)" unfolding of_nat_less_iff .
    then have "int ?m < 2 ^ 263" by simp
    then have "bitlen (int ?m) \<le> 263" using bitlen_le_iff_power [of "int ?m" 263] by simp
    then show ?thesis using bitlen_nonneg [of "int ?m"] assms(4) by simp
  qed
  show ?thesis
  proof (cases "?m = 0")
    case True
    then show ?thesis
      using scan_mantissa_number [OF assms(1-3)] plain
      by (simp add: bf_SetString_def scanExponent_def dec_rat_def round64_def Let_def)
  next
    case False
    then show ?thesis
      using scan_mantissa_number [OF assms(1-3)] plain range val
      by (simp add: bf_SetString_def scanExponent_def Let_def)
  qed
qed

lemma exceedsNumeric_decimal:
  assumes "numericToString MarshalJSON cap = number_text ci mcf"
    "all_digits ci" "all_digits (frac_digits mcf)" "ci @ frac_digits mcf \<noteq> []" "length (frac_digits mcf) \<le> 55"
    "dec_rat ci (frac_digits mcf) < 2 ^ 43"
    "all_digits ai" "all_digits (frac_digits maf)" "ai @ frac_digits maf \<noteq> []" "length (frac_digits maf) \<le> 55"
    "dec_rat ai (frac_digits maf) < 2 ^ 43"
  shows "exceedsNumeric MarshalJSON cap (number_text ai maf) =
    Inr (round64 (dec_rat ci (frac_digits mcf)) < round64 (dec_rat ai (frac_digits maf)), number_text ci mcf)"
proof -
  have "number_text ci mcf \<noteq> []" using assms(4) by (cases mcf) (simp_all add: number_text_def)
  then show ?thesis using bf_SetString_decimal [OF assms(2-6)] bf_SetString_decimal [OF assms(7-11)]
    by (simp add: exceedsNumeric_def assms(1))
qed

text \<open>
  C16: the per-transaction gate on plain decimals, with a point or without, below \<open>2 ^ 43\<close> and with at most 55 digits after
  the point (a \<open>NUMERIC(38, 18)\<close> column has 18): it never refuses an amount that is within the
  cap, and it refuses every amount that exceeds the cap by at least one millionth, in spite of the
  rounding of \<open>big.Float\<close>. (From \<open>2 ^ 43\<close> on, that is above eight trillion, a millionth is less than half a unit of
  the 64-bit mantissa.)
\<close>

theorem exceedsNumeric_exact:
  assumes "numericToString MarshalJSON cap = number_text ci mcf"
    "all_digits ci" "all_digits (frac_digits mcf)" "ci @ frac_digits mcf \<noteq> []" "length (frac_digits mcf) \<le> 55"
    "dec_rat ci (frac_digits mcf) < 2 ^ 43"
    "all_digits ai" "all_digits (frac_digits maf)" "ai @ frac_digits maf \<noteq> []" "length (frac_digits maf) \<le> 55"
    "dec_rat ai (frac_digits maf) < 2 ^ 43"
  shows "\<exists>over. exceedsNumeric MarshalJSON cap (number_text ai maf) = Inr (over, number_text ci mcf)
    \<and> (over \<longrightarrow> dec_rat ci (frac_digits mcf) < dec_rat ai (frac_digits maf))
    \<and> (dec_rat ci (frac_digits mcf) + 1 / 10 ^ 6 \<le> dec_rat ai (frac_digits maf) \<longrightarrow> over)"
proof -
  let ?c = "dec_rat ci (frac_digits mcf)" and ?a = "dec_rat ai (frac_digits maf)"
  have "0 \<le> ?a" "0 \<le> ?c" by (simp_all add: dec_rat_def)
  then have "?c + 1 / 10 ^ 6 \<le> ?a \<Longrightarrow> round64 ?c < round64 ?a"
    using round64_separates assms by blast
  moreover have "round64 ?c < round64 ?a \<Longrightarrow> ?c < ?a" using round64_mono [of ?a ?c] by (meson not_less)
  ultimately show ?thesis using exceedsNumeric_decimal [OF assms] by blast
qed

theorem exceedsNumeric_exact_witness:
  "exceedsNumeric (\<lambda>_. Some ''5.000000'') (ColNumeric (Some (Numeric 5 0))) ''5.000001'' = Inr (True, ''5.000000'')
   \<and> exceedsNumeric (\<lambda>_. Some ''5'') (ColNumeric (Some (Numeric 5 0))) ''7'' = Inr (True, ''5'')"
proof
  show "exceedsNumeric (\<lambda>_. Some ''5.000000'') (ColNumeric (Some (Numeric 5 0))) ''5.000001'' = Inr (True, ''5.000000'')"
    using exceedsNumeric_exact [of "\<lambda>_. Some ''5.000000''" "ColNumeric (Some (Numeric 5 0))" "''5''" "Some ''000000''"
        "''5''" "Some ''000001''"]
    by (auto simp: number_text_def strip_quotes_def is_digit_def dec_rat_def dec_val_Cons digit_val_def)
  show "exceedsNumeric (\<lambda>_. Some ''5'') (ColNumeric (Some (Numeric 5 0))) ''7'' = Inr (True, ''5'')"
    using exceedsNumeric_exact [of "\<lambda>_. Some ''5''" "ColNumeric (Some (Numeric 5 0))" "''5''" None "''7''" None]
    by (auto simp: number_text_def strip_quotes_def is_digit_def dec_rat_def dec_val_Cons digit_val_def)
qed

end
