(* ===== verification/Limits_Service.thy ===== *)
theory Limits_Service
  imports Webhook_Publisher Big_Float
begin

text \<open>
  \<open>internal/limits\<close>: the spending-policy engine. \<open>Check\<close> resolves the governing policy, runs the
  gates in order (expiry, per-transaction cap, recipients, daily, weekly and monthly budgets) and
  on a refusal writes an audit row and emits an event. Redis is a service outside the repository:
  its two operations are the parameter \<open>redis_ops\<close>, and what the engine relies on is the locale
  \<open>redis_counter\<close>. The violation emitter is the interface \<open>ViolationEmitter\<close>, with its contract
  in the locale \<open>violation_emitter\<close>, interpreted on the webhook publisher.
\<close>

section \<open>Redis\<close>

text \<open>
  \<open>IncrExpire key delta at\<close> is the transaction pipeline \<open>INCRBY\<close>, \<open>EXPIREAT\<close>, \<open>EXEC\<close>;
  \<open>DecrBy key delta\<close> is \<open>DECRBY\<close>. Both return the new value or an error.
\<close>

record 'r redis_ops =
  IncrExpire :: "string \<Rightarrow> int \<Rightarrow> time \<Rightarrow> 'r \<Rightarrow> (string + int) \<times> 'r"
  DecrBy :: "string \<Rightarrow> int \<Rightarrow> 'r \<Rightarrow> (string + int) \<times> 'r"

text \<open>
  The documented behaviour of the counters, over the value \<open>val r key\<close> a key has in the state \<open>r\<close>:
  a command that succeeds changes its key by the delta and returns the new value; one that fails has
  either been applied or not (the connection may break after the command is executed); no command
  touches another key.
\<close>

locale redis_counter =
  fixes rd :: "'r redis_ops" and val :: "'r \<Rightarrow> string \<Rightarrow> int"
  assumes incr_ok: "IncrExpire rd k x t r = (Inr n, r') \<Longrightarrow> n = val r k + x \<and> val r' = (val r)(k := val r k + x)"
    and incr_err: "IncrExpire rd k x t r = (Inl e, r') \<Longrightarrow> val r' = val r \<or> val r' = (val r)(k := val r k + x)"
    and decr_ok: "DecrBy rd k x r = (Inr n, r') \<Longrightarrow> val r' = (val r)(k := val r k - x)"
    and decr_err: "DecrBy rd k x r = (Inl e, r') \<Longrightarrow> val r' = val r \<or> val r' = (val r)(k := val r k - x)"

text \<open>An in-memory Redis whose commands never fail.\<close>

definition mem_redis :: "(string \<Rightarrow> int) redis_ops" where
  "mem_redis = \<lparr> IncrExpire = (\<lambda>k x t r. (Inr (r k + x), r(k := r k + x))),
                 DecrBy = (\<lambda>k x r. (Inr (r k - x), r(k := r k - x))) \<rparr>"

interpretation mem: redis_counter mem_redis "\<lambda>r. r"
  by unfold_locales (auto simp: mem_redis_def)

section \<open>counter.go\<close>

datatype budget_error = errCapMissing | RedisIncr period string

definition budget_key :: "string \<Rightarrow> period \<Rightarrow> time \<Rightarrow> location option \<Rightarrow> string" where
  "budget_key policyID p now tz = ''usage:'' @ policyID @ '':'' @ periodKey p now tz"

text \<open>The result is the violation type (empty when allowed) and the usage to display.\<close>

definition periodBudgetCheck ::
    "'r redis_ops \<Rightarrow> string \<Rightarrow> period \<Rightarrow> int \<Rightarrow> int \<Rightarrow> time \<Rightarrow> location option \<Rightarrow> 'r
     \<Rightarrow> (budget_error + string \<times> string) \<times> 'r" where
  "periodBudgetCheck rd policyID p capMicros deltaMicros now tz r =
     (if capMicros \<le> 0 then (Inl errCapMissing, r)
      else
        (let key = budget_key policyID p now tz; expireAt = nextReset p now tz in
         case IncrExpire rd key deltaMicros expireAt r of
           (Inl err, r1) \<Rightarrow> (Inl (RedisIncr p err), r1)
         | (Inr newTotal, r1) \<Rightarrow>
             if capMicros < newTotal then
               (let r2 = snd (DecrBy rd key deltaMicros r1)
                in (Inr (period_string p @ ''_exceeded'', microsToDecimal (newTotal - deltaMicros)), r2))
             else (Inr ([], microsToDecimal newTotal), r1)))"

section \<open>service.go\<close>

record CheckRequest =
  cr_TenantID :: string
  cr_WalletID :: string
  cr_SessionKeyID :: string
  cr_Amount :: string
  cr_Asset :: string
  cr_Recipient :: string
  cr_TransactionID :: string

record Violation =
  vi_Type :: string
  vi_LimitValue :: string
  vi_CurrentUsed :: string
  vi_Message :: string

record CheckResult =
  res_Allowed :: bool
  res_PolicyID :: string
  res_Violation :: "Violation option"

datatype check_error = CapError numeric_error | ScaleError scale_error | BudgetError budget_error

definition allowed_result :: "string \<Rightarrow> CheckResult" where
  "allowed_result pid = \<lparr> res_Allowed = True, res_PolicyID = pid, res_Violation = None \<rparr>"

text \<open>
  Most specific scope first. Any error of a lookup, not only a missing row, moves on to the
  next scope.
\<close>

definition resolvePolicy :: "env \<Rightarrow> CheckRequest \<Rightarrow> db \<Rightarrow> LimitPolicy option" where
  "resolvePolicy e req d =
     (let scope = (\<lambda>ty i. db_read (fault e ''resolvePolicy.GetPolicyForScope'' ty)
                     (GetPolicyForScope (cr_TenantID req) ty (pgxText i) d));
          dflt = (case db_read (fault e ''resolvePolicy.GetTenantDefaultPolicy'' [])
                     (GetTenantDefaultPolicy (cr_TenantID req) d) of
                    Inr p \<Rightarrow> Some p | Inl _ \<Rightarrow> None);
          by_wallet =
            (if cr_WalletID req = [] then dflt
             else (case scope ''wallet'' (cr_WalletID req) of
                     Inr p \<Rightarrow> Some p
                   | Inl _ \<Rightarrow>
                       (case db_read (fault e ''resolvePolicy.GetWalletByID'' []) (GetWalletByID (cr_WalletID req) d) of
                          Inl _ \<Rightarrow> dflt
                        | Inr w \<Rightarrow> (case scope ''wallet_group'' (wl_GroupID w) of Inr p \<Rightarrow> Some p | Inl _ \<Rightarrow> dflt))))
      in if cr_SessionKeyID req = [] then by_wallet
         else (case scope ''session_key'' (cr_SessionKeyID req) of Inr p \<Rightarrow> Some p | Inl _ \<Rightarrow> by_wallet))"

definition recipientGate :: "string \<Rightarrow> LimitPolicy \<Rightarrow> string" where
  "recipientGate recipient pol =
     (if recipient = [] then []
      else
        (let target = ToLower recipient; allow = parseJSONStringList (lp_AllowedRecipients pol) in
         if allow \<noteq> [] then
           (if list_ex (\<lambda>a. ToLower a = target) allow then [] else ''recipient_not_allowlisted'')
         else if list_ex (\<lambda>x. ToLower x = target) (parseJSONStringList (lp_DeniedRecipients pol))
         then ''recipient_denied'' else []))"

text \<open>The emitter is optional (a nil interface).\<close>

type_synonym emitter = "limit_exceeded_args \<Rightarrow> db \<Rightarrow> db"

definition violation_row :: "CheckRequest \<Rightarrow> LimitPolicy \<Rightarrow> string \<Rightarrow> LimitViolation" where
  "violation_row req pol ty =
     \<lparr> lv_ID = 0, lv_TenantID = cr_TenantID req, lv_PolicyID = pgxText (lp_ID pol),
       lv_WalletID = pgxText (cr_WalletID req), lv_SessionKeyID = pgxText (cr_SessionKeyID req),
       lv_TransactionID = pgxText (cr_TransactionID req), lv_ViolationType = ty,
       lv_AttemptedAmount = None, lv_AttemptedAsset = pgxText (cr_Asset req),
       lv_AttemptedRecipient = pgxText (cr_Recipient req), lv_LimitValue = None, lv_CurrentUsed = None,
       lv_Metadata = empty_object, lv_CreatedAt = 0 \<rparr>"

definition emit_args :: "CheckRequest \<Rightarrow> LimitPolicy \<Rightarrow> string \<Rightarrow> limit_exceeded_args" where
  "emit_args req pol ty =
     \<lparr> le_tenantID = cr_TenantID req, le_policyID = lp_ID pol, le_violationType = ty, le_walletID = cr_WalletID req,
       le_sessionKeyID = cr_SessionKeyID req, le_attemptedAmount = cr_Amount req, le_asset = cr_Asset req,
       le_recipient = cr_Recipient req \<rparr>"

definition reject ::
    "env \<Rightarrow> emitter option \<Rightarrow> CheckRequest \<Rightarrow> LimitPolicy \<Rightarrow> string \<Rightarrow> string \<Rightarrow> string \<Rightarrow> string \<Rightarrow> db
     \<Rightarrow> CheckResult \<times> db" where
  "reject e emitter req pol violationType limitValue currentUsed message d =
     (let d1 = snd (db_write (fault e ''reject.CreateLimitViolation'' []) d
                     (CreateLimitViolation (pg e) (clock e ''reject.sqlnow'' []) (violation_row req pol violationType) d));
          d2 = (case emitter of None \<Rightarrow> d1 | Some emit \<Rightarrow> emit (emit_args req pol violationType) d1)
      in (\<lparr> res_Allowed = False, res_PolicyID = lp_ID pol,
            res_Violation = Some \<lparr> vi_Type = violationType, vi_LimitValue = limitValue,
                                   vi_CurrentUsed = currentUsed, vi_Message = message \<rparr> \<rparr>, d2))"

type_synonym rollbackBudget = "string \<times> int"

fun rollbackBudgets :: "'r redis_ops \<Rightarrow> rollbackBudget list \<Rightarrow> 'r \<Rightarrow> 'r" where
  "rollbackBudgets rd [] r = r"
| "rollbackBudgets rd ((key, delta) # bs) r = rollbackBudgets rd bs (snd (DecrBy rd key delta r))"

text \<open>
  The loop of \<open>checkPeriods\<close> over the plan. The verdict is an error, the period and cap that
  refuse with their violation type, or \<open>None\<close> when every period passes.
\<close>

fun period_loop ::
    "'r redis_ops \<Rightarrow> string \<Rightarrow> int \<Rightarrow> time \<Rightarrow> location option \<Rightarrow> (period \<times> int) list \<Rightarrow> rollbackBudget list \<Rightarrow> 'r
     \<Rightarrow> (budget_error + (period \<times> int \<times> string) option) \<times> 'r" where
  "period_loop rd policyID delta now tz [] rollbacks r = (Inr None, r)"
| "period_loop rd policyID delta now tz ((p, cap) # plan) rollbacks r =
     (case periodBudgetCheck rd policyID p cap delta now tz r of
        (Inl err, r1) \<Rightarrow>
          if err = errCapMissing then period_loop rd policyID delta now tz plan rollbacks r1
          else (Inl err, rollbackBudgets rd rollbacks r1)
      | (Inr (violationType, _), r1) \<Rightarrow>
          if violationType \<noteq> [] then (Inr (Some (p, cap, violationType)), rollbackBudgets rd rollbacks r1)
          else period_loop rd policyID delta now tz plan
                 (rollbacks @ [(budget_key policyID p now tz, delta)]) r1)"

definition period_plan :: "env \<Rightarrow> LimitPolicy \<Rightarrow> (period \<times> int) list" where
  "period_plan e pol =
     [(periodDaily, numericToMicros (MarshalJSON e) (ColNumeric (lp_DailyAmount pol))),
      (periodWeekly, numericToMicros (MarshalJSON e) (ColNumeric (lp_WeeklyAmount pol))),
      (periodMonthly, numericToMicros (MarshalJSON e) (ColNumeric (lp_MonthlyAmount pol)))]"

definition checkPeriods ::
    "env \<Rightarrow> 'r redis_ops \<Rightarrow> emitter option \<Rightarrow> CheckRequest \<Rightarrow> LimitPolicy \<Rightarrow> db \<times> 'r
     \<Rightarrow> (check_error + CheckResult option) \<times> db \<times> 'r" where
  "checkPeriods e rd emitter req pol = (\<lambda>(d, r).
     case scaleToMicros (cr_Amount req) of
       Inl err \<Rightarrow> (Inl (ScaleError err), d, r)
     | Inr deltaMicros \<Rightarrow>
         (let tz = loadTimezone (LoadLocation e) (lp_Timezone pol); now = clock e ''checkPeriods.now'' [] in
          case period_loop rd (lp_ID pol) deltaMicros now tz (period_plan e pol) [] r of
            (Inl err, r1) \<Rightarrow> (Inl (BudgetError err), d, r1)
          | (Inr None, r1) \<Rightarrow> (Inr None, d, r1)
          | (Inr (Some (p, cap, ty)), r1) \<Rightarrow>
              (case reject e emitter req pol ty (microsToDecimal cap) []
                      (period_string p @ '' cap '' @ microsToDecimal cap @ '' exceeded'') d of
                 (res, d1) \<Rightarrow> (Inr (Some res), d1, r1))))"

definition policy_expired :: "env \<Rightarrow> LimitPolicy \<Rightarrow> bool" where
  "policy_expired e pol =
     (case lp_ExpiresAt pol of None \<Rightarrow> False | Some t \<Rightarrow> \<not> IsZero t \<and> t < clock e ''Check.now'' [])"

text \<open>
  Gate 2: \<open>None\<close> when the column is NULL or the amount is within the cap; the cap text when it
  is exceeded.
\<close>

definition per_tx_gate :: "env \<Rightarrow> CheckRequest \<Rightarrow> LimitPolicy \<Rightarrow> check_error + string option" where
  "per_tx_gate e req pol =
     (if lp_PerTxAmount pol = None then Inr None
      else (case exceedsNumeric (MarshalJSON e) (ColNumeric (lp_PerTxAmount pol)) (cr_Amount req) of
              Inl err \<Rightarrow> Inl (CapError err)
            | Inr (over, capStr) \<Rightarrow> Inr (if over then Some capStr else None)))"

definition Check ::
    "env \<Rightarrow> 'r redis_ops option \<Rightarrow> emitter option \<Rightarrow> CheckRequest \<Rightarrow> db \<times> 'r
     \<Rightarrow> (check_error + CheckResult) \<times> db \<times> 'r" where
  "Check e redis emitter req = (\<lambda>(d, r).
     case resolvePolicy e req d of
       None \<Rightarrow> (Inr (allowed_result []), d, r)
     | Some pol \<Rightarrow>
         if \<not> lp_Enabled pol then (Inr (allowed_result []), d, r)
         else if policy_expired e pol then
           (let ts = Format_RFC3339_UTC (the (lp_ExpiresAt pol)) in
            case reject e emitter req pol ''policy_expired'' ts [] (''policy expired at '' @ ts) d of
              (res, d1) \<Rightarrow> (Inr res, d1, r))
         else
           (case per_tx_gate e req pol of
              Inl err \<Rightarrow> (Inl err, d, r)
            | Inr (Some capStr) \<Rightarrow>
                (case reject e emitter req pol ''per_tx_exceeded'' capStr (cr_Amount req)
                        (''amount '' @ cr_Amount req @ '' exceeds per-tx cap '' @ capStr) d of
                   (res, d1) \<Rightarrow> (Inr res, d1, r))
            | Inr None \<Rightarrow>
                (let v = recipientGate (cr_Recipient req) pol in
                 if v \<noteq> [] then
                   (case reject e emitter req pol v [] []
                           (''recipient '' @ go_quote (cr_Recipient req) @ '' rejected by policy'') d of
                      (res, d1) \<Rightarrow> (Inr res, d1, r))
                 else
                   (case redis of
                      None \<Rightarrow> (Inr (allowed_result (lp_ID pol)), d, r)
                    | Some rd \<Rightarrow>
                        (case checkPeriods e rd emitter req pol (d, r) of
                           (Inl err, s) \<Rightarrow> (Inl err, s)
                         | (Inr (Some res), s) \<Rightarrow> (Inr res, s)
                         | (Inr None, s) \<Rightarrow> (Inr (allowed_result (lp_ID pol)), s))))))"

section \<open>defaults.go\<close>

record Tier =
  tier_Name :: string
  tier_PerTxUSD :: int
  tier_DailyUSD :: int
  tier_WeeklyUSD :: int
  tier_MonthlyUSD :: int
  tier_SessionTTLDays :: int

definition TierConservative :: Tier where
  "TierConservative = \<lparr> tier_Name = ''conservative'', tier_PerTxUSD = 5, tier_DailyUSD = 20, tier_WeeklyUSD = 100,
     tier_MonthlyUSD = 300, tier_SessionTTLDays = 1 \<rparr>"

definition TierStandard :: Tier where
  "TierStandard = \<lparr> tier_Name = ''standard'', tier_PerTxUSD = 50, tier_DailyUSD = 200, tier_WeeklyUSD = 1000,
     tier_MonthlyUSD = 3000, tier_SessionTTLDays = 7 \<rparr>"

definition TierAggressive :: Tier where
  "TierAggressive = \<lparr> tier_Name = ''aggressive'', tier_PerTxUSD = 500, tier_DailyUSD = 5000, tier_WeeklyUSD = 30000,
     tier_MonthlyUSD = 100000, tier_SessionTTLDays = 30 \<rparr>"

definition ToNumeric :: "int \<Rightarrow> numeric option" where
  "ToNumeric v = Some (Numeric v 0)"

section \<open>The budgets of one Check\<close>

definition decr_never_fails :: "'r redis_ops \<Rightarrow> bool" where
  "decr_never_fails rd \<longleftrightarrow> (\<forall>k x r. \<exists>n r'. DecrBy rd k x r = (Inr n, r'))"

lemma mem_decr_never_fails: "decr_never_fails mem_redis"
  by (simp add: decr_never_fails_def mem_redis_def)

text \<open>What a list of rollbacks takes off a key.\<close>

definition budget_sum :: "rollbackBudget list \<Rightarrow> string \<Rightarrow> int" where
  "budget_sum bs k = sum_list (map snd (filter (\<lambda>b. fst b = k) bs))"

lemma budget_sum_simps [simp]:
  "budget_sum [] k = 0" "budget_sum ((k', x) # bs) k = (if k' = k then x else 0) + budget_sum bs k"
  "budget_sum (bs @ cs) k = budget_sum bs k + budget_sum cs k"
  by (simp_all add: budget_sum_def)

lemma budget_key_inj: "budget_key pid p now tz = budget_key pid q now tz \<longleftrightarrow> p = q"
  by (cases p; cases q) (auto simp: budget_key_def split: prod.splits)

text \<open>What the plan adds to a key: the delta when it is the key of a capped period.\<close>

definition plan_delta :: "string \<Rightarrow> int \<Rightarrow> time \<Rightarrow> location option \<Rightarrow> (period \<times> int) list \<Rightarrow> string \<Rightarrow> int" where
  "plan_delta pid delta now tz plan k =
     (if list_ex (\<lambda>(p, cap). 0 < cap \<and> k = budget_key pid p now tz) plan then delta else 0)"

context redis_counter
begin

lemma decr_val: "val (snd (DecrBy rd k x r)) = val r \<or> val (snd (DecrBy rd k x r)) = (val r)(k := val r k - x)"
  using decr_ok decr_err by (cases "DecrBy rd k x r"; cases "fst (DecrBy rd k x r)") fastforce+

lemma decr_val_total: "decr_never_fails rd \<Longrightarrow> val (snd (DecrBy rd k x r)) = (val r)(k := val r k - x)"
  unfolding decr_never_fails_def by (metis decr_ok snd_conv)

lemma rollback_exact: "decr_never_fails rd \<Longrightarrow> val (rollbackBudgets rd bs r) k = val r k - budget_sum bs k"
  by (induction bs arbitrary: r) (auto simp: decr_val_total)

lemma pbc_missing: "cap \<le> 0 \<Longrightarrow> periodBudgetCheck rd pid p cap x now tz r = (Inl errCapMissing, r)"
  by (simp add: periodBudgetCheck_def)

lemma pbc_allow:
  assumes "periodBudgetCheck rd pid p cap x now tz r = (Inr ([], u), r1)"
  shows "0 < cap" "val r (budget_key pid p now tz) + x \<le> cap"
    "val r1 = (val r)(budget_key pid p now tz := val r (budget_key pid p now tz) + x)"
  using assms incr_ok [of "budget_key pid p now tz" x "nextReset p now tz" r]
  by (cases p; auto simp: periodBudgetCheck_def Let_def simp del: nextReset.simps
      split: if_splits prod.splits sum.splits)+

lemma pbc_deny:
  assumes "periodBudgetCheck rd pid p cap x now tz r = (Inr (v, u), r1)" "v \<noteq> []"
  shows "0 < cap" "cap < val r (budget_key pid p now tz) + x" "v = period_string p @ ''_exceeded''"
    "val r1 = val r \<or> val r1 = (val r)(budget_key pid p now tz := val r (budget_key pid p now tz) + x)"
    "decr_never_fails rd \<Longrightarrow> val r1 = val r"
proof -
  let ?k = "budget_key pid p now tz"
  obtain n ra where a: "IncrExpire rd ?k x (nextReset p now tz) r = (Inr n, ra)" and c: "0 < cap" "cap < n"
    and v: "v = period_string p @ ''_exceeded''" and r1: "r1 = snd (DecrBy rd ?k x ra)"
    using assms by (auto simp: periodBudgetCheck_def Let_def split: if_splits prod.splits sum.splits)
  note ok = incr_ok [OF a]
  show "0 < cap" "cap < val r ?k + x" "v = period_string p @ ''_exceeded''" using c v ok by auto
  show "val r1 = val r \<or> val r1 = (val r)(?k := val r ?k + x)"
    using decr_val [of ?k x ra] ok by (auto simp: r1)
  show "val r1 = val r" if "decr_never_fails rd" using decr_val_total [OF that, of ?k x ra] ok by (simp add: r1)
qed

lemma pbc_err:
  assumes "periodBudgetCheck rd pid p cap x now tz r = (Inl err, r1)" "err \<noteq> errCapMissing"
  shows "val r1 = val r \<or> val r1 = (val r)(budget_key pid p now tz := val r (budget_key pid p now tz) + x)"
  using assms incr_err [of "budget_key pid p now tz" x "nextReset p now tz" r]
  by (auto simp: periodBudgetCheck_def Let_def split: if_splits prod.splits sum.splits)

lemma pbc_cap_missing_iff:
  "periodBudgetCheck rd pid p cap x now tz r = (Inl errCapMissing, r1) \<Longrightarrow> cap \<le> 0 \<and> r1 = r"
  by (auto simp: periodBudgetCheck_def Let_def split: if_splits prod.splits sum.splits)

lemma period_loop_allowed:
  assumes "period_loop rd pid x now tz plan bs r = (Inr None, r')" "distinct (map fst plan)"
  shows "(\<forall>k. val r' k = val r k + plan_delta pid x now tz plan k)
    \<and> (\<forall>(p, cap) \<in> set plan. 0 < cap \<longrightarrow> val r' (budget_key pid p now tz) \<le> cap)"
  using assms
proof (induction plan arbitrary: bs r)
  case (Cons a plan)
  obtain p cap where a: "a = (p, cap)" by force
  have fresh: "plan_delta pid x now tz plan (budget_key pid p now tz) = 0"
    using Cons.prems(2) by (auto simp: a plan_delta_def list_ex_iff budget_key_inj image_iff split: prod.splits)
  obtain res r1 where c: "periodBudgetCheck rd pid p cap x now tz r = (res, r1)" by force
  show ?case
  proof (cases res)
    case (Inl err)
    then have "err = errCapMissing" "cap \<le> 0" "r1 = r"
      using Cons.prems(1) c pbc_cap_missing_iff [of pid p cap x now tz r r1] by (auto simp: a split: if_splits)
    then show ?thesis using Cons.IH [of bs r] Cons.prems c Inl by (auto simp: a plan_delta_def)
  next
    case (Inr vu)
    obtain u where res: "res = Inr ([], u)"
      using Cons.prems(1) c Inr by (cases vu) (auto simp: a split: if_splits)
    note al = pbc_allow [OF c [unfolded res]]
    have "period_loop rd pid x now tz plan (bs @ [(budget_key pid p now tz, x)]) r1 = (Inr None, r')"
      "distinct (map fst plan)"
      using Cons.prems c res by (simp_all add: a)
    note IH = conjunct1 [OF Cons.IH [OF this]] conjunct2 [OF Cons.IH [OF this]]
    have "val r' k = val r k + plan_delta pid x now tz (a # plan) k" for k
      using IH(1) al(1,3) fresh by (cases "k = budget_key pid p now tz") (auto simp: a plan_delta_def)
    moreover have "val r' (budget_key pid p now tz) \<le> cap" using IH(1) al fresh by simp
    ultimately show ?thesis using IH(2) by (simp add: a)
  qed
qed (simp add: plan_delta_def)

text \<open>Key by key: a rollback that is lost leaves the amount on the key, every other one takes it off.\<close>

lemma rollback_pointwise:
  assumes "\<forall>b \<in> set bs. snd b = x" "distinct (map fst bs)"
  shows "val (rollbackBudgets rd bs r) k = val r k \<or> k \<in> fst ` set bs \<and> val (rollbackBudgets rd bs r) k = val r k - x"
  using assms
proof (induction bs arbitrary: r)
  case (Cons b bs)
  obtain k' where b: "b = (k', x)" using Cons.prems(1) by (cases b) simp
  have IH: "val (rollbackBudgets rd bs r1) k = val r1 k \<or> k \<in> fst ` set bs \<and> val (rollbackBudgets rd bs r1) k = val r1 k - x" for r1
    using Cons.IH Cons.prems by simp
  have "k' \<notin> fst ` set bs" using Cons.prems(2) by (simp add: b)
  then show ?case using decr_val [of k' x r] IH [of "snd (DecrBy rd k' x r)"] by (cases "k = k'") (auto simp: b)
qed simp

lemma period_loop_denied_pointwise:
  assumes "period_loop rd pid x now tz plan bs r = (Inr (Some v), r')"
    "\<forall>b \<in> set bs. snd b = x" "distinct (map fst bs @ map (\<lambda>p. budget_key pid (fst p) now tz) plan)"
  shows "\<exists>y \<in> {0, x}. val r' k = val r k - (if k \<in> fst ` set bs then x else 0) + y"
  using assms
proof (induction plan arbitrary: bs r)
  case (Cons a plan)
  obtain p cap where a: "a = (p, cap)" by force
  let ?key = "budget_key pid p now tz"
  have fresh: "?key \<notin> fst ` set bs" "distinct (map fst bs)" using Cons.prems(3) by (auto simp: a)
  obtain res r1 where c: "periodBudgetCheck rd pid p cap x now tz r = (res, r1)" by force
  show ?case
  proof (cases res)
    case (Inl err)
    then have "err = errCapMissing" "r1 = r"
      using Cons.prems(1) c pbc_cap_missing_iff [of pid p cap x now tz r r1] by (auto simp: a split: if_splits)
    then show ?thesis using Cons.IH [of bs r] Cons.prems c Inl by (simp add: a)
  next
    case (Inr vu)
    obtain ty u where vu: "vu = (ty, u)" by force
    show ?thesis
    proof (cases "ty = []")
      case True
      note c' = c [unfolded Inr vu True]
      have l: "period_loop rd pid x now tz plan (bs @ [(?key, x)]) r1 = (Inr (Some v), r')" using Cons.prems(1) c' by (simp add: a)
      have "\<exists>y \<in> {0, x}. val r' k = val r1 k - (if k \<in> fst ` set (bs @ [(?key, x)]) then x else 0) + y"
        using Cons.prems(2,3) by (intro Cons.IH [OF l]) (auto simp: a)
      then show ?thesis using pbc_allow(3) [OF c'] fresh(1) by (cases "k = ?key") auto
    next
      case False
      note c' = c [unfolded Inr vu]
      have "r' = rollbackBudgets rd bs r1" using Cons.prems(1) c' False by (simp add: a)
      then show ?thesis using pbc_deny(4) [OF c' False] rollback_pointwise [OF Cons.prems(2) fresh(2), of r1 k] fresh(1)
        by (cases "k = ?key") auto
    qed
  qed
qed simp

text \<open>A run that does not pass every period gives back what it took.\<close>

lemma period_loop_denied_exact:
  assumes "period_loop rd pid x now tz plan bs r = (Inr (Some v), r')" "decr_never_fails rd"
  shows "val r' k = val r k - budget_sum bs k"
  using assms
proof (induction plan arbitrary: bs r)
  case (Cons a plan)
  obtain p cap where a: "a = (p, cap)" by force
  obtain res r1 where c: "periodBudgetCheck rd pid p cap x now tz r = (res, r1)" by force
  show ?case
  proof (cases res)
    case (Inl err)
    then have "err = errCapMissing" "r1 = r"
      using Cons.prems(1) c pbc_cap_missing_iff [of pid p cap x now tz r r1] by (auto simp: a split: if_splits)
    then show ?thesis using Cons.IH [of bs r] Cons.prems c Inl by (simp add: a)
  next
    case (Inr vu)
    obtain w u where vu: "vu = (w, u)" by force
    show ?thesis
    proof (cases "w = []")
      case True
      then have "val r' k = val r1 k - budget_sum (bs @ [(budget_key pid p now tz, x)]) k"
        using Cons.IH [of "bs @ [(budget_key pid p now tz, x)]" r1] Cons.prems c Inr vu by (simp add: a)
      then show ?thesis using pbc_allow(3) [OF c [unfolded Inr vu True]] by auto
    next
      case False
      then have "r' = rollbackBudgets rd bs r1" using Cons.prems c Inr vu by (simp add: a)
      then show ?thesis
        using rollback_exact [OF assms(2)] pbc_deny(5) [OF c [unfolded Inr vu] False assms(2)] by simp
    qed
  qed
qed simp

text \<open>The period that refuses is one whose budget the amount would exceed.\<close>

lemma period_loop_reason:
  assumes "period_loop rd pid x now tz plan bs r = (Inr (Some (p, cap, ty)), r')" "distinct (map fst plan)"
  shows "(p, cap) \<in> set plan \<and> ty = period_string p @ ''_exceeded'' \<and> 0 < cap
    \<and> cap < val r (budget_key pid p now tz) + x"
  using assms
proof (induction plan arbitrary: bs r)
  case (Cons a plan)
  obtain q c where a: "a = (q, c)" by force
  obtain res r1 where chk: "periodBudgetCheck rd pid q c x now tz r = (res, r1)" by force
  show ?case
  proof (cases res)
    case (Inl err)
    then have "err = errCapMissing" "r1 = r"
      using Cons.prems(1) chk pbc_cap_missing_iff [of pid q c x now tz r r1] by (auto simp: a split: if_splits)
    then show ?thesis using Cons.IH [of bs r] Cons.prems chk Inl by (simp add: a)
  next
    case (Inr vu)
    obtain w u where vu: "vu = (w, u)" by force
    show ?thesis
    proof (cases "w = []")
      case True
      then have IH: "(p, cap) \<in> set plan \<and> ty = period_string p @ ''_exceeded'' \<and> 0 < cap
          \<and> cap < val r1 (budget_key pid p now tz) + x"
        using Cons.IH [of "bs @ [(budget_key pid q now tz, x)]" r1] Cons.prems chk Inr vu by (simp add: a)
      then have "p \<noteq> q" using Cons.prems(2) by (auto simp: a image_iff)
      then show ?thesis using IH pbc_allow(3) [OF chk [unfolded Inr vu True]] by (simp add: budget_key_inj)
    next
      case False
      then show ?thesis using pbc_deny(1-3) [OF chk [unfolded Inr vu] False] Cons.prems(1) chk Inr vu by (auto simp: a)
    qed
  qed
qed simp

end

section \<open>Refusals\<close>

text \<open>
  The contract of \<open>ViolationEmitter\<close>: it may queue events and changes nothing else.
\<close>

locale violation_emitter =
  fixes emit :: emitter
  assumes emit_frame: "\<exists>evs. emit a d = add_events evs d"
begin

lemma emit_tables:
  "limit_violations (emit a d) = limit_violations d" "limit_policies (emit a d) = limit_policies d"
  "wallets (emit a d) = wallets d" "transactions (emit a d) = transactions d"
  using emit_frame [of a d] by auto

end

lemma EmitLimitExceeded_frame: "\<exists>evs. EmitLimitExceeded e a d = add_events evs d"
  unfolding EmitLimitExceeded_def using Publish_frame by blast

interpretation webhook_emitter: violation_emitter "EmitLimitExceeded e" for e
  by unfold_locales (rule EmitLimitExceeded_frame)

text \<open>A well-behaved optional emitter.\<close>

definition emitter_ok :: "emitter option \<Rightarrow> bool" where
  "emitter_ok em \<longleftrightarrow> (\<forall>emit. em = Some emit \<longrightarrow> violation_emitter emit)"

lemma emitter_ok_simps [simp]: "emitter_ok None" "emitter_ok (Some (EmitLimitExceeded e))"
  by (simp_all add: emitter_ok_def webhook_emitter.violation_emitter_axioms)

definition known_violation :: "string \<Rightarrow> bool" where
  "known_violation ty \<longleftrightarrow> ty \<in> {''policy_expired'', ''per_tx_exceeded'', ''recipient_denied'', ''recipient_not_allowlisted'',
     ''daily_exceeded'', ''weekly_exceeded'', ''monthly_exceeded''}"

text \<open>The request names rows that exist, as the foreign keys of the audit table ask.\<close>

definition request_in_db :: "CheckRequest \<Rightarrow> db \<Rightarrow> bool" where
  "request_in_db req d \<longleftrightarrow> exists_row tn_ID (cr_TenantID req) (tenants d)
     \<and> fk_opt wl_ID (pgxText (cr_WalletID req)) (wallets d)
     \<and> fk_opt sk_ID (pgxText (cr_SessionKeyID req)) (session_keys d)
     \<and> fk_opt tx_ID (pgxText (cr_TransactionID req)) (transactions d)"

definition audit_row :: "env \<Rightarrow> CheckRequest \<Rightarrow> LimitPolicy \<Rightarrow> string \<Rightarrow> db \<Rightarrow> LimitViolation" where
  "audit_row e req pol ty d =
     (violation_row req pol ty)\<lparr>lv_ID := limit_violations_seq d, lv_CreatedAt := clock e ''reject.sqlnow'' []\<rparr>"

lemma CreateLimitViolation_ok:
  assumes "request_in_db req d" "pol \<in> set (limit_policies d)" "known_violation ty"
    "now = clock e ''reject.sqlnow'' []"
  shows "CreateLimitViolation pgd now (violation_row req pol ty) d =
    (Inr (audit_row e req pol ty d),
     d\<lparr>limit_violations := limit_violations d @ [audit_row e req pol ty d],
       limit_violations_seq := limit_violations_seq d + 1\<rparr>)"
proof -
  have "violation_check (audit_row e req pol ty d)"
    using assms(3) by (auto simp: violation_check_def known_violation_def audit_row_def violation_row_def)
  moreover have "fk_opt lp_ID (pgxText (lp_ID pol)) (limit_policies d)"
    using assms(2) by (auto simp: fk_opt_def pgxText_def exists_row_iff)
  ultimately show ?thesis
    using assms(1,4)
    by (simp add: CreateLimitViolation_def violation_row_def audit_row_def request_in_db_def Let_def)
qed

lemma reject_result:
  assumes "reject e em req pol ty capv used msg d = (res, d')"
  shows "\<not> res_Allowed res" "res_PolicyID res = lp_ID pol" "\<exists>v. res_Violation res = Some v \<and> vi_Type v = ty"
  using assms by (auto simp: reject_def Let_def)

lemma CreateLimitViolation_row:
  assumes "CreateLimitViolation pgd (clock e ''reject.sqlnow'' []) (violation_row req pol ty) d = (res, d')"
  shows "limit_violations d' = limit_violations d \<or> limit_violations d' = limit_violations d @ [audit_row e req pol ty d]"
  using assms by (auto simp: CreateLimitViolation_def violation_row_def audit_row_def Let_def split: if_splits)

lemma CreateLimitViolation_cases:
  "snd (CreateLimitViolation pgd now a d) = d\<lparr>limit_violations_seq := limit_violations_seq d + 1\<rparr>
   \<or> (\<exists>r. snd (CreateLimitViolation pgd now a d) = d\<lparr>limit_violations_seq := limit_violations_seq d + 1,
           limit_violations := limit_violations d @ [r]\<rparr>)"
proof (cases "store_numeric pgd (lv_AttemptedAmount a)"; cases "store_numeric pgd (lv_LimitValue a)";
    cases "store_numeric pgd (lv_CurrentUsed a)")
  fix x y z
  assume "store_numeric pgd (lv_AttemptedAmount a) = Some x" "store_numeric pgd (lv_LimitValue a) = Some y"
    "store_numeric pgd (lv_CurrentUsed a) = Some z"
  then show ?thesis by (auto simp: CreateLimitViolation_def Let_def)
qed (simp_all add: CreateLimitViolation_def Let_def)

lemma CreateLimitViolation_frame:
  "\<exists>vs n. snd (CreateLimitViolation pgd now a d)
      = d\<lparr>limit_violations := limit_violations d @ vs, limit_violations_seq := limit_violations_seq d + n\<rparr>
     \<and> length vs \<le> 1"
  using CreateLimitViolation_cases [of pgd now a d]
proof
  assume "snd (CreateLimitViolation pgd now a d) = d\<lparr>limit_violations_seq := limit_violations_seq d + 1\<rparr>"
  then show ?thesis by (intro exI [of _ "[]"] exI [of _ 1]) simp
next
  assume "\<exists>r. snd (CreateLimitViolation pgd now a d) = d\<lparr>limit_violations_seq := limit_violations_seq d + 1,
           limit_violations := limit_violations d @ [r]\<rparr>"
  then obtain r where "snd (CreateLimitViolation pgd now a d) = d\<lparr>limit_violations_seq := limit_violations_seq d + 1,
           limit_violations := limit_violations d @ [r]\<rparr>" ..
  then show ?thesis by (intro exI [of _ "[r]"] exI [of _ 1]) simp
qed

text \<open>
  Everything a refusal changes: at most one audit row, the sequence, and events queued by the emitter.
\<close>

lemma reject_frame:
  assumes "reject e em req pol ty capv used msg d = (res, d')" "emitter_ok em"
  shows "\<exists>vs n evs. d' = add_events evs (d\<lparr>limit_violations := limit_violations d @ vs,
      limit_violations_seq := limit_violations_seq d + n\<rparr>) \<and> length vs \<le> 1"
proof -
  define d1 where "d1 = snd (db_write (fault e ''reject.CreateLimitViolation'' []) d
     (CreateLimitViolation (pg e) (clock e ''reject.sqlnow'' []) (violation_row req pol ty) d))"
  have "\<exists>vs n. d1 = d\<lparr>limit_violations := limit_violations d @ vs, limit_violations_seq := limit_violations_seq d + n\<rparr>
     \<and> length vs \<le> 1"
  proof (cases "fault e ''reject.CreateLimitViolation'' []")
    case None
    then show ?thesis
      using CreateLimitViolation_frame [of "pg e" "clock e ''reject.sqlnow'' []" "violation_row req pol ty" d]
      unfolding d1_def by auto
  next
    case (Some err)
    then show ?thesis by (intro exI [of _ "[]"] exI [of _ 0]) (simp add: d1_def)
  qed
  moreover have "\<exists>evs. d' = add_events evs d1"
  proof (cases em)
    case None
    then show ?thesis using assms(1) by (intro exI [of _ "[]"]) (simp add: reject_def d1_def Let_def)
  next
    case (Some emit)
    then have "violation_emitter emit" using assms(2) by (simp add: emitter_ok_def)
    from violation_emitter.emit_frame [OF this] show ?thesis
      using assms(1) Some unfolding reject_def Let_def d1_def [symmetric] by (metis (no_types, lifting) option.simps(5) prod.inject)
  qed
  ultimately show ?thesis by metis
qed

section \<open>Outcomes of Check\<close>

lemma GetPolicyForScope_match:
  "GetPolicyForScope t ty sid d = Inr p \<Longrightarrow> p \<in> set (limit_policies d) \<and> scope_matches t ty sid p"
  using GetPolicyForScope_D by blast

lemma resolvePolicy_in_db:
  "resolvePolicy e req d = Some pol \<Longrightarrow> pol \<in> set (limit_policies d) \<and> lp_Enabled pol \<and> lp_TenantID pol = cr_TenantID req"
  unfolding resolvePolicy_def Let_def
  by (auto simp: db_read_Inr scope_matches_def is_tenant_default_def split: if_splits sum.splits
      dest!: GetPolicyForScope_match GetTenantDefaultPolicy_D)

lemma recipientGate_known: "recipientGate x pol \<noteq> [] \<Longrightarrow> known_violation (recipientGate x pol)"
  unfolding recipientGate_def Let_def known_violation_def by (simp split: if_splits)

lemma period_exceeded_known: "known_violation (period_string p @ ''_exceeded'')"
  by (cases p) (simp_all add: known_violation_def)

lemma distinct_period_plan [simp]: "distinct (map fst (period_plan e pol))"
  by (simp add: period_plan_def)

text \<open>Every way \<open>Check\<close> can refuse.\<close>

lemma period_loop_type:
  "period_loop rd pid x now tz plan bs r = (Inr (Some (p, cap, ty)), r') \<Longrightarrow> known_violation ty"
proof (induction plan arbitrary: bs r)
  case (Cons a plan)
  obtain q c where a: "a = (q, c)" by force
  have "ty = [] \<or> known_violation ty" if "periodBudgetCheck rd pid q c x now tz r = (Inr (ty, u), r1)" for ty u r1
    using that period_exceeded_known by (auto simp: periodBudgetCheck_def Let_def split: if_splits prod.splits sum.splits)
  then show ?case using Cons by (auto simp: a split: prod.splits sum.splits if_splits)
qed simp

lemma Check_denied_cases:
  assumes "Check e redis em req (d, r) = (Inr res, d', r')" "\<not> res_Allowed res"
  obtains pol ty capv used msg where "resolvePolicy e req d = Some pol" "known_violation ty"
    "reject e em req pol ty capv used msg d = (res, d')" "r' = r"
  | pol rd x p cap ty capv used msg where "resolvePolicy e req d = Some pol" "known_violation ty"
    "reject e em req pol ty capv used msg d = (res, d')" "redis = Some rd" "scaleToMicros (cr_Amount req) = Inr x"
    "period_loop rd (lp_ID pol) x (clock e ''checkPeriods.now'' []) (loadTimezone (LoadLocation e) (lp_Timezone pol))
       (period_plan e pol) [] r = (Inr (Some (p, cap, ty)), r')"
proof -
  have kv: "known_violation ''policy_expired''" "known_violation ''per_tx_exceeded''" by (simp_all add: known_violation_def)
  obtain pol where pol: "resolvePolicy e req d = Some pol"
    using assms by (cases "resolvePolicy e req d") (auto simp: Check_def allowed_result_def)
  note C = assms(1) [unfolded Check_def prod.case pol option.case]
  have en: "lp_Enabled pol" using resolvePolicy_in_db [OF pol] by simp
  show ?thesis
  proof (cases "policy_expired e pol")
    case True
    then show ?thesis using C en that(1) [OF pol kv(1)] by (auto simp: Let_def split: prod.splits)
  next
    case exp: False
    show ?thesis
    proof (cases "\<exists>c. per_tx_gate e req pol = Inr (Some c)")
      case True
      then show ?thesis using C en exp that(1) [OF pol kv(2)] by (auto split: prod.splits)
    next
      case False
      then have tx: "per_tx_gate e req pol = Inr None"
        using C en exp by (cases "per_tx_gate e req pol") (auto split: option.splits)
      show ?thesis
      proof (cases "recipientGate (cr_Recipient req) pol = []")
        case False
        then show ?thesis
          using C en exp tx that(1) [OF pol recipientGate_known [OF False]] by (auto simp: Let_def split: prod.splits)
      next
        case rg: True
        obtain rd where rd: "redis = Some rd"
          using C en exp tx rg assms(2) by (cases redis) (auto simp: Let_def allowed_result_def)
        obtain x where x: "scaleToMicros (cr_Amount req) = Inr x"
          using C en exp tx rg rd by (cases "scaleToMicros (cr_Amount req)") (auto simp: Let_def checkPeriods_def)
        let ?l = "period_loop rd (lp_ID pol) x (clock e ''checkPeriods.now'' [])
          (loadTimezone (LoadLocation e) (lp_Timezone pol)) (period_plan e pol) [] r"
        obtain p cap ty r1 where l: "?l = (Inr (Some (p, cap, ty)), r1)"
          using C en exp tx rg rd x assms(2)
          by (cases ?l; cases "fst ?l") (auto simp: Let_def checkPeriods_def allowed_result_def split: option.splits)
        then show ?thesis
          using C en exp tx rg rd x that(2) [OF pol period_loop_type [OF l] _ rd x]
          by (auto simp: Let_def checkPeriods_def split: prod.splits)
      qed
    qed
  qed
qed

lemma Check_allowed_cases:
  assumes "Check e (Some rd) em req (d, r) = (Inr res, d', r')" "res_Allowed res"
    "resolvePolicy e req d = Some pol"
  obtains x where "d' = d" "\<not> policy_expired e pol" "per_tx_gate e req pol = Inr None"
    "recipientGate (cr_Recipient req) pol = []" "scaleToMicros (cr_Amount req) = Inr x"
    "period_loop rd (lp_ID pol) x (clock e ''checkPeriods.now'' []) (loadTimezone (LoadLocation e) (lp_Timezone pol))
       (period_plan e pol) [] r = (Inr None, r')"
  using assms resolvePolicy_in_db [OF assms(3)] that
  unfolding Check_def checkPeriods_def Let_def
  by (auto simp: allowed_result_def reject_def Let_def split: option.splits if_splits sum.splits prod.splits)

end
