(* ===== verification/Limits_Spec.thy ===== *)
theory Limits_Spec
  imports Limits_Service
begin

text \<open>
  What the limits engine promises: the resolution order of policies, the recipient lists, and the
  outcome of \<open>Check\<close> on the budgets and on the database.
\<close>

section \<open>A concrete tenant\<close>

definition demo_policy :: LimitPolicy where
  "demo_policy = \<lparr> lp_ID = ''pol'', lp_TenantID = ''tn'', lp_ScopeType = ''tenant_default'', lp_ScopeID = None,
     lp_PerTxAmount = Some (Numeric 5 0), lp_PerTxAsset = None, lp_DailyAmount = Some (Numeric 20 0),
     lp_WeeklyAmount = None, lp_MonthlyAmount = None, lp_PeriodAsset = ''USDC'', lp_Timezone = ''UTC'',
     lp_ResetDayOfWeek = 1, lp_ResetDayOfMonth = 1, lp_AllowedRecipients = empty_array,
     lp_DeniedRecipients = marshal_strings [''0xBAD''], lp_ExpiresAt = None, lp_Enabled = True,
     lp_Metadata = empty_object, lp_CreatedAt = 0, lp_UpdatedAt = 0 \<rparr>"

definition demo_db :: db where
  "demo_db = demo_hooks\<lparr>limit_policies := [demo_policy]\<rparr>"

definition demo_request :: "string \<Rightarrow> string \<Rightarrow> CheckRequest" where
  "demo_request amt rcpt = \<lparr> cr_TenantID = ''tn'', cr_WalletID = [], cr_SessionKeyID = [], cr_Amount = amt,
     cr_Asset = ''USDC'', cr_Recipient = rcpt, cr_TransactionID = [] \<rparr>"

lemma demo_resolve: "resolvePolicy (calm_env t) (demo_request amt rcpt) demo_db = Some demo_policy"
  by (simp add: resolvePolicy_def demo_request_def demo_db_def demo_hooks_def GetTenantDefaultPolicy_def select_one_def
      is_tenant_default_def demo_policy_def calm_env_def)

lemma demo_not_expired: "\<not> policy_expired e demo_policy"
  by (simp add: policy_expired_def demo_policy_def)

lemma demo_marshal [simp]: "MarshalJSON (calm_env t) (Numeric i 0) = Some (int_to_dec i @ ''.000000'')"
  by (simp add: calm_env_def)

section \<open>Which policy governs\<close>

text \<open>
  The specification: the first of session key, wallet, wallet group and tenant default for which
  an enabled policy of the tenant exists, and of those the newest.
\<close>

definition governing_scopes :: "CheckRequest \<Rightarrow> db \<Rightarrow> (string \<times> string) list" where
  "governing_scopes req d =
     (if cr_SessionKeyID req = [] then [] else [(''session_key'', cr_SessionKeyID req)]) @
     (if cr_WalletID req = [] then []
      else (''wallet'', cr_WalletID req) #
           (case GetWalletByID (cr_WalletID req) d of Inl _ \<Rightarrow> [] | Inr w \<Rightarrow> [(''wallet_group'', wl_GroupID w)]))"

fun first_policy :: "string \<Rightarrow> db \<Rightarrow> (string \<times> string) list \<Rightarrow> LimitPolicy option" where
  "first_policy t d [] = (case GetTenantDefaultPolicy t d of Inl _ \<Rightarrow> None | Inr p \<Rightarrow> Some p)"
| "first_policy t d ((ty, i) # ss) =
     (case GetPolicyForScope t ty (pgxText i) d of Inl _ \<Rightarrow> first_policy t d ss | Inr p \<Rightarrow> Some p)"

text \<open>
  When no lookup fails, the governing policy is that of the most specific scope that has an
  enabled one, in the order session key, wallet, wallet group, tenant default.
\<close>

theorem resolvePolicy_most_specific:
  assumes "\<forall>site key. fault e site key = None"
  shows "resolvePolicy e req d = first_policy (cr_TenantID req) d (governing_scopes req d)"
  using assms
  by (auto simp: resolvePolicy_def governing_scopes_def Let_def split: sum.splits)

theorem resolvePolicy_most_specific_witness:
  "first_policy ''tn'' demo_db (governing_scopes (demo_request ''1'' ''x'') demo_db) = Some demo_policy"
  using resolvePolicy_most_specific [of "calm_env 0" "demo_request ''1'' ''x''" demo_db] demo_resolve [of 0 "''1''" "''x''"]
  by (simp add: calm_env_def demo_request_def)

section \<open>Recipients\<close>

text \<open>
  With a non-empty allow list a recipient passes exactly when it is on the list up to case,
  whatever the deny list says; otherwise it is refused exactly when it is on the deny list up to
  case. An empty recipient always passes.
\<close>

theorem recipientGate_spec:
  "recipientGate x pol =
    (let allow = ToLower ` set (parseJSONStringList (lp_AllowedRecipients pol));
         deny = ToLower ` set (parseJSONStringList (lp_DeniedRecipients pol)) in
     if x = [] then []
     else if allow \<noteq> {} then (if ToLower x \<in> allow then [] else ''recipient_not_allowlisted'')
     else if ToLower x \<in> deny then ''recipient_denied'' else [])"
  by (auto simp: recipientGate_def Let_def list_ex_iff image_iff)

section \<open>Budgets\<close>

definition check_now :: "env \<Rightarrow> time" where "check_now e = clock e ''checkPeriods.now'' []"

definition check_tz :: "env \<Rightarrow> LimitPolicy \<Rightarrow> location option" where
  "check_tz e pol = loadTimezone (LoadLocation e) (lp_Timezone pol)"

text \<open>
  C9: a transfer is allowed under a policy only when the policy has not expired, the amount passes
  the per-transaction cap and the recipient lists, and then every capped period of the policy
  is charged exactly the amount, no other counter moves, and each charged budget is within its
  cap afterwards. Nothing is written to the database.
\<close>

theorem Check_allowed_charges_within_caps:
  assumes "redis_counter rd val" "Check e (Some rd) em req (d, r) = (Inr res, d', r')" "res_Allowed res"
    "resolvePolicy e req d = Some pol"
  shows "d' = d \<and> \<not> policy_expired e pol \<and> per_tx_gate e req pol = Inr None
    \<and> recipientGate (cr_Recipient req) pol = []
    \<and> (\<exists>x. scaleToMicros (cr_Amount req) = Inr x
        \<and> (\<forall>k. val r' k = val r k + plan_delta (lp_ID pol) x (check_now e) (check_tz e pol) (period_plan e pol) k)
        \<and> (\<forall>(p, cap) \<in> set (period_plan e pol). 0 < cap \<longrightarrow>
              val r' (budget_key (lp_ID pol) p (check_now e) (check_tz e pol)) \<le> cap))"
proof -
  obtain x where x: "d' = d" "\<not> policy_expired e pol" "per_tx_gate e req pol = Inr None"
    "recipientGate (cr_Recipient req) pol = []" "scaleToMicros (cr_Amount req) = Inr x"
    "period_loop rd (lp_ID pol) x (clock e ''checkPeriods.now'' []) (loadTimezone (LoadLocation e) (lp_Timezone pol))
       (period_plan e pol) [] r = (Inr None, r')"
    using Check_allowed_cases [OF assms(2-4)] by blast
  from redis_counter.period_loop_allowed [OF assms(1) x(6) distinct_period_plan] show ?thesis
    unfolding check_now_def check_tz_def using x(1-5) by blast
qed

lemma demo_marshal_5: "numericToString (MarshalJSON (calm_env t)) (ColNumeric (Some (Numeric 5 0))) = number_text ''5'' (Some ''000000'')"
  by (simp add: number_text_def int_to_dec_def nat_to_dec.simps strip_quotes_def)

lemma demo_within_cap: "per_tx_gate (calm_env t) (demo_request ''4.5'' rcpt) demo_policy = Inr None"
proof -
  have v: "dec_rat ''5'' ''000000'' = 5" "dec_rat ''4'' ''5'' = 9 / 2"
    by (simp_all add: dec_rat_def dec_val_Cons digit_val_def)
  have "exceedsNumeric (MarshalJSON (calm_env t)) (ColNumeric (Some (Numeric 5 0))) (number_text ''4'' (Some ''5''))
      = Inr (round64 5 < round64 (9 / 2), number_text ''5'' (Some ''000000''))"
    by (subst exceedsNumeric_decimal [OF demo_marshal_5]) (simp_all add: v is_digit_def)
  moreover have "\<not> round64 5 < round64 (9 / 2)" using round64_mono [of "9 / 2" 5] by simp
  ultimately show ?thesis by (simp add: per_tx_gate_def demo_policy_def demo_request_def number_text_def)
qed

lemma demo_plan: "period_plan (calm_env t) demo_policy = [(periodDaily, 20000000), (periodWeekly, 0), (periodMonthly, 0)]"
  by (simp add: period_plan_def demo_policy_def numericToMicros_def strip_quotes_def decimal_eval)

lemma demo_recipient: "recipientGate ''x'' demo_policy = []" "recipientGate ''0xbad'' demo_policy = ''recipient_denied''"
  by code_simp+

lemma demo_amount: "scaleToMicros ''4.5'' = Inr 4500000"
  by (simp add: decimal_eval)

definition demo_key :: string where
  "demo_key = budget_key ''pol'' periodDaily 0 (Some UTC)"

lemma demo_tz: "loadTimezone (LoadLocation (calm_env t)) (lp_Timezone demo_policy) = Some UTC"
  by (simp add: loadTimezone_def calm_env_def)

lemma demo_budget:
  "periodBudgetCheck mem_redis ''pol'' periodDaily 20000000 4500000 0 (Some UTC) r =
   (if 20000000 < r demo_key + 4500000
    then (Inr (''daily_exceeded'', microsToDecimal (r demo_key)), r)
    else (Inr ([], microsToDecimal (r demo_key + 4500000)), r(demo_key := r demo_key + 4500000)))"
  by (simp add: periodBudgetCheck_def mem_redis_def Let_def del: nextReset.simps flip: demo_key_def)

lemma demo_loop:
  "period_loop mem_redis ''pol'' 4500000 0 (Some UTC) [(periodDaily, 20000000), (periodWeekly, 0), (periodMonthly, 0)] [] r =
   (if 20000000 < r demo_key + 4500000 then (Inr (Some (periodDaily, 20000000, ''daily_exceeded'')), r)
    else (Inr None, r(demo_key := r demo_key + 4500000)))"
  by (simp add: demo_budget mem.pbc_missing)

lemma demo_check:
  "Check (calm_env 0) (Some mem_redis) em (demo_request ''4.5'' ''x'') (demo_db, r) =
   (if 20000000 < r demo_key + 4500000
    then (case reject (calm_env 0) em (demo_request ''4.5'' ''x'') demo_policy ''daily_exceeded'' (microsToDecimal 20000000)
            [] (''daily cap '' @ microsToDecimal 20000000 @ '' exceeded'') demo_db of (res, d1) \<Rightarrow> (Inr res, d1, r))
    else (Inr (allowed_result ''pol''), demo_db, r(demo_key := r demo_key + 4500000)))"
proof -
  have "cr_Amount (demo_request ''4.5'' ''x'') = ''4.5''" "cr_Recipient (demo_request ''4.5'' ''x'') = ''x''"
    "lp_Enabled demo_policy" "lp_ID demo_policy = ''pol''" "clock (calm_env 0) site key = 0" for site key
    by (simp_all add: demo_request_def demo_policy_def calm_env_def)
  then show ?thesis
    using demo_loop [of r]
    by (simp add: Check_def checkPeriods_def demo_resolve demo_not_expired demo_within_cap demo_recipient demo_amount
        demo_plan demo_tz Let_def split: prod.splits)
qed

theorem Check_allowed_charges_within_caps_witness:
  "\<exists>r'. Check (calm_env 0) (Some mem_redis) None (demo_request ''4.5'' ''x'') (demo_db, \<lambda>_. 0)
        = (Inr (allowed_result ''pol''), demo_db, r')
     \<and> r' (budget_key ''pol'' periodDaily 0 (Some UTC)) \<le> 20000000"
proof -
  let ?r = "(\<lambda>_. 0)(demo_key := 4500000 :: int)"
  have c: "Check (calm_env 0) (Some mem_redis) None (demo_request ''4.5'' ''x'') (demo_db, \<lambda>_. 0)
      = (Inr (allowed_result ''pol''), demo_db, ?r)" by (simp add: demo_check)
  have "res_Allowed (allowed_result ''pol'')" by (simp add: allowed_result_def)
  from Check_allowed_charges_within_caps [OF mem.redis_counter_axioms c this demo_resolve]
  have "?r (budget_key (lp_ID demo_policy) periodDaily (check_now (calm_env 0)) (check_tz (calm_env 0) demo_policy)) \<le> 20000000"
    by (auto simp: demo_plan)
  moreover have "lp_ID demo_policy = ''pol''" "check_now (calm_env 0) = 0" "check_tz (calm_env 0) demo_policy = Some UTC"
    by (simp_all add: demo_policy_def check_now_def check_tz_def calm_env_def loadTimezone_def)
  ultimately show ?thesis using c by auto
qed

text \<open>
  C10: a refusal gives back whatever the engine had taken from the budgets. With rollbacks that
  reach Redis every counter is as before. When some are lost, each counter is as before or above it by exactly the
  amount of the transfer, so an amount that is not negative is never under-counted (a negative one, which the hidden
  sign of \<open>hidden_sign_is_accepted\<close> gives, would be). On the database a refusal adds at most one audit row and
  events; policies, wallets and transactions are untouched.
\<close>

theorem Check_denied_restores_budgets:
  assumes "redis_counter rd val" "Check e (Some rd) em req (d, r) = (Inr res, d', r')" "\<not> res_Allowed res"
    "emitter_ok em"
  shows "(decr_never_fails rd \<longrightarrow> val r' = val r)
    \<and> (val r' = val r \<or> (\<exists>x. scaleToMicros (cr_Amount req) = Inr x
          \<and> (\<forall>k. val r' k = val r k \<or> val r' k = val r k + x) \<and> (0 \<le> x \<longrightarrow> (\<forall>k. val r k \<le> val r' k))))
    \<and> (\<exists>vs n evs. length vs \<le> 1 \<and> d' = add_events evs (d\<lparr>limit_violations := limit_violations d @ vs,
         limit_violations_seq := limit_violations_seq d + n\<rparr>))"
  using assms(2,3)
proof (cases rule: Check_denied_cases)
  case (1 pol ty capv used msg)
  then show ?thesis using reject_frame [OF 1(3) assms(4)] by blast
next
  case (2 pol rd' x p cap ty capv used msg)
  have rd: "rd' = rd" using 2 by simp
  note loop = 2(6) [unfolded rd]
  have "val r' = val r" if "decr_never_fails rd"
    using redis_counter.period_loop_denied_exact [OF assms(1) loop that] by (simp add: fun_eq_iff)
  moreover have "\<forall>k. val r' k = val r k \<or> val r' k = val r k + x"
    using redis_counter.period_loop_denied_pointwise [OF assms(1) loop] by (fastforce simp: period_plan_def budget_key_inj)
  moreover from this have "\<forall>k. val r k \<le> val r' k" if "0 \<le> x" using that by (metis le_add_same_cancel1 order_refl)
  ultimately show ?thesis using reject_frame [OF 2(3) assms(4)] 2(5) by blast
qed

theorem Check_denied_restores_budgets_witness:
  "\<exists>res d'. Check (calm_env 0) (Some mem_redis) None (demo_request ''4.5'' ''x'') (demo_db, \<lambda>_. 18000000)
        = (Inr res, d', \<lambda>_. 18000000) \<and> \<not> res_Allowed res"
proof -
  obtain res d' where rj: "reject (calm_env 0) None (demo_request ''4.5'' ''x'') demo_policy ''daily_exceeded''
      (microsToDecimal 20000000) [] (''daily cap '' @ microsToDecimal 20000000 @ '' exceeded'') demo_db = (res, d')"
    by force
  have c: "Check (calm_env 0) (Some mem_redis) None (demo_request ''4.5'' ''x'') (demo_db, \<lambda>_. 18000000)
      = (Inr res, d', \<lambda>_. 18000000)" using rj by (simp add: demo_check)
  note Check_denied_restores_budgets [OF mem.redis_counter_axioms c reject_result(1) [OF rj], simplified]
  then show ?thesis using c reject_result(1) [OF rj] by blast
qed

text \<open>
  C11: what a refusal leaves in the audit table, which the code writes as best effort. A refusal adds at most one row to
  \<open>limit_violations\<close>, and the row carries the tenant, the governing policy, the wallet, the session key and the
  violation type that is reported to the caller, a type the table admits. The row is there whenever the
  insert does not fail and the request names rows that exist; when PostgreSQL fails the insert, the refusal stands without
  a row.
\<close>

theorem Check_denied_is_audited:
  assumes "Check e redis em req (d, r) = (Inr res, d', r')" "\<not> res_Allowed res" "emitter_ok em"
  shows "\<exists>pol ty v. resolvePolicy e req d = Some pol \<and> res_PolicyID res = lp_ID pol
    \<and> res_Violation res = Some v \<and> vi_Type v = ty \<and> known_violation ty
    \<and> (limit_violations d' = limit_violations d \<or> limit_violations d' = limit_violations d @ [audit_row e req pol ty d])
    \<and> (request_in_db req d \<and> fault e ''reject.CreateLimitViolation'' [] = None
         \<longrightarrow> limit_violations d' = limit_violations d @ [audit_row e req pol ty d])
    \<and> (fault e ''reject.CreateLimitViolation'' [] \<noteq> None \<longrightarrow> limit_violations d' = limit_violations d)"
proof -
  have main: ?thesis if pol: "resolvePolicy e req d = Some pol" and ty: "known_violation ty"
    and rj: "reject e em req pol ty capv used msg d = (res, d')" for pol ty capv used msg
  proof -
    let ?q = "CreateLimitViolation (pg e) (clock e ''reject.sqlnow'' []) (violation_row req pol ty) d"
    let ?f = "fault e ''reject.CreateLimitViolation'' []"
    have mem: "pol \<in> set (limit_policies d)" using resolvePolicy_in_db [OF pol] by simp
    have table: "limit_violations d' = limit_violations (snd (db_write ?f d ?q))"
    proof (cases em)
      case (Some emit)
      then have "violation_emitter emit" using assms(3) by (simp add: emitter_ok_def)
      then show ?thesis using rj Some violation_emitter.emit_tables(1) by (auto simp: reject_def Let_def)
    qed (use rj in \<open>auto simp: reject_def Let_def\<close>)
    have "limit_violations (snd ?q) = limit_violations d \<or> limit_violations (snd ?q) = limit_violations d @ [audit_row e req pol ty d]"
      using CreateLimitViolation_row [of "pg e" e req pol ty d] by (metis prod.collapse)
    moreover have "limit_violations (snd ?q) = limit_violations d @ [audit_row e req pol ty d]" if "request_in_db req d"
      using CreateLimitViolation_ok [OF that mem ty refl, of "pg e" e] by simp
    ultimately show ?thesis using pol ty reject_result [OF rj] table by (cases ?f) auto
  qed
  show ?thesis using assms(1,2) by (cases rule: Check_denied_cases) (use main in blast)+
qed

theorem Check_denied_is_audited_witness:
  "\<exists>res d'. Check (calm_env 0) (Some mem_redis) None (demo_request ''4.5'' ''x'') (demo_db, \<lambda>_. 18000000)
        = (Inr res, d', \<lambda>_. 18000000) \<and> length (limit_violations d') = 1"
proof -
  obtain res d' where rj: "reject (calm_env 0) None (demo_request ''4.5'' ''x'') demo_policy ''daily_exceeded''
      (microsToDecimal 20000000) [] (''daily cap '' @ microsToDecimal 20000000 @ '' exceeded'') demo_db = (res, d')"
    by force
  have c: "Check (calm_env 0) (Some mem_redis) None (demo_request ''4.5'' ''x'') (demo_db, \<lambda>_. 18000000)
      = (Inr res, d', \<lambda>_. 18000000)" using rj by (simp add: demo_check)
  have "request_in_db (demo_request ''4.5'' ''x'') demo_db"
    by (simp add: request_in_db_def demo_request_def demo_db_def demo_hooks_def demo_tenant_def exists_row_def fk_opt_def pgxText_def)
  moreover have "fault (calm_env 0) site key = None" for site key by (simp add: calm_env_def)
  ultimately have "\<exists>x. limit_violations d' = limit_violations demo_db @ [x]"
    using Check_denied_is_audited [OF c reject_result(1) [OF rj] emitter_ok_simps(1)] by blast
  then show ?thesis using c by (auto simp: demo_db_def demo_hooks_def empty_db_def)
qed

text \<open>
  Without a policy for any scope of the request the transfer is allowed under the empty policy
  id, and neither the database nor Redis is touched.
\<close>

theorem Check_no_policy:
  assumes "resolvePolicy e req d = None"
  shows "Check e redis em req (d, r) = (Inr (allowed_result []), d, r)"
  by (simp add: Check_def assms)

theorem Check_no_policy_witness:
  "Check (calm_env 0) (Some mem_redis) None (demo_request ''4.5'' ''x'') (empty_db, \<lambda>_. 0)
     = (Inr (allowed_result []), empty_db, \<lambda>_. 0)"
  by (rule Check_no_policy) (simp add: resolvePolicy_def demo_request_def empty_db_def GetTenantDefaultPolicy_def
      select_one_def calm_env_def)

end
