(* ===== verification/Limits_Concurrent.thy ===== *)
theory Limits_Concurrent
  imports Limits_Spec
begin

text \<open>
  Concurrent payments against shared budgets. \<open>counter.go\<close> increments first, compares, and
  decrements on a bust; between these commands other requests of any process interleave. A
  request is a process with its own program counter (\<open>phase\<close>); a step is one Redis command or
  one comparison of one request. Commands may fail, with or without effect. The theorem: whatever
  the interleaving, the transfers that are admitted never exceed a cap together. A second lemma
  shows that the sequential loop of \<open>checkPeriods\<close> is one of the runs of this step relation.
\<close>

section \<open>Requests as processes\<close>

text \<open>
  The keys a request has charged are carried along, as \<open>rollbacks\<close> in the code. \<open>Charged\<close> is the
  point between \<open>pipe.Exec\<close> and the comparison with the cap.
\<close>

datatype phase =
  Running "(string \<times> int) list" "string list"
| Charged int string int "(string \<times> int) list" "string list"
| Refunding "string list"
| Admitted "string list"
| Denied

record budgets =
  ctr :: "string \<Rightarrow> int"
  ph :: "nat \<Rightarrow> phase"

definition set_req :: "nat \<Rightarrow> (string \<Rightarrow> int) \<Rightarrow> phase \<Rightarrow> budgets \<Rightarrow> budgets" where
  "set_req i c p s = s\<lparr>ctr := c, ph := (ph s)(i := p)\<rparr>"

lemma set_req_simps [simp]:
  "ctr (set_req i c p s) = c" "ph (set_req i c p s) = (ph s)(i := p)"
  "set_req i c p (set_req i c' p' s) = set_req i c p s"
  by (simp_all add: set_req_def)

inductive budget_step :: "(nat \<Rightarrow> int) \<Rightarrow> nat \<Rightarrow> budgets \<Rightarrow> budgets \<Rightarrow> bool" for delta :: "nat \<Rightarrow> int" and i :: nat where
  no_cap: "ph s i = Running ((k, c) # pl) ks \<Longrightarrow> c \<le> 0 \<Longrightarrow>
     budget_step delta i s (set_req i (ctr s) (Running pl ks) s)"
| incr: "ph s i = Running ((k, c) # pl) ks \<Longrightarrow> 0 < c \<Longrightarrow>
     budget_step delta i s (set_req i ((ctr s)(k := ctr s k + delta i)) (Charged (ctr s k + delta i) k c pl ks) s)"
| incr_lost: "ph s i = Running ((k, c) # pl) ks \<Longrightarrow> 0 < c \<Longrightarrow> x = 0 \<or> x = delta i \<Longrightarrow>
     budget_step delta i s (set_req i ((ctr s)(k := ctr s k + x)) (Refunding ks) s)"
| within: "ph s i = Charged t k c pl ks \<Longrightarrow> t \<le> c \<Longrightarrow>
     budget_step delta i s (set_req i (ctr s) (Running pl (ks @ [k])) s)"
| bust: "ph s i = Charged t k c pl ks \<Longrightarrow> c < t \<Longrightarrow>
     budget_step delta i s (set_req i (ctr s) (Refunding (k # ks)) s)"
| refund: "ph s i = Refunding (k # ks) \<Longrightarrow> x = 0 \<or> x = delta i \<Longrightarrow>
     budget_step delta i s (set_req i ((ctr s)(k := ctr s k - x)) (Refunding ks) s)"
| deny: "ph s i = Refunding [] \<Longrightarrow> budget_step delta i s (set_req i (ctr s) Denied s)"
| admit: "ph s i = Running [] ks \<Longrightarrow> budget_step delta i s (set_req i (ctr s) (Admitted ks) s)"

text \<open>Any number of steps, each by some request of the set \<open>I\<close>.\<close>

inductive budget_run :: "nat set \<Rightarrow> (nat \<Rightarrow> int) \<Rightarrow> budgets \<Rightarrow> budgets \<Rightarrow> bool" for I delta where
  run_refl: "budget_run I delta s s"
| run_step: "budget_run I delta s s' \<Longrightarrow> i \<in> I \<Longrightarrow> budget_step delta i s' s'' \<Longrightarrow> budget_run I delta s s''"

definition start_budgets :: "(string \<Rightarrow> int) \<Rightarrow> (nat \<Rightarrow> (string \<times> int) list) \<Rightarrow> budgets" where
  "start_budgets used plan = \<lparr> ctr = used, ph = (\<lambda>i. Running (plan i) []) \<rparr>"

section \<open>The invariant\<close>

text \<open>
  A request holds a key when its increment is still in the counter; it holds it safely when it
  has passed the comparison or will pass it.
\<close>

fun held :: "string \<Rightarrow> phase \<Rightarrow> bool" where
  "held k (Running pl ks) = (k \<in> set ks)"
| "held k (Charged t k' c pl ks) = (k = k' \<or> k \<in> set ks)"
| "held k (Refunding ks) = (k \<in> set ks)"
| "held k (Admitted ks) = (k \<in> set ks)"
| "held k Denied = False"

fun safe :: "string \<Rightarrow> phase \<Rightarrow> bool" where
  "safe k (Running pl ks) = (k \<in> set ks)"
| "safe k (Charged t k' c pl ks) = ((k = k' \<and> t \<le> c) \<or> k \<in> set ks)"
| "safe k (Refunding ks) = False"
| "safe k (Admitted ks) = (k \<in> set ks)"
| "safe k Denied = False"

text \<open>A key is charged at most once, and its cap is the one the policy gives it.\<close>

fun phase_ok :: "(string \<Rightarrow> int) \<Rightarrow> phase \<Rightarrow> bool" where
  "phase_ok cap (Running pl ks) = (distinct (map fst pl @ ks) \<and> (\<forall>(k, c) \<in> set pl. 0 < c \<longrightarrow> c = cap k))"
| "phase_ok cap (Charged t k c pl ks) =
     (distinct (k # map fst pl @ ks) \<and> c = cap k \<and> (\<forall>(k, c) \<in> set pl. 0 < c \<longrightarrow> c = cap k))"
| "phase_ok cap (Refunding ks) = distinct ks"
| "phase_ok cap (Admitted ks) = distinct ks"
| "phase_ok cap Denied = True"

definition held_sum :: "nat set \<Rightarrow> (nat \<Rightarrow> int) \<Rightarrow> string \<Rightarrow> (nat \<Rightarrow> phase) \<Rightarrow> int" where
  "held_sum I delta k f = (\<Sum>i \<in> I. if held k (f i) then delta i else 0)"

definition safe_sum :: "nat set \<Rightarrow> (nat \<Rightarrow> int) \<Rightarrow> string \<Rightarrow> (nat \<Rightarrow> phase) \<Rightarrow> int" where
  "safe_sum I delta k f = (\<Sum>i \<in> I. if safe k (f i) then delta i else 0)"

definition budget_inv ::
    "nat set \<Rightarrow> (nat \<Rightarrow> int) \<Rightarrow> (string \<Rightarrow> int) \<Rightarrow> (string \<Rightarrow> int) \<Rightarrow> budgets \<Rightarrow> bool" where
  "budget_inv I delta cap used s \<longleftrightarrow>
     (\<forall>i \<in> I. phase_ok cap (ph s i))
     \<and> (\<forall>k. used k + held_sum I delta k (ph s) \<le> ctr s k)
     \<and> (\<forall>k. (\<exists>i \<in> I. safe k (ph s i)) \<longrightarrow> used k + safe_sum I delta k (ph s) \<le> cap k)"

lemma sum_change:
  fixes g :: "nat \<Rightarrow> phase \<Rightarrow> int"
  assumes "finite I" "i \<in> I"
  shows "(\<Sum>j \<in> I. g j ((f(i := p)) j)) = (\<Sum>j \<in> I. g j (f j)) - g i (f i) + g i p"
proof -
  have "(\<Sum>j \<in> I. g j ((f(i := p)) j)) = g i p + (\<Sum>j \<in> I - {i}. g j (f j))"
    using assms by (simp add: sum.remove [of I i])
  moreover have "(\<Sum>j \<in> I. g j (f j)) = g i (f i) + (\<Sum>j \<in> I - {i}. g j (f j))"
    using assms by (simp add: sum.remove [of I i])
  ultimately show ?thesis by simp
qed

lemma held_sum_change:
  assumes "finite I" "i \<in> I"
  shows "held_sum I delta k (f(i := p)) =
    held_sum I delta k f - (if held k (f i) then delta i else 0) + (if held k p then delta i else 0)"
  unfolding held_sum_def using sum_change [OF assms, of "\<lambda>j q. if held k q then delta j else 0" f p] by simp

lemma safe_sum_change:
  assumes "finite I" "i \<in> I"
  shows "safe_sum I delta k (f(i := p)) =
    safe_sum I delta k f - (if safe k (f i) then delta i else 0) + (if safe k p then delta i else 0)"
  unfolding safe_sum_def using sum_change [OF assms, of "\<lambda>j q. if safe k q then delta j else 0" f p] by simp

lemma safe_held: "safe k p \<Longrightarrow> held k p"
  by (cases p) auto

lemma safe_sum_le_held:
  "\<forall>i. 0 \<le> delta i \<Longrightarrow> safe_sum I delta k f \<le> held_sum I delta k f"
  unfolding safe_sum_def held_sum_def by (intro sum_mono) (auto dest: safe_held)

text \<open>
  What a step has to show: the counter moves at least as much as the holdings of the request,
  and a key that becomes safe fits under its cap.
\<close>

lemma budget_inv_update:
  assumes fin: "finite I" "i \<in> I" and nn: "\<forall>j. 0 \<le> delta j" and inv: "budget_inv I delta cap used s"
    and ok: "phase_ok cap p"
    and hold: "\<And>k. (if held k p then delta i else 0) - (if held k (ph s i) then delta i else 0) \<le> c' k - ctr s k"
    and fits: "\<And>k. safe k p \<Longrightarrow> \<not> safe k (ph s i) \<Longrightarrow> used k + safe_sum I delta k (ph s) + delta i \<le> cap k"
  shows "budget_inv I delta cap used (set_req i c' p s)"
proof -
  have "used k + held_sum I delta k ((ph s)(i := p)) \<le> c' k" for k
    using inv hold [of k] by (simp add: budget_inv_def held_sum_change [OF fin]) (smt (verit))
  moreover have "used k + safe_sum I delta k ((ph s)(i := p)) \<le> cap k"
    if ex: "\<exists>j \<in> I. safe k (((ph s)(i := p)) j)" for k
  proof (cases "safe k p \<and> \<not> safe k (ph s i)")
    case True
    then show ?thesis using fits [of k] by (simp add: safe_sum_change [OF fin])
  next
    case False
    then have "\<exists>j \<in> I. safe k (ph s j)" using ex fin(2) by (metis fun_upd_apply)
    then have "used k + safe_sum I delta k (ph s) \<le> cap k" using inv by (simp add: budget_inv_def)
    moreover have "safe_sum I delta k ((ph s)(i := p)) \<le> safe_sum I delta k (ph s)"
      using False nn by (auto simp: safe_sum_change [OF fin])
    ultimately show ?thesis by linarith
  qed
  ultimately show ?thesis using inv ok by (auto simp: budget_inv_def)
qed

lemma budget_step_inv:
  assumes step: "budget_step delta i s s'" and fin: "i \<in> I" "finite I" and nn: "\<forall>j. 0 \<le> delta j"
    and inv: "budget_inv I delta cap used s"
  shows "budget_inv I delta cap used s'"
proof -
  note upd = budget_inv_update [OF fin(2,1) nn inv]
  have ok: "phase_ok cap (ph s i)" using inv fin(1) by (simp add: budget_inv_def)
  show ?thesis
    using step
  proof cases
    case (no_cap k c pl ks)
    show ?thesis unfolding no_cap(1) by (rule upd) (use ok no_cap in auto)
  next
    case (incr k c pl ks)
    have fresh: "k \<notin> set ks" and c: "c = cap k" using ok incr by auto
    have "used k + safe_sum I delta k (ph s) \<le> ctr s k"
      using inv safe_sum_le_held [OF nn, of I k "ph s"] by (simp add: budget_inv_def) (smt (verit))
    then show ?thesis unfolding incr(1) by (intro upd) (use ok incr fresh c in auto)
  next
    case (incr_lost k c pl ks x)
    show ?thesis unfolding incr_lost(1) by (rule upd) (use ok incr_lost nn in auto)
  next
    case (within t k c pl ks)
    show ?thesis unfolding within(1) by (rule upd) (use ok within in auto)
  next
    case (bust t k c pl ks)
    show ?thesis unfolding bust(1) by (rule upd) (use ok bust in auto)
  next
    case (refund k ks x)
    show ?thesis unfolding refund(1) by (rule upd) (use ok refund nn in auto)
  next
    case deny
    show ?thesis unfolding deny(1) by (rule upd) (use deny in auto)
  next
    case (admit ks)
    show ?thesis unfolding admit(1) by (rule upd) (use ok admit in auto)
  qed
qed

text \<open>Each request starts with a plan whose keys are distinct and whose positive caps are those of the policies.\<close>

definition plans_ok :: "nat set \<Rightarrow> (string \<Rightarrow> int) \<Rightarrow> (nat \<Rightarrow> (string \<times> int) list) \<Rightarrow> bool" where
  "plans_ok I cap plan \<longleftrightarrow>
     (\<forall>i \<in> I. distinct (map fst (plan i)) \<and> (\<forall>(k, c) \<in> set (plan i). 0 < c \<longrightarrow> c = cap k))"

lemma start_inv: "plans_ok I cap plan \<Longrightarrow> budget_inv I delta cap used (start_budgets used plan)"
  by (auto simp: budget_inv_def start_budgets_def plans_ok_def held_sum_def)

lemma budget_run_inv:
  assumes "budget_run I delta s s'" "finite I" "\<forall>j. 0 \<le> delta j" "budget_inv I delta cap used s"
  shows "budget_inv I delta cap used s'"
  using assms by (induction rule: budget_run.induct) (auto intro: budget_step_inv)

definition admitted_on :: "string \<Rightarrow> budgets \<Rightarrow> nat \<Rightarrow> bool" where
  "admitted_on k s i \<longleftrightarrow> (case ph s i of Admitted ks \<Rightarrow> k \<in> set ks | _ \<Rightarrow> False)"

text \<open>
  C12: for any number of concurrent transfers with non-negative amounts, any interleaving of their
  Redis commands and any pattern of lost commands, the transfers that have been admitted against
  a budget, added to what was used at the start, do not exceed its cap.
\<close>

theorem concurrent_admissions_within_cap:
  assumes "finite I" "\<forall>j. 0 \<le> delta j" "plans_ok I cap plan" "budget_run I delta (start_budgets used plan) s"
    "\<exists>i \<in> I. admitted_on k s i"
  shows "used k + (\<Sum>i \<in> {i \<in> I. admitted_on k s i}. delta i) \<le> cap k"
proof -
  have inv: "budget_inv I delta cap used s"
    by (rule budget_run_inv [OF assms(4,1,2) start_inv [OF assms(3)]])
  have adm: "admitted_on k s i \<Longrightarrow> safe k (ph s i)" for i
    by (auto simp: admitted_on_def split: phase.splits)
  have "(\<Sum>i \<in> {i \<in> I. admitted_on k s i}. delta i) = (\<Sum>i \<in> I. if admitted_on k s i then delta i else 0)"
    using assms(1) by (simp add: sum.inter_filter)
  also have "\<dots> \<le> safe_sum I delta k (ph s)"
    unfolding safe_sum_def using assms(2) adm by (intro sum_mono) auto
  finally show ?thesis using inv assms(5) adm unfolding budget_inv_def by (smt (verit))
qed

definition demo_start :: budgets where
  "demo_start = start_budgets (\<lambda>_. 1) (\<lambda>_. [(''k'', 5)])"

definition demo_state :: "int \<Rightarrow> phase \<Rightarrow> budgets" where
  "demo_state n p = set_req 0 ((ctr demo_start)(''k'' := n)) p demo_start"

lemma demo_steps:
  "budget_step (\<lambda>_. 3) 0 demo_start (demo_state 4 (Charged 4 ''k'' 5 [] []))"
  "budget_step (\<lambda>_. 3) 0 (demo_state 4 (Charged 4 ''k'' 5 [] [])) (demo_state 4 (Running [] [''k'']))"
  "budget_step (\<lambda>_. 3) 0 (demo_state 4 (Running [] [''k''])) (demo_state 4 (Admitted [''k'']))"
  using incr [of demo_start 0 "''k''" 5 "[]" "[]" "\<lambda>_. 3"]
    within [of "demo_state 4 (Charged 4 ''k'' 5 [] [])" 0 4 "''k''" 5 "[]" "[]"] admit [of "demo_state 4 (Running [] [''k''])" 0 "[''k'']"]
  by (simp_all add: demo_state_def demo_start_def start_budgets_def)

lemma demo_run: "budget_run {0, 1} (\<lambda>_. 3) demo_start (demo_state 4 (Admitted [''k'']))"
  by (rule run_step [OF run_step [OF run_step [OF run_refl _ demo_steps(1)] _ demo_steps(2)] _ demo_steps(3)]) simp_all

theorem concurrent_admissions_within_cap_witness:
  "1 + (\<Sum>i \<in> {i \<in> {0, 1 :: nat}. admitted_on ''k'' (demo_state 4 (Admitted [''k''])) i}. 3) \<le> (5 :: int)"
  by (rule concurrent_admissions_within_cap [where used = "\<lambda>_. 1" and cap = "\<lambda>_. 5" and delta = "\<lambda>_. 3"
        and I = "{0, 1}", OF _ _ _ demo_run [unfolded demo_start_def]])
    (simp_all add: plans_ok_def admitted_on_def demo_state_def demo_start_def)

section \<open>The sequential loop is one of the runs\<close>

lemma run_trans: "budget_run I delta b c \<Longrightarrow> budget_run I delta a b \<Longrightarrow> budget_run I delta a c"
  by (induction rule: budget_run.induct) (auto intro: run_step)

lemma run_one: "i \<in> I \<Longrightarrow> budget_step delta i s s' \<Longrightarrow> budget_run I delta s s'"
  by (rule run_step [OF run_refl])

definition plan_keys :: "string \<Rightarrow> time \<Rightarrow> location option \<Rightarrow> (period \<times> int) list \<Rightarrow> (string \<times> int) list" where
  "plan_keys pid now tz plan = map (\<lambda>(p, c). (budget_key pid p now tz, c)) plan"

lemma mem_budget_check:
  "0 < c \<Longrightarrow> periodBudgetCheck mem_redis pid p c x now tz r =
    (let k = budget_key pid p now tz in
     if c < r k + x then (Inr (period_string p @ ''_exceeded'', microsToDecimal (r k)), r)
     else (Inr ([], microsToDecimal (r k + x)), r(k := r k + x)))"
  by (simp add: periodBudgetCheck_def mem_redis_def Let_def)

lemma mem_decr: "snd (DecrBy mem_redis k x r) = r(k := r k - x)"
  by (simp add: mem_redis_def)

lemma refund_all:
  assumes "i \<in> I" "ph s i = Refunding ks" "delta i = x"
  shows "budget_run I delta s (set_req i (rollbackBudgets mem_redis (map (\<lambda>k. (k, x)) ks) (ctr s)) Denied s)"
  using assms(2)
proof (induction ks arbitrary: s)
  case Nil
  then show ?case using run_one [OF assms(1) deny [OF Nil, of delta]] by simp
next
  case (Cons k ks)
  let ?s = "set_req i ((ctr s)(k := ctr s k - x)) (Refunding ks) s"
  have "budget_run I delta s ?s"
    using run_one [OF assms(1) refund [OF Cons.prems, of x]] assms(3) by simp
  moreover have "budget_run I delta ?s (set_req i (rollbackBudgets mem_redis (map (\<lambda>k. (k, x)) (k # ks)) (ctr s)) Denied s)"
  proof -
    have r: "rollbackBudgets mem_redis (map (\<lambda>k. (k, x)) (k # ks)) (ctr s)
        = rollbackBudgets mem_redis (map (\<lambda>k. (k, x)) ks) (ctr ?s)" by (simp add: mem_decr)
    have "ph ?s i = Refunding ks" by simp
    from Cons.IH [OF this] show ?thesis unfolding r set_req_simps(3) .
  qed
  ultimately show ?case by (rule run_trans [rotated])
qed

text \<open>One capped period is two steps of the concurrent model: the increment, then the comparison with the cap.\<close>

lemma run_charge:
  assumes "i \<in> I" "delta i = x" "ph s i = Running ((k, c) # pl) ks" "0 < c"
  shows "budget_run I delta s (set_req i ((ctr s)(k := ctr s k + x))
           (if c < ctr s k + x then Refunding (k # ks) else Running pl (ks @ [k])) s)"
proof -
  let ?t = "ctr s k + x"
  let ?s = "set_req i ((ctr s)(k := ?t)) (Charged ?t k c pl ks) s"
  let ?p = "if c < ?t then Refunding (k # ks) else Running pl (ks @ [k])"
  have "budget_run I delta s ?s" using run_one [OF assms(1) incr [OF assms(3,4), of delta]] assms(2) by simp
  moreover have "budget_run I delta ?s (set_req i (ctr ?s) ?p ?s)"
    using bust [of ?s i ?t k c pl ks delta] within [of ?s i ?t k c pl ks delta] by (intro run_one [OF assms(1)]) auto
  ultimately show ?thesis by (simp add: run_trans)
qed

text \<open>
  C13: with a Redis that does not fail, the budget loop of one \<open>Check\<close> is a run of the concurrent
  model in which that request takes all the steps: it ends admitted with the counters the loop
  leaves when the loop passes every period, and denied with the counters of the loop when it refuses.
\<close>

theorem period_loop_is_a_run:
  assumes "i \<in> I" "delta i = x" "ph s i = Running (plan_keys pid now tz plan) ks"
    "period_loop mem_redis pid x now tz plan (map (\<lambda>k. (k, x)) ks) (ctr s) = (Inr v, r')"
  shows "\<exists>p. budget_run I delta s (set_req i r' p s)
    \<and> (v = None \<longrightarrow> (\<exists>ks'. p = Admitted ks')) \<and> (v \<noteq> None \<longrightarrow> p = Denied)"
  using assms(3,4)
proof (induction plan arbitrary: s ks)
  case Nil
  then have "v = None" "budget_run I delta s (set_req i r' (Admitted ks) s)"
    using run_one [OF assms(1) admit [of s i ks delta]] by (auto simp: plan_keys_def)
  then show ?case by blast
next
  case (Cons a plan)
  obtain p c where a: "a = (p, c)" by force
  let ?k = "budget_key pid p now tz"
  have run: "ph s i = Running ((?k, c) # plan_keys pid now tz plan) ks" using Cons.prems(1) by (simp add: a plan_keys_def)
  show ?case
  proof (cases "c \<le> 0")
    case True
    let ?s = "set_req i (ctr s) (Running (plan_keys pid now tz plan) ks) s"
    have st: "budget_run I delta s ?s" by (rule run_one [OF assms(1) no_cap [OF run True]])
    have "period_loop mem_redis pid x now tz plan (map (\<lambda>k. (k, x)) ks) (ctr ?s) = (Inr v, r')"
      using Cons.prems(2) True by (simp add: a mem.pbc_missing)
    moreover have "ph ?s i = Running (plan_keys pid now tz plan) ks" by simp
    ultimately show ?thesis using Cons.IH [of ?s ks] run_trans [OF _ st] unfolding set_req_simps(3) by blast
  next
    case False
    let ?c = "(ctr s)(?k := ctr s ?k + x)"
    have st: "budget_run I delta s (set_req i ?c (if c < ctr s ?k + x then Refunding (?k # ks)
        else Running (plan_keys pid now tz plan) (ks @ [?k])) s)"
      using run_charge [where delta = delta and s = s, OF assms(1,2) run] False by simp
    show ?thesis
    proof (cases "c < ctr s ?k + x")
      case True
      let ?s = "set_req i ?c (Refunding (?k # ks)) s"
      have "v \<noteq> None" and r': "r' = rollbackBudgets mem_redis (map (\<lambda>k. (k, x)) (?k # ks)) (ctr ?s)"
        using Cons.prems(2) False True by (auto simp: a mem_budget_check Let_def mem_decr)
      moreover have "budget_run I delta ?s (set_req i r' Denied s)"
        using refund_all [where delta = delta and s = ?s, OF assms(1) _ assms(2)] unfolding r' set_req_simps(3) by simp
      ultimately show ?thesis using run_trans st True by auto
    next
      case nb: False
      let ?s = "set_req i ?c (Running (plan_keys pid now tz plan) (ks @ [?k])) s"
      have "period_loop mem_redis pid x now tz plan (map (\<lambda>k. (k, x)) (ks @ [?k])) (ctr ?s) = (Inr v, r')"
        using Cons.prems(2) False nb by (simp add: a mem_budget_check Let_def)
      moreover have "ph ?s i = Running (plan_keys pid now tz plan) (ks @ [?k])" by simp
      moreover have "budget_run I delta s ?s" using st nb by simp
      ultimately show ?thesis using Cons.IH [of ?s "ks @ [?k]"] run_trans unfolding set_req_simps(3) by blast
    qed
  qed
qed

definition demo_process :: budgets where
  "demo_process = \<lparr> ctr = (\<lambda>_. 0), ph = (\<lambda>_. Running (plan_keys ''pol'' 0 (Some UTC)
     [(periodDaily, 20000000), (periodWeekly, 0), (periodMonthly, 0)]) []) \<rparr>"

theorem period_loop_is_a_run_witness:
  "\<exists>ks. budget_run {0} (\<lambda>_. 4500000) demo_process (set_req 0 ((\<lambda>_. 0)(demo_key := 4500000)) (Admitted ks) demo_process)"
  using period_loop_is_a_run [of 0 "{0}" "\<lambda>_. 4500000" 4500000 demo_process "''pol''" 0 "Some UTC"
      "[(periodDaily, 20000000), (periodWeekly, 0), (periodMonthly, 0)]" "[]" None "(\<lambda>_. 0)(demo_key := 4500000)"]
    demo_loop [of "\<lambda>_. 0"]
  by (auto simp: demo_process_def simp del: period_loop.simps)

section \<open>Every check ends\<close>

definition some_step :: "nat set \<Rightarrow> (nat \<Rightarrow> int) \<Rightarrow> budgets \<Rightarrow> budgets \<Rightarrow> bool" where
  "some_step I delta s s' \<longleftrightarrow> (\<exists>i \<in> I. budget_step delta i s s')"

fun decided :: "phase \<Rightarrow> bool" where
  "decided (Admitted _) = True"
| "decided Denied = True"
| "decided _ = False"

text \<open>A bound on the steps a request has left: per period an increment, a comparison and a refund.\<close>

fun work :: "phase \<Rightarrow> nat" where
  "work (Running pl ks) = 3 * length pl + length ks + 2"
| "work (Charged t k c pl ks) = 3 * length pl + length ks + 4"
| "work (Refunding ks) = length ks + 1"
| "work (Admitted ks) = 0"
| "work Denied = 0"

definition total_work :: "nat set \<Rightarrow> budgets \<Rightarrow> nat" where
  "total_work I s = (\<Sum>i \<in> I. work (ph s i))"

lemma budget_step_work: "budget_step delta i s s' \<Longrightarrow> work (ph s' i) < work (ph s i) \<and> (\<forall>j. j \<noteq> i \<longrightarrow> ph s' j = ph s j)"
  by (cases rule: budget_step.cases) auto

lemma some_step_work:
  assumes "finite I" "some_step I delta s s'"
  shows "total_work I s' < total_work I s"
proof -
  obtain i where "i \<in> I" "budget_step delta i s s'" using assms(2) by (auto simp: some_step_def)
  note i = this(1) and w = budget_step_work [OF this(2)]
  have "work (ph s' j) \<le> work (ph s j)" for j using w by (cases "j = i") auto
  then show ?thesis unfolding total_work_def using assms(1) i w by (intro sum_strict_mono_ex1) auto
qed

lemma steps_work: "finite I \<Longrightarrow> (some_step I delta ^^ n) s s' \<Longrightarrow> n + total_work I s' \<le> total_work I s"
proof (induction n arbitrary: s')
  case (Suc n)
  then obtain m where "(some_step I delta ^^ n) s m" "some_step I delta m s'" by auto
  then show ?case using Suc.IH [of m] some_step_work [of I delta m s'] Suc.prems(1) by fastforce
qed simp

lemma undecided_steps: "\<not> decided (ph s i) \<Longrightarrow> \<exists>s'. budget_step delta i s s'"
proof (cases "ph s i")
  case (Running pl ks)
  then show ?thesis by (cases pl) (auto intro: budget_step.intros, metis budget_step.no_cap budget_step.incr not_less)
next
  case (Charged t k c pl ks)
  then show ?thesis by (cases "c < t") (blast intro: budget_step.within [OF _ leI] budget_step.bust)+
next
  case (Refunding ks)
  then show ?thesis by (cases ks) (auto intro: budget_step.deny budget_step.refund)
qed simp_all

text \<open>
  C32: every concurrent check comes to a verdict. Whatever the interleaving and whichever Redis commands
  are lost, the requests of a finite set take together at most three steps per period of their
  policies and two more each; a request that has no verdict yet can always take its next step
  without waiting for another, so when no step is left every request is admitted or denied.
\<close>

theorem every_check_is_decided:
  assumes "finite I" "(some_step I delta ^^ n) (start_budgets used plan) s"
  shows "n \<le> (\<Sum>i \<in> I. 3 * length (plan i) + 2)
    \<and> (\<forall>i \<in> I. \<not> decided (ph s i) \<longrightarrow> (\<exists>s'. budget_step delta i s s'))
    \<and> ((\<nexists>s'. some_step I delta s s') \<longrightarrow> (\<forall>i \<in> I. decided (ph s i)))"
  using steps_work [OF assms] undecided_steps [of s _ delta] unfolding total_work_def start_budgets_def some_step_def
  by (simp, blast)

theorem every_check_is_decided_witness:
  "(some_step {0} (\<lambda>_. 3) ^^ 3) demo_start (demo_state 4 (Admitted [''k'']))
     \<and> (3::nat) \<le> (\<Sum>i \<in> {0::nat}. 3 * length [(''k'', 5::int)] + 2)"
proof -
  have "some_step {0} (\<lambda>_. 3) s s'" if "budget_step (\<lambda>_. 3) 0 s s'" for s s' using that by (simp add: some_step_def)
  note st = demo_steps [THEN this]
  have run: "(some_step {0} (\<lambda>_. 3) ^^ 3) demo_start (demo_state 4 (Admitted [''k'']))"
    unfolding numeral_3_eq_3 using st by (auto simp: relcompp_apply)
  from run every_check_is_decided [OF _ run [unfolded demo_start_def]] show ?thesis by simp
qed

end
