(* ===== verification/Webhook_Worker.thy ===== *)
theory Webhook_Worker
  imports Webhook_Publisher
begin

text \<open>
  \<open>internal/webhooks/worker.go\<close>: the delivery worker. One tick lists the due events, claims each
  row and makes one HTTP attempt; the outcome moves the row through the delivery state machine
  (pending or failed, delivering, then delivered, failed or dead) and the endpoint through its
  failure count. The HTTP client and the text of a JSONB column are parameters (\<open>courier\<close>).
\<close>

section \<open>The source's definitions\<close>

record Worker =
  wk_batch :: int
  wk_maxAttempts :: int
  wk_pauseAfterConsecutive :: int

definition NewWorker :: Worker where
  "NewWorker = \<lparr> wk_batch = 200, wk_maxAttempts = 8, wk_pauseAfterConsecutive = 30 \<rparr>"

record TickStats =
  ts_Claimed :: int
  ts_Delivered :: int
  ts_Failed :: int
  ts_Dead :: int

definition zero_stats :: TickStats where
  "zero_stats = \<lparr> ts_Claimed = 0, ts_Delivered = 0, ts_Failed = 0, ts_Dead = 0 \<rparr>"

record http_request =
  hr_url :: string
  hr_headers :: "(string \<times> string) list"
  hr_body :: bytes

text \<open>
  \<open>NewRequest\<close> reports a malformed URL; \<open>Do\<close> returns a transport error or the status code and
  the body.
\<close>

record courier =
  co_hmac :: "bytes \<Rightarrow> bytes \<Rightarrow> bytes"
  co_json_text :: "jsonb \<Rightarrow> bytes"
  co_NewRequest_err :: "string \<Rightarrow> string option"
  co_Do :: "http_request \<Rightarrow> string + int \<times> bytes"

definition readTruncated :: "bytes \<Rightarrow> nat \<Rightarrow> string" where
  "readTruncated body mx = take mx body"

function (sequential) digits_loop :: "int \<Rightarrow> string \<Rightarrow> string" where
  "digits_loop n buf = (if n > 0 then digits_loop (n div 10) (digit_char (nat (n mod 10)) # buf) else buf)"
  by pat_completeness auto
termination by (relation "measure (\<lambda>(n, _). nat n)") auto

declare digits_loop.simps [simp del]

definition intToString :: "int \<Rightarrow> string" where
  "intToString n =
     (if n = 0 then ''0''
      else (let neg = n < 0; m = (if neg then wrap64 (- n) else n); s = digits_loop m []
            in if neg then CHR ''-'' # s else s))"

definition backoffFor :: "int \<Rightarrow> int" where
  "backoffFor attempt =
     (if attempt = 1 then 30 * second else if attempt = 2 then 2 * minute else if attempt = 3 then 10 * minute
      else if attempt = 4 then 1 * hour else if attempt = 5 then 6 * hour else 24 * hour)"

definition scheduleRetry ::
    "Worker \<Rightarrow> env \<Rightarrow> WebhookEvent \<Rightarrow> string \<Rightarrow> string \<Rightarrow> int \<Rightarrow> db \<Rightarrow> db" where
  "scheduleRetry w e evt errStr respBody respCode d =
     (let nxt = ev_Attempts evt + 1 in
      if wk_maxAttempts w \<le> nxt then
        (case fault e ''scheduleRetry.MarkWebhookEventDead'' (ev_ID evt) of
           Some _ \<Rightarrow> d
         | None \<Rightarrow> MarkWebhookEventDead (clock e ''scheduleRetry.sqlnow'' (ev_ID evt)) (ev_ID evt) d)
      else
        snd (db_write (fault e ''scheduleRetry.MarkWebhookEventFailed'' (ev_ID evt)) d
          (MarkWebhookEventFailed (clock e ''scheduleRetry.sqlnow'' (ev_ID evt)) (ev_ID evt)
             (clock e ''scheduleRetry.now'' (ev_ID evt) + backoffFor nxt)
             (if respCode > 0 then Some respCode else None) (pgxText respBody) (pgxText errStr) d)))"

definition bumpFailure :: "Worker \<Rightarrow> env \<Rightarrow> string \<Rightarrow> string \<Rightarrow> db \<Rightarrow> db" where
  "bumpFailure w e evID endpointID d =
     (case db_write (fault e ''bumpFailure.TouchWebhookEndpointFailure'' evID) d
             (TouchWebhookEndpointFailure (clock e ''bumpFailure.sqlnow'' evID) endpointID d) of
        (Inl _, d1) \<Rightarrow> d1
      | (Inr cnt, d1) \<Rightarrow>
          if wk_pauseAfterConsecutive w \<le> cnt then
            (case fault e ''bumpFailure.PauseWebhookEndpoint'' evID of
               Some _ \<Rightarrow> d1
             | None \<Rightarrow> PauseWebhookEndpoint (clock e ''bumpFailure.sqlnow2'' evID) endpointID d1)
          else d1)"

definition delivery_request :: "courier \<Rightarrow> WebhookEvent \<Rightarrow> WebhookEndpoint \<Rightarrow> http_request" where
  "delivery_request c evt ep =
     (let body = co_json_text c (ev_EventData evt); signature = Sign (co_hmac c) (we_Secret ep) body in
      \<lparr> hr_url = we_Url ep,
        hr_headers = [(''Content-Type'', ''application/json''), (''X-Atara-Event-Id'', ev_ID evt),
                      (''X-Atara-Event-Type'', ev_EventType evt), (''X-Atara-Signature'', signature)]
           @ (case ev_SignatureVersion evt of None \<Rightarrow> [] | Some v \<Rightarrow> [(''X-Atara-Signature-Version'', intToString v)]),
        hr_body = body \<rparr>)"

definition deliverOne :: "Worker \<Rightarrow> env \<Rightarrow> courier \<Rightarrow> WebhookEvent \<Rightarrow> TickStats \<Rightarrow> db \<Rightarrow> TickStats \<times> db" where
  "deliverOne w e c evt st d =
     (case ev_EndpointID evt of
        None \<Rightarrow>
          (st\<lparr>ts_Dead := ts_Dead st + 1\<rparr>,
           case fault e ''deliverOne.MarkWebhookEventDead'' (ev_ID evt) of
             Some _ \<Rightarrow> d
           | None \<Rightarrow> MarkWebhookEventDead (clock e ''deliverOne.sqlnow'' (ev_ID evt)) (ev_ID evt) d)
      | Some epID \<Rightarrow>
          (let failed = st\<lparr>ts_Failed := ts_Failed st + 1\<rparr> in
           case db_read (fault e ''deliverOne.GetWebhookEndpointByID'' (ev_ID evt)) (GetWebhookEndpointByID epID d) of
             Inl _ \<Rightarrow> (failed, scheduleRetry w e evt ''endpoint not active'' [] 0 d)
           | Inr ep \<Rightarrow>
               if we_Status ep \<noteq> ''active'' then (failed, scheduleRetry w e evt ''endpoint not active'' [] 0 d)
               else
                 (case co_NewRequest_err c (we_Url ep) of
                    Some err \<Rightarrow> (failed, scheduleRetry w e evt err [] 0 d)
                  | None \<Rightarrow>
                      (case co_Do c (delivery_request c evt ep) of
                         Inl err \<Rightarrow>
                           (failed, bumpFailure w e (ev_ID evt) (we_ID ep) (scheduleRetry w e evt err [] 0 d))
                       | Inr (code, body) \<Rightarrow>
                           if 200 \<le> code \<and> code < 300 then
                             (let d1 = snd (db_write (fault e ''deliverOne.MarkWebhookEventDelivered'' (ev_ID evt)) d
                                        (MarkWebhookEventDelivered (clock e ''deliverOne.sqlnow'' (ev_ID evt)) (ev_ID evt)
                                           (Some code) d));
                                  d2 = (case fault e ''deliverOne.TouchWebhookEndpointSuccess'' (ev_ID evt) of
                                          Some _ \<Rightarrow> d1
                                        | None \<Rightarrow> TouchWebhookEndpointSuccess
                                                     (clock e ''deliverOne.sqlnow2'' (ev_ID evt)) (we_ID ep) d1)
                              in (st\<lparr>ts_Delivered := ts_Delivered st + 1\<rparr>, d2))
                           else
                             (failed, bumpFailure w e (ev_ID evt) (we_ID ep)
                                (scheduleRetry w e evt ''non-2xx response'' (readTruncated body 2048) code d))))))"

fun tick_loop :: "Worker \<Rightarrow> env \<Rightarrow> courier \<Rightarrow> WebhookEvent list \<Rightarrow> TickStats \<Rightarrow> db \<Rightarrow> TickStats \<times> db" where
  "tick_loop w e c [] st d = (st, d)"
| "tick_loop w e c (evt # evts) st d =
     (case db_write (fault e ''Tick.MarkWebhookEventDelivering'' (ev_ID evt)) d
             (MarkWebhookEventDelivering (clock e ''Tick.sqlnow'' (ev_ID evt)) (ev_ID evt) d) of
        (Inl _, d1) \<Rightarrow> tick_loop w e c evts st d1
      | (Inr claimed, d1) \<Rightarrow>
          (case deliverOne w e c claimed (st\<lparr>ts_Claimed := ts_Claimed st + 1\<rparr>) d1 of
             (st2, d2) \<Rightarrow> tick_loop w e c evts st2 d2))"

definition Tick :: "Worker \<Rightarrow> env \<Rightarrow> courier \<Rightarrow> db \<Rightarrow> TickStats \<times> db" where
  "Tick w e c d =
     (let now = clock e ''Tick.now'' [] in
      case db_read (fault e ''Tick.ListDueWebhookEvents'' []) (Inr (ListDueWebhookEvents now (wk_batch w) d)) of
        Inl _ \<Rightarrow> (zero_stats, d)
      | Inr due \<Rightarrow> tick_loop w e c due zero_stats d)"

section \<open>intToString\<close>

lemma digits_loop_dec: "0 < n \<Longrightarrow> digits_loop n buf = nat_to_dec (nat n) @ buf"
proof (induction n buf rule: digits_loop.induct)
  case (1 n buf)
  have m: "nat (n mod 10) = nat n mod 10" "nat (n div 10) = nat n div 10"
    using 1(2) by (simp_all add: nat_mod_distrib nat_div_distrib)
  show ?case
  proof (cases "n < 10")
    case True
    then have "n div 10 = 0" "n mod 10 = n" using 1(2) by simp_all
    then show ?thesis using 1(2) True by (simp add: digits_loop.simps [of n] digits_loop.simps [of 0] nat_to_dec.simps [of "nat n"])
  next
    case False
    then have "0 < n div 10" by (simp add: pos_imp_zdiv_pos_iff)
    then show ?thesis
      using 1 False by (simp add: digits_loop.simps [of n] nat_to_dec.simps [of "nat n"] m)
  qed
qed

text \<open>
  The hand-written integer printer of the worker writes every \<open>int64\<close> above the least one as
  the standard library does (it is called on \<open>SMALLINT\<close> values only).
\<close>

theorem intToString_is_decimal:
  assumes "- (2 ^ 63) < n" "n < 2 ^ 63"
  shows "intToString n = int_to_dec n"
proof (cases "n < 0")
  case True
  then have "wrap64 (- n) = - n" using assms by (intro wrap64_id) (simp add: is_int64_def)
  then show ?thesis using True by (simp add: intToString_def int_to_dec_def digits_loop_dec Let_def)
next
  case False
  then show ?thesis by (auto simp: intToString_def int_to_dec_def digits_loop_dec nat_to_dec.simps [of 0] Let_def)
qed

theorem intToString_is_decimal_witness: "intToString (- 32768) = ''-32768''"
  using intToString_is_decimal [of "- 32768"] by (simp add: int_to_dec_def nat_to_dec.simps)

section \<open>Backoff\<close>

text \<open>
  The delay before the next attempt is between thirty seconds and twenty-four hours and never
  shrinks from one attempt to the next; the seven delays of an event that fails throughout add up
  to 198750 seconds, about 55 hours.
\<close>

theorem backoff_schedule:
  "30 * second \<le> backoffFor n \<and> backoffFor n \<le> 24 * hour
   \<and> (1 \<le> n \<longrightarrow> backoffFor n \<le> backoffFor (n + 1))
   \<and> sum_list (map backoffFor [1..7]) = 198750 * second"
  by (simp add: backoffFor_def duration_defs upto.simps)

theorem backoff_schedule_witness: "backoffFor 3 \<le> backoffFor 4"
  using backoff_schedule [of 3] by simp

section \<open>The event table under the worker\<close>

lemma bumpFailure_events [simp]: "webhook_events (bumpFailure w e i ep d) = webhook_events d"
proof -
  have "webhook_events (snd (TouchWebhookEndpointFailure now ep d)) = webhook_events d" for now
    by (simp add: TouchWebhookEndpointFailure_def split: prod.splits sum.splits)
  then show ?thesis
    by (auto simp: bumpFailure_def db_write_def PauseWebhookEndpoint_def split: option.splits prod.splits sum.splits)
       (metis snd_conv)+
qed

lemma TouchSuccess_events [simp]: "webhook_events (TouchWebhookEndpointSuccess now ep d) = webhook_events d"
  by (simp add: TouchWebhookEndpointSuccess_def)

lemma update_one_key:
  assumes "\<And>r. chk (f r)"
  shows "snd (update_one chk p f rs) = (if list_ex p rs then upd_where p f rs else rs)"
  using assms find_None_iff [of p rs] by (auto simp: update_one_def list_ex_iff split: option.splits)

lemma upd_where_idle: "\<not> list_ex p rs \<Longrightarrow> upd_where p f rs = rs"
  by (rule upd_where_no_match) (auto simp: list_ex_iff)

lemma MarkDelivered_events:
  "webhook_events (snd (MarkWebhookEventDelivered now i code d)) =
   upd_where (\<lambda>r. ev_ID r = i) (set_event_delivered now code) (webhook_events d)"
  using update_one_key [of event_check "set_event_delivered now code" "\<lambda>r. ev_ID r = i" "webhook_events d"]
  by (simp add: MarkWebhookEventDelivered_def event_check_def set_event_delivered_def upd_where_idle split_beta)

lemma MarkFailed_events:
  "webhook_events (snd (MarkWebhookEventFailed now i nxt code body err d)) =
   upd_where (\<lambda>r. ev_ID r = i) (set_event_failed now nxt code body err) (webhook_events d)"
  using update_one_key [of event_check "set_event_failed now nxt code body err" "\<lambda>r. ev_ID r = i" "webhook_events d"]
  by (simp add: MarkWebhookEventFailed_def event_check_def set_event_failed_def upd_where_idle split_beta)

lemma MarkDead_events:
  "webhook_events (MarkWebhookEventDead now i d) = upd_where (\<lambda>r. ev_ID r = i) (set_event_dead now) (webhook_events d)"
  by (simp add: MarkWebhookEventDead_def)

text \<open>
  One attempt changes the row of its event only, by one of three updates, and each counts: the
  failed update is used only below the limit of attempts.
\<close>

definition attempt_update :: "Worker \<Rightarrow> WebhookEvent \<Rightarrow> (WebhookEvent \<Rightarrow> WebhookEvent) \<Rightarrow> bool" where
  "attempt_update w evt f \<longleftrightarrow>
     (\<exists>now code. f = set_event_delivered now code) \<or> (\<exists>now. f = set_event_dead now)
     \<or> (ev_Attempts evt + 1 < wk_maxAttempts w \<and> (\<exists>now nxt code body err. f = set_event_failed now nxt code body err))"

definition one_attempt :: "Worker \<Rightarrow> WebhookEvent \<Rightarrow> db \<Rightarrow> db \<Rightarrow> bool" where
  "one_attempt w evt d d' \<longleftrightarrow> webhook_events d' = webhook_events d
     \<or> (\<exists>f. attempt_update w evt f \<and> webhook_events d' = upd_where (\<lambda>r. ev_ID r = ev_ID evt) f (webhook_events d))"

lemma one_attempt_same: "webhook_events d' = webhook_events d \<Longrightarrow> one_attempt w evt d d'"
  by (simp add: one_attempt_def)

lemma one_attempt_upd:
  "attempt_update w evt f \<Longrightarrow> webhook_events d' = upd_where (\<lambda>r. ev_ID r = ev_ID evt) f (webhook_events d)
   \<Longrightarrow> one_attempt w evt d d'"
  by (auto simp: one_attempt_def)

lemma one_attempt_endpoint [simp]:
  "one_attempt w evt d (TouchWebhookEndpointSuccess now ep d1) = one_attempt w evt d d1"
  "one_attempt w evt d (bumpFailure w' e i ep d1) = one_attempt w evt d d1"
  by (simp_all add: one_attempt_def)

lemma attempt_updates:
  "attempt_update w evt (set_event_delivered now code)" "attempt_update w evt (set_event_dead now)"
  "ev_Attempts evt + 1 < wk_maxAttempts w \<Longrightarrow> attempt_update w evt (set_event_failed now nxt code body err)"
  unfolding attempt_update_def by blast+

lemma one_attempt_dead: "one_attempt w evt d (MarkWebhookEventDead now (ev_ID evt) d)"
  by (rule one_attempt_upd [OF attempt_updates(2) MarkDead_events])

lemma one_attempt_delivered: "one_attempt w evt d (snd (MarkWebhookEventDelivered now (ev_ID evt) code d))"
  by (rule one_attempt_upd [OF attempt_updates(1) MarkDelivered_events])

lemma scheduleRetry_attempt: "one_attempt w evt d (scheduleRetry w e evt err body code d)"
proof (cases "wk_maxAttempts w \<le> ev_Attempts evt + 1")
  case True
  then show ?thesis
    by (auto simp: scheduleRetry_def intro: one_attempt_same one_attempt_dead split: option.splits)
next
  case False
  then have f: "attempt_update w evt (set_event_failed now nxt rc rb er)" for now nxt rc rb er
    by (intro attempt_updates(3)) simp
  show ?thesis
    using False one_attempt_upd [OF f MarkFailed_events]
    by (cases "fault e ''scheduleRetry.MarkWebhookEventFailed'' (ev_ID evt)")
      (simp_all add: scheduleRetry_def one_attempt_same)
qed

lemma deliverOne_attempt:
  assumes "deliverOne w e c evt st d = (st', d')"
  shows "one_attempt w evt d d'"
proof (cases "ev_EndpointID evt")
  case None
  then show ?thesis
    using assms by (auto simp: deliverOne_def intro: one_attempt_same one_attempt_dead split: option.splits)
next
  case (Some epID)
  have ok: "one_attempt w evt d (snd (db_write f d (MarkWebhookEventDelivered now (ev_ID evt) code d)))" for f now code
    by (cases f) (simp_all add: one_attempt_same one_attempt_delivered)
  show ?thesis
    using assms Some
    by (auto simp: deliverOne_def Let_def ok scheduleRetry_attempt split: sum.splits option.splits if_splits)
qed

lemma attempt_update_key: "attempt_update w evt f \<Longrightarrow> ev_ID (f r) = ev_ID r"
  by (auto simp: attempt_update_def set_event_delivered_def set_event_dead_def set_event_failed_def)


section \<open>Attempts are bounded\<close>

definition events_inv :: "int \<Rightarrow> WebhookEvent list \<Rightarrow> bool" where
  "events_inv m vs \<longleftrightarrow>
     pk_unique ev_ID vs \<and> (\<forall>v \<in> set vs. 0 \<le> ev_Attempts v \<and> ev_Attempts v < m \<and> event_check v)"

lemma attempt_update_row:
  assumes "attempt_update w evt f" "0 \<le> ev_Attempts evt" "ev_Attempts evt < wk_maxAttempts w"
  shows "0 \<le> ev_Attempts (f evt) \<and> ev_Attempts (f evt) < wk_maxAttempts w \<and> event_check (f evt)"
  using assms
  by (auto simp: attempt_update_def set_event_delivered_def set_event_dead_def set_event_failed_def event_check_def)

lemma events_inv_attempt:
  assumes inv: "events_inv (wk_maxAttempts w) vs" and evt: "evt \<in> set vs" and f: "attempt_update w evt f"
  shows "events_inv (wk_maxAttempts w) (upd_where (\<lambda>r. ev_ID r = ev_ID evt) f vs)"
proof -
  have u: "pk_unique ev_ID vs" using inv by (simp add: events_inv_def)
  have key: "row_update ev_ID f" by unfold_locales (rule attempt_update_key [OF f])
  have row: "ev_ID r = ev_ID evt \<Longrightarrow> r \<in> set vs \<Longrightarrow> r = evt" for r using pk_unique_same [OF u _ evt] by blast
  have "pk_unique ev_ID (upd_where (\<lambda>r. ev_ID r = ev_ID evt) f vs)"
    using row_update.pk_unique_upd_where [OF key] u by blast
  moreover have "0 \<le> ev_Attempts v \<and> ev_Attempts v < wk_maxAttempts w \<and> event_check v"
    if "v \<in> set (upd_where (\<lambda>r. ev_ID r = ev_ID evt) f vs)" for v
    using that row attempt_update_row [OF f] inv evt by (auto simp: set_upd_where events_inv_def split: if_splits)
  ultimately show ?thesis by (simp add: events_inv_def)
qed

lemma claim_events:
  assumes "MarkWebhookEventDelivering now i d = (res, d')"
  shows "webhook_events d' = upd_where (\<lambda>r. ev_ID r = i \<and> ev_Status r \<in> {''pending'', ''failed''})
      (set_event_delivering now) (webhook_events d)"
  using assms update_one_key [of event_check "set_event_delivering now"
      "\<lambda>r. ev_ID r = i \<and> ev_Status r \<in> {''pending'', ''failed''}" "webhook_events d"]
  by (auto simp: MarkWebhookEventDelivering_def event_check_def set_event_delivering_def upd_where_idle split_beta)



lemma ev_Status_delivering: "ev_Status (set_event_delivering now r) = ''delivering''"
  by (simp add: set_event_delivering_def)

lemma claim_row:
  assumes "MarkWebhookEventDelivering now i d = (Inr r, d')"
  shows "r \<in> set (webhook_events d')" "ev_ID r = i" "ev_Status r = ''delivering''"
proof -
  obtain q where q: "List.find (\<lambda>r. ev_ID r = i \<and> ev_Status r \<in> {''pending'', ''failed''}) (webhook_events d) = Some q"
    and r: "r = set_event_delivering now q"
    using assms by (auto simp: MarkWebhookEventDelivering_def update_one_Inr split: prod.splits)
  have m: "q \<in> set (webhook_events d)" "ev_ID q = i" "ev_Status q \<in> {''pending'', ''failed''}" using find_Some_D [OF q] by auto
  show "r \<in> set (webhook_events d')"
    unfolding claim_events [OF assms] set_upd_where r using m by (auto intro!: image_eqI [of _ _ q])
  show "ev_ID r = i" "ev_Status r = ''delivering''" using m by (simp_all add: r set_event_delivering_def)
qed

lemma claim_inv:
  assumes "MarkWebhookEventDelivering now i d = (res, d')" "events_inv m (webhook_events d)"
  shows "events_inv m (webhook_events d')"
proof -
  have "\<forall>v \<in> set (webhook_events d'). 0 \<le> ev_Attempts v \<and> ev_Attempts v < m \<and> event_check v"
    using assms(2) unfolding claim_events [OF assms(1)] set_upd_where
    by (auto simp: events_inv_def set_event_delivering_def event_check_def)
  then show ?thesis
    using assms(2) unfolding claim_events [OF assms(1)]
    by (simp add: events_inv_def upd_ev_delivering.pk_unique_upd_where)
qed

lemma deliverOne_inv:
  assumes "deliverOne w e c evt st d = (st', d')" "events_inv (wk_maxAttempts w) (webhook_events d)"
    "evt \<in> set (webhook_events d)"
  shows "events_inv (wk_maxAttempts w) (webhook_events d')"
  using deliverOne_attempt [OF assms(1)] events_inv_attempt [OF assms(2,3)] assms(2) by (auto simp: one_attempt_def)

lemma tick_loop_inv:
  "events_inv (wk_maxAttempts w) (webhook_events d) \<Longrightarrow> tick_loop w e c evts st d = (st', d') \<Longrightarrow>
   events_inv (wk_maxAttempts w) (webhook_events d')"
proof (induction evts arbitrary: st d)
  case (Cons evt evts)
  let ?now = "clock e ''Tick.sqlnow'' (ev_ID evt)"
  obtain res d1 where cl: "db_write (fault e ''Tick.MarkWebhookEventDelivering'' (ev_ID evt)) d
      (MarkWebhookEventDelivering ?now (ev_ID evt) d) = (res, d1)" by force
  have inv1: "events_inv (wk_maxAttempts w) (webhook_events d1)"
    using cl claim_inv [OF _ Cons.prems(1)] Cons.prems(1)
    by (cases "fault e ''Tick.MarkWebhookEventDelivering'' (ev_ID evt)") auto
  show ?case
  proof (cases res)
    case (Inl err)
    then show ?thesis using Cons.IH [OF inv1] Cons.prems(2) cl by simp
  next
    case (Inr r)
    then have "MarkWebhookEventDelivering ?now (ev_ID evt) d = (Inr r, d1)"
      using cl by (cases "fault e ''Tick.MarkWebhookEventDelivering'' (ev_ID evt)") auto
    note mem = claim_row(1) [OF this]
    obtain st2 d2 where dl: "deliverOne w e c r (st\<lparr>ts_Claimed := ts_Claimed st + 1\<rparr>) d1 = (st2, d2)" by force
    show ?thesis using Cons.IH [OF deliverOne_inv [OF dl inv1 mem]] Cons.prems(2) cl Inr dl by simp
  qed
qed simp

text \<open>
  Whatever fails, a tick keeps the event table in order: identifiers stay unique, every status
  is one of the five of the schema, and no event is ever recorded with as many attempts as the
  limit.
\<close>

theorem Tick_bounds_attempts:
  assumes "events_inv (wk_maxAttempts w) (webhook_events d)" "Tick w e c d = (st, d')"
  shows "events_inv (wk_maxAttempts w) (webhook_events d')"
  using assms tick_loop_inv
  by (auto simp: Tick_def Let_def split: sum.splits)

definition demo_event :: "string \<Rightarrow> WebhookEvent" where
  "demo_event ep = published (calm_env 0) ''tn'' ''limit.exceeded'' (JVal JNull) no_refs (demo_endpoint ep [] ''active'')"

definition demo_queue :: db where
  "demo_queue = add_events [demo_event ''we1''] demo_hooks"

definition demo_courier :: "int \<Rightarrow> courier" where
  "demo_courier code = \<lparr> co_hmac = (\<lambda>k b. k @ b), co_json_text = (\<lambda>_. ''null''), co_NewRequest_err = (\<lambda>_. None),
     co_Do = (\<lambda>_. Inr (code, [])) \<rparr>"

lemma demo_queue_inv: "events_inv (wk_maxAttempts NewWorker) (webhook_events demo_queue)"
  by (simp add: events_inv_def NewWorker_def demo_queue_def demo_hooks_def empty_db_def pk_unique_def demo_event_def
      published_def stamp_event_def new_event_def event_check_def)

theorem Tick_bounds_attempts_witness:
  "events_inv 8 (webhook_events (snd (Tick NewWorker (calm_env 0) (demo_courier 500) demo_queue)))"
proof -
  obtain st d' where t: "Tick NewWorker (calm_env 0) (demo_courier 500) demo_queue = (st, d')" by force
  have "wk_maxAttempts NewWorker = 8" by (simp add: NewWorker_def)
  then show ?thesis using Tick_bounds_attempts [OF demo_queue_inv t] by (simp add: t)
qed

section \<open>One worker per row\<close>

text \<open>
  A row that a worker has claimed cannot be claimed again until its attempt has been
  recorded: the second claim finds no row and changes nothing.
\<close>

theorem claim_is_exclusive:
  assumes "MarkWebhookEventDelivering now i d = (Inr r, d')"
  shows "MarkWebhookEventDelivering now' i d' = (Inl NoRows, d')"
proof -
  have "\<not> (ev_ID x = i \<and> ev_Status x \<in> {''pending'', ''failed''})" if x': "x \<in> set (webhook_events d')" for x
  proof -
    obtain q where x: "x = (if ev_ID q = i \<and> ev_Status q \<in> {''pending'', ''failed''} then set_event_delivering now q else q)"
      using x' unfolding claim_events [OF assms] set_upd_where by (elim imageE)
    show ?thesis
    proof (cases "ev_ID q = i \<and> ev_Status q \<in> {''pending'', ''failed''}")
      case True
      then have "x = set_event_delivering now q" unfolding x by (rule if_P)
      then show ?thesis by (simp add: ev_Status_delivering)
    next
      case False
      then have "x = q" unfolding x by (rule if_not_P)
      then show ?thesis using False by simp
    qed
  qed
  then have "List.find (\<lambda>r. ev_ID r = i \<and> ev_Status r \<in> {''pending'', ''failed''}) (webhook_events d') = None"
    unfolding find_None_iff by blast
  then show ?thesis by (simp add: MarkWebhookEventDelivering_def update_one_def)
qed

theorem claim_is_exclusive_witness:
  "\<exists>r d'. MarkWebhookEventDelivering 1 ''Publish.evtwe1'' demo_queue = (Inr r, d')
     \<and> MarkWebhookEventDelivering 2 ''Publish.evtwe1'' d' = (Inl NoRows, d')"
proof -
  have "\<exists>r d'. MarkWebhookEventDelivering 1 ''Publish.evtwe1'' demo_queue = (Inr r, d')"
    by (simp add: MarkWebhookEventDelivering_def update_one_def demo_queue_def demo_hooks_def empty_db_def demo_event_def
        published_def stamp_event_def new_event_def calm_env_def demo_endpoint_def set_event_delivering_def event_check_def)
  then show ?thesis using claim_is_exclusive by blast
qed

section \<open>Every event is settled\<close>

definition calm :: "env \<Rightarrow> bool" where
  "calm e \<longleftrightarrow> (\<forall>site key. fault e site key = None)"

lemma calm_calm_env [simp]: "calm (calm_env t)"
  by (simp add: calm_def calm_env_def)

definition sure_attempt :: "Worker \<Rightarrow> WebhookEvent \<Rightarrow> db \<Rightarrow> db \<Rightarrow> bool" where
  "sure_attempt w evt d d' \<longleftrightarrow>
     (\<exists>f. attempt_update w evt f \<and> webhook_events d' = upd_where (\<lambda>r. ev_ID r = ev_ID evt) f (webhook_events d))"


lemma sure_attempt_endpoint [simp]:
  "sure_attempt w evt d (TouchWebhookEndpointSuccess now ep d1) = sure_attempt w evt d d1"
  "sure_attempt w evt d (bumpFailure w' e i ep d1) = sure_attempt w evt d d1"
  by (simp_all add: sure_attempt_def)


















section \<open>The health of an endpoint\<close>

lemma scheduleRetry_endpoints [simp]: "webhook_endpoints (scheduleRetry w e evt err body code d) = webhook_endpoints d"
  by (simp add: scheduleRetry_def Let_def db_write_def MarkWebhookEventDead_def MarkWebhookEventFailed_def split_beta
      split: option.splits)

lemma MarkDelivered_endpoints [simp]:
  "webhook_endpoints (snd (MarkWebhookEventDelivered now i code d)) = webhook_endpoints d"
  by (simp add: MarkWebhookEventDelivered_def split_beta)

definition we_row :: "string \<Rightarrow> db \<Rightarrow> WebhookEndpoint option" where
  "we_row i d = List.find (\<lambda>r. we_ID r = i) (webhook_endpoints d)"

lemma we_row_scheduleRetry [simp]: "we_row i (scheduleRetry w e evt err body code d) = we_row i d"
  by (simp add: we_row_def)

lemma we_row_MarkDelivered [simp]: "we_row i (snd (MarkWebhookEventDelivered now j code d)) = we_row i d"
  by (simp add: we_row_def)

lemma we_row_success: "we_row i (TouchWebhookEndpointSuccess now i d) = map_option (endpoint_success now) (we_row i d)"
  by (simp add: we_row_def TouchWebhookEndpointSuccess_def upd_ep_ok.find_upd_where_key)

lemma we_row_pause:
  "we_row i (PauseWebhookEndpoint now i d)
   = map_option (\<lambda>r. if we_Status r = ''active'' then set_endpoint_status now ''paused'' r else r) (we_row i d)"
  by (simp add: we_row_def PauseWebhookEndpoint_def upd_ep_status.find_upd_where_guarded)

lemma touch_failure:
  assumes "we_row i d = Some ep"
  obtains d' where "TouchWebhookEndpointFailure now i d = (Inr (we_ConsecutiveFailures ep + 1), d')"
    "we_row i d' = Some (endpoint_failure now ep)"
proof -
  let ?d = "d\<lparr>webhook_endpoints := upd_where (\<lambda>r. we_ID r = i) (endpoint_failure now) (webhook_endpoints d)\<rparr>"
  have "TouchWebhookEndpointFailure now i d = (Inr (we_ConsecutiveFailures ep + 1), ?d)"
    using assms by (simp add: we_row_def TouchWebhookEndpointFailure_def update_one_def list_ex_iff endpoint_failure_def)
  moreover have "we_row i ?d = Some (endpoint_failure now ep)"
    using assms by (simp add: we_row_def upd_ep_fail.find_upd_where_key)
  ultimately show ?thesis using that by blast
qed

lemma bumpFailure_row:
  assumes "we_row i d = Some ep" "we_Status ep = ''active''" "calm e"
  shows "\<exists>ep'. we_row i (bumpFailure w e k i d) = Some ep'
    \<and> we_ConsecutiveFailures ep' = we_ConsecutiveFailures ep + 1
    \<and> we_Status ep' = (if wk_pauseAfterConsecutive w \<le> we_ConsecutiveFailures ep + 1 then ''paused'' else ''active'')"
proof -
  obtain d1 where d1: "TouchWebhookEndpointFailure (clock e ''bumpFailure.sqlnow'' k) i d
      = (Inr (we_ConsecutiveFailures ep + 1), d1)"
    "we_row i d1 = Some (endpoint_failure (clock e ''bumpFailure.sqlnow'' k) ep)"
    using touch_failure [OF assms(1)] .
  show ?thesis
    using assms(2,3)
    by (simp add: bumpFailure_def calm_def d1 we_row_pause endpoint_failure_def set_endpoint_status_def)
qed

text \<open>
  An attempt on an active endpoint that the receiver accepts clears its count of consecutive
  failures; a transport error or any other answer adds one, and the endpoint is paused exactly when
  the count reaches the threshold.
\<close>

theorem delivery_updates_endpoint_health:
  assumes "calm e" "ev_EndpointID evt = Some i" "GetWebhookEndpointByID i d = Inr ep" "we_Status ep = ''active''"
    "co_NewRequest_err c (we_Url ep) = None" "deliverOne w e c evt st d = (st', d')"
  shows "case co_Do c (delivery_request c evt ep) of
      Inr (code, body) \<Rightarrow>
        if 200 \<le> code \<and> code < 300
        then \<exists>ep'. we_row i d' = Some ep' \<and> we_ConsecutiveFailures ep' = 0 \<and> we_Status ep' = ''active''
        else \<exists>ep'. we_row i d' = Some ep' \<and> we_ConsecutiveFailures ep' = we_ConsecutiveFailures ep + 1
           \<and> we_Status ep' = (if wk_pauseAfterConsecutive w \<le> we_ConsecutiveFailures ep + 1 then ''paused'' else ''active'')
    | Inl err \<Rightarrow> \<exists>ep'. we_row i d' = Some ep' \<and> we_ConsecutiveFailures ep' = we_ConsecutiveFailures ep + 1
           \<and> we_Status ep' = (if wk_pauseAfterConsecutive w \<le> we_ConsecutiveFailures ep + 1 then ''paused'' else ''active'')"
proof -
  have id: "we_ID ep = i" "we_row i d = Some ep"
    using assms(3) find_Some_D by (fastforce simp: GetWebhookEndpointByID_def select_one_Inr we_row_def)+
  have f: "fault e s k = None" for s k using assms(1) by (simp add: calm_def)
  show ?thesis
  proof (cases "co_Do c (delivery_request c evt ep)")
    case (Inl err)
    then have "d' = bumpFailure w e (ev_ID evt) i (scheduleRetry w e evt err [] 0 d)"
      using assms(2-6) id by (simp add: deliverOne_def f)
    then show ?thesis using Inl bumpFailure_row [OF _ assms(4,1)] id by simp
  next
    case (Inr p)
    obtain code body where p: "p = (code, body)" by force
    show ?thesis
    proof (cases "200 \<le> code \<and> code < 300")
      case True
      then have "d' = TouchWebhookEndpointSuccess (clock e ''deliverOne.sqlnow2'' (ev_ID evt)) i
          (snd (MarkWebhookEventDelivered (clock e ''deliverOne.sqlnow'' (ev_ID evt)) (ev_ID evt) (Some code) d))"
        using assms(2-6) id Inr p by (simp add: deliverOne_def f)
      then show ?thesis using True Inr p id assms(4) by (simp add: we_row_success endpoint_success_def)
    next
      case False
      then have "d' = bumpFailure w e (ev_ID evt) i
          (scheduleRetry w e evt ''non-2xx response'' (readTruncated body 2048) code d)"
        using assms(2-6) id Inr p by (auto simp: deliverOne_def f)
      then show ?thesis using False Inr p bumpFailure_row [OF _ assms(4,1)] id by auto
    qed
  qed
qed

theorem delivery_updates_endpoint_health_witness:
  "\<exists>ep'. we_row ''we1'' (snd (deliverOne NewWorker (calm_env 0) (demo_courier 500) (demo_event ''we1'') zero_stats demo_queue))
      = Some ep' \<and> we_ConsecutiveFailures ep' = 1 \<and> we_Status ep' = ''active''"
proof -
  obtain st' d' where dl: "deliverOne NewWorker (calm_env 0) (demo_courier 500) (demo_event ''we1'') zero_stats demo_queue = (st', d')"
    by force
  obtain ep where ep: "GetWebhookEndpointByID ''we1'' demo_queue = Inr ep" "we_Status ep = ''active''" "we_ConsecutiveFailures ep = 0"
    by (auto simp: GetWebhookEndpointByID_def select_one_def demo_queue_def demo_hooks_def demo_endpoint_def empty_db_def)
  have "ev_EndpointID (demo_event ''we1'') = Some ''we1''"
    by (simp add: demo_event_def published_def stamp_event_def new_event_def demo_endpoint_def)
  moreover have "co_NewRequest_err (demo_courier 500) (we_Url ep) = None" by (simp add: demo_courier_def)
  moreover have "co_Do (demo_courier 500) r = Inr (500, [])" for r by (simp add: demo_courier_def)
  moreover have "wk_pauseAfterConsecutive NewWorker = 30" by (simp add: NewWorker_def)
  ultimately show ?thesis
    using delivery_updates_endpoint_health [OF calm_calm_env _ ep(1,2) _ dl] ep(3) dl by simp
qed

end
