(* ===== verification/Rail_Types.thy ===== *)
theory Rail_Types
  imports Env
begin

text \<open>
  The types the rails share: \<open>internal/types/types.go\<close> and the error values of
  \<open>internal/errors/errors.go\<close>. An error carries its text, the sentinel \<open>errors.Is\<close> finds in its
  chain and, when there is one, the \<open>UpstreamError\<close> that \<open>errors.As\<close> finds.
\<close>

section \<open>internal/errors\<close>

datatype sentinel = ErrUnsupported | ErrNotFound | ErrUnauthorized | ErrBadRequest | ErrUpstream

record go_error =
  ge_is :: "sentinel option"
  ge_upstream :: "(string \<times> int \<times> string) option"
  ge_text :: string

definition sentinel_text :: "sentinel \<Rightarrow> string" where
  "sentinel_text s =
     (case s of ErrUnsupported \<Rightarrow> ''operation not supported by this rail'' | ErrNotFound \<Rightarrow> ''resource not found''
      | ErrUnauthorized \<Rightarrow> ''unauthorized'' | ErrBadRequest \<Rightarrow> ''bad request'' | ErrUpstream \<Rightarrow> ''upstream rail error'')"

definition errors_New :: "string \<Rightarrow> go_error" where
  "errors_New s = \<lparr> ge_is = None, ge_upstream = None, ge_text = s \<rparr>"

text \<open>\<open>fmt.Errorf("pre: %w", err)\<close> and \<open>fmt.Errorf("%w: text", sentinel)\<close>.\<close>

definition wrapf :: "string \<Rightarrow> go_error \<Rightarrow> go_error" where
  "wrapf pre e = e\<lparr>ge_text := pre @ '': '' @ ge_text e\<rparr>"

definition sentinelf :: "sentinel \<Rightarrow> string \<Rightarrow> go_error" where
  "sentinelf s txt = \<lparr> ge_is = Some s, ge_upstream = None, ge_text = sentinel_text s @ '': '' @ txt \<rparr>"

definition UpstreamError :: "string \<Rightarrow> int \<Rightarrow> string \<Rightarrow> go_error" where
  "UpstreamError rail st body =
     \<lparr> ge_is = Some ErrUpstream, ge_upstream = Some (rail, st, body),
       ge_text = ''upstream '' @ rail @ '' returned '' @ int_to_dec st @ '': '' @ body \<rparr>"

section \<open>internal/types\<close>

definition RailCrossMint :: string where "RailCrossMint = ''crossmint''"
definition RailTempo :: string where "RailTempo = ''tempo''"
definition ChainBase :: string where "ChainBase = ''base''"
definition ChainTempo :: string where "ChainTempo = ''tempo''"
definition AssetPathUSD :: string where "AssetPathUSD = ''pathUSD''"
definition TxPending :: string where "TxPending = ''pending''"
definition TxSucceeded :: string where "TxSucceeded = ''succeeded''"
definition TxFailed :: string where "TxFailed = ''failed''"

record Owner =
  ow_Type :: string
  ow_Value :: string

record RailWallet =
  rw_ID :: string
  rw_Rail :: string
  rw_Chain :: string
  rw_Address :: string
  rw_Owner :: Owner
  rw_Locator :: string
  rw_CreatedAt :: time

record CreateWalletRequest =
  cw_Rail :: string
  cw_Chain :: string
  cw_Owner :: Owner
  cw_Type :: string

record Balance =
  bal_Asset :: string
  bal_Chain :: string
  bal_Amount :: string
  bal_Decimals :: int

record RailTransaction =
  rt_ID :: string
  rt_Rail :: string
  rt_From :: string
  rt_To :: string
  rt_Amount :: string
  rt_Asset :: string
  rt_Chain :: string
  rt_Status :: string
  rt_TxHash :: string
  rt_CreatedAt :: time

record CreateTransactionRequest =
  ct_From :: string
  ct_To :: string
  ct_Amount :: string
  ct_Asset :: string
  ct_Chain :: string

record FiatAmount =
  fa_Amount :: string
  fa_Currency :: string

record RailOnrampOrder =
  ro_ID :: string
  ro_Rail :: string
  ro_WalletID :: string
  ro_Fiat :: FiatAmount
  ro_Asset :: string
  ro_Status :: string
  ro_CheckoutURL :: string
  ro_CreatedAt :: time

record CreateOnrampRequest =
  co_WalletID :: string
  co_Fiat :: FiatAmount
  co_Asset :: string
  co_Chain :: string

end
