(* ===== verification/Tempo.thy ===== *)
theory Tempo
  imports Rail_Types Decimal Webhook_Publisher
begin

text \<open>
  \<open>internal/adapters/tempo\<close>: the client of the Tempo chain. go-ethereum is not part of the
  repository: its addresses, ABI encoder, signatures and transaction encoding are the parameter
  \<open>geth\<close>, the JSON-RPC node is the parameter \<open>eth_client\<close>. Every operation that hands transactions
  to \<open>SendTransaction\<close> returns the list of them beside its result. A transaction is its wire
  encoding.
\<close>

type_synonym address = bytes
type_synonym eth_tx = bytes

section \<open>keychain.go\<close>

record TokenLimit =
  tl_Token :: address
  tl_Amount :: int
  tl_Period :: int

record AllowedCall =
  ac_Target :: address
  ac_Selector :: bytes

record KeyRestrictions =
  kr_Expiry :: int
  kr_EnforceLimits :: bool
  kr_Limits :: "TokenLimit list"
  kr_AllowAnyCalls :: bool
  kr_AllowedCalls :: "AllowedCall list"

record LegacyTx =
  lt_Nonce :: int
  lt_To :: address
  lt_Value :: int
  lt_Gas :: int
  lt_GasPrice :: int
  lt_Data :: bytes

record geth =
  HexToAddress :: "string \<Rightarrow> address"
  Address_Hex :: "address \<Rightarrow> string"
  abi_transfer :: "address \<Rightarrow> int \<Rightarrow> string + bytes"
  abi_balanceOf :: "address \<Rightarrow> string + bytes"
  abi_unpack_balanceOf :: "bytes \<Rightarrow> string + int list"
  abi_authorizeKey :: "address \<Rightarrow> int \<Rightarrow> KeyRestrictions \<Rightarrow> string + bytes"
  GenerateKey :: "string \<Rightarrow> string + bytes" \<comment> \<open>per call site, as FromECDSA bytes\<close>
  ToECDSA :: "bytes \<Rightarrow> string + bytes"
  PubkeyToAddress :: "bytes \<Rightarrow> address"
  SignTx :: "LegacyTx \<Rightarrow> int \<Rightarrow> bytes \<Rightarrow> string + eth_tx"
  MarshalBinary :: "LegacyTx \<Rightarrow> string + bytes"
  UnmarshalBinary :: "bytes \<Rightarrow> string + eth_tx"
  tx_Hash :: "eth_tx \<Rightarrow> string"

record eth_client =
  ChainID :: int
  PendingNonceAt :: "address \<Rightarrow> string + int"
  SuggestGasPrice :: "string + int"
  EstimateGas :: "address \<Rightarrow> address \<Rightarrow> bytes \<Rightarrow> string + int"
  SendTransaction :: "eth_tx \<Rightarrow> string option"
  CallContract :: "address \<Rightarrow> bytes \<Rightarrow> string + bytes"
  TransactionReceipt :: "string \<Rightarrow> string + int" \<comment> \<open>the status of the receipt\<close>

record tempo_adapter =
  ta_geth :: geth
  ta_eth :: eth_client

definition PathUSDAddress :: string where "PathUSDAddress = ''0x20C0000000000000000000000000000000000000''"
definition TIP20Decimals :: nat where "TIP20Decimals = 6"
definition AccountKeychainAddress :: string where "AccountKeychainAddress = ''0xAAAAAAAA00000000000000000000000000000000''"
definition SigTypeSecp256k1 :: int where "SigTypeSecp256k1 = 0"

definition PackAuthorizeKey :: "geth \<Rightarrow> address \<Rightarrow> int \<Rightarrow> KeyRestrictions \<Rightarrow> go_error + bytes" where
  "PackAuthorizeKey g keyId sigType r =
     (if kr_Expiry r = 0 \<and> kr_EnforceLimits r
      then Inl (errors_New ''tempo: KeyRestrictions.Expiry=0 with EnforceLimits=true; pass an explicit expiry'')
      else (case abi_authorizeKey g keyId sigType r of
              Inl err \<Rightarrow> Inl (wrapf ''tempo: pack authorizeKey'' (errors_New err))
            | Inr b \<Rightarrow> Inr b))"

definition PathUSDDailyLimit :: "geth \<Rightarrow> int \<Rightarrow> TokenLimit" where
  "PathUSDDailyLimit g dailyMicros =
     \<lparr> tl_Token = HexToAddress g PathUSDAddress, tl_Amount = dailyMicros, tl_Period = 86400 \<rparr>"

definition TransferOnly :: "address \<Rightarrow> AllowedCall" where
  "TransferOnly token = \<lparr> ac_Target = token, ac_Selector = map char_of [0xa9::nat, 0x05, 0x9c, 0xbb] \<rparr>"

section \<open>key.go, abi.go\<close>

definition PrivateKeyBytes :: nat where "PrivateKeyBytes = 32"

text \<open>\<open>copy\<close> into the 32-byte array: a shorter key leaves zero bytes, a longer one is cut.\<close>

definition to_array :: "nat \<Rightarrow> bytes \<Rightarrow> bytes" where
  "to_array n b = take n b @ replicate (n - length b) (char_of (0::nat))"

definition GenerateKeypair :: "geth \<Rightarrow> string \<Rightarrow> go_error + bytes \<times> string" where
  "GenerateKeypair g site =
     (case GenerateKey g site of
        Inl err \<Rightarrow> Inl (wrapf ''tempo: generate key'' (errors_New err))
      | Inr k \<Rightarrow> Inr (to_array PrivateKeyBytes k, Address_Hex g (PubkeyToAddress g k)))"

definition privateKeyFromBytes :: "geth \<Rightarrow> bytes \<Rightarrow> go_error + bytes" where
  "privateKeyFromBytes g b =
     (if length b \<noteq> PrivateKeyBytes
      then Inl (errors_New (''tempo: private key must be 32 bytes (got '' @ int_to_dec (int (length b)) @ '')''))
      else (case ToECDSA g b of
              Inl err \<Rightarrow> Inl (wrapf ''tempo: decode private key'' (errors_New err))
            | Inr k \<Rightarrow> Inr k))"

definition tokenAddressFor :: "geth \<Rightarrow> string \<Rightarrow> go_error + address" where
  "tokenAddressFor g asset =
     (if ToUpper asset = ''PATHUSD'' then Inr (HexToAddress g PathUSDAddress)
      else Inl (errors_New (''tempo: unsupported asset '' @ go_quote asset)))"

definition packTransfer :: "geth \<Rightarrow> address \<Rightarrow> int \<Rightarrow> go_error + bytes" where
  "packTransfer g to amount = (case abi_transfer g to amount of Inl err \<Rightarrow> Inl (errors_New err) | Inr b \<Rightarrow> Inr b)"

definition units_error_text :: "units_error \<Rightarrow> string" where
  "units_error_text err =
     (case err of UEmptyAmount \<Rightarrow> ''empty amount'' | UNegativeAmount \<Rightarrow> ''negative amount''
      | UFracTooLong n \<Rightarrow> ''fractional part exceeds '' @ int_to_dec (int n) @ '' decimals'' | UInvalidNumber \<Rightarrow> ''invalid number'')"

section \<open>Building a call\<close>

text \<open>
  The part that the five transaction builders of the source share: nonce, gas price, gas limit
  with a fixed fallback, and the legacy transaction of value 0. \<open>pre\<close> is the prefix of their error
  messages.
\<close>

definition assemble :: "tempo_adapter \<Rightarrow> string \<Rightarrow> int \<Rightarrow> address \<Rightarrow> address \<Rightarrow> bytes \<Rightarrow> go_error + LegacyTx" where
  "assemble a pre fallback from to data =
     (case PendingNonceAt (ta_eth a) from of
        Inl err \<Rightarrow> Inl (wrapf (pre @ ''nonce'') (errors_New err))
      | Inr nonce \<Rightarrow>
          (case SuggestGasPrice (ta_eth a) of
             Inl err \<Rightarrow> Inl (wrapf (pre @ ''gas price'') (errors_New err))
           | Inr gasPrice \<Rightarrow>
               (let gasLimit = (case EstimateGas (ta_eth a) from to data of Inl _ \<Rightarrow> fallback | Inr n \<Rightarrow> n)
                in Inr \<lparr> lt_Nonce = nonce, lt_To = to, lt_Value = 0, lt_Gas = gasLimit,
                         lt_GasPrice = gasPrice, lt_Data = data \<rparr>)))"

definition sign_and_send :: "tempo_adapter \<Rightarrow> string \<Rightarrow> string \<Rightarrow> bytes \<Rightarrow> LegacyTx \<Rightarrow> (go_error + string) \<times> eth_tx list" where
  "sign_and_send a sign_pre send_pre priv lt =
     (case SignTx (ta_geth a) lt (ChainID (ta_eth a)) priv of
        Inl err \<Rightarrow> (Inl (wrapf sign_pre (errors_New err)), [])
      | Inr signed \<Rightarrow>
          (case SendTransaction (ta_eth a) signed of
             Some err \<Rightarrow> (Inl (wrapf send_pre (errors_New err)), [signed])
           | None \<Rightarrow> (Inr (tx_Hash (ta_geth a) signed), [signed])))"

text \<open>The call data of a token transfer: supported asset, parsed amount, ABI encoding.\<close>

definition transfer_call :: "geth \<Rightarrow> CreateTransactionRequest \<Rightarrow> go_error + address \<times> bytes" where
  "transfer_call g req =
     (case tokenAddressFor g (ct_Asset req) of
        Inl err \<Rightarrow> Inl (sentinelf ErrBadRequest (ge_text err))
      | Inr tokenAddr \<Rightarrow>
          (case parseUnits (ct_Amount req) TIP20Decimals of
             Inl err \<Rightarrow> Inl (sentinelf ErrBadRequest
                          (''amount '' @ go_quote (ct_Amount req) @ '': '' @ units_error_text err))
           | Inr amount \<Rightarrow>
               (case packTransfer g (HexToAddress g (ct_To req)) amount of
                  Inl err \<Rightarrow> Inl (wrapf ''pack transfer'' err)
                | Inr data \<Rightarrow> Inr (tokenAddr, data))))"

definition pending_transaction :: "env \<Rightarrow> CreateTransactionRequest \<Rightarrow> string \<Rightarrow> string \<Rightarrow> RailTransaction" where
  "pending_transaction e req from hash =
     \<lparr> rt_ID = hash, rt_Rail = RailTempo, rt_From = from, rt_To = ct_To req, rt_Amount = ct_Amount req,
       rt_Asset = ct_Asset req, rt_Chain = ChainTempo, rt_Status = TxPending, rt_TxHash = hash,
       rt_CreatedAt = clock e ''tempo.now'' [] \<rparr>"

section \<open>transfer.go\<close>

definition TransferWithKey ::
    "tempo_adapter \<Rightarrow> env \<Rightarrow> bytes \<Rightarrow> CreateTransactionRequest \<Rightarrow> string \<Rightarrow> (go_error + RailTransaction) \<times> eth_tx list" where
  "TransferWithKey a e privBytes req fromAddress =
     (let g = ta_geth a in
      case privateKeyFromBytes g privBytes of
        Inl err \<Rightarrow> (Inl (sentinelf ErrBadRequest (ge_text err)), [])
      | Inr priv \<Rightarrow>
          (let derived = PubkeyToAddress g priv; from = HexToAddress g fromAddress in
           if derived \<noteq> from then
             (Inl (errors_New (''tempo: private key derives '' @ Address_Hex g derived @ '' but wallet record says '' @ fromAddress)), [])
           else
             (case transfer_call g req of
                Inl err \<Rightarrow> (Inl err, [])
              | Inr (tokenAddr, data) \<Rightarrow>
                  (case assemble a [] 200000 from tokenAddr data of
                     Inl err \<Rightarrow> (Inl err, [])
                   | Inr lt \<Rightarrow>
                       (case sign_and_send a ''sign tx'' ''send tx'' priv lt of
                          (Inl err, sent) \<Rightarrow> (Inl err, sent)
                        | (Inr hash, sent) \<Rightarrow> (Inr (pending_transaction e req fromAddress hash), sent))))))"

section \<open>prepare.go\<close>

record UnsignedTransfer =
  ut_ChainID :: int
  ut_Nonce :: int
  ut_To :: string
  ut_ValueHex :: string
  ut_GasLimit :: int
  ut_GasPriceHex :: string
  ut_DataHex :: string
  ut_RawUnsignedHex :: string

fun nat_to_hex :: "nat \<Rightarrow> string" where
  "nat_to_hex n = (if n < 16 then [hex_digit n] else nat_to_hex (n div 16) @ [hex_digit (n mod 16)])"

declare nat_to_hex.simps [simp del]

definition int_to_hex :: "int \<Rightarrow> string" where
  "int_to_hex n = (if n < 0 then CHR ''-'' # nat_to_hex (nat (- n)) else nat_to_hex (nat n))"

definition unsigned_transfer :: "tempo_adapter \<Rightarrow> string \<Rightarrow> LegacyTx \<Rightarrow> go_error + UnsignedTransfer" where
  "unsigned_transfer a pre lt =
     (case MarshalBinary (ta_geth a) lt of
        Inl err \<Rightarrow> Inl (wrapf pre (errors_New err))
      | Inr raw \<Rightarrow>
          Inr \<lparr> ut_ChainID = wrap64 (ChainID (ta_eth a)), ut_Nonce = lt_Nonce lt,
                ut_To = Address_Hex (ta_geth a) (lt_To lt), ut_ValueHex = ''0x0'', ut_GasLimit = lt_Gas lt,
                ut_GasPriceHex = ''0x'' @ int_to_hex (lt_GasPrice lt), ut_DataHex = ''0x'' @ hex_encode (lt_Data lt),
                ut_RawUnsignedHex = ''0x'' @ hex_encode raw \<rparr>)"

definition BuildTransfer :: "tempo_adapter \<Rightarrow> string \<Rightarrow> CreateTransactionRequest \<Rightarrow> go_error + UnsignedTransfer" where
  "BuildTransfer a fromAddress req =
     (case transfer_call (ta_geth a) req of
        Inl err \<Rightarrow> Inl err
      | Inr (tokenAddr, data) \<Rightarrow>
          (case assemble a [] 200000 (HexToAddress (ta_geth a) fromAddress) tokenAddr data of
             Inl err \<Rightarrow> Inl err
           | Inr lt \<Rightarrow> unsigned_transfer a ''marshal unsigned tx'' lt))"

definition BuildAuthorizeKey ::
    "tempo_adapter \<Rightarrow> string \<Rightarrow> string \<Rightarrow> int \<Rightarrow> KeyRestrictions \<Rightarrow> go_error + UnsignedTransfer" where
  "BuildAuthorizeKey a walletAddress sessionKeyAddress sigType restrictions =
     (let g = ta_geth a in
      case PackAuthorizeKey g (HexToAddress g sessionKeyAddress) sigType restrictions of
        Inl err \<Rightarrow> Inl err
      | Inr calldata \<Rightarrow>
          (case assemble a ''authorize key build: '' 500000 (HexToAddress g walletAddress)
                  (HexToAddress g AccountKeychainAddress) calldata of
             Inl err \<Rightarrow> Inl err
           | Inr lt \<Rightarrow> unsigned_transfer a ''marshal unsigned authorize tx'' lt))"

definition hexDecode :: "string \<Rightarrow> bytes option" where
  "hexDecode s = hex_decode (if 2 \<le> length s \<and> (take 2 s = ''0x'' \<or> take 2 s = ''0X'') then drop 2 s else s)"

text \<open>The text of the standard library's hex error is left out of the first branch.\<close>

definition BroadcastSignedTx :: "tempo_adapter \<Rightarrow> string \<Rightarrow> (go_error + string) \<times> eth_tx list" where
  "BroadcastSignedTx a signedHex =
     (case hexDecode signedHex of
        None \<Rightarrow> (Inl (sentinelf ErrBadRequest ''signed_tx_hex''), [])
      | Some raw \<Rightarrow>
          (case UnmarshalBinary (ta_geth a) raw of
             Inl err \<Rightarrow> (Inl (sentinelf ErrBadRequest (''decode signed tx: '' @ err)), [])
           | Inr tx \<Rightarrow>
               (case SendTransaction (ta_eth a) tx of
                  Some err \<Rightarrow> (Inl (wrapf ''send tx'' (errors_New err)), [tx])
                | None \<Rightarrow> (Inr (tx_Hash (ta_geth a) tx), [tx]))))"

section \<open>keychain\_broadcast.go\<close>

definition AuthorizeKey ::
    "tempo_adapter \<Rightarrow> bytes \<Rightarrow> string \<Rightarrow> string \<Rightarrow> int \<Rightarrow> KeyRestrictions \<Rightarrow> (go_error + string) \<times> eth_tx list" where
  "AuthorizeKey a walletPrivKey walletAddress sessionKeyAddress sigType restrictions =
     (let g = ta_geth a in
      case privateKeyFromBytes g walletPrivKey of
        Inl err \<Rightarrow> (Inl (wrapf ''authorize key'' err), [])
      | Inr priv \<Rightarrow>
          (let derived = PubkeyToAddress g priv in
           if derived \<noteq> HexToAddress g walletAddress then
             (Inl (errors_New (''authorize key: private key derives '' @ Address_Hex g derived
                @ '' but wallet record says '' @ walletAddress)), [])
           else
             (case PackAuthorizeKey g (HexToAddress g sessionKeyAddress) sigType restrictions of
                Inl err \<Rightarrow> (Inl err, [])
              | Inr calldata \<Rightarrow>
                  (case assemble a ''authorize key: '' 500000 derived (HexToAddress g AccountKeychainAddress) calldata of
                     Inl err \<Rightarrow> (Inl err, [])
                   | Inr lt \<Rightarrow> sign_and_send a ''authorize key: sign'' ''authorize key: broadcast'' priv lt))))"

section \<open>keystore.go, adapter.go\<close>

text \<open>The in-memory keystore of the legacy endpoints: checksummed address to key.\<close>

type_synonym MemoryKeystore = "string \<Rightarrow> bytes option"

definition normalize :: "geth \<Rightarrow> string \<Rightarrow> string" where
  "normalize g addr = Address_Hex g (HexToAddress g addr)"

definition mem_Generate :: "geth \<Rightarrow> string \<Rightarrow> MemoryKeystore \<Rightarrow> (go_error + string) \<times> MemoryKeystore" where
  "mem_Generate g site ks =
     (case GenerateKey g site of
        Inl err \<Rightarrow> (Inl (wrapf ''generate key'' (errors_New err)), ks)
      | Inr priv \<Rightarrow> (let addr = Address_Hex g (PubkeyToAddress g priv) in (Inr addr, ks(normalize g addr \<mapsto> priv))))"

definition mem_Get :: "geth \<Rightarrow> string \<Rightarrow> MemoryKeystore \<Rightarrow> go_error + bytes" where
  "mem_Get g addr ks =
     (case ks (normalize g addr) of
        None \<Rightarrow> Inl (errors_New (''tempo: no key for address '' @ addr))
      | Some priv \<Rightarrow> Inr priv)"

definition mem_Has :: "geth \<Rightarrow> string \<Rightarrow> MemoryKeystore \<Rightarrow> bool" where
  "mem_Has g addr ks \<longleftrightarrow> ks (normalize g addr) \<noteq> None"

definition tempo_CreateWallet ::
    "tempo_adapter \<Rightarrow> env \<Rightarrow> CreateWalletRequest \<Rightarrow> MemoryKeystore \<Rightarrow> (go_error + RailWallet) \<times> MemoryKeystore" where
  "tempo_CreateWallet a e req ks =
     (case mem_Generate (ta_geth a) ''CreateWallet'' ks of
        (Inl err, ks1) \<Rightarrow> (Inl err, ks1)
      | (Inr addr, ks1) \<Rightarrow>
          (Inr \<lparr> rw_ID = addr, rw_Rail = RailTempo, rw_Chain = ChainTempo, rw_Address = addr, rw_Owner = cw_Owner req,
                 rw_Locator = addr, rw_CreatedAt = clock e ''tempo.now'' [] \<rparr>, ks1))"

definition tempo_GetWallet :: "tempo_adapter \<Rightarrow> string \<Rightarrow> MemoryKeystore \<Rightarrow> go_error + RailWallet" where
  "tempo_GetWallet a locator ks =
     (if \<not> mem_Has (ta_geth a) locator ks then Inl (sentinelf ErrNotFound (''wallet '' @ locator))
      else Inr \<lparr> rw_ID = locator, rw_Rail = RailTempo, rw_Chain = ChainTempo, rw_Address = normalize (ta_geth a) locator,
                 rw_Owner = \<lparr> ow_Type = [], ow_Value = [] \<rparr>, rw_Locator = locator, rw_CreatedAt = zero_time \<rparr>)"

definition tokenBalance :: "tempo_adapter \<Rightarrow> address \<Rightarrow> address \<Rightarrow> go_error + int" where
  "tokenBalance a token owner =
     (case abi_balanceOf (ta_geth a) owner of
        Inl err \<Rightarrow> Inl (errors_New err)
      | Inr data \<Rightarrow>
          (case CallContract (ta_eth a) token data of
             Inl err \<Rightarrow> Inl (wrapf ''call balanceOf'' (errors_New err))
           | Inr out \<Rightarrow>
               (case abi_unpack_balanceOf (ta_geth a) out of
                  Inl err \<Rightarrow> Inl (errors_New err)
                | Inr [] \<Rightarrow> Inr 0
                | Inr (b # _) \<Rightarrow> Inr b)))"

definition tempo_GetBalances :: "tempo_adapter \<Rightarrow> string \<Rightarrow> go_error + Balance list" where
  "tempo_GetBalances a locator =
     (case tokenBalance a (HexToAddress (ta_geth a) PathUSDAddress) (HexToAddress (ta_geth a) locator) of
        Inl err \<Rightarrow> Inl err
      | Inr bal \<Rightarrow> Inr [\<lparr> bal_Asset = AssetPathUSD, bal_Chain = ChainTempo,
                          bal_Amount = formatUnits (Some bal) TIP20Decimals, bal_Decimals = int TIP20Decimals \<rparr>])"

definition tempo_CreateTransaction ::
    "tempo_adapter \<Rightarrow> env \<Rightarrow> CreateTransactionRequest \<Rightarrow> string \<Rightarrow> MemoryKeystore \<Rightarrow> (go_error + RailTransaction) \<times> eth_tx list" where
  "tempo_CreateTransaction a e req fromLocator ks =
     (let g = ta_geth a in
      case mem_Get g fromLocator ks of
        Inl err \<Rightarrow> (Inl (sentinelf ErrBadRequest (ge_text err)), [])
      | Inr priv \<Rightarrow>
          (case transfer_call g req of
             Inl err \<Rightarrow> (Inl err, [])
           | Inr (tokenAddr, data) \<Rightarrow>
               (case assemble a [] 200000 (HexToAddress g fromLocator) tokenAddr data of
                  Inl err \<Rightarrow> (Inl err, [])
                | Inr lt \<Rightarrow>
                    (case sign_and_send a ''sign tx'' ''send tx'' priv lt of
                       (Inl err, sent) \<Rightarrow> (Inl err, sent)
                     | (Inr hash, sent) \<Rightarrow> (Inr (pending_transaction e req fromLocator hash), sent)))))"

fun Contains :: "string \<Rightarrow> string \<Rightarrow> bool" where
  "Contains [] p = (p = [])"
| "Contains (c # s) p = (HasPrefix (c # s) p \<or> Contains s p)"

definition receipt_view :: "string \<Rightarrow> string \<Rightarrow> string \<Rightarrow> RailTransaction" where
  "receipt_view txID chain st =
     \<lparr> rt_ID = txID, rt_Rail = RailTempo, rt_From = [], rt_To = [], rt_Amount = [], rt_Asset = [], rt_Chain = chain,
       rt_Status = st, rt_TxHash = txID, rt_CreatedAt = zero_time \<rparr>"

definition tempo_GetTransaction :: "tempo_adapter \<Rightarrow> string \<Rightarrow> go_error + RailTransaction" where
  "tempo_GetTransaction a txID =
     (case TransactionReceipt (ta_eth a) txID of
        Inl err \<Rightarrow> if Contains err ''not found'' then Inr (receipt_view txID [] TxPending) else Inl (errors_New err)
      | Inr st \<Rightarrow> Inr (receipt_view txID ChainTempo (if st = 1 then TxSucceeded else TxFailed)))"

definition tempo_CreateOnrampOrder :: "go_error + RailOnrampOrder" where
  "tempo_CreateOnrampOrder = Inl (sentinelf ErrUnsupported ''tempo has no fiat onramp; use rail=crossmint'')"

section \<open>What is broadcast\<close>

lemma assemble_Inr:
  assumes "assemble a pre fb from to data = Inr lt"
  shows "lt_To lt = to \<and> lt_Value lt = 0 \<and> lt_Data lt = data \<and> PendingNonceAt (ta_eth a) from = Inr (lt_Nonce lt)"
  using assms by (auto simp: assemble_def Let_def split: sum.splits)

lemma sign_and_send_cases:
  assumes "sign_and_send a p q priv lt = (res, sent)"
  shows "sent = [] \<and> (\<exists>err. res = Inl err)
    \<or> (\<exists>tx. sent = [tx] \<and> SignTx (ta_geth a) lt (ChainID (ta_eth a)) priv = Inr tx
        \<and> (\<forall>hash. res = Inr hash \<longrightarrow> SendTransaction (ta_eth a) tx = None \<and> hash = tx_Hash (ta_geth a) tx))"
  using assms by (auto simp: sign_and_send_def split: sum.splits option.splits)

lemma transfer_call_Inr:
  assumes "transfer_call g req = Inr (token, data)"
  shows "\<exists>x. parseUnits (ct_Amount req) 6 = Inr x \<and> abi_transfer g (HexToAddress g (ct_To req)) x = Inr data
    \<and> token = HexToAddress g PathUSDAddress \<and> ToUpper (ct_Asset req) = ''PATHUSD''"
  using assms by (auto simp: transfer_call_def tokenAddressFor_def packTransfer_def TIP20Decimals_def split: sum.splits if_splits)

text \<open>The one transaction a transfer may put on the wire.\<close>

definition is_transfer_tx :: "tempo_adapter \<Rightarrow> string \<Rightarrow> CreateTransactionRequest \<Rightarrow> LegacyTx \<Rightarrow> bool" where
  "is_transfer_tx a from req lt \<longleftrightarrow>
     (\<exists>x. parseUnits (ct_Amount req) 6 = Inr x
        \<and> abi_transfer (ta_geth a) (HexToAddress (ta_geth a) (ct_To req)) x = Inr (lt_Data lt))
     \<and> lt_To lt = HexToAddress (ta_geth a) PathUSDAddress \<and> lt_Value lt = 0
     \<and> PendingNonceAt (ta_eth a) (HexToAddress (ta_geth a) from) = Inr (lt_Nonce lt)
     \<and> transfer_call (ta_geth a) req = Inr (lt_To lt, lt_Data lt)
     \<and> assemble a [] 200000 (HexToAddress (ta_geth a) from) (lt_To lt) (lt_Data lt) = Inr lt"

definition broadcasts_transfer ::
    "tempo_adapter \<Rightarrow> bytes \<Rightarrow> string \<Rightarrow> CreateTransactionRequest \<Rightarrow> eth_tx \<Rightarrow> bool" where
  "broadcasts_transfer a privBytes from req tx \<longleftrightarrow>
     (\<exists>priv lt. privateKeyFromBytes (ta_geth a) privBytes = Inr priv
        \<and> PubkeyToAddress (ta_geth a) priv = HexToAddress (ta_geth a) from
        \<and> is_transfer_tx a from req lt \<and> SignTx (ta_geth a) lt (ChainID (ta_eth a)) priv = Inr tx)"

lemma TransferWithKey_cases:
  assumes "TransferWithKey a e privBytes req from = (res, sent)"
  shows "sent = [] \<and> (\<exists>err. res = Inl err)
    \<or> (\<exists>tx. sent = [tx] \<and> broadcasts_transfer a privBytes from req tx
        \<and> (\<forall>r. res = Inr r \<longrightarrow> SendTransaction (ta_eth a) tx = None
              \<and> r = pending_transaction e req from (tx_Hash (ta_geth a) tx)))"
proof (cases "privateKeyFromBytes (ta_geth a) privBytes")
  case (Inl err)
  then show ?thesis using assms by (auto simp: TransferWithKey_def Let_def)
next
  case (Inr priv)
  note priv = this
  show ?thesis
  proof (cases "PubkeyToAddress (ta_geth a) priv = HexToAddress (ta_geth a) from")
    case False
    then show ?thesis using assms priv by (auto simp: TransferWithKey_def Let_def)
  next
    case own: True
    show ?thesis
    proof (cases "transfer_call (ta_geth a) req")
      case (Inl err)
      then show ?thesis using assms priv own by (auto simp: TransferWithKey_def Let_def)
    next
      case (Inr td)
      obtain token data where td: "transfer_call (ta_geth a) req = Inr (token, data)" using Inr by (cases td) simp
      show ?thesis
      proof (cases "assemble a [] 200000 (HexToAddress (ta_geth a) from) token data")
        case (Inl err)
        then show ?thesis using assms priv own td by (auto simp: TransferWithKey_def Let_def)
      next
        case (Inr lt)
        note lt = assemble_Inr [OF Inr]
        have tr: "is_transfer_tx a from req lt" unfolding is_transfer_tx_def
          using lt transfer_call_Inr [OF td] td Inr by auto
        obtain res0 sent0 where s: "sign_and_send a ''sign tx'' ''send tx'' priv lt = (res0, sent0)" by force
        have r: "sent = sent0" "\<And>v. res = Inr v \<Longrightarrow> \<exists>h. res0 = Inr h \<and> v = pending_transaction e req from h"
          "\<And>err. res0 = Inl err \<Longrightarrow> res = Inl err"
          using assms priv own td Inr s by (cases res0; simp add: TransferWithKey_def Let_def)+
        have "broadcasts_transfer a privBytes from req tx" if "SignTx (ta_geth a) lt (ChainID (ta_eth a)) priv = Inr tx" for tx
          unfolding broadcasts_transfer_def using priv own tr that by blast
        then show ?thesis using sign_and_send_cases [OF s] r by fastforce
      qed
    qed
  qed
qed

text \<open>
  C22: a Tempo transfer puts at most one transaction on the wire, and only one that the key of the
  sending wallet signed: a call of the pathUSD contract with value 0 whose data is the ABI encoding
  of \<open>transfer\<close> to the recipient with exactly the amount of the request, under the wallet's pending
  nonce. A success is reported only for a transaction the node accepted, with its hash.
\<close>

theorem TransferWithKey_sends_exactly_the_request:
  assumes "TransferWithKey a e privBytes req from = (res, sent)"
  shows "(sent = [] \<or> (\<exists>tx. sent = [tx] \<and> broadcasts_transfer a privBytes from req tx))
    \<and> (\<forall>r. res = Inr r \<longrightarrow> (\<exists>tx. sent = [tx] \<and> SendTransaction (ta_eth a) tx = None
          \<and> rt_TxHash r = tx_Hash (ta_geth a) tx \<and> rt_Status r = ''pending''))"
  using TransferWithKey_cases [OF assms] by (auto simp: pending_transaction_def TxPending_def)

definition demo_geth :: geth where
  "demo_geth = \<lparr> HexToAddress = (\<lambda>s. s), Address_Hex = (\<lambda>a. a), abi_transfer = (\<lambda>to x. Inr (to @ int_to_dec x)),
     abi_balanceOf = Inr, abi_unpack_balanceOf = (\<lambda>_. Inr [0]), abi_authorizeKey = (\<lambda>k _ _. Inr k),
     GenerateKey = (\<lambda>site. Inr (replicate 32 CHR ''k'')), ToECDSA = Inr, PubkeyToAddress = (\<lambda>k. take 2 k),
     SignTx = (\<lambda>lt _ priv. Inr (lt_Data lt)), MarshalBinary = (\<lambda>lt. Inr (lt_Data lt)), UnmarshalBinary = Inr,
     tx_Hash = (\<lambda>tx. CHR ''h'' # tx) \<rparr>"

definition demo_eth :: eth_client where
  "demo_eth = \<lparr> ChainID = 4217, PendingNonceAt = (\<lambda>_. Inr 7), SuggestGasPrice = Inr 1, EstimateGas = (\<lambda>_ _ _. Inl ''cold''),
     SendTransaction = (\<lambda>_. None), CallContract = (\<lambda>_ _. Inr []), TransactionReceipt = (\<lambda>_. Inr 1) \<rparr>"

definition demo_tempo :: tempo_adapter where
  "demo_tempo = \<lparr> ta_geth = demo_geth, ta_eth = demo_eth \<rparr>"

definition demo_transfer :: CreateTransactionRequest where
  "demo_transfer = \<lparr> ct_From = ''kk'', ct_To = ''to'', ct_Amount = ''4.5'', ct_Asset = ''pathUSD'', ct_Chain = ''tempo'' \<rparr>"

lemma demo_upper: "ToUpper ''pathUSD'' = ''PATHUSD''"
  by code_simp

lemma demo_units: "parseUnits ''4.5'' 6 = Inr 4500000"
  by (simp add: decimal_eval)

lemma demo_transfer_sent:
  "TransferWithKey demo_tempo (calm_env 0) (replicate 32 CHR ''k'') demo_transfer ''kk'' =
   (Inr (pending_transaction (calm_env 0) demo_transfer ''kk'' ''hto4500000''), [''to4500000''])"
proof -
  have c: "transfer_call demo_geth demo_transfer = Inr (PathUSDAddress, ''to4500000'')"
    by (simp add: transfer_call_def tokenAddressFor_def packTransfer_def demo_transfer_def demo_upper demo_units
        TIP20Decimals_def demo_geth_def int_to_dec_def nat_to_dec.simps)
  have k: "privateKeyFromBytes demo_geth (replicate 32 CHR ''k'') = Inr (replicate 32 CHR ''k'')"
    by (simp add: privateKeyFromBytes_def PrivateKeyBytes_def demo_geth_def)
  have "take 2 (replicate 32 CHR ''k'') = ''kk''" by (simp add: numeral_eq_Suc)
  then show ?thesis
    using k c by (simp add: TransferWithKey_def demo_tempo_def assemble_def sign_and_send_def demo_eth_def Let_def)
       (simp add: demo_geth_def)
qed

theorem TransferWithKey_sends_exactly_the_request_witness:
  "broadcasts_transfer demo_tempo (replicate 32 CHR ''k'') ''kk'' demo_transfer ''to4500000''"
  using TransferWithKey_sends_exactly_the_request [OF demo_transfer_sent] by simp

text \<open>
  The prepare endpoint offers for signing the very transaction the server would sign itself:
  whenever a transfer is broadcast under a platform key, \<open>BuildTransfer\<close> for the same wallet and
  request returns the encoding of the same unsigned transaction.
\<close>

theorem BuildTransfer_is_the_unsigned_half:
  assumes "TransferWithKey a e privBytes req from = (res, [tx])"
  shows "\<exists>lt priv. SignTx (ta_geth a) lt (ChainID (ta_eth a)) priv = Inr tx
    \<and> PubkeyToAddress (ta_geth a) priv = HexToAddress (ta_geth a) from
    \<and> BuildTransfer a from req = unsigned_transfer a ''marshal unsigned tx'' lt"
proof -
  obtain priv lt where "PubkeyToAddress (ta_geth a) priv = HexToAddress (ta_geth a) from" "is_transfer_tx a from req lt"
    "SignTx (ta_geth a) lt (ChainID (ta_eth a)) priv = Inr tx"
    using TransferWithKey_cases [OF assms] by (auto simp: broadcasts_transfer_def)
  moreover from this(2) have "BuildTransfer a from req = unsigned_transfer a ''marshal unsigned tx'' lt"
    unfolding is_transfer_tx_def BuildTransfer_def by (elim conjE) (simp only: sum.case prod.case)
  ultimately show ?thesis by blast
qed

theorem BuildTransfer_is_the_unsigned_half_witness:
  "\<exists>lt. BuildTransfer demo_tempo ''kk'' demo_transfer = unsigned_transfer demo_tempo ''marshal unsigned tx'' lt"
  using BuildTransfer_is_the_unsigned_half [OF demo_transfer_sent] by blast

end
