(* ===== verification/Keystore.thy ===== *)
theory Keystore
  imports Env
begin

text \<open>
  \<open>internal/keystore\<close>: encryption of private keys at rest under versioned master keys
  (\<open>keystore.go\<close>) and the loader that reads the master keys from the environment
  (\<open>loader.go\<close>). AES-256-GCM is the parameter \<open>new_gcm\<close>: the constructor of an AEAD from a key.
  The interface \<open>Keystore\<close> of the source is the locale \<open>keystore\<close>, which \<open>AESKeystore\<close> is shown
  to implement.
\<close>

section \<open>keystore.go\<close>

record aead =
  NonceSize :: nat
  Seal :: "bytes \<Rightarrow> bytes \<Rightarrow> bytes" \<comment> \<open>nonce, plaintext: ciphertext and tag\<close>
  Open :: "bytes \<Rightarrow> bytes \<Rightarrow> bytes option" \<comment> \<open>nonce, ciphertext and tag\<close>

type_synonym gcm = "bytes \<Rightarrow> string + aead"

definition MasterKeyBytes :: nat where "MasterKeyBytes = 32"

datatype keystore_error =
  NoMasterKey | KeyLength int nat | NewCipher int string | CurrentNotInKeystore int
| ReadNonce string | ErrUnknownVersion int | ShorterThanNonce | DecryptFailed
| MalformedEnv string | Base64Decode string | CurrentMalformed string | CurrentNotSet int

record AESKeystore =
  ks_keys :: "(int \<times> aead) list"
  ks_current :: int

fun build_aeads :: "gcm \<Rightarrow> (int \<times> bytes) list \<Rightarrow> keystore_error + (int \<times> aead) list" where
  "build_aeads new_gcm [] = Inr []"
| "build_aeads new_gcm ((v, k) # ks) =
     (if length k \<noteq> MasterKeyBytes then Inl (KeyLength v (length k))
      else (case new_gcm k of
              Inl err \<Rightarrow> Inl (NewCipher v err)
            | Inr a \<Rightarrow> (case build_aeads new_gcm ks of Inl err \<Rightarrow> Inl err | Inr as \<Rightarrow> Inr ((v, a) # as))))"

text \<open>The map of the source is the list of its entries, one per version.\<close>

definition NewAESKeystore :: "gcm \<Rightarrow> (int \<times> bytes) list \<Rightarrow> int \<Rightarrow> keystore_error + AESKeystore" where
  "NewAESKeystore new_gcm keysByVersion current =
     (if keysByVersion = [] then Inl NoMasterKey
      else (case build_aeads new_gcm keysByVersion of
              Inl err \<Rightarrow> Inl err
            | Inr aeads \<Rightarrow> (case map_of aeads current of
                              None \<Rightarrow> Inl (CurrentNotInKeystore current)
                            | Some _ \<Rightarrow> Inr \<lparr> ks_keys = aeads, ks_current = current \<rparr>)))"

text \<open>
  \<open>rnd n\<close> is what reading \<open>n\<close> bytes from \<open>crypto/rand\<close> gives. A keystore built by
  \<open>NewAESKeystore\<close> holds its current version, so the first branch of \<open>Encrypt\<close> (a nil AEAD) is
  never taken.
\<close>

definition Encrypt :: "AESKeystore \<Rightarrow> (nat \<Rightarrow> string + bytes) \<Rightarrow> bytes \<Rightarrow> keystore_error + bytes \<times> int" where
  "Encrypt k rnd plaintext =
     (case map_of (ks_keys k) (ks_current k) of
        None \<Rightarrow> Inl (ErrUnknownVersion (ks_current k))
      | Some a \<Rightarrow>
          (case rnd (NonceSize a) of
             Inl err \<Rightarrow> Inl (ReadNonce err)
           | Inr nonce \<Rightarrow> Inr (nonce @ Seal a nonce plaintext, ks_current k)))"

definition Decrypt :: "AESKeystore \<Rightarrow> bytes \<Rightarrow> int \<Rightarrow> keystore_error + bytes" where
  "Decrypt k blob version =
     (case map_of (ks_keys k) version of
        None \<Rightarrow> Inl (ErrUnknownVersion version)
      | Some a \<Rightarrow>
          if length blob < NonceSize a then Inl ShorterThanNonce
          else (case Open a (take (NonceSize a) blob) (drop (NonceSize a) blob) of
                  None \<Rightarrow> Inl DecryptFailed
                | Some p \<Rightarrow> Inr p))"

definition CurrentVersion :: "AESKeystore \<Rightarrow> int" where
  "CurrentVersion k = ks_current k"

section \<open>loader.go\<close>

text \<open>\<open>base64.StdEncoding.DecodeString\<close>: line breaks are skipped, padding is required.\<close>

definition b64_val :: "char \<Rightarrow> nat option" where
  "b64_val c =
     (let n = (of_char c :: nat) in
      if 65 \<le> n \<and> n \<le> 90 then Some (n - 65) else if 97 \<le> n \<and> n \<le> 122 then Some (n - 71)
      else if 48 \<le> n \<and> n \<le> 57 then Some (n + 4) else if n = 43 then Some 62 else if n = 47 then Some 63 else None)"

fun b64_groups :: "string \<Rightarrow> bytes option" where
  "b64_groups [] = Some []"
| "b64_groups (a # b # c # d # s) =
     (case (b64_val a, b64_val b) of
        (Some x, Some y) \<Rightarrow>
          (let b1 = char_of (4 * x + y div 16) in
           if c = CHR ''='' \<and> d = CHR ''='' \<and> s = [] then Some [b1]
           else (case b64_val c of
                   None \<Rightarrow> None
                 | Some z \<Rightarrow>
                     (let b2 = char_of ((y mod 16) * 16 + z div 4) in
                      if d = CHR ''='' \<and> s = [] then Some [b1, b2]
                      else (case (b64_val d, b64_groups s) of
                              (Some w, Some r) \<Rightarrow> Some (b1 # b2 # char_of ((z mod 4) * 64 + w) # r)
                            | _ \<Rightarrow> None))))
      | _ \<Rightarrow> None)"
| "b64_groups _ = None"

definition base64_decode :: "string \<Rightarrow> bytes option" where
  "base64_decode s = b64_groups (filter (\<lambda>c. c \<noteq> CHR 10 \<and> c \<noteq> CHR 13) s)"

definition envKeyPrefix :: string where "envKeyPrefix = ''ATARA_PAY_MASTER_KEY_V''"
definition envCurrentName :: string where "envCurrentName = ''ATARA_PAY_KEYSTORE_CURRENT_VERSION''"

definition map_put :: "'k \<Rightarrow> 'v \<Rightarrow> ('k \<times> 'v) list \<Rightarrow> ('k \<times> 'v) list" where
  "map_put k v m = (k, v) # filter (\<lambda>e. fst e \<noteq> k) m"

fun load_keys :: "string list \<Rightarrow> (int \<times> bytes) list \<Rightarrow> keystore_error + (int \<times> bytes) list" where
  "load_keys [] keys = Inr keys"
| "load_keys (kv # kvs) keys =
     (case Cut (CHR ''='') kv of
        (name, val, ok) \<Rightarrow>
          if \<not> ok \<or> \<not> HasPrefix name envKeyPrefix then load_keys kvs keys
          else (case ParseInt 16 (TrimPrefix name envKeyPrefix) of
                  None \<Rightarrow> Inl (MalformedEnv name)
                | Some v \<Rightarrow> (case base64_decode val of
                               None \<Rightarrow> Inl (Base64Decode name)
                             | Some decoded \<Rightarrow> load_keys kvs (map_put v decoded keys))))"

text \<open>\<open>os.Getenv\<close>: the value of the first entry with the name, empty when there is none.\<close>

definition Getenv :: "string list \<Rightarrow> string \<Rightarrow> string" where
  "Getenv environ name =
     (case List.find (\<lambda>kv. case Cut (CHR ''='') kv of (n, _, ok) \<Rightarrow> ok \<and> n = name) environ of
        None \<Rightarrow> [] | Some kv \<Rightarrow> fst (snd (Cut (CHR ''='') kv)))"

definition pickCurrent :: "string list \<Rightarrow> (int \<times> bytes) list \<Rightarrow> keystore_error + int" where
  "pickCurrent environ keys =
     (let v = Getenv environ envCurrentName in
      if v \<noteq> [] then
        (case ParseInt 16 v of
           None \<Rightarrow> Inl (CurrentMalformed v)
         | Some n \<Rightarrow> (case map_of keys n of None \<Rightarrow> Inl (CurrentNotSet n) | Some _ \<Rightarrow> Inr n))
      else Inr (hd (rev (sort (map fst keys)))))"

definition FromEnv :: "gcm \<Rightarrow> string list \<Rightarrow> keystore_error + AESKeystore" where
  "FromEnv new_gcm environ =
     (case load_keys environ [] of
        Inl err \<Rightarrow> Inl err
      | Inr keys \<Rightarrow>
          if keys = [] then Inl NoMasterKey
          else (case pickCurrent environ keys of
                  Inl err \<Rightarrow> Inl err
                | Inr current \<Rightarrow> NewAESKeystore new_gcm keys current))"

section \<open>The contract of a keystore\<close>

locale keystore =
  fixes enc :: "(nat \<Rightarrow> string + bytes) \<Rightarrow> bytes \<Rightarrow> keystore_error + bytes \<times> int"
    and dec :: "bytes \<Rightarrow> int \<Rightarrow> keystore_error + bytes"
    and current :: int
    and rnd_ok :: "(nat \<Rightarrow> string + bytes) \<Rightarrow> bool"
  assumes dec_enc: "rnd_ok rnd \<Longrightarrow> enc rnd p = Inr (blob, v) \<Longrightarrow> dec blob v = Inr p"
    and enc_version: "enc rnd p = Inr (blob, v) \<Longrightarrow> v = current"
begin

lemma enc_inj:
  assumes "rnd_ok rnd" "rnd_ok rnd'" "enc rnd p = Inr (blob, v)" "enc rnd' q = Inr (blob, w)"
  shows "p = q"
  using assms dec_enc enc_version by (metis Inr_inject)

end

text \<open>
  What is relied on of AES-GCM: opening with the nonce of the seal gives the plaintext back. Of the
  random source: it yields as many bytes as were asked for.
\<close>

definition gcm_opens :: "gcm \<Rightarrow> bool" where
  "gcm_opens new_gcm \<longleftrightarrow>
     (\<forall>k a nonce p. new_gcm k = Inr a \<and> length nonce = NonceSize a \<longrightarrow> Open a nonce (Seal a nonce p) = Some p)"

definition rnd_len :: "(nat \<Rightarrow> string + bytes) \<Rightarrow> bool" where
  "rnd_len rnd \<longleftrightarrow> (\<forall>n bs. rnd n = Inr bs \<longrightarrow> length bs = n)"

lemma build_aeads_lookup:
  "build_aeads new_gcm ks = Inr as \<Longrightarrow>
   map_of as v = (case map_of ks v of None \<Rightarrow> None | Some k \<Rightarrow> (case new_gcm k of Inl _ \<Rightarrow> None | Inr a \<Rightarrow> Some a))"
proof (induction ks arbitrary: as)
  case (Cons e ks)
  then show ?case by (cases e) (auto split: if_splits sum.splits)
qed simp

lemma NewAESKeystore_Inr:
  assumes "NewAESKeystore new_gcm keys c = Inr ks"
  shows "ks_current ks = c" "build_aeads new_gcm keys = Inr (ks_keys ks)" "\<exists>a. map_of (ks_keys ks) c = Some a"
  using assms by (auto simp: NewAESKeystore_def split: if_splits sum.splits option.splits)

lemma keystore_aead:
  assumes "NewAESKeystore new_gcm keys c = Inr ks" "map_of (ks_keys ks) v = Some a"
  shows "\<exists>k. map_of keys v = Some k \<and> new_gcm k = Inr a"
  using assms(2) build_aeads_lookup [OF NewAESKeystore_Inr(2) [OF assms(1)], of v]
  by (auto split: option.splits sum.splits)

lemma Encrypt_Inr:
  assumes "Encrypt ks rnd p = Inr (blob, v)"
  shows "v = ks_current ks" "\<exists>a nonce. map_of (ks_keys ks) v = Some a \<and> rnd (NonceSize a) = Inr nonce \<and> blob = nonce @ Seal a nonce p"
  using assms by (auto simp: Encrypt_def split: option.splits sum.splits)

lemma Decrypt_rotated:
  assumes "gcm_opens new_gcm" "rnd_len rnd" "NewAESKeystore new_gcm keys c = Inr ks"
    "NewAESKeystore new_gcm keys' c' = Inr ks'" "map_of keys' c = map_of keys c" "Encrypt ks rnd p = Inr (blob, v)"
  shows "Decrypt ks' blob v = Inr p"
proof -
  have v: "v = c" using Encrypt_Inr(1) [OF assms(6)] NewAESKeystore_Inr(1) [OF assms(3)] by simp
  obtain a nonce where a: "map_of (ks_keys ks) c = Some a" "rnd (NonceSize a) = Inr nonce" "blob = nonce @ Seal a nonce p"
    using Encrypt_Inr(2) [OF assms(6)] v by blast
  obtain k where k: "map_of keys c = Some k" "new_gcm k = Inr a" using keystore_aead [OF assms(3) a(1)] by blast
  have a': "map_of (ks_keys ks') c = Some a"
    using build_aeads_lookup [OF NewAESKeystore_Inr(2) [OF assms(4)], of c] k assms(5) by simp
  have l: "length nonce = NonceSize a" using assms(2) a(2) by (simp add: rnd_len_def)
  then have "Open a nonce (Seal a nonce p) = Some p" using assms(1) k(2) by (auto simp: gcm_opens_def)
  then show ?thesis using a' l by (simp add: Decrypt_def v a(3))
qed

locale aes_keystore =
  fixes new_gcm :: gcm and keys :: "(int \<times> bytes) list" and c :: int and ks :: AESKeystore
  assumes opens: "gcm_opens new_gcm" and built: "NewAESKeystore new_gcm keys c = Inr ks"

sublocale aes_keystore \<subseteq> keystore "Encrypt ks" "Decrypt ks" "CurrentVersion ks" rnd_len
proof
  show "Decrypt ks blob v = Inr p" if "rnd_len rnd" "Encrypt ks rnd p = Inr (blob, v)" for rnd p blob v
    using Decrypt_rotated [OF opens that(1) built built refl that(2)] .
  show "v = CurrentVersion ks" if "Encrypt ks rnd p = Inr (blob, v)" for rnd p blob v
    using Encrypt_Inr(1) [OF that] by (simp add: CurrentVersion_def)
qed

text \<open>
  C23: a blob stays readable across a rotation of the master keys. Whatever version is current when
  it is decrypted, a keystore that still holds the master key of the version the blob was sealed
  under returns the plaintext.
\<close>

theorem rotation_keeps_blobs_readable:
  assumes "gcm_opens new_gcm" "rnd_len rnd" "NewAESKeystore new_gcm keys c = Inr ks"
    "NewAESKeystore new_gcm keys' c' = Inr ks'" "map_of keys' c = map_of keys c" "Encrypt ks rnd p = Inr (blob, v)"
  shows "Decrypt ks' blob v = Inr p \<and> v = c"
  using Decrypt_rotated [OF assms] Encrypt_Inr(1) [OF assms(6)] NewAESKeystore_Inr(1) [OF assms(3)] by simp

definition demo_gcm :: gcm where
  "demo_gcm k = Inr \<lparr> NonceSize = 12, Seal = (\<lambda>nonce p. p @ k), Open = (\<lambda>nonce ct. Some (take (length ct - length k) ct)) \<rparr>"

definition demo_master :: "nat \<Rightarrow> bytes" where
  "demo_master n = replicate 32 (digit_char n)"

definition demo_ks :: AESKeystore where
  "demo_ks = \<lparr> ks_keys = [(1, projr (demo_gcm (demo_master 1)))], ks_current = 1 \<rparr>"

definition demo_ks2 :: AESKeystore where
  "demo_ks2 = \<lparr> ks_keys = [(2, projr (demo_gcm (demo_master 2))), (1, projr (demo_gcm (demo_master 1)))], ks_current = 2 \<rparr>"

lemma demo_gcm_opens: "gcm_opens demo_gcm"
  by (auto simp: gcm_opens_def demo_gcm_def)

lemma demo_ks_built:
  "NewAESKeystore demo_gcm [(1, demo_master 1)] 1 = Inr demo_ks"
  "NewAESKeystore demo_gcm [(2, demo_master 2), (1, demo_master 1)] 2 = Inr demo_ks2"
  by (simp_all add: NewAESKeystore_def demo_ks_def demo_ks2_def demo_master_def demo_gcm_def MasterKeyBytes_def)

interpretation demo: aes_keystore demo_gcm "[(1, demo_master 1)]" 1 demo_ks
  by unfold_locales (rule demo_gcm_opens, rule demo_ks_built)

lemma rand_calm: "rnd_len (rand_bytes (calm_env t) site key)"
  by (auto simp: rnd_len_def calm_env_def)

theorem rotation_keeps_blobs_readable_witness:
  "\<exists>blob. Encrypt demo_ks (rand_bytes (calm_env 0) ''x'' []) ''secret'' = Inr (blob, 1) \<and> Decrypt demo_ks2 blob 1 = Inr ''secret''"
proof -
  obtain blob where e: "Encrypt demo_ks (rand_bytes (calm_env 0) ''x'' []) ''secret'' = Inr (blob, 1)"
    by (simp add: Encrypt_def demo_ks_def calm_env_def)
  show ?thesis
    using rotation_keeps_blobs_readable [OF demo_gcm_opens rand_calm demo_ks_built _ e] e by simp
qed

section \<open>The version the loader picks\<close>

lemma hd_rev_sort_Max: "xs \<noteq> [] \<Longrightarrow> hd (rev (sort xs)) = Max (set (xs :: int list))"
proof -
  assume xs: "xs \<noteq> []"
  then have ne: "sort xs \<noteq> []" by (metis set_empty set_sort)
  have "last (sort xs) \<in> set xs" using ne by (metis last_in_set set_sort)
  moreover have "x \<le> last (sort xs)" if x: "x \<in> set xs" for x
  proof -
    have "x \<in> set (sort xs)" using x by simp
    then obtain i where "i < length (sort xs)" "sort xs ! i = x" by (meson in_set_conv_nth)
    then show ?thesis using sorted_nth_mono [OF sorted_sort, of i "length (sort xs) - 1" xs] ne by (simp add: last_conv_nth)
  qed
  ultimately have "Max (set xs) = last (sort xs)" by (intro Max_eqI) simp_all
  then show ?thesis by (simp add: hd_rev)
qed

lemma build_aeads_versions: "build_aeads new_gcm ks = Inr as \<Longrightarrow> map fst as = map fst ks"
  by (induction ks arbitrary: as rule: build_aeads.induct) (auto split: if_splits sum.splits)

text \<open>
  A keystore loaded from the environment always writes under a version it holds: the one
  \<open>ATARA_PAY_KEYSTORE_CURRENT_VERSION\<close> names, or, when that variable is unset or empty, the highest
  version present.
\<close>

theorem FromEnv_current:
  assumes "FromEnv new_gcm environ = Inr ks"
  shows "ks_current ks \<in> fst ` set (ks_keys ks)
    \<and> (if Getenv environ envCurrentName = [] then ks_current ks = Max (fst ` set (ks_keys ks))
       else ParseInt 16 (Getenv environ envCurrentName) = Some (ks_current ks))"
proof -
  obtain keys c where k: "keys \<noteq> []" "pickCurrent environ keys = Inr c" "NewAESKeystore new_gcm keys c = Inr ks"
    using assms by (auto simp: FromEnv_def split: sum.splits if_splits)
  note new = NewAESKeystore_Inr [OF k(3)]
  have vs: "map fst (ks_keys ks) = map fst keys" using build_aeads_versions [OF new(2)] .
  then have "fst ` set (ks_keys ks) = fst ` set keys" by (metis list.set_map)
  moreover have "c \<in> fst ` set (ks_keys ks)" using new(3) by (metis domI dom_map_of_conv_image_fst)
  moreover have "c = Max (fst ` set keys)" if "Getenv environ envCurrentName = []"
    using k(1,2) that by (simp add: pickCurrent_def hd_rev_sort_Max)
  moreover have "ParseInt 16 (Getenv environ envCurrentName) = Some c" if "Getenv environ envCurrentName \<noteq> []"
    using k(2) that by (auto simp: pickCurrent_def Let_def split: option.splits)
  ultimately show ?thesis using new(1) by simp
qed

definition demo_environ :: "string list" where
  "demo_environ = [''HOME=/'', ''ATARA_PAY_MASTER_KEY_V1=MTExMTExMTExMTExMTExMTExMTExMTExMTExMTExMTE='',
     ''ATARA_PAY_MASTER_KEY_V2=MjIyMjIyMjIyMjIyMjIyMjIyMjIyMjIyMjIyMjIyMjI='']"

lemma demo_environ_loads: "FromEnv demo_gcm demo_environ = Inr demo_ks2"
proof -
  have "load_keys demo_environ [] = Inr [(2, demo_master 2), (1, demo_master 1)]" by code_simp
  moreover have "Getenv demo_environ envCurrentName = []" by code_simp
  ultimately show ?thesis using demo_ks_built(2) by (simp add: FromEnv_def pickCurrent_def)
qed

theorem FromEnv_current_witness: "ks_current demo_ks2 = 2 \<and> Max (fst ` set (ks_keys demo_ks2)) = 2"
  using FromEnv_current [OF demo_environ_loads] by (simp add: demo_ks2_def)

end
