(* ===== verification/Session_Keys.thy ===== *)
theory Session_Keys
  imports Tempo Keystore
begin

text \<open>
  \<open>internal/sessionkey\<close>: minting of session keys with their own spending policy
  (\<open>service.go\<close>, \<open>pgx.go\<close>), the two-step flow for wallets whose master key the customer holds
  (\<open>user_custody.go\<close>) and the background sweep (\<open>rotator.go\<close>). A database transaction is a
  sequence of statements on a working copy; on any error the database is the one before \<open>Begin\<close>.
\<close>

section \<open>pgx.go\<close>

definition pgxOptTimestamp :: "time \<Rightarrow> time option" where
  "pgxOptTimestamp t = (if IsZero t then None else Some t)"

definition pgxIntUSD :: "int \<Rightarrow> numeric option" where
  "pgxIntUSD v = Some (Numeric v 0)"

definition marshalStringList :: "string list \<Rightarrow> jsonb" where
  "marshalStringList xs = (if xs = [] then empty_array else marshal_strings xs)"

lemma marshalStringList_ok [simp]: "json_ok (marshalStringList xs)"
  by (simp add: marshalStringList_def)

lemma parse_marshalStringList [simp]: "parseJSONStringList (marshalStringList xs) = xs"
  by (simp add: marshalStringList_def parseJSONStringList_def empty_array_def marshal_strings_def [symmetric])
     (simp add: marshal_strings_def)

section \<open>service.go\<close>

record session_service =
  ss_geth :: geth
  ss_ks :: AESKeystore
  ss_tempo :: "tempo_adapter option"

record SessionLimits =
  sl_PerTxUSD :: int
  sl_DailyUSD :: int
  sl_WeeklyUSD :: int
  sl_MonthlyUSD :: int
  sl_AllowedRecipients :: "string list"
  sl_DeniedRecipients :: "string list"

record MintInput =
  mi_TenantID :: string
  mi_WalletID :: string
  mi_GroupID :: string
  mi_Name :: string
  mi_Limits :: SessionLimits
  mi_RotationMode :: string
  mi_RotationIntervalS :: int
  mi_ExpiresAt :: time
  mi_OnChainEnforce :: bool

record Minted =
  mt_ID :: string
  mt_PublicAddress :: string
  mt_PrivateKey :: bytes
  mt_PolicyID :: string
  mt_ExpiresAt :: time
  mt_NextRotationAt :: time
  mt_RotationMode :: string
  mt_RailNative :: bool
  mt_OnChainTxHash :: string

text \<open>The text of a database error is abbreviated to its class.\<close>

definition db_error_text :: "db_error \<Rightarrow> string" where
  "db_error_text err =
     (case err of NoRows \<Rightarrow> ''no rows in result set'' | UniqueViolation \<Rightarrow> ''SQLSTATE 23505''
      | CheckViolation \<Rightarrow> ''SQLSTATE 23514'' | ForeignKeyViolation \<Rightarrow> ''SQLSTATE 23503''
      | BadInput \<Rightarrow> ''SQLSTATE 22P02'' | ConnError \<Rightarrow> ''connection error'')"

definition db_go :: "string \<Rightarrow> db_error \<Rightarrow> go_error" where
  "db_go pre err = wrapf pre (errors_New (db_error_text err))"

definition rotation_modes :: "string list" where
  "rotation_modes = [''auto_rotate'', ''notify_only'', ''hard_expire'']"

definition validateMint :: "env \<Rightarrow> MintInput \<Rightarrow> go_error option" where
  "validateMint e inp =
     (let l = mi_Limits inp in
      if mi_TenantID inp = [] \<or> mi_WalletID inp = [] \<or> mi_GroupID inp = []
      then Some (errors_New ''sessionkey: TenantID / WalletID / GroupID are required'')
      else if mi_Name inp = [] then Some (errors_New ''sessionkey: Name is required'')
      else if mi_RotationMode inp \<noteq> [] \<and> mi_RotationMode inp \<notin> set rotation_modes
      then Some (errors_New (''sessionkey: invalid rotation_mode '' @ go_quote (mi_RotationMode inp)))
      else if sl_PerTxUSD l < 0 \<or> sl_DailyUSD l < 0 \<or> sl_WeeklyUSD l < 0 \<or> sl_MonthlyUSD l < 0
      then Some (errors_New ''sessionkey: caps must be non-negative'')
      else if IsZero (mi_ExpiresAt inp) then None
      else if mi_ExpiresAt inp < clock e ''validateMint.now'' []
      then Some (errors_New ''sessionkey: ExpiresAt is in the past'')
      else None)"

text \<open>Expiry, rotation mode, rotation interval and next rotation of a new key.\<close>

definition mint_schedule :: "env \<Rightarrow> MintInput \<Rightarrow> time \<times> string \<times> int \<times> time" where
  "mint_schedule e inp =
     (let now = clock e ''Mint.now'' [];
          expiresAt = (if IsZero (mi_ExpiresAt inp) then now + 24 * hour else mi_ExpiresAt inp);
          mode = (if mi_RotationMode inp = [] then ''auto_rotate'' else mi_RotationMode inp);
          interval = (if mi_RotationIntervalS inp \<le> 0 then 86400 else mi_RotationIntervalS inp);
          nxt = now + interval * second
      in (expiresAt, mode, interval, if expiresAt < nxt then expiresAt else nxt))"

text \<open>The on-chain envelope: only the daily cap, in micro-units of an \<open>int64\<close>, and transfers of pathUSD.\<close>

definition key_restrictions :: "geth \<Rightarrow> MintInput \<Rightarrow> time \<Rightarrow> KeyRestrictions" where
  "key_restrictions g inp expiresAt =
     (let daily = sl_DailyUSD (mi_Limits inp) in
      \<lparr> kr_Expiry = (expiresAt div second) mod 2 ^ 64, kr_EnforceLimits = True,
        kr_Limits = (if 0 < daily then [PathUSDDailyLimit g (wrap64 (daily * 1000000))] else []),
        kr_AllowAnyCalls = False, kr_AllowedCalls = [TransferOnly (HexToAddress g PathUSDAddress)] \<rparr>)"

definition runOnChainAuthorize ::
    "session_service \<Rightarrow> env \<Rightarrow> MintInput \<Rightarrow> string \<Rightarrow> time \<Rightarrow> db \<Rightarrow> (go_error + string) \<times> eth_tx list" where
  "runOnChainAuthorize s e inp sessionKeyAddr expiresAt d =
     (case ss_tempo s of
        None \<Rightarrow> (Inl (errors_New ''sessionkey: on-chain enforce requested but tempo adapter not configured''), [])
      | Some tempo \<Rightarrow>
          (case db_read (fault e ''runOnChainAuthorize.GetWalletByID'' []) (GetWalletByID (mi_WalletID inp) d) of
             Inl err \<Rightarrow> (Inl (db_go ''sessionkey: load wallet'' err), [])
           | Inr wallet \<Rightarrow>
               if wl_Rail wallet \<noteq> ''tempo'' then
                 (Inl (errors_New (''sessionkey: on-chain enforce requires rail=tempo (got '' @ go_quote (wl_Rail wallet) @ '')'')), [])
               else if wl_Custody wallet \<noteq> ''platform'' then
                 (Inl (errors_New (''sessionkey: on-chain enforce requires custody=platform (got '' @ go_quote (wl_Custody wallet) @ '')'')), [])
               else
                 (case (wl_EncryptedPrivateKey wallet, wl_KeyVersion wallet) of
                    (Some (b # bs), Some ver) \<Rightarrow>
                      (case Decrypt (ss_ks s) (b # bs) ver of
                         Inl _ \<Rightarrow> (Inl (errors_New ''sessionkey: decrypt master''), [])
                       | Inr master \<Rightarrow>
                           (case AuthorizeKey tempo master (wl_Address wallet) sessionKeyAddr SigTypeSecp256k1
                                   (key_restrictions (ta_geth tempo) inp expiresAt) of
                              (Inl err, sent) \<Rightarrow> (Inl (wrapf ''sessionkey: on-chain authorize'' err), sent)
                            | (Inr hash, sent) \<Rightarrow> (Inr hash, sent)))
                  | _ \<Rightarrow> (Inl (errors_New ''sessionkey: wallet has no encrypted master key (schema invariant violated)''), []))))"

definition mint_policy :: "MintInput \<Rightarrow> string \<Rightarrow> string \<Rightarrow> jsonb \<Rightarrow> LimitPolicy" where
  "mint_policy inp policyID sessionKeyID meta =
     (let l = mi_Limits inp in
      \<lparr> lp_ID = policyID, lp_TenantID = mi_TenantID inp, lp_ScopeType = ''session_key'', lp_ScopeID = pgxText sessionKeyID,
        lp_PerTxAmount = pgxIntUSD (sl_PerTxUSD l), lp_PerTxAsset = pgxText ''USDC'',
        lp_DailyAmount = pgxIntUSD (sl_DailyUSD l), lp_WeeklyAmount = pgxIntUSD (sl_WeeklyUSD l),
        lp_MonthlyAmount = pgxIntUSD (sl_MonthlyUSD l), lp_PeriodAsset = ''USDC'', lp_Timezone = ''UTC'',
        lp_ResetDayOfWeek = 1, lp_ResetDayOfMonth = 1,
        lp_AllowedRecipients = marshalStringList (sl_AllowedRecipients l),
        lp_DeniedRecipients = marshalStringList (sl_DeniedRecipients l),
        lp_ExpiresAt = None, lp_Enabled = True, lp_Metadata = meta, lp_CreatedAt = 0, lp_UpdatedAt = 0 \<rparr>)"

definition mint_key ::
    "MintInput \<Rightarrow> string \<Rightarrow> string \<Rightarrow> string \<Rightarrow> bytes \<Rightarrow> int \<Rightarrow> time \<times> string \<times> int \<times> time \<Rightarrow> string \<Rightarrow> bool \<Rightarrow> string \<Rightarrow> jsonb
     \<Rightarrow> SessionKey" where
  "mint_key inp sessionKeyID policyID addr blob ver sched st native hash meta =
     (case sched of (expiresAt, mode, interval, nxt) \<Rightarrow>
      \<lparr> sk_ID = sessionKeyID, sk_TenantID = mi_TenantID inp, sk_WalletID = mi_WalletID inp, sk_GroupID = mi_GroupID inp,
        sk_Name = mi_Name inp, sk_PublicAddress = addr, sk_EncryptedPrivKey = blob, sk_KeyVersion = ver,
        sk_PolicyID = pgxText policyID, sk_RotationMode = mode, sk_RotationIntervalS = interval,
        sk_NextRotationAt = pgxOptTimestamp nxt, sk_ExpiresAt = expiresAt, sk_Status = st,
        sk_RevokedReason = None, sk_RevokedAt = None, sk_RailNative = native, sk_OnChainTxHash = pgxText hash,
        sk_Metadata = meta, sk_CreatedAt = 0, sk_UpdatedAt = 0 \<rparr>)"

text \<open>The transaction of both flows: the policy, then the key that points at it.\<close>

definition insert_pair :: "env \<Rightarrow> LimitPolicy \<Rightarrow> SessionKey \<Rightarrow> db \<Rightarrow> (go_error + SessionKey) \<times> db" where
  "insert_pair e pol key d =
     (case fault e ''Mint.Begin'' [] of
        Some err \<Rightarrow> (Inl (db_go ''sessionkey: begin tx'' err), d)
      | None \<Rightarrow>
          (case db_write (fault e ''Mint.CreateLimitPolicy'' []) d (CreateLimitPolicy (pg e) (clock e ''Mint.sqlnow'' []) pol d) of
             (Inl err, _) \<Rightarrow> (Inl (db_go ''sessionkey: insert policy'' err), d)
           | (Inr _, d1) \<Rightarrow>
               (case db_write (fault e ''Mint.CreateSessionKey'' []) d1 (CreateSessionKey (clock e ''Mint.sqlnow'' []) key d1) of
                  (Inl err, _) \<Rightarrow> (Inl (db_go ''sessionkey: insert row'' err), d)
                | (Inr row, d2) \<Rightarrow>
                    (case fault e ''Mint.Commit'' [] of
                       Some err \<Rightarrow> (Inl (db_go ''sessionkey: commit'' err), d)
                     | None \<Rightarrow> (Inr row, d2)))))"

text \<open>Step 1 and 2 of both flows: the keypair and its encrypted form.\<close>

definition fresh_keypair :: "session_service \<Rightarrow> env \<Rightarrow> go_error + bytes \<times> string \<times> bytes \<times> int" where
  "fresh_keypair s e =
     (case GenerateKeypair (ss_geth s) ''Mint'' of
        Inl err \<Rightarrow> Inl (wrapf ''sessionkey: generate key'' err)
      | Inr (priv, addr) \<Rightarrow>
          (case Encrypt (ss_ks s) (rand_bytes e ''Mint.Encrypt'' []) priv of
             Inl _ \<Rightarrow> Inl (errors_New ''sessionkey: encrypt'')
           | Inr (blob, ver) \<Rightarrow> Inr (priv, addr, blob, ver)))"

definition session_meta :: jsonb where "session_meta = JVal (JObj [(''scope'', JStr ''session_key'')])"
definition session_user_meta :: jsonb where
  "session_user_meta = JVal (JObj [(''scope'', JStr ''session_key''), (''custody'', JStr ''user'')])"
definition custody_user_meta :: jsonb where "custody_user_meta = JVal (JObj [(''custody'', JStr ''user'')])"

definition Mint :: "session_service \<Rightarrow> env \<Rightarrow> MintInput \<Rightarrow> db \<Rightarrow> (go_error + Minted) \<times> db \<times> eth_tx list" where
  "Mint s e inp d =
     (case validateMint e inp of
        Some err \<Rightarrow> (Inl err, d, [])
      | None \<Rightarrow>
          (case fresh_keypair s e of
             Inl err \<Rightarrow> (Inl err, d, [])
           | Inr (priv, addr, blob, ver) \<Rightarrow>
               (let sched = mint_schedule e inp;
                    sessionKeyID = fresh_id e ''Mint.sk'' []; policyID = fresh_id e ''Mint.lp'' [];
                    onchain = (if mi_OnChainEnforce inp
                               then (case runOnChainAuthorize s e inp addr (fst sched) d of
                                       (Inl err, sent) \<Rightarrow> (Inl err, sent)
                                     | (Inr hash, sent) \<Rightarrow> (Inr (True, hash), sent))
                               else (Inr (False, []), []))
                in
                case onchain of
                  (Inl err, sent) \<Rightarrow> (Inl err, d, sent)
                | (Inr (native, hash), sent) \<Rightarrow>
                    (case insert_pair e (mint_policy inp policyID sessionKeyID session_meta)
                            (mint_key inp sessionKeyID policyID addr blob ver sched ''active'' native hash empty_object) d of
                       (Inl err, d1) \<Rightarrow> (Inl err, d1, sent)
                     | (Inr _, d1) \<Rightarrow>
                         (Inr \<lparr> mt_ID = sessionKeyID, mt_PublicAddress = addr, mt_PrivateKey = priv, mt_PolicyID = policyID,
                                mt_ExpiresAt = fst sched, mt_NextRotationAt = snd (snd (snd sched)),
                                mt_RotationMode = fst (snd sched), mt_RailNative = native, mt_OnChainTxHash = hash \<rparr>,
                          d1, sent)))))"

section \<open>user\_custody.go\<close>

record Prepared =
  pd_ID :: string
  pd_PublicAddress :: string
  pd_PrivateKey :: bytes
  pd_PolicyID :: string
  pd_ExpiresAt :: time
  pd_NextRotationAt :: time
  pd_RotationMode :: string
  pd_UnsignedAuthorize :: UnsignedTransfer

definition PrepareUserCustody :: "session_service \<Rightarrow> env \<Rightarrow> MintInput \<Rightarrow> db \<Rightarrow> (go_error + Prepared) \<times> db" where
  "PrepareUserCustody s e inp d =
     (case validateMint e inp of
        Some err \<Rightarrow> (Inl err, d)
      | None \<Rightarrow>
          (case ss_tempo s of
             None \<Rightarrow> (Inl (errors_New ''sessionkey: user-custody mint requires a tempo adapter''), d)
           | Some tempo \<Rightarrow>
               (case db_read (fault e ''PrepareUserCustody.GetWalletByID'' []) (GetWalletByID (mi_WalletID inp) d) of
                  Inl err \<Rightarrow> (Inl (db_go ''sessionkey: load wallet'' err), d)
                | Inr wallet \<Rightarrow>
                    if wl_Rail wallet \<noteq> ''tempo'' then
                      (Inl (errors_New (''sessionkey: user-custody mint requires rail=tempo (got '' @ go_quote (wl_Rail wallet) @ '')'')), d)
                    else if wl_Custody wallet \<noteq> ''user'' then
                      (Inl (errors_New (''sessionkey: user-custody mint requires custody=user (got '' @ go_quote (wl_Custody wallet) @ '')'')), d)
                    else
                      (case fresh_keypair s e of
                         Inl err \<Rightarrow> (Inl err, d)
                       | Inr (priv, addr, blob, ver) \<Rightarrow>
                           (let sched = mint_schedule e inp;
                                sessionKeyID = fresh_id e ''Mint.sk'' []; policyID = fresh_id e ''Mint.lp'' [] in
                            case BuildAuthorizeKey tempo (wl_Address wallet) addr SigTypeSecp256k1
                                   (key_restrictions (ta_geth tempo) inp (fst sched)) of
                              Inl err \<Rightarrow> (Inl (wrapf ''sessionkey: build authorize tx'' err), d)
                            | Inr unsigned \<Rightarrow>
                                (case insert_pair e (mint_policy inp policyID sessionKeyID session_user_meta)
                                        (mint_key inp sessionKeyID policyID addr blob ver sched ''pending_authorize'' True []
                                           custody_user_meta) d of
                                   (Inl err, d1) \<Rightarrow> (Inl err, d1)
                                 | (Inr _, d1) \<Rightarrow>
                                     (Inr \<lparr> pd_ID = sessionKeyID, pd_PublicAddress = addr, pd_PrivateKey = priv,
                                            pd_PolicyID = policyID, pd_ExpiresAt = fst sched,
                                            pd_NextRotationAt = snd (snd (snd sched)), pd_RotationMode = fst (snd sched),
                                            pd_UnsignedAuthorize = unsigned \<rparr>, d1)))))))"

text \<open>
  The hand-written \<open>UPDATE session_keys SET status = 'active', on_chain_tx_hash = $2 WHERE id = $1\<close>;
  the trigger of the table stamps \<open>updated_at\<close>.
\<close>

definition activate_key :: "time \<Rightarrow> string \<Rightarrow> SessionKey \<Rightarrow> SessionKey" where
  "activate_key now hash r = r\<lparr>sk_Status := ''active'', sk_OnChainTxHash := Some hash, sk_UpdatedAt := now\<rparr>"

definition SubmitAuthorize ::
    "session_service \<Rightarrow> env \<Rightarrow> string \<Rightarrow> string \<Rightarrow> string \<Rightarrow> db \<Rightarrow> (go_error + string) \<times> db \<times> eth_tx list" where
  "SubmitAuthorize s e tenantID sessionKeyID signedTxHex d =
     (case ss_tempo s of
        None \<Rightarrow> (Inl (errors_New ''sessionkey: SubmitAuthorize requires a tempo adapter''), d, [])
      | Some tempo \<Rightarrow>
          (case db_read (fault e ''SubmitAuthorize.GetSessionKeyByID'' []) (GetSessionKeyByID sessionKeyID d) of
             Inl err \<Rightarrow> (Inl (db_go ''sessionkey: load row'' err), d, [])
           | Inr row \<Rightarrow>
               if sk_TenantID row \<noteq> tenantID then (Inl (errors_New ''sessionkey: not found''), d, [])
               else if sk_Status row \<noteq> ''pending_authorize'' then
                 (Inl (errors_New (''sessionkey: status is '' @ go_quote (sk_Status row)
                    @ ''; submit-authorize only valid for '' @ [CHR 39] @ ''pending_authorize'' @ [CHR 39])), d, [])
               else
                 (case BroadcastSignedTx tempo signedTxHex of
                    (Inl err, sent) \<Rightarrow> (Inl (wrapf ''sessionkey: broadcast authorize'' err), d, sent)
                  | (Inr hash, sent) \<Rightarrow>
                      (case fault e ''SubmitAuthorize.Exec'' [] of
                         Some err \<Rightarrow> (Inl (db_go ''sessionkey: activate row'' err), d, sent)
                       | None \<Rightarrow>
                           (Inr hash,
                            d\<lparr>session_keys := upd_where (\<lambda>r. sk_ID r = sk_ID row)
                                (activate_key (clock e ''SubmitAuthorize.sqlnow'' []) hash) (session_keys d)\<rparr>, sent)))))"

section \<open>rotator.go\<close>

record Rotator =
  ro_batch :: int

record RotatorStats =
  rs_At :: time
  rs_ExpiredFlipped :: int
  rs_RotationDueSeen :: int

definition NewRotator :: "int \<Rightarrow> Rotator" where
  "NewRotator batch = \<lparr> ro_batch = (if batch \<le> 0 then 200 else batch) \<rparr>"

fun sweep_loop :: "env \<Rightarrow> SessionKey list \<Rightarrow> int \<Rightarrow> db \<Rightarrow> int \<times> db" where
  "sweep_loop e [] n d = (n, d)"
| "sweep_loop e (sk # sks) n d =
     (case db_write (fault e ''Rotator.UpdateSessionKeyStatus'' (sk_ID sk)) d
             (UpdateSessionKeyStatus (clock e ''Rotator.sqlnow'' (sk_ID sk)) (sk_ID sk) ''expired'' d) of
        (Inl _, d1) \<Rightarrow> sweep_loop e sks n d1
      | (Inr _, d1) \<Rightarrow> sweep_loop e sks (n + 1) d1)"

definition rotator_Tick :: "Rotator \<Rightarrow> env \<Rightarrow> db \<Rightarrow> RotatorStats \<times> db" where
  "rotator_Tick r e d =
     (let now = clock e ''Rotator.now'' [];
          expired = (case db_read (fault e ''Rotator.ListExpiredSessionKeys'' []) (Inr (ListExpiredSessionKeys now (ro_batch r) d)) of
                       Inl _ \<Rightarrow> [] | Inr ks \<Rightarrow> ks) in
      case sweep_loop e expired 0 d of
        (flipped, d1) \<Rightarrow>
          (let due = (case db_read (fault e ''Rotator.ListSessionKeysDueForRotation'' [])
                             (Inr (ListSessionKeysDueForRotation now (ro_batch r) d1)) of
                        Inl _ \<Rightarrow> [] | Inr ks \<Rightarrow> ks)
           in (\<lparr> rs_At = now, rs_ExpiredFlipped = flipped, rs_RotationDueSeen = int (length due) \<rparr>, d1)))"

end
