(* ===== verification/Session_Keys_Spec.thy ===== *)
theory Session_Keys_Spec
  imports Session_Keys Limits_Spec
begin

text \<open>
  Minting a session key is atomic, and it yields a key whose own policy governs it.
\<close>

section \<open>Minting\<close>

definition stored_policy :: "pg_driver \<Rightarrow> time \<Rightarrow> LimitPolicy \<Rightarrow> LimitPolicy \<Rightarrow> bool" where
  "stored_policy pgd now a r \<longleftrightarrow>
     (\<exists>pt da we mo. store_numeric pgd (lp_PerTxAmount a) = Some pt \<and> store_numeric pgd (lp_DailyAmount a) = Some da
        \<and> store_numeric pgd (lp_WeeklyAmount a) = Some we \<and> store_numeric pgd (lp_MonthlyAmount a) = Some mo
        \<and> r = a\<lparr>lp_PerTxAmount := pt, lp_DailyAmount := da, lp_WeeklyAmount := we, lp_MonthlyAmount := mo,
                lp_CreatedAt := now, lp_UpdatedAt := now\<rparr>)"

definition stored_key :: "time \<Rightarrow> SessionKey \<Rightarrow> SessionKey" where
  "stored_key now a = a\<lparr>sk_RevokedReason := None, sk_RevokedAt := None, sk_CreatedAt := now, sk_UpdatedAt := now\<rparr>"

lemma CreateLimitPolicy_Inr:
  assumes "CreateLimitPolicy pgd now a d = (Inr r, d')"
  shows "stored_policy pgd now a r" "d' = d\<lparr>limit_policies := limit_policies d @ [r]\<rparr>"
    "\<not> exists_row lp_ID (lp_ID a) (limit_policies d)"
  using assms by (auto simp: CreateLimitPolicy_def stored_policy_def Let_def split: option.splits if_splits)

lemma CreateSessionKey_Inr:
  assumes "CreateSessionKey now a d = (Inr r, d')"
  shows "r = stored_key now a" "d' = d\<lparr>session_keys := session_keys d @ [r]\<rparr>"
    "\<not> exists_row sk_ID (sk_ID a) (session_keys d)"
  using assms by (auto simp: CreateSessionKey_def stored_key_def Let_def split: if_splits)

lemma insert_pair_Inl: "insert_pair e pol key d = (Inl err, d') \<Longrightarrow> d' = d"
  by (auto simp: insert_pair_def split: option.splits prod.splits sum.splits)

lemma insert_pair_Inr:
  assumes "insert_pair e pol key d = (Inr row, d')"
  shows "\<exists>p. stored_policy (pg e) (clock e ''Mint.sqlnow'' []) pol p \<and> row = stored_key (clock e ''Mint.sqlnow'' []) key
    \<and> d' = d\<lparr>limit_policies := limit_policies d @ [p], session_keys := session_keys d @ [row]\<rparr>
    \<and> \<not> exists_row sk_ID (sk_ID key) (session_keys d) \<and> \<not> exists_row lp_ID (lp_ID pol) (limit_policies d)"
proof -
  obtain p d1 where p: "CreateLimitPolicy (pg e) (clock e ''Mint.sqlnow'' []) pol d = (Inr p, d1)"
    and k: "CreateSessionKey (clock e ''Mint.sqlnow'' []) key d1 = (Inr row, d')"
    using assms
    by (auto simp: insert_pair_def db_write_def split: option.splits prod.splits sum.splits)
  show ?thesis using CreateLimitPolicy_Inr [OF p] CreateSessionKey_Inr [OF k] by auto
qed

lemma fresh_keypair_Inr:
  assumes "fresh_keypair s e = Inr (priv, addr, blob, ver)"
  shows "Encrypt (ss_ks s) (rand_bytes e ''Mint.Encrypt'' []) priv = Inr (blob, ver)"
    "\<exists>k. GenerateKey (ss_geth s) ''Mint'' = Inr k \<and> priv = to_array PrivateKeyBytes k
       \<and> addr = Address_Hex (ss_geth s) (PubkeyToAddress (ss_geth s) k)"
  using assms by (auto simp: fresh_keypair_def GenerateKeypair_def split: sum.splits)

lemma Mint_Inr:
  assumes "Mint s e inp d = (Inr m, d', sent)"
  obtains blob ver native hash p row where
    "validateMint e inp = None"
    "Encrypt (ss_ks s) (rand_bytes e ''Mint.Encrypt'' []) (mt_PrivateKey m) = Inr (blob, ver)"
    "mt_ID m = fresh_id e ''Mint.sk'' []" "mt_PolicyID m = fresh_id e ''Mint.lp'' []"
    "stored_policy (pg e) (clock e ''Mint.sqlnow'' []) (mint_policy inp (mt_PolicyID m) (mt_ID m) session_meta) p"
    "row = stored_key (clock e ''Mint.sqlnow'' [])
       (mint_key inp (mt_ID m) (mt_PolicyID m) (mt_PublicAddress m) blob ver (mint_schedule e inp) ''active'' native hash empty_object)"
    "d' = d\<lparr>limit_policies := limit_policies d @ [p], session_keys := session_keys d @ [row]\<rparr>"
    "\<not> exists_row sk_ID (mt_ID m) (session_keys d)"
    "mt_ExpiresAt m = fst (mint_schedule e inp)" "mt_NextRotationAt m = snd (snd (snd (mint_schedule e inp)))"
    "\<not> mi_OnChainEnforce inp \<longrightarrow> sent = [] \<and> \<not> native"
    "\<exists>k. GenerateKey (ss_geth s) ''Mint'' = Inr k \<and> mt_PrivateKey m = to_array PrivateKeyBytes k
       \<and> mt_PublicAddress m = Address_Hex (ss_geth s) (PubkeyToAddress (ss_geth s) k)"
proof -
  obtain priv addr blob ver where f: "validateMint e inp = None" "fresh_keypair s e = Inr (priv, addr, blob, ver)"
    using assms by (auto simp: Mint_def split: option.splits sum.splits)
  let ?sk = "fresh_id e ''Mint.sk'' []" and ?lp = "fresh_id e ''Mint.lp'' []" and ?sc = "mint_schedule e inp"
  obtain native hash row where i:
    "insert_pair e (mint_policy inp ?lp ?sk session_meta)
       (mint_key inp ?sk ?lp addr blob ver ?sc ''active'' native hash empty_object) d = (Inr row, d')"
    and m: "mt_ID m = ?sk" "mt_PolicyID m = ?lp" "mt_PublicAddress m = addr" "mt_PrivateKey m = priv"
      "mt_ExpiresAt m = fst ?sc" "mt_NextRotationAt m = snd (snd (snd ?sc))"
    and n: "\<not> mi_OnChainEnforce inp \<longrightarrow> sent = [] \<and> \<not> native"
    using assms f by (auto simp: Mint_def Let_def split: prod.splits sum.splits if_splits)
  have "sk_ID (mint_key inp ?sk ?lp addr blob ver ?sc ''active'' native hash empty_object) = ?sk"
    by (simp add: mint_key_def split: prod.splits)
  with insert_pair_Inr [OF i] m n f(1) fresh_keypair_Inr(1) [OF f(2)] show ?thesis
    using fresh_keypair_Inr(2) [OF f(2)] by (auto intro!: that)
qed

lemma Mint_Inl: "Mint s e inp d = (Inl err, d', sent) \<Longrightarrow> d' = d"
  by (auto simp: Mint_def Let_def insert_pair_Inl split: option.splits prod.splits sum.splits if_splits dest: insert_pair_Inl)

lemma mint_schedule_order:
  assumes "mint_schedule e inp = (expiresAt, mode, interval, nxt)"
  shows "nxt \<le> expiresAt" "0 < interval"
  using assms by (auto simp: mint_schedule_def Let_def split: if_splits)

text \<open>What one mint leaves behind.\<close>

definition minted_pair :: "session_service \<Rightarrow> MintInput \<Rightarrow> Minted \<Rightarrow> LimitPolicy \<Rightarrow> SessionKey \<Rightarrow> bool" where
  "minted_pair s inp m p k \<longleftrightarrow>
     sk_ID k = mt_ID m \<and> sk_TenantID k = mi_TenantID inp \<and> sk_WalletID k = mi_WalletID inp \<and> sk_GroupID k = mi_GroupID inp
     \<and> sk_PolicyID k = pgxText (lp_ID p) \<and> sk_Status k = ''active'' \<and> sk_ExpiresAt k = mt_ExpiresAt m
     \<and> (\<forall>n. sk_NextRotationAt k = Some n \<longrightarrow> n \<le> sk_ExpiresAt k)
     \<and> lp_ID p = mt_PolicyID m \<and> lp_TenantID p = mi_TenantID inp \<and> lp_ScopeType p = ''session_key''
     \<and> lp_ScopeID p = pgxText (mt_ID m) \<and> lp_Enabled p \<and> lp_ExpiresAt p = None
     \<and> parseJSONStringList (lp_AllowedRecipients p) = sl_AllowedRecipients (mi_Limits inp)
     \<and> parseJSONStringList (lp_DeniedRecipients p) = sl_DeniedRecipients (mi_Limits inp)
     \<and> Decrypt (ss_ks s) (sk_EncryptedPrivKey k) (sk_KeyVersion k) = Inr (mt_PrivateKey m)
     \<and> sk_PublicAddress k = mt_PublicAddress m
     \<and> mt_PublicAddress m = Address_Hex (ss_geth s) (PubkeyToAddress (ss_geth s) (mt_PrivateKey m))"

text \<open>
  C19: minting is all or nothing. An error leaves the database as it was; a success adds exactly
  one policy and one session key, which point at each other, carry the requested scope, recipient
  lists, tenant, wallet and group, and never schedule a rotation after the expiry. The stored blob
  decrypts to the private key that was handed out, and the public address, the one stored and the one returned, is the
  address of that private key (a key of the curve has 32 bytes). Without on-chain enforcement nothing is broadcast.
\<close>

theorem Mint_is_atomic:
  assumes "Mint s e inp d = (res, d', sent)" "gcm_opens new_gcm" "NewAESKeystore new_gcm keys c = Inr (ss_ks s)"
    "rnd_len (rand_bytes e ''Mint.Encrypt'' [])" "\<forall>k. GenerateKey (ss_geth s) ''Mint'' = Inr k \<longrightarrow> length k = 32"
  shows "case res of
      Inl err \<Rightarrow> d' = d
    | Inr m \<Rightarrow> (\<exists>p k. minted_pair s inp m p k
         \<and> d' = d\<lparr>limit_policies := limit_policies d @ [p], session_keys := session_keys d @ [k]\<rparr>)
         \<and> (mi_OnChainEnforce inp \<or> sent = [])"
proof (cases res)
  case (Inl err)
  then show ?thesis using Mint_Inl assms(1) by simp
next
  case (Inr m)
  obtain blob ver native hash p row where M:
    "Encrypt (ss_ks s) (rand_bytes e ''Mint.Encrypt'' []) (mt_PrivateKey m) = Inr (blob, ver)"
    "stored_policy (pg e) (clock e ''Mint.sqlnow'' []) (mint_policy inp (mt_PolicyID m) (mt_ID m) session_meta) p"
    "row = stored_key (clock e ''Mint.sqlnow'' [])
       (mint_key inp (mt_ID m) (mt_PolicyID m) (mt_PublicAddress m) blob ver (mint_schedule e inp) ''active'' native hash empty_object)"
    "d' = d\<lparr>limit_policies := limit_policies d @ [p], session_keys := session_keys d @ [row]\<rparr>"
    "mt_ExpiresAt m = fst (mint_schedule e inp)" "mi_OnChainEnforce inp \<or> sent = []"
    "\<exists>k. GenerateKey (ss_geth s) ''Mint'' = Inr k \<and> mt_PrivateKey m = to_array PrivateKeyBytes k
       \<and> mt_PublicAddress m = Address_Hex (ss_geth s) (PubkeyToAddress (ss_geth s) k)"
    by (rule Mint_Inr [OF assms(1) [unfolded Inr]]) blast
  obtain ex mo iv nx where sc: "mint_schedule e inp = (ex, mo, iv, nx)" by (metis prod.exhaust)
  have "Decrypt (ss_ks s) blob ver = Inr (mt_PrivateKey m)"
    using Decrypt_rotated [OF assms(2,4,3,3) refl M(1)] .
  moreover have "mt_PublicAddress m = Address_Hex (ss_geth s) (PubkeyToAddress (ss_geth s) (mt_PrivateKey m))"
    using M(7) assms(5) by (auto simp: to_array_def PrivateKeyBytes_def)
  ultimately have "minted_pair s inp m p row"
    using M(2,3,5) mint_schedule_order(1) [OF sc]
    by (auto simp: minted_pair_def stored_policy_def stored_key_def mint_policy_def mint_key_def sc pgxOptTimestamp_def Let_def
        split: if_splits)
  then show ?thesis using Inr M(4,6) by auto
qed

definition demo_blob :: bytes where
  "demo_blob = replicate 12 CHR ''r'' @ replicate 32 CHR ''k'' @ demo_master 1"

definition demo_group :: WalletGroup where
  "demo_group = \<lparr> wg_ID = ''wg'', wg_TenantID = ''tn'', wg_OwnerType = ''user'', wg_OwnerRef = ''ref'', wg_ParentGroupID = None,
     wg_Custody = ''platform'', wg_DisplayName = None, wg_Metadata = empty_object, wg_CreatedAt = 0, wg_UpdatedAt = 0,
     wg_DeletedAt = None \<rparr>"

definition demo_wallet :: Wallet where
  "demo_wallet = \<lparr> wl_ID = ''wl'', wl_GroupID = ''wg'', wl_TenantID = ''tn'', wl_Rail = ''tempo'', wl_Chain = ''tempo'',
     wl_Address = ''kk'', wl_ProviderLocator = ''kk'', wl_Custody = ''platform'', wl_EncryptedPrivateKey = Some demo_blob,
     wl_KeyVersion = Some 1, wl_Status = ''active'', wl_Metadata = empty_object, wl_CreatedAt = 0, wl_UpdatedAt = 0 \<rparr>"

definition demo_bank :: db where
  "demo_bank = empty_db\<lparr>tenants := [demo_tenant], wallet_groups := [demo_group], wallets := [demo_wallet],
     limit_policies := [demo_policy]\<rparr>"

definition demo_service :: session_service where
  "demo_service = \<lparr> ss_geth = demo_geth, ss_ks = demo_ks, ss_tempo = Some demo_tempo \<rparr>"

definition demo_mint :: MintInput where
  "demo_mint = \<lparr> mi_TenantID = ''tn'', mi_WalletID = ''wl'', mi_GroupID = ''wg'', mi_Name = ''bot'',
     mi_Limits = \<lparr> sl_PerTxUSD = 5, sl_DailyUSD = 20, sl_WeeklyUSD = 0, sl_MonthlyUSD = 0, sl_AllowedRecipients = [],
       sl_DeniedRecipients = [] \<rparr>,
     mi_RotationMode = [], mi_RotationIntervalS = 0, mi_ExpiresAt = zero_time, mi_OnChainEnforce = False \<rparr>"

lemma demo_encrypt: "Encrypt demo_ks (rand_bytes (calm_env t) site key) (replicate 32 CHR ''k'') = Inr (demo_blob, 1)"
  by (simp add: Encrypt_def demo_ks_def calm_env_def demo_gcm_def demo_blob_def)

lemma demo_decrypt: "Decrypt demo_ks demo_blob 1 = Inr (replicate 32 CHR ''k'')"
  by (rule demo.dec_enc [OF rand_calm demo_encrypt])

lemma demo_keypair: "GenerateKeypair demo_geth site = Inr (replicate 32 CHR ''k'', ''kk'')"
proof -
  have "take 2 (replicate 32 CHR ''k'') = ''kk''" by (simp add: numeral_eq_Suc)
  then show ?thesis by (simp add: GenerateKeypair_def demo_geth_def to_array_def PrivateKeyBytes_def)
qed

lemma demo_minted:
  "\<exists>m d'. Mint demo_service (calm_env 0) demo_mint demo_bank = (Inr m, d', []) \<and> mt_ID m = ''Mint.sk'' \<and> mt_PolicyID m = ''Mint.lp''"
proof -
  let ?e = "calm_env 0" and ?sc = "mint_schedule (calm_env 0) demo_mint"
  have v: "validateMint ?e demo_mint = None" by (simp add: validateMint_def demo_mint_def IsZero_def)
  have k: "fresh_keypair demo_service ?e = Inr (replicate 32 CHR ''k'', ''kk'', demo_blob, 1)"
    by (simp add: fresh_keypair_def demo_service_def demo_keypair demo_encrypt)
  let ?pol = "mint_policy demo_mint ''Mint.lp'' ''Mint.sk'' session_meta"
  let ?key = "mint_key demo_mint ''Mint.sk'' ''Mint.lp'' ''kk'' demo_blob 1 ?sc ''active'' False [] empty_object"
  have "\<exists>row d'. insert_pair ?e ?pol ?key demo_bank = (Inr row, d')"
    by (simp add: insert_pair_def calm_env_def CreateLimitPolicy_def CreateSessionKey_def demo_bank_def empty_db_def mint_policy_def
        mint_key_def mint_schedule_def demo_mint_def store_numeric_def pgxIntUSD_def session_meta_def policy_check_def
        session_key_check_def session_key_statuses_def exists_row_def fk_opt_def is_tenant_default_def pgxText_def demo_tenant_def
        demo_wallet_def demo_group_def demo_policy_def Let_def)
  then obtain row d' where i: "insert_pair ?e ?pol ?key demo_bank = (Inr row, d')" by blast
  have ids: "fresh_id ?e ''Mint.sk'' [] = ''Mint.sk''" "fresh_id ?e ''Mint.lp'' [] = ''Mint.lp''"
    by (simp_all add: calm_env_def)
  have "\<not> mi_OnChainEnforce demo_mint" by (simp add: demo_mint_def)
  then show ?thesis using v k i ids by (simp add: Mint_def Let_def)
qed

theorem Mint_is_atomic_witness:
  "\<exists>m d' p k. Mint demo_service (calm_env 0) demo_mint demo_bank = (Inr m, d', []) \<and> minted_pair demo_service demo_mint m p k"
proof -
  obtain m d' where m: "Mint demo_service (calm_env 0) demo_mint demo_bank = (Inr m, d', [])" using demo_minted by blast
  have "ss_ks demo_service = demo_ks" by (simp add: demo_service_def)
  moreover have "\<forall>k. GenerateKey (ss_geth demo_service) ''Mint'' = Inr k \<longrightarrow> length k = 32"
    by (simp add: demo_service_def demo_geth_def)
  ultimately show ?thesis using Mint_is_atomic [OF m demo_gcm_opens _ rand_calm] demo_ks_built(1) m by fastforce
qed

section \<open>The policy of a session key governs it\<close>

lemma order_desc_single [simp]: "order_desc c [x] = [x]"
  by (simp add: order_desc_def)

lemma GetPolicyForScope_snoc:
  assumes "\<forall>q \<in> set ps. \<not> scope_matches t ty sid q" "scope_matches t ty sid p" "limit_policies d = ps @ [p]"
  shows "GetPolicyForScope t ty sid d = Inr p"
proof -
  have "filter (scope_matches t ty sid) (ps @ [p]) = [p]" using assms(1,2) by (simp add: filter_empty_conv)
  then show ?thesis by (simp add: GetPolicyForScope_def assms(3))
qed

text \<open>
  C20: a transfer signed by a freshly minted key is judged by the policy minted with it, whatever
  policies the wallet, its group and the tenant have, as long as that policy can be read: it is what
  \<open>resolvePolicy\<close> returns, and its caps are the requested ones as the database stores them. When PostgreSQL fails
  this one read, \<open>resolvePolicy\<close> takes the failure for a key without a policy, and the transfer is judged as if
  no session key had signed it.
\<close>

theorem minted_key_is_governed_by_its_policy:
  assumes "Mint s e inp d = (Inr m, d', sent)" "mt_ID m \<noteq> []"
    "\<forall>q \<in> set (limit_policies d). lp_ScopeID q \<noteq> Some (mt_ID m)"
    "cr_TenantID req = mi_TenantID inp" "cr_SessionKeyID req = mt_ID m"
  shows "if fault e' ''resolvePolicy.GetPolicyForScope'' ''session_key'' = None
    then \<exists>p. resolvePolicy e' req d' = Some p \<and> lp_ID p = mt_PolicyID m
      \<and> store_numeric (pg e) (pgxIntUSD (sl_PerTxUSD (mi_Limits inp))) = Some (lp_PerTxAmount p)
      \<and> store_numeric (pg e) (pgxIntUSD (sl_DailyUSD (mi_Limits inp))) = Some (lp_DailyAmount p)
      \<and> store_numeric (pg e) (pgxIntUSD (sl_WeeklyUSD (mi_Limits inp))) = Some (lp_WeeklyAmount p)
      \<and> store_numeric (pg e) (pgxIntUSD (sl_MonthlyUSD (mi_Limits inp))) = Some (lp_MonthlyAmount p)
    else resolvePolicy e' req d' = resolvePolicy e' (req\<lparr>cr_SessionKeyID := []\<rparr>) d'"
proof (cases "fault e' ''resolvePolicy.GetPolicyForScope'' ''session_key''")
  case (Some err)
  then show ?thesis using assms(2,5) by (auto simp: resolvePolicy_def Let_def split: sum.split)
next
  case None
  obtain p row where
    p: "stored_policy (pg e) (clock e ''Mint.sqlnow'' []) (mint_policy inp (mt_PolicyID m) (mt_ID m) session_meta) p"
    and d': "d' = d\<lparr>limit_policies := limit_policies d @ [p], session_keys := session_keys d @ [row]\<rparr>"
    by (rule Mint_Inr [OF assms(1)]) blast
  have f: "lp_ID p = mt_PolicyID m" "lp_TenantID p = mi_TenantID inp" "lp_ScopeType p = ''session_key''"
    "lp_ScopeID p = Some (mt_ID m)" "lp_Enabled p"
    using p assms(2) by (auto simp: stored_policy_def mint_policy_def pgxText_def Let_def)
  have "GetPolicyForScope (cr_TenantID req) ''session_key'' (pgxText (cr_SessionKeyID req)) d' = Inr p"
    by (rule GetPolicyForScope_snoc [of "limit_policies d"])
      (use assms(2-5) f in \<open>auto simp: scope_matches_def pgxText_def d'\<close>)
  then have "resolvePolicy e' req d' = Some p"
    using assms(2,5) None by (simp add: resolvePolicy_def Let_def)
  moreover have "store_numeric (pg e) (pgxIntUSD (sl_PerTxUSD (mi_Limits inp))) = Some (lp_PerTxAmount p)"
    "store_numeric (pg e) (pgxIntUSD (sl_DailyUSD (mi_Limits inp))) = Some (lp_DailyAmount p)"
    "store_numeric (pg e) (pgxIntUSD (sl_WeeklyUSD (mi_Limits inp))) = Some (lp_WeeklyAmount p)"
    "store_numeric (pg e) (pgxIntUSD (sl_MonthlyUSD (mi_Limits inp))) = Some (lp_MonthlyAmount p)"
    using p by (auto simp: stored_policy_def mint_policy_def Let_def)
  ultimately show ?thesis using f(1) None by auto
qed

theorem minted_key_is_governed_by_its_policy_witness:
  "\<exists>m d' p. Mint demo_service (calm_env 0) demo_mint demo_bank = (Inr m, d', [])
     \<and> resolvePolicy (calm_env 1) ((demo_request ''1'' ''x'')\<lparr>cr_SessionKeyID := ''Mint.sk''\<rparr>) d' = Some p \<and> lp_ID p = ''Mint.lp''"
proof -
  obtain m d' where m: "Mint demo_service (calm_env 0) demo_mint demo_bank = (Inr m, d', [])" "mt_ID m = ''Mint.sk''"
    "mt_PolicyID m = ''Mint.lp''" using demo_minted by blast
  have "\<forall>q \<in> set (limit_policies demo_bank). lp_ScopeID q \<noteq> Some (mt_ID m)"
    by (simp add: demo_bank_def demo_policy_def)
  moreover have "fault (calm_env 1) ''resolvePolicy.GetPolicyForScope'' ''session_key'' = None" by (simp add: calm_env_def)
  ultimately show ?thesis
    using minted_key_is_governed_by_its_policy [OF m(1), where e' = "calm_env 1"
        and req = "(demo_request ''1'' ''x'')\<lparr>cr_SessionKeyID := ''Mint.sk''\<rparr>"]
      m by (auto simp: demo_request_def demo_mint_def)
qed

end
