(* ===== verification/Session_Keys_Lifecycle.thy ===== *)
theory Session_Keys_Lifecycle
  imports Session_Keys_Spec Webhook_Worker
begin

text \<open>
  The life cycle of a session key under every operation that touches the table, and the exact
  effect of the expiry sweep.
\<close>

section \<open>Moves of a status\<close>

inductive key_move :: "string \<Rightarrow> string \<Rightarrow> bool" where
  authorize: "key_move ''pending_authorize'' ''active''"
| revoke: "key_move ''active'' ''revoked''"
| expire: "key_move ''active'' ''expired''"
| expire_rotating: "key_move ''rotating'' ''expired''"

inductive_cases key_moveE: "key_move a b"

inductive_simps key_move_final: "key_move ''revoked'' b" "key_move ''expired'' b"

text \<open>A row after an operation: the same key, its status moved along the life cycle.\<close>

definition key_evolves :: "SessionKey \<Rightarrow> SessionKey \<Rightarrow> bool" where
  "key_evolves k k' \<longleftrightarrow>
     sk_ID k' = sk_ID k \<and> sk_TenantID k' = sk_TenantID k \<and> sk_WalletID k' = sk_WalletID k \<and> sk_GroupID k' = sk_GroupID k
     \<and> sk_PolicyID k' = sk_PolicyID k \<and> sk_ExpiresAt k' = sk_ExpiresAt k \<and> sk_EncryptedPrivKey k' = sk_EncryptedPrivKey k
     \<and> key_move\<^sup>*\<^sup>* (sk_Status k) (sk_Status k')"

lemma key_evolves_refl [simp]: "key_evolves k k"
  by (simp add: key_evolves_def)

lemma key_evolves_trans: "key_evolves a b \<Longrightarrow> key_evolves b c \<Longrightarrow> key_evolves a c"
  by (auto simp: key_evolves_def)

definition keys_evolve :: "SessionKey list \<Rightarrow> SessionKey list \<Rightarrow> bool" where
  "keys_evolve ks ks' \<longleftrightarrow> pk_unique sk_ID ks' \<and> (\<forall>k \<in> set ks. \<exists>k' \<in> set ks'. key_evolves k k')"

lemma keys_evolve_trans: "keys_evolve a b \<Longrightarrow> keys_evolve b c \<Longrightarrow> keys_evolve a c"
  unfolding keys_evolve_def using key_evolves_trans by meson

lemma keys_evolve_refl: "pk_unique sk_ID ks \<Longrightarrow> keys_evolve ks ks"
  unfolding keys_evolve_def using key_evolves_refl by blast

lemma keys_evolve_snoc:
  "pk_unique sk_ID ks \<Longrightarrow> \<not> exists_row sk_ID (sk_ID k) ks \<Longrightarrow> keys_evolve ks (ks @ [k])"
  unfolding keys_evolve_def exists_row_iff pk_unique_snoc set_append using key_evolves_refl by blast

lemma keys_evolve_upd:
  assumes "row_update sk_ID f" "pk_unique sk_ID ks" "\<And>k. k \<in> set ks \<Longrightarrow> P k \<Longrightarrow> key_evolves k (f k)"
  shows "keys_evolve ks (upd_where P f ks)"
proof -
  have "\<exists>k' \<in> set (upd_where P f ks). key_evolves k k'" if "k \<in> set ks" for k
    using that assms(3) [of k] key_evolves_refl [of k] unfolding set_upd_where by (cases "P k") force+
  then show ?thesis using assms(2) row_update.pk_unique_upd_where [OF assms(1)] by (simp add: keys_evolve_def)
qed

section \<open>Operations\<close>

interpretation upd_sk_activate: row_update sk_ID "activate_key now hash" for now hash
  by unfold_locales (simp add: activate_key_def)

inductive key_op :: "db \<Rightarrow> db \<Rightarrow> bool" where
  mint: "Mint s e inp d = (res, d', sent) \<Longrightarrow> key_op d d'"
| prepare: "PrepareUserCustody s e inp d = (resp, d') \<Longrightarrow> key_op d d'"
| submit: "SubmitAuthorize s e tenantID skID signedTxHex d = (ress, d', sent) \<Longrightarrow> key_op d d'"
| revoke: "RevokeSessionKey now skID reason d = (resr, d') \<Longrightarrow> key_op d d'"
| sweep: "rotator_Tick rot e d = (stats, d') \<Longrightarrow> key_op d d'"

lemma insert_pair_evolves:
  assumes "insert_pair e pol key d = (res, d')" "pk_unique sk_ID (session_keys d)"
  shows "keys_evolve (session_keys d) (session_keys d')"
proof (cases res)
  case (Inl err)
  then show ?thesis using insert_pair_Inl assms keys_evolve_refl by blast
next
  case (Inr row)
  have "sk_ID (stored_key now key) = sk_ID key" for now by (simp add: stored_key_def)
  then show ?thesis using insert_pair_Inr [OF assms(1) [unfolded Inr]] keys_evolve_snoc [OF assms(2)] by auto
qed

lemma Mint_evolves:
  assumes "Mint s e inp d = (res, d', sent)" "pk_unique sk_ID (session_keys d)"
  shows "keys_evolve (session_keys d) (session_keys d')"
  using assms insert_pair_evolves keys_evolve_refl
  by (auto simp: Mint_def Let_def split: option.splits prod.splits sum.splits if_splits)

lemma Prepare_evolves:
  assumes "PrepareUserCustody s e inp d = (res, d')" "pk_unique sk_ID (session_keys d)"
  shows "keys_evolve (session_keys d) (session_keys d')"
  using assms insert_pair_evolves keys_evolve_refl
  by (auto simp: PrepareUserCustody_def Let_def split: option.splits prod.splits sum.splits if_splits)

lemma SubmitAuthorize_cases:
  assumes "SubmitAuthorize s e t i hex d = (res, d', sent)"
  shows "d' = d \<or> (\<exists>row now hash. GetSessionKeyByID i d = Inr row \<and> sk_TenantID row = t \<and> sk_Status row = ''pending_authorize''
      \<and> res = Inr hash \<and> (\<exists>tempo. ss_tempo s = Some tempo \<and> BroadcastSignedTx tempo hex = (Inr hash, sent))
      \<and> d' = d\<lparr>session_keys := upd_where (\<lambda>r. sk_ID r = sk_ID row) (activate_key now hash) (session_keys d)\<rparr>)"
  using assms by (auto simp: SubmitAuthorize_def db_read_Inr split: option.splits sum.splits if_splits prod.splits)

lemma SubmitAuthorize_evolves:
  assumes "SubmitAuthorize s e t i hex d = (res, d', sent)" "pk_unique sk_ID (session_keys d)"
  shows "keys_evolve (session_keys d) (session_keys d')"
proof -
  have "keys_evolve (session_keys d) (upd_where (\<lambda>r. sk_ID r = sk_ID row) (activate_key now hash) (session_keys d))"
    if g: "GetSessionKeyByID i d = Inr row" "sk_Status row = ''pending_authorize''" for row now hash
  proof (rule keys_evolve_upd [OF _ assms(2)])
    show "row_update sk_ID (activate_key now hash)" by (rule upd_sk_activate.row_update_axioms)
    fix k assume k: "k \<in> set (session_keys d)" "sk_ID k = sk_ID row"
    have "row \<in> set (session_keys d)" using select_one_D [OF g(1) [unfolded GetSessionKeyByID_def]] by blast
    then have "k = row" using pk_unique_same [OF assms(2) k(1) _ k(2)] by blast
    then show "key_evolves k (activate_key now hash k)"
      using g(2) by (auto simp: key_evolves_def activate_key_def key_move.authorize)
  qed
  then show ?thesis using SubmitAuthorize_cases [OF assms(1)] keys_evolve_refl [OF assms(2)] by auto
qed

lemma Revoke_evolves:
  assumes "RevokeSessionKey now i reason d = (res, d')" "pk_unique sk_ID (session_keys d)"
  shows "keys_evolve (session_keys d) (session_keys d')"
proof -
  let ?P = "\<lambda>r. sk_ID r = i \<and> sk_Status r = ''active''"
  have "session_keys d' = session_keys d \<or> session_keys d' = upd_where ?P (revoke_session_key now reason) (session_keys d)"
    using assms(1) by (auto simp: RevokeSessionKey_def update_one_def split: option.splits if_splits)
  moreover have "keys_evolve (session_keys d) (upd_where ?P (revoke_session_key now reason) (session_keys d))"
    by (rule keys_evolve_upd [OF upd_sk_revoke.row_update_axioms assms(2)])
      (auto simp: key_evolves_def revoke_session_key_def key_move.revoke)
  ultimately show ?thesis using keys_evolve_refl [OF assms(2)] by auto
qed

section \<open>The sweep\<close>

lemma UpdateSessionKeyStatus_keys:
  assumes "UpdateSessionKeyStatus now i st d = (res, d')"
  shows "session_keys d' = session_keys d
    \<or> session_keys d' = upd_where (\<lambda>r. sk_ID r = i) (set_session_key_status now st) (session_keys d)"
  using assms by (auto simp: UpdateSessionKeyStatus_def update_one_def split: option.splits if_splits)

text \<open>Every row the loop still has to flip is active, rotating or flipped already.\<close>

definition may_expire :: "SessionKey \<Rightarrow> bool" where
  "may_expire k \<longleftrightarrow> sk_Status k \<in> {''active'', ''rotating'', ''expired''}"

lemma may_expire_flipped [simp]: "may_expire (set_session_key_status now ''expired'' k)"
  by (simp add: may_expire_def set_session_key_status_def)

definition sweepable :: "SessionKey list \<Rightarrow> SessionKey list \<Rightarrow> bool" where
  "sweepable todo ks \<longleftrightarrow>
     (\<forall>s \<in> set todo. \<forall>k \<in> set ks. sk_ID k = sk_ID s \<longrightarrow> may_expire k)"

lemma expire_evolves:
  "may_expire k \<Longrightarrow> key_evolves k (set_session_key_status now ''expired'' k)"
  by (auto simp: may_expire_def key_evolves_def set_session_key_status_def key_move.intros)

lemma sweep_loop_evolves:
  assumes "sweep_loop e todo n d = (n', d')" "pk_unique sk_ID (session_keys d)" "sweepable todo (session_keys d)"
  shows "keys_evolve (session_keys d) (session_keys d')"
  using assms
proof (induction todo arbitrary: n d)
  case Nil
  then show ?case using keys_evolve_refl by simp
next
  case (Cons s todo)
  let ?now = "clock e ''Rotator.sqlnow'' (sk_ID s)"
  obtain res d1 where u: "db_write (fault e ''Rotator.UpdateSessionKeyStatus'' (sk_ID s)) d
      (UpdateSessionKeyStatus ?now (sk_ID s) ''expired'' d) = (res, d1)" by force
  obtain m where l: "sweep_loop e todo m d1 = (n', d')" using Cons.prems(1) u by (cases res) auto
  have c: "session_keys d1 = session_keys d
      \<or> session_keys d1 = upd_where (\<lambda>r. sk_ID r = sk_ID s) (set_session_key_status ?now ''expired'') (session_keys d)"
    using u UpdateSessionKeyStatus_keys
    by (cases "fault e ''Rotator.UpdateSessionKeyStatus'' (sk_ID s)") auto
  have sw: "sweepable (s # todo) (session_keys d)" by (rule Cons.prems(3))
  have step: "keys_evolve (session_keys d) (session_keys d1)"
    using c
  proof
    assume "session_keys d1 = upd_where (\<lambda>r. sk_ID r = sk_ID s) (set_session_key_status ?now ''expired'') (session_keys d)"
    moreover have "keys_evolve (session_keys d)
        (upd_where (\<lambda>r. sk_ID r = sk_ID s) (set_session_key_status ?now ''expired'') (session_keys d))"
      by (rule keys_evolve_upd [OF upd_sk.row_update_axioms Cons.prems(2)], rule expire_evolves)
        (use sw in \<open>simp add: sweepable_def\<close>)
    ultimately show ?thesis by simp
  qed (simp add: keys_evolve_refl [OF Cons.prems(2)])
  have "sweepable todo (session_keys d1)"
    using c sw by (auto simp: sweepable_def set_upd_where)
  then have "keys_evolve (session_keys d1) (session_keys d')"
    using Cons.IH [OF l] step by (simp add: keys_evolve_def)
  then show ?case using step keys_evolve_trans by blast
qed

lemma expired_list_sweepable:
  assumes "pk_unique sk_ID (session_keys d)"
  shows "sweepable (ListExpiredSessionKeys now n d) (session_keys d)"
proof -
  have "may_expire k"
    if s: "s \<in> set (ListExpiredSessionKeys now n d)" and k: "k \<in> set (session_keys d)" "sk_ID k = sk_ID s" for s k
  proof -
    have "s \<in> set (session_keys d)" "is_expired_key now s"
      using s by (auto simp: ListExpiredSessionKeys_def dest: in_set_takeD)
    then have "k = s" "sk_Status s \<in> {''active'', ''rotating''}"
      using pk_unique_same [OF assms k(1) _ k(2)] by (auto simp: is_expired_key_def)
    then show ?thesis by (auto simp: may_expire_def)
  qed
  then show ?thesis unfolding sweepable_def by blast
qed

lemma rotator_Tick_evolves:
  assumes "rotator_Tick r e d = (st, d')" "pk_unique sk_ID (session_keys d)"
  shows "keys_evolve (session_keys d) (session_keys d')"
proof -
  let ?now = "clock e ''Rotator.now'' []"
  obtain n' where "sweep_loop e (ListExpiredSessionKeys ?now (ro_batch r) d) 0 d = (n', d') \<or> d' = d"
    using assms(1)
    by (auto simp: rotator_Tick_def Let_def db_read_def split: prod.splits option.splits)
  then show ?thesis
    using sweep_loop_evolves [OF _ assms(2) expired_list_sweepable [OF assms(2)]] keys_evolve_refl [OF assms(2)] by blast
qed

lemmas op_evolves = Mint_evolves Prepare_evolves SubmitAuthorize_evolves Revoke_evolves rotator_Tick_evolves

lemma key_op_evolves: "key_op d d' \<Longrightarrow> pk_unique sk_ID (session_keys d) \<Longrightarrow> keys_evolve (session_keys d) (session_keys d')"
  by (induction rule: key_op.induct) (simp_all add: op_evolves)

lemma key_ops_evolve:
  assumes "key_op\<^sup>*\<^sup>* d d'" "pk_unique sk_ID (session_keys d)"
  shows "keys_evolve (session_keys d) (session_keys d')"
  using assms
proof (induction rule: rtranclp_induct)
  case base
  then show ?case by (rule keys_evolve_refl)
next
  case (step d1 d2)
  then have "keys_evolve (session_keys d) (session_keys d1)" by blast
  moreover from this have "keys_evolve (session_keys d1) (session_keys d2)"
    using key_op_evolves [OF step.hyps(2)] by (simp add: keys_evolve_def)
  ultimately show ?case by (rule keys_evolve_trans)
qed

lemma final_status: "key_move\<^sup>*\<^sup>* a b \<Longrightarrow> a \<in> {''revoked'', ''expired''} \<Longrightarrow> b = a"
  by (induction rule: rtranclp_induct) (auto elim: key_moveE)

text \<open>
  C21: under any sequence of minting, preparing, authorizing, revoking and sweeping, whatever fails
  on the way, no session key is lost or rebound: it keeps its tenant, wallet, group, policy, expiry
  and encrypted key, its status only moves along the life cycle, and a revoked or expired key never
  comes back.
\<close>

theorem session_key_life_cycle:
  assumes "key_op\<^sup>*\<^sup>* d d'" "pk_unique sk_ID (session_keys d)" "k \<in> set (session_keys d)"
  shows "\<exists>k' \<in> set (session_keys d'). key_evolves k k'
    \<and> (sk_Status k \<in> {''revoked'', ''expired''} \<longrightarrow> sk_Status k' = sk_Status k)
    \<and> (\<forall>x \<in> set (session_keys d'). sk_ID x = sk_ID k \<longrightarrow> x = k')"
proof -
  have ev: "keys_evolve (session_keys d) (session_keys d')" by (rule key_ops_evolve [OF assms(1,2)])
  then obtain k' where k': "k' \<in> set (session_keys d')" "key_evolves k k'" using assms(3) by (auto simp: keys_evolve_def)
  have "sk_Status k' = sk_Status k" if "sk_Status k \<in> {''revoked'', ''expired''}"
    using k'(2) final_status [OF _ that] by (simp add: key_evolves_def)
  moreover have "x = k'" if "x \<in> set (session_keys d')" "sk_ID x = sk_ID k" for x
    using ev that k' pk_unique_same [of sk_ID "session_keys d'" x k'] by (simp add: keys_evolve_def key_evolves_def)
  ultimately show ?thesis using k' by blast
qed

definition demo_key_row :: "string \<Rightarrow> string \<Rightarrow> time \<Rightarrow> SessionKey" where
  "demo_key_row i st ex = (stored_key 0 (mint_key demo_mint i ''Mint.lp'' ''kk'' demo_blob 1 (ex, ''auto_rotate'', 86400, ex) st False []
     empty_object))"

definition demo_keys :: db where
  "demo_keys = demo_bank\<lparr>session_keys :=
     [demo_key_row ''sk1'' ''active'' 5, demo_key_row ''sk2'' ''revoked'' 5, demo_key_row ''sk3'' ''active'' 50]\<rparr>"

lemma demo_key_row_sel [simp]:
  "sk_ID (demo_key_row i st ex) = i" "sk_Status (demo_key_row i st ex) = st" "sk_ExpiresAt (demo_key_row i st ex) = ex"
  "sk_RotationMode (demo_key_row i st ex) = ''auto_rotate''" "sk_TenantID (demo_key_row i st ex) = ''tn''"
  "sk_WalletID (demo_key_row i st ex) = ''wl''"
  by (simp_all add: demo_key_row_def stored_key_def mint_key_def demo_mint_def)

lemma demo_keys_table: "session_keys demo_keys = [demo_key_row ''sk1'' ''active'' 5, demo_key_row ''sk2'' ''revoked'' 5, demo_key_row ''sk3'' ''active'' 50]"
  by (simp add: demo_keys_def)

theorem session_key_life_cycle_witness:
  "\<exists>k' \<in> set (session_keys (snd (rotator_Tick (NewRotator 0) (calm_env 10) demo_keys))). sk_ID k' = ''sk2'' \<and> sk_Status k' = ''revoked''"
proof -
  obtain st d' where t: "rotator_Tick (NewRotator 0) (calm_env 10) demo_keys = (st, d')" by force
  have "key_op\<^sup>*\<^sup>* demo_keys d'" using key_op.sweep [OF t] by blast
  moreover have "pk_unique sk_ID (session_keys demo_keys)" by (simp add: demo_keys_table pk_unique_def)
  moreover have "demo_key_row ''sk2'' ''revoked'' 5 \<in> set (session_keys demo_keys)" by (simp add: demo_keys_table)
  ultimately show ?thesis
    using session_key_life_cycle [of demo_keys d' "demo_key_row ''sk2'' ''revoked'' 5"] by (auto simp: t key_evolves_def)
qed

section \<open>What the sweep expires\<close>

definition flip :: "env \<Rightarrow> SessionKey \<Rightarrow> SessionKey" where
  "flip e k = set_session_key_status (clock e ''Rotator.sqlnow'' (sk_ID k)) ''expired'' k"

lemma flip_ID [simp]: "sk_ID (flip e k) = sk_ID k"
  by (simp add: flip_def set_session_key_status_def)

lemma flip_check [simp]: "session_key_check k \<Longrightarrow> session_key_check (flip e k)"
  by (simp add: flip_def set_session_key_status_def session_key_check_def session_key_statuses_def)

definition flip_in :: "env \<Rightarrow> string set \<Rightarrow> SessionKey \<Rightarrow> SessionKey" where
  "flip_in e ids k = (if sk_ID k \<in> ids then flip e k else k)"

lemma flip_in_ID [simp]: "sk_ID (flip_in e ids k) = sk_ID k"
  by (simp add: flip_in_def)

lemma UpdateSessionKeyStatus_flip:
  assumes "\<forall>k \<in> set (session_keys d). session_key_check k" "i \<in> sk_ID ` set (session_keys d)"
  shows "\<exists>r. UpdateSessionKeyStatus (clock e ''Rotator.sqlnow'' i) i ''expired'' d
      = (Inr r, d\<lparr>session_keys := map (flip_in e {i}) (session_keys d)\<rparr>)"
proof -
  let ?f = "set_session_key_status (clock e ''Rotator.sqlnow'' i) ''expired''"
  have fi: "?f k = flip e k" if "sk_ID k = i" for k using that by (simp add: flip_def)
  obtain r where r: "List.find (\<lambda>r. sk_ID r = i) (session_keys d) = Some r"
    using assms(2) by (cases "List.find (\<lambda>r. sk_ID r = i) (session_keys d)") (auto simp: find_None_iff)
  have "\<not> list_ex (\<lambda>r. sk_ID r = i \<and> \<not> session_key_check (?f r)) (session_keys d)"
    using assms(1) fi by (auto simp: list_ex_iff)
  moreover have "upd_where (\<lambda>r. sk_ID r = i) ?f (session_keys d) = map (flip_in e {i}) (session_keys d)"
    using fi by (simp add: upd_where_def flip_in_def)
  ultimately show ?thesis using r by (simp add: UpdateSessionKeyStatus_def update_one_def)
qed

lemma sweep_loop_exact:
  assumes "calm e" "\<forall>k \<in> set (session_keys d). session_key_check k" "distinct (map sk_ID todo)"
    "sk_ID ` set todo \<subseteq> sk_ID ` set (session_keys d)"
  shows "sweep_loop e todo n d = (n + int (length todo), d\<lparr>session_keys := map (flip_in e (sk_ID ` set todo)) (session_keys d)\<rparr>)"
  using assms(2-4)
proof (induction todo arbitrary: n d)
  case Nil
  then show ?case by (simp add: flip_in_def)
next
  case (Cons s todo)
  let ?d = "d\<lparr>session_keys := map (flip_in e {sk_ID s}) (session_keys d)\<rparr>"
  have ids: "sk_ID ` set (session_keys ?d) = sk_ID ` set (session_keys d)" by (simp add: image_image)
  have c: "\<forall>k \<in> set (session_keys ?d). session_key_check k" using Cons.prems(1) by (auto simp: flip_in_def)
  obtain r where u: "UpdateSessionKeyStatus (clock e ''Rotator.sqlnow'' (sk_ID s)) (sk_ID s) ''expired'' d = (Inr r, ?d)"
    using UpdateSessionKeyStatus_flip [OF Cons.prems(1), of "sk_ID s" e] Cons.prems(3) by auto
  have l: "sweep_loop e (s # todo) n d = sweep_loop e todo (n + 1) ?d"
    using u assms(1) by (simp add: calm_def)
  have comp: "flip_in e (sk_ID ` set todo) (flip_in e {sk_ID s} k) = flip_in e (sk_ID ` set (s # todo)) k" for k
    using Cons.prems(2) by (auto simp: flip_in_def)
  have "sweep_loop e todo (n + 1) ?d
      = (n + 1 + int (length todo), ?d\<lparr>session_keys := map (flip_in e (sk_ID ` set todo)) (session_keys ?d)\<rparr>)"
    by (rule Cons.IH [OF c]) (use Cons.prems(2,3) ids in auto)
  then show ?case by (simp add: l comp del: sweep_loop.simps)
qed

lemma ListExpired_all:
  assumes "int (length (filter (is_expired_key now) (session_keys d))) \<le> n"
  shows "ListExpiredSessionKeys now n d = sort_key sk_ExpiresAt (filter (is_expired_key now) (session_keys d))"
  using assms by (simp add: ListExpiredSessionKeys_def)

text \<open>
  When the database answers and the batch is large enough, one sweep expires exactly the keys
  whose expiry has passed and that were still active or rotating; every other row is untouched, and
  the count reported is their number. In particular no expired key stays spendable.
\<close>

theorem sweep_expires_exactly_the_due_keys:
  assumes "calm e" "pk_unique sk_ID (session_keys d)" "\<forall>k \<in> set (session_keys d). session_key_check k"
    "int (length (filter (is_expired_key (clock e ''Rotator.now'' [])) (session_keys d))) \<le> ro_batch r"
    "rotator_Tick r e d = (st, d')"
  shows "session_keys d' = map (\<lambda>k. if is_expired_key (clock e ''Rotator.now'' []) k then flip e k else k) (session_keys d)
    \<and> rs_ExpiredFlipped st = int (length (filter (is_expired_key (clock e ''Rotator.now'' [])) (session_keys d)))
    \<and> (\<forall>k \<in> set (session_keys d'). sk_Status k = ''active'' \<longrightarrow> clock e ''Rotator.now'' [] < sk_ExpiresAt k)"
proof -
  let ?now = "clock e ''Rotator.now'' []"
  let ?L = "sort_key sk_ExpiresAt (filter (is_expired_key ?now) (session_keys d))"
  have dist: "distinct (map sk_ID ?L)"
  proof -
    have "distinct (map sk_ID (filter (is_expired_key ?now) (session_keys d)))"
      using assms(2) by (simp add: pk_unique_def distinct_map_filter)
    then show ?thesis by (simp add: distinct_map)
  qed
  have mem: "sk_ID k \<in> sk_ID ` set ?L \<longleftrightarrow> is_expired_key ?now k" if "k \<in> set (session_keys d)" for k
    using that pk_unique_same [OF assms(2)] by (auto simp: image_iff)
  have L: "sweep_loop e ?L 0 d = (int (length ?L), d\<lparr>session_keys := map (flip_in e (sk_ID ` set ?L)) (session_keys d)\<rparr>)"
    using sweep_loop_exact [OF assms(1,3) dist, of 0] by auto
  have d': "session_keys d' = map (flip_in e (sk_ID ` set ?L)) (session_keys d)" "rs_ExpiredFlipped st = int (length ?L)"
    using assms(1,5) L ListExpired_all [OF assms(4)]
    by (auto simp: rotator_Tick_def Let_def calm_def)
  have flip: "flip_in e (sk_ID ` set ?L) k = (if is_expired_key ?now k then flip e k else k)" if "k \<in> set (session_keys d)" for k
    using mem [OF that] by (simp add: flip_in_def)
  have "?now < sk_ExpiresAt k"
    if k: "k \<in> set (session_keys d')" "sk_Status k = ''active''" for k
    using k flip by (auto simp: d'(1) flip_def set_session_key_status_def is_expired_key_def split: if_splits)
  then show ?thesis using d' flip by (simp cong: map_cong)
qed

theorem sweep_expires_exactly_the_due_keys_witness:
  "rs_ExpiredFlipped (fst (rotator_Tick (NewRotator 0) (calm_env 10) demo_keys)) = 1"
proof -
  obtain st d' where t: "rotator_Tick (NewRotator 0) (calm_env 10) demo_keys = (st, d')" by force
  have n: "clock (calm_env 10) ''Rotator.now'' [] = 10" by (simp add: calm_env_def)
  have f: "filter (is_expired_key 10) (session_keys demo_keys) = [demo_key_row ''sk1'' ''active'' 5]"
    by (simp add: demo_keys_table is_expired_key_def)
  have "pk_unique sk_ID (session_keys demo_keys)" by (simp add: demo_keys_table pk_unique_def)
  moreover have "\<forall>k \<in> set (session_keys demo_keys). session_key_check k"
    by (simp add: demo_keys_table session_key_check_def session_key_statuses_def)
  moreover have "ro_batch (NewRotator 0) = 200" by (simp add: NewRotator_def)
  ultimately show ?thesis
    using sweep_expires_exactly_the_due_keys [OF calm_calm_env _ _ _ t] f n by (simp add: t)
qed

end
