(* ===== verification/RFC3339.thy ===== *)
theory RFC3339
  imports Env
begin

text \<open>
  \<open>time.Parse(time.RFC3339, s)\<close>, used on timestamps that the gateway wrote itself and on those of
  the CrossMint API and of customers: four-digit year, two-digit fields (the hour may have one
  digit), an optional fraction after a dot or a comma, \<open>Z\<close> or a numeric offset, of which
  \<open>time.Parse\<close> accepts up to 24 hours and 60 minutes.
\<close>

definition take_num :: "nat \<Rightarrow> string \<Rightarrow> (int \<times> string) option" where
  "take_num n s =
     (if n \<le> length s \<and> all_digits (take n s) then Some (int (dec_val (take n s)), drop n s) else None)"

definition take_hour :: "string \<Rightarrow> (int \<times> string) option" where
  "take_hour s = (case take_num 2 s of None \<Rightarrow> take_num 1 s | x \<Rightarrow> x)"

definition expect :: "char \<Rightarrow> string \<Rightarrow> string option" where
  "expect c s = (case s of [] \<Rightarrow> None | x # r \<Rightarrow> if x = c then Some r else None)"

text \<open>A fraction of a second, in nanoseconds; further digits are dropped.\<close>

definition take_fraction :: "string \<Rightarrow> (int \<times> string) option" where
  "take_fraction s =
     (case s of
        [] \<Rightarrow> Some (0, s)
      | c # r \<Rightarrow>
          if c \<noteq> CHR ''.'' \<and> c \<noteq> CHR '','' then Some (0, s)
          else (let ds = takeWhile is_digit r in
                if ds = [] then None
                else Some (int (dec_val (take 9 (ds @ replicate 9 CHR ''0''))), dropWhile is_digit r)))"

definition take_zone :: "string \<Rightarrow> int option" where
  "take_zone s =
     (if s = ''Z'' then Some 0
      else (case s of
              [] \<Rightarrow> None
            | c # r \<Rightarrow>
                if c = CHR ''+'' \<or> c = CHR ''-'' then
                  Option.bind (take_num 2 r) (\<lambda>(h, r1). Option.bind (expect CHR '':'' r1) (\<lambda>r2.
                    Option.bind (take_num 2 r2) (\<lambda>(m, r3).
                      if r3 = [] \<and> h \<le> 24 \<and> m \<le> 60 then Some ((if c = CHR ''-'' then - 1 else 1) * (h * 3600 + m * 60))
                      else None)))
                else None))"

definition valid_date :: "int \<Rightarrow> int \<Rightarrow> int \<Rightarrow> bool" where
  "valid_date y m d \<longleftrightarrow> 1 \<le> m \<and> m \<le> 12 \<and> 1 \<le> d \<and> d \<le> month_start y (m + 1) - month_start y m"

definition Parse_RFC3339 :: "string \<Rightarrow> time option" where
  "Parse_RFC3339 s =
     Option.bind (take_num 4 s) (\<lambda>(y, s). Option.bind (expect CHR ''-'' s) (\<lambda>s.
     Option.bind (take_num 2 s) (\<lambda>(mo, s). Option.bind (expect CHR ''-'' s) (\<lambda>s.
     Option.bind (take_num 2 s) (\<lambda>(d, s). Option.bind (expect CHR ''T'' s) (\<lambda>s.
     Option.bind (take_hour s) (\<lambda>(h, s). Option.bind (expect CHR '':'' s) (\<lambda>s.
     Option.bind (take_num 2 s) (\<lambda>(mi, s). Option.bind (expect CHR '':'' s) (\<lambda>s.
     Option.bind (take_num 2 s) (\<lambda>(sec, s). Option.bind (take_fraction s) (\<lambda>(ns, s).
     Option.bind (take_zone s) (\<lambda>off.
       if valid_date y mo d \<and> h < 24 \<and> mi < 60 \<and> sec < 60
       then Some ((86400 * days_of_civil y mo d + h * 3600 + mi * 60 + sec - off) * second + ns)
       else None)))))))))))))"

lemma take_num_append:
  "length a = n \<Longrightarrow> all_digits a \<Longrightarrow> take_num n (a @ r) = Some (int (dec_val a), r)"
  by (simp add: take_num_def)

lemma length_appendInt:
  assumes "0 \<le> x" "x < 10 ^ w" "0 < w"
  shows "length (appendInt x w) = w"
proof -
  have "nat x < 10 ^ w" using assms by (simp add: nat_less_iff)
  then have "length (nat_to_dec (nat x)) \<le> w" by (rule length_nat_to_dec_le) (rule assms(3))
  then show ?thesis using assms(1) by (simp add: appendInt_def Let_def)
qed

lemma take_num_appendInt: "0 \<le> x \<Longrightarrow> x < 10 ^ w \<Longrightarrow> 0 < w \<Longrightarrow> take_num w (appendInt x w @ r) = Some (x, r)"
  using take_num_append [OF length_appendInt, of x w r] appendInt_nonneg [of x w] by simp

lemma expect_Cons [simp]: "expect c (c # r) = Some r"
  by (simp add: expect_def)

text \<open>Reading back what \<open>Format\<close> wrote loses the fraction of the second only.\<close>

lemma Parse_Format_RFC3339:
  assumes "civil (local_day UTC t) = (y, m, d)" "0 \<le> y" "y < 10000"
  shows "Parse_RFC3339 (Format_RFC3339_UTC t) = Some (t div second * second)"
proof -
  define s where "s = clock_of UTC t"
  have s: "0 \<le> s" "s < 86400" by (simp_all add: s_def clock_of_def Let_def)
  note c = civil_range [OF assms(1)]
  have d31: "d < 10 ^ 2"
    by (rule month_range_cases [OF c(1,2)]; use c(4) in \<open>simp add: month_start_values split: if_splits\<close>)
  define h where "h = s div 3600"
  define mi where "mi = s mod 3600 div 60"
  define se where "se = s mod 60"
  have hms: "0 \<le> h" "h < 24" "0 \<le> mi" "mi < 60" "0 \<le> se" "se < 60"
    using s by (simp_all add: h_def mi_def se_def div_less_iff_less_mult pos_imp_zdiv_nonneg_iff)
  have sum: "h * 3600 + mi * 60 + se = s"
  proof -
    have "s mod 3600 mod 60 = se" by (simp add: se_def mod_mod_cancel)
    then have "mi * 60 + se = s mod 3600" using mult_div_mod_eq [of 60 "s mod 3600"] by (simp add: mi_def mult.commute)
    then show ?thesis using mult_div_mod_eq [of 3600 s] by (simp only: h_def mult.commute add.assoc)
  qed
  have "Format_RFC3339_UTC t = appendInt y 4 @ CHR ''-'' # appendInt m 2 @ CHR ''-'' # appendInt d 2 @ CHR ''T'' #
      appendInt h 2 @ CHR '':'' # appendInt mi 2 @ CHR '':'' # appendInt se 2 @ ''Z''"
    by (simp add: Format_RFC3339_UTC_def Let_def assms(1) Format_date_def h_def mi_def se_def s_def)
  moreover have "valid_date y m d" using c by (simp add: valid_date_def)
  moreover have "take_fraction ''Z'' = Some (0, ''Z'')" "take_zone ''Z'' = Some 0"
    by (simp_all add: take_fraction_def take_zone_def)
  moreover have "86400 * days_of_civil y m d + s = t div second"
    using days_of_civil_civil [OF assms(1)] mult_div_mod_eq [of 86400 "t div second"]
    by (simp add: local_day_def clock_of_def s_def UTC_def Let_def)
  ultimately show ?thesis
    using assms(2,3) c(1,2,3) d31 hms sum
    by (simp add: Parse_RFC3339_def take_hour_def take_num_appendInt)
qed

end
