(* ===== verification/Crossmint.thy ===== *)
theory Crossmint
  imports Rail_Types RFC3339
begin

text \<open>
  \<open>internal/adapters/crossmint\<close>: the REST client of the CrossMint API and the adapter over it. The
  service is outside the repository: \<open>cm_http\<close> answers a request with a transport error or a
  status, the text of the body and the JSON it parses to. Every operation returns the requests it
  sent beside its result.
\<close>

section \<open>Decoding into structs\<close>

text \<open>
  \<open>json.Unmarshal\<close> of an object into a struct: keys match field names up to case, a later key
  overwrites an earlier one, \<open>null\<close> leaves the field alone, and a value of the wrong type is an
  error.
\<close>

definition field_values :: "string \<Rightarrow> (string \<times> json) list \<Rightarrow> json list" where
  "field_values name fs = map snd (filter (\<lambda>(k, _). ToLower k = ToLower name) fs)"

fun is_str_or_null :: "json \<Rightarrow> bool" where
  "is_str_or_null (JStr _) = True"
| "is_str_or_null JNull = True"
| "is_str_or_null _ = False"

fun set_str :: "string \<Rightarrow> json \<Rightarrow> string" where
  "set_str old (JStr s) = s"
| "set_str old _ = old"

definition str_field_over :: "string \<Rightarrow> string \<Rightarrow> (string \<times> json) list \<Rightarrow> string option" where
  "str_field_over old name fs =
     (let vs = field_values name fs in if list_all is_str_or_null vs then Some (foldl set_str old vs) else None)"

definition str_field :: "string \<Rightarrow> (string \<times> json) list \<Rightarrow> string option" where
  "str_field name fs = str_field_over [] name fs"

text \<open>A nested object: the fields of all its occurrences in order; \<open>None\<close> as value when absent.\<close>

fun obj_fields :: "json \<Rightarrow> (string \<times> json) list option" where
  "obj_fields (JObj fs) = Some fs"
| "obj_fields JNull = Some []"
| "obj_fields _ = None"

fun unmarshal_object :: "jsonb \<Rightarrow> (string \<times> json) list option" where
  "unmarshal_object JEmpty = Some []"
| "unmarshal_object JBad = None"
| "unmarshal_object (JVal j) = obj_fields j"

section \<open>client.go\<close>

record cm_request =
  cq_method :: string
  cq_path :: string
  cq_body :: "json option"

record cm_response =
  cp_status :: int
  cp_text :: string
  cp_json :: jsonb

record crossmint_adapter =
  cm_http :: "cm_request \<Rightarrow> string + cm_response"

definition apiVersion :: string where "apiVersion = ''2025-06-09''"

text \<open>The result of \<open>do\<close> before decoding: the fields of the response object.\<close>

definition cm_do :: "crossmint_adapter \<Rightarrow> cm_request \<Rightarrow> go_error + jsonb" where
  "cm_do a req =
     (case cm_http a req of
        Inl err \<Rightarrow> Inl (wrapf ''crossmint request'' (errors_New err))
      | Inr resp \<Rightarrow>
          if 400 \<le> cp_status resp then Inl (UpstreamError ''crossmint'' (cp_status resp) (cp_text resp))
          else Inr (cp_json resp))"

definition decode_error :: go_error where
  "decode_error = errors_New ''decode response''"

section \<open>dto.go\<close>

record walletResponse =
  wr_ID :: string
  wr_Type :: string
  wr_Chain :: string
  wr_Address :: string
  wr_CreatedAt :: string

record txResponse =
  tr_ID :: string
  tr_Status :: string
  tr_OnChain_TxHash :: "string option"
  tr_CreatedAt :: string

record onrampOrderResponse =
  or_OrderID :: string
  or_Phase :: string
  or_HostedCheckoutURL :: string

definition decode_wallet :: "jsonb \<Rightarrow> walletResponse option" where
  "decode_wallet j =
     (case unmarshal_object j of
        None \<Rightarrow> None
      | Some fs \<Rightarrow>
          (case (str_field ''id'' fs, str_field ''type'' fs, str_field ''chain'' fs, str_field ''address'' fs,
                 str_field ''createdAt'' fs) of
             (Some i, Some ty, Some ch, Some ad, Some cr) \<Rightarrow>
               Some \<lparr> wr_ID = i, wr_Type = ty, wr_Chain = ch, wr_Address = ad, wr_CreatedAt = cr \<rparr>
           | _ \<Rightarrow> None))"

text \<open>The pointer \<open>OnChain\<close> is nil when the key is missing or its last value is \<open>null\<close>.\<close>

fun on_chain_hash :: "json list \<Rightarrow> string option \<Rightarrow> string option option" where
  "on_chain_hash [] acc = Some acc"
| "on_chain_hash (v # vs) acc =
     (case v of
        JNull \<Rightarrow> on_chain_hash vs None
      | JObj fs \<Rightarrow>
          (case (str_field ''chain'' fs, str_field_over (text_String acc) ''txHash'' fs) of
             (Some _, Some h) \<Rightarrow> on_chain_hash vs (Some h)
           | _ \<Rightarrow> None)
      | _ \<Rightarrow> None)"

definition decode_tx :: "jsonb \<Rightarrow> txResponse option" where
  "decode_tx j =
     (case unmarshal_object j of
        None \<Rightarrow> None
      | Some fs \<Rightarrow>
          (case (str_field ''id'' fs, str_field ''status'' fs, on_chain_hash (field_values ''onChain'' fs) None,
                 str_field ''createdAt'' fs) of
             (Some i, Some st, Some oc, Some cr) \<Rightarrow>
               Some \<lparr> tr_ID = i, tr_Status = st, tr_OnChain_TxHash = oc, tr_CreatedAt = cr \<rparr>
           | _ \<Rightarrow> None))"

definition decode_onramp :: "jsonb \<Rightarrow> onrampOrderResponse option" where
  "decode_onramp j =
     (case unmarshal_object j of
        None \<Rightarrow> None
      | Some fs \<Rightarrow>
          (case those (map obj_fields (field_values ''order'' fs)) of
             None \<Rightarrow> None
           | Some os \<Rightarrow>
               (case (str_field ''orderId'' (concat os), str_field ''phase'' (concat os),
                      str_field ''orderClientSecret'' fs, str_field ''hostedCheckoutUrl'' fs) of
                  (Some oid, Some ph, Some _, Some url) \<Rightarrow>
                    Some \<lparr> or_OrderID = oid, or_Phase = ph, or_HostedCheckoutURL = url \<rparr>
                | _ \<Rightarrow> None)))"

section \<open>adapter.go\<close>

definition parseTime :: "string \<Rightarrow> time" where
  "parseTime s =
     (if s = [] then zero_time else (case Parse_RFC3339 s of None \<Rightarrow> zero_time | Some t \<Rightarrow> t))"

definition toWallet :: "walletResponse \<Rightarrow> Owner \<Rightarrow> RailWallet" where
  "toWallet r owner =
     \<lparr> rw_ID = wr_ID r, rw_Rail = RailCrossMint, rw_Chain = wr_Chain r, rw_Address = wr_Address r, rw_Owner = owner,
       rw_Locator = wr_ID r, rw_CreatedAt = parseTime (wr_CreatedAt r) \<rparr>"

definition mapTxStatus :: "string \<Rightarrow> string" where
  "mapTxStatus s =
     (if ToLower s \<in> {''success'', ''succeeded'', ''completed''} then TxSucceeded
      else if ToLower s \<in> {''failed'', ''rejected'', ''cancelled''} then TxFailed
      else TxPending)"

definition txHash :: "txResponse \<Rightarrow> string" where
  "txHash r = (case tr_OnChain_TxHash r of None \<Rightarrow> [] | Some h \<Rightarrow> h)"

text \<open>\<open>omitempty\<close>: an empty string is left out of the object.\<close>

definition opt_str :: "string \<Rightarrow> string \<Rightarrow> (string \<times> json) list" where
  "opt_str name v = (if v = [] then [] else [(name, JStr v)])"

definition linked_user :: "Owner \<Rightarrow> json option" where
  "linked_user ow =
     (let field = (\<lambda>n. Some (JObj (opt_str n (ow_Value ow)))) in
      if ow_Type ow = ''email'' then field ''email''
      else if ow_Type ow = ''userId'' then field ''userId''
      else if ow_Type ow = ''phone'' then field ''phoneNumber''
      else if ow_Type ow = ''external'' \<or> ow_Type ow = [] then field ''externalUserId''
      else None)"

definition cm_CreateWallet :: "crossmint_adapter \<Rightarrow> CreateWalletRequest \<Rightarrow> (go_error + RailWallet) \<times> cm_request list" where
  "cm_CreateWallet a req =
     (let wt = (if cw_Type req = [] then ''smart'' else cw_Type req);
          chain = (if cw_Chain req = [] then ChainBase else cw_Chain req) in
      case linked_user (cw_Owner req) of
        None \<Rightarrow> (Inl (sentinelf ErrBadRequest (''unknown owner type '' @ go_quote (ow_Type (cw_Owner req)))), [])
      | Some linked \<Rightarrow>
          (let call = \<lparr> cq_method = ''POST'', cq_path = ''/api/'' @ apiVersion @ ''/wallets'',
                        cq_body = Some (JObj ([(''type'', JStr wt)] @ opt_str ''chain'' chain @ [(''linkedUser'', linked)])) \<rparr> in
           case cm_do a call of
             Inl err \<Rightarrow> (Inl err, [call])
           | Inr j \<Rightarrow> (case decode_wallet j of
                         None \<Rightarrow> (Inl decode_error, [call])
                       | Some r \<Rightarrow> (Inr (toWallet r (cw_Owner req)), [call]))))"

definition token_locator :: "string \<Rightarrow> string \<Rightarrow> string" where
  "token_locator chain asset = ToLower chain @ '':'' @ ToLower asset"

definition cm_CreateTransaction ::
    "crossmint_adapter \<Rightarrow> CreateTransactionRequest \<Rightarrow> string \<Rightarrow> (go_error + RailTransaction) \<times> cm_request list" where
  "cm_CreateTransaction a req fromLocator =
     (let chain = (if ct_Chain req = [] then ChainBase else ct_Chain req);
          call = \<lparr> cq_method = ''POST'',
                   cq_path = ''/api/'' @ apiVersion @ ''/wallets/'' @ fromLocator @ ''/tokens/''
                             @ token_locator chain (ct_Asset req) @ ''/transfers'',
                   cq_body = Some (JObj [(''recipient'', JStr (ct_To req)), (''amount'', JStr (ct_Amount req))]) \<rparr> in
      case cm_do a call of
        Inl err \<Rightarrow> (Inl err, [call])
      | Inr j \<Rightarrow>
          (case decode_tx j of
             None \<Rightarrow> (Inl decode_error, [call])
           | Some r \<Rightarrow>
               (Inr \<lparr> rt_ID = tr_ID r, rt_Rail = RailCrossMint, rt_From = fromLocator, rt_To = ct_To req,
                      rt_Amount = ct_Amount req, rt_Asset = ct_Asset req, rt_Chain = chain,
                      rt_Status = mapTxStatus (tr_Status r), rt_TxHash = txHash r,
                      rt_CreatedAt = parseTime (tr_CreatedAt r) \<rparr>, [call])))"

definition cm_CreateOnrampOrder ::
    "crossmint_adapter \<Rightarrow> env \<Rightarrow> CreateOnrampRequest \<Rightarrow> string \<Rightarrow> (go_error + RailOnrampOrder) \<times> cm_request list" where
  "cm_CreateOnrampOrder a e req walletAddress =
     (let chain = (if co_Chain req = [] then ChainBase else co_Chain req);
          call = \<lparr> cq_method = ''POST'', cq_path = ''/api/2022-06-09/orders'',
                   cq_body = Some (JObj
                     [(''recipient'', JObj [(''walletAddress'', JStr walletAddress)]),
                      (''payment'', JObj [(''method'', JStr ''fiat''), (''currency'', JStr (ToLower (fa_Currency (co_Fiat req))))]),
                      (''lineItems'', JArr [JObj
                         [(''tokenLocator'', JStr (token_locator chain (co_Asset req))),
                          (''executionParameters'', JObj [(''mode'', JStr ''exact-in''), (''amount'', JStr (fa_Amount (co_Fiat req)))])]])]) \<rparr> in
      case cm_do a call of
        Inl err \<Rightarrow> (Inl err, [call])
      | Inr j \<Rightarrow>
          (case decode_onramp j of
             None \<Rightarrow> (Inl decode_error, [call])
           | Some r \<Rightarrow>
               (Inr \<lparr> ro_ID = or_OrderID r, ro_Rail = RailCrossMint, ro_WalletID = walletAddress, ro_Fiat = co_Fiat req,
                      ro_Asset = co_Asset req, ro_Status = or_Phase r, ro_CheckoutURL = or_HostedCheckoutURL r,
                      ro_CreatedAt = clock e ''crossmint.now'' [] \<rparr>, [call])))"

section \<open>Calls\<close>

lemma cm_CreateTransaction_calls:
  "\<exists>call. snd (cm_CreateTransaction a req loc) = [call] \<and> cq_method call = ''POST''
    \<and> cq_body call = Some (JObj [(''recipient'', JStr (ct_To req)), (''amount'', JStr (ct_Amount req))])"
  by (simp add: cm_CreateTransaction_def Let_def split: sum.splits option.splits)

lemma mapTxStatus_range: "mapTxStatus s \<in> {''pending'', ''succeeded'', ''failed''}"
  unfolding mapTxStatus_def TxPending_def TxSucceeded_def TxFailed_def by simp

lemma cm_CreateTransaction_status:
  assumes "cm_CreateTransaction a req loc = (Inr r, sent)"
  shows "rt_Status r \<in> {''pending'', ''succeeded'', ''failed''}"
proof -
  obtain s where "rt_Status r = mapTxStatus s"
    using assms by (auto simp: cm_CreateTransaction_def Let_def split: sum.splits option.splits)
  then show ?thesis using mapTxStatus_range by simp
qed

lemma cm_CreateWallet_calls: "length (snd (cm_CreateWallet a req)) \<le> 1"
  unfolding cm_CreateWallet_def Let_def by (simp split: sum.split option.split del: split_paired_All)

lemma cm_CreateOnrampOrder_calls: "length (snd (cm_CreateOnrampOrder a e req addr)) = 1"
  by (simp add: cm_CreateOnrampOrder_def Let_def split: sum.splits option.splits)

end
