(* ===== verification/Handlers.thy ===== *)
theory Handlers
  imports Session_Keys Crossmint Limits_Service
begin

text \<open>
  What the HTTP handlers of \<open>internal/server/handlers\<close> share: the request context that the
  middleware leaves behind, the response, the state that a request can change (the database, the
  Redis counters and the calls that have left for the chain and for CrossMint), and the response
  helpers of \<open>auth.go\<close> and \<open>wallet_groups.go\<close>. The body of a request arrives already parsed:
  \<open>None\<close> is an error of \<open>BodyParser\<close>.
\<close>

section \<open>Requests and responses\<close>

record request_ctx =
  cx_TenantID :: string
  cx_APIKeyID :: string
  cx_UserID :: string
  cx_Role :: string
  cx_Params :: "string \<Rightarrow> string"
  cx_Query :: "string \<Rightarrow> string"

text \<open>A panic is not recovered by the server.\<close>

datatype response = Reply int json | Panic

fun resp_status :: "response \<Rightarrow> int option" where
  "resp_status (Reply st _) = Some st"
| "resp_status Panic = None"

text \<open>\<open>c.QueryInt(key, default)\<close>.\<close>

definition QueryInt :: "request_ctx \<Rightarrow> string \<Rightarrow> int \<Rightarrow> int" where
  "QueryInt cx key dflt = (case ParseInt 64 (cx_Query cx key) of None \<Rightarrow> dflt | Some n \<Rightarrow> n)"

definition wrap32 :: "int \<Rightarrow> int" where
  "wrap32 n = (n + 2 ^ 31) mod 2 ^ 32 - 2 ^ 31"

text \<open>\<open>strings.Index\<close>, as the split of a text at the first occurrence of a pattern.\<close>

fun split_at :: "string \<Rightarrow> string \<Rightarrow> (string \<times> string) option" where
  "split_at sub s =
     (if HasPrefix s sub then Some ([], drop (length sub) s)
      else (case s of [] \<Rightarrow> None | c # cs \<Rightarrow> map_option (\<lambda>(b, a). (c # b, a)) (split_at sub cs)))"

declare split_at.simps [simp del]

text \<open>\<open>?limit\<close> and \<open>?offset\<close>, converted to \<open>int32\<close>; PostgreSQL refuses a negative offset.\<close>

definition page_bounds :: "request_ctx \<Rightarrow> int \<times> int" where
  "page_bounds cx =
     (let l = QueryInt cx ''limit'' 50; off = QueryInt cx ''offset'' 0
      in (wrap32 (if l \<le> 0 \<or> 200 < l then 50 else l), wrap32 (if off < 0 then 0 else off)))"

definition paged :: "int \<times> int \<Rightarrow> (int \<Rightarrow> int \<Rightarrow> 'a list) \<Rightarrow> 'a list query_result" where
  "paged b q = (if snd b < 0 then Inl BadInput else Inr (q (fst b) (snd b)))"

record 'r world =
  w_db :: db
  w_redis :: 'r
  w_chain :: "eth_tx list"
  w_provider :: "cm_request list"

section \<open>Response helpers\<close>

definition error_body :: "string \<Rightarrow> json" where
  "error_body msg = JObj [(''error'', JStr msg)]"

definition badRequest :: "string \<Rightarrow> response" where
  "badRequest msg = Reply 400 (error_body msg)"

definition notFound :: "string \<Rightarrow> response" where
  "notFound msg = Reply 404 (error_body msg)"

definition conflict :: "string \<Rightarrow> response" where
  "conflict msg = Reply 409 (error_body msg)"

definition internalError :: response where
  "internalError = Reply 500 (error_body ''internal error'')"

definition upstreamError :: "string \<Rightarrow> go_error \<Rightarrow> response" where
  "upstreamError rail err = Reply 502 (JObj
     [(''error'', JStr (rail @ '' rail returned an error'')), (''rail'', JStr rail), (''cause'', JStr (ge_text err))])"

definition isUniqueViolation :: "db_error \<Rightarrow> bool" where
  "isUniqueViolation err \<longleftrightarrow> err = UniqueViolation"

definition opt_time :: "string \<Rightarrow> time option \<Rightarrow> (string \<times> json) list" where
  "opt_time name t = (case t of None \<Rightarrow> [] | Some x \<Rightarrow> [(name, JStr (Format_RFC3339_UTC x))])"

definition opt_bool :: "string \<Rightarrow> bool \<Rightarrow> (string \<times> json) list" where
  "opt_bool name b = (if b then [(name, JBool True)] else [])"

lemma badRequest_not [simp]:
  "badRequest m = Reply st b \<longleftrightarrow> st = 400 \<and> b = error_body m"
  "notFound m = Reply st b \<longleftrightarrow> st = 404 \<and> b = error_body m"
  "conflict m = Reply st b \<longleftrightarrow> st = 409 \<and> b = error_body m"
  "internalError = Reply st b \<longleftrightarrow> st = 500 \<and> b = error_body ''internal error''"
  by (auto simp: badRequest_def notFound_def conflict_def internalError_def)

lemma resp_status_helpers [simp]:
  "resp_status (badRequest m) = Some 400" "resp_status (notFound m) = Some 404"
  "resp_status (conflict m) = Some 409" "resp_status internalError = Some 500"
  "resp_status (upstreamError rail err) = Some 502"
  by (simp_all add: badRequest_def notFound_def conflict_def internalError_def upstreamError_def)

text \<open>The role gate: API keys carry no role; a session user must be owner or admin.\<close>

definition may_manage :: "request_ctx \<Rightarrow> bool" where
  "may_manage cx \<longleftrightarrow> cx_Role cx = [] \<or> cx_Role cx = ''owner'' \<or> cx_Role cx = ''admin''"

section \<open>The wallet-group handler set\<close>

record 'r limits_service =
  ls_redis :: "'r redis_ops option"
  ls_emitter :: "(env \<Rightarrow> emitter) option"

definition limits_Check ::
    "'r limits_service \<Rightarrow> env \<Rightarrow> CheckRequest \<Rightarrow> db \<times> 'r \<Rightarrow> (check_error + CheckResult) \<times> db \<times> 'r" where
  "limits_Check ls e req = Check e (ls_redis ls) (map_option (\<lambda>f. f e) (ls_emitter ls)) req"

record 'r WalletGroups =
  h_crossmint :: "crossmint_adapter option"
  h_tempo :: tempo_adapter
  h_ks :: AESKeystore
  h_limits :: "'r limits_service option"
  h_publisher :: bool
  h_crossMintChainDefault :: string

definition NewWalletGroups ::
    "crossmint_adapter option \<Rightarrow> tempo_adapter \<Rightarrow> AESKeystore \<Rightarrow> 'r limits_service option \<Rightarrow> bool \<Rightarrow> 'r WalletGroups" where
  "NewWalletGroups cm tp ks limitsSvc pub =
     \<lparr> h_crossmint = cm, h_tempo = tp, h_ks = ks, h_limits = limitsSvc, h_publisher = pub,
       h_crossMintChainDefault = ''base'' \<rparr>"

definition WalletGroups_publish ::
    "'r WalletGroups \<Rightarrow> env \<Rightarrow> string \<Rightarrow> string \<Rightarrow> json \<Rightarrow> ResourceRefs \<Rightarrow> db \<Rightarrow> db" where
  "WalletGroups_publish h e tenantID eventType data refs d =
     (if h_publisher h then snd (Publish e tenantID eventType (Some data) refs d) else d)"

text \<open>The group of a request, with the guard against another tenant's id.\<close>

definition load_group :: "env \<Rightarrow> string \<Rightarrow> string \<Rightarrow> string \<Rightarrow> db \<Rightarrow> WalletGroup option" where
  "load_group e site tenantID groupID d =
     (case db_read (fault e site []) (GetWalletGroupByID groupID d) of
        Inl _ \<Rightarrow> None
      | Inr g \<Rightarrow> if wg_TenantID g \<noteq> tenantID then None else Some g)"

lemma load_group_Some:
  assumes "load_group e site tenantID groupID d = Some g"
  shows "g \<in> set (wallet_groups d)" "wg_ID g = groupID" "wg_TenantID g = tenantID" "wg_DeletedAt g = None"
  using assms by (auto simp: load_group_def db_read_Inr GetWalletGroupByID_def dest!: select_one_D split: sum.splits if_splits)

end
