(* ===== verification/Wallet_Groups.thy ===== *)
theory Wallet_Groups
  imports Handlers
begin

text \<open>
  \<open>wallet_groups.go\<close>, \<open>wallet_group_capabilities.go\<close> and \<open>wallet_group_onramp.go\<close>: creating and
  reading wallet groups, the capability table, and fiat onramp orders.
\<close>

section \<open>Data\<close>

record CreateGroupRequest =
  cg_OwnerType :: string
  cg_OwnerRef :: string
  cg_ParentGroupID :: string
  cg_DisplayName :: string
  cg_CrossMintChain :: string
  cg_Custody :: string
  cg_ExternalAddresses :: "(string \<times> string) list"

record WalletView =
  vw_ID :: string
  vw_Rail :: string
  vw_Chain :: string
  vw_Address :: string
  vw_Custody :: string
  vw_ProviderLocator :: string
  vw_Status :: string

record GroupView =
  gv_ID :: string
  gv_TenantID :: string
  gv_OwnerType :: string
  gv_OwnerRef :: string
  gv_ParentGroupID :: string
  gv_Custody :: string
  gv_DisplayName :: string
  gv_Wallets :: "WalletView list"
  gv_CreatedAt :: string
  gv_Reused :: bool

definition wallet_view_json :: "WalletView \<Rightarrow> json" where
  "wallet_view_json v = JObj
     ([(''id'', JStr (vw_ID v)), (''rail'', JStr (vw_Rail v)), (''chain'', JStr (vw_Chain v)), (''address'', JStr (vw_Address v)),
       (''custody'', JStr (vw_Custody v))] @ opt_str ''provider_locator'' (vw_ProviderLocator v) @ [(''status'', JStr (vw_Status v))])"

definition group_view_json :: "GroupView \<Rightarrow> json" where
  "group_view_json v = JObj
     ([(''id'', JStr (gv_ID v)), (''tenant_id'', JStr (gv_TenantID v)), (''owner_type'', JStr (gv_OwnerType v)),
       (''owner_ref'', JStr (gv_OwnerRef v))] @ opt_str ''parent_group_id'' (gv_ParentGroupID v)
      @ [(''custody'', JStr (gv_Custody v))] @ opt_str ''display_name'' (gv_DisplayName v)
      @ [(''wallets'', JArr (map wallet_view_json (gv_Wallets v)))]
      @ opt_str ''created_at'' (gv_CreatedAt v) @ opt_bool ''_reused'' (gv_Reused v))"

definition toWalletView :: "Wallet \<Rightarrow> WalletView" where
  "toWalletView w =
     \<lparr> vw_ID = wl_ID w, vw_Rail = wl_Rail w, vw_Chain = wl_Chain w, vw_Address = wl_Address w, vw_Custody = wl_Custody w,
       vw_ProviderLocator = wl_ProviderLocator w, vw_Status = wl_Status w \<rparr>"

definition toGroupViewWithReuse :: "WalletGroup \<Rightarrow> Wallet list \<Rightarrow> bool \<Rightarrow> GroupView" where
  "toGroupViewWithReuse g ws reused =
     \<lparr> gv_ID = wg_ID g, gv_TenantID = wg_TenantID g, gv_OwnerType = wg_OwnerType g, gv_OwnerRef = wg_OwnerRef g,
       gv_ParentGroupID = text_String (wg_ParentGroupID g), gv_Custody = wg_Custody g,
       gv_DisplayName = text_String (wg_DisplayName g), gv_Wallets = map toWalletView ws,
       gv_CreatedAt = Format_RFC3339_UTC (wg_CreatedAt g), gv_Reused = reused \<rparr>"

definition toGroupView :: "WalletGroup \<Rightarrow> Wallet list \<Rightarrow> GroupView" where
  "toGroupView g ws = toGroupViewWithReuse g ws False"

section \<open>Validation\<close>

text \<open>The loop over the map of external addresses, in the order of this run.\<close>

fun validate_addresses :: "(string \<times> string) list \<Rightarrow> string option" where
  "validate_addresses [] = None"
| "validate_addresses ((rail, addr) # as) =
     (if rail \<noteq> ''tempo'' \<and> rail \<noteq> ''crossmint'' then Some (''external_addresses: unsupported rail '' @ go_quote rail)
      else if addr = [] then Some (''external_addresses.'' @ rail @ '': address is empty'')
      else if 200 < length addr then Some (''external_addresses.'' @ rail @ '': address too long'')
      else validate_addresses as)"

definition owner_types :: "string list" where
  "owner_types = [''user'', ''agent'', ''merchant'', ''treasury'']"

definition validateCreateGroup :: "CreateGroupRequest \<Rightarrow> string option" where
  "validateCreateGroup r =
     (if cg_OwnerType r \<notin> set owner_types then
        Some (''owner.type must be one of '' @ go_quote ''user'' @ '', '' @ go_quote ''agent'' @ '', ''
          @ go_quote ''merchant'' @ '', '' @ go_quote ''treasury'')
      else if cg_OwnerRef r = [] then Some ''owner.ref is required''
      else if 200 < length (cg_OwnerRef r) then Some ''owner.ref too long''
      else if cg_OwnerType r = ''agent'' \<and> cg_ParentGroupID r = [] then
        Some (''parent_group_id is required when owner.type is '' @ [CHR 39] @ ''agent'' @ [CHR 39])
      else if cg_Custody r = [] \<or> cg_Custody r = ''platform'' then
        (if cg_ExternalAddresses r \<noteq> [] then Some (''external_addresses only valid when custody='' @ go_quote ''user'') else None)
      else if cg_Custody r = ''user'' then
        (if cg_ExternalAddresses r = [] then Some (''external_addresses is required when custody='' @ go_quote ''user'')
         else validate_addresses (cg_ExternalAddresses r))
      else Some (''custody must be one of '' @ go_quote ''platform'' @ '' (default), '' @ go_quote ''user''))"

section \<open>Create\<close>

text \<open>
  What the wallets of a new group are made of: address and locator on CrossMint, address and (for
  platform custody) the encrypted key with its version on Tempo.
\<close>

record provision =
  pn_crossmint :: "(string \<times> string) option"
  pn_tempo :: "(string \<times> (bytes \<times> int) option) option"

definition provision_platform ::
    "'r WalletGroups \<Rightarrow> env \<Rightarrow> string \<Rightarrow> string \<Rightarrow> string \<Rightarrow> (response + provision) \<times> cm_request list" where
  "provision_platform h e tenantID ownerRef cmChain =
     (let tempo_half = (\<lambda>cm. case GenerateKeypair (ta_geth (h_tempo h)) ''WalletGroups.Create'' of
                          Inl _ \<Rightarrow> Inl internalError
                        | Inr (priv, addr) \<Rightarrow>
                            (case Encrypt (h_ks h) (rand_bytes e ''WalletGroups.Create.Encrypt'' []) priv of
                               Inl _ \<Rightarrow> Inl internalError
                             | Inr (blob, ver) \<Rightarrow> Inr \<lparr> pn_crossmint = cm, pn_tempo = Some (addr, Some (blob, ver)) \<rparr>)) in
      case h_crossmint h of
        None \<Rightarrow> (tempo_half None, [])
      | Some cm \<Rightarrow>
          (case cm_CreateWallet cm
                  \<lparr> cw_Rail = RailCrossMint, cw_Chain = cmChain,
                    cw_Owner = \<lparr> ow_Type = ''external'', ow_Value = ''atara:'' @ tenantID @ '':'' @ ownerRef \<rparr>,
                    cw_Type = ''smart'' \<rparr> of
             (Inl err, calls) \<Rightarrow> (Inl (upstreamError ''crossmint'' err), calls)
           | (Inr w, calls) \<Rightarrow> (tempo_half (Some (rw_Address w, rw_Locator w)), calls)))"

definition provision_user :: "CreateGroupRequest \<Rightarrow> provision" where
  "provision_user req =
     \<lparr> pn_crossmint = map_option (\<lambda>a. (a, a)) (map_of (cg_ExternalAddresses req) ''crossmint''),
       pn_tempo = map_option (\<lambda>a. (a, None)) (map_of (cg_ExternalAddresses req) ''tempo'') \<rparr>"

definition group_row :: "env \<Rightarrow> string \<Rightarrow> string \<Rightarrow> CreateGroupRequest \<Rightarrow> WalletGroup" where
  "group_row e tenantID custody req =
     \<lparr> wg_ID = fresh_id e ''WalletGroups.Create.wg'' [], wg_TenantID = tenantID, wg_OwnerType = cg_OwnerType req,
       wg_OwnerRef = cg_OwnerRef req, wg_ParentGroupID = pgxText (cg_ParentGroupID req), wg_Custody = custody,
       wg_DisplayName = pgxText (cg_DisplayName req), wg_Metadata = empty_object, wg_CreatedAt = 0, wg_UpdatedAt = 0,
       wg_DeletedAt = None \<rparr>"

definition wallet_row ::
    "env \<Rightarrow> string \<Rightarrow> string \<Rightarrow> string \<Rightarrow> string \<Rightarrow> string \<Rightarrow> string \<Rightarrow> string \<Rightarrow> (bytes \<times> int) option \<Rightarrow> Wallet" where
  "wallet_row e groupID tenantID rail chain addr locator custody key =
     \<lparr> wl_ID = fresh_id e ''WalletGroups.Create.wlt'' rail, wl_GroupID = groupID, wl_TenantID = tenantID, wl_Rail = rail,
       wl_Chain = chain, wl_Address = addr, wl_ProviderLocator = locator, wl_Custody = custody,
       wl_EncryptedPrivateKey = map_option fst key, wl_KeyVersion = map_option snd key, wl_Status = ''active'',
       wl_Metadata = empty_object, wl_CreatedAt = 0, wl_UpdatedAt = 0 \<rparr>"

definition insert_wallet :: "env \<Rightarrow> Wallet \<Rightarrow> db \<Rightarrow> Wallet query_result \<times> db" where
  "insert_wallet e w d =
     db_write (fault e ''WalletGroups.Create.CreateWallet'' (wl_Rail w)) d
       (CreateWallet (clock e ''WalletGroups.Create.sqlnow'' []) w d)"

text \<open>The wallets of a group inside the transaction: CrossMint first, then Tempo, each only when there is an address.\<close>

definition insert_wallets ::
    "env \<Rightarrow> string \<Rightarrow> string \<Rightarrow> string \<Rightarrow> string \<Rightarrow> provision \<Rightarrow> db \<Rightarrow> Wallet list query_result \<times> db" where
  "insert_wallets e groupID tenantID custody cmChain p d =
     (case (case pn_crossmint p of
              None \<Rightarrow> (Inr [], d)
            | Some (addr, loc) \<Rightarrow>
                (case insert_wallet e (wallet_row e groupID tenantID RailCrossMint cmChain addr loc custody None) d of
                   (Inl err, d1) \<Rightarrow> (Inl err, d1)
                 | (Inr row, d1) \<Rightarrow> (Inr [row], d1))) of
        (Inl err, d1) \<Rightarrow> (Inl err, d1)
      | (Inr ws, d1) \<Rightarrow>
          (case pn_tempo p of
             None \<Rightarrow> (Inr ws, d1)
           | Some (addr, key) \<Rightarrow>
               (case insert_wallet e (wallet_row e groupID tenantID RailTempo ChainTempo addr addr custody key) d1 of
                  (Inl err, d2) \<Rightarrow> (Inl err, d2)
                | (Inr row, d2) \<Rightarrow> (Inr (ws @ [row]), d2))))"

text \<open>The answer when the group exists already: the existing row, marked as reused.\<close>

definition reuse_group :: "env \<Rightarrow> string \<Rightarrow> WalletGroup \<Rightarrow> db \<Rightarrow> response" where
  "reuse_group e site g d =
     (case db_read (fault e site []) (Inr (ListWalletsByGroup (wg_ID g) d)) of
        Inl _ \<Rightarrow> internalError
      | Inr ws \<Rightarrow> Reply 200 (group_view_json (toGroupViewWithReuse g ws True)))"

text \<open>
  The database transaction of \<open>Create\<close>. Losing the race for \<open>(tenant_id, owner_ref)\<close> rolls back
  and answers with the winner.
\<close>

definition store_group ::
    "'r WalletGroups \<Rightarrow> env \<Rightarrow> string \<Rightarrow> string \<Rightarrow> string \<Rightarrow> CreateGroupRequest \<Rightarrow> provision \<Rightarrow> db \<Rightarrow> response \<times> db" where
  "store_group h e tenantID custody cmChain req p d =
     (case fault e ''WalletGroups.Create.Begin'' [] of
        Some _ \<Rightarrow> (internalError, d)
      | None \<Rightarrow>
          (case db_write (fault e ''WalletGroups.Create.CreateWalletGroup'' []) d
                  (CreateWalletGroup (clock e ''WalletGroups.Create.sqlnow'' []) (group_row e tenantID custody req) d) of
             (Inl err, _) \<Rightarrow>
               if isUniqueViolation err then
                 (case db_read (fault e ''WalletGroups.Create.winner'' []) (GetWalletGroupByOwnerRef tenantID (cg_OwnerRef req) d) of
                    Inl _ \<Rightarrow> (internalError, d)
                  | Inr winner \<Rightarrow> (reuse_group e ''WalletGroups.Create.winner.ListWalletsByGroup'' winner d, d))
               else (internalError, d)
           | (Inr g, d1) \<Rightarrow>
               (case insert_wallets e (wg_ID g) tenantID custody cmChain p d1 of
                  (Inl _, _) \<Rightarrow> (internalError, d)
                | (Inr ws, d2) \<Rightarrow>
                    (case fault e ''WalletGroups.Create.Commit'' [] of
                       Some _ \<Rightarrow> (internalError, d)
                     | None \<Rightarrow>
                         (let view = group_view_json (toGroupView g ws)
                          in (Reply 201 view,
                              WalletGroups_publish h e tenantID EventWalletGroupCreated view (no_refs\<lparr>rr_GroupID := wg_ID g\<rparr>) d2))))))"

definition WalletGroups_Create ::
    "'r WalletGroups \<Rightarrow> env \<Rightarrow> request_ctx \<Rightarrow> CreateGroupRequest option \<Rightarrow> 'r world \<Rightarrow> response \<times> 'r world" where
  "WalletGroups_Create h e cx body s =
     (let tenantID = cx_TenantID cx; d = w_db s in
      if tenantID = [] then (badRequest ''missing tenant context'', s)
      else
        (case body of
           None \<Rightarrow> (badRequest ''invalid JSON body'', s)
         | Some req0 \<Rightarrow>
             (let req = req0\<lparr>cg_OwnerRef := TrimSpace (cg_OwnerRef req0)\<rparr> in
              case validateCreateGroup req of
                Some msg \<Rightarrow> (badRequest msg, s)
              | None \<Rightarrow>
                  (case db_read (fault e ''WalletGroups.Create.GetWalletGroupByOwnerRef'' [])
                          (GetWalletGroupByOwnerRef tenantID (cg_OwnerRef req) d) of
                     Inr existing \<Rightarrow> (reuse_group e ''WalletGroups.Create.ListWalletsByGroup'' existing d, s)
                   | Inl _ \<Rightarrow>
                       (let custody = (if cg_Custody req = ''user'' then ''user'' else ''platform'');
                            cmChain = (if cg_CrossMintChain req = [] then h_crossMintChainDefault h else cg_CrossMintChain req);
                            prov = (if custody = ''platform'' then provision_platform h e tenantID (cg_OwnerRef req) cmChain
                                    else (Inr (provision_user req), [])) in
                        case prov of
                          (Inl resp, calls) \<Rightarrow> (resp, s\<lparr>w_provider := w_provider s @ calls\<rparr>)
                        | (Inr p, calls) \<Rightarrow>
                            (case store_group h e tenantID custody cmChain req p d of
                               (resp, d1) \<Rightarrow> (resp, s\<lparr>w_db := d1, w_provider := w_provider s @ calls\<rparr>)))))))"

section \<open>Get, List\<close>

definition WalletGroups_Get :: "env \<Rightarrow> request_ctx \<Rightarrow> db \<Rightarrow> response" where
  "WalletGroups_Get e cx d =
     (if cx_TenantID cx = [] then badRequest ''missing tenant context''
      else if cx_Params cx ''id'' = [] then badRequest ''missing id''
      else
        (case load_group e ''WalletGroups.Get.GetWalletGroupByID'' (cx_TenantID cx) (cx_Params cx ''id'') d of
           None \<Rightarrow> notFound ''wallet group not found''
         | Some g \<Rightarrow>
             (case db_read (fault e ''WalletGroups.Get.ListWalletsByGroup'' []) (Inr (ListWalletsByGroup (wg_ID g) d)) of
                Inl _ \<Rightarrow> internalError
              | Inr ws \<Rightarrow> Reply 200 (group_view_json (toGroupView g ws)))))"

fun list_views :: "env \<Rightarrow> WalletGroup list \<Rightarrow> db \<Rightarrow> json list option" where
  "list_views e [] d = Some []"
| "list_views e (g # gs) d =
     (case db_read (fault e ''WalletGroups.List.ListWalletsByGroup'' (wg_ID g)) (Inr (ListWalletsByGroup (wg_ID g) d)) of
        Inl _ \<Rightarrow> None
      | Inr ws \<Rightarrow> map_option (Cons (group_view_json (toGroupView g ws))) (list_views e gs d))"

definition WalletGroups_List :: "env \<Rightarrow> request_ctx \<Rightarrow> db \<Rightarrow> response" where
  "WalletGroups_List e cx d =
     (if cx_TenantID cx = [] then badRequest ''missing tenant context''
      else
        (case db_read (fault e ''WalletGroups.List.ListWalletGroupsInTenant'' [])
                (paged (page_bounds cx) (\<lambda>l off. ListWalletGroupsInTenant (cx_TenantID cx) l off d)) of
           Inl _ \<Rightarrow> internalError
         | Inr gs \<Rightarrow>
             (case list_views e gs d of
                None \<Rightarrow> internalError
              | Some views \<Rightarrow> Reply 200 (JObj [(''data'', JArr views)]))))"

section \<open>wallet\_group\_capabilities.go\<close>

record WalletCapabilities =
  wc_WalletID :: string
  wc_Rail :: string
  wc_Chain :: string
  wc_Custody :: string
  wc_CanReadBalance :: bool
  wc_CanReadBalanceWhy :: string
  wc_CanTransfer :: bool
  wc_CanTransferWhy :: string
  wc_CanPrepareSubmit :: bool
  wc_CanPrepareSubmitWhy :: string
  wc_CanOnramp :: bool
  wc_CanOnrampWhy :: string
  wc_CanMintSessionKey :: bool
  wc_CanMintSessionKeyWhy :: string

definition capabilities_json :: "WalletCapabilities \<Rightarrow> json" where
  "capabilities_json c = JObj
     ([(''wallet_id'', JStr (wc_WalletID c)), (''rail'', JStr (wc_Rail c)), (''chain'', JStr (wc_Chain c)),
       (''custody'', JStr (wc_Custody c)), (''can_read_balance'', JBool (wc_CanReadBalance c))]
      @ opt_str ''can_read_balance_reason'' (wc_CanReadBalanceWhy c)
      @ [(''can_transfer'', JBool (wc_CanTransfer c))] @ opt_str ''can_transfer_reason'' (wc_CanTransferWhy c)
      @ [(''can_prepare_submit'', JBool (wc_CanPrepareSubmit c))] @ opt_str ''can_prepare_submit_reason'' (wc_CanPrepareSubmitWhy c)
      @ [(''can_onramp'', JBool (wc_CanOnramp c))] @ opt_str ''can_onramp_reason'' (wc_CanOnrampWhy c)
      @ [(''can_mint_session_key'', JBool (wc_CanMintSessionKey c))]
      @ opt_str ''can_mint_session_key_reason'' (wc_CanMintSessionKeyWhy c))"

definition mpc_unsupported :: string where "mpc_unsupported = ''MPC custody not yet supported (M15)''"

definition capabilitiesFor :: "Wallet \<Rightarrow> WalletCapabilities" where
  "capabilitiesFor w =
     (let c = \<lparr> wc_WalletID = wl_ID w, wc_Rail = wl_Rail w, wc_Chain = wl_Chain w, wc_Custody = wl_Custody w,
               wc_CanReadBalance = True, wc_CanReadBalanceWhy = [], wc_CanTransfer = False, wc_CanTransferWhy = [],
               wc_CanPrepareSubmit = False, wc_CanPrepareSubmitWhy = [], wc_CanOnramp = False, wc_CanOnrampWhy = [],
               wc_CanMintSessionKey = False, wc_CanMintSessionKeyWhy = [] \<rparr>;
          cm = (wl_Rail w = RailCrossMint); tp = (wl_Rail w = RailTempo) in
      if wl_Custody w = ''platform'' then
        c\<lparr>wc_CanTransfer := True, wc_CanOnramp := cm,
          wc_CanOnrampWhy := (if cm then [] else ''onramp is only available on the CrossMint rail today''),
          wc_CanMintSessionKey := True,
          wc_CanPrepareSubmitWhy := ''prepare/submit is for user-custody wallets; platform-custody uses .../transactions directly''\<rparr>
      else if wl_Custody w = ''user'' then
        c\<lparr>wc_CanTransferWhy := ''user-custody wallet: server has no key. Use POST .../transactions/prepare + .../submit'',
          wc_CanPrepareSubmit := tp,
          wc_CanPrepareSubmitWhy := (if tp then [] else ''user-custody '' @ wl_Rail w
             @ '' rail not yet wired (Phase 4); only tempo supports prepare/submit today''),
          wc_CanOnrampWhy := ''user-custody onramp requires CrossMint linked-external-wallet (Phase 5+)'',
          wc_CanMintSessionKey := tp,
          wc_CanMintSessionKeyWhy := (if tp then [] else ''user-custody session keys are tempo-only today; '' @ wl_Rail w @ '' support is Phase 5+'')\<rparr>
      else if wl_Custody w = ''mpc'' then
        c\<lparr>wc_CanTransferWhy := mpc_unsupported, wc_CanPrepareSubmitWhy := mpc_unsupported,
          wc_CanOnrampWhy := mpc_unsupported, wc_CanMintSessionKeyWhy := mpc_unsupported\<rparr>
      else c)"

definition WalletGroups_Capabilities :: "env \<Rightarrow> request_ctx \<Rightarrow> db \<Rightarrow> response" where
  "WalletGroups_Capabilities e cx d =
     (if cx_TenantID cx = [] then badRequest ''missing tenant context''
      else if cx_Params cx ''id'' = [] then badRequest ''missing id''
      else
        (case load_group e ''Capabilities.GetWalletGroupByID'' (cx_TenantID cx) (cx_Params cx ''id'') d of
           None \<Rightarrow> notFound ''wallet group not found''
         | Some g \<Rightarrow>
             (case db_read (fault e ''Capabilities.ListWalletsByGroup'' []) (Inr (ListWalletsByGroup (wg_ID g) d)) of
                Inl _ \<Rightarrow> internalError
              | Inr ws \<Rightarrow> Reply 200 (JObj
                  [(''group_id'', JStr (wg_ID g)), (''owner_type'', JStr (wg_OwnerType g)), (''custody'', JStr (wg_Custody g)),
                   (''wallets'', JArr (map (\<lambda>w. capabilities_json (capabilitiesFor w)) ws))]))))"

section \<open>wallet\_group\_onramp.go\<close>

record GroupOnrampRequest =
  gr_FiatAmount :: string
  gr_FiatCurrency :: string
  gr_Asset :: string
  gr_Chain :: string
  gr_IdempotencyKey :: string

record OnrampOrderView =
  ov_ID :: string
  ov_Status :: string
  ov_Provider :: string
  ov_WalletID :: string
  ov_FiatAmount :: string
  ov_FiatCurrency :: string
  ov_Asset :: string
  ov_Chain :: string
  ov_CheckoutURL :: string
  ov_ProviderOrderID :: string
  ov_CreatedAt :: string
  ov_ExpiresAt :: string

definition onramp_view_json :: "OnrampOrderView \<Rightarrow> json" where
  "onramp_view_json v = JObj
     ([(''id'', JStr (ov_ID v)), (''status'', JStr (ov_Status v)), (''provider'', JStr (ov_Provider v)),
       (''wallet_id'', JStr (ov_WalletID v)), (''fiat_amount'', JStr (ov_FiatAmount v)),
       (''fiat_currency'', JStr (ov_FiatCurrency v)), (''asset'', JStr (ov_Asset v)), (''chain'', JStr (ov_Chain v))]
      @ opt_str ''checkout_url'' (ov_CheckoutURL v) @ opt_str ''provider_order_id'' (ov_ProviderOrderID v)
      @ opt_str ''created_at'' (ov_CreatedAt v) @ opt_str ''expires_at'' (ov_ExpiresAt v))"

definition toOnrampView :: "OnrampOrder \<Rightarrow> OnrampOrderView" where
  "toOnrampView r =
     \<lparr> ov_ID = oo_ID r, ov_Status = oo_Status r, ov_Provider = oo_Provider r, ov_WalletID = oo_WalletID r,
       ov_FiatAmount = oo_FiatAmount r, ov_FiatCurrency = oo_FiatCurrency r, ov_Asset = oo_Asset r, ov_Chain = oo_Chain r,
       ov_CheckoutURL = text_String (oo_CheckoutUrl r), ov_ProviderOrderID = text_String (oo_ProviderOrderID r),
       ov_CreatedAt = Format_RFC3339_UTC (oo_CreatedAt r),
       ov_ExpiresAt = (case oo_ExpiresAt r of None \<Rightarrow> [] | Some t \<Rightarrow> Format_RFC3339_UTC t) \<rparr>"

definition validateOnramp :: "GroupOnrampRequest \<Rightarrow> string option" where
  "validateOnramp r =
     (if gr_FiatAmount r = [] then Some ''fiat.amount is required''
      else if gr_FiatCurrency r = [] then Some ''fiat.currency is required''
      else if gr_Asset r = [] then Some ''asset is required''
      else None)"

definition dash_to_underscore :: "string \<Rightarrow> string" where
  "dash_to_underscore s = map (\<lambda>c. if c = CHR ''-'' then CHR ''_'' else c) s"

definition mapOnrampStatus :: "string \<Rightarrow> string" where
  "mapOnrampStatus provider =
     (let p = ToLower (dash_to_underscore provider) in
      if p = ''checkout_ready'' \<or> p = ''awaiting_payment'' then ''checkout_opened''
      else if p = ''paid'' \<or> p = ''delivering'' \<or> p = ''completed'' \<or> p = ''failed'' \<or> p = ''expired'' then p
      else ''pending'')"

definition pgxTimestamptz :: "time \<Rightarrow> time option" where
  "pgxTimestamptz t = (if IsZero t then None else Some t)"

definition onramp_row ::
    "env \<Rightarrow> string \<Rightarrow> string \<Rightarrow> WalletGroup \<Rightarrow> Wallet \<Rightarrow> GroupOnrampRequest \<Rightarrow> string \<Rightarrow> RailOnrampOrder \<Rightarrow> OnrampOrder" where
  "onramp_row e tenantID apiKeyID g w req chain order =
     \<lparr> oo_ID = fresh_id e ''recordOnramp.ord'' [], oo_TenantID = tenantID, oo_WalletID = wl_ID w, oo_GroupID = wg_ID g,
       oo_Provider = ''crossmint'', oo_ProviderOrderID = pgxText (ro_ID order), oo_CheckoutUrl = pgxText (ro_CheckoutURL order),
       oo_FiatAmount = gr_FiatAmount req, oo_FiatCurrency = ToUpper (gr_FiatCurrency req), oo_Asset = gr_Asset req,
       oo_Chain = chain, oo_CryptoAmount = None, oo_Status = mapOnrampStatus (ro_Status order),
       oo_InitiatedByApikey = pgxText apiKeyID, oo_IdempotencyKey = pgxText (gr_IdempotencyKey req), oo_ErrorCode = None,
       oo_ErrorMessage = None, oo_Metadata = empty_object, oo_CreatedAt = 0, oo_UpdatedAt = 0,
       oo_ExpiresAt = pgxTimestamptz (clock e ''recordOnramp.now'' [] + 30 * minute), oo_CompletedAt = None \<rparr>"

definition recordOnramp ::
    "env \<Rightarrow> string \<Rightarrow> string \<Rightarrow> WalletGroup \<Rightarrow> Wallet \<Rightarrow> GroupOnrampRequest \<Rightarrow> string \<Rightarrow> RailOnrampOrder \<Rightarrow> db
     \<Rightarrow> OnrampOrder query_result \<times> db" where
  "recordOnramp e tenantID apiKeyID g w req chain order d =
     db_write (fault e ''recordOnramp.CreateOnrampOrder'' []) d
       (CreateOnrampOrder (pg e) (clock e ''recordOnramp.sqlnow'' []) (onramp_row e tenantID apiKeyID g w req chain order) d)"

definition onramp_rail_request :: "Wallet \<Rightarrow> GroupOnrampRequest \<Rightarrow> string \<Rightarrow> CreateOnrampRequest" where
  "onramp_rail_request w req chain =
     \<lparr> co_WalletID = wl_ID w, co_Fiat = \<lparr> fa_Amount = gr_FiatAmount req, fa_Currency = ToUpper (gr_FiatCurrency req) \<rparr>,
       co_Asset = gr_Asset req, co_Chain = chain \<rparr>"

definition WalletGroups_CreateOnramp ::
    "'r WalletGroups \<Rightarrow> env \<Rightarrow> request_ctx \<Rightarrow> GroupOnrampRequest option \<Rightarrow> 'r world \<Rightarrow> response \<times> 'r world" where
  "WalletGroups_CreateOnramp h e cx body s =
     (let tenantID = cx_TenantID cx; groupID = cx_Params cx ''id''; d = w_db s in
      if tenantID = [] then (badRequest ''missing tenant context'', s)
      else if groupID = [] then (badRequest ''missing group id'', s)
      else
        (case body of
           None \<Rightarrow> (badRequest ''invalid JSON body'', s)
         | Some req \<Rightarrow>
             (case validateOnramp req of
                Some msg \<Rightarrow> (badRequest msg, s)
              | None \<Rightarrow>
                  (case load_group e ''CreateOnramp.GetWalletGroupByID'' tenantID groupID d of
                     None \<Rightarrow> (notFound ''wallet group not found'', s)
                   | Some g \<Rightarrow>
                       (case h_crossmint h of
                          None \<Rightarrow> (Reply 503 (JObj
                            [(''error'', JStr ''onramp is not enabled on this gateway (CrossMint adapter not configured)''),
                             (''code'', JStr ''onramp_not_configured'')]), s)
                        | Some cm \<Rightarrow>
                            (case db_read (fault e ''CreateOnramp.GetWalletByGroupAndRail'' [])
                                    (GetWalletByGroupAndRail (wg_ID g) RailCrossMint d) of
                               Inl _ \<Rightarrow> (Reply 422 (error_body ''group has no active CrossMint wallet (onramp unavailable)''), s)
                             | Inr w \<Rightarrow>
                                 if wl_Custody w = ''user'' then
                                   (Reply 501 (JObj
                                      [(''error'', JStr ''user-custody wallet: onramp into external address not yet supported''),
                                       (''code'', JStr ''user_custody_onramp_unsupported''),
                                       (''next'', JStr ''M14 will add CrossMint linked-external-wallet onramp''),
                                       (''wallet'', JStr (wl_ID w)), (''custody'', JStr (wl_Custody w))]), s)
                                 else
                                   (let chain = (if gr_Chain req = [] then wl_Chain w else gr_Chain req) in
                                    case cm_CreateOnrampOrder cm e (onramp_rail_request w req chain) (wl_Address w) of
                                      (Inl err, calls) \<Rightarrow> (upstreamError ''crossmint'' err, s\<lparr>w_provider := w_provider s @ calls\<rparr>)
                                    | (Inr order, calls) \<Rightarrow>
                                        (case recordOnramp e tenantID (cx_APIKeyID cx) g w req chain order d of
                                           (Inl err, d1) \<Rightarrow>
                                             (Reply 500 (JObj
                                                [(''error'', JStr ''internal error recording onramp order (provider call succeeded)''),
                                                 (''provider'', JStr ''crossmint''), (''provider_order_id'', JStr (ro_ID order)),
                                                 (''checkout_url'', JStr (ro_CheckoutURL order)),
                                                 (''persist_error'', JStr (db_error_text err))]),
                                              s\<lparr>w_db := d1, w_provider := w_provider s @ calls\<rparr>)
                                         | (Inr row, d1) \<Rightarrow>
                                             (let view = onramp_view_json (toOnrampView row)
                                              in (Reply 201 view,
                                                  s\<lparr>w_provider := w_provider s @ calls,
                                                    w_db := WalletGroups_publish h e tenantID ''onramp.created'' view
                                                      (no_refs\<lparr>rr_WalletID := wl_ID w, rr_GroupID := wg_ID g,
                                                               rr_OnrampOrderID := oo_ID row\<rparr>) d1\<rparr>))))))))))"

end
