(* ===== verification/Transfers.thy ===== *)
theory Transfers
  imports Handlers
begin

text \<open>
  \<open>wallet_group_tx.go\<close> and \<open>wallet_group_tx_prepare.go\<close>: the endpoint that spends from a
  platform-custody wallet, and the prepare/submit pair for wallets whose key the customer holds.
\<close>

section \<open>wallet\_group\_tx.go\<close>

record SendTransactionRequest =
  st_To :: string
  st_Amount :: string
  st_Asset :: string
  st_IdempotencyKey :: string
  st_Rail :: string
  st_SignerID :: string

record TransactionView =
  tv_ID :: string
  tv_Rail :: string
  tv_Chain :: string
  tv_Status :: string
  tv_From :: string
  tv_To :: string
  tv_Amount :: string
  tv_Asset :: string
  tv_TxHash :: string
  tv_ProviderTxID :: string
  tv_CreatedAt :: string

definition tx_view_json :: "TransactionView \<Rightarrow> json" where
  "tx_view_json v = JObj
     ([(''id'', JStr (tv_ID v)), (''rail'', JStr (tv_Rail v)), (''chain'', JStr (tv_Chain v)),
       (''status'', JStr (tv_Status v)), (''from'', JStr (tv_From v)), (''to'', JStr (tv_To v)),
       (''amount'', JStr (tv_Amount v)), (''asset'', JStr (tv_Asset v))]
      @ opt_str ''tx_hash'' (tv_TxHash v) @ opt_str ''provider_tx_id'' (tv_ProviderTxID v)
      @ opt_str ''created_at'' (tv_CreatedAt v))"

definition toTxView :: "Transaction \<Rightarrow> TransactionView" where
  "toTxView t =
     \<lparr> tv_ID = tx_ID t, tv_Rail = tx_Rail t, tv_Chain = tx_Chain t, tv_Status = tx_Status t,
       tv_From = tx_WalletID t, tv_To = tx_Counterparty t, tv_Amount = tx_Amount t, tv_Asset = tx_Asset t,
       tv_TxHash = text_String (tx_TxHash t), tv_ProviderTxID = text_String (tx_ProviderTxID t),
       tv_CreatedAt = Format_RFC3339_UTC (tx_CreatedAt t) \<rparr>"

definition validateSendTx :: "SendTransactionRequest \<Rightarrow> string option" where
  "validateSendTx r =
     (if st_To r = [] then Some ''to is required''
      else if st_Amount r = [] then Some ''amount is required''
      else if st_Asset r = [] then Some ''asset is required''
      else None)"

definition routeRail :: "SendTransactionRequest \<Rightarrow> string + string" where
  "routeRail r =
     (if st_Rail r \<noteq> [] then
        (if st_Rail r = RailCrossMint \<or> st_Rail r = RailTempo then Inr (st_Rail r)
         else Inl (''unsupported rail override '' @ go_quote (st_Rail r)))
      else if ToUpper (st_Asset r) = ''USDC'' \<or> ToUpper (st_Asset r) = ''USDT'' then Inr RailCrossMint
      else if ToUpper (st_Asset r) = ''PATHUSD'' then Inr RailTempo
      else Inl (''no default rail for asset '' @ go_quote (st_Asset r) @ '' (pass body.rail to override)''))"

definition eventTypeForTxStatus :: "string \<Rightarrow> string" where
  "eventTypeForTxStatus st =
     (if st = ''succeeded'' \<or> st = ''pending'' \<or> st = ''broadcast'' then EventTransactionSucceeded
      else EventTransactionFailed)"

text \<open>The dispatchers return the result with the calls they made; a nil CrossMint adapter panics.\<close>

definition sendViaCrossMint ::
    "'r WalletGroups \<Rightarrow> Wallet \<Rightarrow> SendTransactionRequest \<Rightarrow> ((go_error + RailTransaction) \<times> cm_request list) option" where
  "sendViaCrossMint h w req =
     map_option (\<lambda>cm. cm_CreateTransaction cm
       \<lparr> ct_From = wl_Address w, ct_To = st_To req, ct_Amount = st_Amount req, ct_Asset = st_Asset req,
         ct_Chain = wl_Chain w \<rparr> (wl_ProviderLocator w)) (h_crossmint h)"

definition tempo_transfer_request :: "Wallet \<Rightarrow> SendTransactionRequest \<Rightarrow> CreateTransactionRequest" where
  "tempo_transfer_request w req =
     \<lparr> ct_From = wl_Address w, ct_To = st_To req, ct_Amount = st_Amount req, ct_Asset = st_Asset req,
       ct_Chain = ChainTempo \<rparr>"

definition sendViaTempo ::
    "'r WalletGroups \<Rightarrow> env \<Rightarrow> Wallet \<Rightarrow> SendTransactionRequest \<Rightarrow> (go_error + RailTransaction) \<times> eth_tx list" where
  "sendViaTempo h e w req =
     (case (wl_EncryptedPrivateKey w, wl_KeyVersion w) of
        (Some (b # bs), Some ver) \<Rightarrow>
          (case Decrypt (h_ks h) (b # bs) ver of
             Inl _ \<Rightarrow> (Inl (errors_New ''keystore decrypt''), [])
           | Inr priv \<Rightarrow> TransferWithKey (h_tempo h) e priv (tempo_transfer_request w req) (wl_Address w))
      | _ \<Rightarrow> (Inl (errors_New ''tempo wallet row has no encrypted key (schema invariant violated)''), []))"

definition transaction_row ::
    "env \<Rightarrow> string \<Rightarrow> string \<Rightarrow> string \<Rightarrow> WalletGroup \<Rightarrow> Wallet \<Rightarrow> SendTransactionRequest \<Rightarrow> RailTransaction \<Rightarrow> Transaction" where
  "transaction_row e tenantID apiKeyID sessionKeyID g w req artifact =
     \<lparr> tx_ID = fresh_id e ''recordTransaction.tx'' [], tx_TenantID = tenantID, tx_WalletID = wl_ID w, tx_GroupID = wg_ID g,
       tx_Rail = wl_Rail w, tx_Chain = wl_Chain w, tx_Direction = ''outbound'', tx_Counterparty = st_To req,
       tx_Amount = st_Amount req, tx_Asset = st_Asset req, tx_AmountUsd = None, tx_Status = rt_Status artifact,
       tx_TxHash = pgxText (rt_TxHash artifact), tx_BlockNumber = None, tx_ProviderTxID = pgxText (rt_ID artifact),
       tx_SessionKeyID = pgxText sessionKeyID, tx_InitiatedByUser = None, tx_InitiatedByApikey = pgxText apiKeyID,
       tx_IdempotencyKey = pgxText (st_IdempotencyKey req), tx_ErrorCode = None, tx_ErrorMessage = None,
       tx_Metadata = empty_object, tx_CreatedAt = 0, tx_UpdatedAt = 0, tx_BroadcastAt = None, tx_ConfirmedAt = None \<rparr>"

definition recordTransaction ::
    "env \<Rightarrow> string \<Rightarrow> string \<Rightarrow> string \<Rightarrow> WalletGroup \<Rightarrow> Wallet \<Rightarrow> SendTransactionRequest \<Rightarrow> RailTransaction \<Rightarrow> db
     \<Rightarrow> Transaction query_result \<times> db" where
  "recordTransaction e tenantID apiKeyID sessionKeyID g w req artifact d =
     db_write (fault e ''recordTransaction.CreateTransaction'' []) d
       (CreateTransaction (pg e) (clock e ''recordTransaction.sqlnow'' [])
          (transaction_row e tenantID apiKeyID sessionKeyID g w req artifact) d)"

text \<open>
  The session key that authorizes a transfer: the empty id is no key; a key must exist, be of the
  tenant and of the wallet, be active and not expired.
\<close>

definition resolve_signer :: "env \<Rightarrow> string \<Rightarrow> Wallet \<Rightarrow> string \<Rightarrow> db \<Rightarrow> string + string" where
  "resolve_signer e tenantID w signerID d =
     (if signerID = [] then Inr []
      else
        (case db_read (fault e ''SendTransaction.GetSessionKeyByID'' []) (GetSessionKeyByID signerID d) of
           Inl _ \<Rightarrow> Inl ''signer_id is not a valid active session key for this wallet''
         | Inr sk \<Rightarrow>
             if sk_TenantID sk \<noteq> tenantID \<or> sk_WalletID sk \<noteq> wl_ID w \<or> sk_Status sk \<noteq> ''active''
             then Inl ''signer_id is not a valid active session key for this wallet''
             else if \<not> IsZero (sk_ExpiresAt sk) \<and> sk_ExpiresAt sk < clock e ''SendTransaction.now'' []
             then Inl ''session key expired''
             else Inr (sk_ID sk)))"

definition check_request :: "string \<Rightarrow> Wallet \<Rightarrow> string \<Rightarrow> SendTransactionRequest \<Rightarrow> CheckRequest" where
  "check_request tenantID w signerID req =
     \<lparr> cr_TenantID = tenantID, cr_WalletID = wl_ID w, cr_SessionKeyID = signerID, cr_Amount = st_Amount req,
       cr_Asset = st_Asset req, cr_Recipient = st_To req, cr_TransactionID = [] \<rparr>"

definition violation_json :: "Violation option \<Rightarrow> json" where
  "violation_json v =
     (case v of None \<Rightarrow> JNull
      | Some x \<Rightarrow> JObj [(''Type'', JStr (vi_Type x)), (''LimitValue'', JStr (vi_LimitValue x)),
                        (''CurrentUsed'', JStr (vi_CurrentUsed x)), (''Message'', JStr (vi_Message x))])"

text \<open>The limit gate: an answer that ends the request, or permission to go on.\<close>

definition limit_gate ::
    "'r WalletGroups \<Rightarrow> env \<Rightarrow> CheckRequest \<Rightarrow> db \<times> 'r \<Rightarrow> response option \<times> db \<times> 'r" where
  "limit_gate h e req s =
     (case h_limits h of
        None \<Rightarrow> (None, s)
      | Some ls \<Rightarrow>
          (case limits_Check ls e req s of
             (Inl _, s1) \<Rightarrow> (Some internalError, s1)
           | (Inr decision, s1) \<Rightarrow>
               if \<not> res_Allowed decision then
                 (Some (Reply 429 (JObj [(''error'', JStr ''spending limit exceeded''),
                          (''violation'', violation_json (res_Violation decision)),
                          (''policy_id'', JStr (res_PolicyID decision))])), s1)
               else (None, s1)))"

text \<open>The rail call. \<open>None\<close> is the panic of a nil adapter; \<open>routeRail\<close> returns no third rail.\<close>

definition dispatch ::
    "'r WalletGroups \<Rightarrow> env \<Rightarrow> string \<Rightarrow> Wallet \<Rightarrow> SendTransactionRequest \<Rightarrow> 'r world
     \<Rightarrow> (response + RailTransaction) option \<times> 'r world" where
  "dispatch h e rail w req s =
     (if rail = RailCrossMint then
        (case sendViaCrossMint h w req of
           None \<Rightarrow> (None, s)
         | Some (Inl err, calls) \<Rightarrow> (Some (Inl (upstreamError rail err)), s\<lparr>w_provider := w_provider s @ calls\<rparr>)
         | Some (Inr t, calls) \<Rightarrow> (Some (Inr t), s\<lparr>w_provider := w_provider s @ calls\<rparr>))
      else if rail = RailTempo then
        (case sendViaTempo h e w req of
           (Inl err, sent) \<Rightarrow> (Some (Inl (upstreamError rail err)), s\<lparr>w_chain := w_chain s @ sent\<rparr>)
         | (Inr t, sent) \<Rightarrow> (Some (Inr t), s\<lparr>w_chain := w_chain s @ sent\<rparr>))
      else (Some (Inl (Reply 501 (error_body (''rail '' @ rail @ '' is not yet supported by this endpoint'')))), s))"

definition record_failed :: "string \<Rightarrow> RailTransaction \<Rightarrow> db_error \<Rightarrow> response" where
  "record_failed rail t err = Reply 500 (JObj
     [(''error'', JStr ''internal error recording transaction (rail call succeeded)''), (''rail'', JStr rail),
      (''tx_hash'', JStr (rt_TxHash t)), (''provider_id'', JStr (rt_ID t)), (''persist_error'', JStr (db_error_text err))])"

definition user_custody_refusal :: "Wallet \<Rightarrow> response" where
  "user_custody_refusal w = Reply 501 (JObj
     [(''error'', JStr ''user-custody wallet requires client-side signing''),
      (''code'', JStr ''user_custody_signing_required''),
      (''next'', JStr ''POST /v1/wallet-groups/{id}/transactions/prepare (M14)''),
      (''wallet'', JStr (wl_ID w)), (''custody'', JStr (wl_Custody w))])"

text \<open>
  Everything a transfer has to pass before the limit gate: the group, the rail, the wallet and the
  signer it will use, or the answer that ends the request.
\<close>

definition transfer_target ::
    "env \<Rightarrow> request_ctx \<Rightarrow> SendTransactionRequest option \<Rightarrow> db
     \<Rightarrow> response + WalletGroup \<times> string \<times> Wallet \<times> string \<times> SendTransactionRequest" where
  "transfer_target e cx body d =
     (let tenantID = cx_TenantID cx; groupID = cx_Params cx ''id'' in
      if tenantID = [] then Inl (badRequest ''missing tenant context'')
      else if groupID = [] then Inl (badRequest ''missing group id'')
      else
        (case body of
           None \<Rightarrow> Inl (badRequest ''invalid JSON body'')
         | Some req \<Rightarrow>
             (case validateSendTx req of
                Some msg \<Rightarrow> Inl (badRequest msg)
              | None \<Rightarrow>
                  (case load_group e ''SendTransaction.GetWalletGroupByID'' tenantID groupID d of
                     None \<Rightarrow> Inl (notFound ''wallet group not found'')
                   | Some grp \<Rightarrow>
                       (case routeRail req of
                          Inl msg \<Rightarrow> Inl (badRequest msg)
                        | Inr rail \<Rightarrow>
                            (case db_read (fault e ''SendTransaction.GetWalletByGroupAndRail'' [])
                                    (GetWalletByGroupAndRail (wg_ID grp) rail d) of
                               Inl _ \<Rightarrow> Inl (Reply 422 (error_body (''group has no active '' @ rail @ '' wallet'')))
                             | Inr w \<Rightarrow>
                                 if wl_Custody w = ''user'' then Inl (user_custody_refusal w)
                                 else
                                   (case resolve_signer e tenantID w (st_SignerID req) d of
                                      Inl msg \<Rightarrow> Inl (Reply 403 (error_body msg))
                                    | Inr signerID \<Rightarrow> Inr (grp, rail, w, signerID, req))))))))"

definition WalletGroups_SendTransaction ::
    "'r WalletGroups \<Rightarrow> env \<Rightarrow> request_ctx \<Rightarrow> SendTransactionRequest option \<Rightarrow> 'r world \<Rightarrow> response \<times> 'r world" where
  "WalletGroups_SendTransaction h e cx body s =
     (case transfer_target e cx body (w_db s) of
        Inl resp \<Rightarrow> (resp, s)
      | Inr (grp, rail, w, signerID, req) \<Rightarrow>
          (case limit_gate h e (check_request (cx_TenantID cx) w signerID req) (w_db s, w_redis s) of
             (Some resp, d1, r1) \<Rightarrow> (resp, s\<lparr>w_db := d1, w_redis := r1\<rparr>)
           | (None, d1, r1) \<Rightarrow>
               (case dispatch h e rail w req (s\<lparr>w_db := d1, w_redis := r1\<rparr>) of
                  (None, s2) \<Rightarrow> (Panic, s2)
                | (Some (Inl resp), s2) \<Rightarrow> (resp, s2)
                | (Some (Inr artifact), s2) \<Rightarrow>
                    (case recordTransaction e (cx_TenantID cx) (cx_APIKeyID cx) signerID grp w req artifact (w_db s2) of
                       (Inl err, d3) \<Rightarrow> (record_failed rail artifact err, s2\<lparr>w_db := d3\<rparr>)
                     | (Inr txRow, d3) \<Rightarrow>
                         (let view = tx_view_json (toTxView txRow);
                              refs = no_refs\<lparr>rr_WalletID := wl_ID w, rr_GroupID := wg_ID grp,
                                             rr_TransactionID := tx_ID txRow, rr_SessionKeyID := signerID\<rparr>
                          in (Reply 201 view,
                              s2\<lparr>w_db := WalletGroups_publish h e (cx_TenantID cx)
                                   (eventTypeForTxStatus (tx_Status txRow)) view refs d3\<rparr>))))))"

end
