(* ===== verification/Prepared_Transfers.thy ===== *)
theory Prepared_Transfers
  imports Transfers
begin

text \<open>
  \<open>wallet_group_tx_prepare.go\<close>: the two-step flow for wallets in user custody. \<open>PrepareTransaction\<close>
  stores an unsigned transaction with an expiry in the metadata of a \<open>prepared\<close> row;
  \<open>SubmitTransaction\<close> broadcasts what the customer signed and moves the row on.
\<close>

section \<open>Data\<close>

record PrepareTransactionRequest =
  pr_To :: string
  pr_Amount :: string
  pr_Asset :: string
  pr_Memo :: string
  pr_IdempotencyKey :: string

record SubmitTransactionRequest =
  sb_PrepareID :: string
  sb_SignedTxHex :: string

record preparedTxMetadata =
  pm_Unsigned :: "UnsignedTransfer option"
  pm_Memo :: string
  pm_ExpiresAt :: string

record PreparedTxView =
  pv_PrepareID :: string
  pv_WalletID :: string
  pv_GroupID :: string
  pv_Rail :: string
  pv_Asset :: string
  pv_Amount :: string
  pv_From :: string
  pv_To :: string
  pv_Unsigned :: "UnsignedTransfer option"
  pv_Status :: string
  pv_ExpiresAt :: string
  pv_CreatedAt :: string

definition preparedTTL :: int where "preparedTTL = 15 * minute"

section \<open>JSON of the metadata\<close>

definition unsigned_json :: "UnsignedTransfer \<Rightarrow> json" where
  "unsigned_json u = JObj
     [(''chain_id'', JNum (int_to_dec (ut_ChainID u))), (''nonce'', JNum (int_to_dec (ut_Nonce u))), (''to'', JStr (ut_To u)),
      (''value_hex'', JStr (ut_ValueHex u)), (''gas_limit'', JNum (int_to_dec (ut_GasLimit u))),
      (''gas_price_hex'', JStr (ut_GasPriceHex u)), (''data_hex'', JStr (ut_DataHex u)),
      (''raw_unsigned_hex'', JStr (ut_RawUnsignedHex u))]"

definition opt_unsigned_json :: "UnsignedTransfer option \<Rightarrow> json" where
  "opt_unsigned_json u = (case u of None \<Rightarrow> JNull | Some x \<Rightarrow> unsigned_json x)"

definition prepared_meta_json :: "preparedTxMetadata \<Rightarrow> json" where
  "prepared_meta_json m = JObj
     ([(''unsigned'', opt_unsigned_json (pm_Unsigned m))] @ opt_str ''memo'' (pm_Memo m)
      @ [(''expires_at'', JStr (pm_ExpiresAt m))])"

definition prepared_view_json :: "PreparedTxView \<Rightarrow> json" where
  "prepared_view_json v = JObj
     ([(''prepare_id'', JStr (pv_PrepareID v)), (''wallet_id'', JStr (pv_WalletID v)), (''group_id'', JStr (pv_GroupID v)),
       (''rail'', JStr (pv_Rail v)), (''asset'', JStr (pv_Asset v)), (''amount'', JStr (pv_Amount v)),
       (''from'', JStr (pv_From v)), (''to'', JStr (pv_To v)), (''unsigned'', opt_unsigned_json (pv_Unsigned v)),
       (''status'', JStr (pv_Status v)), (''expires_at'', JStr (pv_ExpiresAt v))]
      @ opt_str ''created_at'' (pv_CreatedAt v))"

text \<open>
  \<open>json.Unmarshal\<close> into the metadata struct. A value of the wrong type is reported, but the
  other fields are still filled, so the decoder returns the struct together with a success flag. A
  number is stored when it is in the range of the field.
\<close>

definition dec_number :: "int \<Rightarrow> int \<Rightarrow> string \<Rightarrow> int option" where
  "dec_number lo hi s =
     (case big_SetString s of
        None \<Rightarrow> None
      | Some n \<Rightarrow> if lo \<le> n \<and> n \<le> hi \<and> (lo < 0 \<or> \<not> HasPrefix s ''-'') then Some n else None)"

definition set_num :: "int \<Rightarrow> int \<Rightarrow> int \<Rightarrow> json \<Rightarrow> int" where
  "set_num lo hi old v = (case v of JNum s \<Rightarrow> (case dec_number lo hi s of Some n \<Rightarrow> n | None \<Rightarrow> old) | _ \<Rightarrow> old)"

definition num_ok :: "int \<Rightarrow> int \<Rightarrow> json \<Rightarrow> bool" where
  "num_ok lo hi v \<longleftrightarrow> (case v of JNum s \<Rightarrow> dec_number lo hi s \<noteq> None | JNull \<Rightarrow> True | _ \<Rightarrow> False)"

definition dec_str :: "string \<Rightarrow> (string \<times> json) list \<Rightarrow> string \<Rightarrow> string" where
  "dec_str name fs old = foldl set_str old (field_values name fs)"

definition dec_num :: "int \<Rightarrow> int \<Rightarrow> string \<Rightarrow> (string \<times> json) list \<Rightarrow> int \<Rightarrow> int" where
  "dec_num lo hi name fs old = foldl (set_num lo hi) old (field_values name fs)"

abbreviation int64_min :: int where "int64_min \<equiv> - 9223372036854775808"
abbreviation int64_max :: int where "int64_max \<equiv> 9223372036854775807"
abbreviation uint64_max :: int where "uint64_max \<equiv> 18446744073709551615"

definition zero_unsigned :: UnsignedTransfer where
  "zero_unsigned = \<lparr> ut_ChainID = 0, ut_Nonce = 0, ut_To = [], ut_ValueHex = [], ut_GasLimit = 0, ut_GasPriceHex = [],
     ut_DataHex = [], ut_RawUnsignedHex = [] \<rparr>"

definition dec_unsigned :: "(string \<times> json) list \<Rightarrow> UnsignedTransfer \<Rightarrow> UnsignedTransfer" where
  "dec_unsigned fs u =
     \<lparr> ut_ChainID = dec_num int64_min int64_max ''chain_id'' fs (ut_ChainID u),
       ut_Nonce = dec_num 0 uint64_max ''nonce'' fs (ut_Nonce u), ut_To = dec_str ''to'' fs (ut_To u),
       ut_ValueHex = dec_str ''value_hex'' fs (ut_ValueHex u),
       ut_GasLimit = dec_num 0 uint64_max ''gas_limit'' fs (ut_GasLimit u),
       ut_GasPriceHex = dec_str ''gas_price_hex'' fs (ut_GasPriceHex u), ut_DataHex = dec_str ''data_hex'' fs (ut_DataHex u),
       ut_RawUnsignedHex = dec_str ''raw_unsigned_hex'' fs (ut_RawUnsignedHex u) \<rparr>"

definition unsigned_ok :: "(string \<times> json) list \<Rightarrow> bool" where
  "unsigned_ok fs \<longleftrightarrow>
     list_all (num_ok int64_min int64_max) (field_values ''chain_id'' fs)
     \<and> list_all (num_ok 0 uint64_max) (field_values ''nonce'' fs @ field_values ''gas_limit'' fs)
     \<and> list_all (\<lambda>n. list_all is_str_or_null (field_values n fs))
         [''to'', ''value_hex'', ''gas_price_hex'', ''data_hex'', ''raw_unsigned_hex'']"

definition set_unsigned :: "UnsignedTransfer option \<Rightarrow> json \<Rightarrow> UnsignedTransfer option" where
  "set_unsigned old v =
     (let cur = (case old of None \<Rightarrow> zero_unsigned | Some u \<Rightarrow> u) in
      case v of JNull \<Rightarrow> None | JObj fs \<Rightarrow> Some (dec_unsigned fs cur) | _ \<Rightarrow> Some cur)"

definition unsigned_value_ok :: "json \<Rightarrow> bool" where
  "unsigned_value_ok v \<longleftrightarrow> (case v of JNull \<Rightarrow> True | JObj fs \<Rightarrow> unsigned_ok fs | _ \<Rightarrow> False)"

definition zero_meta :: preparedTxMetadata where
  "zero_meta = \<lparr> pm_Unsigned = None, pm_Memo = [], pm_ExpiresAt = [] \<rparr>"

definition dec_meta :: "jsonb \<Rightarrow> preparedTxMetadata \<times> bool" where
  "dec_meta j =
     (case j of
        JVal (JObj fs) \<Rightarrow>
          (\<lparr> pm_Unsigned = foldl set_unsigned None (field_values ''unsigned'' fs), pm_Memo = dec_str ''memo'' fs [],
             pm_ExpiresAt = dec_str ''expires_at'' fs [] \<rparr>,
           list_all unsigned_value_ok (field_values ''unsigned'' fs)
           \<and> list_all is_str_or_null (field_values ''memo'' fs @ field_values ''expires_at'' fs))
      | JVal JNull \<Rightarrow> (zero_meta, True)
      | _ \<Rightarrow> (zero_meta, False))"

section \<open>PrepareTransaction\<close>

definition validatePrepareTx :: "PrepareTransactionRequest \<Rightarrow> string option" where
  "validatePrepareTx r =
     (if pr_To r = [] then Some ''to is required''
      else if pr_Amount r = [] then Some ''amount is required''
      else if pr_Asset r = [] then Some ''asset is required''
      else None)"

definition preparedRowToView :: "Transaction \<Rightarrow> PreparedTxView" where
  "preparedRowToView row =
     (let m = fst (dec_meta (tx_Metadata row)) in
      \<lparr> pv_PrepareID = tx_ID row, pv_WalletID = tx_WalletID row, pv_GroupID = tx_GroupID row, pv_Rail = tx_Rail row,
        pv_Asset = tx_Asset row, pv_Amount = tx_Amount row, pv_From = [], pv_To = tx_Counterparty row,
        pv_Unsigned = pm_Unsigned m, pv_Status = tx_Status row, pv_ExpiresAt = pm_ExpiresAt m,
        pv_CreatedAt = Format_RFC3339_UTC (tx_CreatedAt row) \<rparr>)"

definition prepare_transfer_request :: "Wallet \<Rightarrow> PrepareTransactionRequest \<Rightarrow> CreateTransactionRequest" where
  "prepare_transfer_request w req =
     \<lparr> ct_From = wl_Address w, ct_To = pr_To req, ct_Amount = pr_Amount req, ct_Asset = ToUpper (pr_Asset req),
       ct_Chain = ChainTempo \<rparr>"

definition prepared_meta :: "env \<Rightarrow> UnsignedTransfer \<Rightarrow> PrepareTransactionRequest \<Rightarrow> preparedTxMetadata" where
  "prepared_meta e built req =
     \<lparr> pm_Unsigned = Some built, pm_Memo = pr_Memo req,
       pm_ExpiresAt = Format_RFC3339_UTC (clock e ''PrepareTransaction.now'' [] + preparedTTL) \<rparr>"

definition prepared_row :: "env \<Rightarrow> string \<Rightarrow> WalletGroup \<Rightarrow> Wallet \<Rightarrow> PrepareTransactionRequest \<Rightarrow> UnsignedTransfer \<Rightarrow> Transaction" where
  "prepared_row e tenantID g w req built =
     \<lparr> tx_ID = fresh_id e ''PrepareTransaction.tx'' [], tx_TenantID = tenantID, tx_WalletID = wl_ID w, tx_GroupID = wg_ID g,
       tx_Rail = RailTempo, tx_Chain = ChainTempo, tx_Direction = ''outbound'', tx_Counterparty = pr_To req,
       tx_Amount = pr_Amount req, tx_Asset = ToUpper (pr_Asset req), tx_AmountUsd = None, tx_Status = ''prepared'',
       tx_TxHash = None, tx_BlockNumber = None, tx_ProviderTxID = None, tx_SessionKeyID = None, tx_InitiatedByUser = None,
       tx_InitiatedByApikey = None, tx_IdempotencyKey = pgxText (pr_IdempotencyKey req), tx_ErrorCode = None,
       tx_ErrorMessage = None, tx_Metadata = JVal (prepared_meta_json (prepared_meta e built req)),
       tx_CreatedAt = 0, tx_UpdatedAt = 0, tx_BroadcastAt = None, tx_ConfirmedAt = None \<rparr>"

text \<open>A request with a known idempotency key is answered with the row that is still prepared.\<close>

definition replayed_prepare :: "env \<Rightarrow> string \<Rightarrow> string \<Rightarrow> db \<Rightarrow> Transaction option" where
  "replayed_prepare e tenantID key d =
     (if key = [] then None
      else (case db_read (fault e ''PrepareTransaction.GetTransactionByIdempotencyKey'' [])
                   (GetTransactionByIdempotencyKey tenantID (pgxText key) d) of
              Inl _ \<Rightarrow> None
            | Inr existing \<Rightarrow> if tx_Status existing = ''prepared'' then Some existing else None))"

definition WalletGroups_PrepareTransaction ::
    "'r WalletGroups \<Rightarrow> env \<Rightarrow> request_ctx \<Rightarrow> PrepareTransactionRequest option \<Rightarrow> db \<Rightarrow> response \<times> db" where
  "WalletGroups_PrepareTransaction h e cx body d =
     (let tenantID = cx_TenantID cx; groupID = cx_Params cx ''id'' in
      if tenantID = [] then (badRequest ''missing tenant context'', d)
      else if groupID = [] then (badRequest ''missing group id'', d)
      else
        (case body of
           None \<Rightarrow> (badRequest ''invalid JSON body'', d)
         | Some req \<Rightarrow>
             (case validatePrepareTx req of
                Some msg \<Rightarrow> (badRequest msg, d)
              | None \<Rightarrow>
                  (case load_group e ''PrepareTransaction.GetWalletGroupByID'' tenantID groupID d of
                     None \<Rightarrow> (notFound ''wallet group not found'', d)
                   | Some g \<Rightarrow>
                       (case db_read (fault e ''PrepareTransaction.GetWalletByGroupAndRail'' [])
                               (GetWalletByGroupAndRail (wg_ID g) RailTempo d) of
                          Inl _ \<Rightarrow> (Reply 422 (error_body ''group has no active tempo wallet''), d)
                        | Inr w \<Rightarrow>
                            if wl_Custody w \<noteq> ''user'' then
                              (Reply 400 (JObj
                                 [(''error'', JStr (''prepare endpoint is for user-custody wallets only; ''
                                     @ ''platform-custody wallets use POST .../transactions'')),
                                  (''code'', JStr ''wrong_custody_for_prepare'')]), d)
                            else
                              (case replayed_prepare e tenantID (pr_IdempotencyKey req) d of
                                 Some existing \<Rightarrow> (Reply 200 (prepared_view_json (preparedRowToView existing)), d)
                               | None \<Rightarrow>
                                   (case BuildTransfer (h_tempo h) (wl_Address w) (prepare_transfer_request w req) of
                                      Inl err \<Rightarrow> (upstreamError ''tempo'' err, d)
                                    | Inr built \<Rightarrow>
                                        (case db_write (fault e ''PrepareTransaction.CreateTransaction'' []) d
                                                (CreateTransaction (pg e) (clock e ''PrepareTransaction.sqlnow'' [])
                                                   (prepared_row e tenantID g w req built) d) of
                                           (Inl _, d1) \<Rightarrow> (internalError, d1)
                                         | (Inr row, d1) \<Rightarrow>
                                             (Reply 201 (prepared_view_json (preparedRowToView row)), d1)))))))))"

section \<open>SubmitTransaction\<close>

text \<open>Whether the stored expiry lies in the past; an expiry that does not decode or parse does not expire.\<close>

definition prepared_expired :: "env \<Rightarrow> Transaction \<Rightarrow> bool" where
  "prepared_expired e row \<longleftrightarrow>
     (case dec_meta (tx_Metadata row) of
        (m, ok) \<Rightarrow> ok \<and> pm_ExpiresAt m \<noteq> []
          \<and> (case Parse_RFC3339 (pm_ExpiresAt m) of None \<Rightarrow> False | Some t \<Rightarrow> t < clock e ''SubmitTransaction.now'' []))"

definition submitted_body :: "Transaction \<Rightarrow> string \<Rightarrow> json" where
  "submitted_body r hash = JObj
     [(''id'', JStr (tx_ID r)), (''wallet_id'', JStr (tx_WalletID r)), (''group_id'', JStr (tx_GroupID r)),
      (''rail'', JStr (tx_Rail r)), (''asset'', JStr (tx_Asset r)), (''amount'', JStr (tx_Amount r)),
      (''to'', JStr (tx_Counterparty r)), (''status'', JStr (tx_Status r)), (''rail_tx_hash'', JStr hash)]"

definition submit_status :: "env \<Rightarrow> string \<Rightarrow> string \<Rightarrow> string option \<Rightarrow> db \<Rightarrow> Transaction query_result \<times> db" where
  "submit_status e i st hash d =
     db_write (fault e ''SubmitTransaction.UpdateTransactionStatus'' []) d
       (UpdateTransactionStatus (clock e ''SubmitTransaction.sqlnow'' []) i st hash None d)"

definition WalletGroups_SubmitTransaction ::
    "'r WalletGroups \<Rightarrow> env \<Rightarrow> request_ctx \<Rightarrow> SubmitTransactionRequest option \<Rightarrow> 'r world \<Rightarrow> response \<times> 'r world" where
  "WalletGroups_SubmitTransaction h e cx body s =
     (let tenantID = cx_TenantID cx; groupID = cx_Params cx ''id'' in
      if tenantID = [] then (badRequest ''missing tenant context'', s)
      else if groupID = [] then (badRequest ''missing group id'', s)
      else
        (case body of
           None \<Rightarrow> (badRequest ''invalid JSON body'', s)
         | Some req \<Rightarrow>
             if sb_PrepareID req = [] \<or> sb_SignedTxHex req = [] then
               (badRequest ''prepare_id and signed_tx_hex are required'', s)
             else
               (case db_read (fault e ''SubmitTransaction.GetTransactionByID'' []) (GetTransactionByID (sb_PrepareID req) (w_db s)) of
                  Inl _ \<Rightarrow> (notFound ''prepared transaction not found'', s)
                | Inr row \<Rightarrow>
                    if tx_TenantID row \<noteq> tenantID \<or> tx_GroupID row \<noteq> groupID then
                      (notFound ''prepared transaction not found'', s)
                    else if tx_Status row \<noteq> ''prepared'' then
                      (Reply 409 (JObj
                         [(''error'', JStr (''transaction is in status '' @ go_quote (tx_Status row)
                             @ ''; submit only valid for '' @ [CHR 39] @ ''prepared'' @ [CHR 39])),
                          (''code'', JStr ''wrong_status''), (''status'', JStr (tx_Status row))]), s)
                    else if prepared_expired e row then
                      (Reply 410 (JObj
                         [(''error'', JStr ''prepared transaction expired; re-prepare to refresh nonce/gas''),
                          (''code'', JStr ''prepared_expired'')]), s)
                    else
                      (case BroadcastSignedTx (h_tempo h) (sb_SignedTxHex req) of
                         (Inl err, sent) \<Rightarrow>
                           (upstreamError ''tempo'' err,
                            s\<lparr>w_chain := w_chain s @ sent, w_db := snd (submit_status e (tx_ID row) ''failed'' None (w_db s))\<rparr>)
                       | (Inr hash, sent) \<Rightarrow>
                           (case submit_status e (tx_ID row) ''broadcast'' (pgxText hash) (w_db s) of
                              (Inl _, d1) \<Rightarrow> (internalError, s\<lparr>w_chain := w_chain s @ sent, w_db := d1\<rparr>)
                            | (Inr updated, d1) \<Rightarrow>
                                (Reply 200 (submitted_body updated hash),
                                 s\<lparr>w_chain := w_chain s @ sent, w_db := d1\<rparr>))))))"

end
