(* ===== verification/Transfers_Spec.thy ===== *)
theory Transfers_Spec
  imports Transfers Session_Keys_Spec
begin

text \<open>
  What a transfer through \<open>POST /v1/wallet-groups/:id/transactions\<close> guarantees: money moves only
  for an authorized request that passed the limit gate, by at most one rail call that carries the
  amount and recipient of the request, and the amount taken from the budgets is the amount sent.
\<close>

section \<open>Authorization\<close>

text \<open>An active, unexpired session key of the tenant and the wallet, or no key at all.\<close>

definition signer_valid :: "env \<Rightarrow> string \<Rightarrow> Wallet \<Rightarrow> string \<Rightarrow> db \<Rightarrow> bool" where
  "signer_valid e tenantID w signerID d \<longleftrightarrow>
     signerID = [] \<or>
     (\<exists>sk \<in> set (session_keys d). sk_ID sk = signerID \<and> sk_TenantID sk = tenantID \<and> sk_WalletID sk = wl_ID w
        \<and> sk_Status sk = ''active'' \<and> (IsZero (sk_ExpiresAt sk) \<or> clock e ''SendTransaction.now'' [] \<le> sk_ExpiresAt sk))"

definition transfer_authorized ::
    "env \<Rightarrow> request_ctx \<Rightarrow> db \<Rightarrow> WalletGroup \<Rightarrow> string \<Rightarrow> Wallet \<Rightarrow> string \<Rightarrow> bool" where
  "transfer_authorized e cx d grp rail w signerID \<longleftrightarrow>
     cx_TenantID cx \<noteq> []
     \<and> grp \<in> set (wallet_groups d) \<and> wg_ID grp = cx_Params cx ''id'' \<and> wg_TenantID grp = cx_TenantID cx \<and> wg_DeletedAt grp = None
     \<and> w \<in> set (wallets d) \<and> wl_GroupID w = wg_ID grp \<and> wl_Rail w = rail \<and> wl_Status w = ''active'' \<and> wl_Custody w \<noteq> ''user''
     \<and> signer_valid e (cx_TenantID cx) w signerID d"

lemma resolve_signer_Inr:
  assumes "resolve_signer e tenantID w i d = Inr signerID"
  shows "signer_valid e tenantID w signerID d" "signerID = i"
  using assms by (auto simp: resolve_signer_def signer_valid_def GetSessionKeyByID_def db_read_Inr
      dest!: select_one_D split: if_splits sum.splits)

lemma routeRail_Inr: "routeRail req = Inr rail \<Longrightarrow> rail = RailCrossMint \<or> rail = RailTempo"
  by (auto simp: routeRail_def split: if_splits)

lemma transfer_target_Inr:
  assumes "transfer_target e cx body d = Inr (grp, rail, w, signerID, req)"
  shows "transfer_authorized e cx d grp rail w signerID" "body = Some req" "routeRail req = Inr rail"
    "signerID = st_SignerID req"
proof -
  have t: "cx_TenantID cx \<noteq> []" and b: "body = Some req"
    and g: "load_group e ''SendTransaction.GetWalletGroupByID'' (cx_TenantID cx) (cx_Params cx ''id'') d = Some grp"
    and r: "routeRail req = Inr rail"
    and w: "GetWalletByGroupAndRail (wg_ID grp) rail d = Inr w" and c: "wl_Custody w \<noteq> ''user''"
    and sg: "resolve_signer e (cx_TenantID cx) w (st_SignerID req) d = Inr signerID"
    using assms by (auto simp: transfer_target_def Let_def db_read_Inr split: if_splits option.splits sum.splits)
  have "w \<in> set (wallets d)" "wl_GroupID w = wg_ID grp" "wl_Rail w = rail" "wl_Status w = ''active''"
    using w by (auto simp: GetWalletByGroupAndRail_def dest!: select_one_D)
  then show "transfer_authorized e cx d grp rail w signerID"
    unfolding transfer_authorized_def using load_group_Some [OF g] t c resolve_signer_Inr(1) [OF sg] by blast
  show "body = Some req" "routeRail req = Inr rail" "signerID = st_SignerID req"
    using b r resolve_signer_Inr(2) [OF sg] by simp_all
qed

text \<open>Refusals before the gate carry a client error or 501, and none of them touches a rail.\<close>

lemma transfer_target_Inl:
  assumes "transfer_target e cx body d = Inl resp"
  shows "\<exists>st b. resp = Reply st b \<and> st \<in> {400, 403, 404, 422, 501}"
  using assms
  by (auto simp: transfer_target_def Let_def badRequest_def notFound_def user_custody_refusal_def
      split: if_splits option.splits sum.splits)

section \<open>The limit gate\<close>

definition gate_allowed :: "'r WalletGroups \<Rightarrow> env \<Rightarrow> CheckRequest \<Rightarrow> db \<times> 'r \<Rightarrow> bool" where
  "gate_allowed h e req s \<longleftrightarrow>
     (\<forall>ls. h_limits h = Some ls \<longrightarrow> (\<exists>res s1. limits_Check ls e req s = (Inr res, s1) \<and> res_Allowed res))"

lemma limit_gate_None:
  assumes "limit_gate h e req s = (None, s1)"
  shows "gate_allowed h e req s"
    "h_limits h = Some ls \<Longrightarrow> \<exists>res. limits_Check ls e req s = (Inr res, s1) \<and> res_Allowed res"
  using assms by (auto simp: limit_gate_def gate_allowed_def split: option.splits sum.splits prod.splits if_splits)

lemma limit_gate_Some:
  assumes "limit_gate h e req s = (Some resp, s1)"
  shows "\<exists>b. resp = Reply 500 b \<or> resp = Reply 429 b"
  using assms by (auto simp: limit_gate_def internalError_def split: option.splits sum.splits prod.splits if_splits)

section \<open>Rail calls\<close>

text \<open>The one call each rail makes for a transfer.\<close>

definition tempo_call :: "'r WalletGroups \<Rightarrow> Wallet \<Rightarrow> SendTransactionRequest \<Rightarrow> eth_tx \<Rightarrow> bool" where
  "tempo_call h w req tx \<longleftrightarrow>
     (\<exists>blob ver priv. wl_EncryptedPrivateKey w = Some blob \<and> wl_KeyVersion w = Some ver
        \<and> Decrypt (h_ks h) blob ver = Inr priv
        \<and> broadcasts_transfer (h_tempo h) priv (wl_Address w) (tempo_transfer_request w req) tx)"

definition crossmint_call :: "Wallet \<Rightarrow> SendTransactionRequest \<Rightarrow> cm_request \<Rightarrow> bool" where
  "crossmint_call w req call \<longleftrightarrow>
     call = \<lparr> cq_method = ''POST'',
       cq_path = ''/api/'' @ apiVersion @ ''/wallets/'' @ wl_ProviderLocator w @ ''/tokens/''
         @ token_locator (if wl_Chain w = [] then ChainBase else wl_Chain w) (st_Asset req) @ ''/transfers'',
       cq_body = Some (JObj [(''recipient'', JStr (st_To req)), (''amount'', JStr (st_Amount req))]) \<rparr>"

definition one_rail_call :: "'r WalletGroups \<Rightarrow> string \<Rightarrow> Wallet \<Rightarrow> SendTransactionRequest \<Rightarrow> 'r world \<Rightarrow> 'r world \<Rightarrow> bool" where
  "one_rail_call h rail w req s s' \<longleftrightarrow>
     (rail = RailTempo \<and> w_provider s' = w_provider s \<and> (\<exists>tx. w_chain s' = w_chain s @ [tx] \<and> tempo_call h w req tx))
     \<or> (rail = RailCrossMint \<and> w_chain s' = w_chain s
        \<and> (\<exists>call. w_provider s' = w_provider s @ [call] \<and> crossmint_call w req call))"

definition no_rail_call :: "'r world \<Rightarrow> 'r world \<Rightarrow> bool" where
  "no_rail_call s s' \<longleftrightarrow> w_chain s' = w_chain s \<and> w_provider s' = w_provider s"

lemma sendViaTempo_cases:
  assumes "sendViaTempo h e w req = (res, sent)"
  shows "sent = [] \<and> (\<exists>err. res = Inl err)
    \<or> (\<exists>tx. sent = [tx] \<and> tempo_call h w req tx
        \<and> (\<forall>r. res = Inr r \<longrightarrow> SendTransaction (ta_eth (h_tempo h)) tx = None
              \<and> r = pending_transaction e (tempo_transfer_request w req) (wl_Address w) (tx_Hash (ta_geth (h_tempo h)) tx)))"
proof -
  consider (fail) "sent = []" "\<exists>err. res = Inl err"
    | (go) b bs ver priv where "wl_EncryptedPrivateKey w = Some (b # bs)" "wl_KeyVersion w = Some ver"
        "Decrypt (h_ks h) (b # bs) ver = Inr priv"
        "TransferWithKey (h_tempo h) e priv (tempo_transfer_request w req) (wl_Address w) = (res, sent)"
    using assms by (auto simp: sendViaTempo_def split: option.splits list.splits sum.splits)
  then show ?thesis
  proof cases
    case go
    from TransferWithKey_cases [OF go(4)] show ?thesis using go(1-3) unfolding tempo_call_def by blast
  qed blast
qed

lemma cm_CreateTransaction_one:
  "\<exists>call. snd (cm_CreateTransaction cm \<lparr> ct_From = wl_Address w, ct_To = st_To req, ct_Amount = st_Amount req,
      ct_Asset = st_Asset req, ct_Chain = wl_Chain w \<rparr> (wl_ProviderLocator w)) = [call] \<and> crossmint_call w req call"
  by (simp add: cm_CreateTransaction_def crossmint_call_def Let_def split: sum.split option.split)

lemma dispatch_frame: "dispatch h e rail w req s = (res, s') \<Longrightarrow> w_db s' = w_db s \<and> w_redis s' = w_redis s"
  by (auto simp: dispatch_def split: if_splits option.splits prod.splits sum.splits)

lemma dispatch_cases:
  assumes d: "dispatch h e rail w req s = (res, s')" and rail: "rail = RailCrossMint \<or> rail = RailTempo"
  shows "no_rail_call s s' \<and> (\<nexists>t. res = Some (Inr t)) \<or> one_rail_call h rail w req s s'"
  using rail
proof
  assume r: "rail = RailTempo"
  obtain x sent where x: "sendViaTempo h e w req = (x, sent)" by force
  have ne: "RailTempo \<noteq> RailCrossMint" by (simp add: RailTempo_def RailCrossMint_def)
  have s': "s' = s\<lparr>w_chain := w_chain s @ sent\<rparr>" "\<And>t. res = Some (Inr t) \<Longrightarrow> x = Inr t"
    using d ne by (auto simp: dispatch_def r x split: sum.splits)
  show ?thesis using sendViaTempo_cases [OF x] s' unfolding one_rail_call_def no_rail_call_def r by auto
next
  assume r: "rail = RailCrossMint"
  show ?thesis
  proof (cases "h_crossmint h")
    case None
    then show ?thesis using d by (simp add: dispatch_def r sendViaCrossMint_def no_rail_call_def)
  next
    case (Some cm)
    from cm_CreateTransaction_one [of cm w req] obtain x call where
      "sendViaCrossMint h w req = Some (x, [call])" "crossmint_call w req call"
      by (auto simp: sendViaCrossMint_def Some) (metis prod.collapse)
    then show ?thesis using d by (auto simp: dispatch_def r one_rail_call_def split: sum.splits)
  qed
qed

text \<open>What CrossMint answered to the call of a successful transfer is what the artifact says.\<close>

lemma dispatched_crossmint:
  assumes "dispatch h e RailCrossMint w req s = (Some (Inr a), s')"
  shows "\<exists>cm call rep x. h_crossmint h = Some cm \<and> w_provider s' = w_provider s @ [call] \<and> cm_http cm call = Inr rep
    \<and> cp_status rep < 400 \<and> decode_tx (cp_json rep) = Some x
    \<and> rt_TxHash a = (case tr_OnChain_TxHash x of None \<Rightarrow> [] | Some hash \<Rightarrow> hash)
    \<and> rt_ID a = tr_ID x \<and> rt_Status a = mapTxStatus (tr_Status x)"
  using assms
  by (fastforce simp: dispatch_def sendViaCrossMint_def cm_CreateTransaction_def cm_do_def txHash_def Let_def
      split: option.splits sum.splits if_splits)

section \<open>The outcomes of a transfer request\<close>

lemma SendTransaction_cases:
  assumes run: "WalletGroups_SendTransaction h e cx body s = (resp, s')"
  obtains (refused) "s' = s" "\<exists>st b. resp = Reply st b \<and> st \<in> {400, 403, 404, 422, 501}"
  | (gated) grp rail w signerID req d1 r1 where
      "transfer_target e cx body (w_db s) = Inr (grp, rail, w, signerID, req)"
      "limit_gate h e (check_request (cx_TenantID cx) w signerID req) (w_db s, w_redis s) = (Some resp, d1, r1)"
      "s' = s\<lparr>w_db := d1, w_redis := r1\<rparr>"
  | (rail_failed) grp rail w signerID req d1 r1 x where
      "transfer_target e cx body (w_db s) = Inr (grp, rail, w, signerID, req)"
      "limit_gate h e (check_request (cx_TenantID cx) w signerID req) (w_db s, w_redis s) = (None, d1, r1)"
      "dispatch h e rail w req (s\<lparr>w_db := d1, w_redis := r1\<rparr>) = (x, s')" "x = None \<and> resp = Panic \<or> x = Some (Inl resp)"
  | (unrecorded) grp rail w signerID req d1 r1 a s2 err d3 where
      "transfer_target e cx body (w_db s) = Inr (grp, rail, w, signerID, req)"
      "limit_gate h e (check_request (cx_TenantID cx) w signerID req) (w_db s, w_redis s) = (None, d1, r1)"
      "dispatch h e rail w req (s\<lparr>w_db := d1, w_redis := r1\<rparr>) = (Some (Inr a), s2)"
      "recordTransaction e (cx_TenantID cx) (cx_APIKeyID cx) signerID grp w req a (w_db s2) = (Inl err, d3)"
      "resp = record_failed rail a err" "s' = s2\<lparr>w_db := d3\<rparr>"
  | (recorded) grp rail w signerID req d1 r1 a s2 row d3 refs where
      "transfer_target e cx body (w_db s) = Inr (grp, rail, w, signerID, req)"
      "limit_gate h e (check_request (cx_TenantID cx) w signerID req) (w_db s, w_redis s) = (None, d1, r1)"
      "dispatch h e rail w req (s\<lparr>w_db := d1, w_redis := r1\<rparr>) = (Some (Inr a), s2)"
      "recordTransaction e (cx_TenantID cx) (cx_APIKeyID cx) signerID grp w req a (w_db s2) = (Inr row, d3)"
      "resp = Reply 201 (tx_view_json (toTxView row))"
      "s' = s2\<lparr>w_db := WalletGroups_publish h e (cx_TenantID cx) (eventTypeForTxStatus (tx_Status row))
              (tx_view_json (toTxView row)) refs d3\<rparr>"
proof (cases "transfer_target e cx body (w_db s)")
  case (Inl r)
  then have "s' = s" "resp = r" using run by (simp_all add: WalletGroups_SendTransaction_def)
  then show ?thesis using transfer_target_Inl [OF Inl] refused by simp
next
  case (Inr tgt)
  obtain grp rail w signerID req where t: "tgt = (grp, rail, w, signerID, req)" by (cases tgt)
  obtain g d1 r1 where g: "limit_gate h e (check_request (cx_TenantID cx) w signerID req) (w_db s, w_redis s) = (g, d1, r1)"
    by (metis prod.collapse)
  note run' = run [unfolded WalletGroups_SendTransaction_def Inr t sum.case prod.case g]
  show ?thesis
  proof (cases g)
    case (Some r)
    then show ?thesis using run' g Inr t gated by simp
  next
    case None
    obtain x s2 where x: "dispatch h e rail w req (s\<lparr>w_db := d1, w_redis := r1\<rparr>) = (x, s2)" by force
    show ?thesis
    proof (cases "\<exists>a. x = Some (Inr a)")
      case False
      then show ?thesis using run' x None g Inr t rail_failed
        by (cases x; cases "the x") auto
    next
      case True
      then obtain a where a: "x = Some (Inr a)" by blast
      obtain y d3 where y: "recordTransaction e (cx_TenantID cx) (cx_APIKeyID cx) signerID grp w req a (w_db s2) = (y, d3)"
        by force
      show ?thesis
      proof (cases y)
        case (Inl err)
        then show ?thesis using run' x a None g Inr t y unrecorded by simp
      next
        case R: (Inr row)
        have "(resp, s') = (Reply 201 (tx_view_json (toTxView row)), s2\<lparr>w_db := WalletGroups_publish h e (cx_TenantID cx)
            (eventTypeForTxStatus (tx_Status row)) (tx_view_json (toTxView row))
            (no_refs\<lparr>rr_WalletID := wl_ID w, rr_GroupID := wg_ID grp, rr_TransactionID := tx_ID row, rr_SessionKeyID := signerID\<rparr>) d3\<rparr>)"
          using run' x a None y R by (simp add: Let_def)
        then show ?thesis using recorded x a None g Inr t y R by blast
      qed
    qed
  qed
qed

lemma CreateTransaction_Inr:
  assumes "CreateTransaction drv now a d = (Inr row, d')"
  shows "transactions d' = transactions d @ [row]" "d' = d\<lparr>transactions := transactions d @ [row]\<rparr>"
    "\<exists>amt usd. pg_numeric_text drv (tx_Amount a) = Some amt
      \<and> row = a\<lparr>tx_Amount := amt, tx_AmountUsd := usd, tx_BlockNumber := None, tx_ErrorCode := None,
                 tx_ErrorMessage := None, tx_CreatedAt := now, tx_UpdatedAt := now, tx_BroadcastAt := None, tx_ConfirmedAt := None\<rparr>"
  using assms by (auto simp: CreateTransaction_def Let_def split: option.splits if_splits)

lemma CreateTransaction_Inl: "CreateTransaction drv now a d = (Inl err, d') \<Longrightarrow> d' = d"
  by (auto simp: CreateTransaction_def Let_def split: option.splits if_splits)

lemma recordTransaction_Inl:
  "recordTransaction e t k sk g w req a d = (Inl err, d') \<Longrightarrow> d' = d"
  by (cases "fault e ''recordTransaction.CreateTransaction'' []") (auto simp: recordTransaction_def dest: CreateTransaction_Inl)

text \<open>The audit row of a transfer: everything but the amount column is what the request and the rail said.\<close>

lemma recordTransaction_Inr:
  assumes "recordTransaction e t k sk g w req a d = (Inr row, d')"
  shows "d' = d\<lparr>transactions := transactions d @ [row]\<rparr>" "pg_numeric_text (pg e) (st_Amount req) = Some (tx_Amount row)"
    "tx_TenantID row = t" "tx_WalletID row = wl_ID w" "tx_GroupID row = wg_ID g" "tx_Counterparty row = st_To req"
    "tx_Asset row = st_Asset req" "tx_Status row = rt_Status a" "tx_TxHash row = pgxText (rt_TxHash a)"
    "tx_SessionKeyID row = pgxText sk" "tx_ProviderTxID row = pgxText (rt_ID a)"
proof -
  have c: "CreateTransaction (pg e) (clock e ''recordTransaction.sqlnow'' []) (transaction_row e t k sk g w req a) d = (Inr row, d')"
    using assms by (cases "fault e ''recordTransaction.CreateTransaction'' []") (simp_all add: recordTransaction_def)
  from CreateTransaction_Inr(2) [OF c] show "d' = d\<lparr>transactions := transactions d @ [row]\<rparr>" .
  from CreateTransaction_Inr(3) [OF c]
  show "pg_numeric_text (pg e) (st_Amount req) = Some (tx_Amount row)" "tx_TenantID row = t" "tx_WalletID row = wl_ID w"
    "tx_GroupID row = wg_ID g" "tx_Counterparty row = st_To req" "tx_Asset row = st_Asset req" "tx_Status row = rt_Status a"
    "tx_TxHash row = pgxText (rt_TxHash a)" "tx_SessionKeyID row = pgxText sk" "tx_ProviderTxID row = pgxText (rt_ID a)"
    by (auto simp: transaction_row_def)
qed

lemma WalletGroups_publish_transactions: "transactions (WalletGroups_publish h e t ty data refs d) = transactions d"
proof -
  obtain evs where "snd (Publish e t ty (Some data) refs d) = add_events evs d" using Publish_frame by blast
  then show ?thesis by (simp add: WalletGroups_publish_def)
qed

lemma Check_frame:
  assumes "Check e redis em req (d, r) = (x, d', r')" "emitter_ok em"
  shows "\<exists>vs n evs. d' = add_events evs (d\<lparr>limit_violations := limit_violations d @ vs, limit_violations_seq := limit_violations_seq d + n\<rparr>)"
proof -
  let ?Q = "\<lambda>d'. \<exists>vs n evs. d' = add_events evs (d\<lparr>limit_violations := limit_violations d @ vs, limit_violations_seq := limit_violations_seq d + n\<rparr>)"
  have same: "?Q d" by (intro exI [of _ "[]"] exI [of _ 0]) simp
  have rj: "?Q d1" if "reject e em req pol ty capv used msg d = (res, d1)" for pol ty capv used msg res d1
    using reject_frame [OF that assms(2)] by blast
  have per: "?Q d1" if "checkPeriods e rd em req pol (d, r) = (x, d1, r1)" for rd pol x d1 r1
    using that same by (auto simp: checkPeriods_def Let_def dest: rj split: sum.splits prod.splits option.splits)
  show ?thesis using assms(1) same
    by (auto simp: Check_def Let_def dest: rj per split: option.splits sum.splits prod.splits if_splits)
qed

definition limits_emitter_ok :: "'r WalletGroups \<Rightarrow> bool" where
  "limits_emitter_ok h \<longleftrightarrow> (\<forall>ls e. h_limits h = Some ls \<longrightarrow> emitter_ok (map_option (\<lambda>f. f e) (ls_emitter ls)))"

lemma limit_gate_transactions:
  assumes "limit_gate h e req (d, r) = (x, d', r')" "limits_emitter_ok h"
  shows "transactions d' = transactions d"
proof (cases "h_limits h")
  case (Some ls)
  obtain y d1 r1 where y: "limits_Check ls e req (d, r) = (y, d1, r1)" by (metis prod.collapse)
  have "emitter_ok (map_option (\<lambda>f. f e) (ls_emitter ls))" using assms(2) Some by (simp add: limits_emitter_ok_def)
  from Check_frame [OF y [unfolded limits_Check_def] this] have "transactions d1 = transactions d" by auto
  moreover have "d' = d1" using assms(1) Some y by (auto simp: limit_gate_def split: sum.splits if_splits)
  ultimately show ?thesis by simp
qed (use assms in \<open>simp add: limit_gate_def\<close>)

text \<open>
  C1: a transfer request moves money only when everything holds: the caller's tenant owns the group
  and it is not deleted, the wallet is an active wallet of that group on the chosen rail and not in
  user custody, a named session key is active, unexpired and bound to this tenant and wallet, and
  the limit engine, when there is one, allowed exactly this amount and recipient. Even then
  at most one call leaves the gateway, on that rail, and it carries the recipient and amount of
  the request.
\<close>

theorem SendTransaction_moves_money_only_when_authorized:
  assumes run: "WalletGroups_SendTransaction h e cx body s = (resp, s')"
  shows "no_rail_call s s' \<or>
    (\<exists>req grp rail w signerID. body = Some req \<and> signerID = st_SignerID req
       \<and> transfer_authorized e cx (w_db s) grp rail w signerID
       \<and> gate_allowed h e (check_request (cx_TenantID cx) w signerID req) (w_db s, w_redis s)
       \<and> one_rail_call h rail w req s s')"
proof -
  have key: "?thesis" if t: "transfer_target e cx body (w_db s) = Inr (grp, rail, w, signerID, req)"
    and g: "limit_gate h e (check_request (cx_TenantID cx) w signerID req) (w_db s, w_redis s) = (None, d1, r1)"
    and d: "dispatch h e rail w req (s\<lparr>w_db := d1, w_redis := r1\<rparr>) = (x, s2)"
    and s2: "w_chain s' = w_chain s2" "w_provider s' = w_provider s2"
    for grp rail w signerID req d1 r1 x s2
  proof -
    have "no_rail_call s s' \<or> one_rail_call h rail w req s s'"
      using dispatch_cases [OF d routeRail_Inr [OF transfer_target_Inr(3) [OF t]]] s2
      by (auto simp: no_rail_call_def one_rail_call_def)
    then show ?thesis using transfer_target_Inr [OF t] limit_gate_None(1) [OF g] by blast
  qed
  from run show ?thesis
  proof (cases rule: SendTransaction_cases)
    case refused
    then show ?thesis by (simp add: no_rail_call_def)
  next
    case (gated grp rail w signerID req d1 r1)
    then show ?thesis by (simp add: no_rail_call_def)
  next
    case rail_failed
    show ?thesis by (rule key [OF rail_failed(1-3)]) simp_all
  next
    case unrecorded
    show ?thesis by (rule key [OF unrecorded(1-3)]) (simp_all add: unrecorded)
  next
    case recorded
    show ?thesis by (rule key [OF recorded(1-3)]) (simp_all add: recorded)
  qed
qed

text \<open>
  C2: a refusal spends nothing. When the answer is a client error, 429 or 501, no call has left for
  either rail and the transactions table is as before.
\<close>

theorem refused_transfer_spends_nothing:
  assumes run: "WalletGroups_SendTransaction h e cx body s = (Reply st b, s')" and em: "limits_emitter_ok h"
    and st: "st \<in> {400, 403, 404, 422, 429, 501}"
  shows "no_rail_call s s' \<and> transactions (w_db s') = transactions (w_db s)"
  using run
proof (cases rule: SendTransaction_cases)
  case refused
  then show ?thesis by (simp add: no_rail_call_def)
next
  case (gated grp rail w signerID req d1 r1)
  then show ?thesis using limit_gate_transactions [OF gated(2) em] by (simp add: no_rail_call_def)
next
  case (rail_failed grp rail w signerID req d1 r1 x)
  have r: "rail = RailCrossMint \<or> rail = RailTempo" using routeRail_Inr [OF transfer_target_Inr(3) [OF rail_failed(1)]] .
  have "resp_status (Reply st b) = Some 502"
    using rail_failed(3,4) r by (auto simp: dispatch_def split: if_splits option.splits prod.splits sum.splits) (metis resp_status_helpers(5) resp_status.simps(1) option.inject)+
  then show ?thesis using st by simp
next
  case unrecorded
  then show ?thesis using st by (simp add: record_failed_def)
next
  case recorded
  then show ?thesis using st by simp
qed

text \<open>
  C3: a transfer that is answered with 201 is on the books exactly once: one rail call was made, one
  row was added to \<open>transactions\<close>, the row belongs to the tenant, wallet and group, names the
  recipient, asset and session key of the request, and carries the hash of the transfer that was made:
  on Tempo the hash of the very transaction the node accepted, on CrossMint the hash, the identifier and
  the status that the provider answered to this call (no hash when it answered none yet). The body
  returned is the view of that row.
\<close>

theorem recorded_transfer_is_the_transfer_made:
  assumes run: "WalletGroups_SendTransaction h e cx body s = (Reply 201 b, s')" and em: "limits_emitter_ok h"
  shows "\<exists>req grp rail w row. body = Some req \<and> transfer_authorized e cx (w_db s) grp rail w (st_SignerID req)
    \<and> one_rail_call h rail w req s s' \<and> transactions (w_db s') = transactions (w_db s) @ [row] \<and> b = tx_view_json (toTxView row)
    \<and> tx_TenantID row = cx_TenantID cx \<and> tx_WalletID row = wl_ID w \<and> tx_GroupID row = wg_ID grp
    \<and> tx_Counterparty row = st_To req \<and> tx_Asset row = st_Asset req
    \<and> pg_numeric_text (pg e) (st_Amount req) = Some (tx_Amount row)
    \<and> tx_SessionKeyID row = pgxText (st_SignerID req)
    \<and> (rail = RailTempo \<longrightarrow> (\<exists>tx. w_chain s' = w_chain s @ [tx] \<and> SendTransaction (ta_eth (h_tempo h)) tx = None
          \<and> tx_Status row = ''pending'' \<and> tx_TxHash row = pgxText (tx_Hash (ta_geth (h_tempo h)) tx)))
    \<and> (rail = RailCrossMint \<longrightarrow> (\<exists>cm call rep x. h_crossmint h = Some cm \<and> w_provider s' = w_provider s @ [call]
          \<and> cm_http cm call = Inr rep \<and> cp_status rep < 400 \<and> decode_tx (cp_json rep) = Some x
          \<and> tx_TxHash row = pgxText (case tr_OnChain_TxHash x of None \<Rightarrow> [] | Some hash \<Rightarrow> hash)
          \<and> tx_ProviderTxID row = pgxText (tr_ID x) \<and> tx_Status row = mapTxStatus (tr_Status x)))"
  using run
proof (cases rule: SendTransaction_cases)
  case (recorded grp rail w signerID req d1 r1 a s2 row d3 refs)
  have rail: "rail = RailCrossMint \<or> rail = RailTempo" using routeRail_Inr [OF transfer_target_Inr(3) [OF recorded(1)]] .
  note row = recordTransaction_Inr [OF recorded(4)]
  have s2: "w_db s2 = d1" using dispatch_frame [OF recorded(3)] by simp
  have "transactions (w_db s') = transactions d3"
    by (simp add: recorded(6) WalletGroups_publish_transactions)
  then have txs: "transactions (w_db s') = transactions (w_db s) @ [row]"
    using limit_gate_transactions [OF recorded(2) em] row(1) by (simp add: s2)
  have call: "one_rail_call h rail w req s s'"
    using dispatch_cases [OF recorded(3) rail] by (auto simp: one_rail_call_def recorded(6))
  have tempo: "\<exists>tx. w_chain s' = w_chain s @ [tx] \<and> SendTransaction (ta_eth (h_tempo h)) tx = None
      \<and> tx_Status row = ''pending'' \<and> tx_TxHash row = pgxText (tx_Hash (ta_geth (h_tempo h)) tx)" if r: "rail = RailTempo"
  proof -
    obtain x sent where x: "sendViaTempo h e w req = (x, sent)" by force
    have "x = Inr a" "w_chain s' = w_chain s @ sent"
      using recorded(3) by (auto simp: dispatch_def r x RailTempo_def RailCrossMint_def recorded(6) split: sum.splits)
    then show ?thesis using sendViaTempo_cases [OF x] row(8,9)
      by (auto simp: pending_transaction_def TxPending_def)
  qed
  have crossmint: "\<exists>cm call rep x. h_crossmint h = Some cm \<and> w_provider s' = w_provider s @ [call]
      \<and> cm_http cm call = Inr rep \<and> cp_status rep < 400 \<and> decode_tx (cp_json rep) = Some x
      \<and> tx_TxHash row = pgxText (case tr_OnChain_TxHash x of None \<Rightarrow> [] | Some hash \<Rightarrow> hash)
      \<and> tx_ProviderTxID row = pgxText (tr_ID x) \<and> tx_Status row = mapTxStatus (tr_Status x)" if "rail = RailCrossMint"
    using recorded(3) dispatched_crossmint [of h e w req "s\<lparr>w_db := d1, w_redis := r1\<rparr>" a s2] row(8,9,11)
    by (auto simp: that recorded(6))
  have "body = Some req" "signerID = st_SignerID req" using transfer_target_Inr [OF recorded(1)] by blast+
  moreover have "b = tx_view_json (toTxView row)" using recorded(5) by simp
  ultimately show ?thesis
    using call txs row(2-7,10) tempo crossmint transfer_target_Inr(1) [OF recorded(1)] by blast
qed (auto dest: limit_gate_Some simp: record_failed_def dispatch_def upstreamError_def error_body_def
      split: if_splits option.splits prod.splits sum.splits)

text \<open>The two halves of a Tempo transfer: what the chain gets, and what the budgets are charged.\<close>

lemma tempo_call_tx:
  assumes "tempo_call h w req tx"
  obtains priv lt x where "SignTx (ta_geth (h_tempo h)) lt (ChainID (ta_eth (h_tempo h))) priv = Inr tx"
    "PubkeyToAddress (ta_geth (h_tempo h)) priv = HexToAddress (ta_geth (h_tempo h)) (wl_Address w)"
    "abi_transfer (ta_geth (h_tempo h)) (HexToAddress (ta_geth (h_tempo h)) (st_To req)) x = Inr (lt_Data lt)"
    "parseUnits (st_Amount req) 6 = Inr x"
  using assms by (auto simp: tempo_call_def broadcasts_transfer_def is_transfer_tx_def tempo_transfer_request_def)

lemma allowed_check_charges_units:
  assumes rd: "redis_counter rd val" and ls: "ls_redis ls = Some rd"
    and c: "limits_Check ls e req (d, r) = (Inr res, d1, r1)" "res_Allowed res"
    and pol: "resolvePolicy e req d = Some pol" and x: "parseUnits (cr_Amount req) 6 = Inr x"
  shows "(\<forall>k. val r1 k = val r k + plan_delta (lp_ID pol) x (check_now e) (check_tz e pol) (period_plan e pol) k)
    \<and> (\<forall>(p, cap) \<in> set (period_plan e pol). 0 < cap \<longrightarrow>
          val r1 (budget_key (lp_ID pol) p (check_now e) (check_tz e pol)) \<le> cap)"
proof -
  obtain x' where x': "scaleToMicros (cr_Amount req) = Inr x'"
    "period_loop rd (lp_ID pol) x' (check_now e) (check_tz e pol) (period_plan e pol) [] r = (Inr None, r1)"
    using Check_allowed_cases [OF c(1) [unfolded limits_Check_def ls] c(2) pol]
    by (auto simp: check_now_def check_tz_def)
  then have "x' = x" using x by (simp add: scale_units_core)
  then show ?thesis using redis_counter.period_loop_allowed [OF rd x'(2) distinct_period_plan] by blast
qed

text \<open>
  C4: the amount taken from the budgets is the amount sent. When a transfer puts a transaction on
  the Tempo chain, that transaction is a signed token transfer of some number of micro-units to the
  requested recipient, and under the policy that governs the request every capped budget of the
  current periods has grown by exactly this number, every other counter is unchanged, and each
  charged budget is within its cap.
\<close>

theorem amount_charged_is_amount_sent:
  assumes rd: "redis_counter rd val" and ls: "h_limits h = Some ls" "ls_redis ls = Some rd"
    and run: "WalletGroups_SendTransaction h e cx body s = (resp, s')" and sent: "w_chain s' = w_chain s @ [tx]"
  shows "\<exists>req w x lt priv. body = Some req \<and> w \<in> set (wallets (w_db s))
    \<and> SignTx (ta_geth (h_tempo h)) lt (ChainID (ta_eth (h_tempo h))) priv = Inr tx
    \<and> PubkeyToAddress (ta_geth (h_tempo h)) priv = HexToAddress (ta_geth (h_tempo h)) (wl_Address w)
    \<and> abi_transfer (ta_geth (h_tempo h)) (HexToAddress (ta_geth (h_tempo h)) (st_To req)) x = Inr (lt_Data lt)
    \<and> (\<forall>pol. resolvePolicy e (check_request (cx_TenantID cx) w (st_SignerID req) req) (w_db s) = Some pol \<longrightarrow>
          (\<forall>k. val (w_redis s') k = val (w_redis s) k
                + plan_delta (lp_ID pol) x (check_now e) (check_tz e pol) (period_plan e pol) k)
          \<and> (\<forall>(p, cap) \<in> set (period_plan e pol). 0 < cap \<longrightarrow>
                val (w_redis s') (budget_key (lp_ID pol) p (check_now e) (check_tz e pol)) \<le> cap))"
proof -
  have key: "?thesis" if t: "transfer_target e cx body (w_db s) = Inr (grp, rail, w, signerID, req)"
    and g: "limit_gate h e (check_request (cx_TenantID cx) w signerID req) (w_db s, w_redis s) = (None, d1, r1)"
    and d: "dispatch h e rail w req (s\<lparr>w_db := d1, w_redis := r1\<rparr>) = (y, s2)"
    and s2: "w_chain s' = w_chain s2" "w_redis s' = w_redis s2"
    for grp rail w signerID req d1 r1 y s2
  proof -
    have r: "w_redis s' = r1" using dispatch_frame [OF d] s2 by simp
    have "tempo_call h w req tx"
      using dispatch_cases [OF d routeRail_Inr [OF transfer_target_Inr(3) [OF t]]] s2 sent
      by (auto simp: no_rail_call_def one_rail_call_def)
    then obtain priv lt x where tr: "SignTx (ta_geth (h_tempo h)) lt (ChainID (ta_eth (h_tempo h))) priv = Inr tx"
      "PubkeyToAddress (ta_geth (h_tempo h)) priv = HexToAddress (ta_geth (h_tempo h)) (wl_Address w)"
      "abi_transfer (ta_geth (h_tempo h)) (HexToAddress (ta_geth (h_tempo h)) (st_To req)) x = Inr (lt_Data lt)"
      "parseUnits (st_Amount req) 6 = Inr x" by (rule tempo_call_tx)
    obtain res where c: "limits_Check ls e (check_request (cx_TenantID cx) w signerID req) (w_db s, w_redis s) = (Inr res, d1, r1)"
      "res_Allowed res" using limit_gate_None(2) [OF g ls(1)] by blast
    have "parseUnits (cr_Amount (check_request (cx_TenantID cx) w signerID req)) 6 = Inr x"
      using tr(4) by (simp add: check_request_def)
    note budgets = allowed_check_charges_units [OF rd ls(2) c _ this]
    have "body = Some req" "signerID = st_SignerID req" "w \<in> set (wallets (w_db s))"
      using transfer_target_Inr [OF t] by (auto simp: transfer_authorized_def)
    then show ?thesis using tr(1-3) budgets r by blast
  qed
  from run show ?thesis
  proof (cases rule: SendTransaction_cases)
    case refused
    then show ?thesis using sent by simp
  next
    case gated
    then show ?thesis using sent by simp
  next
    case rail_failed
    show ?thesis by (rule key [OF rail_failed(1-3)]) simp_all
  next
    case unrecorded
    show ?thesis by (rule key [OF unrecorded(1-3)]) (simp_all add: unrecorded)
  next
    case recorded
    show ?thesis by (rule key [OF recorded(1-3)]) (simp_all add: recorded)
  qed
qed

section \<open>A concrete transfer\<close>

definition demo_handler :: "(string \<Rightarrow> int) WalletGroups" where
  "demo_handler = NewWalletGroups None demo_tempo demo_ks (Some \<lparr> ls_redis = Some mem_redis, ls_emitter = None \<rparr>) False"

definition demo_ctx :: request_ctx where
  "demo_ctx = \<lparr> cx_TenantID = ''tn'', cx_APIKeyID = [], cx_UserID = [], cx_Role = [], cx_Params = (\<lambda>_. ''wg''), cx_Query = (\<lambda>_. []) \<rparr>"

definition demo_send :: SendTransactionRequest where
  "demo_send = \<lparr> st_To = ''to'', st_Amount = ''4.5'', st_Asset = ''pathUSD'', st_IdempotencyKey = [], st_Rail = [], st_SignerID = [] \<rparr>"

definition demo_world :: "(string \<Rightarrow> int) \<Rightarrow> (string \<Rightarrow> int) world" where
  "demo_world r = \<lparr> w_db = demo_bank, w_redis = r, w_chain = [], w_provider = [] \<rparr>"

lemma demo_target:
  "transfer_target (calm_env 0) demo_ctx (Some demo_send) demo_bank = Inr (demo_group, ''tempo'', demo_wallet, [], demo_send)"
  by (simp add: transfer_target_def demo_ctx_def demo_send_def validateSendTx_def load_group_def GetWalletGroupByID_def
      demo_bank_def demo_group_def select_one_def calm_env_def routeRail_def demo_upper GetWalletByGroupAndRail_def
      demo_wallet_def resolve_signer_def RailTempo_def Let_def)

lemma demo_policy_governs:
  "resolvePolicy (calm_env 0) (check_request ''tn'' demo_wallet [] demo_send) demo_bank = Some demo_policy"
  by (simp add: resolvePolicy_def check_request_def demo_wallet_def demo_bank_def GetPolicyForScope_def scope_matches_def
      GetWalletByID_def select_one_def demo_policy_def GetTenantDefaultPolicy_def is_tenant_default_def calm_env_def order_desc_def pgxText_def)

lemma demo_gate_check:
  "Check (calm_env 0) (Some mem_redis) None (check_request ''tn'' demo_wallet [] demo_send) (demo_bank, \<lambda>_. 0) =
   (Inr (allowed_result ''pol''), demo_bank, (\<lambda>_. 0)(demo_key := 4500000))"
proof -
  let ?req = "check_request ''tn'' demo_wallet [] demo_send"
  have f: "cr_Amount ?req = ''4.5''" "cr_Recipient ?req = ''to''" by (simp_all add: check_request_def demo_send_def)
  have pt: "per_tx_gate (calm_env 0) ?req demo_policy = Inr None"
  proof -
    have "cr_Amount ?req = cr_Amount (demo_request ''4.5'' ''x'')" by (simp add: f demo_request_def)
    then have "per_tx_gate (calm_env 0) ?req demo_policy = per_tx_gate (calm_env 0) (demo_request ''4.5'' ''x'') demo_policy"
      by (simp only: per_tx_gate_def)
    then show ?thesis by (simp add: demo_within_cap)
  qed
  have rc: "recipientGate ''to'' demo_policy = []" by code_simp
  have "lp_Enabled demo_policy" "lp_ID demo_policy = ''pol''" "clock (calm_env 0) site key = 0" for site key
    by (simp_all add: demo_policy_def calm_env_def)
  then show ?thesis
    using demo_loop [of "\<lambda>_. 0"] pt rc f demo_policy_governs
    by (simp add: Check_def checkPeriods_def demo_not_expired demo_amount demo_plan demo_tz Let_def)
qed

lemma demo_dispatch:
  "dispatch demo_handler (calm_env 0) ''tempo'' demo_wallet demo_send s =
   (Some (Inr (pending_transaction (calm_env 0) demo_transfer ''kk'' ''hto4500000'')), s\<lparr>w_chain := w_chain s @ [''to4500000'']\<rparr>)"
proof -
  have "tempo_transfer_request demo_wallet demo_send = demo_transfer"
    by (simp add: tempo_transfer_request_def demo_wallet_def demo_send_def demo_transfer_def ChainTempo_def)
  moreover obtain b bs where b: "demo_blob = b # bs" by (cases demo_blob) (simp_all add: demo_blob_def)
  ultimately have "sendViaTempo demo_handler (calm_env 0) demo_wallet demo_send =
      (Inr (pending_transaction (calm_env 0) demo_transfer ''kk'' ''hto4500000''), [''to4500000''])"
    using demo_transfer_sent demo_decrypt
    by (simp add: sendViaTempo_def demo_handler_def NewWalletGroups_def b) (simp add: demo_wallet_def b)
  then show ?thesis by (simp add: dispatch_def RailTempo_def RailCrossMint_def)
qed

lemma demo_gate:
  "limit_gate demo_handler (calm_env 0) (check_request ''tn'' demo_wallet [] demo_send) (demo_bank, \<lambda>_. 0) =
   (None, demo_bank, (\<lambda>_. 0)(demo_key := 4500000))"
  using demo_gate_check by (simp add: limit_gate_def demo_handler_def NewWalletGroups_def limits_Check_def allowed_result_def)

lemma demo_record:
  "\<exists>row d. recordTransaction (calm_env 0) ''tn'' [] [] demo_group demo_wallet demo_send a demo_bank = (Inr row, d)"
  if "rt_Status a = ''pending''" for a
  using that
  by (simp add: recordTransaction_def transaction_row_def CreateTransaction_def calm_env_def demo_bank_def demo_group_def demo_wallet_def
      demo_tenant_def empty_db_def exists_row_def fk_opt_def pgxText_def demo_send_def transaction_check_def tx_statuses_def
      store_numeric_def Let_def)

lemma demo_send_run:
  "\<exists>b s'. WalletGroups_SendTransaction demo_handler (calm_env 0) demo_ctx (Some demo_send) (demo_world (\<lambda>_. 0)) = (Reply 201 b, s')
     \<and> w_chain s' = [''to4500000''] \<and> w_redis s' = (\<lambda>_. 0)(demo_key := 4500000)"
proof -
  let ?a = "pending_transaction (calm_env 0) demo_transfer ''kk'' ''hto4500000''"
  obtain row d where r: "recordTransaction (calm_env 0) ''tn'' [] [] demo_group demo_wallet demo_send ?a demo_bank = (Inr row, d)"
    using demo_record [of ?a] by (auto simp: pending_transaction_def TxPending_def)
  have c: "cx_TenantID demo_ctx = ''tn''" "cx_APIKeyID demo_ctx = []" by (simp_all add: demo_ctx_def)
  have w: "w_db (demo_world r) = demo_bank" "w_redis (demo_world r) = r" "w_chain (demo_world r) = []" for r
    by (simp_all add: demo_world_def)
  show ?thesis
    unfolding WalletGroups_SendTransaction_def
    by (simp add: demo_target demo_gate demo_dispatch c w r Let_def)
qed

lemma demo_emitter_ok: "limits_emitter_ok demo_handler"
  by (simp add: limits_emitter_ok_def demo_handler_def NewWalletGroups_def)

theorem SendTransaction_moves_money_only_when_authorized_witness:
  "\<exists>b s' req grp rail w. WalletGroups_SendTransaction demo_handler (calm_env 0) demo_ctx (Some demo_send) (demo_world (\<lambda>_. 0)) = (Reply 201 b, s')
     \<and> transfer_authorized (calm_env 0) demo_ctx demo_bank grp rail w [] \<and> one_rail_call demo_handler rail w req (demo_world (\<lambda>_. 0)) s'"
proof -
  obtain b s' where r: "WalletGroups_SendTransaction demo_handler (calm_env 0) demo_ctx (Some demo_send) (demo_world (\<lambda>_. 0)) = (Reply 201 b, s')"
    "w_chain s' = [''to4500000'']" using demo_send_run by blast
  from SendTransaction_moves_money_only_when_authorized [OF r(1)] r show ?thesis
    by (auto simp: no_rail_call_def demo_world_def demo_send_def)
qed

theorem recorded_transfer_is_the_transfer_made_witness:
  "\<exists>b s' row. WalletGroups_SendTransaction demo_handler (calm_env 0) demo_ctx (Some demo_send) (demo_world (\<lambda>_. 0)) = (Reply 201 b, s')
     \<and> transactions (w_db s') = [row] \<and> tx_Counterparty row = ''to''"
proof -
  obtain b s' where r: "WalletGroups_SendTransaction demo_handler (calm_env 0) demo_ctx (Some demo_send) (demo_world (\<lambda>_. 0)) = (Reply 201 b, s')"
    using demo_send_run by blast
  have e: "transactions (w_db (demo_world (\<lambda>_. 0))) = []" "st_To demo_send = ''to''"
    by (simp_all add: demo_world_def demo_bank_def empty_db_def demo_send_def)
  from recorded_transfer_is_the_transfer_made [OF r demo_emitter_ok] obtain row where
    "transactions (w_db s') = [row]" "tx_Counterparty row = ''to''" unfolding e(1) using e(2) by auto
  with r show ?thesis by blast
qed

theorem refused_transfer_spends_nothing_witness:
  "\<exists>st b s'. WalletGroups_SendTransaction demo_handler (calm_env 0) demo_ctx None (demo_world (\<lambda>_. 0)) = (Reply st b, s')
     \<and> no_rail_call (demo_world (\<lambda>_. 0)) s'"
proof -
  have r: "WalletGroups_SendTransaction demo_handler (calm_env 0) demo_ctx None (demo_world (\<lambda>_. 0))
      = (Reply 400 (error_body ''invalid JSON body''), demo_world (\<lambda>_. 0))"
    by (simp add: WalletGroups_SendTransaction_def transfer_target_def demo_ctx_def badRequest_def)
  from refused_transfer_spends_nothing [OF r demo_emitter_ok] r show ?thesis by auto
qed

theorem amount_charged_is_amount_sent_witness:
  "\<exists>b s' x. WalletGroups_SendTransaction demo_handler (calm_env 0) demo_ctx (Some demo_send) (demo_world (\<lambda>_. 0)) = (Reply 201 b, s')
     \<and> w_chain s' = [''to4500000''] \<and> w_redis s' demo_key = 4500000 \<and> abi_transfer demo_geth ''to'' x = Inr ''to4500000''"
proof -
  obtain b s' where r: "WalletGroups_SendTransaction demo_handler (calm_env 0) demo_ctx (Some demo_send) (demo_world (\<lambda>_. 0)) = (Reply 201 b, s')"
    "w_chain s' = [''to4500000'']" "w_redis s' = (\<lambda>_. 0)(demo_key := 4500000)" using demo_send_run by blast
  have l: "h_limits demo_handler = Some \<lparr> ls_redis = Some mem_redis, ls_emitter = None \<rparr>"
    by (simp add: demo_handler_def NewWalletGroups_def)
  have c: "w_chain s' = w_chain (demo_world (\<lambda>_. 0)) @ [''to4500000'']" by (simp add: r demo_world_def)
  have g: "ta_geth (h_tempo demo_handler) = demo_geth" by (simp add: demo_handler_def NewWalletGroups_def demo_tempo_def)
  from amount_charged_is_amount_sent [OF mem.redis_counter_axioms l _ r(1) c]
  obtain lt priv x where "SignTx demo_geth lt (ChainID (ta_eth (h_tempo demo_handler))) priv = Inr ''to4500000''"
    "abi_transfer demo_geth (HexToAddress demo_geth (st_To demo_send)) x = Inr (lt_Data lt)"
    unfolding g by auto
  then have "abi_transfer demo_geth ''to'' x = Inr ''to4500000''" by (simp add: demo_geth_def demo_send_def)
  with r show ?thesis by auto
qed

end
