(* ===== verification/Tenant_Store.thy ===== *)
theory Tenant_Store
  imports Session_Keys
begin

text \<open>
  The two invariants every operation on the database keeps. \<open>db_wf\<close> is the typing of the
  database by its schema: primary and secondary keys are unique, every row passes the \<open>CHECK\<close>
  constraints of its table and every foreign key finds its row. \<open>others t\<close> is what the database
  holds for tenants other than \<open>t\<close>. The locale \<open>tenant_store\<close> is the interface the handlers write
  through: the laws say what a predicate has to satisfy to survive every statement issued on
  behalf of a tenant, and the handler theories prove in it, once, that their operations keep such
  a predicate. It is interpreted on both invariants.
\<close>

section \<open>Well-formed databases\<close>

text \<open>The keys that foreign keys may refer to.\<close>

record ids =
  i_tn :: "string set"
  i_us :: "string set"
  i_ak :: "string set"
  i_wg :: "string set"
  i_wl :: "string set"
  i_lp :: "string set"
  i_sk :: "string set"
  i_tx :: "string set"
  i_we :: "string set"

definition ids_of :: "db \<Rightarrow> ids" where
  "ids_of d = \<lparr> i_tn = tn_ID ` set (tenants d), i_us = us_ID ` set (users d), i_ak = ak_ID ` set (api_keys d),
     i_wg = wg_ID ` set (wallet_groups d), i_wl = wl_ID ` set (wallets d), i_lp = lp_ID ` set (limit_policies d),
     i_sk = sk_ID ` set (session_keys d), i_tx = tx_ID ` set (transactions d), i_we = we_ID ` set (webhook_endpoints d) \<rparr>"

definition ids_le :: "ids \<Rightarrow> ids \<Rightarrow> bool" where
  "ids_le p q \<longleftrightarrow> i_tn p \<subseteq> i_tn q \<and> i_us p \<subseteq> i_us q \<and> i_ak p \<subseteq> i_ak q \<and> i_wg p \<subseteq> i_wg q \<and> i_wl p \<subseteq> i_wl q
     \<and> i_lp p \<subseteq> i_lp q \<and> i_sk p \<subseteq> i_sk q \<and> i_tx p \<subseteq> i_tx q \<and> i_we p \<subseteq> i_we q"

definition ref_opt :: "string option \<Rightarrow> string set \<Rightarrow> bool" where
  "ref_opt k S \<longleftrightarrow> (case k of None \<Rightarrow> True | Some s \<Rightarrow> s \<in> S)"

lemma ref_opt_fk: "ref_opt k (key ` set rs) \<longleftrightarrow> fk_opt key k rs"
  by (simp add: ref_opt_def fk_opt_def exists_row_iff split: option.splits)

lemma ref_opt_mono: "ref_opt k S \<Longrightarrow> S \<subseteq> T \<Longrightarrow> ref_opt k T"
  by (auto simp: ref_opt_def split: option.splits)

definition user_ok :: "ids \<Rightarrow> User \<Rightarrow> bool" where
  "user_ok p r \<longleftrightarrow> us_TenantID r \<in> i_tn p"

definition api_key_ok :: "ids \<Rightarrow> ApiKey \<Rightarrow> bool" where
  "api_key_ok p r \<longleftrightarrow> ak_Environment r \<in> {''test'', ''live''} \<and> ak_TenantID r \<in> i_tn p \<and> ref_opt (ak_CreatedBy r) (i_us p)"

definition group_ok :: "ids \<Rightarrow> WalletGroup \<Rightarrow> bool" where
  "group_ok p r \<longleftrightarrow> wallet_group_check r \<and> wg_TenantID r \<in> i_tn p \<and> ref_opt (wg_ParentGroupID r) (i_wg p)"

definition wallet_ok :: "ids \<Rightarrow> Wallet \<Rightarrow> bool" where
  "wallet_ok p r \<longleftrightarrow> wallet_check r \<and> wl_TenantID r \<in> i_tn p \<and> wl_GroupID r \<in> i_wg p"

definition tx_ok :: "ids \<Rightarrow> Transaction \<Rightarrow> bool" where
  "tx_ok p r \<longleftrightarrow> transaction_check r \<and> tx_TenantID r \<in> i_tn p \<and> tx_WalletID r \<in> i_wl p \<and> tx_GroupID r \<in> i_wg p
     \<and> ref_opt (tx_SessionKeyID r) (i_sk p) \<and> ref_opt (tx_InitiatedByUser r) (i_us p)
     \<and> ref_opt (tx_InitiatedByApikey r) (i_ak p)"

definition onramp_ok :: "ids \<Rightarrow> OnrampOrder \<Rightarrow> bool" where
  "onramp_ok p r \<longleftrightarrow> onramp_check r \<and> oo_TenantID r \<in> i_tn p \<and> oo_WalletID r \<in> i_wl p \<and> oo_GroupID r \<in> i_wg p
     \<and> ref_opt (oo_InitiatedByApikey r) (i_ak p)"

definition policy_ok :: "ids \<Rightarrow> LimitPolicy \<Rightarrow> bool" where
  "policy_ok p r \<longleftrightarrow> policy_check r \<and> lp_TenantID r \<in> i_tn p"

definition session_key_ok :: "ids \<Rightarrow> SessionKey \<Rightarrow> bool" where
  "session_key_ok p r \<longleftrightarrow> session_key_check r \<and> sk_TenantID r \<in> i_tn p \<and> sk_WalletID r \<in> i_wl p \<and> sk_GroupID r \<in> i_wg p
     \<and> ref_opt (sk_PolicyID r) (i_lp p)"

definition lviolation_ok :: "ids \<Rightarrow> LimitViolation \<Rightarrow> bool" where
  "lviolation_ok p r \<longleftrightarrow> violation_check r \<and> lv_TenantID r \<in> i_tn p \<and> ref_opt (lv_PolicyID r) (i_lp p)
     \<and> ref_opt (lv_WalletID r) (i_wl p) \<and> ref_opt (lv_SessionKeyID r) (i_sk p) \<and> ref_opt (lv_TransactionID r) (i_tx p)"

definition endpoint_ok :: "ids \<Rightarrow> WebhookEndpoint \<Rightarrow> bool" where
  "endpoint_ok p r \<longleftrightarrow> endpoint_check r \<and> we_TenantID r \<in> i_tn p"

definition event_ok :: "ids \<Rightarrow> WebhookEvent \<Rightarrow> bool" where
  "event_ok p r \<longleftrightarrow> event_check r \<and> ev_TenantID r \<in> i_tn p \<and> ref_opt (ev_EndpointID r) (i_we p)"

definition vaddr_ok :: "ids \<Rightarrow> VirtualAddress \<Rightarrow> bool" where
  "vaddr_ok p r \<longleftrightarrow> va_TenantID r \<in> i_tn p \<and> va_WalletID r \<in> i_wl p \<and> va_GroupID r \<in> i_wg p"

lemmas row_ok_defs = user_ok_def api_key_ok_def group_ok_def wallet_ok_def tx_ok_def onramp_ok_def policy_ok_def
  session_key_ok_def lviolation_ok_def endpoint_ok_def event_ok_def vaddr_ok_def

lemma row_ok_mono:
  assumes "ids_le p q"
  shows "user_ok p us \<Longrightarrow> user_ok q us" "api_key_ok p ak \<Longrightarrow> api_key_ok q ak" "group_ok p wg \<Longrightarrow> group_ok q wg"
    "wallet_ok p wl \<Longrightarrow> wallet_ok q wl" "tx_ok p tx \<Longrightarrow> tx_ok q tx" "onramp_ok p oo \<Longrightarrow> onramp_ok q oo"
    "policy_ok p lp \<Longrightarrow> policy_ok q lp" "session_key_ok p sk \<Longrightarrow> session_key_ok q sk"
    "lviolation_ok p lv \<Longrightarrow> lviolation_ok q lv" "endpoint_ok p we \<Longrightarrow> endpoint_ok q we"
    "event_ok p ev \<Longrightarrow> event_ok q ev" "vaddr_ok p va \<Longrightarrow> vaddr_ok q va"
  using assms unfolding row_ok_defs ids_le_def by (blast intro: ref_opt_mono)+

definition wf_table :: "('r \<Rightarrow> 'k) \<Rightarrow> ('r \<Rightarrow> bool) \<Rightarrow> 'r list \<Rightarrow> bool" where
  "wf_table key ok rs \<longleftrightarrow> pk_unique key rs \<and> (\<forall>r \<in> set rs. ok r)"

lemma wf_table_mono: "wf_table key ok rs \<Longrightarrow> (\<And>r. ok r \<Longrightarrow> ok' r) \<Longrightarrow> wf_table key ok' rs"
  by (auto simp: wf_table_def)

lemma wf_table_snoc [simp]: "wf_table key ok (rs @ [r]) \<longleftrightarrow> wf_table key ok rs \<and> key r \<notin> key ` set rs \<and> ok r"
  by (auto simp: wf_table_def)

lemma wf_table_upd:
  assumes "wf_table key ok rs" "\<And>r. key (f r) = key r" "\<And>r. r \<in> set rs \<Longrightarrow> p r \<Longrightarrow> ok r \<Longrightarrow> ok (f r)"
  shows "wf_table key ok (upd_where p f rs)"
  using assms row_update.pk_unique_upd_where [OF row_update.intro, of key f p rs]
  by (auto simp: wf_table_def set_upd_where)


text \<open>The unique indexes beside the primary keys; two of them are partial.\<close>

definition secondary_keys :: "db \<Rightarrow> bool" where
  "secondary_keys d \<longleftrightarrow>
     pk_unique tn_PrimaryEmail (tenants d)
     \<and> pk_unique (\<lambda>u. (us_TenantID u, us_Email u)) (users d)
     \<and> pk_unique ak_KeyHash (api_keys d)
     \<and> pk_unique (\<lambda>g. (wg_TenantID g, wg_OwnerRef g)) (wallet_groups d)
     \<and> pk_unique (\<lambda>w. (wl_GroupID w, wl_Rail w, wl_Chain w)) (wallets d)
     \<and> pk_unique (\<lambda>t. (tx_TenantID t, tx_IdempotencyKey t)) (filter (\<lambda>t. tx_IdempotencyKey t \<noteq> None) (transactions d))
     \<and> pk_unique (\<lambda>t. (oo_TenantID t, oo_IdempotencyKey t)) (filter (\<lambda>t. oo_IdempotencyKey t \<noteq> None) (onramp_orders d))
     \<and> pk_unique lp_TenantID (filter (\<lambda>p. is_tenant_default (lp_TenantID p) p) (limit_policies d))
     \<and> pk_unique (\<lambda>v. (va_WalletID v, va_Label v)) (virtual_addresses d)"

definition tables_ok :: "ids \<Rightarrow> db \<Rightarrow> bool" where
  "tables_ok p d \<longleftrightarrow>
     wf_table tn_ID (\<lambda>_. True) (tenants d)
     \<and> wf_table us_ID (user_ok p) (users d)
     \<and> wf_table ak_ID (api_key_ok p) (api_keys d)
     \<and> wf_table wg_ID (group_ok p) (wallet_groups d)
     \<and> wf_table wl_ID (wallet_ok p) (wallets d)
     \<and> wf_table tx_ID (tx_ok p) (transactions d)
     \<and> wf_table oo_ID (onramp_ok p) (onramp_orders d)
     \<and> wf_table lp_ID (policy_ok p) (limit_policies d)
     \<and> wf_table sk_ID (session_key_ok p) (session_keys d)
     \<and> wf_table we_ID (endpoint_ok p) (webhook_endpoints d)
     \<and> wf_table ev_ID (event_ok p) (webhook_events d)
     \<and> wf_table va_ID (vaddr_ok p) (virtual_addresses d)
     \<and> (\<forall>r \<in> set (limit_violations d). lviolation_ok p r)"

definition db_wf :: "db \<Rightarrow> bool" where
  "db_wf d \<longleftrightarrow> tables_ok (ids_of d) d \<and> secondary_keys d"

lemma tables_ok_mono: "tables_ok p d \<Longrightarrow> ids_le p q \<Longrightarrow> tables_ok q d"
  unfolding tables_ok_def by (elim conjE) (intro conjI ballI; (assumption | (erule wf_table_mono) | (drule (1) bspec)); erule (1) row_ok_mono [rotated])

section \<open>Rows of other tenants\<close>

definition others :: "string \<Rightarrow> db \<Rightarrow> db" where
  "others t d = \<lparr>
     tenants = filter (\<lambda>r. tn_ID r \<noteq> t) (tenants d), users = filter (\<lambda>r. us_TenantID r \<noteq> t) (users d),
     api_keys = filter (\<lambda>r. ak_TenantID r \<noteq> t) (api_keys d), wallet_groups = filter (\<lambda>r. wg_TenantID r \<noteq> t) (wallet_groups d),
     wallets = filter (\<lambda>r. wl_TenantID r \<noteq> t) (wallets d), transactions = filter (\<lambda>r. tx_TenantID r \<noteq> t) (transactions d),
     onramp_orders = filter (\<lambda>r. oo_TenantID r \<noteq> t) (onramp_orders d), limit_policies = filter (\<lambda>r. lp_TenantID r \<noteq> t) (limit_policies d),
     session_keys = filter (\<lambda>r. sk_TenantID r \<noteq> t) (session_keys d), limit_violations = filter (\<lambda>r. lv_TenantID r \<noteq> t) (limit_violations d),
     limit_violations_seq = 0,
     webhook_endpoints = filter (\<lambda>r. we_TenantID r \<noteq> t) (webhook_endpoints d),
     webhook_events = filter (\<lambda>r. ev_TenantID r \<noteq> t) (webhook_events d),
     virtual_addresses = filter (\<lambda>r. va_TenantID r \<noteq> t) (virtual_addresses d) \<rparr>"

lemma filter_upd_where:
  "(\<And>r. r \<in> set rs \<Longrightarrow> p r \<Longrightarrow> \<not> keep r \<and> \<not> keep (f r)) \<Longrightarrow> filter keep (upd_where p f rs) = filter keep rs"
  by (induction rs) auto

definition keeps :: "string \<Rightarrow> db \<Rightarrow> db \<Rightarrow> bool" where
  "keeps t d d' \<longleftrightarrow> db_wf d' \<and> others t d' = others t d"

lemma keeps_refl: "db_wf d \<Longrightarrow> keeps t d d"
  by (simp add: keeps_def)

section \<open>Insertions\<close>

lemma keepsI:
  assumes "db_wf d" "ids_le (ids_of d) (ids_of d')" "\<And>p. ids_le (ids_of d) p \<Longrightarrow> tables_ok p d \<Longrightarrow> tables_ok p d'"
    "secondary_keys d \<Longrightarrow> secondary_keys d'" "others t d' = others t d"
  shows "keeps t d d'"
  using assms tables_ok_mono [of "ids_of d" d "ids_of d'"] unfolding keeps_def db_wf_def by blast

lemma ids_of_sel [simp]:
  "i_tn (ids_of d) = tn_ID ` set (tenants d)" "i_us (ids_of d) = us_ID ` set (users d)" "i_ak (ids_of d) = ak_ID ` set (api_keys d)"
  "i_wg (ids_of d) = wg_ID ` set (wallet_groups d)" "i_wl (ids_of d) = wl_ID ` set (wallets d)"
  "i_lp (ids_of d) = lp_ID ` set (limit_policies d)" "i_sk (ids_of d) = sk_ID ` set (session_keys d)"
  "i_tx (ids_of d) = tx_ID ` set (transactions d)" "i_we (ids_of d) = we_ID ` set (webhook_endpoints d)"
  by (simp_all add: ids_of_def)

lemma ids_le_grow [simp]:
  "ids_le (ids_of d) (ids_of (d\<lparr>tenants := tenants d @ r0\<rparr>))" "ids_le (ids_of d) (ids_of (d\<lparr>users := users d @ r1\<rparr>))"
  "ids_le (ids_of d) (ids_of (d\<lparr>api_keys := api_keys d @ r2\<rparr>))" "ids_le (ids_of d) (ids_of (d\<lparr>wallet_groups := wallet_groups d @ r3\<rparr>))"
  "ids_le (ids_of d) (ids_of (d\<lparr>wallets := wallets d @ r4\<rparr>))" "ids_le (ids_of d) (ids_of (d\<lparr>transactions := transactions d @ r5\<rparr>))"
  "ids_le (ids_of d) (ids_of (d\<lparr>onramp_orders := onramp_orders d @ r6\<rparr>))" "ids_le (ids_of d) (ids_of (d\<lparr>limit_policies := limit_policies d @ r7\<rparr>))"
  "ids_le (ids_of d) (ids_of (d\<lparr>session_keys := session_keys d @ r8\<rparr>))" "ids_le (ids_of d) (ids_of (d\<lparr>webhook_endpoints := webhook_endpoints d @ r9\<rparr>))"
  "ids_le (ids_of d) (ids_of (d\<lparr>webhook_events := webhook_events d @ r10\<rparr>))" "ids_le (ids_of d) (ids_of (d\<lparr>virtual_addresses := virtual_addresses d @ r11\<rparr>))"
 
  by (auto simp: ids_le_def)

text \<open>One rule per table: a fresh row of the tenant that passes the constraints keeps both invariants.\<close>

lemmas row_insert = tables_ok_def secondary_keys_def others_def

lemma keeps_tenant:
  assumes "db_wf d"
    "tn_ID r = t"
    "tn_ID r \<notin> tn_ID ` set (tenants d)"
    "tn_PrimaryEmail r \<notin> tn_PrimaryEmail ` set (tenants d)"
  shows "keeps t d (d\<lparr>tenants := tenants d @ [r]\<rparr>)"
  by (rule keepsI [OF assms(1)]) (use assms(2-) in \<open>auto simp: row_insert\<close>)

lemma keeps_user:
  assumes "db_wf d"
    "us_TenantID r = t"
    "us_ID r \<notin> us_ID ` set (users d)"
    "user_ok (ids_of d) r"
    "(\<lambda>u. (us_TenantID u, us_Email u)) r \<notin> (\<lambda>u. (us_TenantID u, us_Email u)) ` set (users d)"
  shows "keeps t d (d\<lparr>users := users d @ [r]\<rparr>)"
  by (rule keepsI [OF assms(1)]) (use assms(2-) in \<open>auto simp: row_insert intro: row_ok_mono\<close>)

lemma keeps_api_key:
  assumes "db_wf d"
    "ak_TenantID r = t"
    "ak_ID r \<notin> ak_ID ` set (api_keys d)"
    "api_key_ok (ids_of d) r"
    "ak_KeyHash r \<notin> ak_KeyHash ` set (api_keys d)"
  shows "keeps t d (d\<lparr>api_keys := api_keys d @ [r]\<rparr>)"
  by (rule keepsI [OF assms(1)]) (use assms(2-) in \<open>auto simp: row_insert intro: row_ok_mono\<close>)

lemma keeps_group:
  assumes "db_wf d"
    "wg_TenantID r = t"
    "wg_ID r \<notin> wg_ID ` set (wallet_groups d)"
    "group_ok (ids_of d) r"
    "(\<lambda>g. (wg_TenantID g, wg_OwnerRef g)) r \<notin> (\<lambda>g. (wg_TenantID g, wg_OwnerRef g)) ` set (wallet_groups d)"
  shows "keeps t d (d\<lparr>wallet_groups := wallet_groups d @ [r]\<rparr>)"
  by (rule keepsI [OF assms(1)]) (use assms(2-) in \<open>auto simp: row_insert intro: row_ok_mono\<close>)

lemma keeps_wallet:
  assumes "db_wf d"
    "wl_TenantID r = t"
    "wl_ID r \<notin> wl_ID ` set (wallets d)"
    "wallet_ok (ids_of d) r"
    "(\<lambda>w. (wl_GroupID w, wl_Rail w, wl_Chain w)) r \<notin> (\<lambda>w. (wl_GroupID w, wl_Rail w, wl_Chain w)) ` set (wallets d)"
  shows "keeps t d (d\<lparr>wallets := wallets d @ [r]\<rparr>)"
  by (rule keepsI [OF assms(1)]) (use assms(2-) in \<open>auto simp: row_insert intro: row_ok_mono\<close>)

lemma keeps_transaction:
  assumes "db_wf d"
    "tx_TenantID r = t"
    "tx_ID r \<notin> tx_ID ` set (transactions d)"
    "tx_ok (ids_of d) r"
    "tx_IdempotencyKey r \<noteq> None \<Longrightarrow>
       (tx_TenantID r, tx_IdempotencyKey r) \<notin> (\<lambda>t. (tx_TenantID t, tx_IdempotencyKey t)) ` set (transactions d)"
  shows "keeps t d (d\<lparr>transactions := transactions d @ [r]\<rparr>)"
  by (rule keepsI [OF assms(1)]) (use assms(2-) in \<open>auto simp: row_insert intro: row_ok_mono\<close>)

lemma keeps_onramp:
  assumes "db_wf d"
    "oo_TenantID r = t"
    "oo_ID r \<notin> oo_ID ` set (onramp_orders d)"
    "onramp_ok (ids_of d) r"
    "oo_IdempotencyKey r \<noteq> None \<Longrightarrow>
       (oo_TenantID r, oo_IdempotencyKey r) \<notin> (\<lambda>t. (oo_TenantID t, oo_IdempotencyKey t)) ` set (onramp_orders d)"
  shows "keeps t d (d\<lparr>onramp_orders := onramp_orders d @ [r]\<rparr>)"
  by (rule keepsI [OF assms(1)]) (use assms(2-) in \<open>auto simp: row_insert intro: row_ok_mono\<close>)

lemma keeps_policy:
  assumes "db_wf d"
    "lp_TenantID r = t"
    "lp_ID r \<notin> lp_ID ` set (limit_policies d)"
    "policy_ok (ids_of d) r"
    "is_tenant_default (lp_TenantID r) r \<Longrightarrow> \<not> list_ex (is_tenant_default (lp_TenantID r)) (limit_policies d)"
  shows "keeps t d (d\<lparr>limit_policies := limit_policies d @ [r]\<rparr>)"
  by (rule keepsI [OF assms(1)]) (use assms(2-) in \<open>auto simp: row_insert list_ex_iff is_tenant_default_def intro: row_ok_mono\<close>)

lemma keeps_session_key:
  assumes "db_wf d"
    "sk_TenantID r = t"
    "sk_ID r \<notin> sk_ID ` set (session_keys d)"
    "session_key_ok (ids_of d) r"
  shows "keeps t d (d\<lparr>session_keys := session_keys d @ [r]\<rparr>)"
  by (rule keepsI [OF assms(1)]) (use assms(2-) in \<open>auto simp: row_insert intro: row_ok_mono\<close>)

lemma keeps_endpoint:
  assumes "db_wf d"
    "we_TenantID r = t"
    "we_ID r \<notin> we_ID ` set (webhook_endpoints d)"
    "endpoint_ok (ids_of d) r"
  shows "keeps t d (d\<lparr>webhook_endpoints := webhook_endpoints d @ [r]\<rparr>)"
  by (rule keepsI [OF assms(1)]) (use assms(2-) in \<open>auto simp: row_insert intro: row_ok_mono\<close>)

lemma keeps_event:
  assumes "db_wf d"
    "ev_TenantID r = t"
    "ev_ID r \<notin> ev_ID ` set (webhook_events d)"
    "event_ok (ids_of d) r"
  shows "keeps t d (d\<lparr>webhook_events := webhook_events d @ [r]\<rparr>)"
  by (rule keepsI [OF assms(1)]) (use assms(2-) in \<open>auto simp: row_insert intro: row_ok_mono\<close>)

lemma keeps_vaddr:
  assumes "db_wf d"
    "va_TenantID r = t"
    "va_ID r \<notin> va_ID ` set (virtual_addresses d)"
    "vaddr_ok (ids_of d) r"
    "(\<lambda>v. (va_WalletID v, va_Label v)) r \<notin> (\<lambda>v. (va_WalletID v, va_Label v)) ` set (virtual_addresses d)"
  shows "keeps t d (d\<lparr>virtual_addresses := virtual_addresses d @ [r]\<rparr>)"
  by (rule keepsI [OF assms(1)]) (use assms(2-) in \<open>auto simp: row_insert intro: row_ok_mono\<close>)

text \<open>The statements that insert.\<close>

lemmas insert_checks = Let_def exists_row_iff ref_opt_fk

lemma CreateTenant_keeps:
  assumes "db_wf d" "tn_ID a = t"
  shows "keeps t d (snd (CreateTenant now a d))"
  using assms keeps_refl [OF assms(1)]
  by (auto simp: CreateTenant_def insert_checks split: option.splits intro!: keeps_tenant)

lemma CreateUser_keeps:
  assumes "db_wf d" "us_TenantID a = t"
  shows "keeps t d (snd (CreateUser now a d))"
  using assms keeps_refl [OF assms(1)]
  by (auto simp: CreateUser_def insert_checks user_ok_def split: option.splits intro!: keeps_user)

lemma CreateAPIKey_keeps:
  assumes "db_wf d" "ak_TenantID a = t"
  shows "keeps t d (snd (CreateAPIKey now a d))"
  using assms keeps_refl [OF assms(1)]
  by (auto simp: CreateAPIKey_def insert_checks api_key_ok_def split: option.splits intro!: keeps_api_key)

lemma CreateWalletGroup_keeps:
  assumes "db_wf d" "wg_TenantID a = t"
  shows "keeps t d (snd (CreateWalletGroup now a d))"
  using assms keeps_refl [OF assms(1)]
  by (auto simp: CreateWalletGroup_def insert_checks group_ok_def split: option.splits intro!: keeps_group)

lemma CreateWallet_keeps:
  assumes "db_wf d" "wl_TenantID a = t"
  shows "keeps t d (snd (CreateWallet now a d))"
  using assms keeps_refl [OF assms(1)]
  by (auto simp: CreateWallet_def insert_checks wallet_ok_def split: option.splits intro!: keeps_wallet)

lemma CreateTransaction_keeps:
  assumes "db_wf d" "tx_TenantID a = t"
  shows "keeps t d (snd (CreateTransaction drv now a d))"
  using assms keeps_refl [OF assms(1)]
  by (auto simp: CreateTransaction_def insert_checks tx_ok_def split: option.splits intro!: keeps_transaction)

lemma CreateOnrampOrder_keeps:
  assumes "db_wf d" "oo_TenantID a = t"
  shows "keeps t d (snd (CreateOnrampOrder drv now a d))"
  using assms keeps_refl [OF assms(1)]
  by (auto simp: CreateOnrampOrder_def insert_checks onramp_ok_def split: option.splits intro!: keeps_onramp)

lemma CreateLimitPolicy_keeps:
  assumes "db_wf d" "lp_TenantID a = t"
  shows "keeps t d (snd (CreateLimitPolicy drv now a d))"
  using assms keeps_refl [OF assms(1)]
  by (auto simp: CreateLimitPolicy_def insert_checks policy_ok_def split: option.splits intro!: keeps_policy)

lemma CreateSessionKey_keeps:
  assumes "db_wf d" "sk_TenantID a = t"
  shows "keeps t d (snd (CreateSessionKey now a d))"
  using assms keeps_refl [OF assms(1)]
  by (auto simp: CreateSessionKey_def insert_checks session_key_ok_def split: option.splits intro!: keeps_session_key)

lemma CreateWebhookEndpoint_keeps:
  assumes "db_wf d" "we_TenantID a = t"
  shows "keeps t d (snd (CreateWebhookEndpoint now a d))"
  using assms keeps_refl [OF assms(1)]
  by (auto simp: CreateWebhookEndpoint_def insert_checks endpoint_ok_def split: option.splits intro!: keeps_endpoint)

lemma CreateWebhookEvent_keeps:
  assumes "db_wf d" "ev_TenantID a = t"
  shows "keeps t d (snd (CreateWebhookEvent now a d))"
  using assms keeps_refl [OF assms(1)]
  by (auto simp: CreateWebhookEvent_def insert_checks event_ok_def split: option.splits intro!: keeps_event)

lemma CreateVirtualAddress_keeps:
  assumes "db_wf d" "va_TenantID a = t"
  shows "keeps t d (snd (CreateVirtualAddress now a d))"
  using assms keeps_refl [OF assms(1)]
  by (auto simp: CreateVirtualAddress_def insert_checks vaddr_ok_def split: option.splits intro!: keeps_vaddr)

section \<open>Updates\<close>

lemma key_image_upd: "(\<And>r. key (f r) = key r) \<Longrightarrow> key ` set (upd_where p f rs) = key ` set rs"
  by (induction rs) auto

lemma map_filter_upd:
  "(\<And>r. g (f r) = g r) \<Longrightarrow> map g (filter (\<lambda>r. Q (g r)) (upd_where p f rs)) = map g (filter (\<lambda>r. Q (g r)) rs)"
  by (induction rs) auto

lemma pk_unique_upd: "(\<And>r. g (f r) = g r) \<Longrightarrow> pk_unique g (upd_where p f rs) \<longleftrightarrow> pk_unique g rs"
  using map_filter_upd [of g f "\<lambda>_. True" p rs] by (simp add: pk_unique_def)

lemma db_wf_update:
  assumes "db_wf d" "ids_of d' = ids_of d" "tables_ok (ids_of d) d \<Longrightarrow> tables_ok (ids_of d) d'" "secondary_keys d \<Longrightarrow> secondary_keys d'"
  shows "db_wf d'"
  using assms by (simp add: db_wf_def)

lemma db_wf_upd_users:
  assumes "db_wf d"
    "\<And>r. us_ID (f r) = us_ID r"
    "\<And>r q. r \<in> set (users d) \<Longrightarrow> p r \<Longrightarrow> user_ok q r \<Longrightarrow> user_ok q (f r)"
    "\<And>r. (\<lambda>u. (us_TenantID u, us_Email u)) (f r) = (\<lambda>u. (us_TenantID u, us_Email u)) r"
  shows "db_wf (d\<lparr>users := upd_where p f (users d)\<rparr>)"
  by (rule db_wf_update [OF assms(1)])
     (use assms(2-) in \<open>auto simp: ids_of_def tables_ok_def secondary_keys_def key_image_upd pk_unique_upd intro!: wf_table_upd\<close>)

lemma db_wf_upd_api_keys:
  assumes "db_wf d"
    "\<And>r. ak_ID (f r) = ak_ID r"
    "\<And>r q. r \<in> set (api_keys d) \<Longrightarrow> p r \<Longrightarrow> api_key_ok q r \<Longrightarrow> api_key_ok q (f r)"
    "\<And>r. ak_KeyHash (f r) = ak_KeyHash r"
  shows "db_wf (d\<lparr>api_keys := upd_where p f (api_keys d)\<rparr>)"
  by (rule db_wf_update [OF assms(1)])
     (use assms(2-) in \<open>auto simp: ids_of_def tables_ok_def secondary_keys_def key_image_upd pk_unique_upd intro!: wf_table_upd\<close>)

lemma idem_upd:
  assumes "\<And>r. (\<lambda>t. (tx_TenantID t, tx_IdempotencyKey t)) (f r) = (\<lambda>t. (tx_TenantID t, tx_IdempotencyKey t)) r"
  shows "pk_unique (\<lambda>t. (tx_TenantID t, tx_IdempotencyKey t)) (filter (\<lambda>t. tx_IdempotencyKey t \<noteq> None) (upd_where p f rs))
    \<longleftrightarrow> pk_unique (\<lambda>t. (tx_TenantID t, tx_IdempotencyKey t)) (filter (\<lambda>t. tx_IdempotencyKey t \<noteq> None) rs)"
  using map_filter_upd [of "\<lambda>t. (tx_TenantID t, tx_IdempotencyKey t)" f "\<lambda>x. snd x \<noteq> None" p rs, OF assms]
  by (simp add: pk_unique_def)

lemma db_wf_upd_transactions:
  assumes "db_wf d"
    "\<And>r. tx_ID (f r) = tx_ID r"
    "\<And>r q. r \<in> set (transactions d) \<Longrightarrow> p r \<Longrightarrow> tx_ok q r \<Longrightarrow> tx_ok q (f r)"
    "\<And>r. (\<lambda>t. (tx_TenantID t, tx_IdempotencyKey t)) (f r) = (\<lambda>t. (tx_TenantID t, tx_IdempotencyKey t)) r"
  shows "db_wf (d\<lparr>transactions := upd_where p f (transactions d)\<rparr>)"
  by (rule db_wf_update [OF assms(1)])
     (use assms(2-) in \<open>auto simp: ids_of_def tables_ok_def secondary_keys_def key_image_upd pk_unique_upd idem_upd simp del: not_None_eq intro!: wf_table_upd\<close>)

lemma db_wf_upd_session_keys:
  assumes "db_wf d"
    "\<And>r. sk_ID (f r) = sk_ID r"
    "\<And>r q. r \<in> set (session_keys d) \<Longrightarrow> p r \<Longrightarrow> session_key_ok q r \<Longrightarrow> session_key_ok q (f r)"
  shows "db_wf (d\<lparr>session_keys := upd_where p f (session_keys d)\<rparr>)"
  by (rule db_wf_update [OF assms(1)])
     (use assms(2-) in \<open>auto simp: ids_of_def tables_ok_def secondary_keys_def key_image_upd pk_unique_upd intro!: wf_table_upd\<close>)

lemma db_wf_upd_webhook_endpoints:
  assumes "db_wf d"
    "\<And>r. we_ID (f r) = we_ID r"
    "\<And>r q. r \<in> set (webhook_endpoints d) \<Longrightarrow> p r \<Longrightarrow> endpoint_ok q r \<Longrightarrow> endpoint_ok q (f r)"
  shows "db_wf (d\<lparr>webhook_endpoints := upd_where p f (webhook_endpoints d)\<rparr>)"
  by (rule db_wf_update [OF assms(1)])
     (use assms(2-) in \<open>auto simp: ids_of_def tables_ok_def secondary_keys_def key_image_upd pk_unique_upd intro!: wf_table_upd\<close>)

lemma db_wf_upd_webhook_events:
  assumes "db_wf d"
    "\<And>r. ev_ID (f r) = ev_ID r"
    "\<And>r q. r \<in> set (webhook_events d) \<Longrightarrow> p r \<Longrightarrow> event_ok q r \<Longrightarrow> event_ok q (f r)"
  shows "db_wf (d\<lparr>webhook_events := upd_where p f (webhook_events d)\<rparr>)"
  by (rule db_wf_update [OF assms(1)])
     (use assms(2-) in \<open>auto simp: ids_of_def tables_ok_def secondary_keys_def key_image_upd pk_unique_upd intro!: wf_table_upd\<close>)

text \<open>Disabling a policy takes it out of the partial index on tenant defaults.\<close>

lemma default_index_disable:
  "pk_unique lp_TenantID (filter (\<lambda>p. is_tenant_default (lp_TenantID p) p) rs) \<Longrightarrow>
   pk_unique lp_TenantID (filter (\<lambda>p. is_tenant_default (lp_TenantID p) p) (upd_where q (disable_policy now) rs))"
  by (induction rs) (auto simp: pk_unique_def is_tenant_default_def disable_policy_def set_upd_where image_iff split: if_splits)

lemma db_wf_disable_policy:
  assumes "db_wf d"
  shows "db_wf (d\<lparr>limit_policies := upd_where q (disable_policy now) (limit_policies d)\<rparr>)"
  by (rule db_wf_update [OF assms])
     (auto simp: ids_of_def tables_ok_def secondary_keys_def key_image_upd default_index_disable disable_policy_def
        policy_ok_def policy_check_def intro!: wf_table_upd)

text \<open>The statements that update; \<open>keeps\<close> needs the row to be of the tenant.\<close>

lemma keeps_update: "db_wf d' \<Longrightarrow> others t d' = others t d \<Longrightarrow> keeps t d d'"
  by (simp add: keeps_def)

lemma update_one_snd:
  "snd (update_one chk p f rs) = rs \<or>
   snd (update_one chk p f rs) = upd_where p f rs \<and> (\<forall>r \<in> set rs. p r \<longrightarrow> chk (f r))"
  by (auto simp: update_one_def list_ex_iff split: option.splits)

text \<open>A row that the tenant owns is the only one with its key.\<close>

lemma db_wf_owner:
  assumes "db_wf d"
  shows "r1 \<in> set (users d) \<Longrightarrow> us_ID r1 = i \<Longrightarrow> us_TenantID r1 = t \<Longrightarrow> x1 \<in> set (users d) \<Longrightarrow> us_ID x1 = i \<Longrightarrow> us_TenantID x1 = t"
    "r2 \<in> set (api_keys d) \<Longrightarrow> ak_ID r2 = i \<Longrightarrow> ak_TenantID r2 = t \<Longrightarrow> x2 \<in> set (api_keys d) \<Longrightarrow> ak_ID x2 = i \<Longrightarrow> ak_TenantID x2 = t"
    "r3 \<in> set (transactions d) \<Longrightarrow> tx_ID r3 = i \<Longrightarrow> tx_TenantID r3 = t \<Longrightarrow> x3 \<in> set (transactions d) \<Longrightarrow> tx_ID x3 = i \<Longrightarrow> tx_TenantID x3 = t"
    "r4 \<in> set (limit_policies d) \<Longrightarrow> lp_ID r4 = i \<Longrightarrow> lp_TenantID r4 = t \<Longrightarrow> x4 \<in> set (limit_policies d) \<Longrightarrow> lp_ID x4 = i \<Longrightarrow> lp_TenantID x4 = t"
    "r5 \<in> set (session_keys d) \<Longrightarrow> sk_ID r5 = i \<Longrightarrow> sk_TenantID r5 = t \<Longrightarrow> x5 \<in> set (session_keys d) \<Longrightarrow> sk_ID x5 = i \<Longrightarrow> sk_TenantID x5 = t"
    "r6 \<in> set (webhook_endpoints d) \<Longrightarrow> we_ID r6 = i \<Longrightarrow> we_TenantID r6 = t \<Longrightarrow> x6 \<in> set (webhook_endpoints d) \<Longrightarrow> we_ID x6 = i \<Longrightarrow> we_TenantID x6 = t"
  using assms unfolding db_wf_def tables_ok_def wf_table_def by (metis pk_unique_same)+

lemma TouchUserLogin_wf: "db_wf d \<Longrightarrow> db_wf (TouchUserLogin now i d)"
  unfolding TouchUserLogin_def by (rule db_wf_upd_users) (auto simp: touch_user_login_def user_ok_def)

lemma TouchUserLogin_keeps:
  assumes "db_wf d" "r \<in> set (users d)" "us_ID r = i" "us_TenantID r = t"
  shows "keeps t d (TouchUserLogin now i d)"
  by (rule keeps_update [OF TouchUserLogin_wf [OF assms(1)]])
     (auto simp: db_wf_owner(1) [OF assms] TouchUserLogin_def others_def touch_user_login_def intro!: filter_upd_where)

lemma TouchAPIKeyUsage_wf: "db_wf d \<Longrightarrow> db_wf (TouchAPIKeyUsage now i d)"
  unfolding TouchAPIKeyUsage_def by (rule db_wf_upd_api_keys) (auto simp: touch_api_key_def api_key_ok_def)

lemma TouchAPIKeyUsage_keeps:
  assumes "db_wf d" "r \<in> set (api_keys d)" "ak_ID r = i" "ak_TenantID r = t"
  shows "keeps t d (TouchAPIKeyUsage now i d)"
  by (rule keeps_update [OF TouchAPIKeyUsage_wf [OF assms(1)]])
     (auto simp: db_wf_owner(2) [OF assms] TouchAPIKeyUsage_def others_def touch_api_key_def intro!: filter_upd_where)

lemma RevokeAPIKey_shape:
  "snd (RevokeAPIKey now i reason d) = d \<or> snd (RevokeAPIKey now i reason d) = d\<lparr>api_keys := upd_where (\<lambda>r. ak_ID r = i \<and> ak_RevokedAt r = None) (revoke_api_key now reason) (api_keys d)\<rparr>
     \<and> (\<forall>r \<in> set (api_keys d). (ak_ID r = i \<and> ak_RevokedAt r = None) \<longrightarrow> (\<lambda>_. True) (revoke_api_key now reason r))"
  using update_one_snd [of "\<lambda>_. True" "\<lambda>r. ak_ID r = i \<and> ak_RevokedAt r = None" "revoke_api_key now reason" "api_keys d"]
  by (auto simp: RevokeAPIKey_def split: prod.splits sum.splits)

lemma RevokeAPIKey_wf: "db_wf d \<Longrightarrow> db_wf (snd (RevokeAPIKey now i reason d))"
  using RevokeAPIKey_shape [of now i reason d] by (auto simp: revoke_api_key_def api_key_ok_def intro!: db_wf_upd_api_keys)

lemma RevokeAPIKey_keeps:
  assumes "db_wf d" "r \<in> set (api_keys d)" "ak_ID r = i" "ak_TenantID r = t"
  shows "keeps t d (snd (RevokeAPIKey now i reason d))"
proof (rule keeps_update)
  show "db_wf (snd (RevokeAPIKey now i reason d))" using assms(1) by (rule RevokeAPIKey_wf)
  show "others t (snd (RevokeAPIKey now i reason d)) = others t d"
    using RevokeAPIKey_shape [of now i reason d]
    by (auto simp: others_def db_wf_owner(2) [OF assms] revoke_api_key_def intro!: filter_upd_where)
qed

lemma UpdateTransactionStatus_shape:
  "snd (UpdateTransactionStatus now i st h b d) = d \<or> snd (UpdateTransactionStatus now i st h b d) = d\<lparr>transactions := upd_where (\<lambda>r. tx_ID r = i) (set_tx_status now st h b) (transactions d)\<rparr>
     \<and> (\<forall>r \<in> set (transactions d). (tx_ID r = i) \<longrightarrow> transaction_check (set_tx_status now st h b r))"
  using update_one_snd [of "transaction_check" "\<lambda>r. tx_ID r = i" "set_tx_status now st h b" "transactions d"]
  by (auto simp: UpdateTransactionStatus_def split: prod.splits sum.splits)

lemma UpdateTransactionStatus_wf: "db_wf d \<Longrightarrow> db_wf (snd (UpdateTransactionStatus now i st h b d))"
  using UpdateTransactionStatus_shape [of now i st h b d] by (auto simp: set_tx_status_def tx_ok_def intro!: db_wf_upd_transactions)

lemma UpdateTransactionStatus_keeps:
  assumes "db_wf d" "r \<in> set (transactions d)" "tx_ID r = i" "tx_TenantID r = t"
  shows "keeps t d (snd (UpdateTransactionStatus now i st h b d))"
proof (rule keeps_update)
  show "db_wf (snd (UpdateTransactionStatus now i st h b d))" using assms(1) by (rule UpdateTransactionStatus_wf)
  show "others t (snd (UpdateTransactionStatus now i st h b d)) = others t d"
    using UpdateTransactionStatus_shape [of now i st h b d]
    by (auto simp: others_def db_wf_owner(3) [OF assms] set_tx_status_def intro!: filter_upd_where)
qed

lemma DisableLimitPolicy_shape:
  "snd (DisableLimitPolicy now i d) = d \<or> snd (DisableLimitPolicy now i d) = d\<lparr>limit_policies := upd_where (\<lambda>r. lp_ID r = i) (disable_policy now) (limit_policies d)\<rparr>
     \<and> (\<forall>r \<in> set (limit_policies d). (lp_ID r = i) \<longrightarrow> (\<lambda>_. True) (disable_policy now r))"
  using update_one_snd [of "\<lambda>_. True" "\<lambda>r. lp_ID r = i" "disable_policy now" "limit_policies d"]
  by (auto simp: DisableLimitPolicy_def split: prod.splits sum.splits)

lemma DisableLimitPolicy_wf: "db_wf d \<Longrightarrow> db_wf (snd (DisableLimitPolicy now i d))"
  using DisableLimitPolicy_shape [of now i d] by (auto simp: disable_policy_def policy_ok_def intro!: db_wf_disable_policy)

lemma DisableLimitPolicy_keeps:
  assumes "db_wf d" "r \<in> set (limit_policies d)" "lp_ID r = i" "lp_TenantID r = t"
  shows "keeps t d (snd (DisableLimitPolicy now i d))"
proof (rule keeps_update)
  show "db_wf (snd (DisableLimitPolicy now i d))" using assms(1) by (rule DisableLimitPolicy_wf)
  show "others t (snd (DisableLimitPolicy now i d)) = others t d"
    using DisableLimitPolicy_shape [of now i d]
    by (auto simp: others_def db_wf_owner(4) [OF assms] disable_policy_def intro!: filter_upd_where)
qed

lemma RevokeSessionKey_shape:
  "snd (RevokeSessionKey now i reason d) = d \<or> snd (RevokeSessionKey now i reason d) = d\<lparr>session_keys := upd_where (\<lambda>r. sk_ID r = i \<and> sk_Status r = ''active'') (revoke_session_key now reason) (session_keys d)\<rparr>
     \<and> (\<forall>r \<in> set (session_keys d). (sk_ID r = i \<and> sk_Status r = ''active'') \<longrightarrow> session_key_check (revoke_session_key now reason r))"
  using update_one_snd [of "session_key_check" "\<lambda>r. sk_ID r = i \<and> sk_Status r = ''active''" "revoke_session_key now reason" "session_keys d"]
  by (auto simp: RevokeSessionKey_def split: prod.splits sum.splits)

lemma RevokeSessionKey_wf: "db_wf d \<Longrightarrow> db_wf (snd (RevokeSessionKey now i reason d))"
  using RevokeSessionKey_shape [of now i reason d] by (auto simp: revoke_session_key_def session_key_ok_def intro!: db_wf_upd_session_keys)

lemma RevokeSessionKey_keeps:
  assumes "db_wf d" "r \<in> set (session_keys d)" "sk_ID r = i" "sk_TenantID r = t"
  shows "keeps t d (snd (RevokeSessionKey now i reason d))"
proof (rule keeps_update)
  show "db_wf (snd (RevokeSessionKey now i reason d))" using assms(1) by (rule RevokeSessionKey_wf)
  show "others t (snd (RevokeSessionKey now i reason d)) = others t d"
    using RevokeSessionKey_shape [of now i reason d]
    by (auto simp: others_def db_wf_owner(5) [OF assms] revoke_session_key_def intro!: filter_upd_where)
qed

lemma UpdateSessionKeyStatus_shape:
  "snd (UpdateSessionKeyStatus now i st d) = d \<or> snd (UpdateSessionKeyStatus now i st d) = d\<lparr>session_keys := upd_where (\<lambda>r. sk_ID r = i) (set_session_key_status now st) (session_keys d)\<rparr>
     \<and> (\<forall>r \<in> set (session_keys d). (sk_ID r = i) \<longrightarrow> session_key_check (set_session_key_status now st r))"
  using update_one_snd [of "session_key_check" "\<lambda>r. sk_ID r = i" "set_session_key_status now st" "session_keys d"]
  by (auto simp: UpdateSessionKeyStatus_def split: prod.splits sum.splits)

lemma UpdateSessionKeyStatus_wf: "db_wf d \<Longrightarrow> db_wf (snd (UpdateSessionKeyStatus now i st d))"
  using UpdateSessionKeyStatus_shape [of now i st d] by (auto simp: set_session_key_status_def session_key_ok_def intro!: db_wf_upd_session_keys)

lemma UpdateSessionKeyStatus_keeps:
  assumes "db_wf d" "r \<in> set (session_keys d)" "sk_ID r = i" "sk_TenantID r = t"
  shows "keeps t d (snd (UpdateSessionKeyStatus now i st d))"
proof (rule keeps_update)
  show "db_wf (snd (UpdateSessionKeyStatus now i st d))" using assms(1) by (rule UpdateSessionKeyStatus_wf)
  show "others t (snd (UpdateSessionKeyStatus now i st d)) = others t d"
    using UpdateSessionKeyStatus_shape [of now i st d]
    by (auto simp: others_def db_wf_owner(5) [OF assms] set_session_key_status_def intro!: filter_upd_where)
qed

lemma UpdateWebhookEndpoint_shape:
  "snd (UpdateWebhookEndpoint now i url evs desc st d) = d \<or> snd (UpdateWebhookEndpoint now i url evs desc st d) = d\<lparr>webhook_endpoints := upd_where (\<lambda>r. we_ID r = i) (update_endpoint now url evs desc st) (webhook_endpoints d)\<rparr>
     \<and> (\<forall>r \<in> set (webhook_endpoints d). (we_ID r = i) \<longrightarrow> endpoint_check (update_endpoint now url evs desc st r))"
  using update_one_snd [of "endpoint_check" "\<lambda>r. we_ID r = i" "update_endpoint now url evs desc st" "webhook_endpoints d"]
  by (auto simp: UpdateWebhookEndpoint_def split: prod.splits sum.splits)

lemma UpdateWebhookEndpoint_wf: "db_wf d \<Longrightarrow> db_wf (snd (UpdateWebhookEndpoint now i url evs desc st d))"
  using UpdateWebhookEndpoint_shape [of now i url evs desc st d] by (auto simp: update_endpoint_def endpoint_ok_def intro!: db_wf_upd_webhook_endpoints)

lemma UpdateWebhookEndpoint_keeps:
  assumes "db_wf d" "r \<in> set (webhook_endpoints d)" "we_ID r = i" "we_TenantID r = t"
  shows "keeps t d (snd (UpdateWebhookEndpoint now i url evs desc st d))"
proof (rule keeps_update)
  show "db_wf (snd (UpdateWebhookEndpoint now i url evs desc st d))" using assms(1) by (rule UpdateWebhookEndpoint_wf)
  show "others t (snd (UpdateWebhookEndpoint now i url evs desc st d)) = others t d"
    using UpdateWebhookEndpoint_shape [of now i url evs desc st d]
    by (auto simp: others_def db_wf_owner(6) [OF assms] update_endpoint_def intro!: filter_upd_where)
qed

lemma RotateWebhookEndpointSecret_shape:
  "snd (RotateWebhookEndpointSecret now i s d) = d \<or> snd (RotateWebhookEndpointSecret now i s d) = d\<lparr>webhook_endpoints := upd_where (\<lambda>r. we_ID r = i) (rotate_secret now s) (webhook_endpoints d)\<rparr>
     \<and> (\<forall>r \<in> set (webhook_endpoints d). (we_ID r = i) \<longrightarrow> (\<lambda>_. True) (rotate_secret now s r))"
  using update_one_snd [of "\<lambda>_. True" "\<lambda>r. we_ID r = i" "rotate_secret now s" "webhook_endpoints d"]
  by (auto simp: RotateWebhookEndpointSecret_def split: prod.splits sum.splits)

lemma RotateWebhookEndpointSecret_wf: "db_wf d \<Longrightarrow> db_wf (snd (RotateWebhookEndpointSecret now i s d))"
  using RotateWebhookEndpointSecret_shape [of now i s d] by (auto simp: rotate_secret_def endpoint_ok_def endpoint_check_def intro!: db_wf_upd_webhook_endpoints)

lemma RotateWebhookEndpointSecret_keeps:
  assumes "db_wf d" "r \<in> set (webhook_endpoints d)" "we_ID r = i" "we_TenantID r = t"
  shows "keeps t d (snd (RotateWebhookEndpointSecret now i s d))"
proof (rule keeps_update)
  show "db_wf (snd (RotateWebhookEndpointSecret now i s d))" using assms(1) by (rule RotateWebhookEndpointSecret_wf)
  show "others t (snd (RotateWebhookEndpointSecret now i s d)) = others t d"
    using RotateWebhookEndpointSecret_shape [of now i s d]
    by (auto simp: others_def db_wf_owner(6) [OF assms] rotate_secret_def intro!: filter_upd_where)
qed

lemma DeleteWebhookEndpoint_wf: "db_wf d \<Longrightarrow> db_wf (DeleteWebhookEndpoint now i d)"
  unfolding DeleteWebhookEndpoint_def by (rule db_wf_upd_webhook_endpoints) (auto simp: set_endpoint_status_def endpoint_ok_def endpoint_check_def)

lemma DeleteWebhookEndpoint_keeps:
  assumes "db_wf d" "r \<in> set (webhook_endpoints d)" "we_ID r = i" "we_TenantID r = t"
  shows "keeps t d (DeleteWebhookEndpoint now i d)"
  by (rule keeps_update [OF DeleteWebhookEndpoint_wf [OF assms(1)]])
     (auto simp: db_wf_owner(6) [OF assms] DeleteWebhookEndpoint_def others_def set_endpoint_status_def intro!: filter_upd_where)

lemma PauseWebhookEndpoint_wf: "db_wf d \<Longrightarrow> db_wf (PauseWebhookEndpoint now i d)"
  unfolding PauseWebhookEndpoint_def by (rule db_wf_upd_webhook_endpoints) (auto simp: set_endpoint_status_def endpoint_ok_def endpoint_check_def)

lemma PauseWebhookEndpoint_keeps:
  assumes "db_wf d" "r \<in> set (webhook_endpoints d)" "we_ID r = i" "we_TenantID r = t"
  shows "keeps t d (PauseWebhookEndpoint now i d)"
  by (rule keeps_update [OF PauseWebhookEndpoint_wf [OF assms(1)]])
     (auto simp: db_wf_owner(6) [OF assms] PauseWebhookEndpoint_def others_def set_endpoint_status_def intro!: filter_upd_where)

lemma TouchWebhookEndpointSuccess_wf: "db_wf d \<Longrightarrow> db_wf (TouchWebhookEndpointSuccess now i d)"
  unfolding TouchWebhookEndpointSuccess_def by (rule db_wf_upd_webhook_endpoints) (auto simp: endpoint_success_def endpoint_ok_def endpoint_check_def)

lemma TouchWebhookEndpointSuccess_keeps:
  assumes "db_wf d" "r \<in> set (webhook_endpoints d)" "we_ID r = i" "we_TenantID r = t"
  shows "keeps t d (TouchWebhookEndpointSuccess now i d)"
  by (rule keeps_update [OF TouchWebhookEndpointSuccess_wf [OF assms(1)]])
     (auto simp: db_wf_owner(6) [OF assms] TouchWebhookEndpointSuccess_def others_def endpoint_success_def intro!: filter_upd_where)

lemma TouchWebhookEndpointFailure_shape:
  "snd (TouchWebhookEndpointFailure now i d) = d \<or> snd (TouchWebhookEndpointFailure now i d) = d\<lparr>webhook_endpoints := upd_where (\<lambda>r. we_ID r = i) (endpoint_failure now) (webhook_endpoints d)\<rparr>
     \<and> (\<forall>r \<in> set (webhook_endpoints d). (we_ID r = i) \<longrightarrow> (\<lambda>_. True) (endpoint_failure now r))"
  using update_one_snd [of "\<lambda>_. True" "\<lambda>r. we_ID r = i" "endpoint_failure now" "webhook_endpoints d"]
  by (auto simp: TouchWebhookEndpointFailure_def split: prod.splits sum.splits)

lemma TouchWebhookEndpointFailure_wf: "db_wf d \<Longrightarrow> db_wf (snd (TouchWebhookEndpointFailure now i d))"
  using TouchWebhookEndpointFailure_shape [of now i d] by (auto simp: endpoint_failure_def endpoint_ok_def endpoint_check_def intro!: db_wf_upd_webhook_endpoints)

lemma TouchWebhookEndpointFailure_keeps:
  assumes "db_wf d" "r \<in> set (webhook_endpoints d)" "we_ID r = i" "we_TenantID r = t"
  shows "keeps t d (snd (TouchWebhookEndpointFailure now i d))"
proof (rule keeps_update)
  show "db_wf (snd (TouchWebhookEndpointFailure now i d))" using assms(1) by (rule TouchWebhookEndpointFailure_wf)
  show "others t (snd (TouchWebhookEndpointFailure now i d)) = others t d"
    using TouchWebhookEndpointFailure_shape [of now i d]
    by (auto simp: others_def db_wf_owner(6) [OF assms] endpoint_failure_def intro!: filter_upd_where)
qed

lemma CreateLimitViolation_keeps:
  assumes "db_wf d" "lv_TenantID a = t"
  shows "keeps t d (snd (CreateLimitViolation drv now a d))"
proof -
  have seq: "keeps t d (d\<lparr>limit_violations_seq := n\<rparr>)" for n
    using assms(1) by (simp add: keeps_def db_wf_def tables_ok_def secondary_keys_def others_def ids_of_def)
  have row: "keeps t' d (d\<lparr>limit_violations_seq := n, limit_violations := limit_violations d @ [r]\<rparr>)"
    if "lv_TenantID r = t'" "lviolation_ok (ids_of d) r" for t' n r
    using assms(1) that by (auto simp: keeps_def db_wf_def tables_ok_def secondary_keys_def others_def ids_of_def)
  show ?thesis using assms(2) seq
    by (auto simp: CreateLimitViolation_def insert_checks lviolation_ok_def split: option.splits intro!: row)
qed

section \<open>The interface of the handlers\<close>

text \<open>The one statement that does not go through \<open>sqlcgen\<close>: the activation of a session key.\<close>

lemma activate_session_key_keeps:
  assumes "db_wf d" "r \<in> set (session_keys d)" "sk_ID r = i" "sk_TenantID r = t"
  shows "keeps t d (d\<lparr>session_keys := upd_where (\<lambda>r. sk_ID r = i) (activate_key now hash) (session_keys d)\<rparr>)"
proof (rule keeps_update)
  show "db_wf (d\<lparr>session_keys := upd_where (\<lambda>r. sk_ID r = i) (activate_key now hash) (session_keys d)\<rparr>)"
    by (rule db_wf_upd_session_keys [OF assms(1)])
       (auto simp: activate_key_def session_key_ok_def session_key_check_def session_key_statuses_def)
qed (auto simp: db_wf_owner(5) [OF assms] others_def activate_key_def intro!: filter_upd_where)

locale tenant_store =
  fixes P :: "string \<Rightarrow> db \<Rightarrow> bool"
  assumes keep_CreateTenant: "P t d \<Longrightarrow> tn_ID tn = t \<Longrightarrow> P t (snd (CreateTenant now tn d))"
    and keep_CreateUser: "P t d \<Longrightarrow> us_TenantID us = t \<Longrightarrow> P t (snd (CreateUser now us d))"
    and keep_CreateAPIKey: "P t d \<Longrightarrow> ak_TenantID ak = t \<Longrightarrow> P t (snd (CreateAPIKey now ak d))"
    and keep_CreateWalletGroup: "P t d \<Longrightarrow> wg_TenantID wg = t \<Longrightarrow> P t (snd (CreateWalletGroup now wg d))"
    and keep_CreateWallet: "P t d \<Longrightarrow> wl_TenantID wl = t \<Longrightarrow> P t (snd (CreateWallet now wl d))"
    and keep_CreateTransaction: "P t d \<Longrightarrow> tx_TenantID tx = t \<Longrightarrow> P t (snd (CreateTransaction drv now tx d))"
    and keep_CreateOnrampOrder: "P t d \<Longrightarrow> oo_TenantID oo = t \<Longrightarrow> P t (snd (CreateOnrampOrder drv now oo d))"
    and keep_CreateLimitPolicy: "P t d \<Longrightarrow> lp_TenantID lp = t \<Longrightarrow> P t (snd (CreateLimitPolicy drv now lp d))"
    and keep_CreateLimitViolation: "P t d \<Longrightarrow> lv_TenantID lv = t \<Longrightarrow> P t (snd (CreateLimitViolation drv now lv d))"
    and keep_CreateSessionKey: "P t d \<Longrightarrow> sk_TenantID sk = t \<Longrightarrow> P t (snd (CreateSessionKey now sk d))"
    and keep_CreateWebhookEndpoint: "P t d \<Longrightarrow> we_TenantID we = t \<Longrightarrow> P t (snd (CreateWebhookEndpoint now we d))"
    and keep_CreateWebhookEvent: "P t d \<Longrightarrow> ev_TenantID ev = t \<Longrightarrow> P t (snd (CreateWebhookEvent now ev d))"
    and keep_CreateVirtualAddress: "P t d \<Longrightarrow> va_TenantID va = t \<Longrightarrow> P t (snd (CreateVirtualAddress now va d))"
    and keep_TouchUserLogin: "P t d \<Longrightarrow> us \<in> set (users d) \<Longrightarrow> us_ID us = i \<Longrightarrow> us_TenantID us = t \<Longrightarrow>
      P t (TouchUserLogin now i d)"
    and keep_TouchAPIKeyUsage: "P t d \<Longrightarrow> ak \<in> set (api_keys d) \<Longrightarrow> ak_ID ak = i \<Longrightarrow> ak_TenantID ak = t \<Longrightarrow>
      P t (TouchAPIKeyUsage now i d)"
    and keep_RevokeAPIKey: "P t d \<Longrightarrow> ak \<in> set (api_keys d) \<Longrightarrow> ak_ID ak = i \<Longrightarrow> ak_TenantID ak = t \<Longrightarrow>
      P t (snd (RevokeAPIKey now i reason d))"
    and keep_UpdateTransactionStatus: "P t d \<Longrightarrow> tx \<in> set (transactions d) \<Longrightarrow> tx_ID tx = i \<Longrightarrow> tx_TenantID tx = t \<Longrightarrow>
      tx_Status tx = ''prepared'' \<Longrightarrow> st = ''broadcast'' \<or> st = ''failed'' \<Longrightarrow> P t (snd (UpdateTransactionStatus now i st h b d))"
    and keep_DisableLimitPolicy: "P t d \<Longrightarrow> lp \<in> set (limit_policies d) \<Longrightarrow> lp_ID lp = i \<Longrightarrow> lp_TenantID lp = t \<Longrightarrow>
      P t (snd (DisableLimitPolicy now i d))"
    and keep_RevokeSessionKey: "P t d \<Longrightarrow> sk \<in> set (session_keys d) \<Longrightarrow> sk_ID sk = i \<Longrightarrow> sk_TenantID sk = t \<Longrightarrow>
      P t (snd (RevokeSessionKey now i reason d))"
    and keep_UpdateWebhookEndpoint: "P t d \<Longrightarrow> we \<in> set (webhook_endpoints d) \<Longrightarrow> we_ID we = i \<Longrightarrow> we_TenantID we = t \<Longrightarrow>
      P t (snd (UpdateWebhookEndpoint now i url evs desc est d))"
    and keep_RotateWebhookEndpointSecret: "P t d \<Longrightarrow> we \<in> set (webhook_endpoints d) \<Longrightarrow> we_ID we = i \<Longrightarrow> we_TenantID we = t \<Longrightarrow>
      P t (snd (RotateWebhookEndpointSecret now i s d))"
    and keep_DeleteWebhookEndpoint: "P t d \<Longrightarrow> we \<in> set (webhook_endpoints d) \<Longrightarrow> we_ID we = i \<Longrightarrow> we_TenantID we = t \<Longrightarrow>
      P t (DeleteWebhookEndpoint now i d)"
    and keep_activate_session_key: "P t d \<Longrightarrow> sk \<in> set (session_keys d) \<Longrightarrow> sk_ID sk = i \<Longrightarrow> sk_TenantID sk = t \<Longrightarrow>
      P t (d\<lparr>session_keys := upd_where (\<lambda>r. sk_ID r = i) (activate_key now hash) (session_keys d)\<rparr>)"
begin

lemma keep_write: "db_write f d q = (x, d') \<Longrightarrow> P t d \<Longrightarrow> P t (snd q) \<Longrightarrow> P t d'"
  by (cases f) auto

lemma keep_write_snd: "P t d \<Longrightarrow> P t (snd q) \<Longrightarrow> P t (snd (db_write f d q))"
  by (cases f) auto

end

lemmas statement_keeps =
  CreateTenant_keeps CreateUser_keeps CreateAPIKey_keeps CreateWalletGroup_keeps CreateWallet_keeps CreateTransaction_keeps CreateOnrampOrder_keeps CreateLimitPolicy_keeps CreateLimitViolation_keeps CreateSessionKey_keeps CreateWebhookEndpoint_keeps CreateWebhookEvent_keeps CreateVirtualAddress_keeps
  TouchUserLogin_keeps TouchAPIKeyUsage_keeps RevokeAPIKey_keeps UpdateTransactionStatus_keeps DisableLimitPolicy_keeps RevokeSessionKey_keeps UpdateWebhookEndpoint_keeps RotateWebhookEndpointSecret_keeps DeleteWebhookEndpoint_keeps activate_session_key_keeps

lemma keeps_wf: "keeps t d d' \<Longrightarrow> db_wf d'"
  by (simp add: keeps_def)

lemma keeps_rest: "keeps t d d' \<Longrightarrow> others t d = rest \<Longrightarrow> db_wf d' \<and> others t d' = rest"
  by (simp add: keeps_def)

interpretation integrity: tenant_store "\<lambda>t d. db_wf d"
  by unfold_locales (rule keeps_wf, rule statement_keeps; assumption)+

interpretation isolation: tenant_store "\<lambda>t d. db_wf d \<and> others t d = rest" for rest
  by unfold_locales (elim conjE, rule keeps_rest, rule statement_keeps; assumption)+

end
