(* ===== verification/Tenant_Services.thy ===== *)
theory Tenant_Services
  imports Tenant_Store Handlers
begin

text \<open>
  The services that the handlers call (webhook publisher, limits engine, session keys) as clients of
  the interface \<open>tenant_store\<close>: whatever fails on the way, they keep every invariant of that
  interface for the tenant they are called for.
\<close>

text \<open>The two violation emitters \<open>server.New\<close> and the tests wire: none, or the webhook publisher.\<close>

definition webhook_emitter_only :: "(env \<Rightarrow> emitter) option \<Rightarrow> bool" where
  "webhook_emitter_only em \<longleftrightarrow> em = None \<or> em = Some EmitLimitExceeded"

definition limits_wired :: "'r WalletGroups \<Rightarrow> bool" where
  "limits_wired h \<longleftrightarrow> (case h_limits h of None \<Rightarrow> True | Some ls \<Rightarrow> webhook_emitter_only (ls_emitter ls))"

lemma cr_row_tenants [simp]:
  "lv_TenantID (violation_row req pol ty) = cr_TenantID req" "le_tenantID (emit_args req pol ty) = cr_TenantID req"
  by (simp_all add: violation_row_def emit_args_def)

context tenant_store
begin

lemma publish_loop_keep: "P t d \<Longrightarrow> P t (snd (publish_loop e t ty body refs eps n d))"
proof (induction eps arbitrary: n d)
  case (Cons ep eps)
  have w: "P t (snd (db_write f d (CreateWebhookEvent now (new_event e t ty body refs ep) d)))" for f now
    by (intro keep_write_snd keep_CreateWebhookEvent Cons.prems) (simp add: new_event_def)
  show ?case
  proof (cases "endpointSubscribed ep ty")
    case True
    obtain x d1 where x: "db_write (fault e ''Publish.CreateWebhookEvent'' (we_ID ep)) d
        (CreateWebhookEvent (clock e ''Publish.sqlnow'' (we_ID ep)) (new_event e t ty body refs ep) d) = (x, d1)" by force
    then have "P t d1" using w by (metis snd_conv)
    then show ?thesis using True x Cons.IH by (cases x) simp_all
  next
    case False
    then show ?thesis using Cons by simp
  qed
qed simp

lemma Publish_keep: "P t d \<Longrightarrow> P t (snd (Publish e t ty data refs d))"
  using publish_loop_keep [of t d] by (simp add: Publish_def split: option.splits sum.splits prod.splits) (metis snd_conv)

lemma EmitLimitExceeded_keep: "P t d \<Longrightarrow> le_tenantID a = t \<Longrightarrow> P t (EmitLimitExceeded e a d)"
  by (auto simp: EmitLimitExceeded_def intro: Publish_keep)

lemma reject_keep:
  assumes "P t d" "cr_TenantID req = t" "webhook_emitter_only em"
  shows "P t (snd (reject e (map_option (\<lambda>f. f e) em) req pol ty capv used msg d))"
proof -
  let ?d = "snd (db_write (fault e ''reject.CreateLimitViolation'' []) d
    (CreateLimitViolation (pg e) (clock e ''reject.sqlnow'' []) (violation_row req pol ty) d))"
  have "P t ?d" by (intro keep_write_snd keep_CreateLimitViolation assms(1)) (simp add: assms(2))
  then have "P t (EmitLimitExceeded e (emit_args req pol ty) ?d)"
    by (rule EmitLimitExceeded_keep) (simp add: assms(2))
  then show ?thesis using assms(3) \<open>P t ?d\<close> by (auto simp: reject_def Let_def webhook_emitter_only_def)
qed

lemma Check_keep:
  assumes "P t d" "cr_TenantID req = t" "webhook_emitter_only em"
  shows "P t (fst (snd (Check e redis (map_option (\<lambda>f. f e) em) req (d, r))))"
proof -
  have rj: "P t d1" if "reject e (map_option (\<lambda>f. f e) em) req pol ty capv used msg d = (res, d1)" for pol ty capv used msg res d1
    using reject_keep [OF assms] that by (metis snd_conv)
  have per: "P t d1" if "checkPeriods e rd (map_option (\<lambda>f. f e) em) req pol (d, r) = (x, d1, r1)" for rd pol x d1 r1
    using that assms(1) by (auto simp: checkPeriods_def Let_def dest: rj split: sum.splits prod.splits option.splits)
  show ?thesis using assms(1)
    by (auto simp: Check_def Let_def dest: rj per split: option.splits sum.splits prod.splits)
qed

lemma limits_Check_keep:
  "P t d \<Longrightarrow> cr_TenantID req = t \<Longrightarrow> webhook_emitter_only (ls_emitter ls) \<Longrightarrow> P t (fst (snd (limits_Check ls e req (d, r))))"
  unfolding limits_Check_def by (rule Check_keep)

lemma WalletGroups_publish_keep: "P t d \<Longrightarrow> P t (WalletGroups_publish h e t ty data refs d)"
  by (simp add: WalletGroups_publish_def Publish_keep)

end

end
