(* ===== verification/Prepared_Spec.thy ===== *)
theory Prepared_Spec
  imports Prepared_Transfers Transfers_Spec Tenant_Services
begin

text \<open>
  The life of a prepared transaction: the metadata is read back as it was written, the expiry is
  honoured, and a submission that reaches the chain settles its row.
\<close>

section \<open>Reading the metadata back\<close>

lemma lower_names:
  "ToLower ''unsigned'' = ''unsigned''" "ToLower ''memo'' = ''memo''" "ToLower ''expires_at'' = ''expires_at''"
  "ToLower ''chain_id'' = ''chain_id''" "ToLower ''nonce'' = ''nonce''" "ToLower ''to'' = ''to''"
  "ToLower ''value_hex'' = ''value_hex''" "ToLower ''gas_limit'' = ''gas_limit''" "ToLower ''gas_price_hex'' = ''gas_price_hex''"
  "ToLower ''data_hex'' = ''data_hex''" "ToLower ''raw_unsigned_hex'' = ''raw_unsigned_hex''"
  by code_simp+

text \<open>The Go types of the numbers: \<open>int64\<close> and \<open>uint64\<close>.\<close>

definition unsigned_in_range :: "UnsignedTransfer \<Rightarrow> bool" where
  "unsigned_in_range u \<longleftrightarrow>
     int64_min \<le> ut_ChainID u \<and> ut_ChainID u \<le> int64_max \<and> 0 \<le> ut_Nonce u \<and> ut_Nonce u \<le> uint64_max
     \<and> 0 \<le> ut_GasLimit u \<and> ut_GasLimit u \<le> uint64_max"

lemma big_SetString_int_to_dec: "big_SetString (int_to_dec n) = Some n"
proof (cases "n < 0")
  case True
  then show ?thesis by (simp add: int_to_dec_def big_SetString_def)
next
  case False
  have "nat_to_dec (nat n) \<noteq> []" "all_digits (nat_to_dec (nat n))" by simp_all
  then show ?thesis using False by (simp add: int_to_dec_def big_SetString_digits)
qed

lemma dec_number_int_to_dec: "lo \<le> n \<Longrightarrow> n \<le> hi \<Longrightarrow> lo \<le> 0 \<Longrightarrow> dec_number lo hi (int_to_dec n) = Some n"
proof -
  assume r: "lo \<le> n" "n \<le> hi" "lo \<le> 0"
  have "lo < 0 \<or> \<not> HasPrefix (int_to_dec n) ''-''"
  proof (cases "n < 0")
    case False
    have "all_digits (nat_to_dec (nat n))" by simp
    then show ?thesis using False by (cases "nat_to_dec (nat n)") (auto simp: int_to_dec_def HasPrefix_def is_digit_def)
  qed (use r in simp)
  then show ?thesis using r by (simp add: dec_number_def big_SetString_int_to_dec)
qed

lemma dec_unsigned_roundtrip:
  assumes "unsigned_in_range u" "unsigned_json u = JObj fs"
  shows "dec_unsigned fs zero_unsigned = u" "unsigned_ok fs"
  using assms
  by (auto simp: unsigned_json_def unsigned_in_range_def dec_unsigned_def unsigned_ok_def dec_num_def dec_str_def set_num_def
      num_ok_def field_values_def lower_names dec_number_int_to_dec zero_unsigned_def)

lemma dec_meta_roundtrip:
  assumes "pm_Unsigned m = Some u" "unsigned_in_range u"
  shows "dec_meta (JVal (prepared_meta_json m)) = (m, True)"
proof -
  obtain fs where fs: "unsigned_json u = JObj fs" by (simp add: unsigned_json_def)
  show ?thesis using dec_unsigned_roundtrip [OF assms(2) fs] assms(1)
    by (cases m) (auto simp: dec_meta_def prepared_meta_json_def opt_unsigned_json_def fs opt_str_def field_values_def lower_names
        dec_str_def set_unsigned_def unsigned_value_ok_def)
qed

section \<open>Submitting\<close>

text \<open>Everything a submission has to pass before the broadcast.\<close>

definition submittable :: "env \<Rightarrow> request_ctx \<Rightarrow> SubmitTransactionRequest \<Rightarrow> db \<Rightarrow> Transaction \<Rightarrow> bool" where
  "submittable e cx req d row \<longleftrightarrow>
     cx_TenantID cx \<noteq> [] \<and> row \<in> set (transactions d) \<and> tx_ID row = sb_PrepareID req
     \<and> GetTransactionByID (sb_PrepareID req) d = Inr row
     \<and> tx_TenantID row = cx_TenantID cx \<and> tx_GroupID row = cx_Params cx ''id'' \<and> tx_Status row = ''prepared'' \<and> \<not> prepared_expired e row"

lemma SubmitTransaction_cases:
  assumes "WalletGroups_SubmitTransaction h e cx body s = (resp, s')"
  obtains (refused) "s' = s" "\<exists>st b. resp = Reply st b \<and> st \<in> {400, 404, 409, 410}"
  | (broadcast) req row res sent st hash where "body = Some req" "submittable e cx req (w_db s) row"
      "BroadcastSignedTx (h_tempo h) (sb_SignedTxHex req) = (res, sent)"
      "st = (case res of Inl _ \<Rightarrow> ''failed'' | Inr _ \<Rightarrow> ''broadcast'')" "hash = (case res of Inl _ \<Rightarrow> None | Inr hh \<Rightarrow> pgxText hh)"
      "s' = s\<lparr>w_chain := w_chain s @ sent, w_db := snd (submit_status e (tx_ID row) st hash (w_db s))\<rparr>"
      "\<exists>st b. resp = Reply st b \<and> st \<in> {200, 500, 502}"
proof (cases "\<exists>req row. body = Some req \<and> submittable e cx req (w_db s) row \<and> cx_Params cx ''id'' \<noteq> []
    \<and> sb_PrepareID req \<noteq> [] \<and> sb_SignedTxHex req \<noteq> [] \<and> fault e ''SubmitTransaction.GetTransactionByID'' [] = None")
  case True
  then obtain req row where r: "body = Some req" "submittable e cx req (w_db s) row" "cx_Params cx ''id'' \<noteq> []"
    "sb_PrepareID req \<noteq> []" "sb_SignedTxHex req \<noteq> []" "fault e ''SubmitTransaction.GetTransactionByID'' [] = None" by blast
  obtain res sent where b: "BroadcastSignedTx (h_tempo h) (sb_SignedTxHex req) = (res, sent)" by force
  let ?st = "case res of Inl _ \<Rightarrow> ''failed'' | Inr _ \<Rightarrow> ''broadcast''" and ?hash = "case res of Inl _ \<Rightarrow> None | Inr hh \<Rightarrow> pgxText hh"
  obtain x d1 where u: "submit_status e (tx_ID row) ?st ?hash (w_db s) = (x, d1)" by force
  have "s' = s\<lparr>w_chain := w_chain s @ sent, w_db := snd (submit_status e (tx_ID row) ?st ?hash (w_db s))\<rparr>
      \<and> (\<exists>st b. resp = Reply st b \<and> st \<in> {200, 500, 502})"
    using assms r b u
    by (cases res; cases x)
       (auto simp: WalletGroups_SubmitTransaction_def submittable_def Let_def internalError_def upstreamError_def)
  then show ?thesis using broadcast [OF r(1,2) b refl refl] by blast
next
  case False
  have "s' = s \<and> (\<exists>st b. resp = Reply st b \<and> st \<in> {400, 404, 409, 410})"
  proof (cases body)
    case (Some req)
    note F = False [unfolded Some]
    show ?thesis
    proof (cases "db_read (fault e ''SubmitTransaction.GetTransactionByID'' []) (GetTransactionByID (sb_PrepareID req) (w_db s))")
      case (Inl err)
      then show ?thesis using assms Some
        by (auto simp: WalletGroups_SubmitTransaction_def Let_def badRequest_def notFound_def split: if_splits)
    next
      case (Inr row)
      have "row \<in> set (transactions (w_db s))" "tx_ID row = sb_PrepareID req"
        using Inr by (auto simp: db_read_Inr GetTransactionByID_def dest!: select_one_D)
      then show ?thesis using assms Some F Inr
        by (auto simp: WalletGroups_SubmitTransaction_def Let_def badRequest_def notFound_def submittable_def db_read_Inr split: if_splits)
    qed
  qed (use assms in \<open>auto simp: WalletGroups_SubmitTransaction_def Let_def badRequest_def split: if_splits\<close>)
  then show ?thesis using refused by blast
qed

lemma UpdateTransactionStatus_lookup:
  assumes "GetTransactionByID i d = Inr row" "\<And>r. transaction_check r \<Longrightarrow> transaction_check (set_tx_status now st hsh b r)" "db_wf d"
  shows "GetTransactionByID i (snd (UpdateTransactionStatus now i st hsh b d)) = Inr (set_tx_status now st hsh b row)"
proof -
  have f: "List.find (\<lambda>r. tx_ID r = i) (transactions d) = Some row" using assms(1) by (simp add: GetTransactionByID_def select_one_Inr)
  have "\<forall>r \<in> set (transactions d). transaction_check r" using assms(3) by (simp add: db_wf_def tables_ok_def wf_table_def tx_ok_def)
  then have "\<not> list_ex (\<lambda>r. tx_ID r = i \<and> \<not> transaction_check (set_tx_status now st hsh b r)) (transactions d)"
    using assms(2) by (auto simp: list_ex_iff)
  then have "snd (UpdateTransactionStatus now i st hsh b d)
      = d\<lparr>transactions := upd_where (\<lambda>r. tx_ID r = i) (set_tx_status now st hsh b) (transactions d)\<rparr>"
    by (simp add: UpdateTransactionStatus_def update_one_def f)
  then show ?thesis by (simp add: GetTransactionByID_def select_one_def upd_tx.find_upd_where_key f)
qed

lemma check_set_tx_status:
  "st = ''failed'' \<or> st = ''broadcast'' \<Longrightarrow> transaction_check r \<Longrightarrow> transaction_check (set_tx_status now st hsh b r)"
  by (auto simp: transaction_check_def set_tx_status_def tx_statuses_def)

lemma not_submittable:
  assumes "\<And>row. \<not> submittable e cx req (w_db s) row"
  shows "w_chain (snd (WalletGroups_SubmitTransaction h e cx (Some req) s)) = w_chain s"
proof -
  obtain resp s' where r: "WalletGroups_SubmitTransaction h e cx (Some req) s = (resp, s')" by force
  then show ?thesis
  proof (cases rule: SubmitTransaction_cases)
    case (broadcast req' row res sent st hash)
    then show ?thesis using assms by simp
  qed (simp add: r)
qed

text \<open>What a submission that reaches the chain has done: it sent what was signed, and settled its row.\<close>

lemma submitted_row:
  assumes run: "WalletGroups_SubmitTransaction h e cx (Some req) s = (resp, s')" and sent: "w_chain s' \<noteq> w_chain s"
    and wf: "db_wf (w_db s)"
  obtains row raw tx where "submittable e cx req (w_db s) row" "hexDecode (sb_SignedTxHex req) = Some raw"
    "UnmarshalBinary (ta_geth (h_tempo h)) raw = Inr tx" "w_chain s' = w_chain s @ [tx]"
    "fault e ''SubmitTransaction.UpdateTransactionStatus'' [] \<noteq> None \<Longrightarrow> w_db s' = w_db s"
    "fault e ''SubmitTransaction.UpdateTransactionStatus'' [] = None \<Longrightarrow>
       \<exists>row'. GetTransactionByID (sb_PrepareID req) (w_db s') = Inr row' \<and> tx_Status row' \<noteq> ''prepared''"
  using run
proof (cases rule: SubmitTransaction_cases)
  case (broadcast req' row res sent st hash)
  have req: "req' = req" using broadcast(1) by simp
  note sub = broadcast(2) [unfolded req]
  have "sent \<noteq> []" using assms(2) broadcast(6) by auto
  then obtain raw tx where tx: "hexDecode (sb_SignedTxHex req) = Some raw" "UnmarshalBinary (ta_geth (h_tempo h)) raw = Inr tx" "sent = [tx]"
    using broadcast(3) req by (auto simp: BroadcastSignedTx_def split: option.splits sum.splits)
  have st: "st = ''failed'' \<or> st = ''broadcast''" using broadcast(4) by (auto split: sum.splits)
  let ?now = "clock e ''SubmitTransaction.sqlnow'' []"
  have look: "GetTransactionByID (sb_PrepareID req) (snd (UpdateTransactionStatus ?now (sb_PrepareID req) st hash None (w_db s)))
      = Inr (set_tx_status ?now st hash None row)"
    using UpdateTransactionStatus_lookup [OF _ check_set_tx_status [OF st] wf] sub by (simp add: submittable_def)
  show thesis
  proof (rule that [OF sub tx(1,2)])
    show "w_chain s' = w_chain s @ [tx]" using broadcast(6) tx(3) by simp
    show "w_db s' = w_db s" if "fault e ''SubmitTransaction.UpdateTransactionStatus'' [] \<noteq> None"
      using that by (auto simp: broadcast(6) submit_status_def)
    show "\<exists>row'. GetTransactionByID (sb_PrepareID req) (w_db s') = Inr row' \<and> tx_Status row' \<noteq> ''prepared''"
      if "fault e ''SubmitTransaction.UpdateTransactionStatus'' [] = None"
      using look that sub st by (auto simp: broadcast(6) submit_status_def submittable_def set_tx_status_def)
  qed
qed (use sent in simp)

lemma settled_row_not_submitted:
  assumes "GetTransactionByID (sb_PrepareID req) (w_db s) = Inr row" "tx_Status row \<noteq> ''prepared''"
  shows "w_chain (snd (WalletGroups_SubmitTransaction h e cx (Some req) s)) = w_chain s"
  using assms by (intro not_submittable) (auto simp: submittable_def)

lemma PrepareTransaction_Inr:
  assumes "WalletGroups_PrepareTransaction h e cx (Some req) d = (Reply 201 v, d1)"
  shows "\<exists>g w built row. BuildTransfer (h_tempo h) (wl_Address w) (prepare_transfer_request w req) = Inr built
    \<and> wl_Custody w = ''user''
    \<and> CreateTransaction (pg e) (clock e ''PrepareTransaction.sqlnow'' []) (prepared_row e (cx_TenantID cx) g w req built) d = (Inr row, d1)
    \<and> wg_ID g = cx_Params cx ''id'' \<and> cx_TenantID cx \<noteq> [] \<and> cx_Params cx ''id'' \<noteq> [] \<and> v = prepared_view_json (preparedRowToView row)"
  using assms unfolding WalletGroups_PrepareTransaction_def Let_def
  by (auto simp: upstreamError_def db_write_def split: if_splits option.splits sum.splits prod.splits) (blast dest: load_group_Some(2))+

text \<open>
  C6: a preparation is good for fifteen minutes, to the second. When \<open>PrepareTransaction\<close> has answered
  201 at the time \<open>t\<close>, one row has been added, in status \<open>prepared\<close>, whose metadata reads back with an expiry
  that parses to \<open>t\<close> plus 900 seconds, truncated to whole seconds. As long as the table holds that
  row, a submission of it through the same tenant and group is answered 410 and changes nothing once the
  clock is past this instant, whatever was signed; up to this instant it is not refused as expired, and what
  was signed goes to the chain. The numbers of the transaction the rail builds are assumed to be in the
  range of their Go types, and the year of the expiry to be a year RFC 3339 can write.
\<close>

theorem prepared_transaction_expires:
  assumes run: "WalletGroups_PrepareTransaction h e cx (Some req) d = (Reply 201 v, d1)"
    and range: "\<forall>w built. BuildTransfer (h_tempo h) (wl_Address w) (prepare_transfer_request w req) = Inr built \<longrightarrow> unsigned_in_range built"
    and deadline: "deadline = (clock e ''PrepareTransaction.now'' [] + 900000000000) div 1000000000 * 1000000000"
    and year: "civil (local_day UTC (clock e ''PrepareTransaction.now'' [] + 900000000000)) = (y, m, day)" "0 \<le> y" "y < 10000"
    and wf: "db_wf d"
  shows "\<exists>row meta. transactions d1 = transactions d @ [row] \<and> tx_Status row = ''prepared'' \<and> GetTransactionByID (tx_ID row) d1 = Inr row
    \<and> dec_meta (tx_Metadata row) = (meta, True) \<and> Parse_RFC3339 (pm_ExpiresAt meta) = Some deadline
    \<and> (\<forall>h2 e2 s sreq. GetTransactionByID (tx_ID row) (w_db s) = Inr row \<and> sb_PrepareID sreq = tx_ID row \<and> tx_ID row \<noteq> []
         \<and> sb_SignedTxHex sreq \<noteq> [] \<and> fault e2 ''SubmitTransaction.GetTransactionByID'' [] = None \<longrightarrow>
       (let out = WalletGroups_SubmitTransaction h2 e2 cx (Some sreq) s in
        if deadline < clock e2 ''SubmitTransaction.now'' [] then resp_status (fst out) = Some 410 \<and> snd out = s
        else resp_status (fst out) \<noteq> Some 410 \<and> w_chain (snd out) = w_chain s @ snd (BroadcastSignedTx (h_tempo h2) (sb_SignedTxHex sreq))))"
proof -
  obtain g w built row where c: "BuildTransfer (h_tempo h) (wl_Address w) (prepare_transfer_request w req) = Inr built"
    "CreateTransaction (pg e) (clock e ''PrepareTransaction.sqlnow'' []) (prepared_row e (cx_TenantID cx) g w req built) d = (Inr row, d1)"
    "wg_ID g = cx_Params cx ''id''" "cx_TenantID cx \<noteq> []" "cx_Params cx ''id'' \<noteq> []"
    using PrepareTransaction_Inr [OF run] by blast
  let ?m = "prepared_meta e built req"
  have ttl: "preparedTTL = 900000000000" "second = 1000000000" by (simp_all add: preparedTTL_def duration_defs)
  have fields: "tx_Status row = ''prepared''" "tx_TenantID row = cx_TenantID cx" "tx_GroupID row = cx_Params cx ''id''"
    "tx_Metadata row = JVal (prepared_meta_json ?m)"
    using CreateTransaction_Inr(3) [OF c(2)] by (auto simp: prepared_row_def c(3))
  have meta: "dec_meta (tx_Metadata row) = (?m, True)"
    using dec_meta_roundtrip [of ?m built] range [rule_format, OF c(1)] by (simp add: fields prepared_meta_def)
  have parse: "Parse_RFC3339 (pm_ExpiresAt ?m) = Some deadline"
    using Parse_Format_RFC3339 [OF year] by (simp add: prepared_meta_def ttl deadline)
  have "pm_ExpiresAt ?m \<noteq> []" by (simp add: prepared_meta_def Format_RFC3339_UTC_def Let_def)
  then have ex: "prepared_expired e2 row \<longleftrightarrow> deadline < clock e2 ''SubmitTransaction.now'' []" for e2
    by (simp add: prepared_expired_def meta parse)
  have "tx_ID row \<notin> tx_ID ` set (transactions d)"
    using c(2) by (auto simp: CreateTransaction_def Let_def exists_row_iff split: option.splits if_splits)
  then have stored: "GetTransactionByID (tx_ID row) d1 = Inr row"
    using CreateTransaction_Inr(1) [OF c(2)]
    by (auto simp: GetTransactionByID_def select_one_def find_append find_None_iff image_iff split: option.splits dest!: find_Some_D)
  have sub: "let out = WalletGroups_SubmitTransaction h2 e2 cx (Some sreq) s in
        if deadline < clock e2 ''SubmitTransaction.now'' [] then resp_status (fst out) = Some 410 \<and> snd out = s
        else resp_status (fst out) \<noteq> Some 410 \<and> w_chain (snd out) = w_chain s @ snd (BroadcastSignedTx (h_tempo h2) (sb_SignedTxHex sreq))"
    if x: "GetTransactionByID (tx_ID row) (w_db s) = Inr row" "sb_PrepareID sreq = tx_ID row" "tx_ID row \<noteq> []" "sb_SignedTxHex sreq \<noteq> []"
      "fault e2 ''SubmitTransaction.GetTransactionByID'' [] = None" for h2 :: "'b WalletGroups" and e2 s sreq
  proof -
    obtain res sent where b: "BroadcastSignedTx (h_tempo h2) (sb_SignedTxHex sreq) = (res, sent)" by force
    show ?thesis using x c(4,5) fields(1-3) ex [of e2] b
      by (cases res) (auto simp: WalletGroups_SubmitTransaction_def Let_def upstreamError_def internalError_def split: sum.split prod.split)
  qed
  then show ?thesis using CreateTransaction_Inr(1) [OF c(2)] fields(1) meta parse stored by blast
qed

section \<open>A concrete wallet in user custody\<close>

definition demo_user_wallet :: Wallet where
  "demo_user_wallet = demo_wallet\<lparr>wl_Custody := ''user'', wl_EncryptedPrivateKey := None, wl_KeyVersion := None\<rparr>"

definition demo_user_bank :: db where
  "demo_user_bank = demo_bank\<lparr>wallets := [demo_user_wallet]\<rparr>"

definition demo_prepare :: PrepareTransactionRequest where
  "demo_prepare = \<lparr> pr_To = ''to'', pr_Amount = ''4.5'', pr_Asset = ''pathUSD'', pr_Memo = [], pr_IdempotencyKey = [] \<rparr>"

definition demo_unsigned :: UnsignedTransfer where
  "demo_unsigned = \<lparr> ut_ChainID = 4217, ut_Nonce = 7, ut_To = PathUSDAddress, ut_ValueHex = ''0x0'', ut_GasLimit = 200000,
     ut_GasPriceHex = ''0x1'', ut_DataHex = ''0x'' @ hex_encode ''to4500000'', ut_RawUnsignedHex = ''0x'' @ hex_encode ''to4500000'' \<rparr>"

definition demo_prepared_row :: Transaction where
  "demo_prepared_row = (prepared_row (calm_env 0) ''tn'' demo_group demo_user_wallet demo_prepare demo_unsigned)\<lparr>tx_Metadata := empty_object\<rparr>"

definition demo_prepared_db :: db where
  "demo_prepared_db = demo_user_bank\<lparr>transactions := [demo_prepared_row]\<rparr>"

definition demo_submit :: SubmitTransactionRequest where
  "demo_submit = \<lparr> sb_PrepareID = ''PrepareTransaction.tx'', sb_SignedTxHex = ''6162'' \<rparr>"

lemmas demo_user_defs = demo_user_bank_def demo_user_wallet_def demo_bank_def demo_tenant_def demo_group_def demo_wallet_def
  demo_policy_def empty_db_def

lemmas wf_eval = db_wf_def tables_ok_def wf_table_def secondary_keys_def pk_unique_def ids_of_def row_ok_defs ref_opt_def
  wallet_group_check_def wallet_check_def policy_check_def transaction_check_def tx_statuses_def is_tenant_default_def

lemma demo_prepared_wf: "db_wf demo_prepared_db" "db_wf demo_user_bank"
  by (simp_all add: wf_eval demo_prepared_db_def demo_prepared_row_def prepared_row_def demo_user_defs demo_prepare_def pgxText_def)

lemma demo_built: "BuildTransfer demo_tempo a (prepare_transfer_request w demo_prepare) = Inr demo_unsigned"
proof -
  have one: "int_to_hex 1 = ''1''" by code_simp
  have "ToUpper (ToUpper ''pathUSD'') = ''PATHUSD''" by code_simp
  then have "transfer_call demo_geth (prepare_transfer_request w demo_prepare) = Inr (PathUSDAddress, ''to4500000'')"
    by (simp add: transfer_call_def tokenAddressFor_def packTransfer_def prepare_transfer_request_def demo_prepare_def demo_units
        TIP20Decimals_def demo_geth_def int_to_dec_def nat_to_dec.simps)
  then show ?thesis
    by (simp add: BuildTransfer_def demo_tempo_def assemble_def demo_eth_def unsigned_transfer_def demo_unsigned_def Let_def)
       (simp add: demo_geth_def wrap64_def one)
qed

lemma demo_hex: "hexDecode ''6162'' = Some ''ab''"
  by code_simp

theorem prepared_transaction_expires_witness:
  "\<exists>v d1 row. WalletGroups_PrepareTransaction demo_handler (calm_env 0) demo_ctx (Some demo_prepare) demo_user_bank = (Reply 201 v, d1)
     \<and> transactions d1 = [row] \<and> resp_status (fst (WalletGroups_SubmitTransaction demo_handler (calm_env 900000000001) demo_ctx
          (Some demo_submit) ((demo_world (\<lambda>_. 0))\<lparr>w_db := d1\<rparr>))) = Some 410
     \<and> w_chain (snd (WalletGroups_SubmitTransaction demo_handler (calm_env 900000000000) demo_ctx
          (Some demo_submit) ((demo_world (\<lambda>_. 0))\<lparr>w_db := d1\<rparr>))) = [''ab'']"
proof -
  have t: "h_tempo demo_handler = demo_tempo" by (simp add: demo_handler_def NewWalletGroups_def)
  have v: "validatePrepareTx demo_prepare = None" "replayed_prepare e tn (pr_IdempotencyKey demo_prepare) d = None" for e tn d
    by (simp_all add: validatePrepareTx_def demo_prepare_def replayed_prepare_def)
  have g: "load_group (calm_env 0) site ''tn'' ''wg'' demo_user_bank = Some demo_group"
    "GetWalletByGroupAndRail (wg_ID demo_group) RailTempo demo_user_bank = Inr demo_user_wallet"
    "wl_Custody demo_user_wallet = ''user''" for site
    by (simp_all add: load_group_def GetWalletGroupByID_def GetWalletByGroupAndRail_def select_one_def demo_user_defs calm_env_def RailTempo_def)
  have "\<exists>row d1. CreateTransaction (pg (calm_env 0)) (clock (calm_env 0) ''PrepareTransaction.sqlnow'' [])
      (prepared_row (calm_env 0) ''tn'' demo_group demo_user_wallet demo_prepare demo_unsigned) demo_user_bank = (Inr row, d1)"
    by (simp add: CreateTransaction_def prepared_row_def demo_user_defs calm_env_def exists_row_def fk_opt_def pgxText_def demo_prepare_def
        transaction_check_def tx_statuses_def store_numeric_def Let_def)
  then obtain row0 d1 where c: "CreateTransaction (pg (calm_env 0)) (clock (calm_env 0) ''PrepareTransaction.sqlnow'' [])
      (prepared_row (calm_env 0) ''tn'' demo_group demo_user_wallet demo_prepare demo_unsigned) demo_user_bank = (Inr row0, d1)" by blast
  have f0: "fault (calm_env t) site key = None" for t site key by (simp add: calm_env_def)
  have x: "cx_TenantID demo_ctx = ''tn''" "cx_Params demo_ctx k = ''wg''" for k by (simp_all add: demo_ctx_def)
  obtain v where r: "WalletGroups_PrepareTransaction demo_handler (calm_env 0) demo_ctx (Some demo_prepare) demo_user_bank = (Reply 201 v, d1)"
    by (simp add: WalletGroups_PrepareTransaction_def x v g f0 c t demo_built Let_def)
  have y: "civil (local_day UTC (clock (calm_env 0) ''PrepareTransaction.now'' [] + 900000000000)) = (1970, 1, 1)"
    by (simp add: calm_env_def) code_simp
  have u: "\<forall>w built. BuildTransfer (h_tempo demo_handler) (wl_Address w) (prepare_transfer_request w demo_prepare) = Inr built
      \<longrightarrow> unsigned_in_range built"
    by (auto simp: t demo_built unsigned_in_range_def demo_unsigned_def)
  have dl: "900000000000 = (clock (calm_env 0) ''PrepareTransaction.now'' [] + 900000000000) div 1000000000 * 1000000000"
    by (simp add: calm_env_def)
  have b: "snd (BroadcastSignedTx (h_tempo demo_handler) (sb_SignedTxHex demo_submit)) = [''ab'']"
    by (simp add: BroadcastSignedTx_def demo_hex demo_submit_def demo_handler_def NewWalletGroups_def demo_tempo_def demo_geth_def demo_eth_def)
  from prepared_transaction_expires [OF r u dl y _ _ demo_prepared_wf(2)] obtain row where
    row: "transactions d1 = [row]" "GetTransactionByID (tx_ID row) d1 = Inr row"
      "\<And>(h2 :: (string \<Rightarrow> int) WalletGroups) e2 s sreq. GetTransactionByID (tx_ID row) (w_db s) = Inr row \<and> sb_PrepareID sreq = tx_ID row
         \<and> tx_ID row \<noteq> [] \<and> sb_SignedTxHex sreq \<noteq> [] \<and> fault e2 ''SubmitTransaction.GetTransactionByID'' [] = None \<Longrightarrow>
       (let out = WalletGroups_SubmitTransaction h2 e2 demo_ctx (Some sreq) s in
        if 900000000000 < clock e2 ''SubmitTransaction.now'' [] then resp_status (fst out) = Some 410 \<and> snd out = s
        else resp_status (fst out) \<noteq> Some 410 \<and> w_chain (snd out) = w_chain s @ snd (BroadcastSignedTx (h_tempo h2) (sb_SignedTxHex sreq)))"
    by (auto simp: demo_user_defs)
  have "transactions demo_user_bank = []" by (simp add: demo_user_defs)
  then have "row = row0" using CreateTransaction_Inr(1) [OF c] row(1) by simp
  then have id: "tx_ID row = ''PrepareTransaction.tx''"
    using CreateTransaction_Inr(3) [OF c] by (auto simp: prepared_row_def calm_env_def)
  let ?s = "(demo_world (\<lambda>_. 0))\<lparr>w_db := d1\<rparr>"
  have sb: "GetTransactionByID (tx_ID row) (w_db ?s) = Inr row \<and> sb_PrepareID demo_submit = tx_ID row \<and> tx_ID row \<noteq> []
      \<and> sb_SignedTxHex demo_submit \<noteq> [] \<and> fault (calm_env n) ''SubmitTransaction.GetTransactionByID'' [] = None" for n
    using row(2) by (simp add: id demo_submit_def f0)
  have cl: "clock (calm_env n) ''SubmitTransaction.now'' [] = n" for n by (simp add: calm_env_def)
  have ch: "w_chain ?s = []" by (simp add: demo_world_def)
  from row(3) [OF sb [of 900000000001]] row(3) [OF sb [of 900000000000]] show ?thesis
    using r row(1) by (auto simp: Let_def cl b ch)
qed

context tenant_store
begin

lemma limit_gate_keep:
  assumes "P t d" "cr_TenantID req = t" "limits_wired h"
  shows "P t (fst (snd (limit_gate h e req (d, r))))"
proof (cases "h_limits h")
  case (Some ls)
  then have "webhook_emitter_only (ls_emitter ls)" using assms(3) by (simp add: limits_wired_def)
  from limits_Check_keep [OF assms(1,2) this, of e r] show ?thesis
    by (auto simp: limit_gate_def Some split: prod.split sum.split)
qed (simp add: limit_gate_def assms)

lemma recordTransaction_keep: "P t d \<Longrightarrow> P t (snd (recordTransaction e t k sk g w req a d))"
  unfolding recordTransaction_def by (intro keep_write_snd keep_CreateTransaction) (simp_all add: transaction_row_def)

lemma SendTransaction_keep:
  assumes "P (cx_TenantID cx) (w_db s)" "limits_wired h"
  shows "P (cx_TenantID cx) (w_db (snd (WalletGroups_SendTransaction h e cx body s)))"
proof -
  obtain resp s' where run: "WalletGroups_SendTransaction h e cx body s = (resp, s')" by force
  have gate: "P (cx_TenantID cx) d1"
    if "limit_gate h e (check_request (cx_TenantID cx) w signerID req) (w_db s, w_redis s) = (x, d1, r1)" for w signerID req x d1 r1
    using limit_gate_keep [OF assms(1) _ assms(2), of "check_request (cx_TenantID cx) w signerID req" e "w_redis s"] that
    by (simp add: check_request_def)
  from run have "P (cx_TenantID cx) (w_db s')"
  proof (cases rule: SendTransaction_cases)
    case refused
    then show ?thesis using assms by simp
  next
    case gated
    then show ?thesis using gate by simp
  next
    case rail_failed
    then show ?thesis using gate dispatch_frame by fastforce
  next
    case (unrecorded grp rail w signerID req d1 r1 a s2 err d3)
    have "P (cx_TenantID cx) (w_db s2)" using gate [OF unrecorded(2)] dispatch_frame [OF unrecorded(3)] by simp
    then show ?thesis using recordTransaction_Inl [OF unrecorded(4)] by (simp add: unrecorded(6))
  next
    case (recorded grp rail w signerID req d1 r1 a s2 row d3 refs)
    have "P (cx_TenantID cx) (w_db s2)" using gate [OF recorded(2)] dispatch_frame [OF recorded(3)] by simp
    then have "P (cx_TenantID cx) d3" using recordTransaction_keep recorded(4) by (metis snd_conv)
    then show ?thesis by (simp add: recorded(6) WalletGroups_publish_keep)
  qed
  then show ?thesis by (simp add: run)
qed

lemma PrepareTransaction_keep:
  assumes "P (cx_TenantID cx) d"
  shows "P (cx_TenantID cx) (snd (WalletGroups_PrepareTransaction h e cx body d))"
proof -
  have w: "P (cx_TenantID cx) d1" if "db_write f d (CreateTransaction drv now (prepared_row e (cx_TenantID cx) g w req built) d) = (x, d1)"
    for f drv now g w req built x d1
    using that assms by (rule keep_write) (intro keep_CreateTransaction assms, simp add: prepared_row_def)
  show ?thesis using assms
    by (auto simp: WalletGroups_PrepareTransaction_def Let_def dest: w split: option.splits sum.splits prod.splits)
qed

lemma SubmitTransaction_keep:
  assumes "P (cx_TenantID cx) (w_db s)"
  shows "P (cx_TenantID cx) (w_db (snd (WalletGroups_SubmitTransaction h e cx body s)))"
proof -
  obtain resp s' where run: "WalletGroups_SubmitTransaction h e cx body s = (resp, s')" by force
  from run have "P (cx_TenantID cx) (w_db s')"
  proof (cases rule: SubmitTransaction_cases)
    case (broadcast req row res sent st hash)
    have "P (cx_TenantID cx) (snd (submit_status e (tx_ID row) st hash (w_db s)))"
      unfolding submit_status_def using broadcast(2,4)
      by (intro keep_write_snd assms keep_UpdateTransactionStatus [OF assms, of row]) (auto simp: submittable_def split: sum.splits)
    then show ?thesis by (simp add: broadcast(6))
  qed (use assms in simp)
  then show ?thesis by (simp add: run)
qed

end

end
