(* ===== verification/Wallet_Groups_Spec.thy ===== *)
theory Wallet_Groups_Spec
  imports Wallet_Groups Prepared_Spec
begin

text \<open>
  Wallet groups: creation is idempotent, a platform wallet comes with a key that opens it and a user
  wallet with none, and every handler keeps the invariants of the store.
\<close>

section \<open>The rows of a new group\<close>

lemma WalletGroups_publish_frame: "\<exists>evs. WalletGroups_publish h e t ty data refs d = add_events evs d"
proof -
  obtain evs where "snd (Publish e t ty (Some data) refs d) = add_events evs d" using Publish_frame by blast
  then show ?thesis by (cases "h_publisher h") (auto simp: WalletGroups_publish_def intro: exI [of _ "[]"])
qed

lemma CreateWallet_Inr:
  assumes "CreateWallet now a d = (Inr w, d')"
  shows "w = a\<lparr>wl_CreatedAt := now, wl_UpdatedAt := now\<rparr>" "d' = d\<lparr>wallets := wallets d @ [w]\<rparr>"
  using assms by (auto simp: CreateWallet_def Let_def split: if_splits)

lemma CreateWalletGroup_Inr:
  assumes "CreateWalletGroup now a d = (Inr g, d')"
  shows "g = a\<lparr>wg_CreatedAt := now, wg_UpdatedAt := now, wg_DeletedAt := None\<rparr>"
    "d' = d\<lparr>wallet_groups := wallet_groups d @ [g]\<rparr>" "wg_ID g \<notin> wg_ID ` set (wallet_groups d)"
    "(wg_TenantID g, wg_OwnerRef g) \<notin> (\<lambda>g. (wg_TenantID g, wg_OwnerRef g)) ` set (wallet_groups d)"
  using assms by (auto simp: CreateWalletGroup_def Let_def exists_row_iff split: if_splits)

definition stored_wallet :: "env \<Rightarrow> Wallet \<Rightarrow> Wallet" where
  "stored_wallet e a = a\<lparr>wl_CreatedAt := clock e ''WalletGroups.Create.sqlnow'' [], wl_UpdatedAt := clock e ''WalletGroups.Create.sqlnow'' []\<rparr>"

lemma insert_wallet_Inr:
  assumes "insert_wallet e a d = (Inr w, d')"
  shows "w = stored_wallet e a \<and> d' = d\<lparr>wallets := wallets d @ [w]\<rparr>"
  using assms CreateWallet_Inr
  by (cases "fault e ''WalletGroups.Create.CreateWallet'' (wl_Rail a)") (auto simp: insert_wallet_def stored_wallet_def)

text \<open>The wallets a provision leads to, in insertion order.\<close>

definition provisioned :: "env \<Rightarrow> string \<Rightarrow> string \<Rightarrow> string \<Rightarrow> string \<Rightarrow> provision \<Rightarrow> Wallet list" where
  "provisioned e groupID tenantID custody cmChain p =
     (case pn_crossmint p of None \<Rightarrow> []
      | Some (a, l) \<Rightarrow> [stored_wallet e (wallet_row e groupID tenantID RailCrossMint cmChain a l custody None)])
     @ (case pn_tempo p of None \<Rightarrow> []
        | Some (a, key) \<Rightarrow> [stored_wallet e (wallet_row e groupID tenantID RailTempo ChainTempo a a custody key)])"

lemma insert_wallets_Inr:
  assumes "insert_wallets e groupID tenantID custody cmChain p d = (Inr ws, d')"
  shows "ws = provisioned e groupID tenantID custody cmChain p" "d' = d\<lparr>wallets := wallets d @ ws\<rparr>"
  using assms
  by (auto simp: insert_wallets_def provisioned_def dest!: insert_wallet_Inr
      split: option.splits sum.splits prod.splits)

lemma store_group_201:
  assumes "store_group h e tenantID custody cmChain req p d = (Reply 201 v, d')"
  obtains g evs where "CreateWalletGroup (clock e ''WalletGroups.Create.sqlnow'' []) (group_row e tenantID custody req) d
        = (Inr g, d\<lparr>wallet_groups := wallet_groups d @ [g]\<rparr>)"
    "d' = add_events evs (d\<lparr>wallet_groups := wallet_groups d @ [g], wallets := wallets d @ provisioned e (wg_ID g) tenantID custody cmChain p\<rparr>)"
    "v = group_view_json (toGroupView g (provisioned e (wg_ID g) tenantID custody cmChain p))"
proof -
  let ?now = "clock e ''WalletGroups.Create.sqlnow'' []"
  obtain g d1 ws d2 where c: "CreateWalletGroup ?now (group_row e tenantID custody req) d = (Inr g, d1)"
    "insert_wallets e (wg_ID g) tenantID custody cmChain p d1 = (Inr ws, d2)" "v = group_view_json (toGroupView g ws)"
    "d' = WalletGroups_publish h e tenantID EventWalletGroupCreated v (no_refs\<lparr>rr_GroupID := wg_ID g\<rparr>) d2"
    using assms
    by (auto simp: store_group_def reuse_group_def db_write_def Let_def split: option.splits sum.splits prod.splits if_splits)
  obtain evs where "d' = add_events evs d2" using WalletGroups_publish_frame c(4) by blast
  then show ?thesis using that [of g evs] c(1,3) CreateWalletGroup_Inr(2) [OF c(1)] insert_wallets_Inr [OF c(2)] by auto
qed

text \<open>The provision a request leads to, and what \<open>Create\<close> does with it.\<close>

definition request_custody :: "CreateGroupRequest \<Rightarrow> string" where
  "request_custody req = (if cg_Custody req = ''user'' then ''user'' else ''platform'')"

definition request_chain :: "'r WalletGroups \<Rightarrow> CreateGroupRequest \<Rightarrow> string" where
  "request_chain h req = (if cg_CrossMintChain req = [] then h_crossMintChainDefault h else cg_CrossMintChain req)"

definition provision_for :: "'r WalletGroups \<Rightarrow> env \<Rightarrow> string \<Rightarrow> CreateGroupRequest \<Rightarrow> (response + provision) \<times> cm_request list" where
  "provision_for h e tenantID req =
     (if request_custody req = ''platform'' then provision_platform h e tenantID (cg_OwnerRef req) (request_chain h req)
      else (Inr (provision_user req), []))"

definition trimmed :: "CreateGroupRequest \<Rightarrow> CreateGroupRequest" where
  "trimmed req = req\<lparr>cg_OwnerRef := TrimSpace (cg_OwnerRef req)\<rparr>"

lemma Create_unfold:
  "WalletGroups_Create h e cx (Some req0) s =
     (let tenantID = cx_TenantID cx; d = w_db s; req = trimmed req0 in
      if tenantID = [] then (badRequest ''missing tenant context'', s)
      else (case validateCreateGroup req of
              Some msg \<Rightarrow> (badRequest msg, s)
            | None \<Rightarrow>
                (case db_read (fault e ''WalletGroups.Create.GetWalletGroupByOwnerRef'' [])
                        (GetWalletGroupByOwnerRef tenantID (cg_OwnerRef req) d) of
                   Inr existing \<Rightarrow> (reuse_group e ''WalletGroups.Create.ListWalletsByGroup'' existing d, s)
                 | Inl _ \<Rightarrow>
                     (case provision_for h e tenantID req of
                        (Inl resp, calls) \<Rightarrow> (resp, s\<lparr>w_provider := w_provider s @ calls\<rparr>)
                      | (Inr p, calls) \<Rightarrow>
                          (case store_group h e tenantID (request_custody req) (request_chain h req) req p d of
                             (resp, d1) \<Rightarrow> (resp, s\<lparr>w_db := d1, w_provider := w_provider s @ calls\<rparr>))))))"
  unfolding WalletGroups_Create_def trimmed_def [symmetric] provision_for_def request_custody_def request_chain_def Let_def
  by simp

lemma reuse_group_not_201: "reuse_group e site g d \<noteq> Reply 201 v"
  by (simp add: reuse_group_def split: sum.splits)

lemma provision_platform_resp: "provision_platform h e t ref ch = (Inl resp, calls) \<Longrightarrow> resp \<noteq> Reply 201 v"
  by (auto simp: provision_platform_def Let_def upstreamError_def split: option.splits sum.splits prod.splits)

lemma Create_201:
  assumes run: "WalletGroups_Create h e cx (Some req) s = (Reply 201 v, s')"
  obtains p calls g evs where "provision_for h e (cx_TenantID cx) (trimmed req) = (Inr p, calls)"
    "CreateWalletGroup (clock e ''WalletGroups.Create.sqlnow'' [])
        (group_row e (cx_TenantID cx) (request_custody (trimmed req)) (trimmed req)) (w_db s)
      = (Inr g, (w_db s)\<lparr>wallet_groups := wallet_groups (w_db s) @ [g]\<rparr>)"
    "w_db s' = add_events evs ((w_db s)\<lparr>wallet_groups := wallet_groups (w_db s) @ [g],
        wallets := wallets (w_db s) @ provisioned e (wg_ID g) (cx_TenantID cx) (request_custody req) (request_chain h req) p\<rparr>)"
    "v = group_view_json (toGroupView g (provisioned e (wg_ID g) (cx_TenantID cx) (request_custody req) (request_chain h req) p))"
    "cx_TenantID cx \<noteq> []" "validateCreateGroup (trimmed req) = None"
proof -
  let ?t = "cx_TenantID cx" and ?r = "trimmed req"
  have c: "request_custody ?r = request_custody req" "request_chain h ?r = request_chain h req"
    by (simp_all add: request_custody_def request_chain_def trimmed_def)
  have b: "?t \<noteq> []" "validateCreateGroup ?r = None"
    using run by (auto simp: Create_unfold Let_def split: if_splits option.splits)
  have "\<not> (\<exists>g. db_read (fault e ''WalletGroups.Create.GetWalletGroupByOwnerRef'' [])
      (GetWalletGroupByOwnerRef ?t (cg_OwnerRef ?r) (w_db s)) = Inr g)"
    using run b by (auto simp: Create_unfold Let_def reuse_group_not_201)
  then obtain err where "db_read (fault e ''WalletGroups.Create.GetWalletGroupByOwnerRef'' [])
      (GetWalletGroupByOwnerRef ?t (cg_OwnerRef ?r) (w_db s)) = Inl err" by (metis sum.exhaust)
  note R = run [unfolded Create_unfold Let_def b(2) this option.case sum.case]
  obtain x calls where p: "provision_for h e ?t ?r = (x, calls)" by force
  obtain p where x: "x = Inr p"
    using R b(1) p by (cases x) (auto simp: provision_for_def split: if_splits dest: provision_platform_resp)
  obtain resp d1 where st: "store_group h e ?t (request_custody ?r) (request_chain h ?r) ?r p (w_db s) = (resp, d1)" by force
  have "resp = Reply 201 v" "w_db s' = d1" using R b(1) p x st by auto
  then show ?thesis using store_group_201 [OF st [unfolded \<open>resp = Reply 201 v\<close>]] that p x b unfolding c by metis
qed


section \<open>Creation is idempotent\<close>

lemma provisioned_fields:
  "w \<in> set (provisioned e g t c ch p) \<Longrightarrow> wl_GroupID w = g \<and> wl_TenantID w = t \<and> wl_Custody w = c \<and> wl_Status w = ''active''"
  by (auto simp: provisioned_def stored_wallet_def wallet_row_def split: option.splits prod.splits)

lemma sorted_provisioned: "sort_key (\<lambda>r. rail_rank (wl_Rail r)) (provisioned e g t c ch p) = provisioned e g t c ch p"
  by (auto simp: provisioned_def stored_wallet_def wallet_row_def rail_rank_def RailTempo_def RailCrossMint_def
      split: option.splits prod.splits)

lemma ListWalletsByGroup_created:
  assumes "db_wf d" "g \<notin> wg_ID ` set (wallet_groups d)"
    "wallets d' = wallets d @ provisioned e g t c ch p"
  shows "ListWalletsByGroup g d' = provisioned e g t c ch p"
proof -
  have "wl_GroupID w \<noteq> g" if "w \<in> set (wallets d)" for w
    using that assms(1,2) by (auto simp: db_wf_def tables_ok_def wf_table_def wallet_ok_def ids_of_def)
  then have "filter (\<lambda>r. wl_GroupID r = g \<and> wl_Status r \<noteq> ''deleted'') (wallets d) = []" by (auto simp: filter_empty_conv)
  moreover have "filter (\<lambda>r. wl_GroupID r = g \<and> wl_Status r \<noteq> ''deleted'') (provisioned e g t c ch p) = provisioned e g t c ch p"
    using provisioned_fields by (fastforce simp: filter_id_conv)
  ultimately show ?thesis by (simp add: ListWalletsByGroup_def assms(3) sorted_provisioned)
qed

lemma GetWalletGroupByOwnerRef_created:
  assumes "CreateWalletGroup now a d = (Inr g, d1)" "wallet_groups d' = wallet_groups d @ [g]"
  shows "GetWalletGroupByOwnerRef (wg_TenantID a) (wg_OwnerRef a) d' = Inr g"
proof -
  note c = CreateWalletGroup_Inr [OF assms(1)]
  have "\<forall>r \<in> set (wallet_groups d). \<not> (wg_TenantID r = wg_TenantID a \<and> wg_OwnerRef r = wg_OwnerRef a \<and> wg_DeletedAt r = None)"
    using c(1,4) by (force simp: image_iff)
  then have "find (\<lambda>r. wg_TenantID r = wg_TenantID a \<and> wg_OwnerRef r = wg_OwnerRef a \<and> wg_DeletedAt r = None) (wallet_groups d) = None"
    by (auto simp: find_None_iff)
  then show ?thesis using c(1) by (simp add: GetWalletGroupByOwnerRef_def assms(2) select_one_def find_append)
qed

text \<open>
  C7: creating a wallet group is idempotent. After a creation that answered 201, every valid request
  of the same tenant for the same owner reference (white space around it apart) is answered from
  the stored row with 200: it names the same group and the same wallets, marked as reused, and
  nothing is written, generated or asked of a rail.
\<close>

theorem Create_is_idempotent:
  assumes run: "WalletGroups_Create h e cx (Some req) s = (Reply 201 v, s')" and wf: "db_wf (w_db s)"
    and again: "TrimSpace (cg_OwnerRef req2) = TrimSpace (cg_OwnerRef req)" "validateCreateGroup (trimmed req2) = None"
    and up: "fault e2 ''WalletGroups.Create.GetWalletGroupByOwnerRef'' [] = None" "fault e2 ''WalletGroups.Create.ListWalletsByGroup'' [] = None"
    and s2: "w_db s2 = w_db s'"
  shows "\<exists>g ws. v = group_view_json (toGroupView g ws)
    \<and> wallet_groups (w_db s') = wallet_groups (w_db s) @ [g] \<and> wallets (w_db s') = wallets (w_db s) @ ws
    \<and> WalletGroups_Create h2 e2 cx (Some req2) s2 = (Reply 200 (group_view_json (toGroupViewWithReuse g ws True)), s2)"
proof -
  from run obtain p calls g evs where c:
    "CreateWalletGroup (clock e ''WalletGroups.Create.sqlnow'' [])
        (group_row e (cx_TenantID cx) (request_custody (trimmed req)) (trimmed req)) (w_db s)
      = (Inr g, (w_db s)\<lparr>wallet_groups := wallet_groups (w_db s) @ [g]\<rparr>)"
    "w_db s' = add_events evs ((w_db s)\<lparr>wallet_groups := wallet_groups (w_db s) @ [g],
        wallets := wallets (w_db s) @ provisioned e (wg_ID g) (cx_TenantID cx) (request_custody req) (request_chain h req) p\<rparr>)"
    "v = group_view_json (toGroupView g (provisioned e (wg_ID g) (cx_TenantID cx) (request_custody req) (request_chain h req) p))"
    "cx_TenantID cx \<noteq> []" by (rule Create_201) blast
  let ?ws = "provisioned e (wg_ID g) (cx_TenantID cx) (request_custody req) (request_chain h req) p"
  have t: "wallet_groups (w_db s') = wallet_groups (w_db s) @ [g]" "wallets (w_db s') = wallets (w_db s) @ ?ws" by (simp_all add: c(2))
  have "GetWalletGroupByOwnerRef (cx_TenantID cx) (cg_OwnerRef (trimmed req2)) (w_db s2) = Inr g"
    using GetWalletGroupByOwnerRef_created [OF c(1) t(1)] again(1) by (simp add: s2 group_row_def trimmed_def)
  moreover have "ListWalletsByGroup (wg_ID g) (w_db s2) = ?ws"
    unfolding s2 by (rule ListWalletsByGroup_created [OF wf CreateWalletGroup_Inr(3) [OF c(1)] t(2)])
  ultimately have "WalletGroups_Create h2 e2 cx (Some req2) s2 = (Reply 200 (group_view_json (toGroupViewWithReuse g ?ws True)), s2)"
    using c(4) again(2) up by (simp add: Create_unfold Let_def reuse_group_def)
  with c(3) t show ?thesis by blast
qed

section \<open>The keys of a new group\<close>

lemma provision_platform_Inr:
  assumes "provision_platform h e t ref ch = (Inr p, calls)"
  obtains priv addr blob ver where "GenerateKeypair (ta_geth (h_tempo h)) ''WalletGroups.Create'' = Inr (priv, addr)"
    "Encrypt (h_ks h) (rand_bytes e ''WalletGroups.Create.Encrypt'' []) priv = Inr (blob, ver)"
    "pn_tempo p = Some (addr, Some (blob, ver))"
  using assms by (auto simp: provision_platform_def Let_def split: option.splits sum.splits prod.splits)

lemma provisioned_user:
  assumes "w \<in> set (provisioned e g t c ch (provision_user req))"
  shows "wl_EncryptedPrivateKey w = None \<and> wl_KeyVersion w = None \<and> (wl_Rail w, wl_Address w) \<in> set (cg_ExternalAddresses req)"
  using assms
  by (auto simp: provisioned_def provision_user_def stored_wallet_def wallet_row_def RailTempo_def RailCrossMint_def
      dest!: sym [of "Some _" "map_of _ _"] dest: map_of_SomeD split: option.splits)

lemma Create_provider: "WalletGroups_Create h e cx (Some req) s = (Reply 201 v, s') \<Longrightarrow>
    provision_for h e (cx_TenantID cx) (trimmed req) = (Inr p, calls) \<Longrightarrow> w_provider s' = w_provider s @ calls"
  by (auto simp: Create_unfold Let_def reuse_group_not_201 split: if_splits option.splits sum.splits prod.splits)

text \<open>
  C8: a new group holds exactly the keys it should. Under platform custody its Tempo wallet stores a
  ciphertext that the keystore opens to the private key whose address the wallet carries, so the
  wallet can be spent from; under user custody no wallet has key material, every address is one the
  caller registered for that rail, and no rail was called.
\<close>

theorem created_group_holds_its_keys:
  assumes run: "WalletGroups_Create h e cx (Some req) s = (Reply 201 v, s')"
    and ks: "gcm_opens new_gcm" "rnd_len (rand_bytes e ''WalletGroups.Create.Encrypt'' [])" "NewAESKeystore new_gcm keys c = Inr (h_ks h)"
  shows "\<exists>g ws. v = group_view_json (toGroupView g ws) \<and> wallets (w_db s') = wallets (w_db s) @ ws
    \<and> (\<forall>w \<in> set ws. wl_GroupID w = wg_ID g \<and> wl_TenantID w = cx_TenantID cx \<and> wl_Status w = ''active'')
    \<and> (if cg_Custody req = ''user''
       then w_provider s' = w_provider s \<and> (\<forall>w \<in> set ws. wl_EncryptedPrivateKey w = None \<and> wl_KeyVersion w = None
              \<and> (wl_Rail w, wl_Address w) \<in> set (cg_ExternalAddresses req))
       else \<exists>w \<in> set ws. \<exists>blob ver priv. wl_Rail w = RailTempo \<and> wl_EncryptedPrivateKey w = Some blob \<and> wl_KeyVersion w = Some ver
              \<and> Decrypt (h_ks h) blob ver = Inr priv
              \<and> GenerateKeypair (ta_geth (h_tempo h)) ''WalletGroups.Create'' = Inr (priv, wl_Address w))"
proof -
  from run obtain p calls g evs where c: "provision_for h e (cx_TenantID cx) (trimmed req) = (Inr p, calls)"
    "w_db s' = add_events evs ((w_db s)\<lparr>wallet_groups := wallet_groups (w_db s) @ [g],
        wallets := wallets (w_db s) @ provisioned e (wg_ID g) (cx_TenantID cx) (request_custody req) (request_chain h req) p\<rparr>)"
    "v = group_view_json (toGroupView g (provisioned e (wg_ID g) (cx_TenantID cx) (request_custody req) (request_chain h req) p))"
    by (rule Create_201) blast
  let ?ws = "provisioned e (wg_ID g) (cx_TenantID cx) (request_custody req) (request_chain h req) p"
  have "if cg_Custody req = ''user''
       then w_provider s' = w_provider s \<and> (\<forall>w \<in> set ?ws. wl_EncryptedPrivateKey w = None \<and> wl_KeyVersion w = None
              \<and> (wl_Rail w, wl_Address w) \<in> set (cg_ExternalAddresses req))
       else \<exists>w \<in> set ?ws. \<exists>blob ver priv. wl_Rail w = RailTempo \<and> wl_EncryptedPrivateKey w = Some blob \<and> wl_KeyVersion w = Some ver
              \<and> Decrypt (h_ks h) blob ver = Inr priv
              \<and> GenerateKeypair (ta_geth (h_tempo h)) ''WalletGroups.Create'' = Inr (priv, wl_Address w)"
  proof (cases "cg_Custody req = ''user''")
    case True
    then have "p = provision_user (trimmed req)" "calls = []"
      using c(1) by (auto simp: provision_for_def request_custody_def trimmed_def)
    then show ?thesis using True provisioned_user Create_provider [OF run c(1)] by (fastforce simp: trimmed_def)
  next
    case False
    then have "provision_platform h e (cx_TenantID cx) (cg_OwnerRef (trimmed req)) (request_chain h (trimmed req)) = (Inr p, calls)"
      using c(1) by (simp add: provision_for_def request_custody_def trimmed_def)
    then obtain priv addr blob ver where k: "GenerateKeypair (ta_geth (h_tempo h)) ''WalletGroups.Create'' = Inr (priv, addr)"
      "Encrypt (h_ks h) (rand_bytes e ''WalletGroups.Create.Encrypt'' []) priv = Inr (blob, ver)"
      "pn_tempo p = Some (addr, Some (blob, ver))" by (rule provision_platform_Inr)
    have "Decrypt (h_ks h) blob ver = Inr priv" using Decrypt_rotated [OF ks(1,2,3,3) refl k(2)] .
    then show ?thesis using False k(1,3) by (auto simp: provisioned_def stored_wallet_def wallet_row_def)
  qed
  moreover have "\<forall>w \<in> set ?ws. wl_GroupID w = wg_ID g \<and> wl_TenantID w = cx_TenantID cx \<and> wl_Status w = ''active''"
    using provisioned_fields by blast
  moreover have "wallets (w_db s') = wallets (w_db s) @ ?ws" by (simp add: c(2))
  ultimately show ?thesis using c(3) by blast
qed

section \<open>The invariants of the store\<close>

context tenant_store
begin

lemma insert_wallet_keep: "P t d \<Longrightarrow> wl_TenantID w = t \<Longrightarrow> P t (snd (insert_wallet e w d))"
  unfolding insert_wallet_def by (intro keep_write_snd keep_CreateWallet)

lemma insert_wallets_keep:
  assumes "P t d" shows "P t (snd (insert_wallets e g t c ch p d))"
proof -
  have w: "P t d2" if "insert_wallet e (wallet_row e g t rail chain a l c k) d1 = (x, d2)" "P t d1" for rail chain a l k x d1 d2
    using insert_wallet_keep [OF that(2), of "wallet_row e g t rail chain a l c k" e] that(1) by (simp add: wallet_row_def)
  show ?thesis using assms by (auto simp: insert_wallets_def dest: w split: option.splits sum.splits prod.splits)
qed

lemma store_group_keep:
  assumes "P t d" shows "P t (snd (store_group h e t c ch req p d))"
proof -
  have g: "P t d1" if "db_write f d (CreateWalletGroup now (group_row e t c req) d) = (x, d1)" for f now x d1
    using that assms by (rule keep_write) (simp add: keep_CreateWalletGroup assms group_row_def)
  have w: "P t d2" if "insert_wallets e i t c ch p d1 = (x, d2)" "P t d1" for i x d1 d2
    using insert_wallets_keep [OF that(2), of e i c ch p] that(1) by simp
  show ?thesis using assms
    by (auto simp: store_group_def Let_def intro!: WalletGroups_publish_keep dest!: g dest: w split: option.splits sum.splits prod.splits)
qed

lemma WalletGroups_Create_keep:
  assumes "P (cx_TenantID cx) (w_db s)"
  shows "P (cx_TenantID cx) (w_db (snd (WalletGroups_Create h e cx body s)))"
proof (cases body)
  case None
  then show ?thesis using assms by (auto simp: WalletGroups_Create_def Let_def)
next
  case (Some req)
  have st: "P (cx_TenantID cx) d1" if "store_group h e (cx_TenantID cx) c ch r p (w_db s) = (resp, d1)" for c ch r p resp d1
    using store_group_keep [OF assms, of h e c ch r p] that by simp
  show ?thesis unfolding Some Create_unfold Let_def using assms by (auto dest: st split: option.split sum.split prod.split)
qed

lemma CreateOnramp_keep:
  assumes "P (cx_TenantID cx) (w_db s)"
  shows "P (cx_TenantID cx) (w_db (snd (WalletGroups_CreateOnramp h e cx body s)))"
proof -
  have w: "P (cx_TenantID cx) d1" if "recordOnramp e (cx_TenantID cx) k g w req ch ord (w_db s) = (x, d1)" for k g w req ch ord x d1
    using that [unfolded recordOnramp_def] assms
    by (rule keep_write) (simp add: keep_CreateOnrampOrder assms onramp_row_def)
  show ?thesis using assms
    by (auto simp: WalletGroups_CreateOnramp_def Let_def intro!: WalletGroups_publish_keep dest: w split: option.split sum.split prod.split)
qed

end

section \<open>Witnesses\<close>

definition demo_create :: "string \<Rightarrow> CreateGroupRequest" where
  "demo_create ref = \<lparr> cg_OwnerType = ''user'', cg_OwnerRef = ref, cg_ParentGroupID = [], cg_DisplayName = [],
     cg_CrossMintChain = [], cg_Custody = [], cg_ExternalAddresses = [] \<rparr>"

lemma demo_trim: "TrimSpace '' bob '' = ''bob''" "TrimSpace ''bob'' = ''bob''"
  by code_simp+

lemma demo_create_valid: "validateCreateGroup (trimmed (demo_create ''bob'')) = None" "trimmed (demo_create '' bob '') = demo_create ''bob''"
  "trimmed (demo_create ''bob'') = demo_create ''bob''" "validateCreateGroup (demo_create ''bob'') = None"
  by (simp_all add: validateCreateGroup_def trimmed_def demo_create_def demo_trim owner_types_def)

lemma demo_created:
  "\<exists>v s'. WalletGroups_Create demo_handler (calm_env 0) demo_ctx (Some (demo_create '' bob '')) (demo_world (\<lambda>_. 0)) = (Reply 201 v, s')"
proof -
  have c: "request_custody (demo_create ''bob'') = ''platform''" by (simp add: request_custody_def demo_create_def)
  have k: "Encrypt demo_ks (rand_bytes (calm_env 0) site []) (replicate 32 CHR ''k'') = Inr (demo_blob, 1)" for site
    using demo_encrypt by (simp add: calm_env_def)
  have p: "provision_for demo_handler (calm_env 0) ''tn'' (demo_create ''bob'') = (Inr \<lparr> pn_crossmint = None, pn_tempo = Some (''kk'', Some (demo_blob, 1)) \<rparr>, [])"
    by (simp add: provision_for_def c provision_platform_def demo_handler_def NewWalletGroups_def demo_tempo_def demo_keypair k Let_def)
  have g: "GetWalletGroupByOwnerRef ''tn'' ''bob'' demo_bank = Inl NoRows"
    by (simp add: GetWalletGroupByOwnerRef_def demo_bank_def select_one_def demo_group_def)
  have f: "fault (calm_env 0) a b = None" for a b by (simp add: calm_env_def)
  have o: "cg_OwnerRef (demo_create ref) = ref" for ref by (simp add: demo_create_def)
  have "\<exists>v d'. store_group demo_handler (calm_env 0) ''tn'' ''platform'' (request_chain demo_handler (demo_create ''bob'')) (demo_create ''bob'')
      \<lparr> pn_crossmint = None, pn_tempo = Some (''kk'', Some (demo_blob, 1)) \<rparr> demo_bank = (Reply 201 v, d')"
    by (simp add: store_group_def f CreateWalletGroup_def group_row_def demo_create_def calm_env_def demo_bank_def demo_tenant_def
        demo_group_def demo_wallet_def exists_row_def fk_opt_def pgxText_def wallet_group_check_def insert_wallets_def insert_wallet_def
        CreateWallet_def wallet_row_def wallet_check_def RailTempo_def ChainTempo_def demo_blob_def Let_def)
  then show ?thesis
    by (auto simp: Create_unfold demo_ctx_def demo_create_valid demo_world_def p c f g o Let_def)
qed

theorem Create_is_idempotent_witness:
  "\<exists>v s' g ws. WalletGroups_Create demo_handler (calm_env 0) demo_ctx (Some (demo_create '' bob '')) (demo_world (\<lambda>_. 0)) = (Reply 201 v, s')
     \<and> WalletGroups_Create demo_handler (calm_env 1) demo_ctx (Some (demo_create ''bob'')) s'
         = (Reply 200 (group_view_json (toGroupViewWithReuse g ws True)), s')"
proof -
  obtain v s' where r: "WalletGroups_Create demo_handler (calm_env 0) demo_ctx (Some (demo_create '' bob '')) (demo_world (\<lambda>_. 0)) = (Reply 201 v, s')"
    using demo_created by blast
  have wf: "db_wf (w_db (demo_world (\<lambda>_. 0)))"
    by (simp add: wf_eval demo_world_def demo_user_defs)
  have t: "TrimSpace (cg_OwnerRef (demo_create ''bob'')) = TrimSpace (cg_OwnerRef (demo_create '' bob ''))"
    by (simp add: demo_create_def demo_trim)
  have f: "fault (calm_env 1) a b = None" for a b by (simp add: calm_env_def)
  from Create_is_idempotent [OF r wf t demo_create_valid(1) f f refl] r show ?thesis by blast
qed

theorem created_group_holds_its_keys_witness:
  "\<exists>v s' ws w blob ver priv. WalletGroups_Create demo_handler (calm_env 0) demo_ctx (Some (demo_create '' bob '')) (demo_world (\<lambda>_. 0)) = (Reply 201 v, s')
     \<and> wallets (w_db s') = demo_wallet # ws \<and> w \<in> set ws \<and> wl_EncryptedPrivateKey w = Some blob \<and> wl_KeyVersion w = Some ver
     \<and> Decrypt demo_ks blob ver = Inr priv \<and> GenerateKeypair demo_geth ''WalletGroups.Create'' = Inr (priv, wl_Address w)"
proof -
  obtain v s' where r: "WalletGroups_Create demo_handler (calm_env 0) demo_ctx (Some (demo_create '' bob '')) (demo_world (\<lambda>_. 0)) = (Reply 201 v, s')"
    using demo_created by blast
  have h: "h_ks demo_handler = demo_ks" "ta_geth (h_tempo demo_handler) = demo_geth" "wallets (w_db (demo_world r)) = [demo_wallet]"
    "cg_Custody (demo_create x) = []" for r x
    by (simp_all add: demo_handler_def NewWalletGroups_def demo_tempo_def demo_world_def demo_bank_def demo_create_def)
  from created_group_holds_its_keys [OF r demo_gcm_opens rand_calm demo_ks_built(1) [folded h(1)]] r show ?thesis
    unfolding h by fastforce
qed

end
