(* ===== verification/Session_Key_Handlers.thy ===== *)
theory Session_Key_Handlers
  imports Transfers Prepared_Transfers
begin

text \<open>
  \<open>handlers/session_keys.go\<close> and \<open>handlers/session_keys_user_custody.go\<close>: the routes that create,
  list, revoke and activate session keys.
\<close>

record SessionKeys =
  kh_svc :: session_service
  kh_publisher :: bool

definition SessionKeys_publish :: "SessionKeys \<Rightarrow> env \<Rightarrow> string \<Rightarrow> string \<Rightarrow> json \<Rightarrow> ResourceRefs \<Rightarrow> db \<Rightarrow> db" where
  "SessionKeys_publish h e tenantID eventType data refs d =
     (if kh_publisher h then snd (Publish e tenantID eventType (Some data) refs d) else d)"

record SessionKeyView =
  kv_ID :: string
  kv_Name :: string
  kv_WalletID :: string
  kv_GroupID :: string
  kv_PublicAddress :: string
  kv_PolicyID :: string
  kv_Status :: string
  kv_RotationMode :: string
  kv_RotationIntervalS :: int
  kv_ExpiresAt :: string
  kv_NextRotationAt :: string
  kv_RailNative :: bool
  kv_CreatedAt :: string
  kv_RevokedAt :: string

definition key_view_fields :: "SessionKeyView \<Rightarrow> (string \<times> json) list" where
  "key_view_fields v =
     [(''id'', JStr (kv_ID v)), (''name'', JStr (kv_Name v)), (''wallet_id'', JStr (kv_WalletID v)),
      (''group_id'', JStr (kv_GroupID v)), (''public_address'', JStr (kv_PublicAddress v))]
     @ opt_str ''policy_id'' (kv_PolicyID v)
     @ [(''status'', JStr (kv_Status v)), (''rotation_mode'', JStr (kv_RotationMode v)),
        (''rotation_interval_s'', JNum (int_to_dec (kv_RotationIntervalS v)))]
     @ opt_str ''expires_at'' (kv_ExpiresAt v) @ opt_str ''next_rotation_at'' (kv_NextRotationAt v)
     @ [(''rail_native'', JBool (kv_RailNative v))]
     @ opt_str ''created_at'' (kv_CreatedAt v) @ opt_str ''revoked_at'' (kv_RevokedAt v)"

definition format_time_opt :: "time option \<Rightarrow> string" where
  "format_time_opt t = (case t of None \<Rightarrow> [] | Some x \<Rightarrow> Format_RFC3339_UTC x)"

definition toSessionKeyView :: "SessionKey \<Rightarrow> SessionKeyView" where
  "toSessionKeyView r =
     \<lparr> kv_ID = sk_ID r, kv_Name = sk_Name r, kv_WalletID = sk_WalletID r, kv_GroupID = sk_GroupID r,
       kv_PublicAddress = sk_PublicAddress r, kv_PolicyID = text_String (sk_PolicyID r), kv_Status = sk_Status r,
       kv_RotationMode = sk_RotationMode r, kv_RotationIntervalS = sk_RotationIntervalS r,
       kv_ExpiresAt = Format_RFC3339_UTC (sk_ExpiresAt r), kv_NextRotationAt = format_time_opt (sk_NextRotationAt r),
       kv_RailNative = sk_RailNative r, kv_CreatedAt = Format_RFC3339_UTC (sk_CreatedAt r),
       kv_RevokedAt = format_time_opt (sk_RevokedAt r) \<rparr>"

section \<open>Create\<close>

record CreateSessionKeyRequest =
  ck_Name :: string
  ck_Rail :: string
  ck_PerTxAmount :: string
  ck_DailyAmount :: string
  ck_WeeklyAmount :: string
  ck_MonthlyAmount :: string
  ck_AllowedRecipients :: "string list"
  ck_DeniedRecipients :: "string list"
  ck_RotationMode :: string
  ck_RotationIntervalHours :: int
  ck_ExpiresAt :: string
  ck_OnChainEnforce :: bool

definition validateCreateSessionKey :: "CreateSessionKeyRequest \<Rightarrow> string option" where
  "validateCreateSessionKey r =
     (if ck_Name r = [] then Some ''name is required''
      else if ck_Rail r \<noteq> [] \<and> ck_Rail r \<noteq> ''tempo'' \<and> ck_Rail r \<noteq> ''crossmint'' then
        Some (''rail must be '' @ go_quote ''tempo'' @ '' or '' @ go_quote ''crossmint'')
      else if ck_RotationMode r \<noteq> [] \<and> ck_RotationMode r \<notin> set rotation_modes then
        Some (''rotation_mode must be one of '' @ go_quote ''auto_rotate'' @ '', '' @ go_quote ''notify_only'' @ '', ''
          @ go_quote ''hard_expire'')
      else if ck_RotationIntervalHours r < 0 \<or> 24 * 30 < ck_RotationIntervalHours r then
        Some ''rotation_interval_hours must be between 0 and 720''
      else None)"

definition allZeros :: "string \<Rightarrow> bool" where
  "allZeros s = list_all (\<lambda>c. c = CHR ''0'') s"

text \<open>\<open>indexByte\<close> and the slices around the index are \<open>strings.Cut\<close>.\<close>

definition parseUSD :: "string \<Rightarrow> string + int" where
  "parseUSD s =
     (let whole = (\<lambda>s. case ParseInt 64 s of
                         None \<Rightarrow> Inl ''must be a non-negative integer USD amount''
                       | Some n \<Rightarrow> if n < 0 then Inl ''must be a non-negative integer USD amount'' else Inr n) in
      if s = [] then Inr 0
      else (case Cut CHR ''.'' s of
              (before, tail, found) \<Rightarrow>
                if found \<and> \<not> allZeros tail then Inl ''must be a whole USD integer (no sub-dollar amounts yet)''
                else whole before))"

definition prefix_error :: "string \<Rightarrow> string + 'a \<Rightarrow> string + 'a" where
  "prefix_error name x = (case x of Inl msg \<Rightarrow> Inl (name @ '': '' @ msg) | Inr v \<Rightarrow> Inr v)"

definition parseSessionCaps :: "CreateSessionKeyRequest \<Rightarrow> string + int \<times> int \<times> int \<times> int" where
  "parseSessionCaps r =
     (case prefix_error ''per_tx_amount'' (parseUSD (ck_PerTxAmount r)) of Inl m \<Rightarrow> Inl m
      | Inr perTx \<Rightarrow>
     (case prefix_error ''daily_amount'' (parseUSD (ck_DailyAmount r)) of Inl m \<Rightarrow> Inl m
      | Inr daily \<Rightarrow>
     (case prefix_error ''weekly_amount'' (parseUSD (ck_WeeklyAmount r)) of Inl m \<Rightarrow> Inl m
      | Inr weekly \<Rightarrow>
     (case prefix_error ''monthly_amount'' (parseUSD (ck_MonthlyAmount r)) of Inl m \<Rightarrow> Inl m
      | Inr monthly \<Rightarrow> Inr (perTx, daily, weekly, monthly)))))"

text \<open>\<open>expires_at\<close> of the request; the zero time stands for absent.\<close>

definition parse_expiry :: "string \<Rightarrow> time option" where
  "parse_expiry s = (if s = [] then Some zero_time else Parse_RFC3339 s)"

definition mint_input ::
    "string \<Rightarrow> Wallet \<Rightarrow> WalletGroup \<Rightarrow> CreateSessionKeyRequest \<Rightarrow> int \<times> int \<times> int \<times> int \<Rightarrow> time \<Rightarrow> bool \<Rightarrow> MintInput" where
  "mint_input tenantID w g req caps expiresAt onChain =
     (case caps of (perTx, daily, weekly, monthly) \<Rightarrow>
      \<lparr> mi_TenantID = tenantID, mi_WalletID = wl_ID w, mi_GroupID = wg_ID g, mi_Name = ck_Name req,
        mi_Limits = \<lparr> sl_PerTxUSD = perTx, sl_DailyUSD = daily, sl_WeeklyUSD = weekly, sl_MonthlyUSD = monthly,
                     sl_AllowedRecipients = ck_AllowedRecipients req, sl_DeniedRecipients = ck_DeniedRecipients req \<rparr>,
        mi_RotationMode = ck_RotationMode req, mi_RotationIntervalS = wrap32 (wrap32 (ck_RotationIntervalHours req) * 3600),
        mi_ExpiresAt = expiresAt, mi_OnChainEnforce = onChain \<rparr>)"

definition key_refs :: "string \<Rightarrow> string \<Rightarrow> string \<Rightarrow> ResourceRefs" where
  "key_refs walletID groupID keyID = no_refs\<lparr>rr_WalletID := walletID, rr_GroupID := groupID, rr_SessionKeyID := keyID\<rparr>"

definition createUserCustody ::
    "SessionKeys \<Rightarrow> env \<Rightarrow> string \<Rightarrow> WalletGroup \<Rightarrow> Wallet \<Rightarrow> CreateSessionKeyRequest \<Rightarrow> db \<Rightarrow> response \<times> db" where
  "createUserCustody h e tenantID g w req d =
     (case parseSessionCaps req of
        Inl msg \<Rightarrow> (badRequest msg, d)
      | Inr caps \<Rightarrow>
          (case parse_expiry (ck_ExpiresAt req) of
             None \<Rightarrow> (badRequest ''expires_at must be RFC 3339'', d)
           | Some expiresAt \<Rightarrow>
               if wl_Rail w \<noteq> RailTempo then
                 (Reply 400 (JObj [(''error'', JStr ''user-custody session keys only supported on rail=tempo''),
                    (''code'', JStr ''user_custody_session_key_rail_unsupported''), (''rail'', JStr (wl_Rail w))]), d)
               else
                 (case PrepareUserCustody (kh_svc h) e (mint_input tenantID w g req caps expiresAt False) d of
                    (Inl _, d1) \<Rightarrow> (internalError, d1)
                  | (Inr prepared, d1) \<Rightarrow>
                      (case db_read (fault e ''createUserCustody.GetSessionKeyByID'' []) (GetSessionKeyByID (pd_ID prepared) d1) of
                         Inl _ \<Rightarrow> (internalError, d1)
                       | Inr row \<Rightarrow>
                           (let view = key_view_fields (toSessionKeyView row)
                            in (Reply 201 (JObj (view
                                  @ [(''private_key'', JStr (hex_encode (pd_PrivateKey prepared))),
                                     (''unsigned_authorize'', unsigned_json (pd_UnsignedAuthorize prepared)),
                                     (''_notice'', JStr (''Session key is pending_authorize. Have the wallet owner sign ''
                                        @ ''unsigned_authorize.raw_unsigned_hex with the wallet master key, ''
                                        @ ''then POST .../session-keys/{id}/submit-authorize with the signed bytes.''))])),
                                SessionKeys_publish h e tenantID EventSessionKeyCreated (JObj view)
                                  (key_refs (wl_ID w) (wg_ID g) (sk_ID row)) d1))))))"

text \<open>The platform-custody branch of \<open>Create\<close>, once group and wallet are found.\<close>

definition create_platform ::
    "SessionKeys \<Rightarrow> env \<Rightarrow> string \<Rightarrow> WalletGroup \<Rightarrow> string \<Rightarrow> Wallet \<Rightarrow> CreateSessionKeyRequest \<Rightarrow> 'r world \<Rightarrow> response \<times> 'r world" where
  "create_platform h e tenantID g rail w req s =
     (case parseSessionCaps req of
        Inl msg \<Rightarrow> (badRequest msg, s)
      | Inr caps \<Rightarrow>
          (case parse_expiry (ck_ExpiresAt req) of
             None \<Rightarrow> (badRequest ''expires_at must be RFC 3339'', s)
           | Some expiresAt \<Rightarrow>
               if ck_OnChainEnforce req \<and> rail \<noteq> RailTempo then (badRequest ''on_chain_enforce requires rail=tempo'', s)
               else
                 (case Mint (kh_svc h) e (mint_input tenantID w g req caps expiresAt (ck_OnChainEnforce req)) (w_db s) of
                    (Inl _, d1, sent) \<Rightarrow> (internalError, s\<lparr>w_db := d1, w_chain := w_chain s @ sent\<rparr>)
                  | (Inr minted, d1, sent) \<Rightarrow>
                      (case db_read (fault e ''SessionKeys.Create.GetSessionKeyByID'' []) (GetSessionKeyByID (mt_ID minted) d1) of
                         Inl _ \<Rightarrow> (internalError, s\<lparr>w_db := d1, w_chain := w_chain s @ sent\<rparr>)
                       | Inr row \<Rightarrow>
                           (let view = key_view_fields (toSessionKeyView row)
                            in (Reply 201 (JObj (view
                                  @ [(''private_key'', JStr (hex_encode (mt_PrivateKey minted))),
                                     (''_notice'', JStr (''Store the private_key value now. It cannot be retrieved later. ''
                                        @ ''The session key auto-rotates per rotation_mode.''))])),
                                s\<lparr>w_chain := w_chain s @ sent,
                                  w_db := SessionKeys_publish h e tenantID EventSessionKeyCreated (JObj view)
                                    (key_refs (wl_ID w) (wg_ID g) (sk_ID row)) d1\<rparr>))))))"

definition SessionKeys_Create ::
    "SessionKeys \<Rightarrow> env \<Rightarrow> request_ctx \<Rightarrow> CreateSessionKeyRequest option \<Rightarrow> 'r world \<Rightarrow> response \<times> 'r world" where
  "SessionKeys_Create h e cx body s =
     (let tenantID = cx_TenantID cx; groupID = cx_Params cx ''id''; d = w_db s in
      if tenantID = [] then (badRequest ''missing tenant context'', s)
      else if groupID = [] then (badRequest ''missing group id'', s)
      else if \<not> may_manage cx then (Reply 403 (error_body ''your role cannot create session keys''), s)
      else
        (case body of
           None \<Rightarrow> (badRequest ''invalid JSON body'', s)
         | Some req \<Rightarrow>
             (case validateCreateSessionKey req of
                Some msg \<Rightarrow> (badRequest msg, s)
              | None \<Rightarrow>
                  (case load_group e ''SessionKeys.Create.GetWalletGroupByID'' tenantID groupID d of
                     None \<Rightarrow> (notFound ''wallet group not found'', s)
                   | Some g \<Rightarrow>
                       (let rail = (if ck_Rail req = [] then RailTempo else ck_Rail req) in
                        case db_read (fault e ''SessionKeys.Create.GetWalletByGroupAndRail'' []) (GetWalletByGroupAndRail (wg_ID g) rail d) of
                          Inl _ \<Rightarrow> (Reply 422 (error_body (''group has no active '' @ rail @ '' wallet'')), s)
                        | Inr w \<Rightarrow>
                            if wl_Custody w = ''user'' then
                              (case createUserCustody h e tenantID g w req d of (resp, d1) \<Rightarrow> (resp, s\<lparr>w_db := d1\<rparr>))
                            else create_platform h e tenantID g rail w req s)))))"

section \<open>List\<close>

fun list_keys :: "env \<Rightarrow> int \<times> int \<Rightarrow> Wallet list \<Rightarrow> db \<Rightarrow> SessionKey list option" where
  "list_keys e b [] d = Some []"
| "list_keys e b (w # ws) d =
     (case db_read (fault e ''SessionKeys.List.ListSessionKeysForWallet'' (wl_ID w))
             (paged b (\<lambda>l off. ListSessionKeysForWallet (wl_ID w) l off d)) of
        Inl _ \<Rightarrow> None
      | Inr batch \<Rightarrow> map_option (\<lambda>rest. batch @ rest) (list_keys e b ws d))"

definition SessionKeys_List :: "env \<Rightarrow> request_ctx \<Rightarrow> db \<Rightarrow> response" where
  "SessionKeys_List e cx d =
     (if cx_TenantID cx = [] then badRequest ''missing tenant context''
      else if cx_Params cx ''id'' = [] then badRequest ''missing group id''
      else
        (case load_group e ''SessionKeys.List.GetWalletGroupByID'' (cx_TenantID cx) (cx_Params cx ''id'') d of
           None \<Rightarrow> notFound ''wallet group not found''
         | Some g \<Rightarrow>
             (case db_read (fault e ''SessionKeys.List.ListWalletsByGroup'' []) (Inr (ListWalletsByGroup (wg_ID g) d)) of
                Inl _ \<Rightarrow> internalError
              | Inr ws \<Rightarrow>
                  (case list_keys e (page_bounds cx) ws d of
                     None \<Rightarrow> internalError
                   | Some rows \<Rightarrow> Reply 200 (JObj [(''data'', JArr (map (\<lambda>r. JObj (key_view_fields (toSessionKeyView r))) rows))])))))"

section \<open>Revoke\<close>

text \<open>\<open>reason\<close> is what the optional body left in the request: empty when there was none.\<close>

definition SessionKeys_Revoke :: "SessionKeys \<Rightarrow> env \<Rightarrow> request_ctx \<Rightarrow> string \<Rightarrow> db \<Rightarrow> response \<times> db" where
  "SessionKeys_Revoke h e cx reason d =
     (let tenantID = cx_TenantID cx; skID = cx_Params cx ''sk_id'' in
      if tenantID = [] then (badRequest ''missing tenant context'', d)
      else if \<not> may_manage cx then (Reply 403 (error_body ''your role cannot revoke session keys''), d)
      else if skID = [] then (badRequest ''missing session key id'', d)
      else
        (case db_read (fault e ''SessionKeys.Revoke.GetSessionKeyByID'' []) (GetSessionKeyByID skID d) of
           Inl _ \<Rightarrow> (notFound ''session key not found'', d)
         | Inr existing \<Rightarrow>
             if sk_TenantID existing \<noteq> tenantID then (notFound ''session key not found'', d)
             else if sk_Status existing \<noteq> ''active'' then (Reply 200 (JObj (key_view_fields (toSessionKeyView existing))), d)
             else
               (case db_write (fault e ''SessionKeys.Revoke.RevokeSessionKey'' []) d
                       (RevokeSessionKey (clock e ''SessionKeys.Revoke.sqlnow'' []) skID
                          (pgxText (if reason = [] then ''manually revoked'' else reason)) d) of
                  (Inl _, d1) \<Rightarrow> (internalError, d1)
                | (Inr row, d1) \<Rightarrow>
                    (let view = JObj (key_view_fields (toSessionKeyView row))
                     in (Reply 200 view,
                         SessionKeys_publish h e tenantID EventSessionKeyRevoked view
                           (key_refs (sk_WalletID row) (sk_GroupID row) (sk_ID row)) d1)))))"

section \<open>SubmitAuthorize\<close>

definition SessionKeys_SubmitAuthorize ::
    "SessionKeys \<Rightarrow> env \<Rightarrow> request_ctx \<Rightarrow> string option \<Rightarrow> 'r world \<Rightarrow> response \<times> 'r world" where
  "SessionKeys_SubmitAuthorize h e cx body s =
     (let tenantID = cx_TenantID cx; groupID = cx_Params cx ''id''; skID = cx_Params cx ''sk_id''; d = w_db s in
      if tenantID = [] then (badRequest ''missing tenant context'', s)
      else if groupID = [] \<or> skID = [] then (badRequest ''missing group id or session key id'', s)
      else
        (case body of
           None \<Rightarrow> (badRequest ''invalid JSON body'', s)
         | Some signedTxHex \<Rightarrow>
             if signedTxHex = [] then (badRequest ''signed_tx_hex is required'', s)
             else
               (case load_group e ''SessionKeys.SubmitAuthorize.GetWalletGroupByID'' tenantID groupID d of
                  None \<Rightarrow> (notFound ''wallet group not found'', s)
                | Some _ \<Rightarrow>
                    (case SubmitAuthorize (kh_svc h) e tenantID skID signedTxHex d of
                       (Inl err, d1, sent) \<Rightarrow> (upstreamError ''tempo'' err, s\<lparr>w_db := d1, w_chain := w_chain s @ sent\<rparr>)
                     | (Inr hash, d1, sent) \<Rightarrow>
                         (case db_read (fault e ''SessionKeys.SubmitAuthorize.GetSessionKeyByID'' []) (GetSessionKeyByID skID d1) of
                            Inl _ \<Rightarrow> (internalError, s\<lparr>w_db := d1, w_chain := w_chain s @ sent\<rparr>)
                          | Inr row \<Rightarrow>
                              (let view = JObj (key_view_fields (toSessionKeyView row))
                               in (Reply 200 (JObj [(''session_key'', view), (''rail_tx_hash'', JStr hash)]),
                                   s\<lparr>w_chain := w_chain s @ sent,
                                     w_db := SessionKeys_publish h e tenantID EventSessionKeyCreated view
                                       (key_refs (sk_WalletID row) (sk_GroupID row) (sk_ID row)) d1\<rparr>)))))))"

end
