(* ===== verification/Session_Key_Handlers_Spec.thy ===== *)
theory Session_Key_Handlers_Spec
  imports Session_Key_Handlers Prepared_Spec Session_Keys_Lifecycle
begin

text \<open>
  The session-key routes: a revoked key never signs again, and every route keeps the invariants of
  the store.
\<close>

section \<open>Revocation\<close>

lemma SessionKeys_publish_frame: "\<exists>evs. SessionKeys_publish h e t ty data refs d = add_events evs d"
proof -
  obtain evs where "snd (Publish e t ty (Some data) refs d) = add_events evs d" using Publish_frame by blast
  then show ?thesis by (cases "kh_publisher h") (auto simp: SessionKeys_publish_def intro: exI [of _ "[]"])
qed

lemma SessionKeys_publish_keys [simp]: "session_keys (SessionKeys_publish h e t ty data refs d) = session_keys d"
  using SessionKeys_publish_frame [of h e t ty data refs d] by auto

lemma RevokeSessionKey_only_keys: "RevokeSessionKey now i r d = (x, d') \<Longrightarrow> d' = d\<lparr>session_keys := session_keys d'\<rparr>"
  by (auto simp: RevokeSessionKey_def split: prod.splits)

lemma SessionKeys_Revoke_cases:
  assumes "SessionKeys_Revoke h e cx reason d = (resp, d')"
  obtains (refused) "d' = d" "\<And>v. resp \<noteq> Reply 200 v"
  | (settled) k where "GetSessionKeyByID (cx_Params cx ''sk_id'') d = Inr k" "sk_TenantID k = cx_TenantID cx" "sk_Status k \<noteq> ''active''" "d' = d" "cx_Params cx ''sk_id'' \<noteq> []"
  | (failed) k now r err where "GetSessionKeyByID (cx_Params cx ''sk_id'') d = Inr k" "sk_TenantID k = cx_TenantID cx"
      "RevokeSessionKey now (cx_Params cx ''sk_id'') r d = (Inl err, d')" "resp = internalError"
  | (revoked) k now r row d1 where "GetSessionKeyByID (cx_Params cx ''sk_id'') d = Inr k" "sk_TenantID k = cx_TenantID cx" "sk_Status k = ''active''"
      "RevokeSessionKey now (cx_Params cx ''sk_id'') r d = (Inr row, d1)" "cx_Params cx ''sk_id'' \<noteq> []" "may_manage cx"
      "d' = SessionKeys_publish h e (cx_TenantID cx) EventSessionKeyRevoked (JObj (key_view_fields (toSessionKeyView row)))
              (key_refs (sk_WalletID row) (sk_GroupID row) (sk_ID row)) d1"
  using assms
  by (fastforce simp: SessionKeys_Revoke_def db_read_def db_write_def Let_def
      split: if_splits sum.splits prod.splits option.splits)

lemma Revoke_200:
  assumes run: "SessionKeys_Revoke h e cx reason d = (Reply 200 v, d')" and uniq: "pk_unique sk_ID (session_keys d)"
    and k: "k \<in> set (session_keys d)" "sk_ID k = cx_Params cx ''sk_id''"
  shows "if sk_Status k = ''pending_authorize'' then d' = d
    else sk_ID k \<noteq> [] \<and> pk_unique sk_ID (session_keys d')
      \<and> (\<exists>k' \<in> set (session_keys d'). sk_ID k' = sk_ID k \<and> sk_Status k' \<notin> {''active'', ''pending_authorize''})"
proof -
  have g: "GetSessionKeyByID (cx_Params cx ''sk_id'') d = Inr k"
    unfolding GetSessionKeyByID_def select_one_def using pk_unique_find [OF uniq k(1)] k(2) by simp
  from run show ?thesis
  proof (cases rule: SessionKeys_Revoke_cases)
    case (settled k0)
    then have "k0 = k" using g by simp
    then show ?thesis using settled k uniq by auto
  next
    case (revoked k0 now r row d1)
    have keys: "session_keys d' = session_keys d1" using revoked(7) by simp
    have "session_keys d1 = upd_where (\<lambda>r. sk_ID r = sk_ID k \<and> sk_Status r = ''active'') (revoke_session_key now r) (session_keys d)"
      using revoked(4) by (auto simp: k(2) RevokeSessionKey_def update_one_Inr split: prod.splits)
    then have "revoke_session_key now r k \<in> set (session_keys d1)" using k(1) revoked(1,3) g by (force simp: set_upd_where)
    moreover have "pk_unique sk_ID (session_keys d1)"
      using Revoke_evolves [OF revoked(4) uniq] by (simp add: keys_evolve_def)
    moreover have "sk_Status k = ''active''" using revoked(1,3) g by simp
    ultimately show ?thesis using keys revoked(5) k(2)
      by (auto simp: revoke_session_key_def intro!: bexI [of _ "revoke_session_key now r k"])
  qed (auto simp: internalError_def)
qed

lemma SendTransaction_needs_signer:
  assumes "\<And>w. \<not> signer_valid e (cx_TenantID cx) w (st_SignerID req) (w_db s)"
  shows "no_rail_call s (snd (WalletGroups_SendTransaction h e cx (Some req) s))"
proof -
  have "\<exists>resp. transfer_target e cx (Some req) (w_db s) = Inl resp"
  proof (cases "transfer_target e cx (Some req) (w_db s)")
    case (Inr tgt)
    obtain grp rail w signerID req' where t: "tgt = (grp, rail, w, signerID, req')" by (cases tgt)
    show ?thesis using transfer_target_Inr [OF Inr [unfolded t]] assms by (auto simp: transfer_authorized_def)
  qed simp
  then show ?thesis by (auto simp: WalletGroups_SendTransaction_def no_rail_call_def)
qed

text \<open>A history of the store: session-key operations, and anything that leaves the table alone.\<close>

definition key_history :: "db \<Rightarrow> db \<Rightarrow> bool" where
  "key_history = (\<lambda>a b. key_op a b \<or> session_keys b = session_keys a)\<^sup>*\<^sup>*"

lemma key_history_evolves:
  assumes "key_history d d'" "pk_unique sk_ID (session_keys d)"
  shows "keys_evolve (session_keys d) (session_keys d')"
  using assms unfolding key_history_def
proof (induction rule: rtranclp_induct)
  case (step b c)
  then have ev: "keys_evolve (session_keys d) (session_keys b)" by simp
  then have "keys_evolve (session_keys b) (session_keys c)"
    using step(2) key_op_evolves [of b c] keys_evolve_refl [of "session_keys b"] by (auto simp: keys_evolve_def)
  then show ?case using ev keys_evolve_trans by blast
qed (rule keys_evolve_refl)

text \<open>A status from which no move leads back to \<open>active\<close>.\<close>

lemma settled_status: "key_move\<^sup>*\<^sup>* a b \<Longrightarrow> a \<notin> {''active'', ''pending_authorize''} \<Longrightarrow> b \<notin> {''active'', ''pending_authorize''}"
  by (induction rule: rtranclp_induct) (auto elim!: key_moveE)

text \<open>
  C24: a revocation is final. Once \<open>DELETE /session-keys/:sk_id\<close> has answered 200 for a key that was not waiting for its
  authorization, no transfer that names this key as signer ever reaches a
  rail, whatever session-key operations happen in between, and whichever wallet, tenant or limits
  configuration the transfer comes with. For a key in status \<open>pending_authorize\<close> the 200 stands for nothing: the database
  is left as it was, and the key can still be activated.
\<close>

theorem revoked_key_never_signs_again:
  assumes run: "SessionKeys_Revoke h e cx reason d = (Reply 200 v, d')" and uniq: "pk_unique sk_ID (session_keys d)"
    and k: "k \<in> set (session_keys d)" "sk_ID k = cx_Params cx ''sk_id''"
    and later: "key_history d' (w_db s)" and req: "st_SignerID req = cx_Params cx ''sk_id''"
  shows "if sk_Status k = ''pending_authorize'' then d' = d
    else no_rail_call s (snd (WalletGroups_SendTransaction h2 e2 cx2 (Some req) s))"
proof (cases "sk_Status k = ''pending_authorize''")
  case True
  then show ?thesis using Revoke_200 [OF run uniq k] by simp
next
  case False
  with Revoke_200 [OF run uniq k] obtain k1 where k1: "k1 \<in> set (session_keys d')" "sk_ID k1 = sk_ID k"
    "sk_Status k1 \<notin> {''active'', ''pending_authorize''}" "sk_ID k \<noteq> []" and u1: "pk_unique sk_ID (session_keys d')" by auto
  have ev: "keys_evolve (session_keys d') (session_keys (w_db s))" by (rule key_history_evolves [OF later u1])
  then obtain k2 where k2: "k2 \<in> set (session_keys (w_db s))" "key_evolves k1 k2" using k1(1) by (auto simp: keys_evolve_def)
  have st: "sk_ID k2 = st_SignerID req" "sk_Status k2 \<noteq> ''active''"
    using k2(2) k1(2,3) k(2) req settled_status [of "sk_Status k1" "sk_Status k2"] by (auto simp: key_evolves_def)
  have "x = k2" if "x \<in> set (session_keys (w_db s))" "sk_ID x = st_SignerID req" for x
    using ev that st(1) k2(1) by (auto simp: keys_evolve_def intro: pk_unique_same)
  moreover have "st_SignerID req \<noteq> []" using k1(4) k(2) req by simp
  ultimately have "\<not> signer_valid e2 (cx_TenantID cx2) w (st_SignerID req) (w_db s)" for w
    unfolding signer_valid_def using st(2) by blast
  then have "no_rail_call s (snd (WalletGroups_SendTransaction h2 e2 cx2 (Some req) s))" by (rule SendTransaction_needs_signer)
  then show ?thesis using False by simp
qed

definition demo_key_handler :: SessionKeys where
  "demo_key_handler = \<lparr> kh_svc = demo_service, kh_publisher = False \<rparr>"

definition demo_key_ctx :: request_ctx where
  "demo_key_ctx = demo_ctx\<lparr>cx_Params := (\<lambda>_. ''Mint.sk'')\<rparr>"

theorem revoked_key_never_signs_again_witness:
  "\<exists>m d v d'. Mint demo_service (calm_env 0) demo_mint demo_bank = (Inr m, d, []) \<and> mt_ID m = ''Mint.sk''
     \<and> SessionKeys_Revoke demo_key_handler (calm_env 1) demo_key_ctx [] d = (Reply 200 v, d')
     \<and> no_rail_call ((demo_world (\<lambda>_. 0))\<lparr>w_db := d'\<rparr>)
         (snd (WalletGroups_SendTransaction demo_handler (calm_env 2) demo_ctx (Some (demo_send\<lparr>st_SignerID := ''Mint.sk''\<rparr>))
            ((demo_world (\<lambda>_. 0))\<lparr>w_db := d'\<rparr>)))"
proof -
  obtain m d where m: "Mint demo_service (calm_env 0) demo_mint demo_bank = (Inr m, d, [])" "mt_ID m = ''Mint.sk''"
    using demo_minted by blast
  obtain p row where row: "d = demo_bank\<lparr>limit_policies := limit_policies demo_bank @ [p], session_keys := session_keys demo_bank @ [row]\<rparr>"
    "sk_ID row = ''Mint.sk''" "sk_Status row = ''active''" "sk_TenantID row = ''tn''" "sk_RotationMode row = ''auto_rotate''"
    by (rule Mint_Inr [OF m(1)]) (auto simp: stored_key_def mint_key_def m(2) demo_mint_def mint_schedule_def Let_def)
  have ks: "session_keys d = [row]" using row(1) by (simp add: demo_bank_def empty_db_def)
  have c: "session_key_check (revoke_session_key now r row)" for now r
    using row(5) by (simp add: session_key_check_def revoke_session_key_def session_key_statuses_def)
  have u: "pk_unique sk_ID (session_keys d)" "row \<in> set (session_keys d)" by (simp_all add: ks pk_unique_def)
  have x: "cx_TenantID demo_key_ctx = ''tn''" "cx_Params demo_key_ctx n = ''Mint.sk''" "cx_Role demo_key_ctx = []" for n
    by (simp_all add: demo_key_ctx_def demo_ctx_def)
  have f: "fault (calm_env 1) a b = None" for a b by (simp add: calm_env_def)
  obtain v d' where r: "SessionKeys_Revoke demo_key_handler (calm_env 1) demo_key_ctx [] d = (Reply 200 v, d')"
    by (simp add: SessionKeys_Revoke_def x f may_manage_def GetSessionKeyByID_def select_one_def ks row(2-5) RevokeSessionKey_def update_one_def c Let_def)
  have h: "key_history d' (w_db ((demo_world (\<lambda>_. 0))\<lparr>w_db := d'\<rparr>))" by (simp add: key_history_def)
  from revoked_key_never_signs_again [OF r u _ h, of "demo_send\<lparr>st_SignerID := ''Mint.sk''\<rparr>" demo_handler "calm_env 2" demo_ctx]
  have "no_rail_call ((demo_world (\<lambda>_. 0))\<lparr>w_db := d'\<rparr>)
         (snd (WalletGroups_SendTransaction demo_handler (calm_env 2) demo_ctx (Some (demo_send\<lparr>st_SignerID := ''Mint.sk''\<rparr>))
            ((demo_world (\<lambda>_. 0))\<lparr>w_db := d'\<rparr>)))" by (simp add: x row(2-5))
  with m r show ?thesis by blast
qed

section \<open>The invariants of the store\<close>

lemma mint_rows_tenant [simp]:
  "lp_TenantID (mint_policy inp i k meta) = mi_TenantID inp"
  "sk_TenantID (mint_key inp i k a b v sched st n h meta) = mi_TenantID inp"
  "mi_TenantID (mint_input t w g req caps x oc) = t"
  by (simp_all add: mint_policy_def mint_key_def mint_input_def Let_def split: prod.splits)

context tenant_store
begin

lemma insert_pair_keep:
  assumes "P t d" "lp_TenantID pol = t" "sk_TenantID key = t"
  shows "P t (snd (insert_pair e pol key d))"
proof -
  have a: "P t d1" if "db_write f d (CreateLimitPolicy drv now pol d) = (x, d1)" for f drv now x d1
    using that assms(1) by (rule keep_write) (intro keep_CreateLimitPolicy assms)
  have b: "P t d2" if "db_write f d1 (CreateSessionKey now key d1) = (x, d2)" "P t d1" for f now x d1 d2
    using that by (rule keep_write) (intro keep_CreateSessionKey assms that)
  show ?thesis using assms(1) by (auto simp: insert_pair_def dest!: a dest: b split: option.splits sum.splits prod.splits)
qed

lemma insert_pair_keep_mint:
  "insert_pair e (mint_policy inp i k meta) (mint_key inp i' k' a b v sched st n h meta') d = (x, d1) \<Longrightarrow> P t d \<Longrightarrow> mi_TenantID inp = t \<Longrightarrow> P t d1"
  using insert_pair_keep [of t d "mint_policy inp i k meta" "mint_key inp i' k' a b v sched st n h meta'" e] by simp

lemma Mint_keep: "P t d \<Longrightarrow> mi_TenantID inp = t \<Longrightarrow> P t (fst (snd (Mint s e inp d)))"
  by (auto simp: Mint_def Let_def dest: insert_pair_keep_mint split: option.splits sum.splits prod.splits)

lemma PrepareUserCustody_keep: "P t d \<Longrightarrow> mi_TenantID inp = t \<Longrightarrow> P t (snd (PrepareUserCustody s e inp d))"
  by (auto simp: PrepareUserCustody_def Let_def dest: insert_pair_keep_mint split: option.splits sum.splits prod.splits)

lemma SubmitAuthorize_keep:
  assumes "P t d" shows "P t (fst (snd (SubmitAuthorize s e t i hex d)))"
proof -
  obtain res d' sent where r: "SubmitAuthorize s e t i hex d = (res, d', sent)" by (cases "SubmitAuthorize s e t i hex d") auto
  have "P t (d\<lparr>session_keys := upd_where (\<lambda>r. sk_ID r = sk_ID row) (activate_key now hash) (session_keys d)\<rparr>)"
    if "GetSessionKeyByID i d = Inr row" "sk_TenantID row = t" for row now hash
    using that assms by (auto simp: GetSessionKeyByID_def dest!: select_one_D intro: keep_activate_session_key)
  then show ?thesis using SubmitAuthorize_cases [OF r] assms by (auto simp: r)
qed

lemma SessionKeys_publish_keep: "P t d \<Longrightarrow> P t (SessionKeys_publish h e t ty data refs d)"
  by (simp add: SessionKeys_publish_def Publish_keep)

lemma createUserCustody_keep:
  assumes "P t d" shows "P t (snd (createUserCustody h e t g w req d))"
proof -
  have p: "P t d1" if "PrepareUserCustody (kh_svc h) e (mint_input t w g req caps x oc) d = (res, d1)" for caps x oc res d1
    using PrepareUserCustody_keep [OF assms, of "mint_input t w g req caps x oc" "kh_svc h" e] that by simp
  show ?thesis using assms
    by (auto simp: createUserCustody_def Let_def intro!: SessionKeys_publish_keep dest: p split: option.split sum.split prod.split)
qed

lemma create_platform_keep:
  assumes "P t (w_db s)" shows "P t (w_db (snd (create_platform h e t g rail w req s)))"
proof -
  have p: "P t d1" if "Mint (kh_svc h) e (mint_input t w g req caps x oc) (w_db s) = (res, d1, sent)" for caps x oc res d1 sent
    using Mint_keep [OF assms, of "mint_input t w g req caps x oc" "kh_svc h" e] that by simp
  show ?thesis using assms
    by (auto simp: create_platform_def Let_def intro!: SessionKeys_publish_keep dest: p split: option.split sum.split prod.split)
qed

lemma SessionKeys_Create_keep:
  assumes "P (cx_TenantID cx) (w_db s)"
  shows "P (cx_TenantID cx) (w_db (snd (SessionKeys_Create h e cx body s)))"
proof -
  have u: "P (cx_TenantID cx) d1" if "createUserCustody h e (cx_TenantID cx) g w req (w_db s) = (resp, d1)" for g w req resp d1
    using createUserCustody_keep [OF assms, of h e g w req] that by simp
  show ?thesis using assms create_platform_keep [OF assms]
    by (auto simp: SessionKeys_Create_def Let_def dest: u split: option.split sum.split prod.split)
qed

lemma SessionKeys_Revoke_keep:
  assumes "P (cx_TenantID cx) d"
  shows "P (cx_TenantID cx) (snd (SessionKeys_Revoke h e cx reason d))"
proof -
  obtain resp d' where run: "SessionKeys_Revoke h e cx reason d = (resp, d')" by force
  have rv: "P (cx_TenantID cx) d1"
    if "GetSessionKeyByID i d = Inr k" "sk_TenantID k = cx_TenantID cx" "RevokeSessionKey now i r d = (x, d1)" for i k now r x d1
    using keep_RevokeSessionKey [OF assms, of k i now r] that by (auto simp: GetSessionKeyByID_def dest!: select_one_D)
  from run have "P (cx_TenantID cx) d'"
    by (cases rule: SessionKeys_Revoke_cases) (auto intro: SessionKeys_publish_keep rv assms)
  then show ?thesis by (simp add: run)
qed

lemma SessionKeys_SubmitAuthorize_keep:
  assumes "P (cx_TenantID cx) (w_db s)"
  shows "P (cx_TenantID cx) (w_db (snd (SessionKeys_SubmitAuthorize h e cx body s)))"
proof -
  have a: "P (cx_TenantID cx) d1" if "SubmitAuthorize (kh_svc h) e (cx_TenantID cx) i hex (w_db s) = (x, d1, sent)" for i hex x d1 sent
    using SubmitAuthorize_keep [OF assms, of "kh_svc h" e i hex] that by simp
  show ?thesis using assms
    by (auto simp: SessionKeys_SubmitAuthorize_def Let_def intro!: SessionKeys_publish_keep dest: a split: option.split sum.split prod.split)
qed

end

end
