(* ===== verification/Go_Encoding.thy ===== *)
theory Go_Encoding
  imports Handlers
begin

text \<open>
  The encodings of the Go standard library that the authentication code and the webhook routes use:
  \<open>encoding/base64\<close> (standard and URL alphabet, with and without padding) and the verbs \<open>%d\<close> of
  \<open>fmt.Sscanf\<close>.
\<close>

section \<open>encoding/base64\<close>

definition b64_char :: "bool \<Rightarrow> nat \<Rightarrow> char" where
  "b64_char url n =
     (if n < 26 then char_of (65 + n) else if n < 52 then char_of (71 + n) else if n < 62 then char_of (n - 4)
      else if n = 62 then (if url then CHR ''-'' else CHR ''+'') else (if url then CHR ''_'' else CHR ''/''))"

text \<open>\<open>RawStdEncoding\<close> and \<open>RawURLEncoding\<close>.\<close>

fun raw_encode :: "bool \<Rightarrow> bytes \<Rightarrow> string" where
  "raw_encode url [] = []"
| "raw_encode url [a] = (let x = of_char a in [b64_char url (x div 4), b64_char url (x mod 4 * 16)])"
| "raw_encode url [a, b] =
     (let x = of_char a; y = of_char b
      in [b64_char url (x div 4), b64_char url (x mod 4 * 16 + y div 16), b64_char url (y mod 16 * 4)])"
| "raw_encode url (a # b # c # s) =
     (let x = of_char a; y = of_char b; z = of_char c
      in b64_char url (x div 4) # b64_char url (x mod 4 * 16 + y div 16) # b64_char url (y mod 16 * 4 + z div 64)
         # b64_char url (z mod 64) # raw_encode url s)"

text \<open>\<open>StdEncoding\<close> pads to a multiple of four.\<close>

definition base64_encode :: "bytes \<Rightarrow> string" where
  "base64_encode s = raw_encode False s @ replicate ((3 - length s mod 3) mod 3) CHR ''=''"

text \<open>\<open>RawStdEncoding.DecodeString\<close>: line breaks are skipped, padding is an error.\<close>

fun raw_groups :: "string \<Rightarrow> bytes option" where
  "raw_groups [] = Some []"
| "raw_groups [a] = None"
| "raw_groups [a, b] =
     (case (b64_val a, b64_val b) of (Some x, Some y) \<Rightarrow> Some [char_of (4 * x + y div 16)] | _ \<Rightarrow> None)"
| "raw_groups [a, b, c] =
     (case (b64_val a, b64_val b, b64_val c) of
        (Some x, Some y, Some z) \<Rightarrow> Some [char_of (4 * x + y div 16), char_of ((y mod 16) * 16 + z div 4)]
      | _ \<Rightarrow> None)"
| "raw_groups (a # b # c # d # s) =
     (case (b64_val a, b64_val b, b64_val c, b64_val d, raw_groups s) of
        (Some x, Some y, Some z, Some w, Some r) \<Rightarrow>
          Some (char_of (4 * x + y div 16) # char_of ((y mod 16) * 16 + z div 4) # char_of ((z mod 4) * 64 + w) # r)
      | _ \<Rightarrow> None)"

definition raw_decode :: "string \<Rightarrow> bytes option" where
  "raw_decode s = raw_groups (filter (\<lambda>c. c \<noteq> CHR 10 \<and> c \<noteq> CHR 13) s)"

lemma of_char_char_of_nat [simp]: "n < 256 \<Longrightarrow> (of_char (char_of n :: char) :: nat) = n"
  by simp

lemma b64_val_char: "n < 64 \<Longrightarrow> b64_val (b64_char False n) = Some n"
  by (auto simp: b64_val_def b64_char_def Let_def)

lemma b64_char_plain: "n < 64 \<Longrightarrow> b64_char url n \<noteq> CHR 10 \<and> b64_char url n \<noteq> CHR 13 \<and> b64_char url n \<noteq> CHR ''='' \<and> b64_char url n \<noteq> CHR ''$''"
  by (auto simp: b64_char_def char_of_eq_iff take_bit_eq_mod)

lemma byte_split:
  fixes x y z :: nat
  assumes "x < 256" "y < 256" "z < 256"
  shows "x div 4 < 64" "x mod 4 * 16 + y div 16 < 64" "y mod 16 * 4 + z div 64 < 64" "z mod 64 < 64" "x mod 4 * 16 < 64" "y mod 16 * 4 < 64"
    "4 * (x div 4) + (x mod 4 * 16 + y div 16) div 16 = x"
    "(x mod 4 * 16 + y div 16) mod 16 * 16 + (y mod 16 * 4 + z div 64) div 4 = y"
    "(y mod 16 * 4 + z div 64) mod 4 * 64 + z mod 64 = z"
  using assms by (auto simp: less_mult_imp_div_less)

lemma byte_facts:
  fixes a b c :: char
  defines "x \<equiv> of_char a" and "y \<equiv> of_char b" and "z \<equiv> of_char c"
  shows "(x :: nat) div 4 < 64" "x mod 4 * 16 + (y :: nat) div 16 < 64" "y mod 16 * 4 + (z :: nat) div 64 < 64" "z mod 64 < 64"
    "x mod 4 * 16 < 64" "y mod 16 * 4 < 64"
    "char_of (4 * (x div 4) + (x mod 4 * 16 + y div 16) div 16) = a"
    "char_of (4 * (x div 4) + x mod 4 * 16 div 16) = a"
    "char_of ((x mod 4 * 16 + y div 16) mod 16 * 16 + (y mod 16 * 4 + z div 64) div 4) = b"
    "char_of ((x mod 4 * 16 + y div 16) mod 16 * 16 + y mod 16 * 4 div 4) = b"
    "char_of ((y mod 16 * 4 + z div 64) mod 4 * 64 + z mod 64) = c"
proof -
  have l: "x < 256" "y < 256" "z < 256" unfolding assms by (rule nat_of_char_less_256)+
  show "x div 4 < 64" "x mod 4 * 16 + y div 16 < 64" "y mod 16 * 4 + z div 64 < 64" "z mod 64 < 64" "x mod 4 * 16 < 64" "y mod 16 * 4 < 64"
    by (rule byte_split [OF l])+
  have e: "(x mod 4 * 16) div 16 = x mod 4" "(y mod 16 * 4) div 4 = y mod 16" "(x mod 4 * 16 + y div 16) mod 16 * 16 + y mod 16 = y"
    "4 * (x div 4) + x mod 4 = x"
    using l by auto
  show "char_of (4 * (x div 4) + (x mod 4 * 16 + y div 16) div 16) = a" "char_of (4 * (x div 4) + x mod 4 * 16 div 16) = a"
    unfolding byte_split [OF l] e by (simp_all add: x_def)
  show "char_of ((x mod 4 * 16 + y div 16) mod 16 * 16 + (y mod 16 * 4 + z div 64) div 4) = b"
    "char_of ((x mod 4 * 16 + y div 16) mod 16 * 16 + y mod 16 * 4 div 4) = b"
    unfolding byte_split [OF l] e by (simp_all add: y_def)
  show "char_of ((y mod 16 * 4 + z div 64) mod 4 * 64 + z mod 64) = c"
    unfolding byte_split [OF l] by (simp add: z_def)
qed

text \<open>The same in the form the simplifier leaves behind.\<close>

lemma byte_norm:
  "char_of (of_char a + of_char b div 16 div 16 :: nat) = (a :: char)"
  "char_of (of_char b div 16 mod 16 * 16 + (of_char b mod 16 + of_char c div 64 div 4) :: nat) = (b :: char)"
  "char_of (of_char b div 16 mod 16 * 16 + of_char b mod 16 :: nat) = (b :: char)"
  "char_of (of_char c div 64 mod 4 * 64 + of_char c mod 64 :: nat) = (c :: char)"
proof -
  have x: "n div 16 div 16 = 0" "n div 64 div 4 = 0" "n div 16 mod 16 = n div 16" "n div 64 mod 4 = n div 64" if "n < 256" for n :: nat
  proof -
    have "n div 16 < 16" "n div 64 < 4" using that by (auto simp: less_mult_imp_div_less)
    then show "n div 16 div 16 = 0" "n div 64 div 4 = 0" "n div 16 mod 16 = n div 16" "n div 64 mod 4 = n div 64" by auto
  qed
  note y = x [OF nat_of_char_less_256]
  show "char_of (of_char a + of_char b div 16 div 16 :: nat) = a"
    "char_of (of_char b div 16 mod 16 * 16 + (of_char b mod 16 + of_char c div 64 div 4) :: nat) = b"
    "char_of (of_char b div 16 mod 16 * 16 + of_char b mod 16 :: nat) = b"
    "char_of (of_char c div 64 mod 4 * 64 + of_char c mod 64 :: nat) = c"
    unfolding y by simp_all
qed

lemma raw_groups_encode: "raw_groups (raw_encode False s) = Some s"
proof (induction "False" s rule: raw_encode.induct)
  case (4 a b c s)
  then show ?case by (simp add: Let_def b64_val_char byte_facts byte_norm)
qed (simp_all add: Let_def b64_val_char byte_facts byte_norm)

lemma encode_plain: "c \<in> set (raw_encode url s) \<Longrightarrow> c \<noteq> CHR 10 \<and> c \<noteq> CHR 13 \<and> c \<noteq> CHR ''='' \<and> c \<noteq> CHR ''$''"
  by (induction url s rule: raw_encode.induct) (auto simp: Let_def b64_char_plain byte_facts)

lemma b64_no_space: "c \<in> set (raw_encode url s) \<Longrightarrow> \<not> is_space c"
proof (induction url s rule: raw_encode.induct)
  have "\<not> is_space (b64_char url n)" if "n < 64" for url n
    using that by (auto simp: b64_char_def is_space_def take_bit_eq_mod)
  note b = this
  { case 2 then show ?case by (auto simp: Let_def b byte_facts) }
  { case 3 then show ?case by (auto simp: Let_def b byte_facts) }
  { case 4 then show ?case by (auto simp: Let_def b byte_facts) }
qed simp

lemma length_raw_encode: "length (raw_encode url s) = (length s * 8 + 5) div 6"
  by (induction url s rule: raw_encode.induct) (simp_all add: Let_def)

lemma raw_decode_encode [simp]: "raw_decode (raw_encode False s) = Some s"
proof -
  have "filter (\<lambda>c. c \<noteq> CHR 10 \<and> c \<noteq> CHR 13) (raw_encode False s) = raw_encode False s"
    using encode_plain [of _ False s] by (auto simp: filter_id_conv)
  then show ?thesis by (simp add: raw_decode_def raw_groups_encode)
qed

lemma b64_groups_encode: "b64_groups (base64_encode s) = Some s"
proof -
  have "b64_groups (raw_encode False s @ replicate ((3 - length s mod 3) mod 3) CHR ''='') = Some s"
  proof (induction "False" s rule: raw_encode.induct)
    case (4 a b c s)
    have "length (a # b # c # s) mod 3 = length s mod 3" by simp
    then show ?case using 4
      by (simp add: Let_def b64_val_char byte_facts byte_norm b64_char_plain)
  qed (simp_all add: Let_def b64_val_char byte_facts byte_norm b64_char_plain numeral_2_eq_2)
  then show ?thesis by (simp add: base64_encode_def)
qed

text \<open>What \<open>EncodeToString\<close> shows decodes to the bytes it was given.\<close>

lemma base64_decode_encode [simp]: "base64_decode (base64_encode s) = Some s"
proof -
  have "filter (\<lambda>c. c \<noteq> CHR 10 \<and> c \<noteq> CHR 13) (base64_encode s) = base64_encode s"
    using encode_plain [of _ False s] by (auto simp: base64_encode_def filter_id_conv)
  then show ?thesis by (simp add: base64_decode_def b64_groups_encode)
qed

section \<open>fmt.Sscanf\<close>

text \<open>
  The verb \<open>%d\<close> on ASCII text: white space is skipped (a newline is an error), then an optional
  sign (for signed targets) and the longest run of digits; the rest of the input is returned.
\<close>

definition scan_d :: "bool \<Rightarrow> string \<Rightarrow> (string \<times> string) option" where
  "scan_d signed s =
     (let skipped = takeWhile is_space s; t = dropWhile is_space s;
          (sign, ds) = (case t of [] \<Rightarrow> ([], []) | c # cs \<Rightarrow> if signed \<and> (c = CHR ''+'' \<or> c = CHR ''-'') then ([c], cs) else ([], t));
          digits = takeWhile is_digit ds in
      if CHR 10 \<in> set skipped \<or> digits = [] then None else Some (sign @ digits, dropWhile is_digit ds))"

definition scan_int :: "string \<Rightarrow> (int \<times> string) option" where
  "scan_int s =
     (case scan_d True s of
        None \<Rightarrow> None
      | Some (tok, rest) \<Rightarrow> (case ParseInt 64 tok of None \<Rightarrow> None | Some n \<Rightarrow> Some (n, rest)))"

definition scan_uint :: "nat \<Rightarrow> string \<Rightarrow> (nat \<times> string) option" where
  "scan_uint bits s =
     (case scan_d False s of
        None \<Rightarrow> None
      | Some (tok, rest) \<Rightarrow> if dec_val tok < 2 ^ bits then Some (dec_val tok, rest) else None)"

definition scan_lit :: "string \<Rightarrow> string \<Rightarrow> string option" where
  "scan_lit p s = (if HasPrefix s p then Some (drop (length p) s) else None)"

lemma scan_digits:
  assumes "all_digits ds" "ds \<noteq> []" "r = [] \<or> \<not> is_digit (hd r)"
  shows "scan_d signed (ds @ r) = Some (ds, r)"
proof -
  obtain c cs where c: "ds = c # cs" "is_digit c" using assms(1,2) by (cases ds) auto
  have "takeWhile is_digit (ds @ r) = ds" "dropWhile is_digit (ds @ r) = r"
    using assms by (auto simp: takeWhile_append2 dropWhile_append2 all_digits_set takeWhile_eq_Nil_iff dropWhile_eq_self_iff)
  moreover have "\<not> is_space c" "c \<noteq> CHR ''+''" "c \<noteq> CHR ''-''" using c(2) is_digit_not_space by auto
  ultimately show ?thesis by (simp add: scan_d_def c(1) Let_def)
qed

end
