(* ===== verification/Auth_Primitives.thy ===== *)
theory Auth_Primitives
  imports Go_Encoding
begin

text \<open>
  \<open>internal/auth\<close>: API keys (\<open>apikey.go\<close>), password hashes (\<open>password.go\<close>) and session tokens
  (\<open>session.go\<close>). SHA-256, Argon2id and the JWT library are parameters; the shape of what they are
  given and how their answers are judged is the code's.
\<close>

section \<open>apikey.go\<close>

definition apiKeyRandomBytes :: nat where "apiKeyRandomBytes = 24"
definition KeyPrefixLength :: nat where "KeyPrefixLength = 20"

type_synonym hash_fn = "bytes \<Rightarrow> bytes"

definition HashAPIKey :: "hash_fn \<Rightarrow> string \<Rightarrow> bytes" where
  "HashAPIKey sha256 raw = sha256 raw"

definition MintAPIKey :: "hash_fn \<Rightarrow> (nat \<Rightarrow> string + bytes) \<Rightarrow> string \<Rightarrow> go_error + string \<times> string \<times> bytes" where
  "MintAPIKey sha256 rnd env =
     (if env \<noteq> ''test'' \<and> env \<noteq> ''live'' then
        Inl (errors_New (''auth: invalid env '' @ go_quote env @ '' (must be '' @ [CHR 39] @ ''test'' @ [CHR 39] @ '' or ''
          @ [CHR 39] @ ''live'' @ [CHR 39] @ '')''))
      else
        (case rnd apiKeyRandomBytes of
           Inl err \<Rightarrow> Inl (wrapf ''auth: read random'' (errors_New err))
         | Inr buf \<Rightarrow>
             (let raw = ''sk_'' @ env @ ''_'' @ raw_encode True buf in
              if length raw < KeyPrefixLength then Inl (errors_New ''auth: minted key shorter than prefix'')
              else Inr (raw, take KeyPrefixLength raw, HashAPIKey sha256 raw))))"

text \<open>\<open>raw[:8]\<close> panics on a text of fewer than eight bytes.\<close>

datatype parsed_key = KeyPanic | KeyMalformed | KeyEnv string

definition ParseAPIKey :: "string \<Rightarrow> parsed_key" where
  "ParseAPIKey raw =
     (if \<not> HasPrefix raw ''sk_'' then KeyMalformed
      else if length raw < 8 then KeyPanic
      else if take 8 raw = ''sk_test_'' then (if length raw < KeyPrefixLength then KeyMalformed else KeyEnv ''test'')
      else if take 8 raw = ''sk_live_'' then (if length raw < KeyPrefixLength then KeyMalformed else KeyEnv ''live'')
      else KeyMalformed)"

section \<open>password.go\<close>

text \<open>\<open>argon2.IDKey password salt time memory threads keyLen\<close>; it panics when time or threads is zero.\<close>

type_synonym argon2 = "bytes \<Rightarrow> bytes \<Rightarrow> nat \<Rightarrow> nat \<Rightarrow> nat \<Rightarrow> nat \<Rightarrow> bytes"

record argon2Params =
  a2p_memory :: nat
  a2p_iterations :: nat
  a2p_parallelism :: nat

definition a2Memory :: nat where "a2Memory = 64 * 1024"
definition a2Iterations :: nat where "a2Iterations = 3"
definition a2Parallelism :: nat where "a2Parallelism = 2"
definition a2SaltLength :: nat where "a2SaltLength = 16"
definition a2KeyLength :: nat where "a2KeyLength = 32"
definition argon2_Version :: int where "argon2_Version = 19"

definition HashPassword :: "argon2 \<Rightarrow> (nat \<Rightarrow> string + bytes) \<Rightarrow> string \<Rightarrow> go_error + string" where
  "HashPassword IDKey rnd plaintext =
     (if plaintext = [] then Inl (errors_New ''auth: password is empty'')
      else
        (case rnd a2SaltLength of
           Inl err \<Rightarrow> Inl (wrapf ''auth: read salt'' (errors_New err))
         | Inr salt \<Rightarrow>
             (let hash = IDKey plaintext salt a2Iterations a2Memory a2Parallelism a2KeyLength
              in Inr (''$argon2id$v='' @ int_to_dec argon2_Version @ ''$m='' @ nat_to_dec a2Memory @ '',t='' @ nat_to_dec a2Iterations
                      @ '',p='' @ nat_to_dec a2Parallelism @ ''$'' @ raw_encode False salt @ ''$'' @ raw_encode False hash))))"

definition scan_params :: "string \<Rightarrow> argon2Params option" where
  "scan_params s =
     Option.bind (scan_lit ''m='' s) (\<lambda>s. Option.bind (scan_uint 32 s) (\<lambda>(m, s).
     Option.bind (scan_lit '',t='' s) (\<lambda>s. Option.bind (scan_uint 32 s) (\<lambda>(t, s).
     Option.bind (scan_lit '',p='' s) (\<lambda>s. Option.bind (scan_uint 8 s) (\<lambda>(p, _).
       Some \<lparr> a2p_memory = m, a2p_iterations = t, a2p_parallelism = p \<rparr>))))))"

definition parseArgon2 :: "string \<Rightarrow> (bytes \<times> bytes \<times> argon2Params) option" where
  "parseArgon2 encoded =
     (let parts = Split CHR ''$'' encoded in
      if length parts \<noteq> 6 \<or> parts ! 1 \<noteq> ''argon2id'' then None
      else
        (case Option.bind (scan_lit ''v='' (parts ! 2)) scan_int of
           None \<Rightarrow> None
         | Some (version, _) \<Rightarrow>
             if version \<noteq> argon2_Version then None
             else
               (case (scan_params (parts ! 3), raw_decode (parts ! 4), raw_decode (parts ! 5)) of
                  (Some params, Some salt, Some hash) \<Rightarrow> Some (salt, hash, params)
                | _ \<Rightarrow> None)))"

datatype verdict = Match | Mismatch | VerifyPanic

definition VerifyPassword :: "argon2 \<Rightarrow> string \<Rightarrow> string \<Rightarrow> verdict" where
  "VerifyPassword IDKey encoded plaintext =
     (case parseArgon2 encoded of
        None \<Rightarrow> Mismatch
      | Some (salt, expectedHash, p) \<Rightarrow>
          if a2p_iterations p = 0 \<or> a2p_parallelism p = 0 then VerifyPanic
          else if expectedHash = IDKey plaintext salt (a2p_iterations p) (a2p_memory p) (a2p_parallelism p) (length expectedHash)
          then Match else Mismatch)"

section \<open>session.go\<close>

record SessionClaims =
  cl_UserID :: string
  cl_TenantID :: string
  cl_Role :: string
  cl_Issuer :: string
  cl_IssuedAt :: int
  cl_ExpiresAt :: int
  cl_NotBefore :: int

text \<open>
  The JWT library: signing with HS256, and \<open>ParseWithClaims\<close> restricted to HS256, an issuer and a
  present expiry, at the time the caller's clock shows (in Unix seconds; numeric dates are whole
  seconds).
\<close>

record jwt_lib =
  SignedString :: "bytes \<Rightarrow> SessionClaims \<Rightarrow> string + string"
  ParseWithClaims :: "bytes \<Rightarrow> string \<Rightarrow> time \<Rightarrow> string \<Rightarrow> SessionClaims option"

definition sessionIssuer :: string where "sessionIssuer = ''atara-pay''"
definition sessionDefault :: int where "sessionDefault = 24 * hour"

definition session_claims :: "time \<Rightarrow> string \<Rightarrow> string \<Rightarrow> string \<Rightarrow> int \<Rightarrow> SessionClaims" where
  "session_claims now userID tenantID role ttl =
     \<lparr> cl_UserID = userID, cl_TenantID = tenantID, cl_Role = role, cl_Issuer = sessionIssuer, cl_IssuedAt = now div second,
       cl_ExpiresAt = (now + ttl) div second, cl_NotBefore = now div second \<rparr>"

definition NewSessionToken ::
    "jwt_lib \<Rightarrow> time \<Rightarrow> bytes \<Rightarrow> string \<Rightarrow> string \<Rightarrow> string \<Rightarrow> int \<Rightarrow> go_error + string" where
  "NewSessionToken jwt now signingKey userID tenantID role ttl0 =
     (if length signingKey < 32 then Inl (errors_New ''auth: signing key must be at least 32 bytes'')
      else
        (let ttl = (if ttl0 \<le> 0 then sessionDefault else ttl0) in
         case SignedString jwt signingKey (session_claims now userID tenantID role ttl) of
           Inl err \<Rightarrow> Inl (wrapf ''auth: sign session'' (errors_New err))
         | Inr signed \<Rightarrow> Inr signed))"

definition ParseSessionToken :: "jwt_lib \<Rightarrow> time \<Rightarrow> bytes \<Rightarrow> string \<Rightarrow> SessionClaims option" where
  "ParseSessionToken jwt now signingKey raw = ParseWithClaims jwt signingKey sessionIssuer now raw"

end
