(* ===== verification/Auth_Handlers.thy ===== *)
theory Auth_Handlers
  imports Auth_Primitives
begin

text \<open>
  \<open>handlers/auth.go\<close> and \<open>handlers/api_keys.go\<close>: signup, login and the management of API keys. The
  cryptographic libraries and \<open>mail.ParseAddress\<close> are arguments (\<open>auth_lib\<close>). An update that a handler
  starts in the background is part of its effect.
\<close>

record auth_lib =
  al_sha256 :: hash_fn
  al_argon2 :: argon2
  al_jwt :: jwt_lib
  al_ParseAddress :: "string \<Rightarrow> bool" \<comment> \<open>whether \<open>mail.ParseAddress\<close> accepts the text\<close>

record Auth =
  ah_sessionSecret :: bytes
  ah_sessionTTL :: int

definition NewAuth :: "bytes \<Rightarrow> int \<Rightarrow> Auth" where
  "NewAuth secret ttl = \<lparr> ah_sessionSecret = secret, ah_sessionTTL = (if ttl \<le> 0 then 24 * hour else ttl) \<rparr>"

definition loginRejected :: response where
  "loginRejected = Reply 401 (error_body ''invalid email or password'')"

section \<open>Signup\<close>

record SignupRequest =
  sr_CompanyName :: string
  sr_Email :: string
  sr_Password :: string

definition minPasswordLen :: nat where "minPasswordLen = 12"
definition maxCompanyLen :: nat where "maxCompanyLen = 100"

definition validateSignup :: "auth_lib \<Rightarrow> SignupRequest \<Rightarrow> string option" where
  "validateSignup lib r =
     (if sr_CompanyName r = [] then Some ''company_name is required''
      else if maxCompanyLen < length (sr_CompanyName r) then Some ''company_name too long''
      else if \<not> al_ParseAddress lib (sr_Email r) then Some ''email is not a valid address''
      else if length (sr_Password r) < minPasswordLen then Some ''password must be at least 12 characters''
      else None)"

definition tenant_row :: "env \<Rightarrow> SignupRequest \<Rightarrow> Tenant" where
  "tenant_row e req =
     \<lparr> tn_ID = fresh_id e ''Signup.tn'' [], tn_Name = sr_CompanyName req, tn_PrimaryEmail = sr_Email req, tn_Plan = ''free'',
       tn_Status = ''active'', tn_Metadata = empty_object, tn_CreatedAt = 0, tn_UpdatedAt = 0 \<rparr>"

definition user_row :: "env \<Rightarrow> string \<Rightarrow> SignupRequest \<Rightarrow> string \<Rightarrow> User" where
  "user_row e tenantID req pwHash =
     \<lparr> us_ID = fresh_id e ''Signup.u'' [], us_TenantID = tenantID, us_Email = sr_Email req, us_PasswordHash = pwHash,
       us_Role = ''owner'', us_EmailVerified = False, us_LastLoginAt = None, us_CreatedAt = 0, us_UpdatedAt = 0 \<rparr>"

definition api_key_row :: "string \<Rightarrow> string \<Rightarrow> string option \<Rightarrow> string \<Rightarrow> string \<Rightarrow> string \<Rightarrow> bytes \<Rightarrow> ApiKey" where
  "api_key_row keyID tenantID createdBy name environment keyPrefix keyHash =
     \<lparr> ak_ID = keyID, ak_TenantID = tenantID, ak_CreatedBy = createdBy, ak_Name = name, ak_Environment = environment,
       ak_KeyPrefix = keyPrefix, ak_KeyHash = keyHash, ak_LastUsedAt = None, ak_RevokedAt = None, ak_RevokedReason = None,
       ak_CreatedAt = 0 \<rparr>"

definition default_policy_row :: "env \<Rightarrow> string \<Rightarrow> LimitPolicy" where
  "default_policy_row e tenantID =
     (let tier = TierConservative in
      \<lparr> lp_ID = fresh_id e ''Signup.lp'' [], lp_TenantID = tenantID, lp_ScopeType = ''tenant_default'',
        lp_ScopeID = pgxText [], lp_PerTxAmount = ToNumeric (tier_PerTxUSD tier), lp_PerTxAsset = pgxText ''USDC'',
        lp_DailyAmount = ToNumeric (tier_DailyUSD tier), lp_WeeklyAmount = ToNumeric (tier_WeeklyUSD tier),
        lp_MonthlyAmount = ToNumeric (tier_MonthlyUSD tier), lp_PeriodAsset = ''USDC'', lp_Timezone = ''UTC'',
        lp_ResetDayOfWeek = 1, lp_ResetDayOfMonth = 1, lp_AllowedRecipients = empty_array, lp_DeniedRecipients = empty_array,
        lp_ExpiresAt = None, lp_Enabled = True, lp_Metadata = JVal (JObj [(''tier'', JStr (tier_Name tier))]),
        lp_CreatedAt = 0, lp_UpdatedAt = 0 \<rparr>)"

text \<open>One statement of the transaction: an error ends it.\<close>

definition tx_step :: "env \<Rightarrow> string \<Rightarrow> (db \<Rightarrow> 'a query_result \<times> db) \<Rightarrow> db \<Rightarrow> db_error + 'a \<times> db" where
  "tx_step e site q d =
     (case db_write (fault e site []) d (q d) of (Inl err, _) \<Rightarrow> Inl err | (Inr r, d1) \<Rightarrow> Inr (r, d1))"

definition signup_rows ::
    "env \<Rightarrow> SignupRequest \<Rightarrow> string \<Rightarrow> string \<times> bytes \<Rightarrow> string \<times> bytes \<Rightarrow> db
     \<Rightarrow> (bool \<times> db_error) + (Tenant \<times> User \<times> ApiKey \<times> ApiKey) \<times> db" where
  "signup_rows e req pwHash testKey liveKey d =
     (let now = clock e ''Signup.sqlnow'' [] in
      case tx_step e ''Signup.CreateTenant'' (CreateTenant now (tenant_row e req)) d of
        Inl err \<Rightarrow> Inl (True, err)
      | Inr (tenant, d1) \<Rightarrow>
          (case tx_step e ''Signup.CreateUser'' (CreateUser now (user_row e (tn_ID tenant) req pwHash)) d1 of
             Inl err \<Rightarrow> Inl (False, err)
           | Inr (user, d2) \<Rightarrow>
               (let row = (\<lambda>site name environment k. api_key_row (fresh_id e site []) (tn_ID tenant) (pgxText (us_ID user)) name
                             environment (fst k) (snd k)) in
                case tx_step e ''Signup.CreateAPIKey.test'' (CreateAPIKey now (row ''Signup.ak.test'' ''default test key'' ''test'' testKey)) d2 of
                  Inl err \<Rightarrow> Inl (False, err)
                | Inr (tk, d3) \<Rightarrow>
                    (case tx_step e ''Signup.CreateAPIKey.live'' (CreateAPIKey now (row ''Signup.ak.live'' ''default live key'' ''live'' liveKey)) d3 of
                       Inl err \<Rightarrow> Inl (False, err)
                     | Inr (lk, d4) \<Rightarrow>
                         (case tx_step e ''Signup.CreateLimitPolicy'' (CreateLimitPolicy (pg e) now (default_policy_row e (tn_ID tenant))) d4 of
                            Inl err \<Rightarrow> Inl (False, err)
                          | Inr (_, d5) \<Rightarrow> Inr ((tenant, user, tk, lk), d5))))))"

definition mint_view :: "ApiKey \<Rightarrow> string \<Rightarrow> string \<Rightarrow> json" where
  "mint_view k raw keyPrefix = JObj [(''id'', JStr (ak_ID k)), (''key'', JStr raw), (''prefix'', JStr keyPrefix)]"

definition user_view :: "User \<Rightarrow> json" where
  "user_view u = JObj [(''id'', JStr (us_ID u)), (''email'', JStr (us_Email u)), (''role'', JStr (us_Role u))]"

text \<open>The dash of the notices, in UTF-8.\<close>

definition em_dash :: string where "em_dash = [CHR 0xE2, CHR 0x80, CHR 0x94]"

definition signup_view :: "Tenant \<Rightarrow> User \<Rightarrow> json \<Rightarrow> json \<Rightarrow> json" where
  "signup_view t u testView liveView = JObj
     [(''tenant'', JObj [(''id'', JStr (tn_ID t)), (''name'', JStr (tn_Name t)), (''primary_email'', JStr (tn_PrimaryEmail t)),
                       (''plan'', JStr (tn_Plan t))]),
      (''user'', user_view u), (''api_keys'', JObj [(''test'', testView), (''live'', liveView)]),
      (''_notice'', JStr (''Store the api_keys.{test,live}.key values now. They cannot be retrieved later '' @ em_dash
         @ '' only the prefix remains visible.''))]"

definition normalized_signup :: "SignupRequest \<Rightarrow> SignupRequest" where
  "normalized_signup r = r\<lparr>sr_CompanyName := TrimSpace (sr_CompanyName r), sr_Email := ToLower (TrimSpace (sr_Email r))\<rparr>"

definition Auth_Signup :: "auth_lib \<Rightarrow> env \<Rightarrow> SignupRequest option \<Rightarrow> db \<Rightarrow> response \<times> db" where
  "Auth_Signup lib e body d =
     (case body of
        None \<Rightarrow> (badRequest ''invalid JSON body'', d)
      | Some req0 \<Rightarrow>
          (let req = normalized_signup req0 in
           case validateSignup lib req of
             Some msg \<Rightarrow> (badRequest msg, d)
           | None \<Rightarrow>
               (case (HashPassword (al_argon2 lib) (rand_bytes e ''Signup.HashPassword'' []) (sr_Password req),
                      MintAPIKey (al_sha256 lib) (rand_bytes e ''Signup.MintAPIKey.test'' []) ''test'',
                      MintAPIKey (al_sha256 lib) (rand_bytes e ''Signup.MintAPIKey.live'' []) ''live'') of
                  (Inr pwHash, Inr (testRaw, testPrefix, testHash), Inr (liveRaw, livePrefix, liveHash)) \<Rightarrow>
                    (case fault e ''Signup.Begin'' [] of
                       Some _ \<Rightarrow> (internalError, d)
                     | None \<Rightarrow>
                         (case signup_rows e req pwHash (testPrefix, testHash) (livePrefix, liveHash) d of
                            Inl (onTenant, err) \<Rightarrow>
                              (if onTenant \<and> isUniqueViolation err then conflict ''an account with this email already exists''
                               else internalError, d)
                          | Inr ((tenant, user, tk, lk), d1) \<Rightarrow>
                              (case fault e ''Signup.Commit'' [] of
                                 Some _ \<Rightarrow> (internalError, d)
                               | None \<Rightarrow>
                                   (Reply 201 (signup_view tenant user (mint_view tk testRaw testPrefix) (mint_view lk liveRaw livePrefix)), d1))))
                | _ \<Rightarrow> (internalError, d))))"

section \<open>Login\<close>

record LoginRequest =
  lr_Email :: string
  lr_Password :: string

definition Auth_Login :: "auth_lib \<Rightarrow> Auth \<Rightarrow> env \<Rightarrow> LoginRequest option \<Rightarrow> db \<Rightarrow> response \<times> db" where
  "Auth_Login lib h e body d =
     (case body of
        None \<Rightarrow> (badRequest ''invalid JSON body'', d)
      | Some req \<Rightarrow>
          (let email = ToLower (TrimSpace (lr_Email req)) in
           if email = [] \<or> lr_Password req = [] then (loginRejected, d)
           else
             (case db_read (fault e ''Login.GetUserByEmail'' []) (Inr (GetUserByEmail email d)) of
                Inl _ \<Rightarrow> (loginRejected, d)
              | Inr [] \<Rightarrow> (loginRejected, d)
              | Inr (user # _) \<Rightarrow>
                  (case VerifyPassword (al_argon2 lib) (us_PasswordHash user) (lr_Password req) of
                     VerifyPanic \<Rightarrow> (Panic, d)
                   | Mismatch \<Rightarrow> (loginRejected, d)
                   | Match \<Rightarrow>
                       (case NewSessionToken (al_jwt lib) (clock e ''NewSessionToken.now'' []) (ah_sessionSecret h) (us_ID user)
                               (us_TenantID user) (us_Role user) (ah_sessionTTL h) of
                          Inl _ \<Rightarrow> (internalError, d)
                        | Inr tok \<Rightarrow>
                            (Reply 200 (JObj
                               [(''session_token'', JStr tok),
                                (''expires_at'', JNum (int_to_dec ((clock e ''Login.now'' [] + ah_sessionTTL h) div second))),
                                (''user'', user_view user), (''tenant_id'', JStr (us_TenantID user))]),
                             (case fault e ''Login.TouchUserLogin'' [] of
                                Some _ \<Rightarrow> d
                              | None \<Rightarrow> TouchUserLogin (clock e ''Login.sqlnow'' []) (us_ID user) d)))))))"

section \<open>api\_keys.go\<close>

record APIKeyView =
  av_ID :: string
  av_Name :: string
  av_Environment :: string
  av_Prefix :: string
  av_CreatedAt :: string
  av_LastUsedAt :: string
  av_RevokedAt :: string

definition opt_time_text :: "time option \<Rightarrow> string" where
  "opt_time_text t = (case t of None \<Rightarrow> [] | Some x \<Rightarrow> Format_RFC3339_UTC x)"

definition toAPIKeyView :: "ApiKey \<Rightarrow> APIKeyView" where
  "toAPIKeyView k =
     \<lparr> av_ID = ak_ID k, av_Name = ak_Name k, av_Environment = ak_Environment k, av_Prefix = ak_KeyPrefix k,
       av_CreatedAt = Format_RFC3339_UTC (ak_CreatedAt k), av_LastUsedAt = opt_time_text (ak_LastUsedAt k),
       av_RevokedAt = opt_time_text (ak_RevokedAt k) \<rparr>"

definition key_fields :: "APIKeyView \<Rightarrow> (string \<times> json) list" where
  "key_fields v =
     [(''id'', JStr (av_ID v)), (''name'', JStr (av_Name v)), (''environment'', JStr (av_Environment v)), (''prefix'', JStr (av_Prefix v))]
     @ opt_str ''created_at'' (av_CreatedAt v) @ opt_str ''last_used_at'' (av_LastUsedAt v) @ opt_str ''revoked_at'' (av_RevokedAt v)"

definition Auth_ListAPIKeys :: "env \<Rightarrow> request_ctx \<Rightarrow> db \<Rightarrow> response" where
  "Auth_ListAPIKeys e cx d =
     (if cx_TenantID cx = [] then badRequest ''missing tenant context''
      else (case db_read (fault e ''ListAPIKeys.ListAPIKeysInTenant'' []) (Inr (ListAPIKeysInTenant (cx_TenantID cx) d)) of
              Inl _ \<Rightarrow> internalError
            | Inr rows \<Rightarrow> Reply 200 (JObj [(''data'', JArr (map (\<lambda>r. JObj (key_fields (toAPIKeyView r))) rows))])))"

record CreateAPIKeyRequest =
  kr_Name :: string
  kr_Environment :: string

definition canManageKeys :: "string \<Rightarrow> bool" where
  "canManageKeys role \<longleftrightarrow> role = ''owner'' \<or> role = ''admin''"

definition Auth_CreateAPIKey ::
    "auth_lib \<Rightarrow> env \<Rightarrow> request_ctx \<Rightarrow> CreateAPIKeyRequest option \<Rightarrow> db \<Rightarrow> response \<times> db" where
  "Auth_CreateAPIKey lib e cx body d =
     (if cx_TenantID cx = [] then (badRequest ''missing tenant context'', d)
      else if cx_Role cx \<noteq> [] \<and> \<not> canManageKeys (cx_Role cx) then (Reply 403 (error_body ''your role cannot create API keys''), d)
      else
        (case body of
           None \<Rightarrow> (badRequest ''invalid JSON body'', d)
         | Some req \<Rightarrow>
             if kr_Name req = [] then (badRequest ''name is required'', d)
             else if kr_Environment req \<noteq> ''test'' \<and> kr_Environment req \<noteq> ''live'' then
               (badRequest (''environment must be '' @ [CHR 39] @ ''test'' @ [CHR 39] @ '' or '' @ [CHR 39] @ ''live'' @ [CHR 39]), d)
             else
               (case MintAPIKey (al_sha256 lib) (rand_bytes e ''CreateAPIKey.MintAPIKey'' []) (kr_Environment req) of
                  Inl _ \<Rightarrow> (internalError, d)
                | Inr (raw, keyPrefix, hash) \<Rightarrow>
                    (case db_write (fault e ''CreateAPIKey.CreateAPIKey'' []) d
                            (CreateAPIKey (clock e ''CreateAPIKey.sqlnow'' [])
                               (api_key_row (fresh_id e ''CreateAPIKey.ak'' []) (cx_TenantID cx) (pgxText (cx_UserID cx)) (kr_Name req)
                                  (kr_Environment req) keyPrefix hash) d) of
                       (Inl _, d1) \<Rightarrow> (internalError, d1)
                     | (Inr row, d1) \<Rightarrow>
                         (Reply 201 (JObj (key_fields (toAPIKeyView row)
                            @ [(''key'', JStr raw), (''_notice'', JStr (''Store the key value now. It cannot be retrieved later '' @ em_dash
                                @ '' only the prefix remains visible.''))])), d1)))))"

definition Auth_RevokeAPIKey :: "env \<Rightarrow> request_ctx \<Rightarrow> string \<Rightarrow> db \<Rightarrow> response \<times> db" where
  "Auth_RevokeAPIKey e cx reason d =
     (let tenantID = cx_TenantID cx; keyID = cx_Params cx ''id'' in
      if tenantID = [] then (badRequest ''missing tenant context'', d)
      else if cx_Role cx \<noteq> [] \<and> \<not> canManageKeys (cx_Role cx) then (Reply 403 (error_body ''your role cannot revoke API keys''), d)
      else if keyID = [] then (badRequest ''missing id'', d)
      else
        (case db_read (fault e ''RevokeAPIKey.GetAPIKeyByID'' []) (GetAPIKeyByID keyID d) of
           Inl _ \<Rightarrow> (notFound ''key not found'', d)
         | Inr existing \<Rightarrow>
             if ak_TenantID existing \<noteq> tenantID then (notFound ''key not found'', d)
             else if ak_RevokedAt existing \<noteq> None then (Reply 200 (JObj (key_fields (toAPIKeyView existing))), d)
             else
               (case db_write (fault e ''RevokeAPIKey.RevokeAPIKey'' []) d
                       (RevokeAPIKey (clock e ''RevokeAPIKey.sqlnow'' []) keyID
                          (pgxText (if reason = [] then ''manually revoked'' else reason)) d) of
                  (Inl _, d1) \<Rightarrow> (internalError, d1)
                | (Inr updated, d1) \<Rightarrow> (Reply 200 (JObj (key_fields (toAPIKeyView updated))), d1))))"

end
