(* ===== verification/Middleware.thy ===== *)
theory Middleware
  imports Auth_Handlers
begin

text \<open>
  \<open>internal/server/middleware\<close>: the two ways to authenticate a \<open>/v1\<close> request (API key, session
  token) and the rate limit per tenant. A middleware answers the request itself or hands it on with
  the identity it found.
\<close>

section \<open>auth.go\<close>

definition bearerFromHeader :: "string \<Rightarrow> string option" where
  "bearerFromHeader h =
     (if h = [] then None
      else if \<not> HasPrefix h ''Bearer '' then None
      else (let token = TrimSpace (drop 7 h) in if token = [] then None else Some token))"

definition requiredKeyEnv :: "string \<Rightarrow> string" where
  "requiredKeyEnv gatewayEnv =
     (if gatewayEnv = ''production'' then ''live''
      else if gatewayEnv = ''staging'' \<or> gatewayEnv = ''development'' then ''test'' else [])"

definition unauthorized :: "string \<Rightarrow> response" where
  "unauthorized msg = Reply 401 (error_body msg)"

definition APIKeyAuthForEnvironment ::
    "auth_lib \<Rightarrow> env \<Rightarrow> string \<Rightarrow> string \<Rightarrow> request_ctx \<Rightarrow> db \<Rightarrow> (response + request_ctx) \<times> db" where
  "APIKeyAuthForEnvironment lib e gatewayEnv header cx d =
     (case bearerFromHeader header of
        None \<Rightarrow> (Inl (unauthorized ''missing or malformed Authorization header''), d)
      | Some raw \<Rightarrow>
          (case ParseAPIKey raw of
             KeyPanic \<Rightarrow> (Inl Panic, d)
           | KeyMalformed \<Rightarrow> (Inl (unauthorized ''invalid api key format''), d)
           | KeyEnv env \<Rightarrow>
               if requiredKeyEnv gatewayEnv \<noteq> [] \<and> env \<noteq> requiredKeyEnv gatewayEnv then
                 (Inl (Reply 401 (error_body (''api key environment ('' @ env @ '') does not match gateway environment''))), d)
               else
                 (case db_read (fault e ''APIKeyAuth.GetAPIKeyByHash'' []) (GetAPIKeyByHash (HashAPIKey (al_sha256 lib) raw) d) of
                    Inl _ \<Rightarrow> (Inl (unauthorized ''invalid api key''), d)
                  | Inr row \<Rightarrow>
                      if ak_Environment row \<noteq> env then (Inl (unauthorized ''invalid api key''), d)
                      else
                        (Inr (cx\<lparr>cx_TenantID := ak_TenantID row, cx_APIKeyID := ak_ID row\<rparr>),
                         (case fault e ''APIKeyAuth.TouchAPIKeyUsage'' [] of
                            Some _ \<Rightarrow> d
                          | None \<Rightarrow> TouchAPIKeyUsage (clock e ''APIKeyAuth.sqlnow'' []) (ak_ID row) d)))))"

section \<open>session.go\<close>

definition SessionAuth ::
    "auth_lib \<Rightarrow> env \<Rightarrow> bytes \<Rightarrow> string \<Rightarrow> request_ctx \<Rightarrow> response + request_ctx" where
  "SessionAuth lib e signingKey header cx =
     (case bearerFromHeader header of
        None \<Rightarrow> Inl (unauthorized ''missing or malformed Authorization header'')
      | Some raw \<Rightarrow>
          (case ParseSessionToken (al_jwt lib) (clock e ''ParseSessionToken.now'' []) signingKey raw of
             None \<Rightarrow> Inl (unauthorized ''invalid session token'')
           | Some claims \<Rightarrow>
               Inr (cx\<lparr>cx_TenantID := cl_TenantID claims, cx_UserID := cl_UserID claims, cx_Role := cl_Role claims\<rparr>)))"

definition EitherAuthForEnvironment ::
    "auth_lib \<Rightarrow> env \<Rightarrow> bytes \<Rightarrow> string \<Rightarrow> string \<Rightarrow> request_ctx \<Rightarrow> db \<Rightarrow> (response + request_ctx) \<times> db" where
  "EitherAuthForEnvironment lib e signingKey gatewayEnv header cx d =
     (case bearerFromHeader header of
        None \<Rightarrow> (Inl (unauthorized ''missing or malformed Authorization header''), d)
      | Some raw \<Rightarrow>
          if HasPrefix raw ''sk_'' then APIKeyAuthForEnvironment lib e gatewayEnv header cx d
          else (SessionAuth lib e signingKey header cx, d))"

section \<open>ratelimit.go\<close>

record RateLimitConfig =
  rl_RequestsPerMinute :: int
  rl_KeyPrefix :: string

definition currentWindowKey :: "string \<Rightarrow> string \<Rightarrow> time \<Rightarrow> string" where
  "currentWindowKey keyPrefix tenantID now =
     (case civil (local_day UTC now) of
        (y, m, dd) \<Rightarrow>
          keyPrefix @ '':'' @ tenantID @ '':'' @ appendInt y 4 @ appendInt m 2 @ appendInt dd 2
          @ appendInt (clock_of UTC now div 3600) 2 @ appendInt (clock_of UTC now mod 3600 div 60) 2)"

definition nextWindowUnix :: "time \<Rightarrow> int" where
  "nextWindowUnix now = (now div minute + 1) * 60"

record rate_headers =
  rh_Limit :: int
  rh_Remaining :: int
  rh_Reset :: int

definition rate_limit_of :: "RateLimitConfig \<Rightarrow> int" where
  "rate_limit_of cfg = (if rl_RequestsPerMinute cfg \<le> 0 then 600 else rl_RequestsPerMinute cfg)"

definition rate_prefix_of :: "RateLimitConfig \<Rightarrow> string" where
  "rate_prefix_of cfg = (if rl_KeyPrefix cfg = [] then ''rl'' else rl_KeyPrefix cfg)"

text \<open>
  \<open>None\<close> lets the request pass. The pipeline \<open>INCR\<close>, \<open>EXPIRE\<close> is one round trip (the counter
  interface of the limits engine, with an increment of one); when it fails the
  request passes and no header is set.
\<close>

definition RateLimit ::
    "'r redis_ops option \<Rightarrow> RateLimitConfig \<Rightarrow> env \<Rightarrow> request_ctx \<Rightarrow> 'r \<Rightarrow> response option \<times> rate_headers option \<times> 'r" where
  "RateLimit rdb cfg e cx r =
     (case rdb of
        None \<Rightarrow> (None, None, r)
      | Some rd \<Rightarrow>
          if cx_TenantID cx = [] then (None, None, r)
          else
            (let limit = rate_limit_of cfg;
                 windowKey = currentWindowKey (rate_prefix_of cfg) (cx_TenantID cx) (clock e ''RateLimit.window'' []) in
             case IncrExpire rd windowKey 1 (clock e ''RateLimit.redisnow'' [] + 70 * second) r of
               (Inl _, r1) \<Rightarrow> (None, None, r1)
             | (Inr used, r1) \<Rightarrow>
                 (if limit < used then Some (Reply 429 (error_body (''rate limit exceeded: '' @ int_to_dec limit @ '' req/min'')))
                  else None,
                  Some \<lparr> rh_Limit = limit, rh_Remaining = (if limit - used < 0 then 0 else limit - used),
                         rh_Reset = nextWindowUnix (clock e ''RateLimit.reset'' []) \<rparr>,
                  r1)))"


end
