(* ===== verification/Auth_Spec.thy ===== *)
theory Auth_Spec
  imports Middleware Tenant_Services
begin

text \<open>
  Authentication primitives: a minted API key is parsed back to its hash and environment, a password
  is verified against the hash made of it, and a short token makes the parser panic.
\<close>

section \<open>API keys\<close>

lemma MintAPIKey_Inr:
  assumes "MintAPIKey sha256 rnd env = Inr (raw, keyPrefix, hash)" "rnd_len rnd"
  shows "ParseAPIKey raw = KeyEnv env" "length raw = 40" "keyPrefix = take 20 raw" "hash = sha256 raw"
    "env = ''test'' \<or> env = ''live''" "HasPrefix raw ''sk_''" "\<forall>c \<in> set raw. \<not> is_space c"
proof -
  obtain buf where b: "rnd 24 = Inr buf" "raw = ''sk_'' @ env @ ''_'' @ raw_encode True buf" "env = ''test'' \<or> env = ''live''"
    "keyPrefix = take 20 raw" "hash = sha256 raw"
    using assms(1) by (auto simp: MintAPIKey_def apiKeyRandomBytes_def KeyPrefixLength_def HashAPIKey_def Let_def split: if_splits sum.splits)
  then have "length buf = 24" using assms(2) by (auto simp: rnd_len_def)
  then have l: "length (raw_encode True buf) = 32" by (simp add: length_raw_encode)
  show "ParseAPIKey raw = KeyEnv env" "length raw = 40"
    using b(2,3) l by (auto simp: ParseAPIKey_def KeyPrefixLength_def HasPrefix_def)
  show "keyPrefix = take 20 raw" "hash = sha256 raw" "env = ''test'' \<or> env = ''live''" "HasPrefix raw ''sk_''"
    using b by (auto simp: HasPrefix_def)
  have "\<not> is_space c" if "c \<in> set (raw_encode True buf)" for c
    using that b64_no_space by blast
  then show "\<forall>c \<in> set raw. \<not> is_space c" using b(2,3) by (auto simp: is_space_def)
qed

lemma bearer_token: "token \<noteq> [] \<Longrightarrow> \<forall>c \<in> set token. \<not> is_space c \<Longrightarrow> bearerFromHeader (''Bearer '' @ token) = Some token"
  by (simp add: bearerFromHeader_def TrimSpace_id HasPrefix_def)

text \<open>
  An API key that is minted is recognised. The key handed out for an environment is 40 characters
  long, parses back to that environment, shows its first 20 characters as prefix, and is stored as
  the hash that the middleware will look up.
\<close>

theorem MintAPIKey_ParseAPIKey:
  assumes "MintAPIKey sha256 rnd env = Inr (raw, keyPrefix, hash)" "rnd_len rnd"
  shows "ParseAPIKey raw = KeyEnv env \<and> length raw = 40 \<and> keyPrefix = take 20 raw \<and> hash = HashAPIKey sha256 raw
    \<and> bearerFromHeader (''Bearer '' @ raw) = Some raw"
proof -
  note m = MintAPIKey_Inr [OF assms]
  have "raw \<noteq> []" using m(2) by auto
  from bearer_token [OF this m(7)] show ?thesis using m(1-4) unfolding HashAPIKey_def by blast
qed

definition demo_sha :: hash_fn where "demo_sha s = rev s"

theorem MintAPIKey_ParseAPIKey_witness:
  "\<exists>raw keyPrefix hash. MintAPIKey demo_sha (rand_bytes (calm_env 0) ''x'' []) ''live'' = Inr (raw, keyPrefix, hash) \<and> ParseAPIKey raw = KeyEnv ''live''"
proof -
  have "length (raw_encode True (replicate 24 CHR ''r'')) = 32" by (simp add: length_raw_encode)
  then obtain raw keyPrefix hash where m: "MintAPIKey demo_sha (rand_bytes (calm_env 0) ''x'' []) ''live'' = Inr (raw, keyPrefix, hash)"
    by (simp add: MintAPIKey_def calm_env_def apiKeyRandomBytes_def KeyPrefixLength_def Let_def)
  have "rnd_len (rand_bytes (calm_env 0) ''x'' [])" by (auto simp: rnd_len_def calm_env_def)
  from MintAPIKey_ParseAPIKey [OF m this] m show ?thesis by blast
qed

text \<open>A token that starts like an API key and is too short makes the slice \<open>raw[:8]\<close> panic.\<close>

lemma short_token_panics:
  "fst (EitherAuthForEnvironment lib e signingKey gatewayEnv ''Bearer sk_'' cx d) = Inl Panic"
proof -
  have "TrimSpace ''sk_'' = ''sk_''" by code_simp
  then show ?thesis
    by (simp add: EitherAuthForEnvironment_def APIKeyAuthForEnvironment_def bearerFromHeader_def ParseAPIKey_def HasPrefix_def)
qed

section \<open>Passwords\<close>

lemma param_texts: "int_to_dec argon2_Version = ''19''" "nat_to_dec a2Memory = ''65536''" "nat_to_dec a2Iterations = ''3''" "nat_to_dec a2Parallelism = ''2''"
  by (simp_all add: int_to_dec_def nat_to_dec.simps digit_char_eval argon2_Version_def a2Memory_def a2Iterations_def a2Parallelism_def)

lemma dec_texts: "dec_val ''65536'' = 65536" "dec_val ''3'' = 3" "dec_val ''2'' = 2" "dec_val ''19'' = 19"
  "all_digits ''65536''" "all_digits ''3''" "all_digits ''2''" "all_digits ''19''"
  by (simp_all add: dec_val_def digit_val_def all_digits_def is_digit_def)

lemma scan_version: "Option.bind (scan_lit ''v='' ''v=19'') scan_int = Some (19, [])"
  using scan_digits [of "''19''" "[]" True]
  by (simp add: scan_lit_def HasPrefix_def scan_int_def ParseInt_def big_SetString_def dec_texts is_digit_def)

lemma scan_own_params: "scan_params ''m=65536,t=3,p=2'' = Some \<lparr> a2p_memory = 65536, a2p_iterations = 3, a2p_parallelism = 2 \<rparr>"
proof -
  have "scan_uint 32 ''65536,t=3,p=2'' = Some (65536, '',t=3,p=2'')" "scan_uint 32 ''3,p=2'' = Some (3, '',p=2'')" "scan_uint 8 ''2'' = Some (2, [])"
    using scan_digits [of "''65536''" "'',t=3,p=2''" False] scan_digits [of "''3''" "'',p=2''" False] scan_digits [of "''2''" "[]" False]
    by (simp_all add: scan_uint_def dec_texts is_digit_def)
  then show ?thesis by (simp add: scan_params_def scan_lit_def HasPrefix_def)
qed

lemma parseArgon2_own:
  "parseArgon2 (''$argon2id$v=19$m=65536,t=3,p=2$'' @ raw_encode False salt @ ''$'' @ raw_encode False hash)
   = Some (salt, hash, \<lparr> a2p_memory = 65536, a2p_iterations = 3, a2p_parallelism = 2 \<rparr>)"
proof -
  have n: "CHR ''$'' \<notin> set (raw_encode False x)" for x using encode_plain by blast
  have "Split CHR ''$'' (''$argon2id$v=19$m=65536,t=3,p=2$'' @ raw_encode False salt @ ''$'' @ raw_encode False hash)
      = [[], ''argon2id'', ''v=19'', ''m=65536,t=3,p=2'', raw_encode False salt, raw_encode False hash]"
    using Split_append [OF n, of salt "raw_encode False hash"] Split_none [OF n] by simp
  then show ?thesis
    unfolding parseArgon2_def Let_def by (simp add: scan_version scan_own_params argon2_Version_def nth_Cons_numeral)
qed

lemma HashPassword_Inr:
  assumes "HashPassword IDKey rnd pw = Inr enc"
  shows "\<exists>salt. rnd 16 = Inr salt
    \<and> enc = ''$argon2id$v=19$m=65536,t=3,p=2$'' @ raw_encode False salt @ ''$'' @ raw_encode False (IDKey pw salt 3 65536 2 32)"
  using assms unfolding HashPassword_def param_texts
  by (auto simp: a2SaltLength_def a2Memory_def a2Iterations_def a2Parallelism_def a2KeyLength_def Let_def split: if_splits sum.splits)

lemma VerifyPassword_own:
  "VerifyPassword IDKey (''$argon2id$v=19$m=65536,t=3,p=2$'' @ raw_encode False salt @ ''$'' @ raw_encode False hash) pw
   = (if hash = IDKey pw salt 3 65536 2 (length hash) then Match else Mismatch)"
  unfolding VerifyPassword_def parseArgon2_own by simp

text \<open>
  A password hash accepts its own password, and another one only if Argon2 cannot tell them
  apart: what \<open>HashPassword\<close> writes is read back with the same parameters, salt and digest.
\<close>

theorem VerifyPassword_HashPassword:
  assumes "HashPassword IDKey rnd pw = Inr enc" and len: "\<forall>p s. length (IDKey p s 3 65536 2 32) = 32"
  shows "VerifyPassword IDKey enc pw = Match
    \<and> (\<forall>pw'. VerifyPassword IDKey enc pw' = Match \<longleftrightarrow> (\<exists>salt. rnd 16 = Inr salt \<and> IDKey pw' salt 3 65536 2 32 = IDKey pw salt 3 65536 2 32))"
proof -
  obtain salt where s: "rnd 16 = Inr salt"
    "enc = ''$argon2id$v=19$m=65536,t=3,p=2$'' @ raw_encode False salt @ ''$'' @ raw_encode False (IDKey pw salt 3 65536 2 32)"
    using HashPassword_Inr [OF assms(1)] by blast
  show ?thesis unfolding s(2) VerifyPassword_own using s(1) len by auto
qed

definition demo_argon2 :: argon2 where
  "demo_argon2 p s t m par n = take n (p @ s @ replicate n CHR ''0'')"

theorem VerifyPassword_HashPassword_witness:
  "\<exists>enc. HashPassword demo_argon2 (rand_bytes (calm_env 0) ''x'' []) ''correct horse'' = Inr enc
     \<and> VerifyPassword demo_argon2 enc ''correct horse'' = Match \<and> VerifyPassword demo_argon2 enc ''battery staple'' \<noteq> Match"
proof -
  obtain enc where h: "HashPassword demo_argon2 (rand_bytes (calm_env 0) ''x'' []) ''correct horse'' = Inr enc"
    by (simp add: HashPassword_def calm_env_def Let_def)
  have l: "\<forall>p s. length (demo_argon2 p s 3 65536 2 32) = 32" by (simp add: demo_argon2_def del: take_append)
  have "hd (demo_argon2 (c # p) salt 3 65536 2 32) = c" for c p salt unfolding demo_argon2_def by (subst hd_take) simp_all
  from this [of "CHR ''b''" "''attery staple''"] this [of "CHR ''c''" "''orrect horse''"]
  have "hd (demo_argon2 ''battery staple'' salt 3 65536 2 32) \<noteq> hd (demo_argon2 ''correct horse'' salt 3 65536 2 32)" for salt
    by simp
  then have "demo_argon2 ''battery staple'' salt 3 65536 2 32 \<noteq> demo_argon2 ''correct horse'' salt 3 65536 2 32" for salt
    by metis
  then show ?thesis using VerifyPassword_HashPassword [OF h l] h by blast
qed

end
