(* ===== verification/Auth_Handlers_Spec.thy ===== *)
theory Auth_Handlers_Spec
  imports Auth_Spec
begin

text \<open>
  The account handlers: a signup is all or nothing and its keys authenticate, a session token
  authenticates its user until it expires, the rate limit bounds what passes, and every operation
  keeps the invariants of the store.
\<close>

section \<open>Authentication by API key\<close>

definition authenticates ::
    "auth_lib \<Rightarrow> env \<Rightarrow> bytes \<Rightarrow> string \<Rightarrow> string \<Rightarrow> request_ctx \<Rightarrow> db \<Rightarrow> string \<Rightarrow> string \<Rightarrow> bool" where
  "authenticates lib e signingKey gatewayEnv raw cx d tenantID keyID \<longleftrightarrow>
     fst (EitherAuthForEnvironment lib e signingKey gatewayEnv (''Bearer '' @ raw) cx d)
       = Inr (cx\<lparr>cx_TenantID := tenantID, cx_APIKeyID := keyID\<rparr>)"

lemma hash_lookup:
  assumes "pk_unique ak_KeyHash (api_keys d)" "k \<in> set (api_keys d)" "ak_RevokedAt k = None"
  shows "GetAPIKeyByHash (ak_KeyHash k) d = Inr k"
proof -
  obtain k' where f: "List.find (\<lambda>r. ak_KeyHash r = ak_KeyHash k \<and> ak_RevokedAt r = None) (api_keys d) = Some k'"
    using assms(2,3) by (cases "List.find (\<lambda>r. ak_KeyHash r = ak_KeyHash k \<and> ak_RevokedAt r = None) (api_keys d)") (auto simp: find_None_iff)
  then have "k' \<in> set (api_keys d)" "ak_KeyHash k' = ak_KeyHash k" by (auto dest: find_Some_D)
  then have "k' = k" using pk_unique_same [OF assms(1) _ assms(2)] by blast
  then show ?thesis using f by (simp add: GetAPIKeyByHash_def select_one_Inr)
qed

lemma minted_key_authenticates:
  assumes mint: "MintAPIKey (al_sha256 lib) rnd env = Inr (raw, keyPrefix, hash)" "rnd_len rnd"
    and k: "pk_unique ak_KeyHash (api_keys d)" "k \<in> set (api_keys d)" "ak_RevokedAt k = None" "ak_KeyHash k = hash" "ak_Environment k = env"
    and env: "requiredKeyEnv gatewayEnv \<in> {[], env}" and calm: "fault e ''APIKeyAuth.GetAPIKeyByHash'' [] = None"
  shows "authenticates lib e signingKey gatewayEnv raw cx d (ak_TenantID k) (ak_ID k)"
proof -
  note m = MintAPIKey_Inr [OF mint]
  have "raw \<noteq> []" using m(2) by auto
  note b = bearer_token [OF this m(7)]
  have g: "GetAPIKeyByHash (al_sha256 lib raw) d = Inr k" using hash_lookup [OF k(1-3)] k(4) m(4) by simp
  show ?thesis
    unfolding authenticates_def EitherAuthForEnvironment_def APIKeyAuthForEnvironment_def b option.case HashAPIKey_def
    using m(1,6) g env calm k(5) by auto
qed

section \<open>Signup\<close>

lemma tx_step_Inr: "tx_step e site q d = Inr (r, d1) \<longleftrightarrow> fault e site [] = None \<and> q d = (Inr r, d1)"
  by (cases "fault e site []") (auto simp: tx_step_def split: sum.splits prod.splits)

lemma CreateTenant_Inr:
  assumes "CreateTenant now a d = (Inr r, d')"
  shows "d' = d\<lparr>tenants := tenants d @ [r]\<rparr>" "r = a\<lparr>tn_CreatedAt := now, tn_UpdatedAt := now\<rparr>"
  using assms by (auto simp: CreateTenant_def Let_def split: if_splits)

lemma CreateUser_Inr:
  assumes "CreateUser now a d = (Inr r, d')"
  shows "d' = d\<lparr>users := users d @ [r]\<rparr>"
    "r = a\<lparr>us_EmailVerified := False, us_LastLoginAt := None, us_CreatedAt := now, us_UpdatedAt := now\<rparr>"
  using assms by (auto simp: CreateUser_def Let_def split: if_splits)

lemma CreateAPIKey_Inr:
  assumes "CreateAPIKey now a d = (Inr r, d')"
  shows "d' = d\<lparr>api_keys := api_keys d @ [r]\<rparr>"
    "r = a\<lparr>ak_LastUsedAt := None, ak_RevokedAt := None, ak_RevokedReason := None, ak_CreatedAt := now\<rparr>"
  using assms by (auto simp: CreateAPIKey_def Let_def split: if_splits)

lemma policy_insert:
  assumes "CreateLimitPolicy drv now a d = (Inr r, d')"
  shows "d' = d\<lparr>limit_policies := limit_policies d @ [r]\<rparr>"
    "lp_TenantID r = lp_TenantID a" "lp_ScopeType r = lp_ScopeType a" "lp_Enabled r = lp_Enabled a"
  using assms by (auto simp: CreateLimitPolicy_def Let_def split: if_splits option.splits)

lemma api_key_row_tenant [simp]: "ak_TenantID (api_key_row i t cb nm env pre h) = t"
  by (simp add: api_key_row_def)

lemma signup_statements:
  assumes "signup_rows e req pwHash tk lk d = Inr ((t, u, k1, k2), d')"
  obtains now d1 d2 d3 d4 p where "CreateTenant now (tenant_row e req) d = (Inr t, d1)"
    "CreateUser now (user_row e (tn_ID t) req pwHash) d1 = (Inr u, d2)"
    "CreateAPIKey now (api_key_row (fresh_id e ''Signup.ak.test'' []) (tn_ID t) (pgxText (us_ID u)) ''default test key'' ''test'' (fst tk) (snd tk)) d2 = (Inr k1, d3)"
    "CreateAPIKey now (api_key_row (fresh_id e ''Signup.ak.live'' []) (tn_ID t) (pgxText (us_ID u)) ''default live key'' ''live'' (fst lk) (snd lk)) d3 = (Inr k2, d4)"
    "CreateLimitPolicy (pg e) now (default_policy_row e (tn_ID t)) d4 = (Inr p, d')"
  using assms by (auto simp: signup_rows_def tx_step_Inr Let_def split: sum.splits prod.splits)

lemma signup_rows_Inr:
  assumes "signup_rows e req pwHash tk lk d = Inr ((t, u, k1, k2), d')"
  obtains now p where
    "t = (tenant_row e req)\<lparr>tn_CreatedAt := now, tn_UpdatedAt := now\<rparr>"
    "u = (user_row e (tn_ID t) req pwHash)\<lparr>us_CreatedAt := now, us_UpdatedAt := now\<rparr>"
    "ak_TenantID k1 = tn_ID t" "ak_Environment k1 = ''test''" "ak_KeyHash k1 = snd tk" "ak_RevokedAt k1 = None"
    "ak_TenantID k2 = tn_ID t" "ak_Environment k2 = ''live''" "ak_KeyHash k2 = snd lk" "ak_RevokedAt k2 = None"
    "is_tenant_default (tn_ID t) p"
    "d' = d\<lparr>tenants := tenants d @ [t], users := users d @ [u], api_keys := api_keys d @ [k1, k2], limit_policies := limit_policies d @ [p]\<rparr>"
proof -
  obtain now d1 d2 d3 d4 p where r: "CreateTenant now (tenant_row e req) d = (Inr t, d1)"
      "CreateUser now (user_row e (tn_ID t) req pwHash) d1 = (Inr u, d2)"
      "CreateAPIKey now (api_key_row (fresh_id e ''Signup.ak.test'' []) (tn_ID t) (pgxText (us_ID u)) ''default test key'' ''test'' (fst tk) (snd tk)) d2 = (Inr k1, d3)"
      "CreateAPIKey now (api_key_row (fresh_id e ''Signup.ak.live'' []) (tn_ID t) (pgxText (us_ID u)) ''default live key'' ''live'' (fst lk) (snd lk)) d3 = (Inr k2, d4)"
      "CreateLimitPolicy (pg e) now (default_policy_row e (tn_ID t)) d4 = (Inr p, d')"
    using assms by (rule signup_statements)
  note tn = CreateTenant_Inr [OF r(1)] and us = CreateUser_Inr [OF r(2)] and k1 = CreateAPIKey_Inr [OF r(3)] and k2 = CreateAPIKey_Inr [OF r(4)]
    and lp = policy_insert [OF r(5)]
  show ?thesis
  proof (rule that)
    show "is_tenant_default (tn_ID t) p" using lp(2-4) by (simp add: is_tenant_default_def default_policy_row_def Let_def)
    show "d' = d\<lparr>tenants := tenants d @ [t], users := users d @ [u], api_keys := api_keys d @ [k1, k2], limit_policies := limit_policies d @ [p]\<rparr>"
      using lp(1) tn(1) us(1) k1(1) k2(1) by simp
    show "u = (user_row e (tn_ID t) req pwHash)\<lparr>us_CreatedAt := now, us_UpdatedAt := now\<rparr>"
      using us(2) by (simp add: user_row_def)
  qed (use tn(2) k1(2) k2(2) in \<open>simp_all add: api_key_row_def\<close>)
qed

lemma Auth_Signup_cases:
  assumes "Auth_Signup lib e body d = (r, d')"
  obtains (refused) "d' = d" "resp_status r \<in> {Some 400, Some 409, Some 500}"
  | (created) req pwHash testRaw testPrefix testHash liveRaw livePrefix liveHash t u tk lk where
    "MintAPIKey (al_sha256 lib) (rand_bytes e ''Signup.MintAPIKey.test'' []) ''test'' = Inr (testRaw, testPrefix, testHash)"
    "MintAPIKey (al_sha256 lib) (rand_bytes e ''Signup.MintAPIKey.live'' []) ''live'' = Inr (liveRaw, livePrefix, liveHash)"
    "signup_rows e req pwHash (testPrefix, testHash) (livePrefix, liveHash) d = Inr ((t, u, tk, lk), d')"
    "r = Reply 201 (signup_view t u (mint_view tk testRaw testPrefix) (mint_view lk liveRaw livePrefix))"
    "HashPassword (al_argon2 lib) (rand_bytes e ''Signup.HashPassword'' []) (sr_Password req) = Inr pwHash"
  using assms
  by (auto simp: Auth_Signup_def Let_def split: option.splits sum.splits prod.splits if_splits)

context tenant_store
begin

lemma signup_rows_keep:
  assumes "P t d" "signup_rows e req pwHash tk lk d = Inr (res, d')" "fresh_id e ''Signup.tn'' [] = t"
  shows "P t d'"
proof -
  obtain tn us k1 k2 where [simp]: "res = (tn, us, k1, k2)" by (cases res)
  obtain now d1 d2 d3 d4 p where r: "CreateTenant now (tenant_row e req) d = (Inr tn, d1)"
      "CreateUser now (user_row e (tn_ID tn) req pwHash) d1 = (Inr us, d2)"
      "CreateAPIKey now (api_key_row (fresh_id e ''Signup.ak.test'' []) (tn_ID tn) (pgxText (us_ID us)) ''default test key'' ''test'' (fst tk) (snd tk)) d2 = (Inr k1, d3)"
      "CreateAPIKey now (api_key_row (fresh_id e ''Signup.ak.live'' []) (tn_ID tn) (pgxText (us_ID us)) ''default live key'' ''live'' (fst lk) (snd lk)) d3 = (Inr k2, d4)"
      "CreateLimitPolicy (pg e) now (default_policy_row e (tn_ID tn)) d4 = (Inr p, d')"
    using assms(2) unfolding \<open>res = _\<close> by (rule signup_statements)
  have tn: "tn_ID tn = t" using CreateTenant_Inr(2) [OF r(1)] assms(3) by (simp add: tenant_row_def)
  have "P t d1" using keep_CreateTenant [OF assms(1), of "tenant_row e req" now] r(1) assms(3) by (simp add: tenant_row_def)
  then have "P t d2" using keep_CreateUser [of t d1 "user_row e (tn_ID tn) req pwHash" now] r(2) tn by (simp add: user_row_def)
  then have "P t d3" using keep_CreateAPIKey [of t d2 _ now] r(3) tn by (metis api_key_row_tenant snd_conv)
  then have "P t d4" using keep_CreateAPIKey [of t d3 _ now] r(4) tn by (metis api_key_row_tenant snd_conv)
  then show ?thesis using keep_CreateLimitPolicy [of t d4 "default_policy_row e (tn_ID tn)" "pg e" now] r(5) tn
    by (simp add: default_policy_row_def Let_def)
qed

end

text \<open>
  C25: a signup is all or nothing, and what it hands out works. Either nothing is stored and the answer
  is 400, 409 or 500, or exactly one tenant, one owner, one test key, one live key and one default
  policy are added, and each of the two raw keys of the answer authenticates as the new tenant
  at the gateway of its environment (and at one without an environment).
\<close>

theorem Signup_is_all_or_nothing:
  assumes run: "Auth_Signup lib e body d = (r, d')" and wf: "db_wf d" and rnd: "\<forall>site. rnd_len (rand_bytes e site [])"
  shows "(d' = d \<and> resp_status r \<in> {Some 400, Some 409, Some 500})
    \<or> (\<exists>t u p tk lk testRaw testPrefix liveRaw livePrefix.
        r = Reply 201 (signup_view t u (mint_view tk testRaw testPrefix) (mint_view lk liveRaw livePrefix))
        \<and> d' = d\<lparr>tenants := tenants d @ [t], users := users d @ [u], api_keys := api_keys d @ [tk, lk], limit_policies := limit_policies d @ [p]\<rparr>
        \<and> us_TenantID u = tn_ID t \<and> us_Role u = ''owner'' \<and> is_tenant_default (tn_ID t) p
        \<and> (\<forall>(env, raw, k) \<in> {(''test'', testRaw, tk), (''live'', liveRaw, lk)}.
             \<forall>gatewayEnv e2 signingKey cx. requiredKeyEnv gatewayEnv \<in> {[], env} \<longrightarrow> fault e2 ''APIKeyAuth.GetAPIKeyByHash'' [] = None \<longrightarrow>
               authenticates lib e2 signingKey gatewayEnv raw cx d' (tn_ID t) (ak_ID k)))"
  using run
proof (cases rule: Auth_Signup_cases)
  case (created req pwHash testRaw testPrefix testHash liveRaw livePrefix liveHash t u tk lk)
  from created(3) obtain now p where rows:
    "t = (tenant_row e req)\<lparr>tn_CreatedAt := now, tn_UpdatedAt := now\<rparr>"
    "u = (user_row e (tn_ID t) req pwHash)\<lparr>us_CreatedAt := now, us_UpdatedAt := now\<rparr>"
    "ak_TenantID tk = tn_ID t" "ak_Environment tk = ''test''" "ak_KeyHash tk = testHash" "ak_RevokedAt tk = None"
    "ak_TenantID lk = tn_ID t" "ak_Environment lk = ''live''" "ak_KeyHash lk = liveHash" "ak_RevokedAt lk = None"
    "is_tenant_default (tn_ID t) p"
    "d' = d\<lparr>tenants := tenants d @ [t], users := users d @ [u], api_keys := api_keys d @ [tk, lk], limit_policies := limit_policies d @ [p]\<rparr>"
    by (rule signup_rows_Inr) (simp only: snd_conv)
  have "db_wf d'" using integrity.signup_rows_keep [OF wf created(3)] by simp
  then have uniq: "pk_unique ak_KeyHash (api_keys d')" by (simp add: db_wf_def secondary_keys_def)
  note test = minted_key_authenticates [OF created(1) rnd [rule_format] uniq _ rows(6,5,4), unfolded rows(3)]
    and live = minted_key_authenticates [OF created(2) rnd [rule_format] uniq _ rows(10,9,8), unfolded rows(7)]
  have mem: "tk \<in> set (api_keys d')" "lk \<in> set (api_keys d')" by (simp_all add: rows(12))
  have u: "us_TenantID u = tn_ID t" "us_Role u = ''owner''" by (simp_all add: rows(2) user_row_def)
  have auth: "authenticates lib e2 signingKey gatewayEnv testRaw cx d' (tn_ID t) (ak_ID tk)"
    if "requiredKeyEnv gatewayEnv \<in> {[], ''test''}" "fault e2 ''APIKeyAuth.GetAPIKeyByHash'' [] = None" for e2 gatewayEnv signingKey cx
    using mem(1) that by (rule test)
  have auth': "authenticates lib e2 signingKey gatewayEnv liveRaw cx d' (tn_ID t) (ak_ID lk)"
    if "requiredKeyEnv gatewayEnv \<in> {[], ''live''}" "fault e2 ''APIKeyAuth.GetAPIKeyByHash'' [] = None" for e2 gatewayEnv signingKey cx
    using mem(2) that by (rule live)
  show ?thesis
    by (intro disjI2 exI [of _ t] exI [of _ u] exI [of _ p] exI [of _ tk] exI [of _ lk] exI [of _ testRaw] exI [of _ testPrefix]
        exI [of _ liveRaw] exI [of _ livePrefix] conjI created(4) rows(11,12) u) (simp only: ball_simps prod.case, blast intro: auth auth')
qed simp

definition demo_claims :: SessionClaims where
  "demo_claims = session_claims 0 ''Signup.u'' ''Signup.tn'' ''owner'' hour"

definition demo_jwt :: jwt_lib where
  "demo_jwt = \<lparr> SignedString = (\<lambda>k c. if c = demo_claims then Inr ''eyJ.demo'' else Inl ''not signed''),
     ParseWithClaims = (\<lambda>k iss now s. if s = ''eyJ.demo'' \<and> iss = cl_Issuer demo_claims \<and> cl_NotBefore demo_claims * second \<le> now
        \<and> now < cl_ExpiresAt demo_claims * second then Some demo_claims else None) \<rparr>"

definition demo_lib :: auth_lib where
  "demo_lib = \<lparr> al_sha256 = demo_sha, al_argon2 = demo_argon2, al_jwt = demo_jwt, al_ParseAddress = (\<lambda>s. s \<noteq> []) \<rparr>"

definition demo_signup :: SignupRequest where
  "demo_signup = \<lparr> sr_CompanyName = ''Acme'', sr_Email = ''a@acme.io'', sr_Password = ''correct horse'' \<rparr>"

definition demo_account_ctx :: request_ctx where
  "demo_account_ctx = \<lparr> cx_TenantID = ''tn'', cx_APIKeyID = [], cx_UserID = [], cx_Role = [], cx_Params = (\<lambda>_. []), cx_Query = (\<lambda>_. []) \<rparr>"

lemma demo_signup_created: "\<exists>v d'. Auth_Signup demo_lib (calm_env 0) (Some demo_signup) empty_db = (Reply 201 v, d') \<and> tn_ID (hd (tenants d')) = ''Signup.tn''"
proof -
  have n: "normalized_signup demo_signup = demo_signup" by code_simp
  have v: "validateSignup demo_lib demo_signup = None"
    by (simp add: validateSignup_def demo_signup_def demo_lib_def maxCompanyLen_def minPasswordLen_def)
  obtain h where h: "HashPassword demo_argon2 (rand_bytes (calm_env 0) ''Signup.HashPassword'' []) (sr_Password demo_signup) = Inr h"
    by (simp add: HashPassword_def calm_env_def demo_signup_def Let_def)
  have l: "length (raw_encode True (replicate 24 CHR ''r'')) = 32" by (simp add: length_raw_encode)
  then have m: "\<exists>raw keyPrefix. MintAPIKey demo_sha (rand_bytes (calm_env 0) site []) env = Inr (raw, keyPrefix, rev raw) \<and> HasPrefix raw (''sk_'' @ env)"
    if "env = ''test'' \<or> env = ''live''" for site env
    using that by (auto simp: MintAPIKey_def calm_env_def apiKeyRandomBytes_def KeyPrefixLength_def Let_def HashAPIKey_def demo_sha_def HasPrefix_def)
  obtain r1 p1 where m1: "MintAPIKey demo_sha (rand_bytes (calm_env 0) ''Signup.MintAPIKey.test'' []) ''test'' = Inr (r1, p1, rev r1)" "HasPrefix r1 ''sk_test''"
    using m [of "''test''" "''Signup.MintAPIKey.test''"] by auto
  obtain r2 p2 where m2: "MintAPIKey demo_sha (rand_bytes (calm_env 0) ''Signup.MintAPIKey.live'' []) ''live'' = Inr (r2, p2, rev r2)" "HasPrefix r2 ''sk_live''"
    using m [of "''live''" "''Signup.MintAPIKey.live''"] by auto
  have ne: "r1 \<noteq> r2" using m1(2) m2(2) by (auto simp: HasPrefix_def)
  have "\<exists>res d'. signup_rows (calm_env 0) demo_signup h (p1, rev r1) (p2, rev r2) empty_db = Inr (res, d') \<and> tn_ID (hd (tenants d')) = ''Signup.tn''"
    using ne
    by (simp add: signup_rows_def tx_step_def calm_env_def CreateTenant_def CreateUser_def CreateAPIKey_def CreateLimitPolicy_def
        tenant_row_def user_row_def api_key_row_def default_policy_row_def empty_db_def exists_row_def fk_opt_def pgxText_def
        store_numeric_def ToNumeric_def policy_check_def is_tenant_default_def demo_signup_def Let_def)
  then show ?thesis using n v h m1(1) m2(1)
    by (auto simp: Auth_Signup_def demo_lib_def calm_env_def)
qed

lemma db_wf_empty: "db_wf empty_db"
  by (simp add: db_wf_def empty_db_def tables_ok_def wf_table_def secondary_keys_def pk_unique_def)

lemma calm_env_rnd: "rnd_len (rand_bytes (calm_env t) site [])"
  by (auto simp: rnd_len_def calm_env_def)

theorem Signup_is_all_or_nothing_witness:
  "\<exists>v d' raw keyID. Auth_Signup demo_lib (calm_env 0) (Some demo_signup) empty_db = (Reply 201 v, d')
     \<and> authenticates demo_lib (calm_env 1) [] ''development'' raw demo_account_ctx d' ''Signup.tn'' keyID"
proof -
  obtain v d' where run: "Auth_Signup demo_lib (calm_env 0) (Some demo_signup) empty_db = (Reply 201 v, d')" "tn_ID (hd (tenants d')) = ''Signup.tn''"
    using demo_signup_created by blast
  have c: "fault (calm_env 1) ''APIKeyAuth.GetAPIKeyByHash'' [] = None" by (simp add: calm_env_def)
  have g: "requiredKeyEnv ''development'' \<in> {[], ''test''}" by (simp add: requiredKeyEnv_def)
  have "\<forall>site. rnd_len (rand_bytes (calm_env 0) site [])" by (simp add: calm_env_rnd)
  from Signup_is_all_or_nothing [OF run(1) db_wf_empty this]
  obtain t u p tk lk testRaw liveRaw where
    d': "d' = empty_db\<lparr>tenants := tenants empty_db @ [t], users := users empty_db @ [u], api_keys := api_keys empty_db @ [tk, lk], limit_policies := limit_policies empty_db @ [p]\<rparr>"
    and auth: "\<forall>(env, raw, k) \<in> {(''test'', testRaw, tk), (''live'', liveRaw, lk)}.
             \<forall>gatewayEnv e2 signingKey cx. requiredKeyEnv gatewayEnv \<in> {[], env} \<longrightarrow> fault e2 ''APIKeyAuth.GetAPIKeyByHash'' [] = None \<longrightarrow>
               authenticates demo_lib e2 signingKey gatewayEnv raw cx d' (tn_ID t) (ak_ID k)"
    by (elim disjE exE conjE) (simp, rule that)
  have "tn_ID t = ''Signup.tn''" using run(2) d' by (simp add: empty_db_def)
  then have "authenticates demo_lib (calm_env 1) [] ''development'' testRaw demo_account_ctx d' ''Signup.tn'' (ak_ID tk)"
    using auth c g by auto
  with run(1) show ?thesis by blast
qed

section \<open>Login\<close>

text \<open>
  What the JWT library documents: a token is three base64url parts joined by dots (so it starts with
  the encoding of an opening brace), and a token it signed is accepted exactly for its issuer,
  from its \<open>nbf\<close> on and before its \<open>exp\<close>.
\<close>

definition jwt_law :: "jwt_lib \<Rightarrow> bool" where
  "jwt_law jwt \<longleftrightarrow> (\<forall>k c s. SignedString jwt k c = Inr s \<longrightarrow>
     HasPrefix s ''ey'' \<and> (\<forall>x \<in> set s. \<not> is_space x)
     \<and> (\<forall>iss now. ParseWithClaims jwt k iss now s =
          (if cl_Issuer c = iss \<and> cl_NotBefore c * second \<le> now \<and> now < cl_ExpiresAt c * second then Some c else None)))"

lemma Auth_Login_200:
  assumes "Auth_Login lib h e (Some req) d = (Reply 200 v, d')"
  obtains user tok where "user \<in> set (users d)" "us_Email user = ToLower (TrimSpace (lr_Email req))"
    "VerifyPassword (al_argon2 lib) (us_PasswordHash user) (lr_Password req) = Match"
    "NewSessionToken (al_jwt lib) (clock e ''NewSessionToken.now'' []) (ah_sessionSecret h) (us_ID user) (us_TenantID user) (us_Role user)
       (ah_sessionTTL h) = Inr tok"
    "v = JObj [(''session_token'', JStr tok), (''expires_at'', JNum (int_to_dec ((clock e ''Login.now'' [] + ah_sessionTTL h) div second))),
               (''user'', user_view user), (''tenant_id'', JStr (us_TenantID user))]"
proof -
  have u: "user \<in> set (users d)" "us_Email user = em" if "GetUserByEmail em d = user # us" for em user us
  proof -
    have "user \<in> set (GetUserByEmail em d)" using that by simp
    then show "user \<in> set (users d)" "us_Email user = em" by (auto simp: GetUserByEmail_def)
  qed
  show ?thesis using assms
    by (auto simp: Auth_Login_def Let_def loginRejected_def db_read_Inr dest: u
        split: if_splits sum.splits list.splits verdict.splits intro: that)
qed

text \<open>
  C26: a login that succeeds was given the email and the password of a user, and the token it answers
  with authenticates exactly as that user, with the tenant and the role of the row, from the
  second of the login until the lifetime of the session is over, and never again afterwards.
\<close>

theorem login_token_authenticates_until_it_expires:
  assumes run: "Auth_Login lib (NewAuth secret ttl) e (Some req) d = (Reply 200 v, d')" and law: "jwt_law (al_jwt lib)"
  shows "\<exists>user tok now. user \<in> set (users d) \<and> us_Email user = ToLower (TrimSpace (lr_Email req))
    \<and> VerifyPassword (al_argon2 lib) (us_PasswordHash user) (lr_Password req) = Match
    \<and> 32 \<le> length secret \<and> now = clock e ''NewSessionToken.now'' []
    \<and> (\<exists>rest. v = JObj ((''session_token'', JStr tok) # rest))
    \<and> (\<forall>e2 gatewayEnv cx d2. EitherAuthForEnvironment lib e2 secret gatewayEnv (''Bearer '' @ tok) cx d2 =
         (let t = clock e2 ''ParseSessionToken.now'' [] in
          if (now div second) * second \<le> t \<and> t < ((now + ah_sessionTTL (NewAuth secret ttl)) div second) * second
          then Inr (cx\<lparr>cx_TenantID := us_TenantID user, cx_UserID := us_ID user, cx_Role := us_Role user\<rparr>)
          else Inl (unauthorized ''invalid session token''), d2))"
  using run
proof (cases rule: Auth_Login_200)
  case (1 user tok)
  let ?now = "clock e ''NewSessionToken.now'' []" and ?ttl = "ah_sessionTTL (NewAuth secret ttl)"
  let ?c = "session_claims ?now (us_ID user) (us_TenantID user) (us_Role user) ?ttl"
  have pos: "0 < ?ttl" by (simp add: NewAuth_def duration_defs)
  have s: "SignedString (al_jwt lib) secret ?c = Inr tok" "32 \<le> length secret"
    using 1(4) pos by (auto simp: NewSessionToken_def NewAuth_def Let_def split: if_splits sum.splits)
  have t: "HasPrefix tok ''ey''" "\<forall>x \<in> set tok. \<not> is_space x"
    "ParseWithClaims (al_jwt lib) secret iss t tok = (if cl_Issuer ?c = iss \<and> cl_NotBefore ?c * second \<le> t \<and> t < cl_ExpiresAt ?c * second then Some ?c else None)"
    for iss t using law s(1) unfolding jwt_law_def by blast+
  have "tok \<noteq> []" "\<not> HasPrefix tok ''sk_''" using t(1) by (cases tok; auto simp: HasPrefix_def)+
  note b = bearer_token [OF this(1) t(2)]
  have auth: "EitherAuthForEnvironment lib e2 secret gatewayEnv (''Bearer '' @ tok) cx d2 =
         (let t = clock e2 ''ParseSessionToken.now'' [] in
          if (?now div second) * second \<le> t \<and> t < ((?now + ?ttl) div second) * second
          then Inr (cx\<lparr>cx_TenantID := us_TenantID user, cx_UserID := us_ID user, cx_Role := us_Role user\<rparr>)
          else Inl (unauthorized ''invalid session token''), d2)" for e2 gatewayEnv cx d2
    unfolding EitherAuthForEnvironment_def SessionAuth_def b option.case ParseSessionToken_def t(3)
    using \<open>\<not> HasPrefix tok ''sk_''\<close> by (simp add: session_claims_def Let_def)
  show ?thesis using 1(1-3) s(2) auth unfolding 1(5) by blast
qed

lemma demo_jwt_law: "jwt_law demo_jwt"
  by (auto simp: jwt_law_def demo_jwt_def HasPrefix_def is_space_def)

definition demo_login :: LoginRequest where
  "demo_login = \<lparr> lr_Email = ''a@acme.io'', lr_Password = ''correct horse'' \<rparr>"

definition demo_user :: "string \<Rightarrow> User" where
  "demo_user h = \<lparr> us_ID = ''Signup.u'', us_TenantID = ''Signup.tn'', us_Email = ''a@acme.io'', us_PasswordHash = h, us_Role = ''owner'',
     us_EmailVerified = False, us_LastLoginAt = None, us_CreatedAt = 0, us_UpdatedAt = 0 \<rparr>"

lemma demo_login_200:
  assumes "VerifyPassword demo_argon2 h ''correct horse'' = Match"
  shows "\<exists>v d'. Auth_Login demo_lib (NewAuth (replicate 32 CHR ''s'') hour) (calm_env 0) (Some demo_login) (empty_db\<lparr>users := [demo_user h]\<rparr>) = (Reply 200 v, d')"
proof -
  have em: "ToLower (TrimSpace ''a@acme.io'') = ''a@acme.io''" by code_simp
  have tok: "NewSessionToken demo_jwt 0 (replicate 32 CHR ''s'') ''Signup.u'' ''Signup.tn'' ''owner'' hour = Inr ''eyJ.demo''"
    by (simp add: NewSessionToken_def demo_jwt_def demo_claims_def duration_defs)
  show ?thesis using assms tok
    by (simp add: Auth_Login_def em demo_lib_def NewAuth_def calm_env_def GetUserByEmail_def demo_user_def demo_login_def Let_def duration_defs)
qed

theorem login_token_authenticates_until_it_expires_witness:
  "\<exists>v d' tok h. Auth_Login demo_lib (NewAuth (replicate 32 CHR ''s'') hour) (calm_env 0) (Some demo_login) (empty_db\<lparr>users := [demo_user h]\<rparr>) = (Reply 200 v, d')
     \<and> fst (EitherAuthForEnvironment demo_lib (calm_env minute) (replicate 32 CHR ''s'') [] (''Bearer '' @ tok) demo_account_ctx d')
         = Inr (demo_account_ctx\<lparr>cx_TenantID := ''Signup.tn'', cx_UserID := ''Signup.u'', cx_Role := ''owner''\<rparr>)
     \<and> fst (EitherAuthForEnvironment demo_lib (calm_env hour) (replicate 32 CHR ''s'') [] (''Bearer '' @ tok) demo_account_ctx d')
         = Inl (unauthorized ''invalid session token'')"
proof -
  have l: "\<forall>p s. length (demo_argon2 p s 3 65536 2 32) = 32" by (simp add: demo_argon2_def del: take_append)
  obtain h where h: "HashPassword demo_argon2 (rand_bytes (calm_env 0) ''x'' []) ''correct horse'' = Inr h"
    by (simp add: HashPassword_def calm_env_def Let_def)
  then have "VerifyPassword demo_argon2 h ''correct horse'' = Match"
    using HashPassword_Inr [OF h] l by (auto simp: VerifyPassword_own simp del: append.simps)
  from demo_login_200 [OF this] obtain v d' where
    run: "Auth_Login demo_lib (NewAuth (replicate 32 CHR ''s'') hour) (calm_env 0) (Some demo_login) (empty_db\<lparr>users := [demo_user h]\<rparr>) = (Reply 200 v, d')"
    by blast
  have "jwt_law (al_jwt demo_lib)" using demo_jwt_law by (simp add: demo_lib_def)
  from login_token_authenticates_until_it_expires [OF run this] obtain user tok now where
    u: "user \<in> set (users (empty_db\<lparr>users := [demo_user h]\<rparr>))" and n: "now = clock (calm_env 0) ''NewSessionToken.now'' []"
    and auth: "\<forall>e2 gatewayEnv cx d2. EitherAuthForEnvironment demo_lib e2 (replicate 32 CHR ''s'') gatewayEnv (''Bearer '' @ tok) cx d2 =
         (let t = clock e2 ''ParseSessionToken.now'' [] in
          if (now div second) * second \<le> t \<and> t < ((now + ah_sessionTTL (NewAuth (replicate 32 CHR ''s'') hour)) div second) * second
          then Inr (cx\<lparr>cx_TenantID := us_TenantID user, cx_UserID := us_ID user, cx_Role := us_Role user\<rparr>)
          else Inl (unauthorized ''invalid session token''), d2)" by blast
  have z: "user = demo_user h" "now = 0" "ah_sessionTTL (NewAuth (replicate 32 CHR ''s'') hour) = hour"
    "clock (calm_env t) ''ParseSessionToken.now'' [] = t" for t using u n by (simp_all add: calm_env_def NewAuth_def duration_defs)
  from auth [rule_format, of "calm_env minute" "[]" demo_account_ctx d'] auth [rule_format, of "calm_env hour" "[]" demo_account_ctx d'] run show ?thesis
    unfolding z by (intro exI [of _ v] exI [of _ d'] exI [of _ tok] exI [of _ h]) (simp add: demo_user_def duration_defs Let_def)
qed

section \<open>The rate limit\<close>

text \<open>The requests of one window: every one is answered with the counter of the same key.\<close>

fun rate_run :: "'r redis_ops \<Rightarrow> RateLimitConfig \<Rightarrow> (env \<times> request_ctx) list \<Rightarrow> 'r \<Rightarrow> (response option \<times> rate_headers option) list \<times> 'r" where
  "rate_run rd cfg [] r = ([], r)"
| "rate_run rd cfg ((e, cx) # reqs) r =
     (case RateLimit (Some rd) cfg e cx r of
        (resp, hdr, r1) \<Rightarrow> (case rate_run rd cfg reqs r1 of (outs, r2) \<Rightarrow> ((resp, hdr) # outs, r2)))"

definition in_window :: "RateLimitConfig \<Rightarrow> string \<Rightarrow> env \<times> request_ctx \<Rightarrow> bool" where
  "in_window cfg k q \<longleftrightarrow> cx_TenantID (snd q) \<noteq> []
     \<and> currentWindowKey (rate_prefix_of cfg) (cx_TenantID (snd q)) (clock (fst q) ''RateLimit.window'' []) = k"

definition counted_pass :: "response option \<times> rate_headers option \<Rightarrow> bool" where
  "counted_pass out \<longleftrightarrow> fst out = None \<and> snd out \<noteq> None"

context redis_counter
begin

lemma RateLimit_step:
  assumes "in_window cfg k (e, cx)" "RateLimit (Some rd) cfg e cx r = (resp, hdr, r1)"
  shows "val r k \<le> val r1 k" "counted_pass (resp, hdr) \<Longrightarrow> val r1 k = val r k + 1 \<and> val r1 k \<le> rate_limit_of cfg"
    "resp \<noteq> None \<Longrightarrow> rate_limit_of cfg \<le> val r k \<and> resp_status (the resp) = Some 429"
  using assms incr_ok incr_err
  by (fastforce simp: RateLimit_def in_window_def counted_pass_def Let_def split: sum.splits prod.splits if_splits)+

lemma rate_run_bound:
  assumes "\<forall>q \<in> set reqs. in_window cfg k q" "outs = fst (rate_run rd cfg reqs r)"
  shows "int (length (List.filter counted_pass outs)) \<le> max 0 (rate_limit_of cfg - val r k)"
  using assms
proof (induction reqs arbitrary: r outs)
  case (Cons q reqs)
  obtain e cx where q: "q = (e, cx)" by force
  obtain resp hdr r1 where s: "RateLimit (Some rd) cfg e cx r = (resp, hdr, r1)" using prod_cases3 by blast
  obtain outs1 r2 where t: "rate_run rd cfg reqs r1 = (outs1, r2)" by force
  have o: "outs = (resp, hdr) # outs1" using Cons.prems(2) q s t by simp
  have w: "in_window cfg k (e, cx)" using Cons.prems(1) q by simp
  have "int (length (List.filter counted_pass outs1)) \<le> max 0 (rate_limit_of cfg - val r1 k)" using Cons.IH [of outs1 r1] t Cons.prems(1)
    by simp
  then show ?case using RateLimit_step(1,2) [OF w s] by (auto simp: o)
qed auto

end

text \<open>
  C27: within one minute window a tenant gets no more counted requests through than the limit leaves.
  However many requests arrive and whichever Redis commands fail, the requests that pass with a
  counter are at most the limit less what the window has already used; a request is refused with
  429 only when the window is used up, and every request that is not counted is one whose Redis
  command failed.
\<close>

theorem rate_limit_bounds_what_passes:
  assumes rc: "redis_counter rd val" and w: "\<forall>q \<in> set reqs. in_window cfg k q" and run: "rate_run rd cfg reqs r = (outs, r')"
  shows "length (List.filter counted_pass outs) \<le> nat (rate_limit_of cfg - val r k)
    \<and> (\<forall>e cx r0 resp hdr r1. in_window cfg k (e, cx) \<longrightarrow> RateLimit (Some rd) cfg e cx r0 = (Some resp, hdr, r1) \<longrightarrow>
          rate_limit_of cfg \<le> val r0 k \<and> resp_status resp = Some 429)
    \<and> (\<forall>e cx r0 r1. in_window cfg k (e, cx) \<longrightarrow> RateLimit (Some rd) cfg e cx r0 = (None, None, r1) \<longrightarrow>
          (\<exists>err t. IncrExpire rd k 1 t r0 = (Inl err, r1)))"
proof (intro conjI allI impI)
  show "length (List.filter counted_pass outs) \<le> nat (rate_limit_of cfg - val r k)"
    using redis_counter.rate_run_bound [OF rc w, of outs r] run by simp
next
  fix e cx r0 resp hdr r1
  assume a: "in_window cfg k (e, cx)" "RateLimit (Some rd) cfg e cx r0 = (Some resp, hdr, r1)"
  then show "rate_limit_of cfg \<le> val r0 k" "resp_status resp = Some 429"
    using redis_counter.RateLimit_step(3) [OF rc a] by auto
next
  fix e cx r0 r1
  assume "in_window cfg k (e, cx)" "RateLimit (Some rd) cfg e cx r0 = (None, None, r1)"
  then show "\<exists>err t. IncrExpire rd k 1 t r0 = (Inl err, r1)"
    by (auto simp: RateLimit_def in_window_def Let_def split: sum.splits prod.splits if_splits)
qed

definition demo_rate :: RateLimitConfig where
  "demo_rate = \<lparr> rl_RequestsPerMinute = 2, rl_KeyPrefix = [] \<rparr>"

theorem rate_limit_bounds_what_passes_witness:
  "length (List.filter counted_pass (fst (rate_run mem_redis demo_rate (replicate 5 (calm_env 0, demo_account_ctx)) (\<lambda>_. 0)))) = 2
   \<and> length (List.filter counted_pass (fst (rate_run mem_redis demo_rate (replicate 5 (calm_env 0, demo_account_ctx)) (\<lambda>_. 0)))) \<le> nat (rate_limit_of demo_rate - 0)"
proof -
  let ?k = "currentWindowKey ''rl'' ''tn'' 0"
  have w: "\<forall>q \<in> set (replicate 5 (calm_env 0, demo_account_ctx)). in_window demo_rate ?k q"
    by (simp add: in_window_def demo_account_ctx_def calm_env_def rate_prefix_of_def demo_rate_def)
  obtain outs r' where run: "rate_run mem_redis demo_rate (replicate 5 (calm_env 0, demo_account_ctx)) (\<lambda>_. 0) = (outs, r')" by force
  have "length (List.filter counted_pass (fst (rate_run mem_redis demo_rate (replicate 5 (calm_env 0, demo_account_ctx)) (\<lambda>_. 0)))) = 2"
    by (simp add: numeral_eq_Suc RateLimit_def demo_rate_def rate_limit_of_def mem_redis_def counted_pass_def demo_account_ctx_def calm_env_def Let_def)
  with rate_limit_bounds_what_passes [OF mem.redis_counter_axioms w run] show ?thesis by (simp add: run)
qed

section \<open>The invariants of the store\<close>

lemma GetAPIKeyByHash_D: "GetAPIKeyByHash h d = Inr k \<Longrightarrow> k \<in> set (api_keys d) \<and> ak_KeyHash k = h \<and> ak_RevokedAt k = None"
  by (auto simp: GetAPIKeyByHash_def dest: select_one_D)

context tenant_store
begin

lemma APIKeyAuth_keep:
  assumes "APIKeyAuthForEnvironment lib e gw hdr cx d = (res, d')" "\<And>cx'. res = Inr cx' \<Longrightarrow> P (cx_TenantID cx') d" "P t d"
  shows "case res of Inl _ \<Rightarrow> d' = d | Inr cx' \<Rightarrow> P (cx_TenantID cx') d'"
  using assms
  by (auto simp: APIKeyAuthForEnvironment_def db_read_Inr dest!: GetAPIKeyByHash_D intro: keep_TouchAPIKeyUsage
      split: option.splits parsed_key.splits sum.splits if_splits)

lemma EitherAuth_keep:
  assumes "EitherAuthForEnvironment lib e key gw hdr cx d = (Inr cx', d')" "P (cx_TenantID cx') d"
  shows "P (cx_TenantID cx') d'"
  using assms APIKeyAuth_keep [of lib e gw hdr cx d "Inr cx'" d']
  by (auto simp: EitherAuthForEnvironment_def split: option.splits if_splits)

lemma Auth_Signup_keep:
  assumes "P t d" "fresh_id e ''Signup.tn'' [] = t"
  shows "P t (snd (Auth_Signup lib e body d))"
proof -
  obtain r d' where run: "Auth_Signup lib e body d = (r, d')" by force
  from run have "P t d'"
  proof (cases rule: Auth_Signup_cases)
    case (created req pwHash testRaw testPrefix testHash liveRaw livePrefix liveHash tn u tk lk)
    show ?thesis by (rule signup_rows_keep [OF assms(1) created(3) assms(2)])
  qed (simp add: assms(1))
  then show ?thesis by (simp add: run)
qed

lemma Auth_Login_keep:
  assumes "P t d" "\<forall>req. body = Some req \<longrightarrow> (\<forall>user us. GetUserByEmail (ToLower (TrimSpace (lr_Email req))) d = user # us \<longrightarrow> us_TenantID user = t)"
  shows "P t (snd (Auth_Login lib h e body d))"
proof -
  have u: "user \<in> set (users d)" if "GetUserByEmail em d = user # us" for em user us
  proof -
    have "user \<in> set (GetUserByEmail em d)" using that by simp
    then show ?thesis by (auto simp: GetUserByEmail_def)
  qed
  show ?thesis using assms
    by (auto simp: Auth_Login_def Let_def db_read_Inr dest: u intro: keep_TouchUserLogin
        split: option.split sum.split list.split verdict.split)
qed

lemma Auth_CreateAPIKey_keep: "P (cx_TenantID cx) d \<Longrightarrow> P (cx_TenantID cx) (snd (Auth_CreateAPIKey lib e cx body d))"
proof -
  assume p: "P (cx_TenantID cx) d"
  have w: "P (cx_TenantID cx) d1" if "db_write f d (CreateAPIKey now (api_key_row i (cx_TenantID cx) cb nm env pre h) d) = (x, d1)" for f now i cb nm env pre h x d1
    using that p by (rule keep_write) (intro keep_CreateAPIKey p api_key_row_tenant)
  show ?thesis unfolding Auth_CreateAPIKey_def using p
    by (auto dest: w split: option.split sum.split prod.split simp del: append.simps)
qed

lemma Auth_RevokeAPIKey_keep: "P (cx_TenantID cx) d \<Longrightarrow> P (cx_TenantID cx) (snd (Auth_RevokeAPIKey e cx reason d))"
proof -
  assume p: "P (cx_TenantID cx) d"
  have w: "P (cx_TenantID cx) d1"
    if "db_write f d (RevokeAPIKey now i r d) = (x, d1)" "GetAPIKeyByID i d = Inr k" "ak_TenantID k = cx_TenantID cx" for f now i r x d1 k
    using that(1) p by (rule keep_write) (use that(2,3) in \<open>auto simp: GetAPIKeyByID_def dest!: select_one_D intro!: keep_RevokeAPIKey [OF p]\<close>)
  show ?thesis unfolding Auth_RevokeAPIKey_def Let_def using p
    by (auto simp: db_read_Inr intro: w split: option.split sum.split prod.split)
qed

end

end
