(* ===== verification/Limits_Handlers.thy ===== *)
theory Limits_Handlers
  imports Go_Encoding
begin

text \<open>
  \<open>handlers/limits.go\<close>: reading and replacing the tenant-wide spending policy, and the list of
  refused transfers. The text that PostgreSQL returns for a JSONB column is an argument
  (\<open>jsonb_text\<close>); the caps of a policy are read with the driver's \<open>MarshalJSON\<close>.
\<close>

section \<open>Views\<close>

record PolicyView =
  pw_ID :: string
  pw_ScopeType :: string
  pw_Tier :: string
  pw_PerTxAmount :: string
  pw_DailyAmount :: string
  pw_WeeklyAmount :: string
  pw_MonthlyAmount :: string
  pw_PeriodAsset :: string
  pw_Timezone :: string
  pw_Enabled :: bool
  pw_CreatedAt :: string

record ViolationView =
  xv_ID :: int
  xv_Type :: string
  xv_PolicyID :: string
  xv_WalletID :: string
  xv_SessionKeyID :: string
  xv_TransactionID :: string
  xv_AttemptedAmount :: string
  xv_AttemptedAsset :: string
  xv_AttemptedRecipient :: string
  xv_CreatedAt :: string

definition policy_view_json :: "PolicyView \<Rightarrow> json" where
  "policy_view_json v = JObj
     ([(''id'', JStr (pw_ID v)), (''scope_type'', JStr (pw_ScopeType v))] @ opt_str ''tier'' (pw_Tier v)
      @ opt_str ''per_tx_amount'' (pw_PerTxAmount v) @ opt_str ''daily_amount'' (pw_DailyAmount v)
      @ opt_str ''weekly_amount'' (pw_WeeklyAmount v) @ opt_str ''monthly_amount'' (pw_MonthlyAmount v)
      @ [(''period_asset'', JStr (pw_PeriodAsset v)), (''timezone'', JStr (pw_Timezone v)), (''enabled'', JBool (pw_Enabled v))]
      @ opt_str ''created_at'' (pw_CreatedAt v))"

definition violation_view_json :: "ViolationView \<Rightarrow> json" where
  "violation_view_json v = JObj
     ([(''id'', JNum (int_to_dec (xv_ID v))), (''type'', JStr (xv_Type v))] @ opt_str ''policy_id'' (xv_PolicyID v)
      @ opt_str ''wallet_id'' (xv_WalletID v) @ opt_str ''session_key_id'' (xv_SessionKeyID v)
      @ opt_str ''transaction_id'' (xv_TransactionID v) @ opt_str ''attempted_amount'' (xv_AttemptedAmount v)
      @ opt_str ''attempted_asset'' (xv_AttemptedAsset v) @ opt_str ''attempted_recipient'' (xv_AttemptedRecipient v)
      @ opt_str ''created_at'' (xv_CreatedAt v))"

text \<open>\<open>MarshalJSON\<close> of a NULL numeric is \<open>null\<close>.\<close>

definition numericString :: "env \<Rightarrow> numeric option \<Rightarrow> string" where
  "numericString e n =
     (case n of
        None \<Rightarrow> []
      | Some x \<Rightarrow>
          (case MarshalJSON e x of
             None \<Rightarrow> []
           | Some s \<Rightarrow> if s = ''null'' then [] else strip_quotes s))"

definition tier_key :: string where
  "tier_key = [CHR 34] @ ''tier'' @ [CHR 34] @ '':'' @ [CHR 34]"

definition extractMetadataTier :: "string \<Rightarrow> string" where
  "extractMetadataTier raw =
     (case split_at tier_key raw of
        None \<Rightarrow> []
      | Some (_, rest) \<Rightarrow> (case split_at [CHR 34] rest of None \<Rightarrow> [] | Some (tier, _) \<Rightarrow> tier))"

definition toPolicyView :: "(jsonb \<Rightarrow> string) \<Rightarrow> env \<Rightarrow> LimitPolicy \<Rightarrow> PolicyView" where
  "toPolicyView jsonb_text e p =
     \<lparr> pw_ID = lp_ID p, pw_ScopeType = lp_ScopeType p, pw_Tier = extractMetadataTier (jsonb_text (lp_Metadata p)),
       pw_PerTxAmount = numericString e (lp_PerTxAmount p), pw_DailyAmount = numericString e (lp_DailyAmount p),
       pw_WeeklyAmount = numericString e (lp_WeeklyAmount p), pw_MonthlyAmount = numericString e (lp_MonthlyAmount p),
       pw_PeriodAsset = lp_PeriodAsset p, pw_Timezone = lp_Timezone p, pw_Enabled = lp_Enabled p,
       pw_CreatedAt = Format_RFC3339_UTC (lp_CreatedAt p) \<rparr>"

definition toViolationView :: "env \<Rightarrow> LimitViolation \<Rightarrow> ViolationView" where
  "toViolationView e v =
     \<lparr> xv_ID = lv_ID v, xv_Type = lv_ViolationType v, xv_PolicyID = text_String (lv_PolicyID v),
       xv_WalletID = text_String (lv_WalletID v), xv_SessionKeyID = text_String (lv_SessionKeyID v),
       xv_TransactionID = text_String (lv_TransactionID v), xv_AttemptedAmount = numericString e (lv_AttemptedAmount v),
       xv_AttemptedAsset = text_String (lv_AttemptedAsset v), xv_AttemptedRecipient = text_String (lv_AttemptedRecipient v),
       xv_CreatedAt = Format_RFC3339_UTC (lv_CreatedAt v) \<rparr>"

section \<open>GET /v1/tenants/me/limits\<close>

definition Limits_GetTenantLimits :: "(jsonb \<Rightarrow> string) \<Rightarrow> env \<Rightarrow> request_ctx \<Rightarrow> db \<Rightarrow> response" where
  "Limits_GetTenantLimits jsonb_text e cx d =
     (if cx_TenantID cx = [] then badRequest ''missing tenant context''
      else (case db_read (fault e ''GetTenantLimits.GetTenantDefaultPolicy'' []) (GetTenantDefaultPolicy (cx_TenantID cx) d) of
              Inl _ \<Rightarrow> notFound ''no tenant_default policy set''
            | Inr pol \<Rightarrow> Reply 200 (policy_view_json (toPolicyView jsonb_text e pol))))"

section \<open>PUT /v1/tenants/me/limits\<close>

record UpdateTenantLimitsRequest =
  ul_Tier :: string
  ul_PerTxAmount :: string
  ul_DailyAmount :: string
  ul_WeeklyAmount :: string
  ul_MonthlyAmount :: string

record capQuad =
  cq_perTx :: "numeric option"
  cq_daily :: "numeric option"
  cq_weekly :: "numeric option"
  cq_monthly :: "numeric option"

definition capsFromTier :: "Tier \<Rightarrow> capQuad" where
  "capsFromTier t =
     \<lparr> cq_perTx = ToNumeric (tier_PerTxUSD t), cq_daily = ToNumeric (tier_DailyUSD t),
       cq_weekly = ToNumeric (tier_WeeklyUSD t), cq_monthly = ToNumeric (tier_MonthlyUSD t) \<rparr>"

text \<open>\<open>Sscanf\<close> does not look at what follows the number.\<close>

definition parseDecimalUSD :: "string \<Rightarrow> string + int" where
  "parseDecimalUSD s =
     (case scan_int s of
        None \<Rightarrow> Inl ''must be a non-negative integer USD amount''
      | Some (whole, _) \<Rightarrow>
          if whole < 0 then Inl ''must be a non-negative integer USD amount''
          else if 10000000 < whole then Inl ''amount too large; contact support for higher caps''
          else Inr whole)"

definition capsFromStrings :: "UpdateTenantLimitsRequest \<Rightarrow> string + capQuad" where
  "capsFromStrings req =
     (case parseDecimalUSD (ul_PerTxAmount req) of Inl m \<Rightarrow> Inl (''per_tx_amount: '' @ m)
      | Inr perTx \<Rightarrow>
     (case parseDecimalUSD (ul_DailyAmount req) of Inl m \<Rightarrow> Inl (''daily_amount: '' @ m)
      | Inr daily \<Rightarrow>
     (case parseDecimalUSD (ul_WeeklyAmount req) of Inl m \<Rightarrow> Inl (''weekly_amount: '' @ m)
      | Inr weekly \<Rightarrow>
     (case parseDecimalUSD (ul_MonthlyAmount req) of Inl m \<Rightarrow> Inl (''monthly_amount: '' @ m)
      | Inr monthly \<Rightarrow> Inr \<lparr> cq_perTx = ToNumeric perTx, cq_daily = ToNumeric daily, cq_weekly = ToNumeric weekly,
                             cq_monthly = ToNumeric monthly \<rparr>))))"

definition resolveLimitsUpdate :: "UpdateTenantLimitsRequest \<Rightarrow> string + Tier option \<times> capQuad" where
  "resolveLimitsUpdate req =
     (let hasTier = (ul_Tier req \<noteq> []);
          hasCustom = (ul_PerTxAmount req \<noteq> [] \<or> ul_DailyAmount req \<noteq> [] \<or> ul_WeeklyAmount req \<noteq> [] \<or> ul_MonthlyAmount req \<noteq> []);
          preset = (\<lambda>t. Inr (Some t, capsFromTier t)) in
      if hasTier \<and> hasCustom then Inl ''specify either tier or explicit caps, not both''
      else if \<not> hasTier \<and> \<not> hasCustom then Inl ''specify either tier or all four explicit caps''
      else if hasTier then
        (if ul_Tier req = ''conservative'' then preset TierConservative
         else if ul_Tier req = ''standard'' then preset TierStandard
         else if ul_Tier req = ''aggressive'' then preset TierAggressive
         else Inl (''unknown tier '' @ go_quote (ul_Tier req) @ '' (must be conservative|standard|aggressive)''))
      else if ul_PerTxAmount req = [] \<or> ul_DailyAmount req = [] \<or> ul_WeeklyAmount req = [] \<or> ul_MonthlyAmount req = [] then
        Inl ''custom caps require per_tx, daily, weekly, and monthly all present''
      else (case capsFromStrings req of Inl m \<Rightarrow> Inl m | Inr caps \<Rightarrow> Inr (None, caps)))"

definition tenant_policy_row :: "env \<Rightarrow> string \<Rightarrow> string \<Rightarrow> capQuad \<Rightarrow> LimitPolicy" where
  "tenant_policy_row e tenantID tierName caps =
     \<lparr> lp_ID = fresh_id e ''UpdateTenantLimits.lp'' [], lp_TenantID = tenantID, lp_ScopeType = ''tenant_default'',
       lp_ScopeID = pgxText [], lp_PerTxAmount = cq_perTx caps, lp_PerTxAsset = pgxText ''USDC'', lp_DailyAmount = cq_daily caps,
       lp_WeeklyAmount = cq_weekly caps, lp_MonthlyAmount = cq_monthly caps, lp_PeriodAsset = ''USDC'', lp_Timezone = ''UTC'',
       lp_ResetDayOfWeek = 1, lp_ResetDayOfMonth = 1, lp_AllowedRecipients = empty_array, lp_DeniedRecipients = empty_array,
       lp_ExpiresAt = None, lp_Enabled = True, lp_Metadata = JVal (JObj [(''tier'', JStr tierName)]),
       lp_CreatedAt = 0, lp_UpdatedAt = 0 \<rparr>"

text \<open>Inside the transaction: the old default is disabled when there is one.\<close>

definition disable_default :: "env \<Rightarrow> string \<Rightarrow> db \<Rightarrow> unit query_result \<times> db" where
  "disable_default e tenantID d =
     (case db_read (fault e ''UpdateTenantLimits.GetTenantDefaultPolicy'' []) (GetTenantDefaultPolicy tenantID d) of
        Inl _ \<Rightarrow> (Inr (), d)
      | Inr existing \<Rightarrow>
          (case db_write (fault e ''UpdateTenantLimits.DisableLimitPolicy'' []) d
                  (DisableLimitPolicy (clock e ''UpdateTenantLimits.sqlnow'' []) (lp_ID existing) d) of
             (Inl err, d1) \<Rightarrow> (Inl err, d1)
           | (Inr _, d1) \<Rightarrow> (Inr (), d1)))"

definition replace_policy :: "env \<Rightarrow> string \<Rightarrow> string \<Rightarrow> capQuad \<Rightarrow> db \<Rightarrow> LimitPolicy query_result \<times> db" where
  "replace_policy e tenantID tierName caps d =
     (case fault e ''UpdateTenantLimits.Begin'' [] of
        Some err \<Rightarrow> (Inl err, d)
      | None \<Rightarrow>
          (case disable_default e tenantID d of
             (Inl err, _) \<Rightarrow> (Inl err, d)
           | (Inr _, d1) \<Rightarrow>
               (case db_write (fault e ''UpdateTenantLimits.CreateLimitPolicy'' []) d1
                       (CreateLimitPolicy (pg e) (clock e ''UpdateTenantLimits.sqlnow'' []) (tenant_policy_row e tenantID tierName caps) d1) of
                  (Inl err, _) \<Rightarrow> (Inl err, d)
                | (Inr pol, d2) \<Rightarrow>
                    (case fault e ''UpdateTenantLimits.Commit'' [] of
                       Some err \<Rightarrow> (Inl err, d)
                     | None \<Rightarrow> (Inr pol, d2)))))"

definition Limits_UpdateTenantLimits ::
    "(jsonb \<Rightarrow> string) \<Rightarrow> env \<Rightarrow> request_ctx \<Rightarrow> UpdateTenantLimitsRequest option \<Rightarrow> db \<Rightarrow> response \<times> db" where
  "Limits_UpdateTenantLimits jsonb_text e cx body d =
     (if cx_TenantID cx = [] then (badRequest ''missing tenant context'', d)
      else if \<not> may_manage cx then (Reply 403 (error_body ''your role cannot change tenant limits''), d)
      else
        (case body of
           None \<Rightarrow> (badRequest ''invalid JSON body'', d)
         | Some req \<Rightarrow>
             (case resolveLimitsUpdate req of
                Inl msg \<Rightarrow> (badRequest msg, d)
              | Inr (tier, caps) \<Rightarrow>
                  (case replace_policy e (cx_TenantID cx) (case tier of None \<Rightarrow> ''custom'' | Some t \<Rightarrow> tier_Name t) caps d of
                     (Inl _, d1) \<Rightarrow> (internalError, d1)
                   | (Inr pol, d1) \<Rightarrow> (Reply 200 (policy_view_json (toPolicyView jsonb_text e pol)), d1)))))"

section \<open>GET /v1/tenants/me/limits/violations\<close>

definition Limits_ListViolations :: "env \<Rightarrow> request_ctx \<Rightarrow> db \<Rightarrow> response" where
  "Limits_ListViolations e cx d =
     (if cx_TenantID cx = [] then badRequest ''missing tenant context''
      else
        (case db_read (fault e ''ListViolations.ListLimitViolationsByTenant'' [])
                (paged (page_bounds cx) (\<lambda>l off. ListLimitViolationsByTenant (cx_TenantID cx) l off d)) of
           Inl _ \<Rightarrow> internalError
         | Inr rows \<Rightarrow> Reply 200 (JObj [(''data'', JArr (map (\<lambda>r. violation_view_json (toViolationView e r)) rows))])))"

end
