(* ===== verification/Limits_Handlers_Spec.thy ===== *)
theory Limits_Handlers_Spec
  imports Limits_Handlers Tenant_Services Session_Keys_Spec
begin

text \<open>
  The limits routes: an update replaces the tenant's default policy in one step, and every route keeps
  the invariants of the store.
\<close>

section \<open>Replacing the default policy\<close>

lemma default_unique:
  assumes "db_wf d" "p \<in> set (limit_policies d)" "is_tenant_default t p" "q \<in> set (limit_policies d)" "is_tenant_default t q"
  shows "p = q"
proof -
  have u: "pk_unique lp_TenantID (filter (\<lambda>p. is_tenant_default (lp_TenantID p) p) (limit_policies d))"
    using assms(1) by (simp add: db_wf_def secondary_keys_def)
  show ?thesis by (rule pk_unique_same [OF u]) (use assms(2-5) in \<open>auto simp: is_tenant_default_def\<close>)
qed

lemma GetTenantDefaultPolicy_iff:
  assumes "db_wf d"
  shows "GetTenantDefaultPolicy t d = Inr p \<longleftrightarrow> p \<in> set (limit_policies d) \<and> is_tenant_default t p"
proof
  assume "p \<in> set (limit_policies d) \<and> is_tenant_default t p"
  then have "List.find (is_tenant_default t) (limit_policies d) \<noteq> None" by (auto simp: find_None_iff)
  then obtain q where q: "List.find (is_tenant_default t) (limit_policies d) = Some q" by blast
  have "q \<in> set (limit_policies d)" "is_tenant_default t q" using find_Some_D [OF q] by simp_all
  with q show "GetTenantDefaultPolicy t d = Inr p"
    using default_unique [OF assms, of q t p] \<open>p \<in> _ \<and> _\<close> by (simp add: GetTenantDefaultPolicy_def select_one_Inr)
qed (auto simp: GetTenantDefaultPolicy_def dest: select_one_D)

definition without_default :: "time \<Rightarrow> string \<Rightarrow> LimitPolicy list \<Rightarrow> LimitPolicy list" where
  "without_default now t ps = upd_where (is_tenant_default t) (disable_policy now) ps"

lemma disabled_is_no_default [simp]: "\<not> is_tenant_default t (disable_policy now p)"
  by (simp add: is_tenant_default_def disable_policy_def)

lemma without_default_none: "\<forall>p \<in> set (without_default now t ps). \<not> is_tenant_default t p"
  unfolding without_default_def upd_where_def by (auto simp del: is_tenant_default_def)

lemma upd_where_id: "\<forall>r \<in> set rs. \<not> p r \<Longrightarrow> upd_where p f rs = rs"
  by (simp add: upd_where_def map_idI)

lemma upd_where_cong_on: "\<forall>r \<in> set rs. p r = q r \<Longrightarrow> upd_where p f rs = upd_where q f rs"
  by (simp add: upd_where_def)

lemma disable_default_Inr:
  assumes wf: "db_wf d" and run: "disable_default e t d = (Inr u, d1)"
  shows "d1 = d \<or> d1 = d\<lparr>limit_policies := without_default (clock e ''UpdateTenantLimits.sqlnow'' []) t (limit_policies d)\<rparr>"
proof (cases "fault e ''UpdateTenantLimits.GetTenantDefaultPolicy'' [] = None \<and> (\<exists>p. GetTenantDefaultPolicy t d = Inr p)")
  case True
  then obtain p where p: "GetTenantDefaultPolicy t d = Inr p" by blast
  have m: "p \<in> set (limit_policies d)" "is_tenant_default t p" using p GetTenantDefaultPolicy_iff [OF wf] by auto
  have pk: "pk_unique lp_ID (limit_policies d)" using wf by (simp add: db_wf_def tables_ok_def wf_table_def)
  have "(lp_ID r = lp_ID p) = is_tenant_default t r" if "r \<in> set (limit_policies d)" for r
    using that m pk_unique_same [OF pk] default_unique [OF wf _ _ m(1)] by blast
  then have "upd_where (\<lambda>r. lp_ID r = lp_ID p) (disable_policy now) (limit_policies d) = without_default now t (limit_policies d)" for now
    unfolding without_default_def by (intro upd_where_cong_on) blast
  then show ?thesis using run True p
    by (auto simp: disable_default_def db_write_def DisableLimitPolicy_def update_one_def split: sum.splits prod.splits option.splits if_splits)
next
  case False
  then show ?thesis using run by (auto simp: disable_default_def db_read_def split: sum.splits option.splits)
qed

lemma replace_policy_Inr:
  assumes wf: "db_wf d" and run: "replace_policy e t tierName caps d = (Inr pol, d')"
  shows "stored_policy (pg e) (clock e ''UpdateTenantLimits.sqlnow'' []) (tenant_policy_row e t tierName caps) pol
    \<and> d' = d\<lparr>limit_policies := without_default (clock e ''UpdateTenantLimits.sqlnow'' []) t (limit_policies d) @ [pol]\<rparr>"
proof -
  let ?now = "clock e ''UpdateTenantLimits.sqlnow'' []"
  obtain u d1 where a: "disable_default e t d = (Inr u, d1)"
    and b: "CreateLimitPolicy (pg e) ?now (tenant_policy_row e t tierName caps) d1 = (Inr pol, d')"
    using run by (auto simp: replace_policy_def db_write_def split: option.splits sum.splits prod.splits)
  have none: "\<forall>p \<in> set (limit_policies d1). \<not> is_tenant_default t p"
    using b by (auto simp: CreateLimitPolicy_def tenant_policy_row_def is_tenant_default_def list_ex_iff Let_def split: option.splits if_splits)
  have "d1 = d\<lparr>limit_policies := without_default ?now t (limit_policies d)\<rparr>"
    using disable_default_Inr [OF wf a]
  proof
    assume "d1 = d"
    then have "without_default ?now t (limit_policies d) = limit_policies d"
      using none by (simp add: without_default_def upd_where_id)
    then show ?thesis using \<open>d1 = d\<close> by simp
  qed
  then show ?thesis using CreateLimitPolicy_Inr [OF b] by simp
qed

lemma replace_policy_Inl: "replace_policy e t tierName caps d = (Inl err, d') \<Longrightarrow> d' = d"
  by (auto simp: replace_policy_def split: option.splits sum.splits prod.splits)

text \<open>
  C28: \<open>PUT /v1/tenants/me/limits\<close> replaces the tenant's default policy or changes nothing. An answer of
  200 comes from an owner, an admin or an API key; the old default is disabled, the new policy with
  the caps asked for is the one default the tenant has from now on, and it is the policy that
  \<open>GET\<close> answers and the limits engine falls back to. Any other answer leaves the database as
  it was.
\<close>

theorem UpdateTenantLimits_replaces_the_default:
  assumes run: "Limits_UpdateTenantLimits jsonb_text e cx body d = (r, d')" and wf: "db_wf d"
  shows "if resp_status r = Some 200
    then (\<exists>req tier caps pol. body = Some req \<and> may_manage cx \<and> resolveLimitsUpdate req = Inr (tier, caps)
        \<and> stored_policy (pg e) (clock e ''UpdateTenantLimits.sqlnow'' [])
            (tenant_policy_row e (cx_TenantID cx) (case tier of None \<Rightarrow> ''custom'' | Some x \<Rightarrow> tier_Name x) caps) pol
        \<and> d' = d\<lparr>limit_policies := without_default (clock e ''UpdateTenantLimits.sqlnow'' []) (cx_TenantID cx) (limit_policies d) @ [pol]\<rparr>
        \<and> GetTenantDefaultPolicy (cx_TenantID cx) d' = Inr pol
        \<and> (\<forall>p \<in> set (limit_policies d'). is_tenant_default (cx_TenantID cx) p \<longrightarrow> p = pol)
        \<and> r = Reply 200 (policy_view_json (toPolicyView jsonb_text e pol)))
    else d' = d"
proof (cases "resp_status r = Some 200")
  case True
  then obtain req tier caps pol where x: "body = Some req" "may_manage cx" "resolveLimitsUpdate req = Inr (tier, caps)"
      "replace_policy e (cx_TenantID cx) (case tier of None \<Rightarrow> ''custom'' | Some x \<Rightarrow> tier_Name x) caps d = (Inr pol, d')"
      "r = Reply 200 (policy_view_json (toPolicyView jsonb_text e pol))"
    using run by (auto simp: Limits_UpdateTenantLimits_def split: if_splits option.splits sum.splits prod.splits)
  note s = replace_policy_Inr [OF wf x(4)]
  have def: "is_tenant_default (cx_TenantID cx) pol"
    using s by (auto simp: stored_policy_def tenant_policy_row_def is_tenant_default_def)
  have only: "\<forall>p \<in> set (limit_policies d'). is_tenant_default (cx_TenantID cx) p \<longrightarrow> p = pol"
    using s without_default_none by auto
  have "List.find (is_tenant_default (cx_TenantID cx)) (without_default (clock e ''UpdateTenantLimits.sqlnow'' []) (cx_TenantID cx) (limit_policies d)) = None"
    using without_default_none by (auto simp: find_None_iff)
  then have "List.find (is_tenant_default (cx_TenantID cx)) (limit_policies d') = Some pol"
    using s def by (simp add: find_append)
  then have "GetTenantDefaultPolicy (cx_TenantID cx) d' = Inr pol" by (simp add: GetTenantDefaultPolicy_def select_one_Inr)
  then show ?thesis unfolding if_P [OF True] using x s only by blast
next
  case False
  then show ?thesis using run
    by (auto simp: Limits_UpdateTenantLimits_def dest: replace_policy_Inl split: if_splits option.splits sum.splits prod.splits)
qed

definition demo_limits_ctx :: request_ctx where
  "demo_limits_ctx = \<lparr> cx_TenantID = ''tn'', cx_APIKeyID = [], cx_UserID = ''u'', cx_Role = ''admin'', cx_Params = (\<lambda>_. []), cx_Query = (\<lambda>_. []) \<rparr>"

definition demo_limits_update :: UpdateTenantLimitsRequest where
  "demo_limits_update = \<lparr> ul_Tier = ''standard'', ul_PerTxAmount = [], ul_DailyAmount = [], ul_WeeklyAmount = [], ul_MonthlyAmount = [] \<rparr>"

definition demo_limits_db :: db where
  "demo_limits_db = empty_db\<lparr>tenants := [\<lparr> tn_ID = ''tn'', tn_Name = ''t'', tn_PrimaryEmail = ''e'', tn_Plan = [], tn_Status = [],
       tn_Metadata = empty_object, tn_CreatedAt = 0, tn_UpdatedAt = 0 \<rparr>],
     limit_policies := [(tenant_policy_row (calm_env 0) ''tn'' ''custom'' (capsFromTier TierConservative))\<lparr>lp_ID := ''old''\<rparr>]\<rparr>"

theorem UpdateTenantLimits_replaces_the_default_witness:
  "\<exists>v d' pol. Limits_UpdateTenantLimits (\<lambda>_. []) (calm_env 0) demo_limits_ctx (Some demo_limits_update) demo_limits_db = (Reply 200 v, d')
     \<and> GetTenantDefaultPolicy ''tn'' d' = Inr pol \<and> lp_ID pol = ''UpdateTenantLimits.lp'' \<and> length (limit_policies d') = 2"
proof -
  have wf: "db_wf demo_limits_db"
    by (simp add: db_wf_def demo_limits_db_def empty_db_def tables_ok_def wf_table_def secondary_keys_def pk_unique_def policy_ok_def
        policy_check_def tenant_policy_row_def ids_of_def pgxText_def)
  have r: "resolveLimitsUpdate demo_limits_update = Inr (Some TierStandard, capsFromTier TierStandard)"
    by (simp add: resolveLimitsUpdate_def demo_limits_update_def Let_def)
  obtain v d' where run: "Limits_UpdateTenantLimits (\<lambda>_. []) (calm_env 0) demo_limits_ctx (Some demo_limits_update) demo_limits_db = (Reply 200 v, d')"
    by (simp add: Limits_UpdateTenantLimits_def demo_limits_ctx_def may_manage_def r replace_policy_def disable_default_def calm_env_def
        GetTenantDefaultPolicy_def select_one_def demo_limits_db_def empty_db_def tenant_policy_row_def is_tenant_default_def
        DisableLimitPolicy_def update_one_def disable_policy_def CreateLimitPolicy_def store_numeric_def capsFromTier_def ToNumeric_def
        policy_check_def pgxText_def exists_row_def upd_where_def Let_def)
  from UpdateTenantLimits_replaces_the_default [OF run wf] obtain pol where
    "stored_policy (pg (calm_env 0)) (clock (calm_env 0) ''UpdateTenantLimits.sqlnow'' [])
       (tenant_policy_row (calm_env 0) (cx_TenantID demo_limits_ctx) ''standard'' (capsFromTier TierStandard)) pol"
    "d' = demo_limits_db\<lparr>limit_policies := without_default (clock (calm_env 0) ''UpdateTenantLimits.sqlnow'' []) (cx_TenantID demo_limits_ctx) (limit_policies demo_limits_db) @ [pol]\<rparr>"
    "GetTenantDefaultPolicy (cx_TenantID demo_limits_ctx) d' = Inr pol"
    by (auto simp: r TierStandard_def)
  then show ?thesis using run
    by (auto simp: demo_limits_ctx_def stored_policy_def tenant_policy_row_def calm_env_def without_default_def demo_limits_db_def empty_db_def)
qed

text \<open>PostgreSQL prints a JSONB object with a space after the colon, so the tier is never found.\<close>

lemma printed_tier_is_not_found:
  "extractMetadataTier ([CHR ''{'', CHR 34] @ ''tier'' @ [CHR 34] @ '': '' @ [CHR 34] @ ''standard'' @ [CHR 34, CHR ''}'']) = []"
  "extractMetadataTier ([CHR ''{'', CHR 34] @ ''tier'' @ [CHR 34] @ '':'' @ [CHR 34] @ ''standard'' @ [CHR 34, CHR ''}'']) = ''standard''"
  by code_simp+

text \<open>\<open>Sscanf\<close> reads the leading digits and ignores the rest.\<close>

lemma trailing_text_is_ignored: "parseDecimalUSD ''100.99'' = Inr 100"
  by code_simp

section \<open>The invariants of the store\<close>

context tenant_store
begin

lemma replace_policy_keep:
  assumes "P t d"
  shows "P t (snd (replace_policy e t tierName caps d))"
proof -
  have a: "P t d1" if r: "disable_default e t d = (x, d1)" for x d1
  proof -
    have w: "P t d2" if "db_write f d (DisableLimitPolicy now (lp_ID p) d) = (y, d2)" "GetTenantDefaultPolicy t d = Inr p" for f now p y d2
      using that(1) assms by (rule keep_write)
        (use that(2) in \<open>auto simp: GetTenantDefaultPolicy_def is_tenant_default_def dest!: select_one_D intro!: keep_DisableLimitPolicy [OF assms]\<close>)
    show ?thesis using r assms
      by (auto simp: disable_default_def db_read_Inr dest: w split: sum.splits prod.splits)
  qed
  have b: "P t d2" if "db_write f d1 (CreateLimitPolicy drv now (tenant_policy_row e t tierName caps) d1) = (y, d2)" "P t d1" for f d1 drv now y d2
    using that by (rule keep_write) (intro keep_CreateLimitPolicy that, simp add: tenant_policy_row_def)
  show ?thesis unfolding replace_policy_def using assms
    by (auto dest!: a dest: b split: option.split sum.split prod.split)
qed

lemma Limits_UpdateTenantLimits_keep:
  assumes "P (cx_TenantID cx) d"
  shows "P (cx_TenantID cx) (snd (Limits_UpdateTenantLimits jsonb_text e cx body d))"
proof -
  have "P (cx_TenantID cx) d1" if "replace_policy e (cx_TenantID cx) tierName caps d = (x, d1)" for tierName caps x d1
    using replace_policy_keep [OF assms, of e tierName caps] that by simp
  then show ?thesis using assms
    by (auto simp: Limits_UpdateTenantLimits_def split: option.split sum.split prod.split)
qed

end

end
