(* ===== verification/Go_Url.thy ===== *)
theory Go_Url
  imports Handlers
begin

text \<open>
  \<open>url.Parse\<close> of the Go standard library, as far as \<open>webhooks.go\<close> uses it: the scheme and the host
  of an accepted URL, or the refusal.
\<close>

datatype escape_mode = EscOther | EscHost | EscZone

definition is_letter :: "char \<Rightarrow> bool" where
  "is_letter c \<longleftrightarrow> (let n = (of_char c :: nat) in 97 \<le> n \<and> n \<le> 122 \<or> 65 \<le> n \<and> n \<le> 90)"

text \<open>The characters a host may hold without escaping.\<close>

definition host_chars :: "char list" where
  "host_chars = ''-_.~!$&()*+,;=:[]<>'' @ [CHR 34, CHR 39]"

definition host_char :: "char \<Rightarrow> bool" where
  "host_char c \<longleftrightarrow> is_letter c \<or> is_digit c \<or> c \<in> set host_chars"

text \<open>Which escapes a component allows: in a host only non-ASCII bytes and the percent sign.\<close>

definition escape_ok :: "escape_mode \<Rightarrow> nat \<Rightarrow> nat \<Rightarrow> bool" where
  "escape_ok m x y =
     (case m of
        EscOther \<Rightarrow> True
      | EscHost \<Rightarrow> 8 \<le> x \<or> x = 2 \<and> y = 5
      | EscZone \<Rightarrow> x = 2 \<and> (y = 5 \<or> y = 0) \<or> host_char (char_of (16 * x + y)))"

definition plain_ok :: "escape_mode \<Rightarrow> char \<Rightarrow> bool" where
  "plain_ok m c \<longleftrightarrow> m = EscOther \<or> 128 \<le> (of_char c :: nat) \<or> host_char c"

fun unescape :: "escape_mode \<Rightarrow> string \<Rightarrow> string option" where
  "unescape m [] = Some []"
| "unescape m (c # s) =
     (if c = CHR ''%'' then
        (case s of
           a # b # r \<Rightarrow>
             (case (from_hex a, from_hex b) of
                (Some x, Some y) \<Rightarrow>
                  if escape_ok m x y then map_option (Cons (char_of (16 * x + y))) (unescape m r) else None
              | _ \<Rightarrow> None)
         | _ \<Rightarrow> None)
      else if plain_ok m c then map_option (Cons c) (unescape m s)
      else None)"

definition validOptionalPort :: "string \<Rightarrow> bool" where
  "validOptionalPort p = (case p of [] \<Rightarrow> True | c # ds \<Rightarrow> c = CHR '':'' \<and> list_all is_digit ds)"

text \<open>The split at the last occurrence of a character.\<close>

definition LastCut :: "char \<Rightarrow> string \<Rightarrow> (string \<times> string) option" where
  "LastCut c s = (case Cut c (rev s) of (a, b, found) \<Rightarrow> if found then Some (rev b, rev a) else None)"

definition parseHost :: "string \<Rightarrow> string option" where
  "parseHost host =
     (if HasPrefix host ''['' then
        (case LastCut CHR '']'' host of
           None \<Rightarrow> None
         | Some (inside, colonPort) \<Rightarrow>
             if \<not> validOptionalPort colonPort then None
             else (case split_at ''%25'' inside of
                     None \<Rightarrow> unescape EscHost host
                   | Some (before, after) \<Rightarrow>
                       (case (unescape EscHost before, unescape EscZone (''%25'' @ after), unescape EscHost (CHR '']'' # colonPort)) of
                          (Some h1, Some h2, Some h3) \<Rightarrow> Some (h1 @ h2 @ h3)
                        | _ \<Rightarrow> None)))
      else (case LastCut CHR '':'' host of
              None \<Rightarrow> unescape EscHost host
            | Some (_, port) \<Rightarrow> if validOptionalPort (CHR '':'' # port) then unescape EscHost host else None))"

definition userinfo_char :: "char \<Rightarrow> bool" where
  "userinfo_char c \<longleftrightarrow> is_letter c \<or> is_digit c \<or> c \<in> set ''-._:~!$&()*+,;=%@'' \<or> c = CHR 39"

definition parseAuthority :: "string \<Rightarrow> string option" where
  "parseAuthority authority =
     (case LastCut CHR ''@'' authority of
        None \<Rightarrow> parseHost authority
      | Some (userinfo, host) \<Rightarrow>
          (case parseHost host of
             None \<Rightarrow> None
           | Some h \<Rightarrow>
               if list_all userinfo_char userinfo
                  \<and> (case Cut CHR '':'' userinfo of (user, pass, _) \<Rightarrow> unescape EscOther user \<noteq> None \<and> unescape EscOther pass \<noteq> None)
               then Some h else None))"

text \<open>The scheme: letters, then digits and \<open>+-.\<close> too; no scheme when another character comes first.\<close>

datatype scheme_result = SchemeErr | NoScheme | Scheme string string

definition scheme_char :: "char \<Rightarrow> bool" where
  "scheme_char c \<longleftrightarrow> is_letter c \<or> is_digit c \<or> c = CHR ''+'' \<or> c = CHR ''-'' \<or> c = CHR ''.''"

definition getScheme :: "string \<Rightarrow> scheme_result" where
  "getScheme s =
     (let pre = takeWhile scheme_char s; rest = dropWhile scheme_char s in
      case rest of
        [] \<Rightarrow> NoScheme
      | c # r \<Rightarrow>
          if c \<noteq> CHR '':'' then NoScheme
          else if pre = [] then SchemeErr
          else if \<not> is_letter (hd pre) then NoScheme
          else Scheme (ToLower pre) r)"

definition is_ctl :: "char \<Rightarrow> bool" where
  "is_ctl c \<longleftrightarrow> (of_char c :: nat) < 32 \<or> (of_char c :: nat) = 127"

text \<open>The part after the scheme, without query: authority and path.\<close>

definition parse_rest :: "string \<Rightarrow> string \<Rightarrow> (string \<times> string) option" where
  "parse_rest scheme rest =
     (if \<not> HasPrefix rest ''/'' \<and> scheme \<noteq> [] then Some (scheme, [])
      else if \<not> HasPrefix rest ''/'' \<and> CHR '':'' \<in> set (fst (Cut CHR ''/'' rest)) then None
      else if (scheme \<noteq> [] \<or> \<not> HasPrefix rest ''///'') \<and> HasPrefix rest ''//'' then
        (let authority = takeWhile (\<lambda>c. c \<noteq> CHR ''/'') (drop 2 rest); path = dropWhile (\<lambda>c. c \<noteq> CHR ''/'') (drop 2 rest) in
         case (parseAuthority authority, unescape EscOther path) of
           (Some host, Some _) \<Rightarrow> Some (scheme, host)
         | _ \<Rightarrow> None)
      else map_option (\<lambda>_. (scheme, [])) (unescape EscOther rest))"

definition url_Parse :: "string \<Rightarrow> (string \<times> string) option" where
  "url_Parse raw =
     (case Cut CHR ''#'' raw of
        (u, frag, _) \<Rightarrow>
          if list_ex is_ctl u then None
          else if unescape EscOther frag = None then None
          else if u = ''*'' then Some ([], [])
          else
            (case getScheme u of
               SchemeErr \<Rightarrow> None
             | NoScheme \<Rightarrow> parse_rest [] (fst (Cut CHR ''?'' u))
             | Scheme scheme rest \<Rightarrow> parse_rest scheme (fst (Cut CHR ''?'' rest))))"

end
