(* ===== verification/Webhook_Handlers.thy ===== *)
theory Webhook_Handlers
  imports Go_Url Go_Encoding
begin

text \<open>
  \<open>handlers/webhooks.go\<close>: the routes that create, read, change, rotate and delete webhook endpoints.
\<close>

definition secretBytes :: nat where "secretBytes = 32"

record EndpointView =
  ep_ID :: string
  ep_URL :: string
  ep_SubscribedEvents :: "string list option" \<comment> \<open>\<open>None\<close> is the nil slice\<close>
  ep_Status :: string
  ep_Description :: string
  ep_SecretVersion :: int
  ep_ConsecutiveFailures :: int
  ep_LastSuccessAt :: string
  ep_LastFailureAt :: string
  ep_CreatedAt :: string

definition endpoint_fields :: "EndpointView \<Rightarrow> (string \<times> json) list" where
  "endpoint_fields v =
     [(''id'', JStr (ep_ID v)), (''url'', JStr (ep_URL v)),
      (''subscribed_events'', case ep_SubscribedEvents v of None \<Rightarrow> JNull | Some xs \<Rightarrow> JArr (map JStr xs)),
      (''status'', JStr (ep_Status v))]
     @ opt_str ''description'' (ep_Description v)
     @ [(''secret_version'', JNum (int_to_dec (ep_SecretVersion v))),
        (''consecutive_failures'', JNum (int_to_dec (ep_ConsecutiveFailures v)))]
     @ opt_str ''last_success_at'' (ep_LastSuccessAt v) @ opt_str ''last_failure_at'' (ep_LastFailureAt v)
     @ opt_str ''created_at'' (ep_CreatedAt v)"

definition parseEventsList :: "jsonb \<Rightarrow> string list option" where
  "parseEventsList raw =
     (if raw = JEmpty then Some []
      else if raw = JVal JNull then None
      else (case unmarshal_strings raw of None \<Rightarrow> Some [] | Some out \<Rightarrow> Some out))"

definition time_text :: "time option \<Rightarrow> string" where
  "time_text t = (case t of None \<Rightarrow> [] | Some x \<Rightarrow> Format_RFC3339_UTC x)"

definition toEndpointView :: "WebhookEndpoint \<Rightarrow> EndpointView" where
  "toEndpointView r =
     \<lparr> ep_ID = we_ID r, ep_URL = we_Url r, ep_SubscribedEvents = parseEventsList (we_SubscribedEvents r),
       ep_Status = we_Status r, ep_Description = text_String (we_Description r), ep_SecretVersion = we_SecretVersion r,
       ep_ConsecutiveFailures = we_ConsecutiveFailures r, ep_LastSuccessAt = time_text (we_LastSuccessAt r),
       ep_LastFailureAt = time_text (we_LastFailureAt r), ep_CreatedAt = Format_RFC3339_UTC (we_CreatedAt r) \<rparr>"

definition endpoint_json :: "WebhookEndpoint \<Rightarrow> json" where
  "endpoint_json r = JObj (endpoint_fields (toEndpointView r))"

definition with_secret :: "WebhookEndpoint \<Rightarrow> bytes \<Rightarrow> string \<Rightarrow> json" where
  "with_secret r secret notice =
     JObj (endpoint_fields (toEndpointView r) @ [(''secret'', JStr (base64_encode secret)), (''_notice'', JStr notice)])"

section \<open>Validation\<close>

definition TrimSuffix :: "string \<Rightarrow> string \<Rightarrow> string" where
  "TrimSuffix s suf = (if HasPrefix (rev s) (rev suf) then take (length s - length suf) s else s)"

definition isLocalHost :: "string \<Rightarrow> bool" where
  "isLocalHost host =
     (let h = fst (Cut CHR '':'' (TrimSuffix (ToLower host) '':80''))
      in h = ''localhost'' \<or> h = ''127.0.0.1'' \<or> h = ''::1'')"

definition validateEndpointURL :: "string \<Rightarrow> string option" where
  "validateEndpointURL raw =
     (if raw = [] then Some ''url is required''
      else (case url_Parse raw of
              None \<Rightarrow> Some ''url is not a valid absolute URL''
            | Some (scheme, host) \<Rightarrow>
                if host = [] then Some ''url is not a valid absolute URL''
                else if scheme = ''https'' then None
                else if scheme = ''http'' \<and> isLocalHost host then None
                else Some ''url must use https (http allowed only for localhost)''))"

fun check_events :: "string list \<Rightarrow> string option" where
  "check_events [] = None"
| "check_events (s # ss) =
     (if s = [] then Some ''subscribed_events: empty string is not a valid event type''
      else if \<not> Contains s ''.'' then Some ''subscribed_events: each entry must look like resource.action''
      else check_events ss)"

definition marshalEventsList :: "string list \<Rightarrow> string + jsonb" where
  "marshalEventsList xs = (case check_events xs of Some msg \<Rightarrow> Inl msg | None \<Rightarrow> Inr (marshal_strings xs))"

section \<open>Create, List, Get\<close>

record CreateEndpointRequest =
  ce_URL :: string
  ce_SubscribedEvents :: "string list"
  ce_Description :: string

definition endpoint_row :: "env \<Rightarrow> string \<Rightarrow> CreateEndpointRequest \<Rightarrow> bytes \<Rightarrow> jsonb \<Rightarrow> WebhookEndpoint" where
  "endpoint_row e tenantID req secret subs =
     \<lparr> we_ID = fresh_id e ''Webhooks.Create.we'' [], we_TenantID = tenantID, we_Url = ce_URL req, we_Secret = secret,
       we_SecretVersion = 1, we_SubscribedEvents = subs, we_Status = ''active'', we_Description = pgxText (ce_Description req),
       we_LastSuccessAt = None, we_LastFailureAt = None, we_ConsecutiveFailures = 0, we_Metadata = empty_object,
       we_CreatedAt = 0, we_UpdatedAt = 0 \<rparr>"

definition Webhooks_Create :: "env \<Rightarrow> request_ctx \<Rightarrow> CreateEndpointRequest option \<Rightarrow> db \<Rightarrow> response \<times> db" where
  "Webhooks_Create e cx body d =
     (if cx_TenantID cx = [] then (badRequest ''missing tenant context'', d)
      else if \<not> may_manage cx then (Reply 403 (error_body ''your role cannot manage webhook endpoints''), d)
      else
        (case body of
           None \<Rightarrow> (badRequest ''invalid JSON body'', d)
         | Some req \<Rightarrow>
             (case validateEndpointURL (ce_URL req) of
                Some msg \<Rightarrow> (badRequest msg, d)
              | None \<Rightarrow>
                  (case rand_bytes e ''Webhooks.Create.secret'' [] secretBytes of
                     Inl _ \<Rightarrow> (internalError, d)
                   | Inr secret \<Rightarrow>
                       (case marshalEventsList (ce_SubscribedEvents req) of
                          Inl msg \<Rightarrow> (badRequest msg, d)
                        | Inr subs \<Rightarrow>
                            (case db_write (fault e ''Webhooks.Create.CreateWebhookEndpoint'' []) d
                                    (CreateWebhookEndpoint (clock e ''Webhooks.Create.sqlnow'' [])
                                       (endpoint_row e (cx_TenantID cx) req secret subs) d) of
                               (Inl _, d1) \<Rightarrow> (internalError, d1)
                             | (Inr row, d1) \<Rightarrow>
                                 (Reply 201 (with_secret row secret
                                    (''Store the secret now. It cannot be retrieved later; use POST /rotate-secret ''
                                     @ ''to mint a new one if lost.'')), d1)))))))"

definition Webhooks_List :: "env \<Rightarrow> request_ctx \<Rightarrow> db \<Rightarrow> response" where
  "Webhooks_List e cx d =
     (if cx_TenantID cx = [] then badRequest ''missing tenant context''
      else (case db_read (fault e ''Webhooks.List.ListWebhookEndpointsForTenant'' [])
                   (paged (page_bounds cx) (\<lambda>l off. ListWebhookEndpointsForTenant (cx_TenantID cx) l off d)) of
              Inl _ \<Rightarrow> internalError
            | Inr rows \<Rightarrow> Reply 200 (JObj [(''data'', JArr (map endpoint_json rows))])))"

text \<open>The endpoint of a request, with the guard against another tenant's id.\<close>

definition load_endpoint :: "env \<Rightarrow> string \<Rightarrow> request_ctx \<Rightarrow> db \<Rightarrow> WebhookEndpoint option" where
  "load_endpoint e site cx d =
     (case db_read (fault e site []) (GetWebhookEndpointByID (cx_Params cx ''id'') d) of
        Inl _ \<Rightarrow> None
      | Inr row \<Rightarrow> if we_TenantID row \<noteq> cx_TenantID cx then None else Some row)"

definition Webhooks_Get :: "env \<Rightarrow> request_ctx \<Rightarrow> db \<Rightarrow> response" where
  "Webhooks_Get e cx d =
     (if cx_TenantID cx = [] then badRequest ''missing tenant context''
      else (case load_endpoint e ''Webhooks.Get.GetWebhookEndpointByID'' cx d of
              None \<Rightarrow> notFound ''webhook endpoint not found''
            | Some row \<Rightarrow> if we_Status row = ''deleted'' then notFound ''webhook endpoint not found''
                          else Reply 200 (endpoint_json row)))"

section \<open>Update\<close>

record UpdateEndpointRequest =
  ue_URL :: "string option"
  ue_SubscribedEvents :: "string list option"
  ue_Description :: "string option"
  ue_Status :: "string option"

text \<open>The four update parameters: \<open>None\<close> keeps the column.\<close>

definition update_params :: "UpdateEndpointRequest \<Rightarrow> string + string option \<times> jsonb option \<times> string option \<times> string option" where
  "update_params req =
     (case (case ue_URL req of None \<Rightarrow> Inr None
            | Some u \<Rightarrow> (case validateEndpointURL u of Some msg \<Rightarrow> Inl msg | None \<Rightarrow> Inr (pgxText u))) of
        Inl msg \<Rightarrow> Inl msg
      | Inr urlText \<Rightarrow>
          (case (case ue_SubscribedEvents req of None \<Rightarrow> Inr None
                 | Some xs \<Rightarrow> (case marshalEventsList xs of Inl msg \<Rightarrow> Inl msg | Inr subs \<Rightarrow> Inr (Some subs))) of
             Inl msg \<Rightarrow> Inl msg
           | Inr subs \<Rightarrow>
               (let descText = (case ue_Description req of None \<Rightarrow> None | Some x \<Rightarrow> pgxText x) in
                case ue_Status req of
                  None \<Rightarrow> Inr (urlText, subs, descText, None)
                | Some st \<Rightarrow>
                    if st \<noteq> ''active'' \<and> st \<noteq> ''paused''
                    then Inl (''status must be '' @ go_quote ''active'' @ '' or '' @ go_quote ''paused'')
                    else Inr (urlText, subs, descText, pgxText st))))"

definition Webhooks_Update :: "env \<Rightarrow> request_ctx \<Rightarrow> UpdateEndpointRequest option \<Rightarrow> db \<Rightarrow> response \<times> db" where
  "Webhooks_Update e cx body d =
     (if cx_TenantID cx = [] then (badRequest ''missing tenant context'', d)
      else if \<not> may_manage cx then (Reply 403 (error_body ''your role cannot modify webhook endpoints''), d)
      else
        (case load_endpoint e ''Webhooks.Update.GetWebhookEndpointByID'' cx d of
           None \<Rightarrow> (notFound ''webhook endpoint not found'', d)
         | Some row \<Rightarrow>
             if we_Status row = ''deleted'' then (notFound ''webhook endpoint not found'', d)
             else
               (case body of
                  None \<Rightarrow> (badRequest ''invalid JSON body'', d)
                | Some req \<Rightarrow>
                    (case update_params req of
                       Inl msg \<Rightarrow> (badRequest msg, d)
                     | Inr (urlText, subs, descText, statusText) \<Rightarrow>
                         (case db_write (fault e ''Webhooks.Update.UpdateWebhookEndpoint'' []) d
                                 (UpdateWebhookEndpoint (clock e ''Webhooks.Update.sqlnow'' []) (cx_Params cx ''id'')
                                    urlText subs descText statusText d) of
                            (Inl _, d1) \<Rightarrow> (internalError, d1)
                          | (Inr updated, d1) \<Rightarrow> (Reply 200 (endpoint_json updated), d1))))))"

section \<open>RotateSecret, Delete\<close>

definition Webhooks_RotateSecret :: "env \<Rightarrow> request_ctx \<Rightarrow> db \<Rightarrow> response \<times> db" where
  "Webhooks_RotateSecret e cx d =
     (if cx_TenantID cx = [] then (badRequest ''missing tenant context'', d)
      else if \<not> may_manage cx then (Reply 403 (error_body ''your role cannot rotate webhook secrets''), d)
      else
        (case load_endpoint e ''Webhooks.RotateSecret.GetWebhookEndpointByID'' cx d of
           None \<Rightarrow> (notFound ''webhook endpoint not found'', d)
         | Some row \<Rightarrow>
             if we_Status row = ''deleted'' then (notFound ''webhook endpoint not found'', d)
             else
               (case rand_bytes e ''Webhooks.RotateSecret.secret'' [] secretBytes of
                  Inl _ \<Rightarrow> (internalError, d)
                | Inr secret \<Rightarrow>
                    (case db_write (fault e ''Webhooks.RotateSecret.RotateWebhookEndpointSecret'' []) d
                            (RotateWebhookEndpointSecret (clock e ''Webhooks.RotateSecret.sqlnow'' []) (cx_Params cx ''id'') secret d) of
                       (Inl _, d1) \<Rightarrow> (internalError, d1)
                     | (Inr updated, d1) \<Rightarrow>
                         (Reply 200 (with_secret updated secret
                            (''Store the new secret. In-flight deliveries continue under the prior secret version ''
                             @ ''until they finish.'')), d1)))))"

definition Webhooks_Delete :: "env \<Rightarrow> request_ctx \<Rightarrow> db \<Rightarrow> response \<times> db" where
  "Webhooks_Delete e cx d =
     (if cx_TenantID cx = [] then (badRequest ''missing tenant context'', d)
      else if \<not> may_manage cx then (Reply 403 (error_body ''your role cannot delete webhook endpoints''), d)
      else
        (case load_endpoint e ''Webhooks.Delete.GetWebhookEndpointByID'' cx d of
           None \<Rightarrow> (notFound ''webhook endpoint not found'', d)
         | Some row \<Rightarrow>
             if we_Status row = ''deleted'' then (Reply 200 (endpoint_json row), d)
             else
               (case fault e ''Webhooks.Delete.DeleteWebhookEndpoint'' [] of
                  Some _ \<Rightarrow> (internalError, d)
                | None \<Rightarrow>
                    (Reply 200 (endpoint_json (row\<lparr>we_Status := ''deleted''\<rparr>)),
                     DeleteWebhookEndpoint (clock e ''Webhooks.Delete.sqlnow'' []) (cx_Params cx ''id'') d))))"

end
