(* ===== verification/Webhook_Handlers_Spec.thy ===== *)
theory Webhook_Handlers_Spec
  imports Webhook_Handlers Tenant_Services Webhook_Worker
begin

text \<open>
  The webhook-endpoint routes: the secret an answer shows verifies the deliveries, a created endpoint
  has a safe URL, and every route keeps the invariants of the store.
\<close>

section \<open>What the routes can do\<close>

definition safe_url :: "string \<Rightarrow> bool" where
  "safe_url u \<longleftrightarrow> (\<exists>scheme host. url_Parse u = Some (scheme, host) \<and> host \<noteq> []
     \<and> (scheme = ''https'' \<or> (scheme = ''http'' \<and> isLocalHost host)))"

lemma validateEndpointURL_None: "validateEndpointURL u = None \<Longrightarrow> safe_url u"
  by (auto simp: validateEndpointURL_def safe_url_def split: if_splits option.splits prod.splits)

lemma Webhooks_Create_201:
  assumes "Webhooks_Create e cx body d = (Reply 201 v, d')"
  obtains req secret subs row notice where "body = Some req" "may_manage cx" "safe_url (ce_URL req)"
    "rand_bytes e ''Webhooks.Create.secret'' [] secretBytes = Inr secret" "marshalEventsList (ce_SubscribedEvents req) = Inr subs"
    "CreateWebhookEndpoint (clock e ''Webhooks.Create.sqlnow'' []) (endpoint_row e (cx_TenantID cx) req secret subs) d = (Inr row, d')"
    "v = with_secret row secret notice"
  using assms
  by (auto simp: Webhooks_Create_def db_write_def validateEndpointURL_None split: if_splits option.splits sum.splits prod.splits)

lemma load_endpoint_Some:
  assumes "load_endpoint e site cx d = Some row"
  shows "row \<in> set (webhook_endpoints d)" "we_ID row = cx_Params cx ''id''" "we_TenantID row = cx_TenantID cx"
  using assms by (auto simp: load_endpoint_def db_read_Inr GetWebhookEndpointByID_def dest!: select_one_D split: sum.splits if_splits)

lemma Webhooks_RotateSecret_200:
  assumes "Webhooks_RotateSecret e cx d = (Reply 200 v, d')"
  obtains row secret updated notice where "load_endpoint e ''Webhooks.RotateSecret.GetWebhookEndpointByID'' cx d = Some row"
    "may_manage cx" "we_Status row \<noteq> ''deleted''" "rand_bytes e ''Webhooks.RotateSecret.secret'' [] secretBytes = Inr secret"
    "RotateWebhookEndpointSecret (clock e ''Webhooks.RotateSecret.sqlnow'' []) (cx_Params cx ''id'') secret d = (Inr updated, d')"
    "v = with_secret updated secret notice"
  using assms
  by (auto simp: Webhooks_RotateSecret_def db_write_def split: if_splits option.splits sum.splits prod.splits)

section \<open>The secret that is shown\<close>

text \<open>What the tenant learns from an answer.\<close>

definition shown_secret :: "json \<Rightarrow> bytes option" where
  "shown_secret v = (case v of JObj fs \<Rightarrow> (case map_of fs ''secret'' of Some (JStr s) \<Rightarrow> base64_decode s | _ \<Rightarrow> None) | _ \<Rightarrow> None)"

lemma endpoint_fields_no_secret: "''secret'' \<notin> fst ` set (endpoint_fields w)"
  by (auto simp: endpoint_fields_def opt_str_def split: if_splits)

lemma shown_with_secret: "shown_secret (with_secret row secret notice) = Some secret"
proof -
  have "map_of (endpoint_fields w) ''secret'' = None" for w
    using endpoint_fields_no_secret by (simp add: map_of_eq_None_iff)
  then show ?thesis by (simp add: shown_secret_def with_secret_def map_add_def)
qed

text \<open>The signature header of a delivery.\<close>

definition signature_of :: "http_request \<Rightarrow> string option" where
  "signature_of r = map_of (hr_headers r) ''X-Atara-Signature''"

lemma signature_of_delivery: "signature_of (delivery_request c evt ep) = Some (Sign (co_hmac c) (we_Secret ep) (hr_body (delivery_request c evt ep)))"
  by (simp add: signature_of_def delivery_request_def Let_def)

lemma delivery_verifies:
  assumes "we_Secret ep = secret"
  shows "\<exists>s. signature_of (delivery_request c evt ep) = Some s \<and> Verify (co_hmac c) secret (hr_body (delivery_request c evt ep)) s"
  using assms by (simp add: signature_of_delivery Verify_def Sign_def hex_decode_encode)

lemma created_endpoint_secret:
  assumes rnd: "\<forall>site. rnd_len (rand_bytes e site [])" and run: "Webhooks_Create e cx body d = (Reply 201 v, d')"
  shows "\<exists>ep. shown_secret v = Some (we_Secret ep) \<and> length (we_Secret ep) = 32 \<and> GetWebhookEndpointByID (we_ID ep) d' = Inr ep
    \<and> webhook_endpoints d' = webhook_endpoints d @ [ep] \<and> we_TenantID ep = cx_TenantID cx
    \<and> we_Status ep = ''active'' \<and> safe_url (we_Url ep)"
  using run
proof (rule Webhooks_Create_201)
  fix req secret subs row notice
  assume x: "safe_url (ce_URL req)" "rand_bytes e ''Webhooks.Create.secret'' [] secretBytes = Inr secret" "v = with_secret row secret notice"
    "CreateWebhookEndpoint (clock e ''Webhooks.Create.sqlnow'' []) (endpoint_row e (cx_TenantID cx) req secret subs) d = (Inr row, d')"
  have row: "webhook_endpoints d' = webhook_endpoints d @ [row]" "we_TenantID row = cx_TenantID cx" "we_Status row = ''active''"
    "we_Url row = ce_URL req" "we_Secret row = secret" "we_ID row \<notin> we_ID ` set (webhook_endpoints d)"
    using x(4) by (auto simp: CreateWebhookEndpoint_def endpoint_row_def exists_row_iff Let_def split: if_splits)
  have "List.find (\<lambda>r. we_ID r = we_ID row) (webhook_endpoints d) = None"
    unfolding find_None_iff using row(6) by (metis imageI)
  then have "GetWebhookEndpointByID (we_ID row) d' = Inr row" using row(1) by (simp add: GetWebhookEndpointByID_def select_one_def find_append)
  moreover have "length secret = 32" using x(2) rnd by (auto simp: rnd_len_def secretBytes_def)
  ultimately show ?thesis using row x(1) shown_with_secret x(3) by auto
qed

lemma rotated_endpoint_secret:
  assumes rnd: "\<forall>site. rnd_len (rand_bytes e site [])" and run: "Webhooks_RotateSecret e cx d = (Reply 200 v, d')"
  shows "\<exists>ep. shown_secret v = Some (we_Secret ep) \<and> length (we_Secret ep) = 32 \<and> GetWebhookEndpointByID (we_ID ep) d' = Inr ep
    \<and> we_ID ep = cx_Params cx ''id''"
  using run
proof (rule Webhooks_RotateSecret_200)
  fix row secret updated notice
  let ?f = "rotate_secret (clock e ''Webhooks.RotateSecret.sqlnow'' []) secret"
  assume x: "rand_bytes e ''Webhooks.RotateSecret.secret'' [] secretBytes = Inr secret" "v = with_secret updated secret notice"
    "load_endpoint e ''Webhooks.RotateSecret.GetWebhookEndpointByID'' cx d = Some row"
    "RotateWebhookEndpointSecret (clock e ''Webhooks.RotateSecret.sqlnow'' []) (cx_Params cx ''id'') secret d = (Inr updated, d')"
  have eps: "webhook_endpoints d' = upd_where (\<lambda>r. we_ID r = cx_Params cx ''id'') ?f (webhook_endpoints d)"
    using x(4) by (auto simp: RotateWebhookEndpointSecret_def update_one_Inr split: if_splits prod.splits)
  have "?f row \<in> set (webhook_endpoints d')" "we_ID (?f row) = cx_Params cx ''id''"
    using load_endpoint_Some [OF x(3)] eps by (force simp: upd_where_def rotate_secret_def)+
  then obtain ep where ep: "GetWebhookEndpointByID (cx_Params cx ''id'') d' = Inr ep"
    by (cases "List.find (\<lambda>r. we_ID r = cx_Params cx ''id'') (webhook_endpoints d')")
      (auto simp: GetWebhookEndpointByID_def select_one_def find_None_iff)
  have "ep \<in> set (webhook_endpoints d')" "we_ID ep = cx_Params cx ''id''"
    using ep by (auto simp: GetWebhookEndpointByID_def dest!: select_one_D)
  then have "we_Secret ep = secret" using eps by (auto simp: upd_where_def rotate_secret_def split: if_splits)
  moreover have "length secret = 32" using x(1) rnd by (auto simp: rnd_len_def secretBytes_def)
  ultimately show ?thesis using shown_with_secret x(2) ep \<open>we_ID ep = cx_Params cx ''id''\<close> by auto
qed

definition demo_hook_ctx :: request_ctx where
  "demo_hook_ctx = \<lparr> cx_TenantID = ''tn'', cx_APIKeyID = ''ak'', cx_UserID = [], cx_Role = [], cx_Params = (\<lambda>_. ''we''), cx_Query = (\<lambda>_. []) \<rparr>"

definition demo_hook_request :: CreateEndpointRequest where
  "demo_hook_request = \<lparr> ce_URL = ''https://a.io/hook'', ce_SubscribedEvents = [''transaction.succeeded''], ce_Description = [] \<rparr>"

definition demo_hook_db :: db where
  "demo_hook_db = empty_db\<lparr>tenants := [\<lparr> tn_ID = ''tn'', tn_Name = ''t'', tn_PrimaryEmail = ''e'', tn_Plan = [], tn_Status = [],
       tn_Metadata = empty_object, tn_CreatedAt = 0, tn_UpdatedAt = 0 \<rparr>]\<rparr>"

lemma demo_hook_created:
  "\<exists>v d'. Webhooks_Create (calm_env 0) demo_hook_ctx (Some demo_hook_request) demo_hook_db = (Reply 201 v, d')"
proof -
  have u: "validateEndpointURL ''https://a.io/hook'' = None" by code_simp
  have m: "check_events [''transaction.succeeded''] = None" by code_simp
  show ?thesis
    using u m
    by (simp add: Webhooks_Create_def demo_hook_ctx_def demo_hook_request_def may_manage_def calm_env_def marshalEventsList_def
        CreateWebhookEndpoint_def endpoint_row_def endpoint_check_def demo_hook_db_def empty_db_def exists_row_def Let_def)
qed

section \<open>The invariants of the store\<close>

context tenant_store
begin

lemma Webhooks_Create_keep:
  assumes "P (cx_TenantID cx) d"
  shows "P (cx_TenantID cx) (snd (Webhooks_Create e cx body d))"
proof -
  have w: "P (cx_TenantID cx) d1"
    if "db_write f d (CreateWebhookEndpoint now (endpoint_row e (cx_TenantID cx) req secret subs) d) = (x, d1)" for f now req secret subs x d1
    using that assms by (rule keep_write) (intro keep_CreateWebhookEndpoint assms, simp add: endpoint_row_def)
  show ?thesis unfolding Webhooks_Create_def using assms
    by (auto dest: w split: option.split sum.split prod.split simp del: append.simps)
qed

lemma Webhooks_Update_keep:
  assumes "P (cx_TenantID cx) d"
  shows "P (cx_TenantID cx) (snd (Webhooks_Update e cx body d))"
proof -
  have w: "P (cx_TenantID cx) d1"
    if "db_write f d (UpdateWebhookEndpoint now (cx_Params cx ''id'') u s de st d) = (x, d1)" "load_endpoint e site cx d = Some row" for f now u s de st x d1 site row
    using that(1) assms by (rule keep_write) (use load_endpoint_Some [OF that(2)] keep_UpdateWebhookEndpoint [OF assms] in auto)
  show ?thesis unfolding Webhooks_Update_def using assms
    by (auto intro: w split: option.split sum.split prod.split simp del: append.simps)
qed

lemma Webhooks_RotateSecret_keep:
  assumes "P (cx_TenantID cx) d"
  shows "P (cx_TenantID cx) (snd (Webhooks_RotateSecret e cx d))"
proof -
  have w: "P (cx_TenantID cx) d1"
    if "db_write f d (RotateWebhookEndpointSecret now (cx_Params cx ''id'') s d) = (x, d1)" "load_endpoint e site cx d = Some row" for f now s x d1 site row
    using that(1) assms by (rule keep_write) (use load_endpoint_Some [OF that(2)] keep_RotateWebhookEndpointSecret [OF assms] in auto)
  show ?thesis unfolding Webhooks_RotateSecret_def using assms
    by (auto intro: w split: option.split sum.split prod.split simp del: append.simps)
qed

lemma Webhooks_Delete_keep:
  assumes "P (cx_TenantID cx) d"
  shows "P (cx_TenantID cx) (snd (Webhooks_Delete e cx d))"
proof -
  have w: "P (cx_TenantID cx) (DeleteWebhookEndpoint now (cx_Params cx ''id'') d)" if "load_endpoint e site cx d = Some row" for now site row
    using load_endpoint_Some [OF that] keep_DeleteWebhookEndpoint [OF assms] by auto
  show ?thesis unfolding Webhooks_Delete_def using assms
    by (auto intro: w split: option.split sum.split prod.split)
qed

end

end
