(* ===== verification/Virtual_Addresses.thy ===== *)
theory Virtual_Addresses
  imports Transfers
begin

text \<open>
  Virtual deposit addresses: the registry calls of \<open>adapters/tempo/virtual_address.go\<close> and the routes of
  \<open>handlers/virtual_addresses.go\<close>. Keccak, the ABI of the registry and the node's \<open>eth_call\<close>
  (per call site, since the answer changes with the broadcast) are the parameter \<open>registry_lib\<close>.
\<close>

section \<open>adapters/tempo/virtual\_address.go\<close>

definition AddressRegistryAddress :: string where
  "AddressRegistryAddress = ''0xFDC0000000000000000000000000000000000000''"

datatype abi_value = AddressValue address | OtherValue

record registry_lib =
  Keccak256 :: "bytes \<Rightarrow> bytes"
  abi_resolve :: "address \<Rightarrow> bytes \<Rightarrow> string + bytes"
  abi_register :: "address \<Rightarrow> bytes \<Rightarrow> string + bytes"
  abi_unpack_resolve :: "bytes \<Rightarrow> string + abi_value list"
  registry_call :: "string \<Rightarrow> address \<Rightarrow> bytes \<Rightarrow> string + bytes"

definition zero_address :: address where
  "zero_address = replicate 20 (char_of (0::nat))"

definition LabelToBytes32 :: "registry_lib \<Rightarrow> string \<Rightarrow> bytes" where
  "LabelToBytes32 rg label = to_array 32 (Keccak256 rg label)"

definition ResolveVirtualAddress ::
    "tempo_adapter \<Rightarrow> registry_lib \<Rightarrow> string \<Rightarrow> address \<Rightarrow> bytes \<Rightarrow> go_error + address" where
  "ResolveVirtualAddress a rg site parent label =
     (case abi_resolve rg parent label of
        Inl err \<Rightarrow> Inl (wrapf ''pack resolve'' (errors_New err))
      | Inr data \<Rightarrow>
          (case registry_call rg site (HexToAddress (ta_geth a) AddressRegistryAddress) data of
             Inl err \<Rightarrow> Inl (wrapf ''resolve'' (errors_New err))
           | Inr out \<Rightarrow>
               (case abi_unpack_resolve rg out of
                  Inl err \<Rightarrow> Inl (wrapf ''unpack resolve'' (errors_New err))
                | Inr [] \<Rightarrow> Inl (errors_New ''tempo: empty resolve result'')
                | Inr (AddressValue addr # _) \<Rightarrow> Inr addr
                | Inr (OtherValue # _) \<Rightarrow> Inl (errors_New ''tempo: unexpected resolve type''))))"

record RegisterVirtualAddressInput =
  rv_ParentPrivKey :: bytes
  rv_ParentAddress :: string
  rv_Label :: bytes

definition resolved_or_zero :: "go_error + address \<Rightarrow> address" where
  "resolved_or_zero r = (case r of Inl _ \<Rightarrow> zero_address | Inr addr \<Rightarrow> addr)"

text \<open>Both lookups of the address are non-fatal: when both fail, the zero address is returned.\<close>

definition RegisterVirtualAddress ::
    "tempo_adapter \<Rightarrow> registry_lib \<Rightarrow> RegisterVirtualAddressInput \<Rightarrow> (go_error + string \<times> address) \<times> eth_tx list" where
  "RegisterVirtualAddress a rg inp =
     (let g = ta_geth a in
      case privateKeyFromBytes g (rv_ParentPrivKey inp) of
        Inl err \<Rightarrow> (Inl (wrapf ''register vaddr'' err), [])
      | Inr priv \<Rightarrow>
          (let derived = PubkeyToAddress g priv in
           if derived \<noteq> HexToAddress g (rv_ParentAddress inp) then
             (Inl (errors_New (''register vaddr: private key derives '' @ Address_Hex g derived @ '' but parent says ''
                @ rv_ParentAddress inp)), [])
           else
             (let vaddr = resolved_or_zero (ResolveVirtualAddress a rg ''before'' derived (rv_Label inp)) in
              case abi_register rg derived (rv_Label inp) of
                Inl err \<Rightarrow> (Inl (wrapf ''pack register'' (errors_New err)), [])
              | Inr calldata \<Rightarrow>
                  (case assemble a [] 300000 derived (HexToAddress g AddressRegistryAddress) calldata of
                     Inl err \<Rightarrow> (Inl err, [])
                   | Inr lt \<Rightarrow>
                       (case sign_and_send a ''sign'' ''broadcast'' priv lt of
                          (Inl err, sent) \<Rightarrow> (Inl err, sent)
                        | (Inr hash, sent) \<Rightarrow>
                            (Inr (hash, if vaddr = zero_address
                                        then resolved_or_zero (ResolveVirtualAddress a rg ''after'' derived (rv_Label inp))
                                        else vaddr), sent))))))"

section \<open>handlers/virtual\_addresses.go\<close>

record VirtualAddresses =
  vh_tempo :: tempo_adapter
  vh_registry :: registry_lib
  vh_ks :: AESKeystore

record VirtualAddressView =
  vv_ID :: string
  vv_WalletID :: string
  vv_GroupID :: string
  vv_Label :: string
  vv_Address :: string
  vv_RegistrationTxHash :: string
  vv_CreatedAt :: string

definition toVirtualAddressView :: "VirtualAddress \<Rightarrow> VirtualAddressView" where
  "toVirtualAddressView r =
     \<lparr> vv_ID = va_ID r, vv_WalletID = va_WalletID r, vv_GroupID = va_GroupID r, vv_Label = va_Label r, vv_Address = va_Address r,
       vv_RegistrationTxHash = text_String (va_RegistrationTxHash r), vv_CreatedAt = Format_RFC3339_UTC (va_CreatedAt r) \<rparr>"

definition vaddr_json :: "VirtualAddress \<Rightarrow> json" where
  "vaddr_json r =
     (let v = toVirtualAddressView r in
      JObj ([(''id'', JStr (vv_ID v)), (''wallet_id'', JStr (vv_WalletID v)), (''group_id'', JStr (vv_GroupID v)),
             (''label'', JStr (vv_Label v)), (''address'', JStr (vv_Address v))]
        @ opt_str ''registration_tx_hash'' (vv_RegistrationTxHash v) @ opt_str ''created_at'' (vv_CreatedAt v)))"

text \<open>The label is trimmed for the check only.\<close>

definition validateLabel :: "string \<Rightarrow> string option" where
  "validateLabel s0 =
     (let s = TrimSpace s0 in
      if s = [] then Some ''label is required''
      else if 200 < length s then Some ''label too long (max 200 chars)'' else None)"

definition vaddr_row :: "VirtualAddresses \<Rightarrow> env \<Rightarrow> string \<Rightarrow> WalletGroup \<Rightarrow> Wallet \<Rightarrow> string \<Rightarrow> string \<Rightarrow> address \<Rightarrow> VirtualAddress" where
  "vaddr_row h e tenantID g w label hash vaddr =
     \<lparr> va_ID = fresh_id e ''VirtualAddresses.Create.vaddr'' [], va_TenantID = tenantID, va_WalletID = wl_ID w, va_GroupID = wg_ID g,
       va_Label = label, va_Address = Address_Hex (ta_geth (vh_tempo h)) vaddr, va_RegistrationTxHash = pgxText hash,
       va_Metadata = empty_object, va_CreatedAt = 0 \<rparr>"

definition persist_failure :: "string \<Rightarrow> string \<Rightarrow> string \<Rightarrow> response" where
  "persist_failure addr hash err = Reply 500 (JObj
     [(''error'', JStr ''internal error recording virtual address (chain registration succeeded)''), (''address'', JStr addr),
      (''registration_tx'', JStr hash), (''persist_error'', JStr err)])"

text \<open>The part of the route after the idempotency lookup.\<close>

definition register_label ::
    "VirtualAddresses \<Rightarrow> env \<Rightarrow> string \<Rightarrow> WalletGroup \<Rightarrow> Wallet \<Rightarrow> string \<Rightarrow> 'r world \<Rightarrow> response \<times> 'r world" where
  "register_label h e tenantID g w label s =
     (case (wl_EncryptedPrivateKey w, wl_KeyVersion w) of
        (Some (b # bs), Some ver) \<Rightarrow>
          (case Decrypt (vh_ks h) (b # bs) ver of
             Inl _ \<Rightarrow> (internalError, s)
           | Inr master \<Rightarrow>
               (case RegisterVirtualAddress (vh_tempo h) (vh_registry h)
                       \<lparr> rv_ParentPrivKey = master, rv_ParentAddress = wl_Address w,
                         rv_Label = LabelToBytes32 (vh_registry h) label \<rparr> of
                  (Inl err, sent) \<Rightarrow> (upstreamError ''tempo'' err, s\<lparr>w_chain := w_chain s @ sent\<rparr>)
                | (Inr (hash, vaddr), sent) \<Rightarrow>
                    (case db_write (fault e ''VirtualAddresses.Create.CreateVirtualAddress'' []) (w_db s)
                            (CreateVirtualAddress (clock e ''VirtualAddresses.Create.sqlnow'' [])
                               (vaddr_row h e tenantID g w label hash vaddr) (w_db s)) of
                       (Inl err, d1) \<Rightarrow>
                         (persist_failure (Address_Hex (ta_geth (vh_tempo h)) vaddr) hash (db_error_text err),
                          s\<lparr>w_db := d1, w_chain := w_chain s @ sent\<rparr>)
                     | (Inr row, d1) \<Rightarrow>
                         (Reply 201 (vaddr_json row), s\<lparr>w_db := d1, w_chain := w_chain s @ sent\<rparr>))))
      | _ \<Rightarrow> (internalError, s))"

definition VirtualAddresses_Create ::
    "VirtualAddresses \<Rightarrow> env \<Rightarrow> request_ctx \<Rightarrow> string option \<Rightarrow> 'r world \<Rightarrow> response \<times> 'r world" where
  "VirtualAddresses_Create h e cx body s =
     (let tenantID = cx_TenantID cx; groupID = cx_Params cx ''id'' in
      if tenantID = [] then (badRequest ''missing tenant context'', s)
      else if groupID = [] then (badRequest ''missing group id'', s)
      else
        (case body of
           None \<Rightarrow> (badRequest ''invalid JSON body'', s)
         | Some label \<Rightarrow>
             (case validateLabel label of
                Some msg \<Rightarrow> (badRequest msg, s)
              | None \<Rightarrow>
                  (case load_group e ''VirtualAddresses.Create.GetWalletGroupByID'' tenantID groupID (w_db s) of
                     None \<Rightarrow> (notFound ''wallet group not found'', s)
                   | Some g \<Rightarrow>
                       (case db_read (fault e ''VirtualAddresses.Create.GetWalletByGroupAndRail'' [])
                               (GetWalletByGroupAndRail (wg_ID g) RailTempo (w_db s)) of
                          Inl _ \<Rightarrow> (Reply 422 (error_body ''group has no active Tempo wallet (virtual addresses are Tempo-only today)''), s)
                        | Inr w \<Rightarrow>
                            (case db_read (fault e ''VirtualAddresses.Create.GetVirtualAddressByLabel'' [])
                                    (GetVirtualAddressByLabel (wl_ID w) label (w_db s)) of
                               Inr existing \<Rightarrow> (Reply 200 (vaddr_json existing), s)
                             | Inl _ \<Rightarrow> register_label h e tenantID g w label s))))))"

definition VirtualAddresses_List :: "env \<Rightarrow> request_ctx \<Rightarrow> db \<Rightarrow> response" where
  "VirtualAddresses_List e cx d =
     (if cx_TenantID cx = [] then badRequest ''missing tenant context''
      else
        (case load_group e ''VirtualAddresses.List.GetWalletGroupByID'' (cx_TenantID cx) (cx_Params cx ''id'') d of
           None \<Rightarrow> notFound ''wallet group not found''
         | Some g \<Rightarrow>
             (case db_read (fault e ''VirtualAddresses.List.GetWalletByGroupAndRail'' []) (GetWalletByGroupAndRail (wg_ID g) RailTempo d) of
                Inl _ \<Rightarrow> Reply 200 (JObj [(''data'', JArr [])])
              | Inr w \<Rightarrow>
                  (case db_read (fault e ''VirtualAddresses.List.ListVirtualAddressesForWallet'' [])
                          (paged (page_bounds cx) (\<lambda>l off. ListVirtualAddressesForWallet (wl_ID w) l off d)) of
                     Inl _ \<Rightarrow> internalError
                   | Inr rows \<Rightarrow> Reply 200 (JObj [(''data'', JArr (map vaddr_json rows))])))))"

end
