(* ===== verification/Virtual_Addresses_Spec.thy ===== *)
theory Virtual_Addresses_Spec
  imports Virtual_Addresses Transfers_Spec Tenant_Services
begin

text \<open>
  The virtual-address routes: what a registration sends and stores, how a repetition is answered, and what happens when its
  address cannot be looked up.
\<close>

section \<open>Registration\<close>

definition looked_up :: "tempo_adapter \<Rightarrow> registry_lib \<Rightarrow> address \<Rightarrow> bytes \<Rightarrow> address" where
  "looked_up a rg parent label =
     (let before = resolved_or_zero (ResolveVirtualAddress a rg ''before'' parent label) in
      if before = zero_address then resolved_or_zero (ResolveVirtualAddress a rg ''after'' parent label) else before)"

text \<open>A transaction that registers the label under the parent, signed with the parent's key.\<close>

definition registers :: "tempo_adapter \<Rightarrow> registry_lib \<Rightarrow> bytes \<Rightarrow> bytes \<Rightarrow> eth_tx \<Rightarrow> bool" where
  "registers a rg priv label tx \<longleftrightarrow> (\<exists>lt data. SignTx (ta_geth a) lt (ChainID (ta_eth a)) priv = Inr tx
     \<and> abi_register rg (PubkeyToAddress (ta_geth a) priv) label = Inr data \<and> lt_Data lt = data \<and> lt_Value lt = 0
     \<and> lt_To lt = HexToAddress (ta_geth a) AddressRegistryAddress)"

lemma RegisterVirtualAddress_Inr:
  assumes "RegisterVirtualAddress a rg inp = (Inr (hash, vaddr), sent)"
  shows "\<exists>priv tx. privateKeyFromBytes (ta_geth a) (rv_ParentPrivKey inp) = Inr priv
    \<and> PubkeyToAddress (ta_geth a) priv = HexToAddress (ta_geth a) (rv_ParentAddress inp)
    \<and> sent = [tx] \<and> registers a rg priv (rv_Label inp) tx \<and> hash = tx_Hash (ta_geth a) tx
    \<and> vaddr = looked_up a rg (PubkeyToAddress (ta_geth a) priv) (rv_Label inp)"
proof -
  obtain priv data lt where x: "privateKeyFromBytes (ta_geth a) (rv_ParentPrivKey inp) = Inr priv"
    "PubkeyToAddress (ta_geth a) priv = HexToAddress (ta_geth a) (rv_ParentAddress inp)"
    "abi_register rg (PubkeyToAddress (ta_geth a) priv) (rv_Label inp) = Inr data"
    "assemble a [] 300000 (PubkeyToAddress (ta_geth a) priv) (HexToAddress (ta_geth a) AddressRegistryAddress) data = Inr lt"
    "sign_and_send a ''sign'' ''broadcast'' priv lt = (Inr hash, sent)"
    "vaddr = looked_up a rg (PubkeyToAddress (ta_geth a) priv) (rv_Label inp)"
    using assms by (auto simp: RegisterVirtualAddress_def looked_up_def Let_def split: sum.splits prod.splits if_splits)
  note lt = assemble_Inr [OF x(4)]
  show ?thesis using x(1,2,3,6) lt sign_and_send_cases [OF x(5)] unfolding registers_def by blast
qed

lemma RegisterVirtualAddress_sent: "length (snd (RegisterVirtualAddress a rg inp)) \<le> 1"
proof -
  have "length sent \<le> 1" if "sign_and_send a p q priv lt = (res, sent)" for p q priv lt res sent
    using sign_and_send_cases [OF that] by auto
  then show ?thesis by (auto simp: RegisterVirtualAddress_def Let_def split: sum.split prod.split)
qed

lemma VirtualAddresses_Create_201:
  assumes "VirtualAddresses_Create h e cx (Some label) s = (Reply 201 v, s')"
  obtains g w priv_bytes hash vaddr sent row d1 b bs ver where
    "cx_TenantID cx \<noteq> []" "cx_Params cx ''id'' \<noteq> []" "validateLabel label = None"
    "load_group e ''VirtualAddresses.Create.GetWalletGroupByID'' (cx_TenantID cx) (cx_Params cx ''id'') (w_db s) = Some g"
    "GetWalletByGroupAndRail (wg_ID g) RailTempo (w_db s) = Inr w"
    "wl_EncryptedPrivateKey w = Some (b # bs)" "wl_KeyVersion w = Some ver" "Decrypt (vh_ks h) (b # bs) ver = Inr priv_bytes"
    "RegisterVirtualAddress (vh_tempo h) (vh_registry h) \<lparr> rv_ParentPrivKey = priv_bytes, rv_ParentAddress = wl_Address w,
       rv_Label = LabelToBytes32 (vh_registry h) label \<rparr> = (Inr (hash, vaddr), sent)"
    "CreateVirtualAddress (clock e ''VirtualAddresses.Create.sqlnow'' []) (vaddr_row h e (cx_TenantID cx) g w label hash vaddr) (w_db s) = (Inr row, d1)"
    "v = vaddr_json row" "s' = s\<lparr>w_db := d1, w_chain := w_chain s @ sent\<rparr>"
  using assms
  by (auto simp: VirtualAddresses_Create_def register_label_def persist_failure_def upstreamError_def db_read_Inr db_write_def Let_def
      split: if_splits option.splits sum.splits prod.splits list.splits)

lemma CreateVirtualAddress_Inr:
  assumes "CreateVirtualAddress now a d = (Inr row, d')"
  shows "row = a\<lparr>va_CreatedAt := now\<rparr>" "d' = d\<lparr>virtual_addresses := virtual_addresses d @ [row]\<rparr>"
    "\<forall>v \<in> set (virtual_addresses d). va_WalletID v = va_WalletID row \<longrightarrow> va_Label v \<noteq> va_Label row"
  using assms by (auto simp: CreateVirtualAddress_def Let_def exists_row_def list_ex_iff split: if_splits)

text \<open>
  What a registration leaves: one transaction on the chain, one row, and the lookups that a repetition
  of the request makes.
\<close>

definition answers_label :: "request_ctx \<Rightarrow> string \<Rightarrow> VirtualAddress \<Rightarrow> db \<Rightarrow> bool" where
  "answers_label cx label row d \<longleftrightarrow> (\<exists>g w. GetWalletGroupByID (cx_Params cx ''id'') d = Inr g \<and> wg_TenantID g = cx_TenantID cx
     \<and> GetWalletByGroupAndRail (wg_ID g) RailTempo d = Inr w \<and> GetVirtualAddressByLabel (wl_ID w) label d = Inr row)"

lemma registration:
  assumes run: "VirtualAddresses_Create h e cx (Some label) s = (Reply 201 v, s')"
  obtains w priv tx row where "w \<in> set (wallets (w_db s))" "wl_Rail w = RailTempo"
    "w_chain s' = w_chain s @ [tx]" "registers (vh_tempo h) (vh_registry h) priv (LabelToBytes32 (vh_registry h) label) tx"
    "PubkeyToAddress (ta_geth (vh_tempo h)) priv = HexToAddress (ta_geth (vh_tempo h)) (wl_Address w)"
    "w_db s' = (w_db s)\<lparr>virtual_addresses := virtual_addresses (w_db s) @ [row]\<rparr>"
    "va_TenantID row = cx_TenantID cx" "va_WalletID row = wl_ID w" "va_Label row = label"
    "va_RegistrationTxHash row = pgxText (tx_Hash (ta_geth (vh_tempo h)) tx)"
    "va_Address row = Address_Hex (ta_geth (vh_tempo h))
        (looked_up (vh_tempo h) (vh_registry h) (PubkeyToAddress (ta_geth (vh_tempo h)) priv) (LabelToBytes32 (vh_registry h) label))"
    "v = vaddr_json row" "cx_TenantID cx \<noteq> []" "cx_Params cx ''id'' \<noteq> []" "validateLabel label = None"
    "answers_label cx label row (w_db s')"
  using run
proof (cases rule: VirtualAddresses_Create_201)
  case (1 g w priv_bytes hash vaddr sent row d1 b bs ver)
  note row = CreateVirtualAddress_Inr [OF 1(10)]
  obtain priv tx where tx: "PubkeyToAddress (ta_geth (vh_tempo h)) priv = HexToAddress (ta_geth (vh_tempo h)) (wl_Address w)"
    "sent = [tx]" "registers (vh_tempo h) (vh_registry h) priv (LabelToBytes32 (vh_registry h) label) tx" "hash = tx_Hash (ta_geth (vh_tempo h)) tx"
    "vaddr = looked_up (vh_tempo h) (vh_registry h) (PubkeyToAddress (ta_geth (vh_tempo h)) priv) (LabelToBytes32 (vh_registry h) label)"
    using RegisterVirtualAddress_Inr [OF 1(9)] by auto
  have fields: "va_TenantID row = cx_TenantID cx" "va_WalletID row = wl_ID w" "va_Label row = label" "va_RegistrationTxHash row = pgxText hash"
    "va_Address row = Address_Hex (ta_geth (vh_tempo h)) vaddr"
    using row(1) by (simp_all add: vaddr_row_def)
  have "GetVirtualAddressByLabel (wl_ID w) label d1 = Inr row"
    using row(2,3) fields by (auto simp: GetVirtualAddressByLabel_def select_one_Inr find_append find_None_iff split: option.splits dest!: find_Some_D)
  moreover have "GetWalletGroupByID (cx_Params cx ''id'') d1 = Inr g" "wg_TenantID g = cx_TenantID cx"
    using 1(4) row(2) by (auto simp: load_group_def db_read_Inr GetWalletGroupByID_def split: sum.splits if_splits)
  moreover have "GetWalletByGroupAndRail (wg_ID g) RailTempo d1 = Inr w" using 1(5) row(2) by (simp add: GetWalletByGroupAndRail_def)
  ultimately have ans: "answers_label cx label row (w_db s')" using 1(12) by (auto simp: answers_label_def)
  have wm: "w \<in> set (wallets (w_db s))" "wl_Rail w = RailTempo" using 1(5) by (auto simp: GetWalletByGroupAndRail_def dest!: select_one_D)
  show ?thesis
    by (rule that [of w tx priv row]) (use 1(1-3,11,12) row(2) tx fields wm ans in auto)
qed

text \<open>A repetition that can read these rows is answered from them; a failing read of the label is taken for its absence.\<close>

lemma registered_again:
  assumes "answers_label cx label row (w_db s)" "\<forall>site. fault e site [] = None"
    "cx_TenantID cx \<noteq> []" "cx_Params cx ''id'' \<noteq> []" "validateLabel label = None"
  shows "VirtualAddresses_Create h e cx (Some label) s = (Reply 200 (vaddr_json row), s)"
  using assms by (auto simp: answers_label_def VirtualAddresses_Create_def load_group_def)

lemma failed_lookup_registers_again:
  assumes "answers_label cx label row (w_db s)" "cx_TenantID cx \<noteq> []" "cx_Params cx ''id'' \<noteq> []" "validateLabel label = None"
    "fault e ''VirtualAddresses.Create.GetWalletGroupByID'' [] = None" "fault e ''VirtualAddresses.Create.GetWalletByGroupAndRail'' [] = None"
    "fault e ''VirtualAddresses.Create.GetVirtualAddressByLabel'' [] = Some err"
  shows "\<exists>g w. VirtualAddresses_Create h e cx (Some label) s = register_label h e (cx_TenantID cx) g w label s"
proof -
  obtain g w where "GetWalletGroupByID (cx_Params cx ''id'') (w_db s) = Inr g" "wg_TenantID g = cx_TenantID cx"
    "GetWalletByGroupAndRail (wg_ID g) RailTempo (w_db s) = Inr w" using assms(1) by (auto simp: answers_label_def)
  then have "VirtualAddresses_Create h e cx (Some label) s = register_label h e (cx_TenantID cx) g w label s"
    using assms(2-) by (simp add: VirtualAddresses_Create_def load_group_def db_read_def)
  then show ?thesis by blast
qed

definition demo_registry :: registry_lib where
  "demo_registry = \<lparr> Keccak256 = (\<lambda>s. replicate 32 CHR ''h''), abi_resolve = (\<lambda>p l. Inr p), abi_register = (\<lambda>p l. Inr (p @ l)),
     abi_unpack_resolve = (\<lambda>out. Inr [AddressValue out]), registry_call = (\<lambda>site to data. if site = ''after'' then Inr ''va'' else Inl ''not found'') \<rparr>"

definition demo_vaddr_handler :: VirtualAddresses where
  "demo_vaddr_handler = \<lparr> vh_tempo = demo_tempo, vh_registry = demo_registry, vh_ks = demo_ks \<rparr>"

lemma demo_registered:
  "\<exists>v s'. VirtualAddresses_Create demo_vaddr_handler (calm_env 0) demo_ctx (Some ''invoice-42'') (demo_world (\<lambda>_. 0)) = (Reply 201 v, s')"
proof -
  have l: "validateLabel ''invoice-42'' = None" by code_simp
  obtain b bs where b: "demo_blob = b # bs" by (cases demo_blob) (simp_all add: demo_blob_def)
  have k: "privateKeyFromBytes demo_geth (replicate 32 CHR ''k'') = Inr (replicate 32 CHR ''k'')"
    by (simp add: privateKeyFromBytes_def PrivateKeyBytes_def demo_geth_def)
  have kk: "take 2 (replicate 32 CHR ''k'') = ''kk''" by (simp add: numeral_eq_Suc)
  have z: "zero_address \<noteq> ''va''" by (simp add: zero_address_def numeral_eq_Suc)
  have res: "resolved_or_zero (ResolveVirtualAddress demo_tempo demo_registry ''before'' p lab) = zero_address"
    "resolved_or_zero (ResolveVirtualAddress demo_tempo demo_registry ''after'' p lab) = ''va''" for p lab
    by (simp_all add: ResolveVirtualAddress_def demo_registry_def resolved_or_zero_def)
  have a: "ta_geth demo_tempo = demo_geth" "ta_eth demo_tempo = demo_eth" by (simp_all add: demo_tempo_def)
  have gh: "PubkeyToAddress demo_geth x = take 2 x" "HexToAddress demo_geth x = x" "SignTx demo_geth lt c x = Inr (lt_Data lt)" for x lt c
    by (simp_all add: demo_geth_def)
  have asm: "assemble demo_tempo [] 300000 p to data = Inr \<lparr> lt_Nonce = 7, lt_To = to, lt_Value = 0, lt_Gas = 300000, lt_GasPrice = 1, lt_Data = data \<rparr>"
    for p to data by (simp add: assemble_def demo_tempo_def demo_eth_def Let_def)
  have snd: "sign_and_send demo_tempo p q priv lt = (Inr (tx_Hash demo_geth (lt_Data lt)), [lt_Data lt])" "abi_register demo_registry x l = Inr (x @ l)"
    for p q priv lt x l using a gh by (simp_all add: sign_and_send_def demo_registry_def demo_eth_def)
  have r: "\<exists>hash. RegisterVirtualAddress demo_tempo demo_registry \<lparr> rv_ParentPrivKey = replicate 32 CHR ''k'', rv_ParentAddress = ''kk'', rv_Label = lab \<rparr>
      = (Inr (hash, ''va''), [''kk'' @ lab])" for lab
    using k kk
    by (simp add: RegisterVirtualAddress_def a gh res asm snd Let_def del: take_replicate)
  have d: "Decrypt demo_ks (b # bs) 1 = Inr (replicate 32 CHR ''k'')" using demo_decrypt by (simp add: b)
  have g: "load_group (calm_env 0) ''VirtualAddresses.Create.GetWalletGroupByID'' ''tn'' ''wg'' demo_bank = Some demo_group"
    by (simp add: load_group_def GetWalletGroupByID_def demo_bank_def demo_group_def select_one_def calm_env_def)
  have w: "GetWalletByGroupAndRail ''wg'' RailTempo demo_bank = Inr demo_wallet" "virtual_addresses demo_bank = []"
    by (simp_all add: GetWalletByGroupAndRail_def demo_bank_def demo_wallet_def select_one_def RailTempo_def empty_db_def)
  have f: "fault (calm_env 0) x y = None" for x y by (simp add: calm_env_def)
  have ids: "wg_ID demo_group = ''wg''" "wl_ID demo_wallet = ''wl''" "wl_EncryptedPrivateKey demo_wallet = Some (b # bs)" "wl_KeyVersion demo_wallet = Some 1"
    "wl_Address demo_wallet = ''kk''" by (simp_all add: demo_group_def demo_wallet_def b)
  have c: "\<exists>row d1. CreateVirtualAddress now (vaddr_row demo_vaddr_handler (calm_env 0) ''tn'' demo_group demo_wallet ''invoice-42'' hash x) demo_bank = (Inr row, d1)" for now hash x
    by (simp add: CreateVirtualAddress_def vaddr_row_def demo_bank_def empty_db_def exists_row_def demo_group_def demo_wallet_def demo_tenant_def Let_def)
  obtain hash where h: "RegisterVirtualAddress demo_tempo demo_registry \<lparr> rv_ParentPrivKey = replicate 32 CHR ''k'', rv_ParentAddress = ''kk'',
      rv_Label = LabelToBytes32 demo_registry ''invoice-42'' \<rparr> = (Inr (hash, ''va''), [''kk'' @ LabelToBytes32 demo_registry ''invoice-42''])" using r by blast
  obtain row d1 where row: "CreateVirtualAddress (clock (calm_env 0) ''VirtualAddresses.Create.sqlnow'' [])
      (vaddr_row demo_vaddr_handler (calm_env 0) ''tn'' demo_group demo_wallet ''invoice-42'' hash ''va'') demo_bank = (Inr row, d1)" using c by blast
  have v: "vh_tempo demo_vaddr_handler = demo_tempo" "vh_registry demo_vaddr_handler = demo_registry" "vh_ks demo_vaddr_handler = demo_ks"
    by (simp_all add: demo_vaddr_handler_def)
  show ?thesis
    unfolding VirtualAddresses_Create_def
    by (simp add: demo_ctx_def demo_world_def l g w f ids register_label_def v d h row GetVirtualAddressByLabel_def select_one_def Let_def)
qed

text \<open>
  When the address cannot be looked up before or after the broadcast, the route still answers 201, and the
  row holds the zero address, which every later request is answered with.
\<close>

lemma unresolved_label_gets_the_zero_address:
  assumes run: "VirtualAddresses_Create h e cx (Some label) s = (Reply 201 v, s')"
    and down: "\<And>site p l. \<exists>err. ResolveVirtualAddress (vh_tempo h) (vh_registry h) site p l = Inl err"
  shows "va_Address (last (virtual_addresses (w_db s'))) = Address_Hex (ta_geth (vh_tempo h)) zero_address"
  using run
proof (cases rule: VirtualAddresses_Create_201)
  case (1 g w priv_bytes hash vaddr sent row d1 b bs ver)
  have "resolved_or_zero (ResolveVirtualAddress (vh_tempo h) (vh_registry h) site p l) = zero_address" for site p l
    using down [of site p l] by (auto simp: resolved_or_zero_def)
  then have "vaddr = zero_address" using RegisterVirtualAddress_Inr [OF 1(9)] by (auto simp: looked_up_def)
  then show ?thesis using CreateVirtualAddress_Inr [OF 1(10)] 1(12) by (simp add: vaddr_row_def)
qed

section \<open>The invariants of the store\<close>

context tenant_store
begin

lemma register_label_keep:
  assumes "P t (w_db s)"
  shows "P t (w_db (snd (register_label h e t g w label s)))"
proof -
  have c: "P t d1" if "db_write f (w_db s) (CreateVirtualAddress now (vaddr_row h e t g w label hash x) (w_db s)) = (y, d1)" for f now hash x y d1
    using that assms by (rule keep_write) (intro keep_CreateVirtualAddress assms, simp add: vaddr_row_def)
  show ?thesis using assms
    by (auto simp: register_label_def dest: c split: option.split list.split sum.split prod.split)
qed

lemma VirtualAddresses_Create_keep:
  assumes "P (cx_TenantID cx) (w_db s)"
  shows "P (cx_TenantID cx) (w_db (snd (VirtualAddresses_Create h e cx body s)))"
  using assms register_label_keep [OF assms]
  by (auto simp: VirtualAddresses_Create_def Let_def split: option.split sum.split)

end

end
