(* ===== verification/Statements.thy ===== *)
theory Statements
  imports Handlers Auth_Primitives
begin

text \<open>
  The accounting routes of \<open>handlers/statements.go\<close> and the aggregate queries they call. What PostgreSQL
  computes is a parameter (\<open>pg_aggregates\<close>): the sum of a \<open>NUMERIC\<close> column printed as text, and the order
  of the database's collation on the two text columns a result is sorted by.
\<close>

section \<open>Queries\<close>

record pg_aggregates =
  agg_order :: "(string \<times> string) list \<Rightarrow> (string \<times> string) list"
  agg_sum_text :: "string list \<Rightarrow> string"
  agg_sum_numeric :: "numeric list \<Rightarrow> string"

text \<open>\<open>GROUP BY\<close> two columns, ordered by them.\<close>

definition group_rows :: "pg_aggregates \<Rightarrow> ('a \<Rightarrow> string \<times> string) \<Rightarrow> 'a list \<Rightarrow> ((string \<times> string) \<times> 'a list) list" where
  "group_rows a key rs = map (\<lambda>k. (k, filter (\<lambda>r. key r = k) rs)) (agg_order a (remdups (map key rs)))"

text \<open>The rows of \<open>GroupBalanceSummary\<close> and of \<open>TenantMonthlyStatement\<close>, and of \<open>TenantMonthlyOnramp\<close>.\<close>

record BalanceRow =
  br_Asset :: string
  br_Direction :: string
  br_TxCount :: int
  br_TotalAmount :: string

record OnrampRow =
  orr_FiatCurrency :: string
  orr_Asset :: string
  orr_OrderCount :: int
  orr_FiatTotal :: string
  orr_CryptoDelivered :: string

definition tx_bucket :: "Transaction \<Rightarrow> string \<times> string" where
  "tx_bucket r = (tx_Asset r, tx_Direction r)"

definition balance_rows :: "pg_aggregates \<Rightarrow> Transaction list \<Rightarrow> BalanceRow list" where
  "balance_rows a rs =
     map (\<lambda>((asset, dir), ts). \<lparr> br_Asset = asset, br_Direction = dir, br_TxCount = int (length ts),
                                br_TotalAmount = agg_sum_text a (map tx_Amount ts) \<rparr>) (group_rows a tx_bucket rs)"

definition GroupBalanceSummary :: "pg_aggregates \<Rightarrow> string \<Rightarrow> db \<Rightarrow> BalanceRow list" where
  "GroupBalanceSummary a groupID d =
     balance_rows a (filter (\<lambda>r. tx_GroupID r = groupID \<and> tx_Status r = ''succeeded'') (transactions d))"

definition settled_in :: "string \<Rightarrow> time \<Rightarrow> time \<Rightarrow> Transaction \<Rightarrow> bool" where
  "settled_in tenantID from to r \<longleftrightarrow>
     tx_TenantID r = tenantID \<and> tx_Status r = ''succeeded'' \<and> from \<le> tx_CreatedAt r \<and> tx_CreatedAt r < to"

definition TenantMonthlyStatement :: "pg_aggregates \<Rightarrow> string \<Rightarrow> time \<Rightarrow> time \<Rightarrow> db \<Rightarrow> BalanceRow list" where
  "TenantMonthlyStatement a tenantID from to d = balance_rows a (filter (settled_in tenantID from to) (transactions d))"

definition completed_in :: "string \<Rightarrow> time \<Rightarrow> time \<Rightarrow> OnrampOrder \<Rightarrow> bool" where
  "completed_in tenantID from to r \<longleftrightarrow>
     oo_TenantID r = tenantID \<and> oo_Status r = ''completed'' \<and> from \<le> oo_CreatedAt r \<and> oo_CreatedAt r < to"

definition onramp_bucket :: "OnrampOrder \<Rightarrow> string \<times> string" where
  "onramp_bucket r = (oo_FiatCurrency r, oo_Asset r)"

text \<open>
  \<open>SUM\<close> ignores NULLs and is NULL over nothing else; \<open>Scan\<close> refuses to read a NULL into a Go string,
  which fails the whole query (\<open>None\<close>).
\<close>

definition onramp_line :: "pg_aggregates \<Rightarrow> (string \<times> string) \<times> OnrampOrder list \<Rightarrow> OnrampRow option" where
  "onramp_line a = (\<lambda>((currency, asset), os).
     (case List.map_filter oo_CryptoAmount os of
        [] \<Rightarrow> None
      | xs \<Rightarrow> Some \<lparr> orr_FiatCurrency = currency, orr_Asset = asset, orr_OrderCount = int (length os),
                    orr_FiatTotal = agg_sum_text a (map oo_FiatAmount os), orr_CryptoDelivered = agg_sum_numeric a xs \<rparr>))"

definition TenantMonthlyOnramp :: "pg_aggregates \<Rightarrow> string \<Rightarrow> time \<Rightarrow> time \<Rightarrow> db \<Rightarrow> OnrampRow list option" where
  "TenantMonthlyOnramp a tenantID from to d =
     those (map (onramp_line a) (group_rows a onramp_bucket (filter (completed_in tenantID from to) (onramp_orders d))))"

section \<open>Views\<close>

record AssetBalanceLine =
  abl_Asset :: string
  abl_Direction :: string
  abl_TxCount :: int
  abl_TotalAmount :: string

record OnrampLine =
  orl_FiatCurrency :: string
  orl_Asset :: string
  orl_OrderCount :: int
  orl_FiatTotal :: string
  orl_CryptoDelivered :: string

record MonthlyStatement =
  ms_Month :: string
  ms_WindowStart :: string
  ms_WindowEnd :: string
  ms_Transactions :: "AssetBalanceLine list"
  ms_Onramp :: "OnrampLine list"

definition balance_line :: "BalanceRow \<Rightarrow> AssetBalanceLine" where
  "balance_line r =
     \<lparr> abl_Asset = br_Asset r, abl_Direction = br_Direction r, abl_TxCount = br_TxCount r, abl_TotalAmount = br_TotalAmount r \<rparr>"

definition onramp_line_view :: "OnrampRow \<Rightarrow> OnrampLine" where
  "onramp_line_view r =
     \<lparr> orl_FiatCurrency = orr_FiatCurrency r, orl_Asset = orr_Asset r, orl_OrderCount = orr_OrderCount r,
       orl_FiatTotal = orr_FiatTotal r, orl_CryptoDelivered = orr_CryptoDelivered r \<rparr>"

definition balance_line_json :: "AssetBalanceLine \<Rightarrow> json" where
  "balance_line_json l = JObj
     [(''asset'', JStr (abl_Asset l)), (''direction'', JStr (abl_Direction l)), (''tx_count'', JNum (int_to_dec (abl_TxCount l))),
      (''total_amount'', JStr (abl_TotalAmount l))]"

definition onramp_line_json :: "OnrampLine \<Rightarrow> json" where
  "onramp_line_json l = JObj
     [(''fiat_currency'', JStr (orl_FiatCurrency l)), (''asset'', JStr (orl_Asset l)),
      (''order_count'', JNum (int_to_dec (orl_OrderCount l))), (''fiat_total'', JStr (orl_FiatTotal l)),
      (''crypto_delivered'', JStr (orl_CryptoDelivered l))]"

definition statement_json :: "MonthlyStatement \<Rightarrow> json" where
  "statement_json m = JObj
     [(''month'', JStr (ms_Month m)), (''window_start'', JStr (ms_WindowStart m)), (''window_end'', JStr (ms_WindowEnd m)),
      (''transactions'', JArr (map balance_line_json (ms_Transactions m))), (''onramp'', JArr (map onramp_line_json (ms_Onramp m)))]"

section \<open>Routes\<close>

definition Statements_GetGroupBalance :: "pg_aggregates \<Rightarrow> env \<Rightarrow> request_ctx \<Rightarrow> db \<Rightarrow> response" where
  "Statements_GetGroupBalance a e cx d =
     (if cx_TenantID cx = [] then badRequest ''missing tenant context''
      else
        (case load_group e ''GetGroupBalance.GetWalletGroupByID'' (cx_TenantID cx) (cx_Params cx ''id'') d of
           None \<Rightarrow> notFound ''wallet group not found''
         | Some g \<Rightarrow>
             (case fault e ''GetGroupBalance.GroupBalanceSummary'' [] of
                Some _ \<Rightarrow> internalError
              | None \<Rightarrow>
                  Reply 200 (JObj [(''group_id'', JStr (wg_ID g)),
                    (''lines'', JArr (map (\<lambda>r. balance_line_json (balance_line r)) (GroupBalanceSummary a (wg_ID g) d)))]))))"

text \<open>\<open>t.AddDate(0, n, 0)\<close>.\<close>

definition AddDate_months :: "location \<Rightarrow> time \<Rightarrow> int \<Rightarrow> time" where
  "AddDate_months loc t n =
     (case civil (local_day loc t) of (y, m, d) \<Rightarrow> go_Date loc y (m + n) d (clock_of loc t) + t mod second)"

definition parseMonthWindow :: "string \<Rightarrow> string + time \<times> time" where
  "parseMonthWindow s0 =
     (let s = TrimSpace s0; parts = Split CHR ''-'' s in
      if length parts \<noteq> 2 \<or> length (parts ! 0) \<noteq> 4 \<or> length (parts ! 1) \<noteq> 2 then Inl ''month must be YYYY-MM''
      else
        (case (ParseInt 64 (parts ! 0), ParseInt 64 (parts ! 1)) of
           (Some year, Some mon) \<Rightarrow>
             if mon < 1 \<or> 12 < mon then Inl (''month '' @ go_quote s @ '' out of range'')
             else (let start = go_Date UTC year mon 1 0 in Inr (start, AddDate_months UTC start 1))
         | _ \<Rightarrow> Inl (''month '' @ go_quote s @ '' out of range'')))"

definition Statements_GetMonthlyStatement :: "pg_aggregates \<Rightarrow> env \<Rightarrow> request_ctx \<Rightarrow> db \<Rightarrow> response" where
  "Statements_GetMonthlyStatement a e cx d =
     (if cx_TenantID cx = [] then badRequest ''missing tenant context''
      else
        (case parseMonthWindow (cx_Params cx ''month'') of
           Inl msg \<Rightarrow> badRequest msg
         | Inr (from, to) \<Rightarrow>
             (case fault e ''GetMonthlyStatement.TenantMonthlyStatement'' [] of
                Some _ \<Rightarrow> internalError
              | None \<Rightarrow>
                  (case (fault e ''GetMonthlyStatement.TenantMonthlyOnramp'' [], TenantMonthlyOnramp a (cx_TenantID cx) from to d) of
                     (None, Some orRows) \<Rightarrow>
                       Reply 200 (statement_json
                         \<lparr> ms_Month = cx_Params cx ''month'', ms_WindowStart = Format_RFC3339_UTC from,
                           ms_WindowEnd = Format_RFC3339_UTC to,
                           ms_Transactions = map balance_line (TenantMonthlyStatement a (cx_TenantID cx) from to d),
                           ms_Onramp = map onramp_line_view orRows \<rparr>)
                   | _ \<Rightarrow> internalError))))"

end
