(* ===== verification/Statements_Spec.thy ===== *)
theory Statements_Spec
  imports Statements Wallet_Groups_Spec "HOL-Library.Multiset"
begin

text \<open>
  Monthly statements: the window of a month is the days the calendar gives it and the lines partition the
  transactions, so every settled transaction of the month is counted once; and the completed onramp order that breaks a statement.
\<close>

section \<open>Months\<close>

lemma month_window:
  assumes "1 \<le> m" "m \<le> 12"
  shows "AddDate_months UTC (go_Date UTC y m 1 0) 1 = midnight 0 (days_of_civil y (m + 1) 1)"
    "go_Date UTC y m 1 0 = midnight 0 (days_of_civil y m 1)"
proof -
  show s: "go_Date UTC y m 1 0 = midnight 0 (days_of_civil y m 1)" by (simp add: UTC_fixed go_Date_midnight)
  have "civil (days_of_civil y m 1) = (y, m, 1)"
    using month_start_bounds(3) [OF assms, of y] by (intro civil_days_of_civil assms) linarith+
  moreover have "midnight 0 D mod second = 0" for D by (simp add: midnight_def)
  ultimately show "AddDate_months UTC (go_Date UTC y m 1 0) 1 = midnight 0 (days_of_civil y (m + 1) 1)"
    unfolding s AddDate_months_def UTC_fixed by (simp add: go_Date_midnight)
qed

lemma parseMonthWindow_Inr:
  assumes "parseMonthWindow s = Inr (from, to)"
  obtains y m where "1 \<le> m" "m \<le> 12" "from = midnight 0 (days_of_civil y m 1)" "to = midnight 0 (days_of_civil y (m + 1) 1)"
proof -
  obtain y m where x: "1 \<le> m" "m \<le> 12" "from = go_Date UTC y m 1 0" "to = AddDate_months UTC from 1"
    using assms by (auto simp: parseMonthWindow_def Let_def not_less split: if_splits option.splits)
  show ?thesis by (rule that [OF x(1,2)]) (use x(3,4) month_window [OF x(1,2)] in auto)
qed

lemma in_month_iff:
  assumes m: "1 \<le> m" "m \<le> 12" and c: "civil D = (y', m', d')"
  shows "days_of_civil y m 1 \<le> D \<and> D < days_of_civil y (m + 1) 1 \<longleftrightarrow> y = y' \<and> m = m'"
proof
  assume w: "days_of_civil y m 1 \<le> D \<and> D < days_of_civil y (m + 1) 1"
  define k where "k = D - days_of_civil y m 1 + 1"
  have len: "days_of_civil y (m + 1) 1 - days_of_civil y m 1 = month_start y (m + 1) - month_start y m"
    using days_of_civil_next_month [OF m, of y] days_of_civil_in_range [OF m, of y 1] by simp
  have "civil (days_of_civil y m k) = (y, m, k)"
    by (rule civil_days_of_civil [OF m]) (use w len in \<open>auto simp: k_def\<close>)
  moreover have "days_of_civil y m k = D" using days_of_civil_add [of y m 1 "D - days_of_civil y m 1"] by (simp add: k_def add.commute)
  ultimately show "y = y' \<and> m = m'" using c by simp
next
  assume "y = y' \<and> m = m'"
  then have c: "civil D = (y, m, d')" using c by simp
  have "days_of_civil y m d' = days_of_civil y m 1 + (d' - 1)" using days_of_civil_add [of y m 1 "d' - 1"] by simp
  then show "days_of_civil y m 1 \<le> D \<and> D < days_of_civil y (m + 1) 1"
    using civil_range(3,4) [OF c] days_of_civil_civil [OF c] days_of_civil_next_month [OF m, of y] days_of_civil_in_range [OF m, of y 1]
    by auto
qed

lemma in_window_iff: "midnight 0 A \<le> t \<and> t < midnight 0 B \<longleftrightarrow> A \<le> local_day UTC t \<and> local_day UTC t < B"
  by (simp add: UTC_fixed midnight_le_iff less_midnight_iff)

definition month_label :: "int \<Rightarrow> int \<Rightarrow> string" where
  "month_label y m = appendInt y 4 @ ''-'' @ appendInt m 2"

lemma appendInt_exact:
  assumes "0 \<le> x" "x < 10 ^ w" "0 < w"
  shows "length (appendInt x w) = w"
proof -
  have "nat x < 10 ^ w" using assms by (simp add: nat_less_iff)
  then have "length (nat_to_dec (nat x)) \<le> w" using assms(3) by (rule length_nat_to_dec_le)
  then show ?thesis using assms(1) by (simp add: appendInt_def Let_def)
qed

lemma Split_digits:
  assumes "all_digits a" "all_digits b"
  shows "Split CHR ''-'' (a @ ''-'' @ b) = [a, b]"
proof -
  have s: "all_digits x \<Longrightarrow> Split CHR ''-'' x = [x]" for x
    by (induction x) (auto simp: all_digits_def is_digit_def split: list.splits)
  have "all_digits x \<Longrightarrow> Split CHR ''-'' (x @ CHR ''-'' # r) = x # Split CHR ''-'' r" for x r
    by (induction x) (auto simp: all_digits_def is_digit_def)
  then show ?thesis using s assms by simp
qed

lemma parse_month_label:
  assumes "0 \<le> y" "y \<le> 9999" "1 \<le> m" "m \<le> 12"
  shows "parseMonthWindow (month_label y m) = Inr (midnight 0 (days_of_civil y m 1), midnight 0 (days_of_civil y (m + 1) 1))"
proof -
  have l: "length (appendInt y 4) = 4" "length (appendInt m 2) = 2"
    by (rule appendInt_exact; use assms in simp)+
  have d: "all_digits (appendInt y 4)" "all_digits (appendInt m 2)" "int (dec_val (appendInt y 4)) = y" "int (dec_val (appendInt m 2)) = m"
    using assms appendInt_nonneg by auto
  have p: "ParseInt 64 (appendInt y 4) = Some y" "ParseInt 64 (appendInt m 2) = Some m"
  proof -
    have "appendInt y 4 \<noteq> []" "appendInt m 2 \<noteq> []" using l by force+
    then show "ParseInt 64 (appendInt y 4) = Some y" "ParseInt 64 (appendInt m 2) = Some m"
      using d assms by (simp_all add: ParseInt_def big_SetString_digits)
  qed
  have "\<forall>c \<in> set (month_label y m). \<not> is_space c"
    using d(1,2) is_digit_not_space by (auto simp: month_label_def all_digits_set is_space_def)
  then have t: "TrimSpace (month_label y m) = month_label y m" by (intro TrimSpace_id)
  have sp: "Split CHR ''-'' (month_label y m) = [appendInt y 4, appendInt m 2]"
    unfolding month_label_def by (rule Split_digits [OF d(1,2)])
  show ?thesis
    unfolding parseMonthWindow_def Let_def t sp using l p assms month_window [OF assms(3,4), of y] by simp
qed

section \<open>Lines\<close>

lemma group_rows_spec:
  assumes ord: "\<forall>ks. mset (agg_order a ks) = mset ks"
  shows "distinct (map fst (group_rows a key rs))"
    "(k, g) \<in> set (group_rows a key rs) \<longleftrightarrow> k \<in> key ` set rs \<and> g = filter (\<lambda>r. key r = k) rs"
    "sum_list (map (\<lambda>(k, g). int (length g)) (group_rows a key rs)) = int (length rs)"
proof -
  let ?ks = "agg_order a (remdups (map key rs))"
  have ms: "mset ?ks = mset (remdups (map key rs))" using ord by blast
  have d: "distinct ?ks" using ms by (metis distinct_count_atmost_1 distinct_remdups mset_eq_setD)
  have s: "set ?ks = key ` set rs" using ms by (metis image_set set_mset_mset set_remdups)
  show "distinct (map fst (group_rows a key rs))" using d by (simp add: group_rows_def comp_def)
  show "(k, g) \<in> set (group_rows a key rs) \<longleftrightarrow> k \<in> key ` set rs \<and> g = filter (\<lambda>r. key r = k) rs"
    using s by (auto simp: group_rows_def)
  have part: "distinct ks \<Longrightarrow> sum_list (map (\<lambda>k. int (length (filter (\<lambda>r. key r = k) rs))) ks) = int (length (filter (\<lambda>r. key r \<in> set ks) rs))" for ks
  proof (induction ks)
    case (Cons k ks)
    have "length (filter (\<lambda>r. key r \<in> set (k # ks)) rs) = length (filter (\<lambda>r. key r = k) rs) + length (filter (\<lambda>r. key r \<in> set ks) rs)"
      using Cons.prems by (induction rs) auto
    then show ?case using Cons by simp
  qed simp
  have "filter (\<lambda>r. key r \<in> key ` set rs) rs = rs" by (simp add: filter_id_conv)
  then show "sum_list (map (\<lambda>(k, g). int (length g)) (group_rows a key rs)) = int (length rs)"
    using part [OF d] s by (simp add: group_rows_def comp_def)
qed

text \<open>
  The transactions a statement is about, by the calendar: the creation instant, in UTC, falls on a day
  of the month \<open>m\<close> of the year \<open>y\<close>.
\<close>

definition falls_in :: "int \<Rightarrow> int \<Rightarrow> time \<Rightarrow> bool" where
  "falls_in y m t \<longleftrightarrow> (case civil (local_day UTC t) of (y', m', _) \<Rightarrow> y' = y \<and> m' = m)"

definition month_of_tenant :: "string \<Rightarrow> int \<Rightarrow> int \<Rightarrow> db \<Rightarrow> Transaction list" where
  "month_of_tenant tenantID y m d =
     filter (\<lambda>x. tx_TenantID x = tenantID \<and> tx_Status x = ''succeeded'' \<and> falls_in y m (tx_CreatedAt x)) (transactions d)"

lemma falls_in_window:
  assumes "1 \<le> m" "m \<le> 12"
  shows "falls_in y m t \<longleftrightarrow> midnight 0 (days_of_civil y m 1) \<le> t \<and> t < midnight 0 (days_of_civil y (m + 1) 1)"
proof -
  obtain y' m' d' where c: "civil (local_day UTC t) = (y', m', d')" by (cases "civil (local_day UTC t)")
  then show ?thesis using in_month_iff [OF assms c] by (auto simp: falls_in_def in_window_iff)
qed

lemma settled_in_month:
  assumes "1 \<le> m" "m \<le> 12"
  shows "filter (settled_in tenantID (midnight 0 (days_of_civil y m 1)) (midnight 0 (days_of_civil y (m + 1) 1))) (transactions d)
    = month_of_tenant tenantID y m d"
  unfolding month_of_tenant_def settled_in_def falls_in_window [OF assms] ..

text \<open>What is reported of a list of transactions.\<close>

definition lines_report :: "pg_aggregates \<Rightarrow> Transaction list \<Rightarrow> AssetBalanceLine list \<Rightarrow> bool" where
  "lines_report a txs ls \<longleftrightarrow>
     distinct (map (\<lambda>l. (abl_Asset l, abl_Direction l)) ls)
     \<and> (\<forall>x \<in> set txs. \<exists>l \<in> set ls. abl_Asset l = tx_Asset x \<and> abl_Direction l = tx_Direction x)
     \<and> (\<forall>l \<in> set ls. let ts = filter (\<lambda>x. tx_Asset x = abl_Asset l \<and> tx_Direction x = abl_Direction l) txs in
          ts \<noteq> [] \<and> abl_TxCount l = int (length ts) \<and> abl_TotalAmount l = agg_sum_text a (map tx_Amount ts))
     \<and> sum_list (map abl_TxCount ls) = int (length txs)"

lemma balance_rows_report:
  assumes ord: "\<forall>ks. mset (agg_order a ks) = mset ks"
  shows "lines_report a txs (map balance_line (balance_rows a txs))"
proof -
  note g = group_rows_spec [OF ord, where key = tx_bucket and rs = txs]
  have line: "abl_Asset (balance_line r) = br_Asset r \<and> abl_Direction (balance_line r) = br_Direction r
      \<and> abl_TxCount (balance_line r) = br_TxCount r \<and> abl_TotalAmount (balance_line r) = br_TotalAmount r" for r
    by (simp add: balance_line_def)
  have "distinct (map (\<lambda>l. (abl_Asset l, abl_Direction l)) (map balance_line (balance_rows a txs)))"
    using g(1) by (simp add: balance_rows_def balance_line_def comp_def case_prod_unfold)
  moreover have "sum_list (map abl_TxCount (map balance_line (balance_rows a txs))) = int (length txs)"
    using g(3) by (simp add: balance_rows_def balance_line_def comp_def case_prod_unfold)
  moreover have "\<exists>r \<in> set (balance_rows a txs). br_Asset r = tx_Asset x \<and> br_Direction r = tx_Direction x" if "x \<in> set txs" for x
  proof -
    have "((tx_Asset x, tx_Direction x), filter (\<lambda>z. tx_bucket z = (tx_Asset x, tx_Direction x)) txs) \<in> set (group_rows a tx_bucket txs)"
      using that g(2) by (auto simp: tx_bucket_def)
    then show ?thesis unfolding balance_rows_def by force
  qed
  moreover have "ts \<noteq> [] \<and> br_TxCount r = int (length ts) \<and> br_TotalAmount r = agg_sum_text a (map tx_Amount ts)"
    if "r \<in> set (balance_rows a txs)" "ts = filter (\<lambda>x. tx_Asset x = br_Asset r \<and> tx_Direction x = br_Direction r) txs" for r ts
    using that g(2) by (auto simp: balance_rows_def tx_bucket_def filter_empty_conv)
  ultimately show ?thesis unfolding lines_report_def Let_def by (auto simp: line)
qed

lemma GetMonthlyStatement_200:
  assumes "Statements_GetMonthlyStatement a e cx d = Reply 200 v"
  obtains lo hi st where "parseMonthWindow (cx_Params cx ''month'') = Inr (lo, hi)" "v = statement_json st"
    "ms_Month st = cx_Params cx ''month''" "ms_Transactions st = map balance_line (TenantMonthlyStatement a (cx_TenantID cx) lo hi d)"
  using assms
  by (fastforce simp: Statements_GetMonthlyStatement_def internalError_def badRequest_def error_body_def
      split: if_splits sum.splits prod.splits option.splits)

text \<open>
  C31: a monthly statement reports exactly the settled transactions of its month. When
  \<open>GET /v1/tenants/me/statements/YYYY-MM\<close> answers 200, the transactions part of the answer has one line
  per asset and direction that occurs among the caller's succeeded transactions created on a day of that
  month (in UTC, by the Gregorian calendar); each line carries the number of exactly these transactions with
  its asset and direction and the sum the database computes of exactly their amounts, and the counts
  add up to the number of these transactions. Nothing of another tenant, status or month is in it.
  The sum and the order of the lines are what PostgreSQL makes of them; the order is only assumed
  to be a rearrangement.
\<close>

theorem statement_counts_each_transaction_once:
  assumes ord: "\<forall>ks. mset (agg_order a ks) = mset ks"
    and month: "cx_Params cx ''month'' = month_label y m" "0 \<le> y" "y \<le> 9999" "1 \<le> m" "m \<le> 12"
    and run: "Statements_GetMonthlyStatement a e cx d = Reply 200 v"
  shows "\<exists>st. v = statement_json st \<and> ms_Month st = month_label y m
    \<and> lines_report a (filter (\<lambda>x. tx_TenantID x = cx_TenantID cx \<and> tx_Status x = ''succeeded''
          \<and> (case civil (local_day UTC (tx_CreatedAt x)) of (y', m', _) \<Rightarrow> y' = y \<and> m' = m)) (transactions d)) (ms_Transactions st)"
proof -
  obtain lo hi st where s: "parseMonthWindow (cx_Params cx ''month'') = Inr (lo, hi)" "v = statement_json st" "ms_Month st = cx_Params cx ''month''"
    "ms_Transactions st = map balance_line (TenantMonthlyStatement a (cx_TenantID cx) lo hi d)"
    using run by (rule GetMonthlyStatement_200)
  have w: "lo = midnight 0 (days_of_civil y m 1)" "hi = midnight 0 (days_of_civil y (m + 1) 1)"
    using s(1) parse_month_label [OF month(2-5)] by (simp_all add: month(1))
  have "lines_report a (month_of_tenant (cx_TenantID cx) y m d) (ms_Transactions st)"
    using balance_rows_report [OF ord] by (simp add: s(4) TenantMonthlyStatement_def w settled_in_month [OF month(4,5)])
  then show ?thesis using s(2,3) month(1) by (auto simp: month_of_tenant_def falls_in_def)
qed

definition demo_agg :: pg_aggregates where
  "demo_agg = \<lparr> agg_order = (\<lambda>ks. ks), agg_sum_text = concat, agg_sum_numeric = (\<lambda>xs. ''1'') \<rparr>"

definition demo_settled :: Transaction where
  "demo_settled = \<lparr> tx_ID = ''tx'', tx_TenantID = ''tn'', tx_WalletID = ''wl'', tx_GroupID = ''wg'', tx_Rail = ''tempo'', tx_Chain = ''tempo'',
     tx_Direction = ''outbound'', tx_Counterparty = ''to'', tx_Amount = ''4.5'', tx_Asset = ''pathUSD'', tx_AmountUsd = None,
     tx_Status = ''succeeded'', tx_TxHash = None, tx_BlockNumber = None, tx_ProviderTxID = None, tx_SessionKeyID = None,
     tx_InitiatedByUser = None, tx_InitiatedByApikey = None, tx_IdempotencyKey = None, tx_ErrorCode = None, tx_ErrorMessage = None,
     tx_Metadata = empty_object, tx_CreatedAt = 0, tx_UpdatedAt = 0, tx_BroadcastAt = None, tx_ConfirmedAt = None \<rparr>"

definition demo_month_ctx :: request_ctx where
  "demo_month_ctx = \<lparr> cx_TenantID = ''tn'', cx_APIKeyID = [], cx_UserID = [], cx_Role = [], cx_Params = (\<lambda>_. ''1970-01''), cx_Query = (\<lambda>_. []) \<rparr>"

text \<open>Two settled transactions on the two sides of the end of January 1970.\<close>

theorem statement_counts_each_transaction_once_witness:
  "\<exists>st. Statements_GetMonthlyStatement demo_agg (calm_env 0) demo_month_ctx
       (empty_db\<lparr>transactions := [demo_settled, demo_settled\<lparr>tx_CreatedAt := 31 * 86400 * second\<rparr>]\<rparr>) = Reply 200 (statement_json st)
     \<and> sum_list (map abl_TxCount (ms_Transactions st)) = 1"
proof -
  let ?t = "31 * 86400 * second"
  let ?d = "empty_db\<lparr>transactions := [demo_settled, demo_settled\<lparr>tx_CreatedAt := ?t\<rparr>]\<rparr>"
  have o: "\<forall>ks. mset (agg_order demo_agg ks) = mset ks" by (simp add: demo_agg_def)
  have l: "month_label 1970 1 = ''1970-01''" by code_simp
  have m: "cx_Params demo_month_ctx ''month'' = month_label 1970 1" by (simp add: l demo_month_ctx_def)
  have dd: "days_of_civil 1970 1 1 = 0" "days_of_civil 1970 (1 + 1) 1 = 31"
    by (simp_all add: days_of_civil_in_range year_start_def month_start_def days_before_def epoch_days_def)
  have w: "parseMonthWindow (cx_Params demo_month_ctx ''month'') = Inr (midnight 0 0, midnight 0 31)"
    unfolding m using parse_month_label [of 1970 1] unfolding dd by simp
  obtain v where run: "Statements_GetMonthlyStatement demo_agg (calm_env 0) demo_month_ctx ?d = Reply 200 v"
  proof -
    have "TenantMonthlyOnramp demo_agg t lo hi ?d = Some []" for t lo hi
      by (simp add: TenantMonthlyOnramp_def group_rows_def demo_agg_def empty_db_def)
    moreover have "cx_TenantID demo_month_ctx \<noteq> []" "fault (calm_env 0) site [] = None" for site
      by (simp_all add: demo_month_ctx_def calm_env_def)
    ultimately show thesis using w that by (simp add: Statements_GetMonthlyStatement_def)
  qed
  have c: "(case civil (local_day UTC t) of (y', m', _) \<Rightarrow> y' = 1970 \<and> m' = 1) \<longleftrightarrow> 0 \<le> t \<and> t < ?t" for t
    using falls_in_window [of 1 1970 t] unfolding dd by (simp add: falls_in_def midnight_def)
  have "filter (\<lambda>x. tx_TenantID x = cx_TenantID demo_month_ctx \<and> tx_Status x = ''succeeded''
      \<and> (case civil (local_day UTC (tx_CreatedAt x)) of (y', m', _) \<Rightarrow> y' = 1970 \<and> m' = 1)) (transactions ?d) = [demo_settled]"
    unfolding c by (simp add: demo_settled_def demo_month_ctx_def second_def)
  with statement_counts_each_transaction_once [OF o m _ _ _ _ run] obtain st where "v = statement_json st" "lines_report demo_agg [demo_settled] (ms_Transactions st)"
    by auto
  then show ?thesis using run by (auto simp: lines_report_def)
qed

section \<open>Completed onramp orders\<close>

lemma those_None: "None \<in> set xs \<Longrightarrow> those xs = None"
  by (induction xs) (auto split: option.splits)

definition no_delivery_recorded :: "db \<Rightarrow> bool" where
  "no_delivery_recorded d \<longleftrightarrow> (\<forall>r \<in> set (onramp_orders d). oo_CryptoAmount r = None)"

lemma CreateOnrampOrder_no_delivery:
  assumes "CreateOnrampOrder drv now a d = (x, d')" "oo_CryptoAmount a = None" "no_delivery_recorded d"
  shows "no_delivery_recorded d'"
  using assms by (auto simp: CreateOnrampOrder_def no_delivery_recorded_def Let_def split: option.splits if_splits)

lemma WalletGroups_publish_orders [simp]: "onramp_orders (WalletGroups_publish h e t ty data refs d) = onramp_orders d"
proof -
  obtain evs where "snd (Publish e t ty (Some data) refs d) = add_events evs d" using Publish_frame by blast
  then show ?thesis by (simp add: WalletGroups_publish_def add_events_def)
qed

lemma CreateOnramp_no_delivery:
  assumes "no_delivery_recorded (w_db s)"
  shows "no_delivery_recorded (w_db (snd (WalletGroups_CreateOnramp h e cx body s)))"
proof -
  have w: "no_delivery_recorded d1" if "recordOnramp e t k g w req ch ord (w_db s) = (x, d1)" for t k g w req ch ord x d1
    using that assms
    by (cases "fault e ''recordOnramp.CreateOnrampOrder'' []")
       (auto simp: recordOnramp_def intro: CreateOnrampOrder_no_delivery simp: onramp_row_def)
  have p: "no_delivery_recorded (WalletGroups_publish h e t ty data refs d) = no_delivery_recorded d" for t ty data refs d
    by (simp add: no_delivery_recorded_def)
  show ?thesis using assms
    by (auto simp: WalletGroups_CreateOnramp_def Let_def p dest: w split: option.split sum.split prod.split)
qed

text \<open>
  A completed onramp order breaks the statement of its month. The route that records orders never
  stores a delivered amount, and while no order has one, a single completed order of the tenant
  in a month makes \<open>GET /v1/tenants/me/statements/:month\<close> answer 500: the sum of the amounts is
  NULL, which the generated query cannot read into a string.
\<close>

theorem completed_onramp_breaks_the_statement:
  assumes ord: "\<forall>ks. mset (agg_order a ks) = mset ks" and none: "no_delivery_recorded d"
    and r: "r \<in> set (onramp_orders d)" "oo_TenantID r = cx_TenantID cx" "oo_Status r = ''completed''"
    and month: "parseMonthWindow (cx_Params cx ''month'') = Inr (from, to)" "from \<le> oo_CreatedAt r" "oo_CreatedAt r < to"
    and tenant: "cx_TenantID cx \<noteq> []"
  shows "Statements_GetMonthlyStatement a e cx d = internalError
    \<and> no_delivery_recorded (w_db (snd (WalletGroups_CreateOnramp h e2 cx2 body (s\<lparr>w_db := d\<rparr>))))"
proof -
  let ?rs = "filter (completed_in (cx_TenantID cx) from to) (onramp_orders d)"
  have "r \<in> set ?rs" using r month by (simp add: completed_in_def)
  then have mem: "(onramp_bucket r, filter (\<lambda>x. onramp_bucket x = onramp_bucket r) ?rs) \<in> set (group_rows a onramp_bucket ?rs)"
    using group_rows_spec(2) [OF ord] by blast
  have "List.map_filter oo_CryptoAmount (filter (\<lambda>x. onramp_bucket x = onramp_bucket r) ?rs) = []"
    using none by (auto simp: no_delivery_recorded_def List.map_filter_def filter_empty_conv)
  then have "onramp_line a (onramp_bucket r, filter (\<lambda>x. onramp_bucket x = onramp_bucket r) ?rs) = None"
    by (simp add: onramp_line_def onramp_bucket_def)
  with mem have "None \<in> set (map (onramp_line a) (group_rows a onramp_bucket ?rs))" by force
  then have "those (map (onramp_line a) (group_rows a onramp_bucket ?rs)) = None" by (rule those_None)
  then have "Statements_GetMonthlyStatement a e cx d = internalError"
    using month(1) tenant by (simp add: Statements_GetMonthlyStatement_def TenantMonthlyOnramp_def split: option.split)
  then show ?thesis using CreateOnramp_no_delivery [of "s\<lparr>w_db := d\<rparr>"] none by simp
qed

definition demo_order :: OnrampOrder where
  "demo_order = \<lparr> oo_ID = ''oo'', oo_TenantID = ''tn'', oo_WalletID = ''wl'', oo_GroupID = ''wg'', oo_Provider = ''crossmint'',
     oo_ProviderOrderID = None, oo_CheckoutUrl = None, oo_FiatAmount = ''10'', oo_FiatCurrency = ''USD'', oo_Asset = ''USDC'',
     oo_Chain = ''base'', oo_CryptoAmount = None, oo_Status = ''completed'', oo_InitiatedByApikey = None, oo_IdempotencyKey = None,
     oo_ErrorCode = None, oo_ErrorMessage = None, oo_Metadata = empty_object, oo_CreatedAt = 0, oo_UpdatedAt = 0,
     oo_ExpiresAt = None, oo_CompletedAt = None \<rparr>"

theorem completed_onramp_breaks_the_statement_witness:
  "Statements_GetMonthlyStatement demo_agg (calm_env 0) demo_month_ctx (empty_db\<lparr>onramp_orders := [demo_order]\<rparr>) = internalError"
proof -
  let ?d = "empty_db\<lparr>onramp_orders := [demo_order]\<rparr>"
  have o: "\<forall>ks. mset (agg_order demo_agg ks) = mset ks" by (simp add: demo_agg_def)
  have l: "month_label 1970 1 = ''1970-01''" by code_simp
  have dd: "days_of_civil 1970 1 1 = 0" "days_of_civil 1970 (1 + 1) 1 = 31"
    by (simp_all add: days_of_civil_in_range year_start_def month_start_def days_before_def epoch_days_def)
  have w: "parseMonthWindow (cx_Params demo_month_ctx ''month'') = Inr (midnight 0 0, midnight 0 31)"
    using parse_month_label [of 1970 1] unfolding l dd by (simp add: demo_month_ctx_def)
  have z: "midnight 0 0 \<le> oo_CreatedAt demo_order" "oo_CreatedAt demo_order < midnight 0 31"
    by (simp_all add: midnight_def demo_order_def second_def)
  have n: "no_delivery_recorded ?d" by (simp add: no_delivery_recorded_def demo_order_def)
  show ?thesis
    by (rule completed_onramp_breaks_the_statement [OF o n _ _ _ w z, THEN conjunct1])
       (simp_all add: demo_month_ctx_def demo_order_def)
qed

end
