(* ===== verification/Legacy_Routes.thy ===== *)
theory Legacy_Routes
  imports Handlers "HOL-Library.AList"
begin

text \<open>
  The rail-backed routes of \<open>internal/server/server.go\<close> (wallets, transactions, onramp orders), the
  router of \<open>internal/router\<close> that picks the rail they go to, the lookups of the CrossMint adapter
  that only they use, and the error handler that turns what a handler returns into an answer.
  The interface \<open>Adapter\<close> is the datatype of its two implementations; the in-memory keys of the
  Tempo adapter are part of the state.
\<close>

section \<open>crossmint/adapter.go, lookups\<close>

definition cm_GetWallet :: "crossmint_adapter \<Rightarrow> string \<Rightarrow> (go_error + RailWallet) \<times> cm_request list" where
  "cm_GetWallet a locator =
     (let call = \<lparr> cq_method = ''GET'', cq_path = ''/api/'' @ apiVersion @ ''/wallets/'' @ locator, cq_body = None \<rparr> in
      case cm_do a call of
        Inl err \<Rightarrow> (Inl err, [call])
      | Inr j \<Rightarrow> (case decode_wallet j of
                    None \<Rightarrow> (Inl decode_error, [call])
                  | Some r \<Rightarrow> (Inr (toWallet r \<lparr> ow_Type = [], ow_Value = [] \<rparr>), [call])))"

record balanceItem =
  bi_Token :: string
  bi_Chain :: string
  bi_Amount :: string
  bi_Decimals :: int

text \<open>A JSON number that \<open>json.Unmarshal\<close> takes for an \<open>int\<close>; \<open>null\<close> leaves the zero.\<close>

fun int_or_null :: "int \<Rightarrow> json \<Rightarrow> int option" where
  "int_or_null old (JNum s) = ParseInt 64 s"
| "int_or_null old JNull = Some old"
| "int_or_null _ _ = None"

fun fold_opt :: "('a \<Rightarrow> 'b \<Rightarrow> 'a option) \<Rightarrow> 'a \<Rightarrow> 'b list \<Rightarrow> 'a option" where
  "fold_opt f a [] = Some a"
| "fold_opt f a (x # xs) = (case f a x of None \<Rightarrow> None | Some b \<Rightarrow> fold_opt f b xs)"

definition decode_balance :: "json \<Rightarrow> balanceItem option" where
  "decode_balance j =
     (case obj_fields j of
        None \<Rightarrow> None
      | Some fs \<Rightarrow>
          (case (str_field ''token'' fs, str_field ''chain'' fs, str_field ''amount'' fs,
                 fold_opt int_or_null 0 (field_values ''decimals'' fs)) of
             (Some tk, Some ch, Some am, Some de) \<Rightarrow>
               Some \<lparr> bi_Token = tk, bi_Chain = ch, bi_Amount = am, bi_Decimals = de \<rparr>
           | _ \<Rightarrow> None))"

fun decode_balances :: "jsonb \<Rightarrow> balanceItem list option" where
  "decode_balances JEmpty = Some []"
| "decode_balances (JVal (JArr js)) = those (map decode_balance js)"
| "decode_balances (JVal JNull) = Some []"
| "decode_balances _ = None"

definition cm_GetBalances :: "crossmint_adapter \<Rightarrow> string \<Rightarrow> (go_error + Balance list) \<times> cm_request list" where
  "cm_GetBalances a locator =
     (let call = \<lparr> cq_method = ''GET'', cq_path = ''/api/'' @ apiVersion @ ''/wallets/'' @ locator @ ''/balances'',
                   cq_body = None \<rparr> in
      case cm_do a call of
        Inl err \<Rightarrow> (Inl err, [call])
      | Inr j \<Rightarrow>
          (case decode_balances j of
             None \<Rightarrow> (Inl decode_error, [call])
           | Some bs \<Rightarrow>
               (Inr (map (\<lambda>b. \<lparr> bal_Asset = ToUpper (bi_Token b), bal_Chain = bi_Chain b, bal_Amount = bi_Amount b,
                                bal_Decimals = bi_Decimals b \<rparr>) bs), [call])))"

definition cm_GetTransaction :: "crossmint_adapter \<Rightarrow> string \<Rightarrow> (go_error + RailTransaction) \<times> cm_request list" where
  "cm_GetTransaction a txID =
     (let parts = SplitN2 CHR ''/'' txID in
      if length parts \<noteq> 2 then
        (Inl (sentinelf ErrBadRequest (''crossmint txID must be '' @ [CHR 34] @ ''<walletId>/<txId>'' @ [CHR 34])), [])
      else
        (let call = \<lparr> cq_method = ''GET'',
                      cq_path = ''/api/'' @ apiVersion @ ''/wallets/'' @ parts ! 0 @ ''/transactions/'' @ parts ! 1,
                      cq_body = None \<rparr> in
         case cm_do a call of
           Inl err \<Rightarrow> (Inl err, [call])
         | Inr j \<Rightarrow>
             (case decode_tx j of
                None \<Rightarrow> (Inl decode_error, [call])
              | Some r \<Rightarrow>
                  (Inr \<lparr> rt_ID = tr_ID r, rt_Rail = RailCrossMint, rt_From = [], rt_To = [], rt_Amount = [], rt_Asset = [],
                         rt_Chain = [], rt_Status = mapTxStatus (tr_Status r), rt_TxHash = txHash r,
                         rt_CreatedAt = parseTime (tr_CreatedAt r) \<rparr>, [call]))))"

section \<open>adapters/adapter.go\<close>

datatype adapter = CrossMint crossmint_adapter | Tempo tempo_adapter

fun Rail :: "adapter \<Rightarrow> string" where
  "Rail (CrossMint _) = RailCrossMint"
| "Rail (Tempo _) = RailTempo"

text \<open>What a rail call can change: the in-memory keys and the calls that have left.\<close>

record rail_state =
  rs_keys :: MemoryKeystore
  rs_chain :: "eth_tx list"
  rs_provider :: "cm_request list"

definition asked :: "'a \<times> cm_request list \<Rightarrow> rail_state \<Rightarrow> 'a \<times> rail_state" where
  "asked r s = (fst r, s\<lparr>rs_provider := rs_provider s @ snd r\<rparr>)"

definition sends :: "'a \<times> eth_tx list \<Rightarrow> rail_state \<Rightarrow> 'a \<times> rail_state" where
  "sends r s = (fst r, s\<lparr>rs_chain := rs_chain s @ snd r\<rparr>)"

fun CreateWallet_on :: "adapter \<Rightarrow> env \<Rightarrow> CreateWalletRequest \<Rightarrow> rail_state \<Rightarrow> (go_error + RailWallet) \<times> rail_state" where
  "CreateWallet_on (CrossMint a) e req s = asked (cm_CreateWallet a req) s"
| "CreateWallet_on (Tempo a) e req s =
     (case tempo_CreateWallet a e req (rs_keys s) of (res, keys) \<Rightarrow> (res, s\<lparr>rs_keys := keys\<rparr>))"

fun GetWallet_on :: "adapter \<Rightarrow> string \<Rightarrow> rail_state \<Rightarrow> (go_error + RailWallet) \<times> rail_state" where
  "GetWallet_on (CrossMint a) locator s = asked (cm_GetWallet a locator) s"
| "GetWallet_on (Tempo a) locator s = (tempo_GetWallet a locator (rs_keys s), s)"

fun GetBalances_on :: "adapter \<Rightarrow> string \<Rightarrow> rail_state \<Rightarrow> (go_error + Balance list) \<times> rail_state" where
  "GetBalances_on (CrossMint a) locator s = asked (cm_GetBalances a locator) s"
| "GetBalances_on (Tempo a) locator s = (tempo_GetBalances a locator, s)"

fun CreateTransaction_on ::
    "adapter \<Rightarrow> env \<Rightarrow> CreateTransactionRequest \<Rightarrow> string \<Rightarrow> rail_state \<Rightarrow> (go_error + RailTransaction) \<times> rail_state" where
  "CreateTransaction_on (CrossMint a) e req locator s = asked (cm_CreateTransaction a req locator) s"
| "CreateTransaction_on (Tempo a) e req locator s = sends (tempo_CreateTransaction a e req locator (rs_keys s)) s"

fun GetTransaction_on :: "adapter \<Rightarrow> string \<Rightarrow> rail_state \<Rightarrow> (go_error + RailTransaction) \<times> rail_state" where
  "GetTransaction_on (CrossMint a) txID s = asked (cm_GetTransaction a txID) s"
| "GetTransaction_on (Tempo a) txID s = (tempo_GetTransaction a txID, s)"

fun CreateOnrampOrder_on ::
    "adapter \<Rightarrow> env \<Rightarrow> CreateOnrampRequest \<Rightarrow> string \<Rightarrow> rail_state \<Rightarrow> (go_error + RailOnrampOrder) \<times> rail_state" where
  "CreateOnrampOrder_on (CrossMint a) e req addr s = asked (cm_CreateOnrampOrder a e req addr) s"
| "CreateOnrampOrder_on (Tempo a) e req addr s = (tempo_CreateOnrampOrder, s)"

section \<open>router.go\<close>

text \<open>The Go map of adapters: one entry per rail, the last adapter listed for a rail wins.\<close>

record Router =
  ro_adapters :: "(string \<times> adapter) list"
  ro_defaultRail :: string

definition router_New :: "string \<Rightarrow> adapter list \<Rightarrow> Router" where
  "router_New defaultRail as =
     \<lparr> ro_adapters = foldl (\<lambda>m a. AList.update (Rail a) a m) [] as, ro_defaultRail = defaultRail \<rparr>"

definition Pick :: "Router \<Rightarrow> string \<Rightarrow> go_error + adapter" where
  "Pick r rail0 =
     (let rail = (if rail0 = [] then ro_defaultRail r else rail0) in
      case map_of (ro_adapters r) rail of
        None \<Rightarrow> Inl (sentinelf ErrBadRequest (''rail '' @ go_quote rail @ '' is not configured''))
      | Some a \<Rightarrow> Inr a)"

text \<open>Go ranges over a map in no particular order, which is the argument \<open>order\<close>.\<close>

definition Registered :: "(string list \<Rightarrow> string list) \<Rightarrow> Router \<Rightarrow> string list" where
  "Registered order r = order (map fst (ro_adapters r))"

section \<open>server.go, the handlers\<close>

datatype server_error = FiberError int string | RailError go_error

text \<open>The answers that are a struct of \<open>internal/types\<close>.\<close>

datatype rail_body = WalletBody RailWallet | BalancesBody "Balance list" | TransactionBody RailTransaction | OrderBody RailOnrampOrder

type_synonym rail_answer = "server_error + int \<times> rail_body"

definition server_badRequest :: "string \<Rightarrow> server_error" where
  "server_badRequest msg = FiberError 400 msg"

definition railFromCtx :: "request_ctx \<Rightarrow> string \<Rightarrow> string" where
  "railFromCtx cx fromBody = (if fromBody \<noteq> [] then fromBody else cx_Query cx ''rail'')"

definition answer_with :: "int \<Rightarrow> ('a \<Rightarrow> rail_body) \<Rightarrow> (go_error + 'a) \<times> rail_state \<Rightarrow> rail_answer \<times> rail_state" where
  "answer_with st body r = (case fst r of Inl err \<Rightarrow> Inl (RailError err) | Inr x \<Rightarrow> Inr (st, body x), snd r)"

definition server_createWallet ::
    "Router \<Rightarrow> env \<Rightarrow> request_ctx \<Rightarrow> string + CreateWalletRequest \<Rightarrow> rail_state \<Rightarrow> rail_answer \<times> rail_state" where
  "server_createWallet r e cx body s =
     (case body of
        Inl msg \<Rightarrow> (Inl (server_badRequest msg), s)
      | Inr req \<Rightarrow>
          (case Pick r (railFromCtx cx (cw_Rail req)) of
             Inl err \<Rightarrow> (Inl (RailError err), s)
           | Inr a \<Rightarrow> answer_with 201 WalletBody (CreateWallet_on a e req s)))"

definition server_getWallet :: "Router \<Rightarrow> request_ctx \<Rightarrow> rail_state \<Rightarrow> rail_answer \<times> rail_state" where
  "server_getWallet r cx s =
     (case Pick r (railFromCtx cx []) of
        Inl err \<Rightarrow> (Inl (RailError err), s)
      | Inr a \<Rightarrow> answer_with 200 WalletBody (GetWallet_on a (cx_Params cx ''locator'') s))"

definition server_getBalances :: "Router \<Rightarrow> request_ctx \<Rightarrow> rail_state \<Rightarrow> rail_answer \<times> rail_state" where
  "server_getBalances r cx s =
     (case Pick r (railFromCtx cx []) of
        Inl err \<Rightarrow> (Inl (RailError err), s)
      | Inr a \<Rightarrow> answer_with 200 BalancesBody (GetBalances_on a (cx_Params cx ''locator'') s))"

record server_txRequest =
  xr_Request :: CreateTransactionRequest
  xr_FromLocator :: string

definition server_createTransaction ::
    "Router \<Rightarrow> env \<Rightarrow> request_ctx \<Rightarrow> string + server_txRequest \<Rightarrow> rail_state \<Rightarrow> rail_answer \<times> rail_state" where
  "server_createTransaction r e cx body s =
     (case body of
        Inl msg \<Rightarrow> (Inl (server_badRequest msg), s)
      | Inr req \<Rightarrow>
          (case Pick r (railFromCtx cx []) of
             Inl err \<Rightarrow> (Inl (RailError err), s)
           | Inr a \<Rightarrow>
               (let locator = (if xr_FromLocator req = [] then ct_From (xr_Request req) else xr_FromLocator req)
                in answer_with 201 TransactionBody (CreateTransaction_on a e (xr_Request req) locator s))))"

definition server_getTransaction :: "Router \<Rightarrow> request_ctx \<Rightarrow> rail_state \<Rightarrow> rail_answer \<times> rail_state" where
  "server_getTransaction r cx s =
     (case Pick r (railFromCtx cx []) of
        Inl err \<Rightarrow> (Inl (RailError err), s)
      | Inr a \<Rightarrow> answer_with 200 TransactionBody (GetTransaction_on a (cx_Params cx ''id'') s))"

record server_onrampRequest =
  or_Request :: CreateOnrampRequest
  or_WalletAddress :: string

definition server_createOnramp ::
    "Router \<Rightarrow> env \<Rightarrow> request_ctx \<Rightarrow> string + server_onrampRequest \<Rightarrow> rail_state \<Rightarrow> rail_answer \<times> rail_state" where
  "server_createOnramp r e cx body s =
     (case body of
        Inl msg \<Rightarrow> (Inl (server_badRequest msg), s)
      | Inr req \<Rightarrow>
          (case Pick r (railFromCtx cx []) of
             Inl err \<Rightarrow> (Inl (RailError err), s)
           | Inr a \<Rightarrow>
               (let addr = (if or_WalletAddress req = [] then co_WalletID (or_Request req) else or_WalletAddress req)
                in answer_with 201 OrderBody (CreateOnrampOrder_on a e (or_Request req) addr s))))"

definition errorHandler :: "server_error \<Rightarrow> response" where
  "errorHandler err =
     (case err of
        FiberError code msg \<Rightarrow> Reply code (error_body msg)
      | RailError ge \<Rightarrow>
          (case ge_upstream ge of
             Some (rail, st, body) \<Rightarrow>
               Reply 502 (JObj [(''error'', JStr ''upstream rail error''), (''rail'', JStr rail),
                 (''upstream_code'', JNum (int_to_dec st)), (''upstream_body'', JStr body)])
           | None \<Rightarrow>
               Reply (case ge_is ge of
                        Some ErrNotFound \<Rightarrow> 404
                      | Some ErrUnauthorized \<Rightarrow> 401
                      | Some ErrBadRequest \<Rightarrow> 400
                      | Some ErrUnsupported \<Rightarrow> 501
                      | _ \<Rightarrow> 500) (error_body (ge_text ge))))"

end
