(* ===== verification/Server.thy ===== *)
theory Server
  imports Legacy_Routes Session_Key_Handlers Limits_Handlers Webhook_Handlers Virtual_Addresses Statements Middleware
    Prepared_Transfers Wallet_Groups Webhook_Worker
begin

text \<open>
  The gateway as a whole: \<open>internal/server/server.go\<close> (construction, route table, middleware order),
  \<open>internal/config\<close> and the wiring of \<open>cmd/atara-pay/main.go\<close>. A request is the endpoint the fiber
  router found for its path, with the parsed body, the \<open>Authorization\<close> header and the parameters.
  Libraries are the parameters collected in \<open>server_lib\<close>.
\<close>

section \<open>internal/config\<close>

record Config =
  cf_Port :: string
  cf_DatabaseURL :: string
  cf_RedisURL :: string
  cf_SessionSigningKey :: bytes
  cf_CrossMintAPIKey :: string
  cf_CrossMintBaseURL :: string
  cf_TempoRPCURL :: string
  cf_TempoChainID :: int
  cf_DefaultRail :: string
  cf_RoutingMode :: string
  cf_Environment :: string

text \<open>\<open>os.Getenv\<close> gives the empty string for a variable that is not set.\<close>

definition getEnv :: "(string \<Rightarrow> string) \<Rightarrow> string \<Rightarrow> string \<Rightarrow> string" where
  "getEnv os key fallback = (if os key \<noteq> [] then os key else fallback)"

text \<open>The text of the error of \<open>strconv\<close> is left out.\<close>

definition parseIntEnv :: "(string \<Rightarrow> string) \<Rightarrow> string \<Rightarrow> int \<Rightarrow> string + int" where
  "parseIntEnv os key fallback =
     (if os key = [] then Inr fallback
      else (case ParseInt 64 (os key) of None \<Rightarrow> Inl key | Some n \<Rightarrow> Inr n))"

definition normalizeEnv :: "string \<Rightarrow> string" where
  "normalizeEnv v =
     (if v \<in> {''prod'', ''production'', ''live''} then ''production''
      else if v \<in> {''staging'', ''stage'', ''sandbox'', ''test'', ''testnet''} then ''staging''
      else ''development'')"

definition Load :: "(string \<Rightarrow> string) \<Rightarrow> string + Config" where
  "Load os =
     (case parseIntEnv os ''TEMPO_CHAIN_ID'' 0 of
        Inl err \<Rightarrow> Inl err
      | Inr chainID \<Rightarrow>
          (let cfg = \<lparr> cf_Port = getEnv os ''ATARA_PAY_PORT'' ''8080'', cf_DatabaseURL = os ''DATABASE_URL'',
                       cf_RedisURL = os ''REDIS_URL'', cf_SessionSigningKey = os ''SESSION_SIGNING_KEY'',
                       cf_CrossMintAPIKey = os ''CROSSMINT_API_KEY'', cf_CrossMintBaseURL = os ''CROSSMINT_BASE_URL'',
                       cf_TempoRPCURL = os ''TEMPO_RPC_URL'', cf_TempoChainID = chainID,
                       cf_DefaultRail = getEnv os ''ATARA_PAY_DEFAULT_RAIL'' ''crossmint'',
                       cf_RoutingMode = getEnv os ''ATARA_PAY_ROUTING_MODE'' ''smart'',
                       cf_Environment = normalizeEnv (getEnv os ''ATARA_PAY_ENVIRONMENT'' ''development'') \<rparr> in
           if cf_CrossMintAPIKey cfg = [] \<and> cf_TempoRPCURL cfg = [] then
             Inl ''at least one rail must be configured (set CROSSMINT_API_KEY or TEMPO_RPC_URL)''
           else if cf_TempoRPCURL cfg \<noteq> [] \<and> cf_TempoChainID cfg = 0 then
             Inl ''TEMPO_CHAIN_ID must be set when TEMPO_RPC_URL is configured (4217=mainnet, 42431=testnet)''
           else Inr cfg))"

section \<open>server.New\<close>

record server_lib =
  sl_auth :: auth_lib
  sl_geth :: geth
  sl_registry :: registry_lib
  sl_aggregates :: pg_aggregates
  sl_jsonb_text :: "jsonb \<Rightarrow> string"
  sl_map_order :: "string list \<Rightarrow> string list"
  sl_cannot_route :: "string \<Rightarrow> string" \<comment> \<open>the text of fiber's own 404 for a path\<close>

record 'r Deps =
  dp_Router :: Router
  dp_Pool :: bool
  dp_SessionSigningKey :: bytes
  dp_CrossMint :: "crossmint_adapter option"
  dp_Tempo :: "tempo_adapter option"
  dp_Keystore :: "AESKeystore option"
  dp_Redis :: "'r redis_ops option"
  dp_Metrics :: bool
  dp_RateLimitPerMinute :: int
  dp_Environment :: string

text \<open>Handler sets that hold nothing but the pool are a flag: whether they were built.\<close>

record 'r Server =
  sv_router :: Router
  sv_redis :: "'r redis_ops option"
  sv_authHandlers :: "Auth option"
  sv_wgHandlers :: "'r WalletGroups option"
  sv_limitsHandlers :: bool
  sv_sessionKeyHandlers :: "SessionKeys option"
  sv_webhookHandlers :: bool
  sv_vaddrHandlers :: "VirtualAddresses option"
  sv_stmtsHandlers :: bool
  sv_signingKey :: bytes
  sv_metrics :: bool
  sv_rateLimitPerMinute :: int
  sv_environment :: string

definition server_New :: "server_lib \<Rightarrow> 'r Deps \<Rightarrow> 'r Server" where
  "server_New lib d =
     (let env = (if dp_Environment d = [] then ''development'' else dp_Environment d);
          limitsSvc = \<lparr> ls_redis = dp_Redis d, ls_emitter = Some EmitLimitExceeded \<rparr> in
      \<lparr> sv_router = dp_Router d, sv_redis = dp_Redis d,
        sv_authHandlers = (if dp_Pool d then Some (NewAuth (dp_SessionSigningKey d) 0) else None),
        sv_wgHandlers = (if dp_Pool d then
            (case (dp_Tempo d, dp_Keystore d) of
               (Some tp, Some ks) \<Rightarrow> Some (NewWalletGroups (dp_CrossMint d) tp ks (Some limitsSvc) True)
             | _ \<Rightarrow> None) else None),
        sv_limitsHandlers = dp_Pool d,
        sv_sessionKeyHandlers = (if dp_Pool d then
            (case dp_Keystore d of
               Some ks \<Rightarrow> Some \<lparr> kh_svc = \<lparr> ss_geth = sl_geth lib, ss_ks = ks, ss_tempo = dp_Tempo d \<rparr>, kh_publisher = True \<rparr>
             | None \<Rightarrow> None) else None),
        sv_webhookHandlers = dp_Pool d,
        sv_vaddrHandlers = (if dp_Pool d then
            (case (dp_Tempo d, dp_Keystore d) of
               (Some tp, Some ks) \<Rightarrow> Some \<lparr> vh_tempo = tp, vh_registry = sl_registry lib, vh_ks = ks \<rparr>
             | _ \<Rightarrow> None) else None),
        sv_stmtsHandlers = dp_Pool d,
        sv_signingKey = dp_SessionSigningKey d, sv_metrics = dp_Metrics d,
        sv_rateLimitPerMinute = dp_RateLimitPerMinute d, sv_environment = env \<rparr>)"

section \<open>main.go\<close>

text \<open>
  The wiring of a process: what \<open>main\<close> hands to \<open>server.New\<close>, or the message it stops with. The
  connections are parameters: whether the database answers, the Redis client or the error of
  \<open>cache.Connect\<close>, the rails that \<open>crossmint.New\<close> and \<open>tempo.New\<close> build, the keystore of
  \<open>FromEnv\<close>.
\<close>

record 'r connections =
  cn_postgres :: "string option" \<comment> \<open>the error of \<open>db.Connect\<close>\<close>
  cn_redis :: "string + 'r redis_ops"
  cn_keystore :: "AESKeystore option"
  cn_crossmint :: "string + crossmint_adapter"
  cn_tempo :: "string + tempo_adapter"

definition opened :: "bool \<Rightarrow> string + 'a \<Rightarrow> string + 'a option" where
  "opened wanted r = (if wanted then (case r of Inl err \<Rightarrow> Inl err | Inr x \<Rightarrow> Inr (Some x)) else Inr None)"

definition main_deps :: "'r connections \<Rightarrow> (string \<Rightarrow> string) \<Rightarrow> string + 'r Deps" where
  "main_deps cn os =
     (case Load os of
        Inl err \<Rightarrow> Inl (''config: '' @ err)
      | Inr cfg \<Rightarrow>
          (let pool = (cf_DatabaseURL cfg \<noteq> []) in
           case (if pool then cn_postgres cn else None) of
             Some err \<Rightarrow> Inl (''postgres: '' @ err)
           | None \<Rightarrow>
               (case opened (cf_RedisURL cfg \<noteq> []) (cn_redis cn) of
                  Inl err \<Rightarrow> Inl (''redis: '' @ err)
                | Inr rdb \<Rightarrow>
                    if pool \<and> length (cf_SessionSigningKey cfg) < 32 then
                      Inl ''SESSION_SIGNING_KEY must be at least 32 bytes when DATABASE_URL is set (generate one with: openssl rand -base64 48)''
                    else
                      (let ks = (if pool then cn_keystore cn else None) in
                       case opened (cf_CrossMintAPIKey cfg \<noteq> []) (cn_crossmint cn) of
                         Inl err \<Rightarrow> Inl (''crossmint adapter: '' @ err)
                       | Inr cm \<Rightarrow>
                           (case opened (cf_TempoRPCURL cfg \<noteq> []) (cn_tempo cn) of
                              Inl err \<Rightarrow> Inl (''tempo adapter: '' @ err)
                            | Inr tp \<Rightarrow>
                                (let registered = (case cm of None \<Rightarrow> [] | Some a \<Rightarrow> [CrossMint a])
                                       @ (case tp of None \<Rightarrow> [] | Some a \<Rightarrow> [Tempo a]) in
                                 if registered = [] then Inl ''no rails configured''
                                 else Inr \<lparr> dp_Router = router_New (cf_DefaultRail cfg) registered, dp_Pool = pool,
                                            dp_SessionSigningKey = cf_SessionSigningKey cfg, dp_CrossMint = cm, dp_Tempo = tp,
                                            dp_Keystore = ks, dp_Redis = rdb, dp_Metrics = True,
                                            dp_RateLimitPerMinute = 600, dp_Environment = cf_Environment cfg \<rparr>))))))"

end
