(* ===== verification/Routes.thy ===== *)
theory Routes
  imports Server
begin

text \<open>
  The route table of \<open>Server.routes\<close> and what a request runs through: the environment header, the
  metrics, for \<open>/v1\<close> authentication and the rate limit, then the handler. \<open>serve\<close> is the whole of it
  as one transition of the gateway's state.
\<close>

section \<open>Metrics\<close>

definition StatusClass :: "int \<Rightarrow> string" where
  "StatusClass code =
     (if 200 \<le> code \<and> code < 300 then ''2xx'' else if 300 \<le> code \<and> code < 400 then ''3xx''
      else if 400 \<le> code \<and> code < 500 then ''4xx'' else if 500 \<le> code \<and> code < 600 then ''5xx'' else ''unknown'')"

text \<open>
  \<open>middleware.Metrics\<close>: the sample a request leaves in the counters, given what the rest of the chain
  returned. An error that a handler returns is turned into a response by the error handler only
  after the middleware chain has returned, so the status it reads is still fiber's initial 200.
\<close>

record http_sample =
  hs_method :: string
  hs_route :: string
  hs_class :: string

definition Metrics :: "bool \<Rightarrow> string \<Rightarrow> string \<Rightarrow> server_error + int \<Rightarrow> http_sample option" where
  "Metrics registry method route result =
     (if \<not> registry then None
      else Some \<lparr> hs_method = method, hs_route = (if route = [] then ''unknown'' else route),
                  hs_class = StatusClass (case result of Inl _ \<Rightarrow> 200 | Inr st \<Rightarrow> st) \<rparr>)"

section \<open>Requests\<close>

datatype api_call =
    Health | ListRails | ScrapeMetrics
  | PostSignup "SignupRequest option" | PostLogin "LoginRequest option"
  | GetAPIKeys | PostAPIKey "CreateAPIKeyRequest option" | DeleteAPIKey string
  | PostGroup "CreateGroupRequest option" | GetGroups | GetGroup | GetCapabilities
  | PostGroupTransaction "SendTransactionRequest option" | PostPrepare "PrepareTransactionRequest option"
  | PostSubmit "SubmitTransactionRequest option" | PostGroupOnramp "GroupOnrampRequest option"
  | PostSessionKey "CreateSessionKeyRequest option" | GetSessionKeys | DeleteSessionKey string | PostSubmitAuthorize "string option"
  | PostVirtualAddress "string option" | GetVirtualAddresses
  | GetBalance | GetStatement
  | GetLimits | PutLimits "UpdateTenantLimitsRequest option" | GetViolations
  | PostEndpoint "CreateEndpointRequest option" | GetEndpoints | GetEndpoint | PatchEndpoint "UpdateEndpointRequest option"
  | PostRotateSecret | DeleteEndpoint
  | PostWallet "string + CreateWalletRequest" | GetWallet | GetWalletBalances
  | PostTransaction "string + server_txRequest" | GetTransaction | PostOnrampOrder "string + server_onrampRequest"

record api_request =
  rq_call :: api_call
  rq_Authorization :: string
  rq_Params :: "string \<Rightarrow> string"
  rq_Query :: "string \<Rightarrow> string"
  rq_path :: string

text \<open>The routes outside the authenticated group.\<close>

fun public_route :: "api_call \<Rightarrow> bool" where
  "public_route Health = True"
| "public_route ListRails = True"
| "public_route ScrapeMetrics = True"
| "public_route (PostSignup _) = True"
| "public_route (PostLogin _) = True"
| "public_route _ = False"

text \<open>The state of the gateway: what the handlers share, and the Tempo adapter's in-memory keys.\<close>

record 'r gateway =
  gw_world :: "'r world"
  gw_keys :: MemoryKeystore

datatype answer = Answer response | RailAnswer int rail_body | MetricsText | NotRouted

definition on_world :: "response \<times> 'r world \<Rightarrow> 'r gateway \<Rightarrow> answer \<times> 'r gateway" where
  "on_world r g = (Answer (fst r), g\<lparr>gw_world := snd r\<rparr>)"

definition on_db :: "response \<times> db \<Rightarrow> 'r gateway \<Rightarrow> answer \<times> 'r gateway" where
  "on_db r g = (Answer (fst r), g\<lparr>gw_world := (gw_world g)\<lparr>w_db := snd r\<rparr>\<rparr>)"

definition reads :: "response \<Rightarrow> 'r gateway \<Rightarrow> answer \<times> 'r gateway" where
  "reads r g = (Answer r, g)"

definition rails_of :: "'r gateway \<Rightarrow> rail_state" where
  "rails_of g = \<lparr> rs_keys = gw_keys g, rs_chain = w_chain (gw_world g), rs_provider = w_provider (gw_world g) \<rparr>"

definition on_rails :: "rail_answer \<times> rail_state \<Rightarrow> 'r gateway \<Rightarrow> answer \<times> 'r gateway" where
  "on_rails r g =
     ((case fst r of Inl err \<Rightarrow> Answer (errorHandler err) | Inr (st, b) \<Rightarrow> RailAnswer st b),
      \<lparr> gw_world = (gw_world g)\<lparr>w_chain := rs_chain (snd r), w_provider := rs_provider (snd r)\<rparr>, gw_keys = rs_keys (snd r) \<rparr>)"

text \<open>A handler set that was not built has no routes.\<close>

definition mounted :: "'h option \<Rightarrow> ('h \<Rightarrow> answer \<times> 'r gateway) \<Rightarrow> 'r gateway \<Rightarrow> answer \<times> 'r gateway" where
  "mounted h f g = (case h of None \<Rightarrow> (NotRouted, g) | Some x \<Rightarrow> f x)"

definition built :: "bool \<Rightarrow> unit option" where
  "built b = (if b then Some () else None)"

definition rails_json :: "server_lib \<Rightarrow> 'r Server \<Rightarrow> json" where
  "rails_json lib s = JArr (map JStr (Registered (sl_map_order lib) (sv_router s)))"

definition server_health :: "server_lib \<Rightarrow> 'r Server \<Rightarrow> response" where
  "server_health lib s = Reply 200 (JObj
     [(''environment'', JStr (sv_environment s)), (''rails'', rails_json lib s), (''status'', JStr ''ok'')])"

definition server_listRails :: "server_lib \<Rightarrow> 'r Server \<Rightarrow> response" where
  "server_listRails lib s = Reply 200 (JObj [(''rails'', rails_json lib s)])"

section \<open>The route table\<close>

text \<open>The text of the Prometheus scrape is left out.\<close>

fun public_handler :: "server_lib \<Rightarrow> 'r Server \<Rightarrow> env \<Rightarrow> api_call \<Rightarrow> 'r gateway \<Rightarrow> answer \<times> 'r gateway" where
  "public_handler lib s e Health g = reads (server_health lib s) g"
| "public_handler lib s e ListRails g = reads (server_listRails lib s) g"
| "public_handler lib s e ScrapeMetrics g = mounted (built (sv_metrics s)) (\<lambda>_. (MetricsText, g)) g"
| "public_handler lib s e (PostSignup body) g =
     mounted (sv_authHandlers s) (\<lambda>_. on_db (Auth_Signup (sl_auth lib) e body (w_db (gw_world g))) g) g"
| "public_handler lib s e (PostLogin body) g =
     mounted (sv_authHandlers s) (\<lambda>h. on_db (Auth_Login (sl_auth lib) h e body (w_db (gw_world g))) g) g"
| "public_handler lib s e _ g = (NotRouted, g)"

fun v1_handler ::
    "server_lib \<Rightarrow> 'r Server \<Rightarrow> env \<Rightarrow> request_ctx \<Rightarrow> api_call \<Rightarrow> 'r gateway \<Rightarrow> answer \<times> 'r gateway" where
  "v1_handler lib s e cx GetAPIKeys g =
     mounted (sv_authHandlers s) (\<lambda>_. reads (Auth_ListAPIKeys e cx (w_db (gw_world g))) g) g"
| "v1_handler lib s e cx (PostAPIKey body) g =
     mounted (sv_authHandlers s) (\<lambda>_. on_db (Auth_CreateAPIKey (sl_auth lib) e cx body (w_db (gw_world g))) g) g"
| "v1_handler lib s e cx (DeleteAPIKey reason) g =
     mounted (sv_authHandlers s) (\<lambda>_. on_db (Auth_RevokeAPIKey e cx reason (w_db (gw_world g))) g) g"
| "v1_handler lib s e cx (PostGroup body) g =
     mounted (sv_wgHandlers s) (\<lambda>h. on_world (WalletGroups_Create h e cx body (gw_world g)) g) g"
| "v1_handler lib s e cx GetGroups g =
     mounted (sv_wgHandlers s) (\<lambda>_. reads (WalletGroups_List e cx (w_db (gw_world g))) g) g"
| "v1_handler lib s e cx GetGroup g =
     mounted (sv_wgHandlers s) (\<lambda>_. reads (WalletGroups_Get e cx (w_db (gw_world g))) g) g"
| "v1_handler lib s e cx GetCapabilities g =
     mounted (sv_wgHandlers s) (\<lambda>_. reads (WalletGroups_Capabilities e cx (w_db (gw_world g))) g) g"
| "v1_handler lib s e cx (PostGroupTransaction body) g =
     mounted (sv_wgHandlers s) (\<lambda>h. on_world (WalletGroups_SendTransaction h e cx body (gw_world g)) g) g"
| "v1_handler lib s e cx (PostPrepare body) g =
     mounted (sv_wgHandlers s) (\<lambda>h. on_db (WalletGroups_PrepareTransaction h e cx body (w_db (gw_world g))) g) g"
| "v1_handler lib s e cx (PostSubmit body) g =
     mounted (sv_wgHandlers s) (\<lambda>h. on_world (WalletGroups_SubmitTransaction h e cx body (gw_world g)) g) g"
| "v1_handler lib s e cx (PostGroupOnramp body) g =
     mounted (sv_wgHandlers s) (\<lambda>h. on_world (WalletGroups_CreateOnramp h e cx body (gw_world g)) g) g"
| "v1_handler lib s e cx (PostSessionKey body) g =
     mounted (sv_sessionKeyHandlers s) (\<lambda>h. on_world (SessionKeys_Create h e cx body (gw_world g)) g) g"
| "v1_handler lib s e cx GetSessionKeys g =
     mounted (sv_sessionKeyHandlers s) (\<lambda>_. reads (SessionKeys_List e cx (w_db (gw_world g))) g) g"
| "v1_handler lib s e cx (DeleteSessionKey reason) g =
     mounted (sv_sessionKeyHandlers s) (\<lambda>h. on_db (SessionKeys_Revoke h e cx reason (w_db (gw_world g))) g) g"
| "v1_handler lib s e cx (PostSubmitAuthorize body) g =
     mounted (sv_sessionKeyHandlers s) (\<lambda>h. on_world (SessionKeys_SubmitAuthorize h e cx body (gw_world g)) g) g"
| "v1_handler lib s e cx (PostVirtualAddress body) g =
     mounted (sv_vaddrHandlers s) (\<lambda>h. on_world (VirtualAddresses_Create h e cx body (gw_world g)) g) g"
| "v1_handler lib s e cx GetVirtualAddresses g =
     mounted (sv_vaddrHandlers s) (\<lambda>_. reads (VirtualAddresses_List e cx (w_db (gw_world g))) g) g"
| "v1_handler lib s e cx GetBalance g =
     mounted (built (sv_stmtsHandlers s))
       (\<lambda>_. reads (Statements_GetGroupBalance (sl_aggregates lib) e cx (w_db (gw_world g))) g) g"
| "v1_handler lib s e cx GetStatement g =
     mounted (built (sv_stmtsHandlers s))
       (\<lambda>_. reads (Statements_GetMonthlyStatement (sl_aggregates lib) e cx (w_db (gw_world g))) g) g"
| "v1_handler lib s e cx GetLimits g =
     mounted (built (sv_limitsHandlers s)) (\<lambda>_. reads (Limits_GetTenantLimits (sl_jsonb_text lib) e cx (w_db (gw_world g))) g) g"
| "v1_handler lib s e cx (PutLimits body) g =
     mounted (built (sv_limitsHandlers s))
       (\<lambda>_. on_db (Limits_UpdateTenantLimits (sl_jsonb_text lib) e cx body (w_db (gw_world g))) g) g"
| "v1_handler lib s e cx GetViolations g =
     mounted (built (sv_limitsHandlers s)) (\<lambda>_. reads (Limits_ListViolations e cx (w_db (gw_world g))) g) g"
| "v1_handler lib s e cx (PostEndpoint body) g =
     mounted (built (sv_webhookHandlers s)) (\<lambda>_. on_db (Webhooks_Create e cx body (w_db (gw_world g))) g) g"
| "v1_handler lib s e cx GetEndpoints g =
     mounted (built (sv_webhookHandlers s)) (\<lambda>_. reads (Webhooks_List e cx (w_db (gw_world g))) g) g"
| "v1_handler lib s e cx GetEndpoint g =
     mounted (built (sv_webhookHandlers s)) (\<lambda>_. reads (Webhooks_Get e cx (w_db (gw_world g))) g) g"
| "v1_handler lib s e cx (PatchEndpoint body) g =
     mounted (built (sv_webhookHandlers s)) (\<lambda>_. on_db (Webhooks_Update e cx body (w_db (gw_world g))) g) g"
| "v1_handler lib s e cx PostRotateSecret g =
     mounted (built (sv_webhookHandlers s)) (\<lambda>_. on_db (Webhooks_RotateSecret e cx (w_db (gw_world g))) g) g"
| "v1_handler lib s e cx DeleteEndpoint g =
     mounted (built (sv_webhookHandlers s)) (\<lambda>_. on_db (Webhooks_Delete e cx (w_db (gw_world g))) g) g"
| "v1_handler lib s e cx (PostWallet body) g = on_rails (server_createWallet (sv_router s) e cx body (rails_of g)) g"
| "v1_handler lib s e cx GetWallet g = on_rails (server_getWallet (sv_router s) cx (rails_of g)) g"
| "v1_handler lib s e cx GetWalletBalances g = on_rails (server_getBalances (sv_router s) cx (rails_of g)) g"
| "v1_handler lib s e cx (PostTransaction body) g = on_rails (server_createTransaction (sv_router s) e cx body (rails_of g)) g"
| "v1_handler lib s e cx GetTransaction g = on_rails (server_getTransaction (sv_router s) cx (rails_of g)) g"
| "v1_handler lib s e cx (PostOnrampOrder body) g = on_rails (server_createOnramp (sv_router s) e cx body (rails_of g)) g"
| "v1_handler lib s e cx _ g = (NotRouted, g)"

section \<open>The middleware chain\<close>

definition request_context :: "api_request \<Rightarrow> request_ctx" where
  "request_context rq =
     \<lparr> cx_TenantID = [], cx_APIKeyID = [], cx_UserID = [], cx_Role = [], cx_Params = rq_Params rq, cx_Query = rq_Query rq \<rparr>"

definition auth_mounted :: "'r Server \<Rightarrow> bool" where
  "auth_mounted s \<longleftrightarrow> sv_authHandlers s \<noteq> None \<and> 32 \<le> length (sv_signingKey s)"

definition authenticate ::
    "server_lib \<Rightarrow> 'r Server \<Rightarrow> env \<Rightarrow> api_request \<Rightarrow> db \<Rightarrow> (response + request_ctx) \<times> db" where
  "authenticate lib s e rq d =
     (if auth_mounted s then
        EitherAuthForEnvironment (sl_auth lib) e (sv_signingKey s) (sv_environment s) (rq_Authorization rq) (request_context rq) d
      else (Inr (request_context rq), d))"

definition limit_rate ::
    "'r Server \<Rightarrow> env \<Rightarrow> request_ctx \<Rightarrow> 'r \<Rightarrow> response option \<times> rate_headers option \<times> 'r" where
  "limit_rate s e cx r =
     (if 0 < sv_rateLimitPerMinute s
      then RateLimit (sv_redis s) \<lparr> rl_RequestsPerMinute = sv_rateLimitPerMinute s, rl_KeyPrefix = [] \<rparr> e cx r
      else (None, None, r))"

record outcome =
  oc_environment :: string
  oc_rate :: "rate_headers option"
  oc_answer :: answer

definition routed :: "server_lib \<Rightarrow> api_request \<Rightarrow> answer \<Rightarrow> answer" where
  "routed lib rq a = (case a of NotRouted \<Rightarrow> Answer (errorHandler (FiberError 404 (sl_cannot_route lib (rq_path rq)))) | _ \<Rightarrow> a)"

definition serve :: "server_lib \<Rightarrow> 'r Server \<Rightarrow> env \<Rightarrow> api_request \<Rightarrow> 'r gateway \<Rightarrow> outcome \<times> 'r gateway" where
  "serve lib s e rq g =
     (let out = (\<lambda>rate a. \<lparr> oc_environment = sv_environment s, oc_rate = rate, oc_answer = routed lib rq a \<rparr>) in
      if public_route (rq_call rq) then
        (case public_handler lib s e (rq_call rq) g of (a, g1) \<Rightarrow> (out None a, g1))
      else
        (case authenticate lib s e rq (w_db (gw_world g)) of
           (Inl resp, d1) \<Rightarrow> (out None (Answer resp), g\<lparr>gw_world := (gw_world g)\<lparr>w_db := d1\<rparr>\<rparr>)
         | (Inr cx, d1) \<Rightarrow>
             (case limit_rate s e cx (w_redis (gw_world g)) of
                (Some resp, rate, r1) \<Rightarrow> (out rate (Answer resp), g\<lparr>gw_world := (gw_world g)\<lparr>w_db := d1, w_redis := r1\<rparr>\<rparr>)
              | (None, rate, r1) \<Rightarrow>
                  (case v1_handler lib s e cx (rq_call rq) (g\<lparr>gw_world := (gw_world g)\<lparr>w_db := d1, w_redis := r1\<rparr>\<rparr>) of
                     (a, g1) \<Rightarrow> (out rate a, g1)))))"

section \<open>Background workers\<close>

text \<open>
  One step of a running gateway: a request, a tick of the delivery worker, a tick of the rotator. The
  workers run only when there is a database.
\<close>

inductive gateway_step :: "server_lib \<Rightarrow> 'r Server \<Rightarrow> 'r gateway \<Rightarrow> 'r gateway \<Rightarrow> bool" for lib s where
  request: "serve lib s e rq g = (oc, g') \<Longrightarrow> gateway_step lib s g g'"
| deliver: "Tick NewWorker e c (w_db (gw_world g)) = (st, d') \<Longrightarrow> gateway_step lib s g (g\<lparr>gw_world := (gw_world g)\<lparr>w_db := d'\<rparr>\<rparr>)"
| rotate: "rotator_Tick (NewRotator 0) e (w_db (gw_world g)) = (st, d') \<Longrightarrow>
    gateway_step lib s g (g\<lparr>gw_world := (gw_world g)\<lparr>w_db := d'\<rparr>\<rparr>)"

inductive_cases gateway_stepE: "gateway_step lib s g g'"

end
