(* ===== verification/Gateway_Spec.thy ===== *)
theory Gateway_Spec
  imports Routes Limits_Handlers_Spec Webhook_Handlers_Spec Virtual_Addresses_Spec Wallet_Groups_Spec Session_Key_Handlers_Spec
    Auth_Handlers_Spec Prepared_Spec Session_Keys_Lifecycle
begin

text \<open>
  What holds of one request to the gateway: whatever \<open>serve\<close> does on behalf of a tenant keeps every
  invariant of the interface \<open>tenant_store\<close> for the tenant it acts for, and a request
  that authentication refuses changes nothing.
\<close>

section \<open>Handlers keep the invariants of the store\<close>

definition gw_db :: "'r gateway \<Rightarrow> db" where
  "gw_db g = w_db (gw_world g)"

definition server_wired :: "'r Server \<Rightarrow> bool" where
  "server_wired s \<longleftrightarrow> (\<forall>h. sv_wgHandlers s = Some h \<longrightarrow> limits_wired h)"

lemma server_New_wired: "server_wired (server_New lib deps)"
  by (auto simp: server_wired_def server_New_def Let_def limits_wired_def NewWalletGroups_def webhook_emitter_only_def
      split: option.splits if_splits)

text \<open>The effect of each kind of route on the database.\<close>

lemma route_effects:
  "gw_db (snd (reads r g)) = gw_db g"
  "gw_db (snd (on_db x g)) = snd x"
  "gw_db (snd (on_world y g)) = w_db (snd y)"
  "gw_db (snd (on_rails z g)) = gw_db g"
  by (simp_all add: reads_def on_db_def on_world_def on_rails_def gw_db_def)

lemma mounted_keep:
  assumes "Q g" "\<And>x. h = Some x \<Longrightarrow> Q (snd (f x))"
  shows "Q (snd (mounted h f g))"
  using assms by (simp add: mounted_def split: option.split)

context tenant_store
begin

lemma mounted_keep_db: "P t (gw_db g) \<Longrightarrow> (\<And>x. h = Some x \<Longrightarrow> P t (gw_db (snd (f x)))) \<Longrightarrow> P t (gw_db (snd (mounted h f g)))"
  by (rule mounted_keep [where Q = "\<lambda>g. P t (gw_db g)"])

lemmas handler_keeps =
  Auth_CreateAPIKey_keep Auth_RevokeAPIKey_keep WalletGroups_Create_keep SendTransaction_keep PrepareTransaction_keep
  SubmitTransaction_keep CreateOnramp_keep SessionKeys_Create_keep SessionKeys_Revoke_keep SessionKeys_SubmitAuthorize_keep
  VirtualAddresses_Create_keep Limits_UpdateTenantLimits_keep Webhooks_Create_keep Webhooks_Update_keep
  Webhooks_RotateSecret_keep Webhooks_Delete_keep

lemma v1_handler_keep:
  assumes p: "P (cx_TenantID cx) (gw_db g)" and wired: "server_wired s"
  shows "P (cx_TenantID cx) (gw_db (snd (v1_handler lib s e cx call g)))"
proof -
  have w: "limits_wired h" if "sv_wgHandlers s = Some h" for h using wired that by (simp add: server_wired_def)
  note p' = p [unfolded gw_db_def]
  show ?thesis
    by (cases call; simp only: v1_handler.simps snd_conv; (intro mounted_keep_db)?;
        (simp only: route_effects)?; (rule p handler_keeps p' w | assumption)+)
qed

end

section \<open>Who a request acts for\<close>

definition login_tenant :: "LoginRequest option \<Rightarrow> db \<Rightarrow> string" where
  "login_tenant body d =
     (case body of
        None \<Rightarrow> []
      | Some req \<Rightarrow> (case GetUserByEmail (ToLower (TrimSpace (lr_Email req))) d of [] \<Rightarrow> [] | user # _ \<Rightarrow> us_TenantID user))"

text \<open>
  A signup acts for the tenant it creates, a login for the tenant of the user it finds, a \<open>/v1\<close> request
  for the tenant its credentials belong to.
\<close>

definition acting_tenant :: "server_lib \<Rightarrow> 'r Server \<Rightarrow> env \<Rightarrow> api_request \<Rightarrow> db \<Rightarrow> string" where
  "acting_tenant lib s e rq d =
     (case rq_call rq of
        PostSignup _ \<Rightarrow> fresh_id e ''Signup.tn'' []
      | PostLogin body \<Rightarrow> login_tenant body d
      | call \<Rightarrow> if public_route call then []
                else (case fst (authenticate lib s e rq d) of Inl _ \<Rightarrow> [] | Inr cx \<Rightarrow> cx_TenantID cx))"

lemma EitherAuth_refused: "EitherAuthForEnvironment lib e key gw hdr cx d = (Inl resp, d') \<Longrightarrow> d' = d"
  by (auto simp: EitherAuthForEnvironment_def APIKeyAuthForEnvironment_def
      split: option.splits parsed_key.splits sum.splits if_splits)

lemma authenticate_refused: "authenticate lib s e rq d = (Inl resp, d') \<Longrightarrow> d' = d \<and> auth_mounted s"
  by (auto simp: authenticate_def dest: EitherAuth_refused split: if_splits)

lemma acting_tenant_v1:
  assumes "\<not> public_route (rq_call rq)"
  shows "acting_tenant lib s e rq d = (case fst (authenticate lib s e rq d) of Inl _ \<Rightarrow> [] | Inr cx \<Rightarrow> cx_TenantID cx)"
  using assms by (cases "rq_call rq") (simp_all add: acting_tenant_def)

text \<open>The three ways a \<open>/v1\<close> request can end.\<close>

lemma serve_v1_cases [consumes 2, case_names refused limited handled]:
  assumes "serve lib s e rq g = (oc, g')" "\<not> public_route (rq_call rq)"
  obtains (refused) resp where "authenticate lib s e rq (gw_db g) = (Inl resp, gw_db g)" "g' = g"
      "oc_answer oc = Answer resp" "auth_mounted s"
  | (limited) cx d1 resp rate r1 where "authenticate lib s e rq (gw_db g) = (Inr cx, d1)"
      "limit_rate s e cx (w_redis (gw_world g)) = (Some resp, rate, r1)"
      "g' = g\<lparr>gw_world := (gw_world g)\<lparr>w_db := d1, w_redis := r1\<rparr>\<rparr>" "oc_answer oc = Answer resp"
  | (handled) cx d1 rate r1 a where "authenticate lib s e rq (gw_db g) = (Inr cx, d1)"
      "limit_rate s e cx (w_redis (gw_world g)) = (None, rate, r1)"
      "v1_handler lib s e cx (rq_call rq) (g\<lparr>gw_world := (gw_world g)\<lparr>w_db := d1, w_redis := r1\<rparr>\<rparr>) = (a, g')"
      "oc_answer oc = routed lib rq a"
proof -
  obtain res d1 where au: "authenticate lib s e rq (gw_db g) = (res, d1)" by force
  show thesis
  proof (cases res)
    case (Inl resp)
    note r = authenticate_refused [OF au [unfolded Inl]]
    have "g' = g\<lparr>gw_world := (gw_world g)\<lparr>w_db := d1\<rparr>\<rparr>" "oc_answer oc = Answer resp"
      using assms au Inl by (auto simp: serve_def Let_def gw_db_def routed_def)
    then show thesis using refused au Inl r by (simp add: gw_db_def)
  next
    case (Inr cx)
    obtain lim rate r1 where li: "limit_rate s e cx (w_redis (gw_world g)) = (lim, rate, r1)" by (metis prod_cases3)
    show thesis
    proof (cases lim)
      case None
      obtain a g1 where "v1_handler lib s e cx (rq_call rq) (g\<lparr>gw_world := (gw_world g)\<lparr>w_db := d1, w_redis := r1\<rparr>\<rparr>) = (a, g1)" by force
      then show thesis using handled assms au Inr li None by (auto simp: serve_def Let_def gw_db_def)
    next
      case (Some resp)
      then show thesis using limited assms au Inr li by (auto simp: serve_def Let_def gw_db_def routed_def)
    qed
  qed
qed

context tenant_store
begin

lemma authenticate_keep:
  assumes "authenticate lib s e rq d = (Inr cx, d')" "P (cx_TenantID cx) d"
  shows "P (cx_TenantID cx) d'"
  using assms by (auto simp: authenticate_def dest: EitherAuth_keep split: if_splits)

lemma Auth_Login_keep_tenant: "P (login_tenant body d) d \<Longrightarrow> P (login_tenant body d) (snd (Auth_Login lib h e body d))"
  by (rule Auth_Login_keep) (auto simp: login_tenant_def)

lemma public_handler_keep:
  assumes "P t (gw_db g)" "public_route call"
    "\<forall>body. call = PostSignup body \<longrightarrow> t = fresh_id e ''Signup.tn'' []"
    "\<forall>body. call = PostLogin body \<longrightarrow> t = login_tenant body (gw_db g)"
  shows "P t (gw_db (snd (public_handler lib s e call g)))"
  using assms(2)
proof (cases call)
  case (PostSignup body)
  then show ?thesis using assms(1,3) unfolding PostSignup public_handler.simps
    by (intro mounted_keep_db) (auto simp: route_effects simp flip: gw_db_def intro: Auth_Signup_keep)
next
  case (PostLogin body)
  have "P t (snd (Auth_Login l h e body (gw_db g)))" for l h
    using Auth_Login_keep_tenant [of body "gw_db g" l h e] assms(1,4) PostLogin by simp
  then show ?thesis using assms(1) unfolding PostLogin public_handler.simps
    by (intro mounted_keep_db) (auto simp: route_effects simp flip: gw_db_def)
qed (use assms(1) in \<open>auto simp: route_effects mounted_def split: option.splits\<close>)

lemma serve_keep:
  assumes run: "serve lib s e rq g = (oc, g')" and p: "P (acting_tenant lib s e rq (gw_db g)) (gw_db g)" and w: "server_wired s"
  shows "P (acting_tenant lib s e rq (gw_db g)) (gw_db g')"
proof (cases "public_route (rq_call rq)")
  case True
  obtain a where h: "public_handler lib s e (rq_call rq) g = (a, g')"
    using run True by (auto simp: serve_def Let_def split: prod.splits)
  have "P (acting_tenant lib s e rq (gw_db g)) (gw_db (snd (public_handler lib s e (rq_call rq) g)))"
    by (rule public_handler_keep [OF p True]) (simp_all add: acting_tenant_def)
  then show ?thesis by (simp add: h)
next
  case False
  note t = acting_tenant_v1 [OF False, of lib s e "gw_db g"]
  from run False show ?thesis
  proof (cases rule: serve_v1_cases)
    case refused
    then show ?thesis using p by simp
  next
    case limited
    then show ?thesis using p t authenticate_keep [OF limited(1)] by (simp add: gw_db_def)
  next
    case (handled cx d1 rate r1 a)
    have "P (cx_TenantID cx) (gw_db (g\<lparr>gw_world := (gw_world g)\<lparr>w_db := d1, w_redis := r1\<rparr>\<rparr>))"
      using p t authenticate_keep [OF handled(1)] handled(1) by (simp add: gw_db_def)
    from v1_handler_keep [OF this w, of lib e "rq_call rq"] show ?thesis
      using t handled by simp
  qed
qed

end

end
