(* ===== verification/Gateway_Runs.thy ===== *)
theory Gateway_Runs
  imports Gateway_Spec
begin

text \<open>
  Runs of the gateway: any sequence of requests, delivery ticks and rotator ticks. The locale
  \<open>worker_store\<close> is the interface the background workers write through, \<open>gateway_invariant\<close> joins it
  with the interface of the handlers; what satisfies both holds along every run. It is interpreted
  on the typing of the database and on the revocation of an API key.
\<close>

section \<open>The statements of the background workers\<close>

locale worker_store =
  fixes Q :: "db \<Rightarrow> bool"
  assumes keep_MarkWebhookEventDelivering: "Q d \<Longrightarrow> Q (snd (MarkWebhookEventDelivering now i d))"
    and keep_MarkWebhookEventDelivered: "Q d \<Longrightarrow> Q (snd (MarkWebhookEventDelivered now i code d))"
    and keep_MarkWebhookEventFailed: "Q d \<Longrightarrow> Q (snd (MarkWebhookEventFailed now i nxt oc ob oe d))"
    and keep_MarkWebhookEventDead: "Q d \<Longrightarrow> Q (MarkWebhookEventDead now i d)"
    and keep_TouchWebhookEndpointSuccess: "Q d \<Longrightarrow> Q (TouchWebhookEndpointSuccess now i d)"
    and keep_TouchWebhookEndpointFailure: "Q d \<Longrightarrow> Q (snd (TouchWebhookEndpointFailure now i d))"
    and keep_PauseWebhookEndpoint: "Q d \<Longrightarrow> Q (PauseWebhookEndpoint now i d)"
    and keep_UpdateSessionKeyStatus: "Q d \<Longrightarrow> Q (snd (UpdateSessionKeyStatus now i st d))"
begin

lemma keep_worker_write: "Q d \<Longrightarrow> Q (snd q) \<Longrightarrow> Q (snd (db_write f d q))"
  by (cases f) auto

lemma scheduleRetry_keep: "Q d \<Longrightarrow> Q (scheduleRetry w e evt err body code d)"
  unfolding scheduleRetry_def Let_def
  by (simp add: keep_MarkWebhookEventDead keep_MarkWebhookEventFailed keep_worker_write split: option.split)

lemma bumpFailure_keep:
  assumes "Q d" shows "Q (bumpFailure w e evID epID d)"
proof -
  have "Q d1" if "db_write f d (TouchWebhookEndpointFailure now epID d) = (x, d1)" for f now x d1
    using keep_worker_write [OF assms keep_TouchWebhookEndpointFailure [OF assms]] that by (metis snd_conv)
  then show ?thesis
    unfolding bumpFailure_def by (auto intro: keep_PauseWebhookEndpoint split: prod.split sum.split option.split)
qed

lemma deliverOne_keep: "Q d \<Longrightarrow> Q (snd (deliverOne w e c evt st d))"
  unfolding deliverOne_def Let_def
  by (auto split: option.split sum.split prod.split
      intro: scheduleRetry_keep bumpFailure_keep keep_MarkWebhookEventDead keep_TouchWebhookEndpointSuccess
        keep_worker_write keep_MarkWebhookEventDelivered)

lemma tick_loop_keep: "Q d \<Longrightarrow> Q (snd (tick_loop w e c evts st d))"
proof (induction evts arbitrary: st d)
  case (Cons evt evts)
  obtain res d1 where cl: "db_write (fault e ''Tick.MarkWebhookEventDelivering'' (ev_ID evt)) d
      (MarkWebhookEventDelivering (clock e ''Tick.sqlnow'' (ev_ID evt)) (ev_ID evt) d) = (res, d1)" by force
  have q: "Q d1" using keep_worker_write [OF Cons.prems keep_MarkWebhookEventDelivering [OF Cons.prems]] cl by (metis snd_conv)
  show ?case
  proof (cases res)
    case (Inr r)
    obtain st2 d2 where dl: "deliverOne w e c r (st\<lparr>ts_Claimed := ts_Claimed st + 1\<rparr>) d1 = (st2, d2)" by force
    then have "Q d2" using deliverOne_keep [OF q, of w e c r] by (metis snd_conv)
    then show ?thesis using Cons.IH cl Inr dl by simp
  qed (use Cons.IH [OF q] cl in simp)
qed simp

lemma Tick_keep: "Q d \<Longrightarrow> Q (snd (Tick w e c d))"
  by (simp add: Tick_def Let_def tick_loop_keep split: sum.split)

lemma sweep_loop_keep: "Q d \<Longrightarrow> Q (snd (sweep_loop e sks n d))"
proof (induction sks arbitrary: n d)
  case (Cons sk sks)
  have "Q (snd (db_write f d (UpdateSessionKeyStatus now i st d)))" for f now i st
    by (rule keep_worker_write [OF Cons.prems keep_UpdateSessionKeyStatus [OF Cons.prems]])
  then show ?case using Cons.IH by (auto split: prod.split sum.split) (metis snd_conv)+
qed simp

lemma rotator_Tick_keep: "Q d \<Longrightarrow> Q (snd (rotator_Tick r e d))"
  using sweep_loop_keep [of d] by (auto simp: rotator_Tick_def Let_def split: prod.split) (metis snd_conv)

end

locale gateway_invariant = tenant_store "\<lambda>_. Q" + worker_store Q for Q
begin

lemma gateway_step_keep:
  assumes "gateway_step lib s g g'" "server_wired s" "Q (gw_db g)"
  shows "Q (gw_db g')"
proof -
  have r: "Q (gw_db g')" if "serve lib s e rq g = (oc, g')" for e rq oc by (rule serve_keep [OF that assms(3,2)])
  have d: "Q d'" if "Tick NewWorker e c (w_db (gw_world g)) = (st, d')" for e c st d'
    using Tick_keep [OF assms(3), of NewWorker e c] that by (simp add: gw_db_def)
  have k: "Q d'" if "rotator_Tick (NewRotator 0) e (w_db (gw_world g)) = (st, d')" for e st d'
    using rotator_Tick_keep [OF assms(3), of "NewRotator 0" e] that by (simp add: gw_db_def)
  from assms(1) show ?thesis by (rule gateway_stepE) (auto simp: gw_db_def [of "gateway.gw_world_update _ _"] intro: d k r)
qed

lemma gateway_run_keep: "(gateway_step lib s)\<^sup>*\<^sup>* g g' \<Longrightarrow> server_wired s \<Longrightarrow> Q (gw_db g) \<Longrightarrow> Q (gw_db g')"
  by (induction rule: rtranclp_induct) (auto intro: gateway_step_keep)

end

section \<open>Databases stay well-formed\<close>

lemma event_update_wf:
  assumes "db_wf d" "\<And>r. ev_ID (f r) = ev_ID r" "\<And>r q. event_ok q r \<Longrightarrow> event_ok q (f r)"
  shows "db_wf (d\<lparr>webhook_events := snd (update_one chk p f (webhook_events d))\<rparr>)"
  using update_one_snd [of chk p f "webhook_events d"] db_wf_upd_webhook_events [of d f p] assms by auto

lemma MarkEvents_wf:
  assumes "db_wf d"
  shows "db_wf (snd (MarkWebhookEventDelivering now i d))" "db_wf (snd (MarkWebhookEventDelivered now i code d))"
    "db_wf (snd (MarkWebhookEventFailed now i nxt oc ob oe d))" "db_wf (MarkWebhookEventDead now i d)"
  using assms
  unfolding MarkWebhookEventDelivering_def MarkWebhookEventDelivered_def MarkWebhookEventFailed_def MarkWebhookEventDead_def
  by (auto simp: split_beta set_event_delivering_def set_event_delivered_def set_event_failed_def set_event_dead_def
      event_ok_def event_check_def intro!: event_update_wf db_wf_upd_webhook_events)

interpretation worker_integrity: worker_store db_wf
  by unfold_locales (assumption | rule MarkEvents_wf TouchWebhookEndpointSuccess_wf TouchWebhookEndpointFailure_wf
      PauseWebhookEndpoint_wf UpdateSessionKeyStatus_wf)+

interpretation gateway_integrity: gateway_invariant db_wf
  by (intro gateway_invariant.intro integrity.tenant_store_axioms worker_integrity.worker_store_axioms)

section \<open>A concrete gateway\<close>

definition demo_server_lib :: server_lib where
  "demo_server_lib = \<lparr> sl_auth = demo_lib, sl_geth = demo_geth, sl_registry = demo_registry, 
     sl_aggregates = \<lparr> agg_order = (\<lambda>ks. ks), agg_sum_text = concat, agg_sum_numeric = (\<lambda>_. []) \<rparr>, sl_jsonb_text = (\<lambda>_. []), sl_map_order = (\<lambda>xs. xs), sl_cannot_route = (\<lambda>p. ''Cannot route '' @ p) \<rparr>"

definition demo_provider :: crossmint_adapter where
  "demo_provider = \<lparr> cm_http = (\<lambda>_. Inr \<lparr> cp_status = 200, cp_text = [], cp_json = JEmpty \<rparr>) \<rparr>"

definition demo_deps :: "(string \<Rightarrow> int) Deps" where
  "demo_deps = \<lparr> dp_Router = router_New ''crossmint'' [CrossMint demo_provider], dp_Pool = True,
     dp_SessionSigningKey = replicate 32 CHR ''s'', dp_CrossMint = Some demo_provider, dp_Tempo = None, dp_Keystore = None,
     dp_Redis = None, dp_Metrics = True, dp_RateLimitPerMinute = 600, dp_Environment = ''development'' \<rparr>"

definition demo_raw :: string where
  "demo_raw = ''sk_test_'' @ replicate 12 CHR ''k''"

definition demo_header :: string where
  "demo_header = ''Bearer '' @ demo_raw"

definition demo_api_key :: "time option \<Rightarrow> time option \<Rightarrow> string option \<Rightarrow> ApiKey" where
  "demo_api_key used revoked reason = \<lparr> ak_ID = ''ak'', ak_TenantID = ''tn'', ak_CreatedBy = None, ak_Name = ''ci'', ak_Environment = ''test'',
     ak_KeyPrefix = ''sk_test_kkkk'', ak_KeyHash = rev demo_raw, ak_LastUsedAt = used, ak_RevokedAt = revoked, ak_RevokedReason = reason,
     ak_CreatedAt = 0 \<rparr>"

definition demo_key_db :: "ApiKey \<Rightarrow> db" where
  "demo_key_db k = empty_db\<lparr>tenants := [\<lparr> tn_ID = ''tn'', tn_Name = ''t'', tn_PrimaryEmail = ''e'', tn_Plan = [], tn_Status = [],
     tn_Metadata = empty_object, tn_CreatedAt = 0, tn_UpdatedAt = 0 \<rparr>], api_keys := [k]\<rparr>"

definition demo_gateway :: "db \<Rightarrow> (string \<Rightarrow> int) gateway" where
  "demo_gateway d = \<lparr> gw_world = \<lparr> w_db = d, w_redis = (\<lambda>_. 0), w_chain = [], w_provider = [] \<rparr>, gw_keys = (\<lambda>_. None) \<rparr>"

definition demo_call :: "api_call \<Rightarrow> api_request" where
  "demo_call c = \<lparr> rq_call = c, rq_Authorization = demo_header, rq_Params = (\<lambda>_. ''ak''), rq_Query = (\<lambda>_. []),
     rq_path = ''/v1/x'' \<rparr>"

lemma demo_bearer: "bearerFromHeader demo_header = Some demo_raw"
  by code_simp

lemma demo_parse: "ParseAPIKey demo_raw = KeyEnv ''test''" "HasPrefix demo_raw ''sk_''" "8 \<le> length demo_raw"
  by code_simp+

lemma demo_server:
  "sv_authHandlers (server_New lib demo_deps) = Some (NewAuth (replicate 32 CHR ''s'') 0)" "sv_signingKey (server_New lib demo_deps) = replicate 32 CHR ''s''"
  "sv_environment (server_New lib demo_deps) = ''development''" "sv_redis (server_New lib demo_deps) = None"
  "sv_router (server_New lib demo_deps) = router_New ''crossmint'' [CrossMint demo_provider]"
  "auth_mounted (server_New lib demo_deps)" "sv_rateLimitPerMinute (server_New lib demo_deps) = 600"
  by (simp_all add: server_New_def demo_deps_def Let_def auth_mounted_def)

lemma demo_wf: "ak_TenantID k = ''tn'' \<Longrightarrow> ak_Environment k = ''test'' \<Longrightarrow> ak_CreatedBy k = None \<Longrightarrow> db_wf (demo_key_db k)"
  by (simp add: demo_key_db_def empty_db_def db_wf_def tables_ok_def secondary_keys_def wf_table_def pk_unique_def api_key_ok_def
      ref_opt_def ids_of_def)

lemma demo_authenticated:
  "authenticate demo_server_lib (server_New lib demo_deps) (calm_env n) (demo_call c) (demo_key_db (demo_api_key None None None))
   = (Inr ((request_context (demo_call c))\<lparr>cx_TenantID := ''tn'', cx_APIKeyID := ''ak''\<rparr>), demo_key_db (demo_api_key (Some n) None None))"
  by (simp add: authenticate_def demo_server EitherAuthForEnvironment_def APIKeyAuthForEnvironment_def demo_call_def demo_bearer demo_parse
      demo_server_lib_def demo_lib_def requiredKeyEnv_def db_read_def calm_env_def GetAPIKeyByHash_def select_one_def demo_key_db_def
      demo_api_key_def HashAPIKey_def demo_sha_def empty_db_def TouchAPIKeyUsage_def touch_api_key_def request_context_def)

lemma demo_revoke:
  "\<exists>oc v. serve demo_server_lib (server_New demo_server_lib demo_deps) (calm_env 0) (demo_call (DeleteAPIKey [])) (demo_gateway (demo_key_db (demo_api_key None None None)))
     = (oc, demo_gateway (demo_key_db (demo_api_key (Some 0) (Some 0) (Some ''manually revoked'')))) \<and> oc_answer oc = Answer (Reply 200 v)"
proof -
  have c: "rq_call (demo_call (DeleteAPIKey [])) = DeleteAPIKey []" "rq_Params (demo_call (DeleteAPIKey [])) = (\<lambda>_. ''ak'')"
    by (simp_all add: demo_call_def)
  obtain v where "Auth_RevokeAPIKey (calm_env 0) ((request_context (demo_call (DeleteAPIKey [])))\<lparr>cx_TenantID := ''tn'', cx_APIKeyID := ''ak''\<rparr>) []
      (demo_key_db (demo_api_key (Some 0) None None)) = (Reply 200 v, demo_key_db (demo_api_key (Some 0) (Some 0) (Some ''manually revoked'')))"
    by (simp add: Auth_RevokeAPIKey_def request_context_def c db_read_def calm_env_def GetAPIKeyByID_def select_one_def demo_key_db_def
        demo_api_key_def empty_db_def RevokeAPIKey_def update_one_def revoke_api_key_def pgxText_def Let_def)
  then show ?thesis
    using demo_authenticated [of demo_server_lib 0 "DeleteAPIKey []"]
    by (simp add: serve_def c demo_gateway_def demo_authenticated limit_rate_def demo_server RateLimit_def mounted_def on_db_def routed_def Let_def)
qed

text \<open>
  The database is well-typed at all times. Whatever requests arrive, in whatever order and with
  whatever failures of PostgreSQL, Redis, the chain and the provider, and whatever the workers do in
  between, a database that satisfies the schema (unique keys, column checks, foreign keys) satisfies
  it after every run of the gateway; every run starts from the empty one.
\<close>

theorem every_run_keeps_the_schema:
  assumes "(gateway_step lib (server_New lib deps))\<^sup>*\<^sup>* g g'"
  shows "(db_wf (gw_db g) \<longrightarrow> db_wf (gw_db g')) \<and> (gw_db g = empty_db \<longrightarrow> db_wf (gw_db g'))"
  using gateway_integrity.gateway_run_keep [OF assms server_New_wired] by (auto simp: db_wf_empty)

theorem every_run_keeps_the_schema_witness:
  "\<exists>g'. gateway_step demo_server_lib (server_New demo_server_lib demo_deps) (demo_gateway (demo_key_db (demo_api_key None None None))) g'
     \<and> db_wf (gw_db g')"
proof -
  obtain g' where st: "gateway_step demo_server_lib (server_New demo_server_lib demo_deps) (demo_gateway (demo_key_db (demo_api_key None None None))) g'"
    using demo_revoke gateway_step.request by blast
  have "db_wf (gw_db (demo_gateway (demo_key_db (demo_api_key None None None))))" by (simp add: gw_db_def demo_gateway_def demo_wf demo_api_key_def)
  then show ?thesis using st every_run_keeps_the_schema [OF r_into_rtranclp [of "gateway_step demo_server_lib (server_New demo_server_lib demo_deps)", OF st]] by blast
qed

section \<open>Isolation of tenants\<close>

text \<open>What the database holds for a tenant.\<close>

definition owned :: "string \<Rightarrow> db \<Rightarrow> db" where
  "owned t d = \<lparr>
     tenants = filter (\<lambda>r. tn_ID r = t) (tenants d), users = filter (\<lambda>r. us_TenantID r = t) (users d),
     api_keys = filter (\<lambda>r. ak_TenantID r = t) (api_keys d), wallet_groups = filter (\<lambda>r. wg_TenantID r = t) (wallet_groups d),
     wallets = filter (\<lambda>r. wl_TenantID r = t) (wallets d), transactions = filter (\<lambda>r. tx_TenantID r = t) (transactions d),
     onramp_orders = filter (\<lambda>r. oo_TenantID r = t) (onramp_orders d), limit_policies = filter (\<lambda>r. lp_TenantID r = t) (limit_policies d),
     session_keys = filter (\<lambda>r. sk_TenantID r = t) (session_keys d), limit_violations = filter (\<lambda>r. lv_TenantID r = t) (limit_violations d),
     limit_violations_seq = 0,
     webhook_endpoints = filter (\<lambda>r. we_TenantID r = t) (webhook_endpoints d),
     webhook_events = filter (\<lambda>r. ev_TenantID r = t) (webhook_events d),
     virtual_addresses = filter (\<lambda>r. va_TenantID r = t) (virtual_addresses d) \<rparr>"

lemma owned_others: "t \<noteq> a \<Longrightarrow> owned t (others a d) = owned t d"
  by (auto simp: owned_def others_def intro!: filter_cong)

lemma others_owned:
  assumes "others a d' = others a d" "t \<noteq> a"
  shows "owned t d' = owned t d"
  using owned_others [OF assms(2), of d'] owned_others [OF assms(2), of d] assms(1) by simp

text \<open>The tenant whose credentials a request carries.\<close>

definition credentials_of :: "server_lib \<Rightarrow> 'r Server \<Rightarrow> env \<Rightarrow> api_request \<Rightarrow> db \<Rightarrow> string option" where
  "credentials_of lib s e rq d = (case fst (authenticate lib s e rq d) of Inl _ \<Rightarrow> None | Inr cx \<Rightarrow> Some (cx_TenantID cx))"

text \<open>
  C34: tenants are isolated from each other. A request changes no row that a tenant \<open>t\<close> owns unless it
  is a \<open>/v1\<close> request whose credentials belong to \<open>t\<close>, a login whose email finds a user of \<open>t\<close>, or the
  signup that draws the identifier \<open>t\<close>. That holds for every route, whatever the parameters and the
  body name, and whatever fails on the way.
\<close>

theorem requests_change_only_the_callers_rows:
  assumes run: "serve lib (server_New lib deps) e rq g = (oc, g')" and wf: "db_wf (gw_db g)"
    and changed: "owned t (gw_db g') \<noteq> owned t (gw_db g)"
  shows "\<not> public_route (rq_call rq) \<and> credentials_of lib (server_New lib deps) e rq (gw_db g) = Some t
    \<or> (\<exists>body. rq_call rq = PostLogin body \<and> login_tenant body (gw_db g) = t)
    \<or> (\<exists>body. rq_call rq = PostSignup body \<and> fresh_id e ''Signup.tn'' [] = t)"
proof -
  let ?s = "server_New lib deps"
  let ?a = "acting_tenant lib ?s e rq (gw_db g)"
  have step: "others ?a (gw_db g') = others ?a (gw_db g)"
    using isolation.serve_keep [OF run conjI [OF wf refl] server_New_wired] by simp
  then have t: "t = ?a" using others_owned changed by blast
  show ?thesis
  proof (cases "public_route (rq_call rq)")
    case True
    have "g' = g" if "rq_call rq \<in> {Health, ListRails, ScrapeMetrics}"
      using run True that by (auto simp: serve_def Let_def reads_def mounted_def split: prod.splits option.splits)
    then show ?thesis using True t changed by (cases "rq_call rq") (auto simp: acting_tenant_def)
  next
    case False
    have "g' = g" if "authenticate lib ?s e rq (gw_db g) = (Inl resp, d1)" for resp d1
      using run False that authenticate_refused [OF that] by (auto simp: serve_def Let_def gw_db_def)
    then show ?thesis using False t changed acting_tenant_v1 [OF False, of lib ?s e "gw_db g"]
      by (cases "authenticate lib ?s e rq (gw_db g)") (auto simp: credentials_of_def split: sum.splits)
  qed
qed

theorem requests_change_only_the_callers_rows_witness:
  "owned ''tn'' (demo_key_db (demo_api_key (Some 0) (Some 0) (Some ''manually revoked''))) \<noteq> owned ''tn'' (demo_key_db (demo_api_key None None None))
   \<and> credentials_of demo_server_lib (server_New demo_server_lib demo_deps) (calm_env 0) (demo_call (DeleteAPIKey []))
       (demo_key_db (demo_api_key None None None)) = Some ''tn''"
proof -
  let ?d = "demo_key_db (demo_api_key None None None)" and ?d' = "demo_key_db (demo_api_key (Some 0) (Some 0) (Some ''manually revoked''))"
  obtain oc where run: "serve demo_server_lib (server_New demo_server_lib demo_deps) (calm_env 0) (demo_call (DeleteAPIKey [])) (demo_gateway ?d) = (oc, demo_gateway ?d')"
    using demo_revoke by blast
  have g: "gw_db (demo_gateway d) = d" for d by (simp add: gw_db_def demo_gateway_def)
  have ch: "owned ''tn'' ?d' \<noteq> owned ''tn'' ?d" by (simp add: owned_def demo_key_db_def demo_api_key_def empty_db_def)
  have wf: "db_wf ?d" by (simp add: demo_wf demo_api_key_def)
  from requests_change_only_the_callers_rows [OF run, unfolded g, OF wf ch] ch show ?thesis by (simp add: demo_call_def)
qed

section \<open>Revoked API keys\<close>

definition key_revoked :: "bytes \<Rightarrow> db \<Rightarrow> bool" where
  "key_revoked h d \<longleftrightarrow> db_wf d \<and> (\<exists>k \<in> set (api_keys d). ak_KeyHash k = h \<and> ak_RevokedAt k \<noteq> None)"

lemma key_revokedI: "db_wf d' \<Longrightarrow> set (api_keys d) \<subseteq> set (api_keys d') \<Longrightarrow> key_revoked h d \<Longrightarrow> key_revoked h d'"
  by (auto simp: key_revoked_def)

lemma key_revoked_upd:
  assumes "db_wf d'" "api_keys d' = upd_where p f (api_keys d)" "key_revoked h d"
    "\<And>k. ak_KeyHash (f k) = ak_KeyHash k" "\<And>k. ak_RevokedAt k \<noteq> None \<Longrightarrow> ak_RevokedAt (f k) \<noteq> None"
  shows "key_revoked h d'"
proof -
  obtain k where k: "k \<in> set (api_keys d)" "ak_KeyHash k = h" "ak_RevokedAt k \<noteq> None" using assms(3) by (auto simp: key_revoked_def)
  let ?k = "if p k then f k else k"
  have "?k \<in> set (api_keys d')" using k(1) by (force simp: assms(2) set_upd_where)
  moreover have "ak_KeyHash ?k = h" "ak_RevokedAt ?k \<noteq> None" using k assms(4,5) by simp_all
  ultimately show ?thesis using assms(1) unfolding key_revoked_def by blast
qed

text \<open>Only the statements on \<open>api_keys\<close> touch that table, and inserts only extend it.\<close>

lemma insert_api_keys:
  "set (api_keys d) \<subseteq> set (api_keys (snd (CreateTenant now tn d)))" "set (api_keys d) \<subseteq> set (api_keys (snd (CreateUser now us d)))"
  "set (api_keys d) \<subseteq> set (api_keys (snd (CreateAPIKey now ak d)))" "set (api_keys d) \<subseteq> set (api_keys (snd (CreateWalletGroup now wg d)))"
  "set (api_keys d) \<subseteq> set (api_keys (snd (CreateWallet now wl d)))" "set (api_keys d) \<subseteq> set (api_keys (snd (CreateTransaction drv now tx d)))"
  "set (api_keys d) \<subseteq> set (api_keys (snd (CreateOnrampOrder drv now oo d)))" "set (api_keys d) \<subseteq> set (api_keys (snd (CreateLimitPolicy drv now lp d)))"
  "set (api_keys d) \<subseteq> set (api_keys (snd (CreateLimitViolation drv now lv d)))" "set (api_keys d) \<subseteq> set (api_keys (snd (CreateSessionKey now sk d)))"
  "set (api_keys d) \<subseteq> set (api_keys (snd (CreateWebhookEndpoint now we d)))" "set (api_keys d) \<subseteq> set (api_keys (snd (CreateWebhookEvent now ev d)))"
  "set (api_keys d) \<subseteq> set (api_keys (snd (CreateVirtualAddress now va d)))"
  unfolding CreateTenant_def CreateUser_def CreateAPIKey_def CreateWalletGroup_def CreateWallet_def CreateTransaction_def
    CreateOnrampOrder_def CreateLimitPolicy_def CreateLimitViolation_def CreateSessionKey_def CreateWebhookEndpoint_def
    CreateWebhookEvent_def CreateVirtualAddress_def
  by (auto simp: Let_def split: option.split)

lemma update_api_keys:
  "set (api_keys d) \<subseteq> set (api_keys (TouchUserLogin now i d))" "set (api_keys d) \<subseteq> set (api_keys (snd (UpdateTransactionStatus now i st hs b d)))"
  "set (api_keys d) \<subseteq> set (api_keys (snd (DisableLimitPolicy now i d)))" "set (api_keys d) \<subseteq> set (api_keys (snd (RevokeSessionKey now i reason d)))"
  "set (api_keys d) \<subseteq> set (api_keys (snd (UpdateWebhookEndpoint now i url evs desc est d)))"
  "set (api_keys d) \<subseteq> set (api_keys (snd (RotateWebhookEndpointSecret now i s d)))" "set (api_keys d) \<subseteq> set (api_keys (DeleteWebhookEndpoint now i d))"
  "set (api_keys d) \<subseteq> set (api_keys (d\<lparr>session_keys := sks\<rparr>))" "set (api_keys d) \<subseteq> set (api_keys (snd (MarkWebhookEventDelivering now i d)))"
  "set (api_keys d) \<subseteq> set (api_keys (snd (MarkWebhookEventDelivered now i code d)))"
  "set (api_keys d) \<subseteq> set (api_keys (snd (MarkWebhookEventFailed now i nxt oc ob oe d)))" "set (api_keys d) \<subseteq> set (api_keys (MarkWebhookEventDead now i d))"
  "set (api_keys d) \<subseteq> set (api_keys (TouchWebhookEndpointSuccess now i d))" "set (api_keys d) \<subseteq> set (api_keys (snd (TouchWebhookEndpointFailure now i d)))"
  "set (api_keys d) \<subseteq> set (api_keys (PauseWebhookEndpoint now i d))" "set (api_keys d) \<subseteq> set (api_keys (snd (UpdateSessionKeyStatus now i sst d)))"
  unfolding TouchUserLogin_def UpdateTransactionStatus_def DisableLimitPolicy_def RevokeSessionKey_def UpdateWebhookEndpoint_def
    RotateWebhookEndpointSecret_def DeleteWebhookEndpoint_def MarkWebhookEventDelivering_def MarkWebhookEventDelivered_def
    MarkWebhookEventFailed_def MarkWebhookEventDead_def TouchWebhookEndpointSuccess_def TouchWebhookEndpointFailure_def
    PauseWebhookEndpoint_def UpdateSessionKeyStatus_def
  by (simp_all split: prod.split sum.split)

lemma key_revoked_wf: "key_revoked h d \<Longrightarrow> db_wf d"
  by (simp add: key_revoked_def)

lemma TouchAPIKeyUsage_revoked: "key_revoked h d \<Longrightarrow> key_revoked h (TouchAPIKeyUsage now i d)"
  by (rule key_revoked_upd [of _ "\<lambda>r. ak_ID r = i" "touch_api_key now", OF TouchAPIKeyUsage_wf [OF key_revoked_wf]])
     (auto simp: TouchAPIKeyUsage_def touch_api_key_def)

lemma RevokeAPIKey_revoked:
  assumes "key_revoked h d" shows "key_revoked h (snd (RevokeAPIKey now i reason d))"
  using RevokeAPIKey_shape [of now i reason d] assms RevokeAPIKey_wf [OF key_revoked_wf [OF assms], of now i reason]
  by (elim disjE) (auto simp: revoke_api_key_def intro!: key_revoked_upd [OF _ _ assms])

lemmas store_integrity =
  integrity.keep_CreateTenant integrity.keep_CreateUser integrity.keep_CreateAPIKey integrity.keep_CreateWalletGroup
  integrity.keep_CreateWallet integrity.keep_CreateTransaction integrity.keep_CreateOnrampOrder integrity.keep_CreateLimitPolicy
  integrity.keep_CreateLimitViolation integrity.keep_CreateSessionKey integrity.keep_CreateWebhookEndpoint
  integrity.keep_CreateWebhookEvent integrity.keep_CreateVirtualAddress integrity.keep_TouchUserLogin
  integrity.keep_UpdateTransactionStatus integrity.keep_DisableLimitPolicy integrity.keep_RevokeSessionKey
  integrity.keep_UpdateWebhookEndpoint integrity.keep_RotateWebhookEndpointSecret integrity.keep_DeleteWebhookEndpoint
  integrity.keep_activate_session_key MarkEvents_wf TouchWebhookEndpointSuccess_wf TouchWebhookEndpointFailure_wf
  PauseWebhookEndpoint_wf UpdateSessionKeyStatus_wf

lemma revocation_handlers: "tenant_store (\<lambda>_. key_revoked h)"
  by (unfold_locales; ((rule TouchAPIKeyUsage_revoked RevokeAPIKey_revoked, assumption)
      | (rule key_revokedI, rule store_integrity, erule key_revoked_wf, assumption+, rule insert_api_keys update_api_keys, assumption)))

lemma revocation_workers: "worker_store (key_revoked h)"
  by (unfold_locales; (rule key_revokedI, rule store_integrity, erule key_revoked_wf, rule update_api_keys, assumption))

interpretation revocation: gateway_invariant "key_revoked h" for h
  by (intro gateway_invariant.intro revocation_handlers revocation_workers)

lemma revoked_lookup: "key_revoked h d \<Longrightarrow> \<exists>err. GetAPIKeyByHash h d = Inl err"
  using GetAPIKeyByHash_D [of h d] pk_unique_same [of ak_KeyHash "api_keys d"]
  by (cases "GetAPIKeyByHash h d") (fastforce simp: key_revoked_def db_wf_def secondary_keys_def)+

lemma RevokeAPIKey_200:
  assumes run: "Auth_RevokeAPIKey e cx reason d = (Reply 200 v, d')" and wf: "db_wf d"
    and k: "k \<in> set (api_keys d)" "ak_ID k = cx_Params cx ''id''"
  shows "key_revoked (ak_KeyHash k) d'"
proof -
  have uniq: "k' = k" if "GetAPIKeyByID (cx_Params cx ''id'') d = Inr k'" for k'
    using that k wf pk_unique_same [of ak_ID "api_keys d" k' k]
    by (auto simp: GetAPIKeyByID_def db_wf_def tables_ok_def wf_table_def dest!: select_one_D)
  have rv: "key_revoked (ak_KeyHash k) d1"
    if q: "RevokeAPIKey now (cx_Params cx ''id'') r d = (Inr u, d1)" "ak_RevokedAt k = None" for now r u d1
  proof -
    have "db_wf d1" using RevokeAPIKey_wf [OF wf, of now "cx_Params cx ''id''" r] q by simp
    moreover have "api_keys d1 = upd_where (\<lambda>r. ak_ID r = cx_Params cx ''id'' \<and> ak_RevokedAt r = None) (revoke_api_key now r) (api_keys d)"
      using q by (auto simp: RevokeAPIKey_def update_one_def split: option.splits if_splits)
    then have "revoke_api_key now r k \<in> set (api_keys d1)" using k q(2) by (force simp: set_upd_where)
    moreover have "ak_KeyHash (revoke_api_key now r k) = ak_KeyHash k" "ak_RevokedAt (revoke_api_key now r k) \<noteq> None"
      by (simp_all add: revoke_api_key_def)
    ultimately show ?thesis unfolding key_revoked_def by blast
  qed
  have w: "q = (Inr u, d1)" if "db_write f d q = (Inr u, d1)" for f q u and d1 :: db using that by (cases f) auto
  obtain k' where "GetAPIKeyByID (cx_Params cx ''id'') d = Inr k'"
      "ak_RevokedAt k' \<noteq> None \<and> d' = d
       \<or> ak_RevokedAt k' = None \<and> (\<exists>now r u. RevokeAPIKey now (cx_Params cx ''id'') r d = (Inr u, d'))"
    using run by (auto simp: Auth_RevokeAPIKey_def Let_def db_read_Inr split: if_splits sum.splits prod.splits dest!: w)
  with uniq rv wf k(1) show ?thesis by (auto simp: key_revoked_def [of _ d] intro!: bexI [of _ k])
qed

lemma authenticate_db:
  assumes "authenticate lib s e rq d = (res, d1)"
  shows "d1 = d \<or> (\<exists>now i. d1 = TouchAPIKeyUsage now i d)"
  using assms
  by (auto simp: authenticate_def EitherAuthForEnvironment_def APIKeyAuthForEnvironment_def
      split: if_splits option.splits sum.splits parsed_key.splits)

lemma touched_key:
  assumes "k \<in> set (api_keys d)"
  shows "\<exists>k1 \<in> set (api_keys (TouchAPIKeyUsage now i d)). ak_ID k1 = ak_ID k \<and> ak_KeyHash k1 = ak_KeyHash k"
  using assms by (intro bexI [of _ "if ak_ID k = i then touch_api_key now k else k"])
    (auto simp: TouchAPIKeyUsage_def set_upd_where touch_api_key_def)

lemma revoked_key_refused:
  assumes "key_revoked (HashAPIKey (al_sha256 (sl_auth lib)) raw) (gw_db g)" "auth_mounted s" "\<not> public_route (rq_call rq)"
    "bearerFromHeader (rq_Authorization rq) = Some raw" "HasPrefix raw ''sk_''" "8 \<le> length raw"
  shows "\<exists>msg. serve lib s e rq g
    = (\<lparr> oc_environment = sv_environment s, oc_rate = None, oc_answer = Answer (unauthorized msg) \<rparr>, g)"
proof -
  obtain err where n: "GetAPIKeyByHash (HashAPIKey (al_sha256 (sl_auth lib)) raw) (gw_db g) = Inl err"
    using revoked_lookup [OF assms(1)] by blast
  have "\<exists>msg. authenticate lib s e rq (gw_db g) = (Inl (unauthorized msg), gw_db g)"
    using assms(2,4-6) n
    by (auto simp: authenticate_def EitherAuthForEnvironment_def APIKeyAuthForEnvironment_def ParseAPIKey_def unauthorized_def
        db_read_def split: option.split)
  then show ?thesis using assms(3) by (auto simp: serve_def Let_def gw_db_def routed_def)
qed

text \<open>
  C35: a revoked API key is refused forever. Once \<open>DELETE /v1/api-keys/:id\<close> has answered 200, no request
  under \<open>/v1\<close> that presents that key is let in again, after any run of the gateway: it is answered
  401, reaches no handler and changes nothing.
\<close>

theorem revoked_api_key_is_refused_forever:
  assumes auth: "auth_mounted (server_New lib deps)" and wf: "db_wf (gw_db g)"
    and revoke: "serve lib (server_New lib deps) e rq g = (oc, g1)" "rq_call rq = DeleteAPIKey reason" "oc_answer oc = Answer (Reply 200 v)"
    and k: "k \<in> set (api_keys (gw_db g))" "ak_ID k = rq_Params rq ''id''"
    and later: "(gateway_step lib (server_New lib deps))\<^sup>*\<^sup>* g1 g2"
    and raw: "bearerFromHeader (rq_Authorization rq2) = Some raw" "HashAPIKey (al_sha256 (sl_auth lib)) raw = ak_KeyHash k"
      "HasPrefix raw ''sk_''" "8 \<le> length raw" and v1: "\<not> public_route (rq_call rq2)"
  shows "\<exists>msg. serve lib (server_New lib deps) e2 rq2 g2
    = (\<lparr> oc_environment = sv_environment (server_New lib deps), oc_rate = None, oc_answer = Answer (unauthorized msg) \<rparr>, g2)"
proof -
  have "\<not> public_route (rq_call rq)" by (simp add: revoke(2))
  from revoke(1) this have "key_revoked (ak_KeyHash k) (gw_db g1)"
  proof (cases rule: serve_v1_cases)
    case refused
    then show ?thesis using revoke(3) by (auto simp: authenticate_def EitherAuthForEnvironment_def APIKeyAuthForEnvironment_def
          SessionAuth_def unauthorized_def split: if_splits option.splits sum.splits parsed_key.splits)
  next
    case limited
    then show ?thesis using revoke(3) by (auto simp: limit_rate_def RateLimit_def Let_def split: if_splits option.splits prod.splits sum.splits)
  next
    case (handled cx d1 rate r1 a)
    have p: "cx_Params cx = rq_Params rq" using handled(1)
      by (auto simp: authenticate_def EitherAuthForEnvironment_def APIKeyAuthForEnvironment_def SessionAuth_def request_context_def
          split: if_splits option.splits sum.splits parsed_key.splits)
    have wf1: "db_wf d1" using authenticate_db [OF handled(1)] wf TouchAPIKeyUsage_wf by auto
    obtain k1 where k1: "k1 \<in> set (api_keys d1)" "ak_ID k1 = rq_Params rq ''id''" "ak_KeyHash k1 = ak_KeyHash k"
      using authenticate_db [OF handled(1)] touched_key [OF k(1)] k by (metis (no_types))
    have "\<exists>h. sv_authHandlers (server_New lib deps) = Some h" using auth by (auto simp: auth_mounted_def)
    then have "Auth_RevokeAPIKey e cx reason d1 = (Reply 200 v, gw_db g1)"
      using handled(3,4) revoke(2,3) by (auto simp: mounted_def on_db_def routed_def gw_db_def prod_eq_iff)
    from RevokeAPIKey_200 [OF this wf1 k1(1)] show ?thesis using k1 p by simp
  qed
  then have "key_revoked (ak_KeyHash k) (gw_db g2)" using revocation.gateway_run_keep [OF later server_New_wired] by blast
  from revoked_key_refused [OF this [folded raw(2)] auth v1 raw(1,3,4)] show ?thesis .
qed

theorem revoked_api_key_is_refused_forever_witness:
  "\<exists>msg. serve demo_server_lib (server_New demo_server_lib demo_deps) (calm_env 1) (demo_call GetAPIKeys)
       (demo_gateway (demo_key_db (demo_api_key (Some 0) (Some 0) (Some ''manually revoked''))))
     = (\<lparr> oc_environment = ''development'', oc_rate = None, oc_answer = Answer (unauthorized msg) \<rparr>,
        demo_gateway (demo_key_db (demo_api_key (Some 0) (Some 0) (Some ''manually revoked''))))"
proof -
  let ?d = "demo_key_db (demo_api_key None None None)" and ?d' = "demo_key_db (demo_api_key (Some 0) (Some 0) (Some ''manually revoked''))"
  obtain oc v where run: "serve demo_server_lib (server_New demo_server_lib demo_deps) (calm_env 0) (demo_call (DeleteAPIKey [])) (demo_gateway ?d) = (oc, demo_gateway ?d')"
    "oc_answer oc = Answer (Reply 200 v)" using demo_revoke by blast
  have wf: "db_wf (gw_db (demo_gateway ?d))" by (simp add: gw_db_def demo_gateway_def demo_wf demo_api_key_def)
  have k: "demo_api_key None None None \<in> set (api_keys (gw_db (demo_gateway ?d)))" "ak_ID (demo_api_key None None None) = rq_Params (demo_call (DeleteAPIKey [])) ''id''"
    by (simp_all add: gw_db_def demo_gateway_def demo_key_db_def demo_api_key_def demo_call_def)
  have c: "rq_call (demo_call (DeleteAPIKey [])) = DeleteAPIKey []" "bearerFromHeader (rq_Authorization (demo_call GetAPIKeys)) = Some demo_raw"
    "\<not> public_route (rq_call (demo_call GetAPIKeys))" by (simp_all add: demo_call_def demo_bearer)
  have h: "HashAPIKey (al_sha256 (sl_auth demo_server_lib)) demo_raw = ak_KeyHash (demo_api_key None None None)"
    by (simp add: demo_server_lib_def demo_lib_def HashAPIKey_def demo_sha_def demo_api_key_def)
  from revoked_api_key_is_refused_forever [OF demo_server(6) wf run(1) c(1) run(2) k rtranclp.rtrancl_refl c(2) h demo_parse(2,3) c(3), of "calm_env 1"]
  show ?thesis by (simp add: demo_server)
qed

end
