(* ===== verification/Legacy_Spec.thy ===== *)
theory Legacy_Spec
  imports Legacy_Routes
begin

text \<open>
  What the rail-backed routes promise. The Go interface \<open>Adapter\<close> is the locale \<open>rail\<close>: whatever rail
  implements it, its results carry the rail's name and a status of the unified set. It is
  interpreted on both adapters, and the router is shown to pick by name.
\<close>

section \<open>The interface\<close>

text \<open>The body of an answer names a rail, and a transaction has one of the unified statuses.\<close>

definition names_rail :: "string \<Rightarrow> rail_body \<Rightarrow> bool" where
  "names_rail name b = (case b of WalletBody w \<Rightarrow> rw_Rail w = name
     | TransactionBody t \<Rightarrow> rt_Rail t = name \<and> rt_Status t \<in> {''pending'', ''succeeded'', ''failed''}
     | OrderBody ord \<Rightarrow> ro_Rail ord = name | BalancesBody _ \<Rightarrow> True)"

lemma answer_with_Inr: "answer_with st body r = (Inr (st1, b), s') \<Longrightarrow> \<exists>x. r = (Inr x, s') \<and> b = body x \<and> st1 = st"
  by (cases r) (auto simp: answer_with_def split: sum.splits)

locale rail =
  fixes name :: string
    and create_wallet :: "env \<Rightarrow> CreateWalletRequest \<Rightarrow> rail_state \<Rightarrow> (go_error + RailWallet) \<times> rail_state"
    and get_wallet :: "string \<Rightarrow> rail_state \<Rightarrow> (go_error + RailWallet) \<times> rail_state"
    and create_transaction :: "env \<Rightarrow> CreateTransactionRequest \<Rightarrow> string \<Rightarrow> rail_state \<Rightarrow> (go_error + RailTransaction) \<times> rail_state"
    and get_transaction :: "string \<Rightarrow> rail_state \<Rightarrow> (go_error + RailTransaction) \<times> rail_state"
    and create_order :: "env \<Rightarrow> CreateOnrampRequest \<Rightarrow> string \<Rightarrow> rail_state \<Rightarrow> (go_error + RailOnrampOrder) \<times> rail_state"
  assumes wallet_rail: "create_wallet e wreq s = (Inr w, s') \<or> get_wallet loc s = (Inr w, s') \<Longrightarrow> rw_Rail w = name"
    and wallet_owner: "create_wallet e wreq s = (Inr w, s') \<Longrightarrow> rw_Owner w = cw_Owner wreq"
    and transaction_rail: "create_transaction e req loc s = (Inr t, s') \<or> get_transaction i s = (Inr t, s') \<Longrightarrow>
      rt_Rail t = name \<and> rt_Status t \<in> {''pending'', ''succeeded'', ''failed''}"
    and transaction_echo: "create_transaction e req loc s = (Inr t, s') \<Longrightarrow> rt_To t = ct_To req \<and> rt_Amount t = ct_Amount req \<and> rt_From t = loc"
    and order_rail: "create_order e oreq addr s = (Inr ord, s') \<Longrightarrow> ro_Rail ord = name"
begin

lemma answers_name_rail:
  "answer_with st WalletBody (create_wallet e wreq s) = (Inr (st1, b), s') \<Longrightarrow> names_rail name b"
  "answer_with st WalletBody (get_wallet loc s) = (Inr (st1, b), s') \<Longrightarrow> names_rail name b"
  "answer_with st TransactionBody (create_transaction e req loc s) = (Inr (st1, b), s') \<Longrightarrow> names_rail name b"
  "answer_with st TransactionBody (get_transaction i s) = (Inr (st1, b), s') \<Longrightarrow> names_rail name b"
  "answer_with st OrderBody (create_order e oreq addr s) = (Inr (st1, b), s') \<Longrightarrow> names_rail name b"
  using wallet_rail transaction_rail order_rail by - (drule answer_with_Inr, fastforce simp: names_rail_def)+

end

section \<open>The two rails\<close>

lemma cm_results:
  "fst (cm_CreateWallet a wreq) = Inr w \<Longrightarrow> rw_Rail w = RailCrossMint \<and> rw_Owner w = cw_Owner wreq"
  "fst (cm_GetWallet a loc) = Inr w \<Longrightarrow> rw_Rail w = RailCrossMint"
  "fst (cm_CreateTransaction a req loc) = Inr t \<Longrightarrow> rt_Rail t = RailCrossMint \<and> rt_To t = ct_To req \<and> rt_Amount t = ct_Amount req \<and> rt_From t = loc"
  "fst (cm_GetTransaction a i) = Inr t \<Longrightarrow> rt_Rail t = RailCrossMint \<and> (\<exists>st. rt_Status t = mapTxStatus st)"
  "fst (cm_CreateOnrampOrder a e oreq addr) = Inr ord \<Longrightarrow> ro_Rail ord = RailCrossMint"
  unfolding cm_CreateWallet_def cm_GetWallet_def cm_CreateTransaction_def cm_GetTransaction_def cm_CreateOnrampOrder_def Let_def toWallet_def
  by (auto split: option.splits sum.splits if_splits)

lemma tempo_results:
  "fst (tempo_CreateWallet a e wreq ks) = Inr w \<Longrightarrow> rw_Rail w = RailTempo \<and> rw_Owner w = cw_Owner wreq"
  "tempo_GetWallet a loc ks = Inr w \<Longrightarrow> rw_Rail w = RailTempo"
  "fst (tempo_CreateTransaction a e req loc ks) = Inr t \<Longrightarrow> \<exists>h. t = pending_transaction e req loc h"
  "tempo_GetTransaction a i = Inr t \<Longrightarrow> rt_Rail t = RailTempo \<and> rt_Status t \<in> {''pending'', ''succeeded'', ''failed''}"
  unfolding tempo_CreateWallet_def tempo_GetWallet_def tempo_CreateTransaction_def tempo_GetTransaction_def Let_def receipt_view_def
    TxPending_def TxSucceeded_def TxFailed_def
  by (auto split: option.splits sum.splits if_splits prod.splits)

interpretation crossmint_rail: rail RailCrossMint "CreateWallet_on (CrossMint a)" "GetWallet_on (CrossMint a)"
    "CreateTransaction_on (CrossMint a)" "GetTransaction_on (CrossMint a)" "CreateOnrampOrder_on (CrossMint a)" for a
proof unfold_locales
  show "rt_Rail t = RailCrossMint \<and> rt_Status t \<in> {''pending'', ''succeeded'', ''failed''}"
    if "CreateTransaction_on (CrossMint a) e req loc s = (Inr t, s') \<or> GetTransaction_on (CrossMint a) i s = (Inr t, s')" for e req loc s t s' i
  proof -
    have "fst (cm_CreateTransaction a req loc) = Inr t \<or> fst (cm_GetTransaction a i) = Inr t" using that by (auto simp: asked_def)
    then show ?thesis
    proof
      assume "fst (cm_CreateTransaction a req loc) = Inr t"
      then show ?thesis using cm_results(3) [of a req loc t] cm_CreateTransaction_status [of a req loc t]
        by (cases "cm_CreateTransaction a req loc") simp
    next
      assume "fst (cm_GetTransaction a i) = Inr t"
      then show ?thesis using cm_results(4) mapTxStatus_range by metis
    qed
  qed
qed (auto simp: asked_def prod_eq_iff dest: cm_results)

interpretation tempo_rail: rail RailTempo "CreateWallet_on (Tempo a)" "GetWallet_on (Tempo a)"
    "CreateTransaction_on (Tempo a)" "GetTransaction_on (Tempo a)" "CreateOnrampOrder_on (Tempo a)" for a
  by unfold_locales (auto simp: sends_def prod_eq_iff tempo_CreateOnrampOrder_def pending_transaction_def TxPending_def
      dest: tempo_results split: prod.splits)

text \<open>Whichever adapter answers, the answer carries its name.\<close>

lemma adapter_answers:
  "answer_with st WalletBody (CreateWallet_on a e wreq s) = (Inr (st1, b), s') \<Longrightarrow> names_rail (Rail a) b"
  "answer_with st WalletBody (GetWallet_on a loc s) = (Inr (st1, b), s') \<Longrightarrow> names_rail (Rail a) b"
  "answer_with st TransactionBody (CreateTransaction_on a e req loc s) = (Inr (st1, b), s') \<Longrightarrow> names_rail (Rail a) b"
  "answer_with st TransactionBody (GetTransaction_on a i s) = (Inr (st1, b), s') \<Longrightarrow> names_rail (Rail a) b"
  "answer_with st OrderBody (CreateOnrampOrder_on a e oreq addr s) = (Inr (st1, b), s') \<Longrightarrow> names_rail (Rail a) b"
  by (cases a; simp only: Rail.simps; erule crossmint_rail.answers_name_rail tempo_rail.answers_name_rail)+

lemma balances_answer: "answer_with st BalancesBody res = (Inr (st1, b), s') \<Longrightarrow> names_rail (Rail a) b"
  by (auto simp: names_rail_def dest!: answer_with_Inr)

lemma answer_with_status: "answer_with st body res = (Inr (st1, b), s') \<Longrightarrow> st1 = st"
  by (auto dest!: answer_with_Inr)

section \<open>The router\<close>

lemma router_update: "map_of (AList.update (Rail a) a m) r = (if r = Rail a then Some a else map_of m r)"
  by (simp add: update_conv')

lemma router_fold: "map_of (foldl (\<lambda>m a. AList.update (Rail a) a m) m as) r = Some a \<Longrightarrow> Rail a = r \<or> map_of m r = Some a"
proof (induction as arbitrary: m)
  case (Cons x as)
  then have "Rail a = r \<or> map_of (AList.update (Rail x) x m) r = Some a" by simp
  then show ?case by (auto simp: router_update split: if_splits)
qed simp

lemma Pick_named: "Pick (router_New dflt as) r = Inr a \<Longrightarrow> Rail a = (if r = [] then dflt else r)"
  using router_fold [of "[]" as "if r = [] then dflt else r" a]
  by (auto simp: Pick_def router_New_def Let_def split: option.splits)

lemma router_fold_mem: "map_of (foldl (\<lambda>m a. AList.update (Rail a) a m) m as) r = Some a \<Longrightarrow> a \<in> set as \<or> map_of m r = Some a"
proof (induction as arbitrary: m)
  case (Cons x as)
  then have "a \<in> set as \<or> map_of (AList.update (Rail x) x m) r = Some a" by simp
  then show ?case by (auto simp: router_update split: if_splits)
qed simp

lemma Pick_listed: "Pick (router_New dflt as) r = Inr a \<Longrightarrow> a \<in> set as"
  using router_fold_mem [of "[]" as "if r = [] then dflt else r" a]
  by (cases "r = []") (auto simp: Pick_def router_New_def Let_def split: option.splits)

lemma Pick_unknown: "Pick rt r = Inl err \<Longrightarrow> ge_is err = Some ErrBadRequest \<and> ge_upstream err = None"
  by (auto simp: Pick_def sentinelf_def Let_def split: option.splits)

end
