(* ===== verification/Gateway_Access.thy ===== *)
theory Gateway_Access
  imports Gateway_Runs Legacy_Spec
begin

text \<open>
  Who reaches a handler, as the process is wired by \<open>main\<close>: with a database every request past the public routes needs
  valid credentials; without one there is no authentication at all; and the rail-backed transfer
  route, once reached, consults neither tenant nor limits.
\<close>

section \<open>Credentials\<close>






section \<open>The process main starts\<close>








section \<open>Transfers outside the wallet groups\<close>

definition from_locator :: "server_txRequest \<Rightarrow> string" where
  "from_locator req = (if xr_FromLocator req = [] then ct_From (xr_Request req) else xr_FromLocator req)"

text \<open>
  C37: the rail-backed transfer route is outside every guard of the wallet groups. Any caller that is let
  in, of whatever tenant and role, moves money out of whatever wallet the body names: the gateway
  hands the amount and the recipient of the body to the rail at once, a CrossMint call under the
  gateway's own API key with the locator pasted into the path, a Tempo transfer signed with the
  in-memory key of that address. No wallet or policy is looked up, no budget is charged, no
  transaction row is written; nothing of it depends on who the caller is.
\<close>

theorem rail_transfer_ignores_tenant_and_limits:
  assumes run: "serve lib s e rq g = (oc, g')" and call: "rq_call rq = PostTransaction (Inr req)"
    and admitted: "authenticate lib s e rq (gw_db g) = (Inr cx, d1)" "limit_rate s e cx (w_redis (gw_world g)) = (None, rate, r1)"
    and rail: "Pick (sv_router s) (rq_Query rq ''rail'') = Inr a"
  shows "gw_db g' = d1 \<and> w_redis (gw_world g') = r1
    \<and> (case a of
         CrossMint cm \<Rightarrow> w_chain (gw_world g') = w_chain (gw_world g)
           \<and> (\<exists>path. w_provider (gw_world g') = w_provider (gw_world g) @ [\<lparr> cq_method = ''POST'',
                cq_path = ''/api/2025-06-09/wallets/'' @ from_locator req @ ''/tokens/'' @ path,
                cq_body = Some (JObj [(''recipient'', JStr (ct_To (xr_Request req))), (''amount'', JStr (ct_Amount (xr_Request req)))]) \<rparr>])
       | Tempo tp \<Rightarrow> w_provider (gw_world g') = w_provider (gw_world g)
           \<and> w_chain (gw_world g') = w_chain (gw_world g) @ snd (tempo_CreateTransaction tp e (xr_Request req) (from_locator req) (gw_keys g)))"
proof -
  have "\<not> public_route (rq_call rq)" by (simp add: call)
  have q: "cx_Query cx = rq_Query rq" using admitted(1)
    by (auto simp: authenticate_def EitherAuthForEnvironment_def APIKeyAuthForEnvironment_def SessionAuth_def request_context_def
        split: if_splits option.splits sum.splits parsed_key.splits)
  let ?g1 = "g\<lparr>gw_world := (gw_world g)\<lparr>w_db := d1, w_redis := r1\<rparr>\<rparr>"
  from run \<open>\<not> public_route (rq_call rq)\<close> have "g' = snd (v1_handler lib s e cx (rq_call rq) ?g1)"
    by (cases rule: serve_v1_cases) (use admitted in auto)
  then have g': "g' = snd (on_rails (server_createTransaction (sv_router s) e cx (Inr req) (rails_of ?g1)) ?g1)" by (simp add: call)
  have c: "server_createTransaction (sv_router s) e cx (Inr req) (rails_of ?g1)
      = answer_with 201 TransactionBody (CreateTransaction_on a e (xr_Request req) (from_locator req) (rails_of ?g1))"
    using rail q by (simp add: server_createTransaction_def railFromCtx_def from_locator_def Let_def)
  show ?thesis
  proof (cases a)
    case (CrossMint cm)
    have "\<exists>path. snd (cm_CreateTransaction cm (xr_Request req) (from_locator req)) = [\<lparr> cq_method = ''POST'',
        cq_path = ''/api/2025-06-09/wallets/'' @ from_locator req @ ''/tokens/'' @ path,
        cq_body = Some (JObj [(''recipient'', JStr (ct_To (xr_Request req))), (''amount'', JStr (ct_Amount (xr_Request req)))]) \<rparr>]"
      by (simp add: cm_CreateTransaction_def apiVersion_def Let_def split: sum.splits option.splits)
    then obtain path where "snd (cm_CreateTransaction cm (xr_Request req) (from_locator req)) = [\<lparr> cq_method = ''POST'',
        cq_path = ''/api/2025-06-09/wallets/'' @ from_locator req @ ''/tokens/'' @ path,
        cq_body = Some (JObj [(''recipient'', JStr (ct_To (xr_Request req))), (''amount'', JStr (ct_Amount (xr_Request req)))]) \<rparr>]" ..
    then show ?thesis using CrossMint g' c by (simp add: on_rails_def answer_with_def asked_def rails_of_def gw_db_def)
  next
    case (Tempo tp)
    then show ?thesis using g' c by (simp add: on_rails_def answer_with_def sends_def rails_of_def gw_db_def)
  qed
qed

definition demo_tx_request :: server_txRequest where
  "demo_tx_request = \<lparr> xr_Request = \<lparr> ct_From = [], ct_To = ''thief'', ct_Amount = ''1000000'', ct_Asset = ''usdc'', ct_Chain = [] \<rparr>,
     xr_FromLocator = ''someone-elses-wallet'' \<rparr>"

theorem rail_transfer_ignores_tenant_and_limits_witness:
  "\<exists>g'. snd (serve demo_server_lib (server_New demo_server_lib demo_deps) (calm_env 0) (demo_call (PostTransaction (Inr demo_tx_request)))
       (demo_gateway (demo_key_db (demo_api_key None None None)))) = g'
     \<and> map cq_body (w_provider (gw_world g')) = [Some (JObj [(''recipient'', JStr ''thief''), (''amount'', JStr ''1000000'')])]"
proof -
  let ?g = "demo_gateway (demo_key_db (demo_api_key None None None))" and ?rq = "demo_call (PostTransaction (Inr demo_tx_request))"
  obtain oc g' where run: "serve demo_server_lib (server_New demo_server_lib demo_deps) (calm_env 0) ?rq ?g = (oc, g')" by force
  have c: "rq_call ?rq = PostTransaction (Inr demo_tx_request)" "rq_Query ?rq ''rail'' = []" by (simp_all add: demo_call_def)
  have d: "gw_db ?g = demo_key_db (demo_api_key None None None)" by (simp add: gw_db_def demo_gateway_def)
  have l: "limit_rate (server_New demo_server_lib demo_deps) e cx r = (None, None, r)" for e cx r
    by (simp add: limit_rate_def demo_server RateLimit_def)
  have p: "Pick (sv_router (server_New demo_server_lib demo_deps)) (rq_Query ?rq ''rail'') = Inr (CrossMint demo_provider)"
    by (simp add: c demo_server Pick_def router_New_def RailCrossMint_def)
  from rail_transfer_ignores_tenant_and_limits [OF run c(1) _ l p, unfolded d, OF demo_authenticated]
  have "map cq_body (w_provider (gw_world g')) = [Some (JObj [(''recipient'', JStr ''thief''), (''amount'', JStr ''1000000'')])]"
    by (auto simp: demo_tx_request_def demo_gateway_def)
  then show ?thesis by (simp add: run)
qed

section \<open>Picking a rail\<close>

text \<open>The rail a request asks for: the body's (wallet creation only), else the query's, else the default.\<close>

definition asked_rail :: "string \<Rightarrow> request_ctx \<Rightarrow> api_call \<Rightarrow> string" where
  "asked_rail dflt cx call =
     (let q = railFromCtx cx (case call of PostWallet (Inr req) \<Rightarrow> cw_Rail req | _ \<Rightarrow> []) in if q = [] then dflt else q)"

fun rail_call :: "api_call \<Rightarrow> bool" where
  "rail_call (PostWallet _) = True"
| "rail_call GetWallet = True"
| "rail_call GetWalletBalances = True"
| "rail_call (PostTransaction _) = True"
| "rail_call GetTransaction = True"
| "rail_call (PostOnrampOrder _) = True"
| "rail_call _ = False"

definition asked_query :: "request_ctx \<Rightarrow> api_call \<Rightarrow> string" where
  "asked_query cx call = railFromCtx cx (case call of PostWallet (Inr req) \<Rightarrow> cw_Rail req | _ \<Rightarrow> [])"

lemma on_rails_answer: "fst (on_rails x g) = RailAnswer st b \<longleftrightarrow> (\<exists>s'. x = (Inr (st, b), s'))"
  by (cases x) (auto simp: on_rails_def split: sum.splits)

lemma only_rail_calls_answer_rails: "fst (v1_handler lib s e cx call g) = RailAnswer st b \<Longrightarrow> rail_call call"
  by (cases call) (auto simp: mounted_def reads_def on_db_def on_world_def split: option.splits)

lemmas server_rail_defs = server_createWallet_def server_getWallet_def server_getBalances_def server_createTransaction_def
  server_getTransaction_def server_createOnramp_def

lemma rail_call_success:
  assumes "fst (v1_handler lib s e cx call g) = RailAnswer st b"
  shows "\<exists>a. Pick (sv_router s) (asked_query cx call) = Inr a \<and> names_rail (Rail a) b \<and> st \<in> {200, 201}"
proof -
  have "rail_call call" using assms by (rule only_rail_calls_answer_rails)
  then show ?thesis using assms
    by (cases call)
       (auto simp: on_rails_answer server_rail_defs asked_query_def Let_def dest: adapter_answers balances_answer answer_with_status split: sum.splits)
qed

lemma rail_call_unconfigured:
  assumes "rail_call call" "Pick (sv_router s) (asked_query cx call) = Inl err"
  shows "snd (v1_handler lib s e cx call g) = g \<and> (\<exists>msg. fst (v1_handler lib s e cx call g) = Answer (Reply 400 (error_body msg)))"
  using assms Pick_unknown [OF assms(2)]
  by (cases call)
     (auto simp: on_rails_def rails_of_def server_rail_defs asked_query_def server_badRequest_def errorHandler_def Let_def split: sum.splits)

text \<open>
  A rail-backed route answers for the rail it was asked for. With the router \<open>main\<close> builds, a
  success of any of the six routes carries the name of the rail of the request (the body's or the
  query's, else the default) and, for a transaction, one of the three unified statuses; when that rail is not
  configured the answer is 400 and no rail is called.
\<close>

theorem rail_routes_answer_for_their_rail:
  assumes router: "sv_router s = router_New dflt as" and run: "v1_handler lib s e cx call g = (ans, g')"
  shows "(case ans of RailAnswer st b \<Rightarrow> rail_call call \<and> names_rail (asked_rail dflt cx call) b \<and> st \<in> {200, 201} | _ \<Rightarrow> True)
    \<and> (rail_call call \<and> asked_rail dflt cx call \<notin> Rail ` set as \<longrightarrow> g' = g \<and> (\<exists>msg. ans = Answer (Reply 400 (error_body msg))))"
proof -
  have named: "Rail a = asked_rail dflt cx call" if "Pick (sv_router s) (asked_query cx call) = Inr a" for a
    using Pick_named [OF that [unfolded router]] by (simp add: asked_rail_def asked_query_def Let_def)
  have "rail_call call \<and> names_rail (asked_rail dflt cx call) b \<and> st \<in> {200, 201}" if "ans = RailAnswer st b" for st b
    using rail_call_success [of lib s e cx call g st b] only_rail_calls_answer_rails [of lib s e cx call g st b] named that run by auto
  moreover have "g' = g \<and> (\<exists>msg. ans = Answer (Reply 400 (error_body msg)))"
    if "rail_call call" "asked_rail dflt cx call \<notin> Rail ` set as"
  proof (cases "Pick (sv_router s) (asked_query cx call)")
    case (Inl err)
    then show ?thesis using rail_call_unconfigured [OF that(1) Inl, of lib e g] run by simp
  next
    case (Inr a)
    then have "a \<in> set as" using Pick_listed [of dflt as] router by simp
    then show ?thesis using that(2) named [OF Inr] by (metis imageI)
  qed
  ultimately show ?thesis by (cases ans) auto
qed

theorem rail_routes_answer_for_their_rail_witness:
  "\<exists>msg. v1_handler demo_server_lib (server_New demo_server_lib demo_deps) (calm_env 0)
       ((request_context (demo_call GetWallet))\<lparr>cx_Query := (\<lambda>_. ''tempo'')\<rparr>) GetWallet (demo_gateway empty_db)
     = (Answer (Reply 400 (error_body msg)), demo_gateway empty_db)"
proof -
  let ?cx = "(request_context (demo_call GetWallet))\<lparr>cx_Query := (\<lambda>_. ''tempo'')\<rparr>"
  obtain ans g' where run: "v1_handler demo_server_lib (server_New demo_server_lib demo_deps) (calm_env 0) ?cx GetWallet (demo_gateway empty_db) = (ans, g')"
    by force
  have "asked_rail ''crossmint'' ?cx GetWallet \<notin> Rail ` set [CrossMint demo_provider]"
    by (simp add: asked_rail_def railFromCtx_def RailCrossMint_def)
  then show ?thesis using rail_routes_answer_for_their_rail [OF demo_server(5) run] run by auto
qed

text \<open>A failing rail call is counted as a success by the request metrics, whatever status it is answered with.\<close>

lemma rail_failures_count_as_2xx:
  "map_option hs_class (Metrics True method route (Inl err)) = Some ''2xx''"
  "errorHandler (RailError (UpstreamError r st body)) = Reply 502 v \<Longrightarrow> StatusClass 502 = ''5xx''"
  by (simp_all add: Metrics_def StatusClass_def)

end
