(* ===== verification/Gateway_Ledger.thy ===== *)
theory Gateway_Ledger
  imports Gateway_Runs "HOL-Library.Sublist"
begin

text \<open>
  What the database remembers. Two more invariants of runs: the books only grow (rows of the tables
  of record are never removed or rewritten, and a transaction moves only from \<open>prepared\<close> to \<open>broadcast\<close> or
  \<open>failed\<close>), and a webhook secret belongs to one version of its endpoint. On them rest the properties
  that speak of every later request: one broadcast for a preparation, one registration for a
  label, signatures under the secret that was shown.
\<close>

section \<open>The books\<close>

definition tx_moves :: "Transaction \<Rightarrow> Transaction \<Rightarrow> bool" where
  "tx_moves a b \<longleftrightarrow> b = a
     \<or> tx_Status a = ''prepared'' \<and> (tx_Status b = ''broadcast'' \<or> tx_Status b = ''failed'')
       \<and> b = a\<lparr>tx_Status := tx_Status b, tx_TxHash := tx_TxHash b, tx_BlockNumber := tx_BlockNumber b,
               tx_ConfirmedAt := tx_ConfirmedAt b, tx_UpdatedAt := tx_UpdatedAt b\<rparr>"

lemma tx_moves_trans: "tx_moves a b \<Longrightarrow> tx_moves b c \<Longrightarrow> tx_moves a c"
  by (auto simp: tx_moves_def)

lemma tx_moves_id: "tx_moves a b \<Longrightarrow> tx_ID b = tx_ID a"
  by (cases a; cases b) (auto simp: tx_moves_def)

lemma tx_moves_settled: "tx_moves a b \<Longrightarrow> tx_Status a \<noteq> ''prepared'' \<Longrightarrow> b = a"
  by (simp add: tx_moves_def)

definition books_kept :: "db \<Rightarrow> db \<Rightarrow> bool" where
  "books_kept d0 d \<longleftrightarrow> db_wf d
     \<and> prefix (tenants d0) (tenants d) \<and> prefix (wallet_groups d0) (wallet_groups d) \<and> prefix (wallets d0) (wallets d)
     \<and> prefix (onramp_orders d0) (onramp_orders d) \<and> prefix (limit_violations d0) (limit_violations d)
     \<and> prefix (virtual_addresses d0) (virtual_addresses d)
     \<and> (\<exists>old new. transactions d = old @ new \<and> list_all2 tx_moves (transactions d0) old)"

lemma books_kept_refl: "db_wf d \<Longrightarrow> books_kept d d"
proof -
  have "list_all2 tx_moves (transactions d) (transactions d)" by (rule list.rel_refl) (simp add: tx_moves_def)
  then have "\<exists>old new. transactions d = old @ new \<and> list_all2 tx_moves (transactions d) old" by (metis append_Nil2)
  then show "db_wf d \<Longrightarrow> books_kept d d" by (simp add: books_kept_def)
qed

lemma books_kept_wf: "books_kept d0 d \<Longrightarrow> db_wf d"
  by (simp add: books_kept_def)

text \<open>A statement that only appends to the tables of record.\<close>

definition appends :: "db \<Rightarrow> db \<Rightarrow> bool" where
  "appends d d' \<longleftrightarrow> prefix (tenants d) (tenants d') \<and> prefix (wallet_groups d) (wallet_groups d') \<and> prefix (wallets d) (wallets d')
     \<and> prefix (onramp_orders d) (onramp_orders d') \<and> prefix (limit_violations d) (limit_violations d')
     \<and> prefix (virtual_addresses d) (virtual_addresses d') \<and> prefix (transactions d) (transactions d')"

lemma books_keptI:
  assumes "db_wf d'" "appends d d'" "books_kept d0 d"
  shows "books_kept d0 d'"
proof -
  obtain old new more where t: "transactions d = old @ new" "list_all2 tx_moves (transactions d0) old" "transactions d' = transactions d @ more"
    using assms(2,3) by (auto simp: books_kept_def appends_def prefix_def)
  then have "\<exists>old new. transactions d' = old @ new \<and> list_all2 tx_moves (transactions d0) old"
    by (intro exI [of _ old] exI [of _ "new @ more"]) simp
  then show ?thesis using assms by (auto simp: books_kept_def appends_def intro: prefix_order.trans)
qed

lemma insert_appends:
  "appends d (snd (CreateTenant now tn d))" "appends d (snd (CreateUser now us d))"
  "appends d (snd (CreateAPIKey now ak d))" "appends d (snd (CreateWalletGroup now wg d))"
  "appends d (snd (CreateWallet now wl d))" "appends d (snd (CreateTransaction drv now tx d))"
  "appends d (snd (CreateOnrampOrder drv now oo d))" "appends d (snd (CreateLimitPolicy drv now lp d))"
  "appends d (snd (CreateLimitViolation drv now lv d))" "appends d (snd (CreateSessionKey now sk d))"
  "appends d (snd (CreateWebhookEndpoint now we d))" "appends d (snd (CreateWebhookEvent now ev d))"
  "appends d (snd (CreateVirtualAddress now va d))"
  unfolding CreateTenant_def CreateUser_def CreateAPIKey_def CreateWalletGroup_def CreateWallet_def CreateTransaction_def
    CreateOnrampOrder_def CreateLimitPolicy_def CreateLimitViolation_def CreateSessionKey_def CreateWebhookEndpoint_def
    CreateWebhookEvent_def CreateVirtualAddress_def
  by (auto simp: appends_def Let_def split: option.split)

lemma update_appends:
  "appends d (TouchUserLogin now i d)" "appends d (TouchAPIKeyUsage now i d)" "appends d (snd (RevokeAPIKey now i reason d))"
  "appends d (snd (DisableLimitPolicy now i d))" "appends d (snd (RevokeSessionKey now i reason d))"
  "appends d (snd (UpdateWebhookEndpoint now i url evs desc est d))"
  "appends d (snd (RotateWebhookEndpointSecret now i s d))" "appends d (DeleteWebhookEndpoint now i d)"
  "appends d (d\<lparr>session_keys := sks\<rparr>)" "appends d (snd (MarkWebhookEventDelivering now i d))"
  "appends d (snd (MarkWebhookEventDelivered now i code d))"
  "appends d (snd (MarkWebhookEventFailed now i nxt oc ob oe d))" "appends d (MarkWebhookEventDead now i d)"
  "appends d (TouchWebhookEndpointSuccess now i d)" "appends d (snd (TouchWebhookEndpointFailure now i d))"
  "appends d (PauseWebhookEndpoint now i d)" "appends d (snd (UpdateSessionKeyStatus now i sst d))"
  unfolding TouchUserLogin_def TouchAPIKeyUsage_def RevokeAPIKey_def DisableLimitPolicy_def RevokeSessionKey_def UpdateWebhookEndpoint_def
    RotateWebhookEndpointSecret_def DeleteWebhookEndpoint_def MarkWebhookEventDelivering_def MarkWebhookEventDelivered_def
    MarkWebhookEventFailed_def MarkWebhookEventDead_def TouchWebhookEndpointSuccess_def TouchWebhookEndpointFailure_def
    PauseWebhookEndpoint_def UpdateSessionKeyStatus_def
  by (simp_all add: appends_def split: prod.split sum.split)

text \<open>The one statement that rewrites a row of the books.\<close>

lemma upd_where_append: "upd_where p f (xs @ ys) = upd_where p f xs @ upd_where p f ys"
  by (simp add: upd_where_def)

lemma UpdateTransactionStatus_books:
  assumes kept: "books_kept d0 d" and tx: "tx \<in> set (transactions d)" "tx_ID tx = i" "tx_Status tx = ''prepared''"
    and st: "st = ''broadcast'' \<or> st = ''failed''"
  shows "books_kept d0 (snd (UpdateTransactionStatus now i st h b d))"
proof -
  note wf = books_kept_wf [OF kept]
  let ?f = "set_tx_status now st h b"
  have prep: "tx_Status r = ''prepared''" if "r \<in> set (transactions d)" "tx_ID r = i" for r
    using that tx wf pk_unique_same [of tx_ID "transactions d" r tx] by (auto simp: db_wf_def tables_ok_def wf_table_def)
  obtain old new where t: "transactions d = old @ new" "list_all2 tx_moves (transactions d0) old"
    using kept by (auto simp: books_kept_def)
  have "list_all2 tx_moves old (upd_where (\<lambda>r. tx_ID r = i) ?f old)"
    using st prep t(1) by (auto simp: upd_where_def list_all2_conv_all_nth tx_moves_def set_tx_status_def)
  with t(2) have "list_all2 tx_moves (transactions d0) (upd_where (\<lambda>r. tx_ID r = i) ?f old)"
    using tx_moves_trans by (rule list_all2_trans [rotated])
  then have m: "\<exists>old' new'. upd_where (\<lambda>r. tx_ID r = i) ?f (transactions d) = old' @ new' \<and> list_all2 tx_moves (transactions d0) old'"
    unfolding t(1) upd_where_append by blast
  show ?thesis
    using UpdateTransactionStatus_shape [of now i st h b d] UpdateTransactionStatus_wf [OF wf, of now i st h b] kept m
    by (elim disjE) (auto simp: books_kept_def)
qed

lemma books_handlers: "tenant_store (\<lambda>_. books_kept d0)"
  by (unfold_locales; ((rule UpdateTransactionStatus_books; assumption)
      | (rule books_keptI, rule store_integrity, erule books_kept_wf, assumption+, rule insert_appends update_appends, assumption)
      | (rule books_keptI, rule TouchAPIKeyUsage_wf RevokeAPIKey_wf, erule books_kept_wf, rule update_appends, assumption)))

lemma books_workers: "worker_store (books_kept d0)"
  by (unfold_locales; (rule books_keptI, rule store_integrity, erule books_kept_wf, rule update_appends, assumption))

interpretation books: gateway_invariant "books_kept d0" for d0
  by (intro gateway_invariant.intro books_handlers books_workers)



section \<open>Lookups that last\<close>

lemma select_one_append: "select_one p xs = Inr r \<Longrightarrow> select_one p (xs @ ys) = Inr r"
  by (auto simp: select_one_Inr find_append)

lemma books_kept_lookups:
  assumes "books_kept d0 d"
  shows "GetWalletGroupByID i d0 = Inr grp \<Longrightarrow> GetWalletGroupByID i d = Inr grp"
    "GetWalletByGroupAndRail i rail d0 = Inr w \<Longrightarrow> GetWalletByGroupAndRail i rail d = Inr w"
    "GetVirtualAddressByLabel i label d0 = Inr va \<Longrightarrow> GetVirtualAddressByLabel i label d = Inr va"
  using assms
  by (auto simp: books_kept_def prefix_def GetWalletGroupByID_def GetWalletByGroupAndRail_def GetVirtualAddressByLabel_def
      dest: select_one_append)

lemma books_kept_settled:
  assumes kept: "books_kept d0 d" and row: "GetTransactionByID i d0 = Inr row" "tx_Status row \<noteq> ''prepared''"
  shows "GetTransactionByID i d = Inr row"
proof -
  have r: "row \<in> set (transactions d0)" "tx_ID row = i" using row(1) by (auto simp: GetTransactionByID_def dest!: select_one_D)
  obtain old new where t: "transactions d = old @ new" "list_all2 tx_moves (transactions d0) old"
    using kept by (auto simp: books_kept_def)
  obtain k where k: "k < length (transactions d0)" "transactions d0 ! k = row" using r(1) by (auto simp: in_set_conv_nth)
  have "old ! k = row" using list_all2_nthD [OF t(2) k(1)] k(2) row(2) tx_moves_settled by blast
  then have "row \<in> set (transactions d)" using t k(1) list_all2_lengthD [OF t(2)] by (auto intro: nth_mem)
  moreover have "pk_unique tx_ID (transactions d)" using books_kept_wf [OF kept] by (simp add: db_wf_def tables_ok_def wf_table_def)
  ultimately have "List.find (\<lambda>x. tx_ID x = tx_ID row) (transactions d) = Some row" by (rule pk_unique_find [rotated])
  then show ?thesis by (simp add: GetTransactionByID_def select_one_def r(2))
qed

section \<open>One broadcast\<close>

text \<open>
  C5: a prepared transaction is broadcast at most once, unless the update of its status is lost. A
  submission that reaches the chain comes from the tenant and the group that prepared it, found
  the row still \<open>prepared\<close> and not past its expiry, and sends exactly the one transaction that was signed. If the update
  of the status after it reaches the database, no submission of this preparation, by anyone and after any run of the
  gateway, puts anything on the chain again. If that update is lost, the database is the one before the
  submission: the row stays \<open>prepared\<close> and can be broadcast again. Requests are handled one after the other here; two
  submissions that both read the row before either has updated it are not excluded by the code.
\<close>

theorem prepared_transaction_is_broadcast_at_most_once:
  assumes run: "WalletGroups_SubmitTransaction h e cx (Some req) (gw_world g) = (resp, s')" and sent: "w_chain s' \<noteq> w_chain (gw_world g)"
    and wf: "db_wf (gw_db g)"
  shows "(\<exists>row raw tx. submittable e cx req (gw_db g) row \<and> hexDecode (sb_SignedTxHex req) = Some raw
         \<and> UnmarshalBinary (ta_geth (h_tempo h)) raw = Inr tx \<and> w_chain s' = w_chain (gw_world g) @ [tx])
    \<and> (if fault e ''SubmitTransaction.UpdateTransactionStatus'' [] = None then
         \<forall>g2 h2 e2 cx2 req2. (gateway_step lib (server_New lib deps))\<^sup>*\<^sup>* (g\<lparr>gw_world := s'\<rparr>) g2 \<longrightarrow> sb_PrepareID req2 = sb_PrepareID req \<longrightarrow>
           w_chain (snd (WalletGroups_SubmitTransaction h2 e2 cx2 (Some req2) (gw_world g2))) = w_chain (gw_world g2)
       else w_db s' = gw_db g)"
proof -
  have db: "gw_db g = w_db (gw_world g)" "gw_db (g\<lparr>gw_world := s'\<rparr>) = w_db s'" by (simp_all add: gw_db_def)
  have wf': "db_wf (w_db s')" using integrity.SubmitTransaction_keep [of "gw_world g" h e cx "Some req"] wf run by (simp add: db)
  show ?thesis
  proof (rule submitted_row [OF run sent wf [unfolded db(1)]])
    fix row raw tx
    assume x: "submittable e cx req (w_db (gw_world g)) row" "hexDecode (sb_SignedTxHex req) = Some raw"
      "UnmarshalBinary (ta_geth (h_tempo h)) raw = Inr tx" "w_chain s' = w_chain (gw_world g) @ [tx]"
      "fault e ''SubmitTransaction.UpdateTransactionStatus'' [] \<noteq> None \<Longrightarrow> w_db s' = w_db (gw_world g)"
      "fault e ''SubmitTransaction.UpdateTransactionStatus'' [] = None \<Longrightarrow>
         \<exists>row'. GetTransactionByID (sb_PrepareID req) (w_db s') = Inr row' \<and> tx_Status row' \<noteq> ''prepared''"
    have later: "w_chain (snd (WalletGroups_SubmitTransaction h2 e2 cx2 (Some req2) (gw_world g2))) = w_chain (gw_world g2)"
      if ok: "fault e ''SubmitTransaction.UpdateTransactionStatus'' [] = None"
        and st: "(gateway_step lib (server_New lib deps))\<^sup>*\<^sup>* (g\<lparr>gw_world := s'\<rparr>) g2" and id: "sb_PrepareID req2 = sb_PrepareID req" for g2 h2 e2 cx2 req2
    proof -
      obtain row' where r: "GetTransactionByID (sb_PrepareID req) (w_db s') = Inr row'" "tx_Status row' \<noteq> ''prepared''" using x(6) ok by blast
      have "books_kept (w_db s') (gw_db g2)"
        by (rule books.gateway_run_keep [OF st server_New_wired]) (simp add: db books_kept_refl wf')
      from books_kept_settled [OF this r] show ?thesis
        using r(2) id by (intro settled_row_not_submitted [of _ _ row']) (simp_all add: gw_db_def)
    qed
    show ?thesis using x(1-5) later by (auto simp: db)
  qed
qed

theorem prepared_transaction_is_broadcast_at_most_once_witness:
  "\<exists>resp s'. WalletGroups_SubmitTransaction demo_handler (calm_env 0) demo_ctx (Some demo_submit) (gw_world (demo_gateway demo_prepared_db)) = (resp, s')
     \<and> w_chain s' = [''ab''] \<and> w_chain (snd (WalletGroups_SubmitTransaction demo_handler (calm_env 0) demo_ctx (Some demo_submit) s')) = [''ab'']"
proof -
  let ?g = "demo_gateway demo_prepared_db"
  have g0: "gw_world ?g = \<lparr> w_db = demo_prepared_db, w_redis = (\<lambda>_. 0), w_chain = [], w_provider = [] \<rparr>" by (simp add: demo_gateway_def)
  obtain resp s' where r: "WalletGroups_SubmitTransaction demo_handler (calm_env 0) demo_ctx (Some demo_submit) (gw_world ?g) = (resp, s')" by force
  have b: "BroadcastSignedTx (h_tempo demo_handler) ''6162'' = (Inr ''hab'', [''ab''])"
    by (simp add: BroadcastSignedTx_def demo_hex demo_handler_def NewWalletGroups_def demo_tempo_def demo_geth_def demo_eth_def)
  have g: "GetTransactionByID ''PrepareTransaction.tx'' demo_prepared_db = Inr demo_prepared_row"
    "tx_TenantID demo_prepared_row = ''tn''" "tx_GroupID demo_prepared_row = ''wg''" "tx_Status demo_prepared_row = ''prepared''"
    by (simp_all add: GetTransactionByID_def demo_prepared_db_def select_one_def demo_prepared_row_def prepared_row_def calm_env_def demo_group_def)
  have x: "\<not> prepared_expired (calm_env 0) demo_prepared_row"
    by (simp add: prepared_expired_def demo_prepared_row_def empty_object_def dec_meta_def dec_str_def field_values_def)
  have "snd (WalletGroups_SubmitTransaction demo_handler (calm_env 0) demo_ctx (Some demo_submit) (gw_world ?g)) = s'" by (simp add: r)
  then have c: "w_chain s' = [''ab'']"
    using g b x by (auto simp: g0 WalletGroups_SubmitTransaction_def demo_ctx_def demo_submit_def calm_env_def Let_def split: sum.splits prod.splits)
  have f: "fault (calm_env 0) ''SubmitTransaction.UpdateTransactionStatus'' [] = None" by (simp add: calm_env_def)
  have n: "w_chain s' \<noteq> w_chain (gw_world ?g)" "db_wf (gw_db ?g)" using c demo_prepared_wf by (simp_all add: g0 gw_db_def)
  note all = prepared_transaction_is_broadcast_at_most_once [OF r n, THEN conjunct2, unfolded if_P [OF f], rule_format,
      of demo_server_lib demo_deps "?g\<lparr>gw_world := s'\<rparr>" demo_submit demo_handler "calm_env 0" demo_ctx]
  have "w_chain (snd (WalletGroups_SubmitTransaction demo_handler (calm_env 0) demo_ctx (Some demo_submit) s')) = w_chain s'"
    using all by simp
  then show ?thesis using r c by auto
qed

section \<open>One registration\<close>

text \<open>
  C30: a label is registered once. An answer of 201 means that one transaction went to the chain: it
  calls the registry with the 32-byte hash of the label and is signed with the key of the group's
  Tempo wallet; one row was added, for this tenant, wallet and label, with the hash of the
  transaction and the address that was looked up. From then on, after any run of the gateway, the same request answers
  200 with that row, whatever the rails say and whichever keys are loaded, and sends nothing, as long
  as its reads of the database succeed (a failing read of the label is taken for an unregistered one).
\<close>

theorem label_is_registered_once:
  assumes run: "VirtualAddresses_Create h e cx (Some label) (gw_world g) = (Reply 201 v, s')" and wf: "db_wf (gw_db g)"
  shows "\<exists>w priv tx row. w \<in> set (wallets (gw_db g)) \<and> wl_Rail w = RailTempo
    \<and> w_chain s' = w_chain (gw_world g) @ [tx] \<and> registers (vh_tempo h) (vh_registry h) priv (LabelToBytes32 (vh_registry h) label) tx
    \<and> PubkeyToAddress (ta_geth (vh_tempo h)) priv = HexToAddress (ta_geth (vh_tempo h)) (wl_Address w)
    \<and> w_db s' = (gw_db g)\<lparr>virtual_addresses := virtual_addresses (gw_db g) @ [row]\<rparr>
    \<and> va_TenantID row = cx_TenantID cx \<and> va_WalletID row = wl_ID w \<and> va_Label row = label
    \<and> va_RegistrationTxHash row = pgxText (tx_Hash (ta_geth (vh_tempo h)) tx)
    \<and> va_Address row = Address_Hex (ta_geth (vh_tempo h))
        (looked_up (vh_tempo h) (vh_registry h) (PubkeyToAddress (ta_geth (vh_tempo h)) priv) (LabelToBytes32 (vh_registry h) label))
    \<and> v = vaddr_json row
    \<and> (\<forall>g2 h2 e2. (gateway_step lib (server_New lib deps))\<^sup>*\<^sup>* (g\<lparr>gw_world := s'\<rparr>) g2 \<longrightarrow> (\<forall>site. fault e2 site [] = None) \<longrightarrow>
         VirtualAddresses_Create h2 e2 cx (Some label) (gw_world g2) = (Reply 200 v, gw_world g2))"
proof -
  have db: "gw_db g = w_db (gw_world g)" "gw_db (g\<lparr>gw_world := s'\<rparr>) = w_db s'" by (simp_all add: gw_db_def)
  have wf': "db_wf (w_db s')" using integrity.VirtualAddresses_Create_keep [of "gw_world g" h e cx "Some label"] wf run by (simp add: db)
  from run show ?thesis
  proof (rule registration)
    fix w priv tx row
    assume x: "w \<in> set (wallets (w_db (gw_world g)))" "wl_Rail w = RailTempo"
      "w_chain s' = w_chain (gw_world g) @ [tx]" "registers (vh_tempo h) (vh_registry h) priv (LabelToBytes32 (vh_registry h) label) tx"
      "PubkeyToAddress (ta_geth (vh_tempo h)) priv = HexToAddress (ta_geth (vh_tempo h)) (wl_Address w)"
      "w_db s' = (w_db (gw_world g))\<lparr>virtual_addresses := virtual_addresses (w_db (gw_world g)) @ [row]\<rparr>"
      "va_TenantID row = cx_TenantID cx" "va_WalletID row = wl_ID w" "va_Label row = label"
      "va_RegistrationTxHash row = pgxText (tx_Hash (ta_geth (vh_tempo h)) tx)"
      "va_Address row = Address_Hex (ta_geth (vh_tempo h))
        (looked_up (vh_tempo h) (vh_registry h) (PubkeyToAddress (ta_geth (vh_tempo h)) priv) (LabelToBytes32 (vh_registry h) label))"
      "v = vaddr_json row" "cx_TenantID cx \<noteq> []" "cx_Params cx ''id'' \<noteq> []" "validateLabel label = None"
      "answers_label cx label row (w_db s')"
    have again: "VirtualAddresses_Create h2 e2 cx (Some label) (gw_world g2) = (Reply 200 v, gw_world g2)"
      if st: "(gateway_step lib (server_New lib deps))\<^sup>*\<^sup>* (g\<lparr>gw_world := s'\<rparr>) g2" and f: "\<forall>site. fault e2 site [] = None" for g2 h2 e2
    proof -
      have "books_kept (w_db s') (gw_db g2)"
        by (rule books.gateway_run_keep [OF st server_New_wired]) (simp add: db books_kept_refl wf')
      with x(16) have "answers_label cx label row (w_db (gw_world g2))"
        unfolding answers_label_def gw_db_def using books_kept_lookups by blast
      then show ?thesis unfolding x(12) using f x(13-15) by (rule registered_again)
    qed
    show ?thesis
      by (intro exI [of _ w] exI [of _ priv] exI [of _ tx] exI [of _ row] conjI allI impI again) (use x in \<open>auto simp: db\<close>)
  qed
qed

theorem label_is_registered_once_witness:
  "\<exists>v s'. VirtualAddresses_Create demo_vaddr_handler (calm_env 0) demo_ctx (Some ''invoice-42'') (gw_world (demo_gateway demo_bank)) = (Reply 201 v, s')
     \<and> VirtualAddresses_Create demo_vaddr_handler (calm_env 1) demo_ctx (Some ''invoice-42'') s' = (Reply 200 v, s')"
proof -
  have g0: "gw_world (demo_gateway demo_bank) = demo_world (\<lambda>_. 0)" by (simp add: demo_gateway_def demo_world_def)
  obtain v s' where run: "VirtualAddresses_Create demo_vaddr_handler (calm_env 0) demo_ctx (Some ''invoice-42'') (gw_world (demo_gateway demo_bank)) = (Reply 201 v, s')"
    using demo_registered unfolding g0 by blast
  have f: "\<forall>site. fault (calm_env 1) site [] = None" by (simp add: calm_env_def)
  have wf: "db_wf (gw_db (demo_gateway demo_bank))"
    by (simp add: gw_db_def demo_gateway_def wf_eval demo_user_defs)
  have "VirtualAddresses_Create demo_vaddr_handler (calm_env 1) demo_ctx (Some ''invoice-42'') (gw_world (demo_gateway demo_bank\<lparr>gw_world := s'\<rparr>))
      = (Reply 200 v, gw_world (demo_gateway demo_bank\<lparr>gw_world := s'\<rparr>))"
    using label_is_registered_once [OF run wf, of demo_server_lib demo_deps] f by blast
  with run show ?thesis by auto
qed

section \<open>One secret per version\<close>

text \<open>The endpoint \<open>i\<close> exists, has reached at least the version \<open>n\<close> of its secret, and that version is \<open>secret\<close>.\<close>

definition secret_at :: "string \<Rightarrow> int \<Rightarrow> bytes \<Rightarrow> db \<Rightarrow> bool" where
  "secret_at i n secret d \<longleftrightarrow> db_wf d \<and> (\<exists>ep \<in> set (webhook_endpoints d). we_ID ep = i)
     \<and> (\<forall>ep \<in> set (webhook_endpoints d). we_ID ep = i \<longrightarrow>
          n \<le> we_SecretVersion ep \<and> (we_SecretVersion ep = n \<longrightarrow> we_Secret ep = secret))"

lemma secret_at_wf: "secret_at i n secret d \<Longrightarrow> db_wf d"
  by (simp add: secret_at_def)

lemma secret_at_same: "db_wf d' \<Longrightarrow> webhook_endpoints d' = webhook_endpoints d \<Longrightarrow> secret_at i n secret d \<Longrightarrow> secret_at i n secret d'"
  by (simp add: secret_at_def)

lemma secret_at_upd:
  assumes "db_wf d'" "webhook_endpoints d' = upd_where p f (webhook_endpoints d)" "secret_at i n secret d"
    and f: "\<And>r. we_ID (f r) = we_ID r"
      "\<And>r. we_SecretVersion (f r) = we_SecretVersion r \<and> we_Secret (f r) = we_Secret r \<or> we_SecretVersion r < we_SecretVersion (f r)"
  shows "secret_at i n secret d'"
proof -
  obtain ep where ep: "ep \<in> set (webhook_endpoints d)" "we_ID ep = i" using assms(3) by (auto simp: secret_at_def)
  have "\<exists>ep \<in> set (webhook_endpoints d'). we_ID ep = i"
    by (rule bexI [of _ "if p ep then f ep else ep"]) (use ep f(1) in \<open>auto simp: assms(2) upd_where_def\<close>)
  moreover have "n \<le> we_SecretVersion r' \<and> (we_SecretVersion r' = n \<longrightarrow> we_Secret r' = secret)"
    if r: "r' \<in> set (webhook_endpoints d')" "we_ID r' = i" for r'
  proof -
    obtain r where "r \<in> set (webhook_endpoints d)" "r' = (if p r then f r else r)" using r(1) by (auto simp: assms(2) upd_where_def)
    moreover from this have "we_ID r = i" using r(2) f(1) by (auto split: if_splits)
    ultimately show ?thesis using assms(3) f(2) [of r] by (auto simp: secret_at_def split: if_splits)
  qed
  ultimately show ?thesis using assms(1) by (simp add: secret_at_def)
qed

lemma other_endpoints:
  "webhook_endpoints (snd (CreateTenant now tn d)) = webhook_endpoints d" "webhook_endpoints (snd (CreateUser now us d)) = webhook_endpoints d"
  "webhook_endpoints (snd (CreateAPIKey now ak d)) = webhook_endpoints d" "webhook_endpoints (snd (CreateWalletGroup now wg d)) = webhook_endpoints d"
  "webhook_endpoints (snd (CreateWallet now wl d)) = webhook_endpoints d" "webhook_endpoints (snd (CreateTransaction drv now tx d)) = webhook_endpoints d"
  "webhook_endpoints (snd (CreateOnrampOrder drv now oo d)) = webhook_endpoints d" "webhook_endpoints (snd (CreateLimitPolicy drv now lp d)) = webhook_endpoints d"
  "webhook_endpoints (snd (CreateLimitViolation drv now lv d)) = webhook_endpoints d" "webhook_endpoints (snd (CreateSessionKey now sk d)) = webhook_endpoints d"
  "webhook_endpoints (snd (CreateWebhookEvent now ev d)) = webhook_endpoints d" "webhook_endpoints (snd (CreateVirtualAddress now va d)) = webhook_endpoints d"
  "webhook_endpoints (TouchUserLogin now i d) = webhook_endpoints d" "webhook_endpoints (TouchAPIKeyUsage now i d) = webhook_endpoints d"
  "webhook_endpoints (snd (RevokeAPIKey now i reason d)) = webhook_endpoints d"
  "webhook_endpoints (snd (UpdateTransactionStatus now i st hs b d)) = webhook_endpoints d"
  "webhook_endpoints (snd (DisableLimitPolicy now i d)) = webhook_endpoints d" "webhook_endpoints (snd (RevokeSessionKey now i reason d)) = webhook_endpoints d"
  "webhook_endpoints (d\<lparr>session_keys := sks\<rparr>) = webhook_endpoints d" "webhook_endpoints (snd (MarkWebhookEventDelivering now i d)) = webhook_endpoints d"
  "webhook_endpoints (snd (MarkWebhookEventDelivered now i code d)) = webhook_endpoints d"
  "webhook_endpoints (snd (MarkWebhookEventFailed now i nxt oc ob oe d)) = webhook_endpoints d"
  "webhook_endpoints (MarkWebhookEventDead now i d) = webhook_endpoints d" "webhook_endpoints (snd (UpdateSessionKeyStatus now i sst d)) = webhook_endpoints d"
  unfolding CreateTenant_def CreateUser_def CreateAPIKey_def CreateWalletGroup_def CreateWallet_def CreateTransaction_def
    CreateOnrampOrder_def CreateLimitPolicy_def CreateLimitViolation_def CreateSessionKey_def CreateWebhookEvent_def CreateVirtualAddress_def
    TouchUserLogin_def TouchAPIKeyUsage_def RevokeAPIKey_def UpdateTransactionStatus_def DisableLimitPolicy_def RevokeSessionKey_def
    MarkWebhookEventDelivering_def MarkWebhookEventDelivered_def MarkWebhookEventFailed_def MarkWebhookEventDead_def UpdateSessionKeyStatus_def
  by (simp_all add: Let_def split: prod.split sum.split option.split)

lemma CreateWebhookEndpoint_secret:
  assumes "secret_at i n secret d" shows "secret_at i n secret (snd (CreateWebhookEndpoint now we d))"
proof (cases "fst (CreateWebhookEndpoint now we d)")
  case (Inr row)
  then have r: "webhook_endpoints (snd (CreateWebhookEndpoint now we d)) = webhook_endpoints d @ [row]" "we_ID row \<notin> we_ID ` set (webhook_endpoints d)"
    by (auto simp: CreateWebhookEndpoint_def exists_row_iff Let_def split: if_splits)
  have "db_wf (snd (CreateWebhookEndpoint now we d))" by (rule integrity.keep_CreateWebhookEndpoint [OF secret_at_wf [OF assms] refl])
  moreover have "we_ID row \<noteq> i" using assms r(2) by (auto simp: secret_at_def)
  ultimately show ?thesis using assms by (auto simp: secret_at_def r(1))
next
  case Inl
  then have "snd (CreateWebhookEndpoint now we d) = d" by (auto simp: CreateWebhookEndpoint_def Let_def split: if_splits)
  then show ?thesis using assms by simp
qed

lemma endpoint_updates_secret:
  assumes "secret_at i n secret d"
  shows "secret_at i n secret (snd (UpdateWebhookEndpoint now j url evs desc est d))"
    "secret_at i n secret (snd (RotateWebhookEndpointSecret now j s d))" "secret_at i n secret (DeleteWebhookEndpoint now j d)"
    "secret_at i n secret (TouchWebhookEndpointSuccess now j d)" "secret_at i n secret (snd (TouchWebhookEndpointFailure now j d))"
    "secret_at i n secret (PauseWebhookEndpoint now j d)"
proof -
  note wf = secret_at_wf [OF assms]
  show "secret_at i n secret (snd (UpdateWebhookEndpoint now j url evs desc est d))"
    using UpdateWebhookEndpoint_shape [of now j url evs desc est d] UpdateWebhookEndpoint_wf [OF wf, of now j url evs desc est] assms
    by (elim disjE) (auto simp: update_endpoint_def intro!: secret_at_upd [OF _ _ assms])
  show "secret_at i n secret (snd (RotateWebhookEndpointSecret now j s d))"
    using RotateWebhookEndpointSecret_shape [of now j s d] RotateWebhookEndpointSecret_wf [OF wf, of now j s] assms
    by (elim disjE) (auto simp: rotate_secret_def intro!: secret_at_upd [OF _ _ assms])
  show "secret_at i n secret (snd (TouchWebhookEndpointFailure now j d))"
    using TouchWebhookEndpointFailure_shape [of now j d] TouchWebhookEndpointFailure_wf [OF wf, of now j] assms
    by (elim disjE) (auto simp: endpoint_failure_def intro!: secret_at_upd [OF _ _ assms])
  show "secret_at i n secret (DeleteWebhookEndpoint now j d)"
    using DeleteWebhookEndpoint_wf [OF wf, of now j]
    by (rule secret_at_upd [of _ "\<lambda>r. we_ID r = j \<and> we_Status r \<noteq> ''deleted''" "set_endpoint_status now ''deleted''", OF _ _ assms]) (auto simp: DeleteWebhookEndpoint_def set_endpoint_status_def)
  show "secret_at i n secret (PauseWebhookEndpoint now j d)"
    using PauseWebhookEndpoint_wf [OF wf, of now j]
    by (rule secret_at_upd [of _ "\<lambda>r. we_ID r = j \<and> we_Status r = ''active''" "set_endpoint_status now ''paused''", OF _ _ assms]) (auto simp: PauseWebhookEndpoint_def set_endpoint_status_def)
  show "secret_at i n secret (TouchWebhookEndpointSuccess now j d)"
    using TouchWebhookEndpointSuccess_wf [OF wf, of now j]
    by (rule secret_at_upd [of _ "\<lambda>r. we_ID r = j" "endpoint_success now", OF _ _ assms]) (auto simp: TouchWebhookEndpointSuccess_def endpoint_success_def)
qed

lemma secret_handlers: "tenant_store (\<lambda>_. secret_at i n secret)"
  by (unfold_locales; ((rule endpoint_updates_secret, assumption) | (rule CreateWebhookEndpoint_secret, assumption)
      | (rule secret_at_same, rule store_integrity TouchAPIKeyUsage_wf RevokeAPIKey_wf, erule secret_at_wf, assumption+, rule other_endpoints, assumption)
      | (rule secret_at_same, rule store_integrity TouchAPIKeyUsage_wf RevokeAPIKey_wf, erule secret_at_wf, rule other_endpoints, assumption)))

lemma secret_workers: "worker_store (secret_at i n secret)"
  by (unfold_locales; ((rule endpoint_updates_secret, assumption)
      | (rule secret_at_same, rule store_integrity, erule secret_at_wf, rule other_endpoints, assumption)))

interpretation secrets: gateway_invariant "secret_at i n secret" for i n secret
  by (intro gateway_invariant.intro secret_handlers secret_workers)

lemma secret_at_start:
  assumes "db_wf d" "GetWebhookEndpointByID i d = Inr ep"
  shows "secret_at i (we_SecretVersion ep) (we_Secret ep) d"
proof -
  have ep: "ep \<in> set (webhook_endpoints d)" "we_ID ep = i" using assms(2) by (auto simp: GetWebhookEndpointByID_def dest!: select_one_D)
  have "pk_unique we_ID (webhook_endpoints d)" using assms(1) by (simp add: db_wf_def tables_ok_def wf_table_def)
  then have "r = ep" if "r \<in> set (webhook_endpoints d)" "we_ID r = i" for r
    by (rule pk_unique_same) (use that ep in simp_all)
  then show ?thesis unfolding secret_at_def using assms(1) ep by (metis order_refl)
qed

lemma secret_at_lookup:
  assumes "secret_at i n secret d"
  shows "\<exists>ep. GetWebhookEndpointByID i d = Inr ep \<and> n \<le> we_SecretVersion ep \<and> (we_SecretVersion ep = n \<longrightarrow> we_Secret ep = secret)"
proof -
  obtain ep where ep: "ep \<in> set (webhook_endpoints d)" "we_ID ep = i" using assms by (auto simp: secret_at_def)
  have "pk_unique we_ID (webhook_endpoints d)" using secret_at_wf [OF assms] by (simp add: db_wf_def tables_ok_def wf_table_def)
  then have "GetWebhookEndpointByID i d = Inr ep"
    using pk_unique_find [of we_ID, OF _ ep(1)] ep(2) by (simp add: GetWebhookEndpointByID_def select_one_def)
  then show ?thesis using assms ep by (auto simp: secret_at_def)
qed

text \<open>
  C29: the secret an answer shows is the secret deliveries are signed with until the next rotation. When
  creating an endpoint or rotating its secret succeeds, the answer contains, in base64, 32 bytes drawn for this request.
  After any run of the gateway the endpoint is still there, and as long as its secret version is the one the
  answer left, every delivery the worker makes to it, of whichever event, carries a signature that \<open>Verify\<close> accepts
  under these bytes. That includes the events queued before the rotation, which a comment in
  \<open>worker.go\<close> and the notice of the rotate route promise to sign with the prior secret; the code signs with the
  secret of the endpoint. A created endpoint is active, belongs to the caller and has a URL that is \<open>https\<close>, or \<open>http\<close>
  to the local host.
\<close>

theorem shown_secret_signs_deliveries:
  assumes rnd: "\<forall>site. rnd_len (rand_bytes e site [])" and wf: "db_wf d" and after: "gw_db g = d'"
    and run: "Webhooks_Create e cx body d = (Reply 201 v, d') \<or> Webhooks_RotateSecret e cx d = (Reply 200 v, d')"
  shows "\<exists>ep. shown_secret v = Some (we_Secret ep) \<and> length (we_Secret ep) = 32 \<and> GetWebhookEndpointByID (we_ID ep) d' = Inr ep
    \<and> (\<forall>g2. (gateway_step lib (server_New lib deps))\<^sup>*\<^sup>* g g2 \<longrightarrow>
         (\<exists>ep2. GetWebhookEndpointByID (we_ID ep) (gw_db g2) = Inr ep2 \<and> we_SecretVersion ep \<le> we_SecretVersion ep2
            \<and> (we_SecretVersion ep2 = we_SecretVersion ep \<longrightarrow> (\<forall>c evt. \<exists>sg. signature_of (delivery_request c evt ep2) = Some sg
                 \<and> Verify (co_hmac c) (we_Secret ep) (hr_body (delivery_request c evt ep2)) sg))))
    \<and> (Webhooks_Create e cx body d = (Reply 201 v, d') \<and> webhook_endpoints d' = webhook_endpoints d @ [ep] \<and> we_TenantID ep = cx_TenantID cx
         \<and> we_Status ep = ''active'' \<and> safe_url (we_Url ep)
       \<or> Webhooks_RotateSecret e cx d = (Reply 200 v, d') \<and> we_ID ep = cx_Params cx ''id'')"
proof -
  have wf': "db_wf d'"
    using run integrity.Webhooks_Create_keep [OF wf, of e cx body] integrity.Webhooks_RotateSecret_keep [OF wf, of e cx] by auto
  have later: "\<exists>ep2. GetWebhookEndpointByID (we_ID ep) (gw_db g2) = Inr ep2 \<and> we_SecretVersion ep \<le> we_SecretVersion ep2
            \<and> (we_SecretVersion ep2 = we_SecretVersion ep \<longrightarrow> (\<forall>c evt. \<exists>sg. signature_of (delivery_request c evt ep2) = Some sg
                 \<and> Verify (co_hmac c) (we_Secret ep) (hr_body (delivery_request c evt ep2)) sg))"
    if g: "GetWebhookEndpointByID (we_ID ep) d' = Inr ep" and st: "(gateway_step lib (server_New lib deps))\<^sup>*\<^sup>* g g2" for ep g2
    using secret_at_lookup [OF secrets.gateway_run_keep [OF st server_New_wired secret_at_start [OF wf' [folded after] g [folded after]]]]
      delivery_verifies by blast
  from run show ?thesis
  proof
    assume c: "Webhooks_Create e cx body d = (Reply 201 v, d')"
    from created_endpoint_secret [OF rnd this] show ?thesis using later c by blast
  next
    assume r: "Webhooks_RotateSecret e cx d = (Reply 200 v, d')"
    from rotated_endpoint_secret [OF rnd this] show ?thesis using later r by blast
  qed
qed

theorem shown_secret_signs_deliveries_witness:
  "\<exists>v d' ep. Webhooks_Create (calm_env 0) demo_hook_ctx (Some demo_hook_request) demo_hook_db = (Reply 201 v, d')
     \<and> shown_secret v = Some (we_Secret ep) \<and> length (we_Secret ep) = 32 \<and> GetWebhookEndpointByID (we_ID ep) d' = Inr ep"
proof -
  obtain v d' where run: "Webhooks_Create (calm_env 0) demo_hook_ctx (Some demo_hook_request) demo_hook_db = (Reply 201 v, d')"
    using demo_hook_created by blast
  have r: "\<forall>site. rnd_len (rand_bytes (calm_env 0) site [])" by (auto simp: rnd_len_def calm_env_def)
  have wf: "db_wf demo_hook_db" by (simp add: wf_eval demo_hook_db_def empty_db_def)
  have g: "gw_db (demo_gateway d') = d'" by (simp add: gw_db_def demo_gateway_def)
  from shown_secret_signs_deliveries [OF r wf g disjI1 [OF run]] run show ?thesis by blast
qed

end
