(* ===== verification/Cli.thy ===== *)
theory Cli
  imports Crossmint "HOL-Library.AList" "HOL-Library.List_Lexorder"
begin

text \<open>
  The command line client, \<open>cmd/atara/cli\<close>: its configuration file, its HTTP client and the commands as
  functions of their flags. The process around it is the record \<open>cli_system\<close>: environment variables, the
  failures of file operations, standard input, and the server that answers requests. A file is what
  \<open>encoding/json\<close> reads from it. Cobra is used as documented: a flag that was not given has its
  default, required flags and the number of arguments are checked before a command runs.
\<close>

section \<open>The process\<close>

record cli_request =
  hq_method :: string
  hq_url :: string
  hq_Authorization :: "string option"
  hq_json :: "json option"

record cli_system =
  sy_getenv :: "string \<Rightarrow> string"
  sy_home :: "string + string" \<comment> \<open>\<open>os.UserHomeDir\<close>\<close>
  sy_fault :: "string \<Rightarrow> string option" \<comment> \<open>the error of a file operation\<close>
  sy_partial :: jsonb \<comment> \<open>what a failed write leaves behind\<close>
  sy_stdin :: string
  sy_parse :: "string \<Rightarrow> jsonb" \<comment> \<open>a text as JSON\<close>
  sy_json_error :: "jsonb \<Rightarrow> string" \<comment> \<open>the text of a decoding error\<close>
  sy_float :: "string \<Rightarrow> string" \<comment> \<open>a number after a trip through \<open>float64\<close>\<close>
  sy_http :: "cli_request \<Rightarrow> string + cm_response"

type_synonym files = "string \<Rightarrow> jsonb option"

record flags =
  fl_str :: "string \<Rightarrow> string option"
  fl_int :: "string \<Rightarrow> int option"
  fl_bool :: "string \<Rightarrow> bool option"
  fl_list :: "string \<Rightarrow> string list option"
  fl_args :: "string list"

datatype printed = Text string | Indented json

datatype cli_result = Finished | Failed string | Crashed

record cli_run =
  run_result :: cli_result
  run_out :: "printed list"
  run_sent :: "cli_request list"
  run_files :: files

definition stopped :: "string \<Rightarrow> files \<Rightarrow> cli_run" where
  "stopped err fs = \<lparr> run_result = Failed err, run_out = [], run_sent = [], run_files = fs \<rparr>"

definition str_flag :: "flags \<Rightarrow> string \<Rightarrow> string \<Rightarrow> string" where
  "str_flag fl name dflt = (case fl_str fl name of None \<Rightarrow> dflt | Some v \<Rightarrow> v)"

definition int_flag :: "flags \<Rightarrow> string \<Rightarrow> int \<Rightarrow> int" where
  "int_flag fl name dflt = (case fl_int fl name of None \<Rightarrow> dflt | Some v \<Rightarrow> v)"

definition bool_flag :: "flags \<Rightarrow> string \<Rightarrow> bool" where
  "bool_flag fl name \<longleftrightarrow> fl_bool fl name = Some True"

definition arg0 :: "flags \<Rightarrow> string" where
  "arg0 fl = (case fl_args fl of [] \<Rightarrow> [] | a # _ \<Rightarrow> a)"

text \<open>
  A value decoded into \<open>any\<close> and encoded again: of equal keys the last stays, keys come out sorted,
  numbers have gone through \<open>float64\<close>.
\<close>

fun through_any :: "(string \<Rightarrow> string) \<Rightarrow> json \<Rightarrow> json" where
  "through_any fl (JNum t) = JNum (fl t)"
| "through_any fl (JArr js) = JArr (map (through_any fl) js)"
| "through_any fl (JObj fs) = JObj (sort_key fst (AList.clearjunk (rev (map (\<lambda>(k, v). (k, through_any fl v)) fs))))"
| "through_any fl j = j"

section \<open>config.go\<close>

record cli_Config =
  gc_BaseURL :: string
  gc_APIKey :: string

text \<open>\<open>filepath.Join\<close>: empty elements are dropped, the rest is joined and cleaned.\<close>

fun clean_parts :: "bool \<Rightarrow> string list \<Rightarrow> string list \<Rightarrow> string list" where
  "clean_parts rooted acc [] = rev acc"
| "clean_parts rooted acc (s # ss) =
     (if s = [] \<or> s = ''.'' then clean_parts rooted acc ss
      else if s = ''..'' then
        (case acc of
           [] \<Rightarrow> clean_parts rooted (if rooted then [] else [''..'']) ss
         | a # as \<Rightarrow> clean_parts rooted (if a = ''..'' then ''..'' # acc else as) ss)
      else clean_parts rooted (s # acc) ss)"

fun join_slash :: "string list \<Rightarrow> string" where
  "join_slash [] = []"
| "join_slash [s] = s"
| "join_slash (s # ss) = s @ CHR ''/'' # join_slash ss"

definition Clean :: "string \<Rightarrow> string" where
  "Clean p =
     (let rooted = HasPrefix p ''/'';
          out = (if rooted then ''/'' else []) @ join_slash (clean_parts rooted [] (Split CHR ''/'' p))
      in if out = [] then ''.'' else out)"

definition filepath_Join :: "string list \<Rightarrow> string" where
  "filepath_Join elems =
     (let es = filter (\<lambda>e. e \<noteq> []) elems in if es = [] then [] else Clean (join_slash es))"

definition configPath :: "cli_system \<Rightarrow> string + string" where
  "configPath sys =
     (let xdg = sy_getenv sys ''XDG_CONFIG_HOME'' in
      if xdg \<noteq> [] then Inr (filepath_Join [xdg, ''atara'', ''config.json''])
      else (case sy_home sys of
              Inl err \<Rightarrow> Inl err
            | Inr home \<Rightarrow> Inr (filepath_Join [home, ''.atara'', ''config.json''])))"

definition zero_Config :: cli_Config where
  "zero_Config = \<lparr> gc_BaseURL = [], gc_APIKey = [] \<rparr>"

text \<open>\<open>json.Unmarshal\<close> keeps what it could decode beside the error.\<close>

definition decode_Config :: "jsonb \<Rightarrow> cli_Config \<times> bool" where
  "decode_Config j =
     (case j of
        JVal (JObj fs) \<Rightarrow>
          (\<lparr> gc_BaseURL = foldl set_str [] (field_values ''base_url'' fs), gc_APIKey = foldl set_str [] (field_values ''api_key'' fs) \<rparr>,
           str_field ''base_url'' fs \<noteq> None \<and> str_field ''api_key'' fs \<noteq> None)
      | JVal JNull \<Rightarrow> (zero_Config, True)
      | _ \<Rightarrow> (zero_Config, False))"

definition loadConfig :: "cli_system \<Rightarrow> files \<Rightarrow> cli_Config \<times> string option" where
  "loadConfig sys fs =
     (case configPath sys of
        Inl err \<Rightarrow> (zero_Config, Some err)
      | Inr p \<Rightarrow>
          (case (sy_fault sys ''ReadFile'', fs p) of
             (Some err, _) \<Rightarrow> (zero_Config, Some err)
           | (None, None) \<Rightarrow> (zero_Config, None)
           | (None, Some b) \<Rightarrow>
               (case decode_Config b of
                  (c, ok) \<Rightarrow> (c, if ok then None else Some (''config '' @ p @ '': '' @ sy_json_error sys b)))))"

definition encode_Config :: "cli_Config \<Rightarrow> jsonb" where
  "encode_Config c = JVal (JObj [(''base_url'', JStr (gc_BaseURL c)), (''api_key'', JStr (gc_APIKey c))])"

text \<open>The new file is written beside the old one and renamed over it.\<close>

definition saveConfig :: "cli_system \<Rightarrow> cli_Config \<Rightarrow> files \<Rightarrow> string option \<times> files" where
  "saveConfig sys c fs =
     (case configPath sys of
        Inl err \<Rightarrow> (Some err, fs)
      | Inr p \<Rightarrow>
          (case sy_fault sys ''MkdirAll'' of
             Some err \<Rightarrow> (Some err, fs)
           | None \<Rightarrow>
               (let tmp = p @ ''.tmp'' in
                case sy_fault sys ''WriteFile'' of
                  Some err \<Rightarrow> (Some err, fs(tmp \<mapsto> sy_partial sys))
                | None \<Rightarrow>
                    (case sy_fault sys ''Rename'' of
                       Some err \<Rightarrow> (Some err, fs(tmp \<mapsto> encode_Config c))
                     | None \<Rightarrow> (None, (fs(tmp := None))(p \<mapsto> encode_Config c))))))"

definition defaulted :: "string \<Rightarrow> string \<Rightarrow> string" where
  "defaulted v fallback = (if v = [] then fallback else v)"

definition resolveConfig :: "cli_system \<Rightarrow> files \<Rightarrow> string \<Rightarrow> string \<Rightarrow> string + cli_Config" where
  "resolveConfig sys fs flagBase flagKey =
     (case loadConfig sys fs of
        (_, Some err) \<Rightarrow> Inl err
      | (c, None) \<Rightarrow>
          (let c1 = c\<lparr>gc_BaseURL := defaulted (sy_getenv sys ''ATARA_BASE_URL'') (gc_BaseURL c)\<rparr>;
               c2 = c1\<lparr>gc_APIKey := defaulted (sy_getenv sys ''ATARA_API_KEY'') (gc_APIKey c1)\<rparr>;
               c3 = c2\<lparr>gc_BaseURL := defaulted flagBase (gc_BaseURL c2)\<rparr>;
               c4 = c3\<lparr>gc_APIKey := defaulted flagKey (gc_APIKey c3)\<rparr>
           in Inr (c4\<lparr>gc_BaseURL := defaulted (gc_BaseURL c4) ''http://localhost:8080''\<rparr>)))"

section \<open>client.go\<close>

record client =
  cl_base :: string
  cl_apiKey :: string

definition newClient :: "cli_system \<Rightarrow> flags \<Rightarrow> files \<Rightarrow> bool \<Rightarrow> string + client" where
  "newClient sys fl fs requireAuth =
     (case resolveConfig sys fs (str_flag fl ''base-url'' []) (str_flag fl ''api-key'' []) of
        Inl err \<Rightarrow> Inl err
      | Inr c \<Rightarrow>
          if requireAuth \<and> gc_APIKey c = [] then
            Inl (''no API key found '' @ [CHR 0xE2, CHR 0x80, CHR 0x94]
                 @ '' run `atara init`, set ATARA_API_KEY, or pass --api-key'')
          else Inr \<lparr> cl_base = gc_BaseURL c, cl_apiKey = gc_APIKey c \<rparr>)"

definition client_request :: "client \<Rightarrow> string \<Rightarrow> string \<Rightarrow> json option \<Rightarrow> cli_request" where
  "client_request c verb path body =
     \<lparr> hq_method = verb, hq_url = cl_base c @ path,
       hq_Authorization = (if cl_apiKey c \<noteq> [] then Some (''Bearer '' @ cl_apiKey c) else None), hq_json = body \<rparr>"

definition emit :: "cli_system \<Rightarrow> flags \<Rightarrow> cm_response \<Rightarrow> printed list" where
  "emit sys fl resp =
     (let raw = cp_text resp; nl = [CHR 10] in
      if \<not> bool_flag fl ''pretty'' then
        (if raw = [] \<or> last raw \<noteq> CHR 10 then [Text (raw @ nl)] else [Text raw])
      else (case cp_json resp of
              JVal v \<Rightarrow> [Indented (through_any (sy_float sys) v)]
            | _ \<Rightarrow> [Text (raw @ nl)]))"

definition failResponse :: "cm_response \<Rightarrow> string" where
  "failResponse resp =
     (let plain = ''['' @ int_to_dec (cp_status resp) @ ''] '' in
      case (if cp_text resp \<noteq> [] \<and> hd (cp_text resp) = CHR ''{'' then cp_json resp else JBad) of
        JVal (JObj fs) \<Rightarrow>
          (case str_field ''error'' fs of
             Some (c # cs) \<Rightarrow> plain @ c # cs
           | _ \<Rightarrow> plain @ cp_text resp)
      | _ \<Rightarrow> plain @ cp_text resp)"

text \<open>The part every command shares: the request, the test of the status, the output.\<close>

definition client_do ::
    "cli_system \<Rightarrow> flags \<Rightarrow> client \<Rightarrow> string \<Rightarrow> string \<Rightarrow> json option \<Rightarrow> int list \<Rightarrow> files \<Rightarrow> cli_run" where
  "client_do sys fl c verb path body accepted fs =
     (let req = client_request c verb path body;
          ends = (\<lambda>r out. \<lparr> run_result = r, run_out = out, run_sent = [req], run_files = fs \<rparr>) in
      case sy_http sys req of
        Inl err \<Rightarrow> ends (Failed err) []
      | Inr resp \<Rightarrow>
          if cp_status resp \<notin> set accepted then ends (Failed (failResponse resp)) []
          else ends Finished (emit sys fl resp))"

definition call_api ::
    "cli_system \<Rightarrow> flags \<Rightarrow> bool \<Rightarrow> string \<Rightarrow> string \<Rightarrow> json option \<Rightarrow> int list \<Rightarrow> files \<Rightarrow> cli_run" where
  "call_api sys fl requireAuth verb path body accepted fs =
     (case newClient sys fl fs requireAuth of
        Inl err \<Rightarrow> stopped err fs
      | Inr c \<Rightarrow> client_do sys fl c verb path body accepted fs)"

section \<open>util.go\<close>

definition itoa :: "int \<Rightarrow> string" where
  "itoa i = int_to_dec i"

definition paginated :: "string \<Rightarrow> int \<Rightarrow> int \<Rightarrow> string" where
  "paginated path limit offset =
     (if limit \<le> 0 \<and> offset \<le> 0 then path
      else path @ (if 0 < limit then ''?limit='' @ itoa limit else [])
             @ (if 0 < offset then (if 0 < limit then ''&'' else ''?'') @ ''offset='' @ itoa offset else []))"

section \<open>cmd\_init.go and cmd\_health.go\<close>

definition check_mark :: string where "check_mark = [CHR 0xE2, CHR 0x9C, CHR 0x93]"
definition ellipsis :: string where "ellipsis = [CHR 0xE2, CHR 0x80, CHR 0xA6]"

text \<open>The two lines read from standard input, the second after the first.\<close>

definition runInit :: "cli_system \<Rightarrow> files \<Rightarrow> cli_run" where
  "runInit sys fs =
     (let existing = fst (loadConfig sys fs);
          dflt = defaulted (gc_BaseURL existing) ''http://localhost:8080'';
          nl = [CHR 10];
          prompt1 = Text (''Atara-Pay base URL ['' @ dflt @ '']: '') ;
          line1 = Cut CHR 10 (sy_stdin sys);
          base = defaulted (TrimSpace (fst line1)) dflt;
          prompt2 = Text (''API key (sk_test_'' @ ellipsis @ '' or sk_live_'' @ ellipsis @ ''): '');
          typed = TrimSpace (fst (Cut CHR 10 (fst (snd line1))));
          keep = (typed = [] \<and> gc_APIKey existing \<noteq> []);
          key = (if keep then gc_APIKey existing else typed);
          shown = [prompt1, prompt2] @ (if keep then [Text (''(keeping existing key)'' @ nl)] else []);
          ends = (\<lambda>r out fs'. \<lparr> run_result = r, run_out = shown @ out, run_sent = [], run_files = fs' \<rparr>) in
      if key = [] then
        ends (Failed (''api key required '' @ [CHR 0xE2, CHR 0x80, CHR 0x94] @ '' paste it from /signup response or the dashboard'')) [] fs
      else if \<not> HasPrefix key ''sk_test_'' \<and> \<not> HasPrefix key ''sk_live_'' then
        ends (Failed ''api key must start with sk_test_ or sk_live_'') [] fs
      else
        (case saveConfig sys \<lparr> gc_BaseURL = base, gc_APIKey = key \<rparr> fs of
           (Some err, fs') \<Rightarrow> ends (Failed err) [] fs'
         | (None, fs') \<Rightarrow>
             (let wrote = [Text (check_mark @ '' wrote '' @ (case configPath sys of Inl _ \<Rightarrow> [] | Inr p \<Rightarrow> p) @ nl),
                           Text (check_mark @ '' base URL: '' @ base @ nl)] in
              if length key < 12 then ends Crashed wrote fs'
              else ends Finished
                (wrote @ [Text (check_mark @ '' key:      '' @ take 12 key @ ellipsis @ drop (length key - 4) key @ nl),
                          Text (''Next: `atara health` to verify connectivity'' @ nl)]) fs')))"

definition newHealthCmd :: "cli_system \<Rightarrow> flags \<Rightarrow> files \<Rightarrow> cli_run" where
  "newHealthCmd sys fl fs = call_api sys fl False ''GET'' ''/health'' None [200] fs"

end
