(* ===== verification/Cli_Commands.thy ===== *)
theory Cli_Commands
  imports Cli
begin

text \<open>
  The commands of \<open>atara\<close>: \<open>cmd_keys.go\<close>, \<open>cmd_wallets.go\<close>, \<open>cmd_tx.go\<close>, \<open>cmd_session.go\<close>,
  \<open>cmd_webhooks.go\<close>, \<open>cmd_limits.go\<close>, and the command tree of \<open>root.go\<close>. The objects of a body are
  listed by key, the order in which a Go map is encoded.
\<close>

section \<open>cmd\_keys.go\<close>

definition keysListCmd :: "cli_system \<Rightarrow> flags \<Rightarrow> files \<Rightarrow> cli_run" where
  "keysListCmd sys fl = call_api sys fl True ''GET'' ''/v1/api-keys'' None [200]"

definition keysCreateCmd :: "cli_system \<Rightarrow> flags \<Rightarrow> files \<Rightarrow> cli_run" where
  "keysCreateCmd sys fl =
     call_api sys fl True ''POST'' ''/v1/api-keys''
       (Some (JObj [(''environment'', JStr (str_flag fl ''env'' ''test'')), (''name'', JStr (str_flag fl ''name'' []))])) [201]"

definition reason_body :: "flags \<Rightarrow> json" where
  "reason_body fl = JObj [(''reason'', JStr (str_flag fl ''reason'' []))]"

definition keysRevokeCmd :: "cli_system \<Rightarrow> flags \<Rightarrow> files \<Rightarrow> cli_run" where
  "keysRevokeCmd sys fl =
     call_api sys fl True ''DELETE'' (''/v1/api-keys/'' @ arg0 fl) (Some (reason_body fl)) [200]"

section \<open>cmd\_wallets.go\<close>

definition external_json :: "flags \<Rightarrow> (string \<times> json) list" where
  "external_json fl =
     opt_str ''crossmint'' (str_flag fl ''external-crossmint'' []) @ opt_str ''tempo'' (str_flag fl ''external-tempo'' [])"

definition walletsCreate_body :: "flags \<Rightarrow> json" where
  "walletsCreate_body fl =
     (let custody = str_flag fl ''custody'' ''platform'' in
      JObj ([(''crossmint_chain'', JStr (str_flag fl ''crossmint-chain'' ''base''))]
        @ (if custody \<noteq> [] \<and> custody \<noteq> ''platform'' then [(''custody'', JStr custody)] else [])
        @ [(''display_name'', JStr (str_flag fl ''display-name'' []))]
        @ (if custody = ''user'' then [(''external_addresses'', JObj (external_json fl))] else [])
        @ [(''owner'', JObj [(''ref'', JStr (str_flag fl ''owner-ref'' [])), (''type'', JStr (str_flag fl ''owner-type'' ''user''))])]))"

definition walletsCreateCmd :: "cli_system \<Rightarrow> flags \<Rightarrow> files \<Rightarrow> cli_run" where
  "walletsCreateCmd sys fl fs =
     (case newClient sys fl fs True of
        Inl err \<Rightarrow> stopped err fs
      | Inr c \<Rightarrow>
          if str_flag fl ''custody'' ''platform'' = ''user'' \<and> external_json fl = [] then
            stopped ''--custody user requires at least one of --external-tempo / --external-crossmint'' fs
          else client_do sys fl c ''POST'' ''/v1/wallet-groups'' (Some (walletsCreate_body fl)) [200, 201] fs)"

definition walletsListCmd :: "cli_system \<Rightarrow> flags \<Rightarrow> files \<Rightarrow> cli_run" where
  "walletsListCmd sys fl =
     call_api sys fl True ''GET'' (paginated ''/v1/wallet-groups'' (int_flag fl ''limit'' 50) (int_flag fl ''offset'' 0)) None [200]"

definition walletsGetCmd :: "cli_system \<Rightarrow> flags \<Rightarrow> files \<Rightarrow> cli_run" where
  "walletsGetCmd sys fl = call_api sys fl True ''GET'' (''/v1/wallet-groups/'' @ arg0 fl) None [200]"

definition walletsBalanceCmd :: "cli_system \<Rightarrow> flags \<Rightarrow> files \<Rightarrow> cli_run" where
  "walletsBalanceCmd sys fl = call_api sys fl True ''GET'' (''/v1/wallet-groups/'' @ arg0 fl @ ''/balance'') None [200]"

section \<open>cmd\_tx.go\<close>

definition from_path :: "flags \<Rightarrow> string \<Rightarrow> string" where
  "from_path fl rest = ''/v1/wallet-groups/'' @ str_flag fl ''from'' [] @ rest"

definition txPrepare_body :: "flags \<Rightarrow> json" where
  "txPrepare_body fl = JObj
     ([(''amount'', JStr (str_flag fl ''amount'' [])), (''asset'', JStr (str_flag fl ''asset'' []))]
      @ opt_str ''idempotency_key'' (str_flag fl ''idempotency-key'' []) @ opt_str ''memo'' (str_flag fl ''memo'' [])
      @ [(''to'', JStr (str_flag fl ''to'' []))])"

definition txPrepareCmd :: "cli_system \<Rightarrow> flags \<Rightarrow> files \<Rightarrow> cli_run" where
  "txPrepareCmd sys fl =
     call_api sys fl True ''POST'' (from_path fl ''/transactions/prepare'') (Some (txPrepare_body fl)) [200, 201]"

definition txSubmit_body :: "flags \<Rightarrow> json" where
  "txSubmit_body fl = JObj
     [(''prepare_id'', JStr (str_flag fl ''prepare-id'' [])), (''signed_tx_hex'', JStr (str_flag fl ''signed-tx-hex'' []))]"

definition txSubmitCmd :: "cli_system \<Rightarrow> flags \<Rightarrow> files \<Rightarrow> cli_run" where
  "txSubmitCmd sys fl =
     call_api sys fl True ''POST'' (from_path fl ''/transactions/submit'') (Some (txSubmit_body fl)) [200, 201]"

definition txSend_body :: "flags \<Rightarrow> json" where
  "txSend_body fl = JObj
     ([(''amount'', JStr (str_flag fl ''amount'' [])), (''asset'', JStr (str_flag fl ''asset'' []))]
      @ opt_str ''idempotency_key'' (str_flag fl ''idempotency-key'' []) @ opt_str ''memo'' (str_flag fl ''memo'' [])
      @ opt_str ''rail'' (str_flag fl ''rail'' []) @ opt_str ''session_key_id'' (str_flag fl ''session-key-id'' [])
      @ [(''to'', JStr (str_flag fl ''to'' []))])"

definition txSendCmd :: "cli_system \<Rightarrow> flags \<Rightarrow> files \<Rightarrow> cli_run" where
  "txSendCmd sys fl =
     call_api sys fl True ''POST'' (from_path fl ''/transactions'') (Some (txSend_body fl)) [200, 201, 202]"

definition txOnramp_body :: "flags \<Rightarrow> json" where
  "txOnramp_body fl = JObj
     ([(''asset'', JStr (str_flag fl ''asset'' ''USDC''))] @ opt_str ''chain'' (str_flag fl ''chain'' [])
      @ [(''fiat_amount'', JStr (str_flag fl ''fiat-amount'' [])),
         (''fiat_currency'', JStr (str_flag fl ''fiat-currency'' ''USD''))])"

definition txOnrampCmd :: "cli_system \<Rightarrow> flags \<Rightarrow> files \<Rightarrow> cli_run" where
  "txOnrampCmd sys fl = call_api sys fl True ''POST'' (from_path fl ''/onramp'') (Some (txOnramp_body fl)) [200, 201]"

section \<open>cmd\_session.go\<close>

definition session_path :: "flags \<Rightarrow> string \<Rightarrow> string" where
  "session_path fl rest = ''/v1/wallet-groups/'' @ str_flag fl ''group'' [] @ ''/session-keys'' @ rest"

definition sessionKeysSubmitAuthorizeCmd :: "cli_system \<Rightarrow> flags \<Rightarrow> files \<Rightarrow> cli_run" where
  "sessionKeysSubmitAuthorizeCmd sys fl =
     call_api sys fl True ''POST'' (session_path fl (''/'' @ arg0 fl @ ''/submit-authorize''))
       (Some (JObj [(''signed_tx_hex'', JStr (str_flag fl ''signed-tx-hex'' []))])) [200, 201]"

definition string_array :: "string list option \<Rightarrow> json" where
  "string_array ss = (case ss of None \<Rightarrow> JNull | Some xs \<Rightarrow> JArr (map JStr xs))"

definition nonempty :: "string list option \<Rightarrow> bool" where
  "nonempty ss \<longleftrightarrow> ss \<noteq> None \<and> ss \<noteq> Some []"

definition session_limits :: "flags \<Rightarrow> (string \<times> json) list" where
  "session_limits fl =
     opt_str ''daily'' (str_flag fl ''daily'' []) @ opt_str ''per_tx'' (str_flag fl ''per-tx'' [])
     @ (if nonempty (fl_list fl ''to'') then [(''recipient_allowlist'', string_array (fl_list fl ''to''))] else [])"

definition sessionKeysCreate_body :: "flags \<Rightarrow> json" where
  "sessionKeysCreate_body fl = JObj
     ([(''expires_at'', JStr (str_flag fl ''expires-at'' []))]
      @ (if session_limits fl \<noteq> [] then [(''limits'', JObj (session_limits fl))] else [])
      @ [(''on_chain'', JBool (bool_flag fl ''on-chain'')), (''scope'', JStr (str_flag fl ''scope'' ''spend''))])"

definition sessionKeysCreateCmd :: "cli_system \<Rightarrow> flags \<Rightarrow> files \<Rightarrow> cli_run" where
  "sessionKeysCreateCmd sys fl =
     call_api sys fl True ''POST'' (session_path fl []) (Some (sessionKeysCreate_body fl)) [201]"

definition sessionKeysListCmd :: "cli_system \<Rightarrow> flags \<Rightarrow> files \<Rightarrow> cli_run" where
  "sessionKeysListCmd sys fl =
     call_api sys fl True ''GET'' (paginated (session_path fl []) (int_flag fl ''limit'' 50) (int_flag fl ''offset'' 0)) None [200]"

definition sessionKeysRevokeCmd :: "cli_system \<Rightarrow> flags \<Rightarrow> files \<Rightarrow> cli_run" where
  "sessionKeysRevokeCmd sys fl =
     call_api sys fl True ''DELETE'' (session_path fl (''/'' @ arg0 fl)) (Some (reason_body fl)) [200, 204]"

section \<open>cmd\_webhooks.go\<close>

definition webhooksCreate_body :: "flags \<Rightarrow> json" where
  "webhooksCreate_body fl = JObj
     [(''description'', JStr (str_flag fl ''description'' [])), (''events'', string_array (fl_list fl ''event'')),
      (''url'', JStr (str_flag fl ''url'' []))]"

definition webhooksCreateCmd :: "cli_system \<Rightarrow> flags \<Rightarrow> files \<Rightarrow> cli_run" where
  "webhooksCreateCmd sys fl =
     call_api sys fl True ''POST'' ''/v1/webhook-endpoints'' (Some (webhooksCreate_body fl)) [201]"

definition webhooksListCmd :: "cli_system \<Rightarrow> flags \<Rightarrow> files \<Rightarrow> cli_run" where
  "webhooksListCmd sys fl =
     call_api sys fl True ''GET'' (paginated ''/v1/webhook-endpoints'' (int_flag fl ''limit'' 50) (int_flag fl ''offset'' 0)) None [200]"

definition webhooksGetCmd :: "cli_system \<Rightarrow> flags \<Rightarrow> files \<Rightarrow> cli_run" where
  "webhooksGetCmd sys fl = call_api sys fl True ''GET'' (''/v1/webhook-endpoints/'' @ arg0 fl) None [200]"

definition webhooksUpdate_body :: "flags \<Rightarrow> json" where
  "webhooksUpdate_body fl = JObj
     (opt_str ''description'' (str_flag fl ''description'' [])
      @ (case fl_bool fl ''disabled'' of None \<Rightarrow> [] | Some b \<Rightarrow> [(''disabled'', JBool b)])
      @ (if nonempty (fl_list fl ''event'') then [(''events'', string_array (fl_list fl ''event''))] else [])
      @ opt_str ''url'' (str_flag fl ''url'' []))"

definition webhooksUpdateCmd :: "cli_system \<Rightarrow> flags \<Rightarrow> files \<Rightarrow> cli_run" where
  "webhooksUpdateCmd sys fl =
     call_api sys fl True ''PATCH'' (''/v1/webhook-endpoints/'' @ arg0 fl) (Some (webhooksUpdate_body fl)) [200]"

definition webhooksDeleteCmd :: "cli_system \<Rightarrow> flags \<Rightarrow> files \<Rightarrow> cli_run" where
  "webhooksDeleteCmd sys fl =
     call_api sys fl True ''DELETE'' (''/v1/webhook-endpoints/'' @ arg0 fl) None [200, 204]"

definition webhooksRotateSecretCmd :: "cli_system \<Rightarrow> flags \<Rightarrow> files \<Rightarrow> cli_run" where
  "webhooksRotateSecretCmd sys fl =
     call_api sys fl True ''POST'' (''/v1/webhook-endpoints/'' @ arg0 fl @ ''/rotate-secret'') None [200]"

section \<open>cmd\_limits.go\<close>

definition limitsGetCmd :: "cli_system \<Rightarrow> flags \<Rightarrow> files \<Rightarrow> cli_run" where
  "limitsGetCmd sys fl = call_api sys fl True ''GET'' ''/v1/tenants/me/limits'' None [200]"

text \<open>The text of a policy, from the flag or from a file; \<open>null\<close> becomes a nil body, which sends none.\<close>

definition policy_text :: "cli_system \<Rightarrow> flags \<Rightarrow> files \<Rightarrow> string + jsonb" where
  "policy_text sys fl fs =
     (let blob = str_flag fl ''json'' []; file = str_flag fl ''file'' [] in
      if blob = [] \<and> file = [] \<or> blob \<noteq> [] \<and> file \<noteq> [] then Inl ''exactly one of --json or --file is required''
      else if file \<noteq> [] then
        (case (sy_fault sys ''ReadFile'', fs file) of
           (Some err, _) \<Rightarrow> Inl (''read '' @ file @ '': '' @ err)
         | (None, None) \<Rightarrow> Inl (''read '' @ file @ '': open '' @ file @ '': no such file or directory'')
         | (None, Some b) \<Rightarrow> Inr b)
      else Inr (sy_parse sys blob))"

definition limitsUpdateCmd :: "cli_system \<Rightarrow> flags \<Rightarrow> files \<Rightarrow> cli_run" where
  "limitsUpdateCmd sys fl fs =
     (case policy_text sys fl fs of
        Inl err \<Rightarrow> stopped err fs
      | Inr raw \<Rightarrow>
          (case raw of
             JVal v \<Rightarrow>
               call_api sys fl True ''PUT'' ''/v1/tenants/me/limits''
                 (if v = JNull then None else Some (through_any (sy_float sys) v)) [200] fs
           | _ \<Rightarrow> stopped (''invalid JSON: '' @ sy_json_error sys raw) fs))"

definition limitsViolationsCmd :: "cli_system \<Rightarrow> flags \<Rightarrow> files \<Rightarrow> cli_run" where
  "limitsViolationsCmd sys fl =
     call_api sys fl True ''GET''
       (paginated ''/v1/tenants/me/limits/violations'' (int_flag fl ''limit'' 50) (int_flag fl ''offset'' 0)) None [200]"

section \<open>root.go\<close>

datatype cli_command =
    InitCmd | HealthCmd
  | KeysList | KeysCreate | KeysRevoke
  | WalletsCreate | WalletsList | WalletsGet | WalletsBalance
  | TxSend | TxOnramp | TxPrepare | TxSubmit
  | SessionCreate | SessionList | SessionRevoke | SessionSubmitAuthorize
  | HooksCreate | HooksList | HooksGet | HooksUpdate | HooksDelete | HooksRotateSecret
  | LimitsGet | LimitsUpdate | LimitsViolations

fun exactly_one_arg :: "cli_command \<Rightarrow> bool" where
  "exactly_one_arg KeysRevoke = True" | "exactly_one_arg WalletsGet = True" | "exactly_one_arg WalletsBalance = True"
| "exactly_one_arg SessionRevoke = True" | "exactly_one_arg SessionSubmitAuthorize = True"
| "exactly_one_arg HooksGet = True" | "exactly_one_arg HooksUpdate = True" | "exactly_one_arg HooksDelete = True"
| "exactly_one_arg HooksRotateSecret = True"
| "exactly_one_arg _ = False"

fun required_flags :: "cli_command \<Rightarrow> string list" where
  "required_flags KeysCreate = [''name'']"
| "required_flags WalletsCreate = [''owner-ref'']"
| "required_flags TxSend = [''amount'', ''asset'', ''from'', ''to'']"
| "required_flags TxPrepare = [''amount'', ''asset'', ''from'', ''to'']"
| "required_flags TxSubmit = [''from'', ''prepare-id'', ''signed-tx-hex'']"
| "required_flags TxOnramp = [''fiat-amount'', ''from'']"
| "required_flags SessionCreate = [''expires-at'', ''group'']"
| "required_flags SessionList = [''group'']"
| "required_flags SessionRevoke = [''group'']"
| "required_flags SessionSubmitAuthorize = [''group'', ''signed-tx-hex'']"
| "required_flags HooksCreate = [''url'']"
| "required_flags _ = []"

fun RunE :: "cli_command \<Rightarrow> cli_system \<Rightarrow> flags \<Rightarrow> files \<Rightarrow> cli_run" where
  "RunE InitCmd sys fl = runInit sys"
| "RunE HealthCmd sys fl = newHealthCmd sys fl"
| "RunE KeysList sys fl = keysListCmd sys fl"
| "RunE KeysCreate sys fl = keysCreateCmd sys fl"
| "RunE KeysRevoke sys fl = keysRevokeCmd sys fl"
| "RunE WalletsCreate sys fl = walletsCreateCmd sys fl"
| "RunE WalletsList sys fl = walletsListCmd sys fl"
| "RunE WalletsGet sys fl = walletsGetCmd sys fl"
| "RunE WalletsBalance sys fl = walletsBalanceCmd sys fl"
| "RunE TxSend sys fl = txSendCmd sys fl"
| "RunE TxOnramp sys fl = txOnrampCmd sys fl"
| "RunE TxPrepare sys fl = txPrepareCmd sys fl"
| "RunE TxSubmit sys fl = txSubmitCmd sys fl"
| "RunE SessionCreate sys fl = sessionKeysCreateCmd sys fl"
| "RunE SessionList sys fl = sessionKeysListCmd sys fl"
| "RunE SessionRevoke sys fl = sessionKeysRevokeCmd sys fl"
| "RunE SessionSubmitAuthorize sys fl = sessionKeysSubmitAuthorizeCmd sys fl"
| "RunE HooksCreate sys fl = webhooksCreateCmd sys fl"
| "RunE HooksList sys fl = webhooksListCmd sys fl"
| "RunE HooksGet sys fl = webhooksGetCmd sys fl"
| "RunE HooksUpdate sys fl = webhooksUpdateCmd sys fl"
| "RunE HooksDelete sys fl = webhooksDeleteCmd sys fl"
| "RunE HooksRotateSecret sys fl = webhooksRotateSecretCmd sys fl"
| "RunE LimitsGet sys fl = limitsGetCmd sys fl"
| "RunE LimitsUpdate sys fl = limitsUpdateCmd sys fl"
| "RunE LimitsViolations sys fl = limitsViolationsCmd sys fl"

text \<open>
  A run of the program: cobra's tests, then the command. Every required flag is a string flag. The
  exit status is 1 after an error, which \<open>main\<close> prints, and 2 after a panic.
\<close>

definition missing_flags :: "cli_command \<Rightarrow> flags \<Rightarrow> string list" where
  "missing_flags cmd fl = filter (\<lambda>n. fl_str fl n = None) (required_flags cmd)"

fun quoted_list :: "string list \<Rightarrow> string" where
  "quoted_list [] = []"
| "quoted_list [s] = [CHR 34] @ s @ [CHR 34]"
| "quoted_list (s # ss) = [CHR 34] @ s @ [CHR 34] @ '', '' @ quoted_list ss"

definition Execute :: "cli_command \<Rightarrow> cli_system \<Rightarrow> flags \<Rightarrow> files \<Rightarrow> cli_run" where
  "Execute cmd sys fl fs =
     (if exactly_one_arg cmd \<and> length (fl_args fl) \<noteq> 1 then
        stopped (''accepts 1 arg(s), received '' @ int_to_dec (int (length (fl_args fl)))) fs
      else if missing_flags cmd fl \<noteq> [] then stopped (''required flag(s) '' @ quoted_list (missing_flags cmd fl) @ '' not set'') fs
      else RunE cmd sys fl fs)"

definition exit_status :: "cli_run \<Rightarrow> int" where
  "exit_status r = (case run_result r of Finished \<Rightarrow> 0 | Failed _ \<Rightarrow> 1 | Crashed \<Rightarrow> 2)"

end
