(* ===== verification/Request_Decoding.thy ===== *)
theory Request_Decoding
  imports Routes "HOL-Library.AList"
begin

text \<open>
  How a request on the wire becomes the call of a handler: the decoding of a JSON body into the request
  structs (\<open>c.BodyParser\<close>, by the \<open>json\<close> tags of \<open>internal/server/handlers\<close>) and the paths of
  \<open>Server.routes\<close>. Fiber is outside the repository; of it the documented behaviour is used: a literal
  segment matches whatever its letter case, a parameter takes one segment as it stands, a trailing slash
  does not matter, a query argument is the first with its name.
\<close>

section \<open>Fields of a struct\<close>

text \<open>
  As \<^const>\<open>str_field\<close>, for the other field types: \<open>null\<close> leaves a number or a boolean alone and makes
  a slice, a pointer or a map nil; a value of another type is an error of the whole body. An object
  is added to the entries a map already has.
\<close>

definition bool_field :: "string \<Rightarrow> (string \<times> json) list \<Rightarrow> bool option" where
  "bool_field name fs =
     foldl (\<lambda>acc v. case v of JBool b \<Rightarrow> map_option (\<lambda>_. b) acc | JNull \<Rightarrow> acc | _ \<Rightarrow> None) (Some False) (field_values name fs)"

definition int_field :: "string \<Rightarrow> (string \<times> json) list \<Rightarrow> int option" where
  "int_field name fs =
     foldl (\<lambda>acc v. case (acc, v) of (Some _, JNum t) \<Rightarrow> ParseInt 64 t | (_, JNull) \<Rightarrow> acc | _ \<Rightarrow> None) (Some 0)
       (field_values name fs)"

definition strs_field :: "string \<Rightarrow> (string \<times> json) list \<Rightarrow> string list option" where
  "strs_field name fs =
     foldl (\<lambda>acc v. case acc of None \<Rightarrow> None | Some _ \<Rightarrow> unmarshal_strings (JVal v)) (Some []) (field_values name fs)"

definition str_pointer :: "string \<Rightarrow> (string \<times> json) list \<Rightarrow> string option option" where
  "str_pointer name fs =
     foldl (\<lambda>acc v. case (acc, v) of (Some _, JStr s) \<Rightarrow> Some (Some s) | (Some _, JNull) \<Rightarrow> Some None | _ \<Rightarrow> None) (Some None)
       (field_values name fs)"

definition strs_pointer :: "string \<Rightarrow> (string \<times> json) list \<Rightarrow> string list option option" where
  "strs_pointer name fs =
     foldl (\<lambda>acc v. case (acc, v) of
              (Some _, JNull) \<Rightarrow> Some None
            | (Some _, _) \<Rightarrow> map_option Some (unmarshal_strings (JVal v))
            | _ \<Rightarrow> None) (Some None) (field_values name fs)"

definition map_field :: "string \<Rightarrow> (string \<times> json) list \<Rightarrow> (string \<times> string) list option" where
  "map_field name fs =
     foldl (\<lambda>acc v. case (acc, v) of
              (Some m, JObj es) \<Rightarrow>
                (if list_all (\<lambda>(_, x). is_str_or_null x) es
                 then Some (foldl (\<lambda>m (k, x). AList.update k (set_str [] x) m) m es) else None)
            | (Some _, JNull) \<Rightarrow> Some []
            | _ \<Rightarrow> None) (Some []) (field_values name fs)"

definition struct_field :: "string \<Rightarrow> (string \<times> json) list \<Rightarrow> (string \<times> json) list option" where
  "struct_field name fs = map_option concat (those (map obj_fields (field_values name fs)))"

section \<open>The request structs\<close>

text \<open>A request without a body is an error of the parser.\<close>

definition body_object :: "jsonb \<Rightarrow> (string \<times> json) list option" where
  "body_object j = (if j = JEmpty then None else unmarshal_object j)"

definition decode_SendTransaction :: "jsonb \<Rightarrow> SendTransactionRequest option" where
  "decode_SendTransaction j =
     (case body_object j of
        None \<Rightarrow> None
      | Some fs \<Rightarrow>
          (case (str_field ''to'' fs, str_field ''amount'' fs, str_field ''asset'' fs, str_field ''idempotency_key'' fs,
                 str_field ''rail'' fs, str_field ''signer_id'' fs) of
             (Some t, Some am, Some ast, Some ik, Some ra, Some sg) \<Rightarrow>
               Some \<lparr> st_To = t, st_Amount = am, st_Asset = ast, st_IdempotencyKey = ik, st_Rail = ra, st_SignerID = sg \<rparr>
           | _ \<Rightarrow> None))"

definition decode_PrepareTransaction :: "jsonb \<Rightarrow> PrepareTransactionRequest option" where
  "decode_PrepareTransaction j =
     (case body_object j of
        None \<Rightarrow> None
      | Some fs \<Rightarrow>
          (case (str_field ''to'' fs, str_field ''amount'' fs, str_field ''asset'' fs, str_field ''memo'' fs,
                 str_field ''idempotency_key'' fs) of
             (Some t, Some am, Some ast, Some me, Some ik) \<Rightarrow>
               Some \<lparr> pr_To = t, pr_Amount = am, pr_Asset = ast, pr_Memo = me, pr_IdempotencyKey = ik \<rparr>
           | _ \<Rightarrow> None))"

definition decode_SubmitTransaction :: "jsonb \<Rightarrow> SubmitTransactionRequest option" where
  "decode_SubmitTransaction j =
     (case body_object j of
        None \<Rightarrow> None
      | Some fs \<Rightarrow>
          (case (str_field ''prepare_id'' fs, str_field ''signed_tx_hex'' fs) of
             (Some p, Some h) \<Rightarrow> Some \<lparr> sb_PrepareID = p, sb_SignedTxHex = h \<rparr>
           | _ \<Rightarrow> None))"

definition decode_GroupOnramp :: "jsonb \<Rightarrow> GroupOnrampRequest option" where
  "decode_GroupOnramp j =
     (case body_object j of
        None \<Rightarrow> None
      | Some fs \<Rightarrow>
          (case struct_field ''fiat'' fs of
             None \<Rightarrow> None
           | Some fiat \<Rightarrow>
               (case (str_field ''amount'' fiat, str_field ''currency'' fiat, str_field ''asset'' fs, str_field ''chain'' fs,
                      str_field ''idempotency_key'' fs) of
                  (Some am, Some cu, Some ast, Some ch, Some ik) \<Rightarrow>
                    Some \<lparr> gr_FiatAmount = am, gr_FiatCurrency = cu, gr_Asset = ast, gr_Chain = ch, gr_IdempotencyKey = ik \<rparr>
                | _ \<Rightarrow> None)))"

definition decode_CreateGroup :: "jsonb \<Rightarrow> CreateGroupRequest option" where
  "decode_CreateGroup j =
     (case body_object j of
        None \<Rightarrow> None
      | Some fs \<Rightarrow>
          (case struct_field ''owner'' fs of
             None \<Rightarrow> None
           | Some owner \<Rightarrow>
               (case (str_field ''type'' owner, str_field ''ref'' owner, str_field ''parent_group_id'' fs,
                      str_field ''display_name'' fs, str_field ''crossmint_chain'' fs, str_field ''custody'' fs,
                      map_field ''external_addresses'' fs) of
                  (Some ty, Some re, Some pa, Some dn, Some ch, Some cu, Some ex) \<Rightarrow>
                    Some \<lparr> cg_OwnerType = ty, cg_OwnerRef = re, cg_ParentGroupID = pa, cg_DisplayName = dn,
                           cg_CrossMintChain = ch, cg_Custody = cu, cg_ExternalAddresses = ex \<rparr>
                | _ \<Rightarrow> None)))"

definition decode_CreateSessionKey :: "jsonb \<Rightarrow> CreateSessionKeyRequest option" where
  "decode_CreateSessionKey j =
     (case body_object j of
        None \<Rightarrow> None
      | Some fs \<Rightarrow>
          (case struct_field ''limits'' fs of
             None \<Rightarrow> None
           | Some lm \<Rightarrow>
               (case (str_field ''per_tx_amount'' lm, str_field ''daily_amount'' lm, str_field ''weekly_amount'' lm,
                      str_field ''monthly_amount'' lm, strs_field ''allowed_recipients'' lm, strs_field ''denied_recipients'' lm) of
                  (Some pt, Some da, Some we, Some mo, Some al, Some de) \<Rightarrow>
                    (case (str_field ''name'' fs, str_field ''rail'' fs, str_field ''rotation_mode'' fs,
                           int_field ''rotation_interval_hours'' fs, str_field ''expires_at'' fs, bool_field ''on_chain_enforce'' fs) of
                       (Some na, Some ra, Some rm, Some rh, Some ex, Some oc) \<Rightarrow>
                         Some \<lparr> ck_Name = na, ck_Rail = ra, ck_PerTxAmount = pt, ck_DailyAmount = da, ck_WeeklyAmount = we,
                                ck_MonthlyAmount = mo, ck_AllowedRecipients = al, ck_DeniedRecipients = de, ck_RotationMode = rm,
                                ck_RotationIntervalHours = rh, ck_ExpiresAt = ex, ck_OnChainEnforce = oc \<rparr>
                     | _ \<Rightarrow> None)
                | _ \<Rightarrow> None)))"

text \<open>A struct of one required string, as four handlers have it.\<close>

definition decode_one :: "string \<Rightarrow> jsonb \<Rightarrow> string option" where
  "decode_one name j = (case body_object j of None \<Rightarrow> None | Some fs \<Rightarrow> str_field name fs)"

text \<open>The optional bodies of the two revocations: an error is ignored, the field keeps what it has.\<close>

definition decode_reason :: "jsonb \<Rightarrow> string" where
  "decode_reason j =
     (case body_object j of None \<Rightarrow> [] | Some fs \<Rightarrow> foldl set_str [] (field_values ''reason'' fs))"

definition decode_CreateEndpoint :: "jsonb \<Rightarrow> CreateEndpointRequest option" where
  "decode_CreateEndpoint j =
     (case body_object j of
        None \<Rightarrow> None
      | Some fs \<Rightarrow>
          (case (str_field ''url'' fs, strs_field ''subscribed_events'' fs, str_field ''description'' fs) of
             (Some u, Some ev, Some de) \<Rightarrow> Some \<lparr> ce_URL = u, ce_SubscribedEvents = ev, ce_Description = de \<rparr>
           | _ \<Rightarrow> None))"

definition decode_UpdateEndpoint :: "jsonb \<Rightarrow> UpdateEndpointRequest option" where
  "decode_UpdateEndpoint j =
     (case body_object j of
        None \<Rightarrow> None
      | Some fs \<Rightarrow>
          (case (str_pointer ''url'' fs, strs_pointer ''subscribed_events'' fs, str_pointer ''description'' fs,
                 str_pointer ''status'' fs) of
             (Some u, Some ev, Some de, Some st) \<Rightarrow>
               Some \<lparr> ue_URL = u, ue_SubscribedEvents = ev, ue_Description = de, ue_Status = st \<rparr>
           | _ \<Rightarrow> None))"

definition decode_UpdateTenantLimits :: "jsonb \<Rightarrow> UpdateTenantLimitsRequest option" where
  "decode_UpdateTenantLimits j =
     (case body_object j of
        None \<Rightarrow> None
      | Some fs \<Rightarrow>
          (case (str_field ''tier'' fs, str_field ''per_tx_amount'' fs, str_field ''daily_amount'' fs,
                 str_field ''weekly_amount'' fs, str_field ''monthly_amount'' fs) of
             (Some ti, Some pt, Some da, Some we, Some mo) \<Rightarrow>
               Some \<lparr> ul_Tier = ti, ul_PerTxAmount = pt, ul_DailyAmount = da, ul_WeeklyAmount = we, ul_MonthlyAmount = mo \<rparr>
           | _ \<Rightarrow> None))"

definition decode_CreateAPIKey :: "jsonb \<Rightarrow> CreateAPIKeyRequest option" where
  "decode_CreateAPIKey j =
     (case body_object j of
        None \<Rightarrow> None
      | Some fs \<Rightarrow>
          (case (str_field ''name'' fs, str_field ''environment'' fs) of
             (Some n, Some en) \<Rightarrow> Some \<lparr> kr_Name = n, kr_Environment = en \<rparr>
           | _ \<Rightarrow> None))"

definition decode_Signup :: "jsonb \<Rightarrow> SignupRequest option" where
  "decode_Signup j =
     (case body_object j of
        None \<Rightarrow> None
      | Some fs \<Rightarrow>
          (case (str_field ''company_name'' fs, str_field ''email'' fs, str_field ''password'' fs) of
             (Some n, Some em, Some pw) \<Rightarrow> Some \<lparr> sr_CompanyName = n, sr_Email = em, sr_Password = pw \<rparr>
           | _ \<Rightarrow> None))"

definition decode_Login :: "jsonb \<Rightarrow> LoginRequest option" where
  "decode_Login j =
     (case body_object j of
        None \<Rightarrow> None
      | Some fs \<Rightarrow>
          (case (str_field ''email'' fs, str_field ''password'' fs) of
             (Some em, Some pw) \<Rightarrow> Some \<lparr> lr_Email = em, lr_Password = pw \<rparr>
           | _ \<Rightarrow> None))"

section \<open>Routing\<close>

text \<open>The segments of a path after its leading slash; an empty last one is a trailing slash.\<close>

definition segments :: "string \<Rightarrow> string list" where
  "segments path =
     (case Split CHR ''/'' path of
        [] \<Rightarrow> []
      | _ # ss \<Rightarrow> if ss \<noteq> [] \<and> last ss = [] then butlast ss else ss)"

datatype pattern_part = Lit string | Param string

fun match_parts :: "pattern_part list \<Rightarrow> string list \<Rightarrow> (string \<times> string) list option" where
  "match_parts [] [] = Some []"
| "match_parts (Lit l # ps) (s # ss) = (if ToLower s = l then match_parts ps ss else None)"
| "match_parts (Param p # ps) (s # ss) = (if s = [] then None else map_option (Cons (p, s)) (match_parts ps ss))"
| "match_parts _ _ = None"

text \<open>The table of \<open>Server.routes\<close> with the decoding each handler does; the rail-backed routes are left out.\<close>

definition group_path :: "pattern_part list \<Rightarrow> pattern_part list" where
  "group_path rest = [Lit ''v1'', Lit ''wallet-groups'', Param ''id''] @ rest"

definition endpoint_path :: "pattern_part list \<Rightarrow> pattern_part list" where
  "endpoint_path rest = [Lit ''v1'', Lit ''webhook-endpoints'', Param ''id''] @ rest"

definition tenant_path :: "pattern_part list \<Rightarrow> pattern_part list" where
  "tenant_path rest = [Lit ''v1'', Lit ''tenants'', Lit ''me''] @ rest"

definition route_table :: "jsonb \<Rightarrow> (string \<times> pattern_part list \<times> api_call) list" where
  "route_table j =
     [(''GET'', [Lit ''health''], Health),
      (''GET'', [Lit ''v1'', Lit ''rails''], ListRails),
      (''GET'', [Lit ''metrics''], ScrapeMetrics),
      (''POST'', [Lit ''signup''], PostSignup (decode_Signup j)),
      (''POST'', [Lit ''login''], PostLogin (decode_Login j)),
      (''GET'', [Lit ''v1'', Lit ''api-keys''], GetAPIKeys),
      (''POST'', [Lit ''v1'', Lit ''api-keys''], PostAPIKey (decode_CreateAPIKey j)),
      (''DELETE'', [Lit ''v1'', Lit ''api-keys'', Param ''id''], DeleteAPIKey (decode_reason j)),
      (''POST'', [Lit ''v1'', Lit ''wallet-groups''], PostGroup (decode_CreateGroup j)),
      (''GET'', [Lit ''v1'', Lit ''wallet-groups''], GetGroups),
      (''GET'', group_path [], GetGroup),
      (''GET'', group_path [Lit ''capabilities''], GetCapabilities),
      (''POST'', group_path [Lit ''transactions''], PostGroupTransaction (decode_SendTransaction j)),
      (''POST'', group_path [Lit ''transactions'', Lit ''prepare''], PostPrepare (decode_PrepareTransaction j)),
      (''POST'', group_path [Lit ''transactions'', Lit ''submit''], PostSubmit (decode_SubmitTransaction j)),
      (''POST'', group_path [Lit ''onramp''], PostGroupOnramp (decode_GroupOnramp j)),
      (''POST'', group_path [Lit ''session-keys''], PostSessionKey (decode_CreateSessionKey j)),
      (''GET'', group_path [Lit ''session-keys''], GetSessionKeys),
      (''DELETE'', group_path [Lit ''session-keys'', Param ''sk_id''], DeleteSessionKey (decode_reason j)),
      (''POST'', group_path [Lit ''session-keys'', Param ''sk_id'', Lit ''submit-authorize''],
         PostSubmitAuthorize (decode_one ''signed_tx_hex'' j)),
      (''POST'', group_path [Lit ''virtual-addresses''], PostVirtualAddress (decode_one ''label'' j)),
      (''GET'', group_path [Lit ''virtual-addresses''], GetVirtualAddresses),
      (''GET'', group_path [Lit ''balance''], GetBalance),
      (''GET'', tenant_path [Lit ''statements'', Param ''month''], GetStatement),
      (''GET'', tenant_path [Lit ''limits''], GetLimits),
      (''PUT'', tenant_path [Lit ''limits''], PutLimits (decode_UpdateTenantLimits j)),
      (''GET'', tenant_path [Lit ''limits'', Lit ''violations''], GetViolations),
      (''POST'', [Lit ''v1'', Lit ''webhook-endpoints''], PostEndpoint (decode_CreateEndpoint j)),
      (''GET'', [Lit ''v1'', Lit ''webhook-endpoints''], GetEndpoints),
      (''GET'', endpoint_path [], GetEndpoint),
      (''PATCH'', endpoint_path [], PatchEndpoint (decode_UpdateEndpoint j)),
      (''POST'', endpoint_path [Lit ''rotate-secret''], PostRotateSecret),
      (''DELETE'', endpoint_path [], DeleteEndpoint)]"

fun find_route :: "(string \<times> pattern_part list \<times> api_call) list \<Rightarrow> string \<Rightarrow> string list
    \<Rightarrow> (api_call \<times> (string \<times> string) list) option" where
  "find_route [] verb ss = None"
| "find_route ((m, ps, call) # rs) verb ss =
     (case (if m = verb then match_parts ps ss else None) of
        Some params \<Rightarrow> Some (call, params)
      | None \<Rightarrow> find_route rs verb ss)"

text \<open>The arguments of a query string; escapes are not decoded (the callers here send plain numbers).\<close>

definition query_args :: "string \<Rightarrow> (string \<times> string) list" where
  "query_args q = map (\<lambda>a. case Cut CHR ''='' a of (k, v, _) \<Rightarrow> (k, v)) (Split CHR ''&'' q)"

definition first_arg :: "(string \<times> string) list \<Rightarrow> string \<Rightarrow> string" where
  "first_arg args name = text_String (map_of args name)"

text \<open>A request with the method, the target after the host, the header and the body.\<close>

definition route :: "string \<Rightarrow> string \<Rightarrow> string \<Rightarrow> jsonb \<Rightarrow> api_request option" where
  "route verb target authz body =
     (case Cut CHR ''?'' target of
        (path, query, _) \<Rightarrow>
          (case find_route (route_table body) verb (segments path) of
             None \<Rightarrow> None
           | Some (call, params) \<Rightarrow>
               Some \<lparr> rq_call = call, rq_Authorization = authz, rq_Params = first_arg params,
                      rq_Query = first_arg (query_args query), rq_path = path \<rparr>))"

end
