(* ===== verification/Cli_Spec.thy ===== *)
theory Cli_Spec
  imports Cli_Commands Request_Decoding
begin

text \<open>
  What the commands of the client mean to the gateway: \<open>asked\<close> is the call that the flags of a command
  name, \<open>arrives\<close> the call that the gateway makes of the request it sends.
\<close>

section \<open>From the client to the gateway\<close>

definition wire_body :: "json option \<Rightarrow> jsonb" where
  "wire_body b = (case b of None \<Rightarrow> JEmpty | Some j \<Rightarrow> JVal j)"

text \<open>The gateway is served at \<open>base\<close>.\<close>

definition arrives :: "string \<Rightarrow> cli_request \<Rightarrow> api_request option" where
  "arrives base r =
     (if HasPrefix (hq_url r) base then
        route (hq_method r) (drop (length base) (hq_url r)) (text_String (hq_Authorization r)) (wire_body (hq_json r))
      else None)"

text \<open>An id that is one segment of a path.\<close>

definition plain_id :: "string \<Rightarrow> bool" where
  "plain_id s \<longleftrightarrow> s \<noteq> [] \<and> CHR ''/'' \<notin> set s \<and> CHR ''?'' \<notin> set s"

lemma segments_path:
  "segments (CHR ''/'' # a) = (let ss = Split CHR ''/'' a in if ss \<noteq> [] \<and> last ss = [] then butlast ss else ss)"
  by (simp add: segments_def)

lemma ToLower_words [simp]:
  "ToLower ''v1'' = ''v1''" "ToLower ''health'' = ''health''" "ToLower ''api-keys'' = ''api-keys''"
  "ToLower ''wallet-groups'' = ''wallet-groups''" "ToLower ''transactions'' = ''transactions''" "ToLower ''prepare'' = ''prepare''"
  "ToLower ''submit'' = ''submit''" "ToLower ''onramp'' = ''onramp''" "ToLower ''session-keys'' = ''session-keys''"
  "ToLower ''submit-authorize'' = ''submit-authorize''" "ToLower ''balance'' = ''balance''" "ToLower ''tenants'' = ''tenants''"
  "ToLower ''me'' = ''me''" "ToLower ''limits'' = ''limits''" "ToLower ''violations'' = ''violations''"
  "ToLower ''webhook-endpoints'' = ''webhook-endpoints''" "ToLower ''rotate-secret'' = ''rotate-secret''"
  by code_simp+

lemma ToLower_tags [simp]:
  "ToLower ''to'' = ''to''" "ToLower ''amount'' = ''amount''" "ToLower ''asset'' = ''asset''"
  "ToLower ''idempotency_key'' = ''idempotency_key''" "ToLower ''rail'' = ''rail''" "ToLower ''signer_id'' = ''signer_id''"
  "ToLower ''memo'' = ''memo''" "ToLower ''session_key_id'' = ''session_key_id''" "ToLower ''prepare_id'' = ''prepare_id''"
  "ToLower ''signed_tx_hex'' = ''signed_tx_hex''" "ToLower ''fiat'' = ''fiat''" "ToLower ''fiat_amount'' = ''fiat_amount''"
  "ToLower ''fiat_currency'' = ''fiat_currency''" "ToLower ''chain'' = ''chain''" "ToLower ''owner'' = ''owner''"
  "ToLower ''type'' = ''type''" "ToLower ''ref'' = ''ref''" "ToLower ''parent_group_id'' = ''parent_group_id''"
  "ToLower ''display_name'' = ''display_name''" "ToLower ''crossmint_chain'' = ''crossmint_chain''" "ToLower ''custody'' = ''custody''"
  "ToLower ''external_addresses'' = ''external_addresses''" "ToLower ''name'' = ''name''" "ToLower ''environment'' = ''environment''"
  "ToLower ''reason'' = ''reason''" "ToLower ''url'' = ''url''" "ToLower ''events'' = ''events''"
  "ToLower ''subscribed_events'' = ''subscribed_events''" "ToLower ''description'' = ''description''" "ToLower ''status'' = ''status''"
  "ToLower ''disabled'' = ''disabled''" "ToLower ''scope'' = ''scope''" "ToLower ''expires_at'' = ''expires_at''"
  "ToLower ''on_chain'' = ''on_chain''" "ToLower ''on_chain_enforce'' = ''on_chain_enforce''" "ToLower ''rotation_mode'' = ''rotation_mode''"
  "ToLower ''rotation_interval_hours'' = ''rotation_interval_hours''" "ToLower ''per_tx'' = ''per_tx''" "ToLower ''daily'' = ''daily''"
  "ToLower ''recipient_allowlist'' = ''recipient_allowlist''" "ToLower ''per_tx_amount'' = ''per_tx_amount''"
  "ToLower ''daily_amount'' = ''daily_amount''" "ToLower ''weekly_amount'' = ''weekly_amount''" "ToLower ''monthly_amount'' = ''monthly_amount''"
  "ToLower ''allowed_recipients'' = ''allowed_recipients''" "ToLower ''denied_recipients'' = ''denied_recipients''"
  by code_simp+

lemma route_found:
  assumes "CHR ''?'' \<notin> set path" "find_route (route_table body) verb (segments path) = Some (call, params)"
  shows "route verb path authz body = Some \<lparr> rq_call = call, rq_Authorization = authz, rq_Params = first_arg params,
     rq_Query = first_arg (query_args []), rq_path = path \<rparr>"
  using assms by (simp add: route_def Cut_none)

lemma group_segments:
  assumes "plain_id g"
  shows "segments (''/v1/wallet-groups/'' @ g) = [''v1'', ''wallet-groups'', g]"
    and "segments (''/v1/wallet-groups/'' @ g @ ''/balance'') = [''v1'', ''wallet-groups'', g, ''balance'']"
    and "segments (''/v1/wallet-groups/'' @ g @ ''/transactions'') = [''v1'', ''wallet-groups'', g, ''transactions'']"
    and "segments (''/v1/wallet-groups/'' @ g @ ''/transactions/prepare'') = [''v1'', ''wallet-groups'', g, ''transactions'', ''prepare'']"
    and "segments (''/v1/wallet-groups/'' @ g @ ''/transactions/submit'') = [''v1'', ''wallet-groups'', g, ''transactions'', ''submit'']"
    and "segments (''/v1/wallet-groups/'' @ g @ ''/onramp'') = [''v1'', ''wallet-groups'', g, ''onramp'']"
    and "segments (''/v1/wallet-groups/'' @ g @ ''/session-keys'') = [''v1'', ''wallet-groups'', g, ''session-keys'']"
  using assms by (simp_all add: segments_path plain_id_def Split_append Split_none)

lemma nested_segments:
  assumes "plain_id g" "plain_id k"
  shows "segments (''/v1/wallet-groups/'' @ g @ ''/session-keys'' @ ''/'' @ k) = [''v1'', ''wallet-groups'', g, ''session-keys'', k]"
    and "segments (''/v1/wallet-groups/'' @ g @ ''/session-keys'' @ ''/'' @ k @ ''/submit-authorize'') =
       [''v1'', ''wallet-groups'', g, ''session-keys'', k, ''submit-authorize'']"
  using assms by (simp_all add: segments_path plain_id_def Split_append Split_none)

lemma other_segments:
  shows "segments ''/health'' = [''health'']"
    and "segments ''/v1/api-keys'' = [''v1'', ''api-keys'']"
    and "segments ''/v1/wallet-groups'' = [''v1'', ''wallet-groups'']"
    and "segments ''/v1/webhook-endpoints'' = [''v1'', ''webhook-endpoints'']"
    and "segments ''/v1/tenants/me/limits'' = [''v1'', ''tenants'', ''me'', ''limits'']"
    and "segments ''/v1/tenants/me/limits/violations'' = [''v1'', ''tenants'', ''me'', ''limits'', ''violations'']"
    and "plain_id x \<Longrightarrow> segments (''/v1/api-keys/'' @ x) = [''v1'', ''api-keys'', x]"
    and "plain_id x \<Longrightarrow> segments (''/v1/webhook-endpoints/'' @ x) = [''v1'', ''webhook-endpoints'', x]"
    and "plain_id x \<Longrightarrow> segments (''/v1/webhook-endpoints/'' @ x @ ''/rotate-secret'') = [''v1'', ''webhook-endpoints'', x, ''rotate-secret'']"
  by (simp_all add: segments_path plain_id_def Split_append Split_none)

lemma find_group_routes:
  assumes "g \<noteq> []"
  shows "find_route (route_table j) ''GET'' [''v1'', ''wallet-groups'', g] = Some (GetGroup, [(''id'', g)])"
    and "find_route (route_table j) ''GET'' [''v1'', ''wallet-groups'', g, ''balance''] = Some (GetBalance, [(''id'', g)])"
    and "find_route (route_table j) ''GET'' [''v1'', ''wallet-groups'', g, ''session-keys''] = Some (GetSessionKeys, [(''id'', g)])"
    and "find_route (route_table j) ''POST'' [''v1'', ''wallet-groups'', g, ''transactions''] =
       Some (PostGroupTransaction (decode_SendTransaction j), [(''id'', g)])"
    and "find_route (route_table j) ''POST'' [''v1'', ''wallet-groups'', g, ''transactions'', ''prepare''] =
       Some (PostPrepare (decode_PrepareTransaction j), [(''id'', g)])"
    and "find_route (route_table j) ''POST'' [''v1'', ''wallet-groups'', g, ''transactions'', ''submit''] =
       Some (PostSubmit (decode_SubmitTransaction j), [(''id'', g)])"
    and "find_route (route_table j) ''POST'' [''v1'', ''wallet-groups'', g, ''onramp''] =
       Some (PostGroupOnramp (decode_GroupOnramp j), [(''id'', g)])"
    and "find_route (route_table j) ''POST'' [''v1'', ''wallet-groups'', g, ''session-keys''] =
       Some (PostSessionKey (decode_CreateSessionKey j), [(''id'', g)])"
  using assms by (simp_all add: route_table_def group_path_def tenant_path_def endpoint_path_def)

lemma find_nested_routes:
  assumes "g \<noteq> []" "k \<noteq> []"
  shows "find_route (route_table j) ''DELETE'' [''v1'', ''wallet-groups'', g, ''session-keys'', k] =
       Some (DeleteSessionKey (decode_reason j), [(''id'', g), (''sk_id'', k)])"
    and "find_route (route_table j) ''POST'' [''v1'', ''wallet-groups'', g, ''session-keys'', k, ''submit-authorize''] =
       Some (PostSubmitAuthorize (decode_one ''signed_tx_hex'' j), [(''id'', g), (''sk_id'', k)])"
  using assms by (simp_all add: route_table_def group_path_def tenant_path_def endpoint_path_def)

lemma find_other_routes:
  shows "find_route (route_table j) ''GET'' [''health''] = Some (Health, [])"
    and "find_route (route_table j) ''GET'' [''v1'', ''api-keys''] = Some (GetAPIKeys, [])"
    and "find_route (route_table j) ''POST'' [''v1'', ''api-keys''] = Some (PostAPIKey (decode_CreateAPIKey j), [])"
    and "find_route (route_table j) ''POST'' [''v1'', ''wallet-groups''] = Some (PostGroup (decode_CreateGroup j), [])"
    and "find_route (route_table j) ''GET'' [''v1'', ''wallet-groups''] = Some (GetGroups, [])"
    and "find_route (route_table j) ''POST'' [''v1'', ''webhook-endpoints''] = Some (PostEndpoint (decode_CreateEndpoint j), [])"
    and "find_route (route_table j) ''GET'' [''v1'', ''webhook-endpoints''] = Some (GetEndpoints, [])"
    and "find_route (route_table j) ''GET'' [''v1'', ''tenants'', ''me'', ''limits''] = Some (GetLimits, [])"
    and "find_route (route_table j) ''PUT'' [''v1'', ''tenants'', ''me'', ''limits''] = Some (PutLimits (decode_UpdateTenantLimits j), [])"
    and "find_route (route_table j) ''GET'' [''v1'', ''tenants'', ''me'', ''limits'', ''violations''] = Some (GetViolations, [])"
  by (simp_all add: route_table_def group_path_def tenant_path_def endpoint_path_def)

lemma find_id_routes:
  assumes "x \<noteq> []"
  shows "find_route (route_table j) ''DELETE'' [''v1'', ''api-keys'', x] = Some (DeleteAPIKey (decode_reason j), [(''id'', x)])"
    and "find_route (route_table j) ''GET'' [''v1'', ''webhook-endpoints'', x] = Some (GetEndpoint, [(''id'', x)])"
    and "find_route (route_table j) ''PATCH'' [''v1'', ''webhook-endpoints'', x] = Some (PatchEndpoint (decode_UpdateEndpoint j), [(''id'', x)])"
    and "find_route (route_table j) ''DELETE'' [''v1'', ''webhook-endpoints'', x] = Some (DeleteEndpoint, [(''id'', x)])"
    and "find_route (route_table j) ''POST'' [''v1'', ''webhook-endpoints'', x, ''rotate-secret''] = Some (PostRotateSecret, [(''id'', x)])"
  using assms by (simp_all add: route_table_def group_path_def tenant_path_def endpoint_path_def)

section \<open>What the bodies are decoded to\<close>

named_theorems decoding "evaluation of the decoders on the bodies of the client"

lemma field_values_Nil [decoding]: "field_values n [] = []"
  by (simp add: field_values_def)

lemma field_values_Cons [decoding]:
  "field_values n ((k, v) # fs) = (if ToLower k = ToLower n then [v] else []) @ field_values n fs"
  by (simp add: field_values_def)

lemma field_values_append [decoding]: "field_values n (xs @ ys) = field_values n xs @ field_values n ys"
  by (simp add: field_values_def)

lemma field_values_opt_str [decoding]:
  "field_values n (opt_str k v) = (if ToLower k = ToLower n then (if v = [] then [] else [JStr v]) else [])"
  by (simp add: opt_str_def field_values_def)

lemma str_field_none [decoding]: "field_values n fs = [] \<Longrightarrow> str_field n fs = Some []"
  by (simp add: str_field_def str_field_over_def)

lemma str_field_one [decoding]: "field_values n fs = [JStr v] \<Longrightarrow> str_field n fs = Some v"
  by (simp add: str_field_def str_field_over_def)

lemma str_field_opt [decoding]: "field_values n fs = (if v = [] then [] else [JStr v]) \<Longrightarrow> str_field n fs = Some v"
  by (simp add: str_field_def str_field_over_def)

lemma struct_field_none [decoding]: "field_values n fs = [] \<Longrightarrow> struct_field n fs = Some []"
  by (simp add: struct_field_def)

lemma struct_field_one [decoding]: "field_values n fs = [JObj es] \<Longrightarrow> struct_field n fs = Some es"
  by (simp add: struct_field_def)

lemma other_field_none [decoding]:
  "field_values n fs = [] \<Longrightarrow> strs_field n fs = Some []"
  "field_values n fs = [] \<Longrightarrow> bool_field n fs = Some False"
  "field_values n fs = [] \<Longrightarrow> int_field n fs = Some 0"
  "field_values n fs = [] \<Longrightarrow> strs_pointer n fs = Some None"
  "field_values n fs = [] \<Longrightarrow> map_field n fs = Some []"
  by (simp_all add: strs_field_def bool_field_def int_field_def strs_pointer_def map_field_def)

lemma str_pointer_opt [decoding]:
  "field_values n fs = (if v = [] then [] else [JStr v]) \<Longrightarrow> str_pointer n fs = Some (if v = [] then None else Some v)"
  "field_values n fs = [] \<Longrightarrow> str_pointer n fs = Some None"
  by (simp_all add: str_pointer_def)

lemma body_object_JObj [decoding]: "body_object (JVal (JObj fs)) = Some fs"
  by (simp add: body_object_def)

lemma decode_txSend:
  "decode_SendTransaction (JVal (txSend_body fl)) = Some
     \<lparr> st_To = str_flag fl ''to'' [], st_Amount = str_flag fl ''amount'' [], st_Asset = str_flag fl ''asset'' [],
       st_IdempotencyKey = str_flag fl ''idempotency-key'' [], st_Rail = str_flag fl ''rail'' [], st_SignerID = [] \<rparr>"
  by (simp add: decode_SendTransaction_def txSend_body_def decoding)

lemma decode_txPrepare:
  "decode_PrepareTransaction (JVal (txPrepare_body fl)) = Some
     \<lparr> pr_To = str_flag fl ''to'' [], pr_Amount = str_flag fl ''amount'' [], pr_Asset = str_flag fl ''asset'' [],
       pr_Memo = str_flag fl ''memo'' [], pr_IdempotencyKey = str_flag fl ''idempotency-key'' [] \<rparr>"
  by (simp add: decode_PrepareTransaction_def txPrepare_body_def decoding)

lemma decode_txSubmit:
  "decode_SubmitTransaction (JVal (txSubmit_body fl)) = Some
     \<lparr> sb_PrepareID = str_flag fl ''prepare-id'' [], sb_SignedTxHex = str_flag fl ''signed-tx-hex'' [] \<rparr>"
  by (simp add: decode_SubmitTransaction_def txSubmit_body_def decoding)

lemma decode_txOnramp:
  "decode_GroupOnramp (JVal (txOnramp_body fl)) = Some
     \<lparr> gr_FiatAmount = [], gr_FiatCurrency = [], gr_Asset = str_flag fl ''asset'' ''USDC'',
       gr_Chain = str_flag fl ''chain'' [], gr_IdempotencyKey = [] \<rparr>"
  by (simp add: decode_GroupOnramp_def txOnramp_body_def decoding)

lemma decode_keysCreate:
  "decode_CreateAPIKey (JVal (JObj [(''environment'', JStr en), (''name'', JStr n)])) = Some \<lparr> kr_Name = n, kr_Environment = en \<rparr>"
  by (simp add: decode_CreateAPIKey_def decoding)

lemma decode_reason_body: "decode_reason (JVal (reason_body fl)) = str_flag fl ''reason'' []"
  by (simp add: decode_reason_def reason_body_def decoding)

lemma decode_signed: "decode_one ''signed_tx_hex'' (JVal (JObj [(''signed_tx_hex'', JStr h)])) = Some h"
  by (simp add: decode_one_def decoding)

lemma decode_webhooksCreate:
  "decode_CreateEndpoint (JVal (webhooksCreate_body fl)) = Some
     \<lparr> ce_URL = str_flag fl ''url'' [], ce_SubscribedEvents = [], ce_Description = str_flag fl ''description'' [] \<rparr>"
  by (simp add: decode_CreateEndpoint_def webhooksCreate_body_def decoding)

lemma field_values_ifs [decoding]:
  "field_values n (if b then xs else ys) = (if b then field_values n xs else field_values n ys)"
  "field_values n (case x of None \<Rightarrow> us | Some y \<Rightarrow> vs y) = (case x of None \<Rightarrow> field_values n us | Some y \<Rightarrow> field_values n (vs y))"
  by (simp_all split: option.split)

lemma decode_webhooksUpdate:
  "decode_UpdateEndpoint (JVal (webhooksUpdate_body fl)) = Some
     \<lparr> ue_URL = pgxText (str_flag fl ''url'' []), ue_SubscribedEvents = None,
       ue_Description = pgxText (str_flag fl ''description'' []), ue_Status = None \<rparr>"
  by (cases "fl_bool fl ''disabled''"; cases "nonempty (fl_list fl ''event'')")
    (simp_all add: decode_UpdateEndpoint_def webhooksUpdate_body_def decoding pgxText_def)

lemma decode_sessionKeysCreate:
  "decode_CreateSessionKey (JVal (sessionKeysCreate_body fl)) = Some
     \<lparr> ck_Name = [], ck_Rail = [], ck_PerTxAmount = [], ck_DailyAmount = [], ck_WeeklyAmount = [], ck_MonthlyAmount = [],
       ck_AllowedRecipients = [], ck_DeniedRecipients = [], ck_RotationMode = [], ck_RotationIntervalHours = 0,
       ck_ExpiresAt = str_flag fl ''expires-at'' [], ck_OnChainEnforce = False \<rparr>"
proof -
  have lm: "field_values n (session_limits fl) = []"
    if "ToLower n \<notin> {''daily'', ''per_tx'', ''recipient_allowlist''}" for n
    using that by (auto simp: session_limits_def decoding)
  show ?thesis
    by (cases "session_limits fl = []")
      (simp_all add: decode_CreateSessionKey_def sessionKeysCreate_body_def decoding lm)
qed

lemma map_field_external [decoding]:
  "field_values n fs = [JObj (external_json fl)] \<Longrightarrow> map_field n fs = Some
     ((if str_flag fl ''external-crossmint'' [] = [] then [] else [(''crossmint'', str_flag fl ''external-crossmint'' [])])
      @ (if str_flag fl ''external-tempo'' [] = [] then [] else [(''tempo'', str_flag fl ''external-tempo'' [])]))"
  by (simp add: map_field_def external_json_def opt_str_def)

section \<open>What a command asks for\<close>

text \<open>
  The call that the flags of a command name, with its path parameters. \<open>init\<close> talks to no server and
  \<open>limits update\<close> sends a text of the user's; for them there is no such reading.
\<close>

definition asked_group :: "flags \<Rightarrow> CreateGroupRequest" where
  "asked_group fl =
     \<lparr> cg_OwnerType = str_flag fl ''owner-type'' ''user'', cg_OwnerRef = str_flag fl ''owner-ref'' [], cg_ParentGroupID = [],
       cg_DisplayName = str_flag fl ''display-name'' [], cg_CrossMintChain = str_flag fl ''crossmint-chain'' ''base'',
       cg_Custody = (if str_flag fl ''custody'' ''platform'' = ''platform'' then [] else str_flag fl ''custody'' ''platform''),
       cg_ExternalAddresses = (if str_flag fl ''custody'' ''platform'' = ''user'' then
          (if str_flag fl ''external-crossmint'' [] = [] then [] else [(''crossmint'', str_flag fl ''external-crossmint'' [])])
          @ (if str_flag fl ''external-tempo'' [] = [] then [] else [(''tempo'', str_flag fl ''external-tempo'' [])]) else []) \<rparr>"

fun asked :: "cli_command \<Rightarrow> flags \<Rightarrow> api_call option" where
  "asked HealthCmd fl = Some Health"
| "asked KeysList fl = Some GetAPIKeys"
| "asked KeysCreate fl = Some (PostAPIKey (Some \<lparr> kr_Name = str_flag fl ''name'' [], kr_Environment = str_flag fl ''env'' ''test'' \<rparr>))"
| "asked KeysRevoke fl = Some (DeleteAPIKey (str_flag fl ''reason'' []))"
| "asked WalletsCreate fl = Some (PostGroup (Some (asked_group fl)))"
| "asked WalletsList fl = Some GetGroups"
| "asked WalletsGet fl = Some GetGroup"
| "asked WalletsBalance fl = Some GetBalance"
| "asked TxSend fl = Some (PostGroupTransaction (Some
     \<lparr> st_To = str_flag fl ''to'' [], st_Amount = str_flag fl ''amount'' [], st_Asset = str_flag fl ''asset'' [],
       st_IdempotencyKey = str_flag fl ''idempotency-key'' [], st_Rail = str_flag fl ''rail'' [],
       st_SignerID = str_flag fl ''session-key-id'' [] \<rparr>))"
| "asked TxOnramp fl = Some (PostGroupOnramp (Some
     \<lparr> gr_FiatAmount = str_flag fl ''fiat-amount'' [], gr_FiatCurrency = str_flag fl ''fiat-currency'' ''USD'',
       gr_Asset = str_flag fl ''asset'' ''USDC'', gr_Chain = str_flag fl ''chain'' [], gr_IdempotencyKey = [] \<rparr>))"
| "asked TxPrepare fl = Some (PostPrepare (Some
     \<lparr> pr_To = str_flag fl ''to'' [], pr_Amount = str_flag fl ''amount'' [], pr_Asset = str_flag fl ''asset'' [],
       pr_Memo = str_flag fl ''memo'' [], pr_IdempotencyKey = str_flag fl ''idempotency-key'' [] \<rparr>))"
| "asked TxSubmit fl = Some (PostSubmit (Some
     \<lparr> sb_PrepareID = str_flag fl ''prepare-id'' [], sb_SignedTxHex = str_flag fl ''signed-tx-hex'' [] \<rparr>))"
| "asked SessionCreate fl = Some (PostSessionKey (Some
     \<lparr> ck_Name = [], ck_Rail = [], ck_PerTxAmount = str_flag fl ''per-tx'' [], ck_DailyAmount = str_flag fl ''daily'' [],
       ck_WeeklyAmount = [], ck_MonthlyAmount = [],
       ck_AllowedRecipients = (case fl_list fl ''to'' of None \<Rightarrow> [] | Some rs \<Rightarrow> rs), ck_DeniedRecipients = [],
       ck_RotationMode = [], ck_RotationIntervalHours = 0, ck_ExpiresAt = str_flag fl ''expires-at'' [],
       ck_OnChainEnforce = bool_flag fl ''on-chain'' \<rparr>))"
| "asked SessionList fl = Some GetSessionKeys"
| "asked SessionRevoke fl = Some (DeleteSessionKey (str_flag fl ''reason'' []))"
| "asked SessionSubmitAuthorize fl = Some (PostSubmitAuthorize (Some (str_flag fl ''signed-tx-hex'' [])))"
| "asked HooksCreate fl = Some (PostEndpoint (Some
     \<lparr> ce_URL = str_flag fl ''url'' [], ce_SubscribedEvents = (case fl_list fl ''event'' of None \<Rightarrow> [] | Some es \<Rightarrow> es),
       ce_Description = str_flag fl ''description'' [] \<rparr>))"
| "asked HooksList fl = Some GetEndpoints"
| "asked HooksGet fl = Some GetEndpoint"
| "asked HooksUpdate fl = Some (PatchEndpoint (Some
     \<lparr> ue_URL = pgxText (str_flag fl ''url'' []),
       ue_SubscribedEvents = (if nonempty (fl_list fl ''event'') then fl_list fl ''event'' else None),
       ue_Description = pgxText (str_flag fl ''description'' []),
       ue_Status = map_option (\<lambda>b. if b then ''paused'' else ''active'') (fl_bool fl ''disabled'') \<rparr>))"
| "asked HooksDelete fl = Some DeleteEndpoint"
| "asked HooksRotateSecret fl = Some PostRotateSecret"
| "asked LimitsGet fl = Some GetLimits"
| "asked LimitsViolations fl = Some GetViolations"
| "asked InitCmd fl = None"
| "asked LimitsUpdate fl = None"

fun path_ids :: "cli_command \<Rightarrow> flags \<Rightarrow> (string \<times> string) list" where
  "path_ids KeysRevoke fl = [(''id'', arg0 fl)]"
| "path_ids WalletsGet fl = [(''id'', arg0 fl)]"
| "path_ids WalletsBalance fl = [(''id'', arg0 fl)]"
| "path_ids TxSend fl = [(''id'', str_flag fl ''from'' [])]"
| "path_ids TxOnramp fl = [(''id'', str_flag fl ''from'' [])]"
| "path_ids TxPrepare fl = [(''id'', str_flag fl ''from'' [])]"
| "path_ids TxSubmit fl = [(''id'', str_flag fl ''from'' [])]"
| "path_ids SessionCreate fl = [(''id'', str_flag fl ''group'' [])]"
| "path_ids SessionList fl = [(''id'', str_flag fl ''group'' [])]"
| "path_ids SessionRevoke fl = [(''id'', str_flag fl ''group'' []), (''sk_id'', arg0 fl)]"
| "path_ids SessionSubmitAuthorize fl = [(''id'', str_flag fl ''group'' []), (''sk_id'', arg0 fl)]"
| "path_ids HooksGet fl = [(''id'', arg0 fl)]"
| "path_ids HooksUpdate fl = [(''id'', arg0 fl)]"
| "path_ids HooksDelete fl = [(''id'', arg0 fl)]"
| "path_ids HooksRotateSecret fl = [(''id'', arg0 fl)]"
| "path_ids _ fl = []"

definition plain_ids :: "cli_command \<Rightarrow> flags \<Rightarrow> bool" where
  "plain_ids cmd fl \<longleftrightarrow> list_all (\<lambda>(_, i). plain_id i) (path_ids cmd fl)"

text \<open>The flags of a command that the gateway has no field for.\<close>

definition without :: "string list \<Rightarrow> flags \<Rightarrow> flags" where
  "without ns fl = fl\<lparr>fl_str := \<lambda>n. if n \<in> set ns then None else fl_str fl n,
                      fl_bool := \<lambda>n. if n \<in> set ns then None else fl_bool fl n,
                      fl_list := \<lambda>n. if n \<in> set ns then None else fl_list fl n\<rparr>"

fun unheard :: "cli_command \<Rightarrow> string list" where
  "unheard TxSend = [''session-key-id'', ''memo'']"
| "unheard SessionCreate = [''scope'', ''per-tx'', ''daily'', ''to'', ''on-chain'']"
| "unheard HooksCreate = [''event'']"
| "unheard HooksUpdate = [''event'', ''disabled'']"
| "unheard _ = []"

lemma nonempty_None [simp]: "\<not> nonempty None"
  by (simp add: nonempty_def)

lemma without_flags [simp]:
  "str_flag (without ns fl) n d = (if n \<in> set ns then d else str_flag fl n d)"
  "fl_list (without ns fl) n = (if n \<in> set ns then None else fl_list fl n)"
  "fl_bool (without ns fl) n = (if n \<in> set ns then None else fl_bool fl n)"
  "fl_args (without ns fl) = fl_args fl" "arg0 (without ns fl) = arg0 fl" "without [] fl = fl"
  by (simp_all add: without_def str_flag_def arg0_def)

section \<open>The requests of a command\<close>

lemma call_api_sent:
  assumes "resolveConfig sys fs (str_flag fl ''base-url'' []) (str_flag fl ''api-key'' []) = Inr c"
    and "r \<in> set (run_sent (call_api sys fl auth verb path body accepted fs))"
  shows "r = client_request \<lparr> cl_base = gc_BaseURL c, cl_apiKey = gc_APIKey c \<rparr> verb path body"
  using assms by (auto simp: call_api_def newClient_def stopped_def client_do_def Let_def split: if_splits sum.splits)

lemma walletsCreate_sent:
  assumes "resolveConfig sys fs (str_flag fl ''base-url'' []) (str_flag fl ''api-key'' []) = Inr c"
    and "r \<in> set (run_sent (walletsCreateCmd sys fl fs))"
  shows "r = client_request \<lparr> cl_base = gc_BaseURL c, cl_apiKey = gc_APIKey c \<rparr> ''POST'' ''/v1/wallet-groups'' (Some (walletsCreate_body fl))"
  using assms by (auto simp: walletsCreateCmd_def newClient_def stopped_def client_do_def Let_def split: if_splits sum.splits)

lemma Execute_sent: "set (run_sent (Execute cmd sys fl fs)) \<subseteq> set (run_sent (RunE cmd sys fl fs))"
  by (simp add: Execute_def stopped_def)

text \<open>Which call a request becomes.\<close>

definition reaches :: "string \<Rightarrow> cli_request \<Rightarrow> api_call \<Rightarrow> (string \<times> string) list \<Rightarrow> (string \<Rightarrow> string) \<Rightarrow> bool" where
  "reaches base r call params query \<longleftrightarrow>
     (case arrives base r of None \<Rightarrow> False
      | Some rq \<Rightarrow> rq_call rq = call \<and> rq_Params rq = first_arg params \<and> rq_Query rq = query)"

text \<open>The query arguments of a list command, by name: a flag that is not positive is left to the gateway.\<close>

definition page_args :: "int \<Rightarrow> int \<Rightarrow> string \<Rightarrow> string" where
  "page_args limit offset name =
     (if name = ''limit'' then (if 0 < limit then int_to_dec limit else [])
      else if name = ''offset'' then (if 0 < offset then int_to_dec offset else []) else [])"

fun asked_query :: "cli_command \<Rightarrow> flags \<Rightarrow> string \<Rightarrow> string" where
  "asked_query WalletsList fl = page_args (int_flag fl ''limit'' 50) (int_flag fl ''offset'' 0)"
| "asked_query SessionList fl = page_args (int_flag fl ''limit'' 50) (int_flag fl ''offset'' 0)"
| "asked_query HooksList fl = page_args (int_flag fl ''limit'' 50) (int_flag fl ''offset'' 0)"
| "asked_query LimitsViolations fl = page_args (int_flag fl ''limit'' 50) (int_flag fl ''offset'' 0)"
| "asked_query _ fl = (\<lambda>_. [])"

lemma no_query_args [simp]: "first_arg (query_args []) = (\<lambda>_. [])"
  by (simp add: fun_eq_iff first_arg_def query_args_def Cut_none text_String_def)

lemma arrives_client:
  assumes "CHR ''?'' \<notin> set path" "find_route (route_table (wire_body body)) verb (segments path) = Some (call, params)"
  shows "arrives (cl_base c) (client_request c verb path body) =
     Some \<lparr> rq_call = call, rq_Authorization = text_String (if cl_apiKey c \<noteq> [] then Some (''Bearer '' @ cl_apiKey c) else None),
            rq_Params = first_arg params, rq_Query = first_arg (query_args []), rq_path = path \<rparr>"
  using route_found [OF assms] by (simp add: arrives_def client_request_def)

lemma reaches_client:
  assumes "CHR ''?'' \<notin> set path" "find_route (route_table (wire_body body)) verb ss = Some (call, params)" "segments path = ss"
  shows "reaches (cl_base c) (client_request c verb path body) call params (\<lambda>_. [])"
  using arrives_client [of path body verb call params c] assms by (simp add: reaches_def)

definition page_query :: "int \<Rightarrow> int \<Rightarrow> string" where
  "page_query limit offset =
     (if 0 < limit then ''limit='' @ itoa limit @ (if 0 < offset then ''&offset='' @ itoa offset else [])
      else if 0 < offset then ''offset='' @ itoa offset else [])"

lemma number_plain: "0 < n \<Longrightarrow> CHR ''&'' \<notin> set (int_to_dec n) \<and> CHR ''='' \<notin> set (int_to_dec n)"
proof -
  assume "0 < n"
  then have "int_to_dec n = nat_to_dec (nat n)" by (simp add: int_to_dec_def)
  moreover have "all_digits (nat_to_dec (nat n))" by simp
  ultimately show ?thesis by (auto simp: all_digits_set is_digit_def)
qed

lemma page_query_args: "first_arg (query_args (page_query limit offset)) = page_args limit offset"
proof -
  have one: "query_args (name @ CHR ''='' # int_to_dec n) = [(name, int_to_dec n)]"
    if "0 < n" "CHR ''='' \<notin> set name" "CHR ''&'' \<notin> set name" for name n
    using that number_plain [OF that(1)] by (simp add: query_args_def Split_none Cut_append)
  have two: "query_args (name @ CHR ''='' # int_to_dec n @ CHR ''&'' # q) = (name, int_to_dec n) # query_args q"
    if "0 < n" "CHR ''='' \<notin> set name" "CHR ''&'' \<notin> set name" for name n q
    using that number_plain [OF that(1)] Split_append [of "CHR ''&''" "name @ CHR ''='' # int_to_dec n" q] by (simp add: query_args_def Cut_append)
  show ?thesis
    using one [of limit "''limit''"] one [of offset "''offset''"] two [of limit "''limit''" "''offset='' @ int_to_dec offset"]
    by (auto simp: page_query_def page_args_def itoa_def first_arg_def text_String_def fun_eq_iff query_args_def [of "[]"] Cut_none)
qed

lemma paginated_cut:
  assumes "CHR ''?'' \<notin> set path"
  shows "\<exists>found. Cut CHR ''?'' (paginated path limit offset) = (path, page_query limit offset, found)"
proof -
  have "paginated path limit offset = path @ (if 0 < limit \<or> 0 < offset then CHR ''?'' # page_query limit offset else [])"
    by (simp add: paginated_def page_query_def)
  with assms show ?thesis by (auto simp: Cut_append Cut_none page_query_def)
qed

lemma arrives_page:
  assumes "CHR ''?'' \<notin> set path" "find_route (route_table (wire_body body)) verb (segments path) = Some (call, params)"
  shows "arrives (cl_base c) (client_request c verb (paginated path limit offset) body) =
     Some \<lparr> rq_call = call, rq_Authorization = text_String (if cl_apiKey c \<noteq> [] then Some (''Bearer '' @ cl_apiKey c) else None),
            rq_Params = first_arg params, rq_Query = first_arg (query_args (page_query limit offset)), rq_path = path \<rparr>"
proof -
  obtain found where "Cut CHR ''?'' (paginated path limit offset) = (path, page_query limit offset, found)"
    using paginated_cut [OF assms(1)] by blast
  with assms(2) show ?thesis by (simp add: arrives_def client_request_def route_def)
qed

lemma reaches_page:
  assumes "CHR ''?'' \<notin> set path" "find_route (route_table (wire_body body)) verb ss = Some (call, params)" "segments path = ss"
  shows "reaches (cl_base c) (client_request c verb (paginated path limit offset) body) call params (page_args limit offset)"
  using arrives_page [of path body verb call params c limit offset] assms by (simp add: reaches_def page_query_args)

lemma no_query_mark:
  "plain_id g \<Longrightarrow> CHR ''?'' \<notin> set g"
  by (simp add: plain_id_def)

lemma plain_nonempty: "plain_id g \<Longrightarrow> g \<noteq> []"
  by (simp add: plain_id_def)

lemma decode_walletsCreate:
  "Some (PostGroup (decode_CreateGroup (JVal (walletsCreate_body fl)))) = asked WalletsCreate fl"
  by (cases "str_flag fl ''custody'' ''platform'' = ''user''"; cases "str_flag fl ''custody'' ''platform'' = ''platform''";
      cases "str_flag fl ''custody'' ''platform'' = []")
    (simp_all add: decode_CreateGroup_def walletsCreate_body_def decoding Let_def asked_group_def)

lemma tx_commands_reach:
  fixes c :: client
  assumes "plain_id g" "g = str_flag fl ''from'' []"
  shows "reaches (cl_base c) (client_request c ''POST'' (from_path fl ''/transactions'') (Some (txSend_body fl)))
      (the (asked TxSend (without (unheard TxSend) fl))) [(''id'', g)] (\<lambda>_. [])"
    and "reaches (cl_base c) (client_request c ''POST'' (from_path fl ''/transactions/prepare'') (Some (txPrepare_body fl)))
      (the (asked TxPrepare fl)) [(''id'', g)] (\<lambda>_. [])"
    and "reaches (cl_base c) (client_request c ''POST'' (from_path fl ''/transactions/submit'') (Some (txSubmit_body fl)))
      (the (asked TxSubmit fl)) [(''id'', g)] (\<lambda>_. [])"
  unfolding from_path_def assms(2) [symmetric]
  using no_query_mark [OF assms(1)] plain_nonempty [OF assms(1)]
  by (rule_tac reaches_client; simp add: group_segments [OF assms(1), simplified] find_group_routes wire_body_def decode_txSend decode_txPrepare decode_txSubmit)+

lemma session_commands_reach:
  fixes c :: client
  assumes "plain_id g" "g = str_flag fl ''group'' []"
  shows "reaches (cl_base c) (client_request c ''POST'' (session_path fl []) (Some (sessionKeysCreate_body fl)))
      (the (asked SessionCreate (without (unheard SessionCreate) fl))) [(''id'', g)] (\<lambda>_. [])"
    and "reaches (cl_base c) (client_request c ''GET'' (paginated (session_path fl []) l off) None) GetSessionKeys [(''id'', g)] (page_args l off)"
    and "plain_id k \<Longrightarrow> reaches (cl_base c) (client_request c ''DELETE'' (session_path fl (''/'' @ k)) (Some (reason_body fl)))
      (DeleteSessionKey (str_flag fl ''reason'' [])) [(''id'', g), (''sk_id'', k)] (\<lambda>_. [])"
    and "plain_id k \<Longrightarrow> reaches (cl_base c)
      (client_request c ''POST'' (session_path fl (''/'' @ k @ ''/submit-authorize'')) (Some (JObj [(''signed_tx_hex'', JStr h)])))
      (PostSubmitAuthorize (Some h)) [(''id'', g), (''sk_id'', k)] (\<lambda>_. [])"
  unfolding session_path_def assms(2) [symmetric]
  using no_query_mark [OF assms(1)] plain_nonempty [OF assms(1)]
  by ((rule_tac reaches_page | rule_tac reaches_client);
      simp add: group_segments [OF assms(1), simplified] nested_segments [OF assms(1), simplified] find_group_routes
         find_nested_routes wire_body_def decode_sessionKeysCreate decode_reason_body decode_signed no_query_mark plain_nonempty
         bool_flag_def)+

lemma key_and_wallet_commands_reach:
  fixes c :: client
  shows "reaches (cl_base c) (client_request c ''GET'' ''/health'' None) Health [] (\<lambda>_. [])"
    and "reaches (cl_base c) (client_request c ''GET'' ''/v1/api-keys'' None) GetAPIKeys [] (\<lambda>_. [])"
    and "reaches (cl_base c) (client_request c ''POST'' ''/v1/api-keys'' (Some (JObj [(''environment'', JStr en), (''name'', JStr n)])))
      (PostAPIKey (Some \<lparr> kr_Name = n, kr_Environment = en \<rparr>)) [] (\<lambda>_. [])"
    and "reaches (cl_base c) (client_request c ''POST'' ''/v1/wallet-groups'' (Some (walletsCreate_body fl))) (the (asked WalletsCreate fl)) [] (\<lambda>_. [])"
    and "reaches (cl_base c) (client_request c ''GET'' (paginated ''/v1/wallet-groups'' l off) None) GetGroups [] (page_args l off)"
    and "plain_id x \<Longrightarrow> reaches (cl_base c) (client_request c ''DELETE'' (''/v1/api-keys/'' @ x) (Some (reason_body fl)))
      (DeleteAPIKey (str_flag fl ''reason'' [])) [(''id'', x)] (\<lambda>_. [])"
    and "plain_id x \<Longrightarrow> reaches (cl_base c) (client_request c ''GET'' (''/v1/wallet-groups/'' @ x) None) GetGroup [(''id'', x)] (\<lambda>_. [])"
    and "plain_id x \<Longrightarrow> reaches (cl_base c) (client_request c ''GET'' (''/v1/wallet-groups/'' @ x @ ''/balance'') None) GetBalance [(''id'', x)] (\<lambda>_. [])"
  by ((rule_tac reaches_page | rule_tac reaches_client);
      simp del: asked.simps add: group_segments [simplified] other_segments [simplified] find_group_routes find_other_routes find_id_routes
        wire_body_def decode_keysCreate decode_reason_body no_query_mark plain_nonempty decode_walletsCreate [symmetric])+

lemma hook_and_limit_commands_reach:
  fixes c :: client
  shows "reaches (cl_base c) (client_request c ''POST'' ''/v1/webhook-endpoints'' (Some (webhooksCreate_body fl)))
      (the (asked HooksCreate (without (unheard HooksCreate) fl))) [] (\<lambda>_. [])"
    and "reaches (cl_base c) (client_request c ''GET'' (paginated ''/v1/webhook-endpoints'' l off) None) GetEndpoints [] (page_args l off)"
    and "plain_id x \<Longrightarrow> reaches (cl_base c) (client_request c ''GET'' (''/v1/webhook-endpoints/'' @ x) None) GetEndpoint [(''id'', x)] (\<lambda>_. [])"
    and "plain_id x \<Longrightarrow> reaches (cl_base c) (client_request c ''PATCH'' (''/v1/webhook-endpoints/'' @ x) (Some (webhooksUpdate_body fl)))
      (the (asked HooksUpdate (without (unheard HooksUpdate) fl))) [(''id'', x)] (\<lambda>_. [])"
    and "plain_id x \<Longrightarrow> reaches (cl_base c) (client_request c ''DELETE'' (''/v1/webhook-endpoints/'' @ x) None) DeleteEndpoint [(''id'', x)] (\<lambda>_. [])"
    and "plain_id x \<Longrightarrow> reaches (cl_base c) (client_request c ''POST'' (''/v1/webhook-endpoints/'' @ x @ ''/rotate-secret'') None)
      PostRotateSecret [(''id'', x)] (\<lambda>_. [])"
    and "reaches (cl_base c) (client_request c ''GET'' ''/v1/tenants/me/limits'' None) GetLimits [] (\<lambda>_. [])"
    and "reaches (cl_base c) (client_request c ''GET'' (paginated ''/v1/tenants/me/limits/violations'' l off) None) GetViolations [] (page_args l off)"
  by ((rule_tac reaches_page | rule_tac reaches_client);
      simp add: other_segments [simplified] find_other_routes find_id_routes wire_body_def decode_webhooksCreate
        decode_webhooksUpdate no_query_mark plain_nonempty nonempty_def)+

lemmas commands_reach = tx_commands_reach session_commands_reach key_and_wallet_commands_reach hook_and_limit_commands_reach

section \<open>Every command reaches its endpoint\<close>

text \<open>The flags that the gateway has a field for are heard as they were given; the others are lost.\<close>

lemma command_reaches:
  assumes cfg: "resolveConfig sys fs (str_flag fl ''base-url'' []) (str_flag fl ''api-key'' []) = Inr c"
    and ids: "plain_ids cmd fl" and asks: "asked cmd fl \<noteq> None" "cmd \<noteq> TxOnramp"
    and sent: "r \<in> set (run_sent (RunE cmd sys fl fs))"
  shows "reaches (gc_BaseURL c) r (the (asked cmd (without (unheard cmd) fl))) (path_ids cmd fl) (asked_query cmd fl)"
proof -
  define cl where "cl = \<lparr> cl_base = gc_BaseURL c, cl_apiKey = gc_APIKey c \<rparr>"
  have base: "gc_BaseURL c = cl_base cl" by (simp add: cl_def)
  note sends = call_api_sent [OF cfg, folded cl_def] walletsCreate_sent [OF cfg, folded cl_def]
  note cmd_defs = newHealthCmd_def keysListCmd_def keysCreateCmd_def keysRevokeCmd_def walletsListCmd_def walletsGetCmd_def
    walletsBalanceCmd_def txSendCmd_def txPrepareCmd_def txSubmitCmd_def sessionKeysCreateCmd_def sessionKeysListCmd_def
    sessionKeysRevokeCmd_def sessionKeysSubmitAuthorizeCmd_def webhooksCreateCmd_def webhooksListCmd_def webhooksGetCmd_def
    webhooksUpdateCmd_def webhooksDeleteCmd_def webhooksRotateSecretCmd_def limitsGetCmd_def limitsViolationsCmd_def
  show ?thesis
    using sent ids asks unfolding base
    by (cases cmd) (auto simp: cmd_defs plain_ids_def commands_reach [simplified] dest!: sends)
qed

lemma without_base [simp]:
  "''base-url'' \<notin> set (unheard cmd)" "''api-key'' \<notin> set (unheard cmd)" "''from'' \<notin> set (unheard cmd)"
  "''group'' \<notin> set (unheard cmd)"
  by (cases cmd; simp)+

text \<open>The address, the method and the key of a request do not depend on the flags that are lost.\<close>

lemma same_flags_same_target:
  assumes cfg: "resolveConfig sys fs (str_flag fl ''base-url'' []) (str_flag fl ''api-key'' []) = Inr c"
    and cfg': "resolveConfig sys fs (str_flag fl' ''base-url'' []) (str_flag fl' ''api-key'' []) = Inr c"
    and same: "from_path fl' = from_path fl" "session_path fl' = session_path fl" "arg0 fl' = arg0 fl"
    and cmd: "cmd = TxSend \<or> cmd = SessionCreate \<or> cmd = HooksCreate \<or> cmd = HooksUpdate"
    and sent: "r \<in> set (run_sent (RunE cmd sys fl fs))" "r' \<in> set (run_sent (RunE cmd sys fl' fs))"
  shows "hq_url r = hq_url r'"
proof -
  define cl where "cl = \<lparr> cl_base = gc_BaseURL c, cl_apiKey = gc_APIKey c \<rparr>"
  have "\<exists>verb path body body'. r = client_request cl verb path body \<and> r' = client_request cl verb path body'"
    using cmd
    by (elim disjE; insert sent call_api_sent [OF cfg, folded cl_def] call_api_sent [OF cfg', folded cl_def]; simp only: RunE.simps txSendCmd_def sessionKeysCreateCmd_def webhooksCreateCmd_def webhooksUpdateCmd_def same; blast)
  then show ?thesis by (auto simp: client_request_def)
qed

lemma runInit_sends_nothing: "run_sent (runInit sys fs) = []"
  by (simp add: runInit_def Let_def split: prod.split option.split)

lemma limitsUpdate_sent:
  assumes "resolveConfig sys fs (str_flag fl ''base-url'' []) (str_flag fl ''api-key'' []) = Inr c"
    and "r \<in> set (run_sent (limitsUpdateCmd sys fl fs))"
  obtains verb path body where "r = client_request \<lparr> cl_base = gc_BaseURL c, cl_apiKey = gc_APIKey c \<rparr> verb path body"
  using assms(2)
  by (auto simp: limitsUpdateCmd_def stopped_def intro: that dest!: call_api_sent [OF assms(1)] split: sum.splits jsonb.splits)

lemma sent_key:
  assumes cfg: "resolveConfig sys fs (str_flag fl ''base-url'' []) (str_flag fl ''api-key'' []) = Inr c"
    and sent: "r \<in> set (run_sent (RunE cmd sys fl fs))"
  shows "hq_Authorization r = (if gc_APIKey c = [] then None else Some (''Bearer '' @ gc_APIKey c))"
proof -
  define cl where "cl = \<lparr> cl_base = gc_BaseURL c, cl_apiKey = gc_APIKey c \<rparr>"
  note cmd_defs = newHealthCmd_def keysListCmd_def keysCreateCmd_def keysRevokeCmd_def walletsListCmd_def walletsGetCmd_def
    walletsBalanceCmd_def txSendCmd_def txPrepareCmd_def txSubmitCmd_def sessionKeysCreateCmd_def sessionKeysListCmd_def
    sessionKeysRevokeCmd_def sessionKeysSubmitAuthorizeCmd_def webhooksCreateCmd_def webhooksListCmd_def webhooksGetCmd_def
    webhooksUpdateCmd_def webhooksDeleteCmd_def webhooksRotateSecretCmd_def limitsGetCmd_def limitsViolationsCmd_def
    txOnrampCmd_def
  have "\<exists>verb path body. r = client_request cl verb path body"
    using sent call_api_sent [OF cfg, folded cl_def] walletsCreate_sent [OF cfg, folded cl_def] limitsUpdate_sent [OF cfg, folded cl_def]
    by (cases cmd; simp only: RunE.simps cmd_defs runInit_sends_nothing list.set empty_iff; blast)
  then show ?thesis by (auto simp: client_request_def cl_def)
qed

lemma arrives_fields:
  assumes "arrives base r = Some rq" "arrives base r' = Some rq'"
    and "hq_url r = hq_url r'" "hq_Authorization r = hq_Authorization r'"
    and "rq_call rq = rq_call rq'" "rq_Params rq = rq_Params rq'"
  shows "rq = rq'"
  using assms by (auto simp: arrives_def route_def split: if_splits prod.splits option.splits)

end
