(* ===== verification/Cli_Properties.thy ===== *)
theory Cli_Properties
  imports Cli_Spec
begin

text \<open>
  The client and the gateway together: which commands do what their flags say, which flags are lost on
  the way, which commands can never succeed.
\<close>

section \<open>Commands that work\<close>

text \<open>A request that reaches an endpoint, with the key of the configuration.\<close>

lemma reachesD:
  assumes "reaches base r call ps query"
  obtains rq where "arrives base r = Some rq" "rq_call rq = call" "rq_Params rq = first_arg ps" "rq_Query rq = query"
    "rq_Authorization rq = text_String (hq_Authorization r)"
  using assms by (auto simp: reaches_def arrives_def route_def split: option.splits if_splits prod.splits)

lemma asked_query_spec:
  "asked_query cmd fl = (\<lambda>name. if cmd \<in> {WalletsList, SessionList, HooksList, LimitsViolations} \<and> name = ''limit'' \<and> 0 < int_flag fl ''limit'' 50
         then int_to_dec (int_flag fl ''limit'' 50)
         else if cmd \<in> {WalletsList, SessionList, HooksList, LimitsViolations} \<and> name = ''offset'' \<and> 0 < int_flag fl ''offset'' 0
         then int_to_dec (int_flag fl ''offset'' 0) else [])"
  by (cases cmd) (auto simp: page_args_def fun_eq_iff)

text \<open>
  C38: a command whose flags the gateway has fields for (that is, without \<open>tx send --session-key-id\<close>
  or \<open>--memo\<close>, \<open>webhooks create --event\<close>, \<open>webhooks update --event\<close> or \<open>--disabled\<close>, the
  limits of \<open>session-keys create\<close>) sends requests that arrive at the endpoint the command names, with
  the ids of the flags as path parameters, the configured API key as bearer token, and a body that the
  gateway decodes to exactly the values of the flags. The query of the list commands carries \<open>--limit\<close> and \<open>--offset\<close>
  under these names, where they are positive, and no other command has a query. Ids are assumed to be one segment of a
  path. (\<open>tx onramp\<close> is the exception below; \<open>init\<close> and \<open>limits update\<close> are not among these commands.)
\<close>

theorem commands_do_what_their_flags_say:
  assumes cfg: "resolveConfig sys fs (str_flag fl ''base-url'' []) (str_flag fl ''api-key'' []) = Inr c"
    and ids: "plain_ids cmd fl" and asks: "asked cmd fl = Some call" "cmd \<noteq> TxOnramp"
    and heard: "without (unheard cmd) fl = fl"
    and sent: "r \<in> set (run_sent (Execute cmd sys fl fs))"
  shows "\<exists>rq. arrives (gc_BaseURL c) r = Some rq \<and> rq_call rq = call \<and> rq_Params rq = first_arg (path_ids cmd fl)
    \<and> rq_Query rq = (\<lambda>name. if cmd \<in> {WalletsList, SessionList, HooksList, LimitsViolations} \<and> name = ''limit'' \<and> 0 < int_flag fl ''limit'' 50
         then int_to_dec (int_flag fl ''limit'' 50)
         else if cmd \<in> {WalletsList, SessionList, HooksList, LimitsViolations} \<and> name = ''offset'' \<and> 0 < int_flag fl ''offset'' 0
         then int_to_dec (int_flag fl ''offset'' 0) else [])
    \<and> rq_Authorization rq = (if gc_APIKey c = [] then [] else ''Bearer '' @ gc_APIKey c)"
proof -
  from sent have "r \<in> set (run_sent (RunE cmd sys fl fs))" using Execute_sent by blast
  with command_reaches [OF cfg ids _ asks(2)] sent_key [OF cfg] asks(1) heard
  have "reaches (gc_BaseURL c) r call (path_ids cmd fl) (asked_query cmd fl)"
    "hq_Authorization r = (if gc_APIKey c = [] then None else Some (''Bearer '' @ gc_APIKey c))" by force+
  then show ?thesis by (elim reachesD) (auto simp: text_String_def asked_query_spec)
qed

definition demo_flags :: flags where
  "demo_flags = \<lparr> fl_str = [''from'' \<mapsto> ''g-1'', ''to'' \<mapsto> ''0xb0b'', ''amount'' \<mapsto> ''12.50'', ''asset'' \<mapsto> ''USDC'',
       ''url'' \<mapsto> ''https://a.example'', ''api-key'' \<mapsto> ''sk_test_abcdefgh''],
     fl_int = (\<lambda>_. None), fl_bool = (\<lambda>_. None), fl_list = (\<lambda>_. None), fl_args = [] \<rparr>"

definition demo_cli :: cli_system where
  "demo_cli = \<lparr> sy_getenv = (\<lambda>_. []), sy_home = Inr ''/root'', sy_fault = (\<lambda>_. None), sy_partial = JBad, sy_stdin = [],
     sy_parse = (\<lambda>_. JBad), sy_json_error = (\<lambda>_. []), sy_float = (\<lambda>t. t),
     sy_http = (\<lambda>_. Inr \<lparr> cp_status = 201, cp_text = ''{}'', cp_json = JVal (JObj []) \<rparr>) \<rparr>"

definition demo_Config :: cli_Config where
  "demo_Config = \<lparr> gc_BaseURL = ''http://localhost:8080'', gc_APIKey = ''sk_test_abcdefgh'' \<rparr>"

lemma demo_cli_resolve: "resolveConfig demo_cli (\<lambda>_. None) (str_flag demo_flags ''base-url'' []) (str_flag demo_flags ''api-key'' []) = Inr demo_Config"
  by code_simp

definition demo_sent :: cli_request where
  "demo_sent = client_request \<lparr> cl_base = gc_BaseURL demo_Config, cl_apiKey = gc_APIKey demo_Config \<rparr> ''POST''
     (from_path demo_flags ''/transactions'') (Some (txSend_body demo_flags))"

lemma demo_runs: "run_sent (Execute TxSend demo_cli demo_flags (\<lambda>_. None)) = [demo_sent]"
  by code_simp

lemma demo_plain: "plain_ids TxSend demo_flags"
  by code_simp

lemma demo_heard: "without (unheard TxSend) demo_flags = demo_flags"
  by (auto simp: demo_flags_def without_def)

theorem commands_do_what_their_flags_say_witness:
  "\<exists>rq. arrives (gc_BaseURL demo_Config) demo_sent = Some rq \<and> rq_call rq = the (asked TxSend demo_flags)
    \<and> rq_Params rq = first_arg (path_ids TxSend demo_flags) \<and> rq_Query rq = (\<lambda>_. [])
    \<and> rq_Authorization rq = (if gc_APIKey demo_Config = [] then [] else ''Bearer '' @ gc_APIKey demo_Config)"
  using commands_do_what_their_flags_say [OF demo_cli_resolve demo_plain _ _ demo_heard, of _ demo_sent] by (simp add: demo_runs)

section \<open>Flags that are lost\<close>

text \<open>
  C39: the gateway cannot tell whether a transfer was sent with \<open>--session-key-id\<close>: the request of
  \<open>tx send\<close>, \<open>session-keys create\<close>, \<open>webhooks create\<close> or \<open>webhooks update\<close> arrives as the same
  request whether the flags in \<open>unheard\<close> are given or not, and a transfer arrives without a signer. So a
  transfer that names a session key is made with the authority of the wallet, outside the limits of
  that key, and an endpoint created for some events is subscribed to all.
\<close>

theorem lost_flags_make_no_difference:
  assumes cfg: "resolveConfig sys fs (str_flag fl ''base-url'' []) (str_flag fl ''api-key'' []) = Inr c"
    and ids: "plain_ids cmd fl" and cmd: "cmd \<in> {TxSend, SessionCreate, HooksCreate, HooksUpdate}"
    and sent: "r \<in> set (run_sent (Execute cmd sys fl fs))"
      "r' \<in> set (run_sent (Execute cmd sys (without (unheard cmd) fl) fs))"
  shows "arrives (gc_BaseURL c) r = arrives (gc_BaseURL c) r'
    \<and> (cmd = TxSend \<longrightarrow> (\<exists>rq req. arrives (gc_BaseURL c) r = Some rq \<and> rq_call rq = PostGroupTransaction (Some req) \<and> st_SignerID req = []))"
proof -
  let ?fl = "without (unheard cmd) fl"
  have cfg': "resolveConfig sys fs (str_flag ?fl ''base-url'' []) (str_flag ?fl ''api-key'' []) = Inr c"
    using cfg by simp
  have path: "path_ids cmd ?fl = path_ids cmd fl" and asks: "asked cmd fl \<noteq> None" "cmd \<noteq> TxOnramp"
    "asked cmd ?fl \<noteq> None"
    using cmd by auto
  then have ids': "plain_ids cmd ?fl" using ids by (simp add: plain_ids_def)
  have twice: "without (unheard cmd) ?fl = ?fl" by (cases fl) (auto simp: without_def)
  have s: "r \<in> set (run_sent (RunE cmd sys fl fs))" and s': "r' \<in> set (run_sent (RunE cmd sys ?fl fs))"
    using sent Execute_sent by blast+
  have url: "hq_url r = hq_url r'"
    by (rule same_flags_same_target [OF cfg cfg' _ _ _ _ s s']) (use cmd in \<open>auto simp: from_path_def session_path_def fun_eq_iff\<close>)
  have key: "hq_Authorization r = hq_Authorization r'"
    using sent_key [OF cfg s] sent_key [OF cfg' s'] by simp
  obtain rq where rq: "arrives (gc_BaseURL c) r = Some rq" "rq_call rq = the (asked cmd ?fl)" "rq_Params rq = first_arg (path_ids cmd fl)"
    using reachesD [OF command_reaches [OF cfg ids asks(1,2) s]] by blast
  obtain rq' where rq': "arrives (gc_BaseURL c) r' = Some rq'" "rq_call rq' = the (asked cmd ?fl)" "rq_Params rq' = first_arg (path_ids cmd fl)"
    using reachesD [OF command_reaches [OF cfg' ids' asks(3,2) s']] unfolding twice path by blast
  have "rq = rq'" using arrives_fields [OF rq(1) rq'(1) url key] rq rq' by simp
  with rq rq' show ?thesis by auto
qed

definition demo_signed_flags :: flags where
  "demo_signed_flags = demo_flags\<lparr>fl_str := (fl_str demo_flags)(''session-key-id'' \<mapsto> ''sk-7'')\<rparr>"

lemma demo_signed: "without (unheard TxSend) demo_signed_flags = demo_flags"
  by (auto simp: demo_signed_flags_def demo_flags_def without_def)

definition demo_signed_sent :: cli_request where
  "demo_signed_sent = client_request \<lparr> cl_base = gc_BaseURL demo_Config, cl_apiKey = gc_APIKey demo_Config \<rparr> ''POST''
     (from_path demo_flags ''/transactions'') (Some (txSend_body demo_signed_flags))"

lemma demo_signed_runs: "run_sent (Execute TxSend demo_cli demo_signed_flags (\<lambda>_. None)) = [demo_signed_sent]"
  by code_simp

lemma demo_signed_resolve:
  "resolveConfig demo_cli (\<lambda>_. None) (str_flag demo_signed_flags ''base-url'' []) (str_flag demo_signed_flags ''api-key'' []) = Inr demo_Config"
  by code_simp

lemma demo_signed_plain: "plain_ids TxSend demo_signed_flags"
  by code_simp

theorem lost_flags_make_no_difference_witness:
  "demo_signed_sent \<noteq> demo_sent \<and> arrives (gc_BaseURL demo_Config) demo_signed_sent = arrives (gc_BaseURL demo_Config) demo_sent"
proof -
  have "hq_json demo_signed_sent \<noteq> hq_json demo_sent" by code_simp
  moreover have "arrives (gc_BaseURL demo_Config) demo_signed_sent = arrives (gc_BaseURL demo_Config) demo_sent"
    using lost_flags_make_no_difference [OF demo_signed_resolve demo_signed_plain, of demo_signed_sent demo_sent]
    by (simp only: demo_signed_runs demo_signed demo_runs) simp
  ultimately show ?thesis by auto
qed

section \<open>Commands that never succeed\<close>

lemma nameless_key_is_invalid: "ck_Name req = [] \<Longrightarrow> validateCreateSessionKey req = Some ''name is required''"
  by (simp add: validateCreateSessionKey_def)

text \<open>
  C40: whatever its flags, the body that \<open>session-keys create\<close> sends is refused by the handler (it has no
  name), and so is the body of \<open>tx onramp\<close> (its amount is not where the handler reads it): 400, or 403
  for a role that may not create keys, and nothing changes.
\<close>

theorem two_commands_are_always_refused:
  "\<exists>st b. SessionKeys_Create h e cx (decode_CreateSessionKey (JVal (sessionKeysCreate_body fl))) s = (Reply st b, s)
      \<and> st \<in> {400, 403}
    \<and> (\<exists>b'. WalletGroups_CreateOnramp h' e cx (decode_GroupOnramp (JVal (txOnramp_body fl))) s = (Reply 400 b', s))"
  by (simp add: SessionKeys_Create_def WalletGroups_CreateOnramp_def decode_sessionKeysCreate decode_txOnramp nameless_key_is_invalid
      validateOnramp_def badRequest_def Let_def)

end
