(* ===== verification/Queries_More.thy ===== *)
theory Queries_More
  imports Tenant_Store
begin

text \<open>
  The queries of \<open>internal/db/sqlcgen\<close> that no handler calls yet: reports, background maintenance and
  the durable mirror of the budget counters. They are part of the storage interface, so what they do to
  the tables is stated beside the queries in use: every one of them keeps the schema.
\<close>

section \<open>tenants, users\<close>

definition GetTenantByEmail :: "string \<Rightarrow> db \<Rightarrow> Tenant query_result" where
  "GetTenantByEmail em d = select_one (\<lambda>r. tn_PrimaryEmail r = em) (tenants d)"

definition ListActiveTenants :: "int \<Rightarrow> int \<Rightarrow> db \<Rightarrow> Tenant list" where
  "ListActiveTenants lim off d = page lim off (order_desc tn_CreatedAt (filter (\<lambda>r. tn_Status r = ''active'') (tenants d)))"

definition update_tenant :: "(Tenant \<Rightarrow> Tenant) \<Rightarrow> string \<Rightarrow> db \<Rightarrow> Tenant query_result \<times> db" where
  "update_tenant f i d =
     (case update_one (\<lambda>_. True) (\<lambda>r. tn_ID r = i) f (tenants d) of (res, rs) \<Rightarrow> (res, d\<lparr>tenants := rs\<rparr>))"

definition UpdateTenantPlan :: "time \<Rightarrow> string \<Rightarrow> string \<Rightarrow> db \<Rightarrow> Tenant query_result \<times> db" where
  "UpdateTenantPlan now i plan = update_tenant (\<lambda>r. r\<lparr>tn_Plan := plan, tn_UpdatedAt := now\<rparr>) i"

definition UpdateTenantStatus :: "time \<Rightarrow> string \<Rightarrow> string \<Rightarrow> db \<Rightarrow> Tenant query_result \<times> db" where
  "UpdateTenantStatus now i st = update_tenant (\<lambda>r. r\<lparr>tn_Status := st, tn_UpdatedAt := now\<rparr>) i"

definition GetUserByEmailInTenant :: "string \<Rightarrow> string \<Rightarrow> db \<Rightarrow> User query_result" where
  "GetUserByEmailInTenant t em d = select_one (\<lambda>r. us_TenantID r = t \<and> us_Email r = em) (users d)"

definition ListUsersInTenant :: "string \<Rightarrow> db \<Rightarrow> User list" where
  "ListUsersInTenant t d = sort_key us_CreatedAt (filter (\<lambda>r. us_TenantID r = t) (users d))"

definition MarkEmailVerified :: "time \<Rightarrow> string \<Rightarrow> db \<Rightarrow> db" where
  "MarkEmailVerified now i d =
     d\<lparr>users := upd_where (\<lambda>r. us_ID r = i) (\<lambda>r. r\<lparr>us_EmailVerified := True, us_UpdatedAt := now\<rparr>) (users d)\<rparr>"

definition UpdateUserPassword :: "time \<Rightarrow> string \<Rightarrow> string \<Rightarrow> db \<Rightarrow> db" where
  "UpdateUserPassword now i hash d =
     d\<lparr>users := upd_where (\<lambda>r. us_ID r = i) (\<lambda>r. r\<lparr>us_PasswordHash := hash, us_UpdatedAt := now\<rparr>) (users d)\<rparr>"

section \<open>wallet\_groups, wallets\<close>

definition ListAgentGroupsForParent :: "string option \<Rightarrow> db \<Rightarrow> WalletGroup list" where
  "ListAgentGroupsForParent parent d =
     sort_key wg_CreatedAt
       (filter (\<lambda>r. parent \<noteq> None \<and> wg_ParentGroupID r = parent \<and> wg_DeletedAt r = None) (wallet_groups d))"

definition SoftDeleteWalletGroup :: "time \<Rightarrow> string \<Rightarrow> db \<Rightarrow> db" where
  "SoftDeleteWalletGroup now i d =
     d\<lparr>wallet_groups := upd_where (\<lambda>r. wg_ID r = i \<and> wg_DeletedAt r = None)
        (\<lambda>r. r\<lparr>wg_DeletedAt := Some now, wg_UpdatedAt := now\<rparr>) (wallet_groups d)\<rparr>"

definition UpdateWalletGroupDisplayName :: "time \<Rightarrow> string \<Rightarrow> string option \<Rightarrow> db \<Rightarrow> WalletGroup query_result \<times> db" where
  "UpdateWalletGroupDisplayName now i name d =
     (case update_one wallet_group_check (\<lambda>r. wg_ID r = i \<and> wg_DeletedAt r = None)
             (\<lambda>r. r\<lparr>wg_DisplayName := name, wg_UpdatedAt := now\<rparr>) (wallet_groups d)
      of (res, rs) \<Rightarrow> (res, d\<lparr>wallet_groups := rs\<rparr>))"

definition GetWalletByAddress :: "string \<Rightarrow> db \<Rightarrow> Wallet query_result" where
  "GetWalletByAddress a d = select_one (\<lambda>r. wl_Address r = a \<and> wl_Status r = ''active'') (wallets d)"

definition GetWalletByProviderLocator :: "string \<Rightarrow> string \<Rightarrow> db \<Rightarrow> Wallet query_result" where
  "GetWalletByProviderLocator rail loc d =
     select_one (\<lambda>r. wl_Rail r = rail \<and> wl_ProviderLocator r = loc \<and> wl_Status r = ''active'') (wallets d)"

definition set_wallet_key :: "time \<Rightarrow> bytes option \<Rightarrow> int option \<Rightarrow> Wallet \<Rightarrow> Wallet" where
  "set_wallet_key now blob ver r = r\<lparr>wl_EncryptedPrivateKey := blob, wl_KeyVersion := ver, wl_UpdatedAt := now\<rparr>"

text \<open>An \<open>:exec\<close> statement: a row that would break a \<open>CHECK\<close> fails the whole of it.\<close>

definition UpdateWalletEncryptedKey :: "time \<Rightarrow> string \<Rightarrow> bytes option \<Rightarrow> int option \<Rightarrow> db \<Rightarrow> db_error option \<times> db" where
  "UpdateWalletEncryptedKey now i blob ver d =
     (let p = (\<lambda>r. wl_ID r = i \<and> wl_Custody r = ''platform'' \<and> wl_Rail r = ''tempo''); f = set_wallet_key now blob ver in
      if list_ex (\<lambda>r. p r \<and> \<not> wallet_check (f r)) (wallets d) then (Some CheckViolation, d)
      else (None, d\<lparr>wallets := upd_where p f (wallets d)\<rparr>))"

definition UpdateWalletStatus :: "time \<Rightarrow> string \<Rightarrow> string \<Rightarrow> db \<Rightarrow> Wallet query_result \<times> db" where
  "UpdateWalletStatus now i st d =
     (case update_one wallet_check (\<lambda>r. wl_ID r = i) (\<lambda>r. r\<lparr>wl_Status := st, wl_UpdatedAt := now\<rparr>) (wallets d)
      of (res, rs) \<Rightarrow> (res, d\<lparr>wallets := rs\<rparr>))"

section \<open>transactions, onramp\_orders\<close>

definition newest_page :: "('r \<Rightarrow> bool) \<Rightarrow> ('r \<Rightarrow> time) \<Rightarrow> int \<Rightarrow> int \<Rightarrow> 'r list \<Rightarrow> 'r list" where
  "newest_page p created lim off rs = page lim off (order_desc created (filter p rs))"

definition ListTransactionsByGroup :: "string \<Rightarrow> int \<Rightarrow> int \<Rightarrow> db \<Rightarrow> Transaction list" where
  "ListTransactionsByGroup g lim off d = newest_page (\<lambda>r. tx_GroupID r = g) tx_CreatedAt lim off (transactions d)"

definition ListTransactionsByTenant :: "string \<Rightarrow> int \<Rightarrow> int \<Rightarrow> db \<Rightarrow> Transaction list" where
  "ListTransactionsByTenant t lim off d = newest_page (\<lambda>r. tx_TenantID r = t) tx_CreatedAt lim off (transactions d)"

definition ListTransactionsByWallet :: "string \<Rightarrow> int \<Rightarrow> int \<Rightarrow> db \<Rightarrow> Transaction list" where
  "ListTransactionsByWallet w lim off d = newest_page (\<lambda>r. tx_WalletID r = w) tx_CreatedAt lim off (transactions d)"

definition GetOnrampOrderByID :: "string \<Rightarrow> db \<Rightarrow> OnrampOrder query_result" where
  "GetOnrampOrderByID i d = select_one (\<lambda>r. oo_ID r = i) (onramp_orders d)"

definition GetOnrampOrderByProviderID :: "string \<Rightarrow> string option \<Rightarrow> db \<Rightarrow> OnrampOrder query_result" where
  "GetOnrampOrderByProviderID prov i d =
     select_one (\<lambda>r. oo_Provider r = prov \<and> i \<noteq> None \<and> oo_ProviderOrderID r = i) (onramp_orders d)"

definition ListOnrampOrdersByGroup :: "string \<Rightarrow> int \<Rightarrow> int \<Rightarrow> db \<Rightarrow> OnrampOrder list" where
  "ListOnrampOrdersByGroup g lim off d = newest_page (\<lambda>r. oo_GroupID r = g) oo_CreatedAt lim off (onramp_orders d)"

definition ListOnrampOrdersByTenant :: "string \<Rightarrow> int \<Rightarrow> int \<Rightarrow> db \<Rightarrow> OnrampOrder list" where
  "ListOnrampOrdersByTenant t lim off d = newest_page (\<lambda>r. oo_TenantID r = t) oo_CreatedAt lim off (onramp_orders d)"

definition onramp_settled :: "string \<Rightarrow> bool" where
  "onramp_settled st \<longleftrightarrow> st = ''completed'' \<or> st = ''failed'' \<or> st = ''expired''"

definition set_onramp_status ::
    "time \<Rightarrow> string \<Rightarrow> numeric option \<Rightarrow> string option \<Rightarrow> string option \<Rightarrow> OnrampOrder \<Rightarrow> OnrampOrder" where
  "set_onramp_status now st amount code msg r =
     r\<lparr>oo_Status := st, oo_CryptoAmount := coalesce amount (oo_CryptoAmount r), oo_ErrorCode := coalesce code (oo_ErrorCode r),
       oo_ErrorMessage := coalesce msg (oo_ErrorMessage r),
       oo_CompletedAt := (if onramp_settled st \<and> oo_CompletedAt r = None then Some now else oo_CompletedAt r),
       oo_UpdatedAt := now\<rparr>"

definition UpdateOnrampOrderStatus ::
    "pg_driver \<Rightarrow> time \<Rightarrow> string \<Rightarrow> string \<Rightarrow> numeric option \<Rightarrow> string option \<Rightarrow> string option \<Rightarrow> db
     \<Rightarrow> OnrampOrder query_result \<times> db" where
  "UpdateOnrampOrderStatus drv now i st amount code msg d =
     (case store_numeric drv amount of
        None \<Rightarrow> (Inl BadInput, d)
      | Some am \<Rightarrow>
          (case update_one onramp_check (\<lambda>r. oo_ID r = i) (set_onramp_status now st am code msg) (onramp_orders d)
           of (res, rs) \<Rightarrow> (res, d\<lparr>onramp_orders := rs\<rparr>)))"

section \<open>limit\_policies, limit\_violations, usage\_counters\<close>

definition GetLimitPolicyByID :: "string \<Rightarrow> db \<Rightarrow> LimitPolicy query_result" where
  "GetLimitPolicyByID i d = select_one (\<lambda>r. lp_ID r = i) (limit_policies d)"

definition ListEnabledPoliciesForTenant :: "string \<Rightarrow> db \<Rightarrow> LimitPolicy list" where
  "ListEnabledPoliciesForTenant t d = order_desc lp_CreatedAt (filter (\<lambda>r. lp_TenantID r = t \<and> lp_Enabled r) (limit_policies d))"

definition set_policy_caps ::
    "time \<Rightarrow> numeric option \<Rightarrow> numeric option \<Rightarrow> numeric option \<Rightarrow> numeric option \<Rightarrow> LimitPolicy \<Rightarrow> LimitPolicy" where
  "set_policy_caps now pt da we mo r =
     r\<lparr>lp_PerTxAmount := pt, lp_DailyAmount := da, lp_WeeklyAmount := we, lp_MonthlyAmount := mo, lp_UpdatedAt := now\<rparr>"

definition UpdateLimitPolicyCaps ::
    "pg_driver \<Rightarrow> time \<Rightarrow> string \<Rightarrow> numeric option \<Rightarrow> numeric option \<Rightarrow> numeric option \<Rightarrow> numeric option \<Rightarrow> db
     \<Rightarrow> LimitPolicy query_result \<times> db" where
  "UpdateLimitPolicyCaps drv now i pt da we mo d =
     (case (store_numeric drv pt, store_numeric drv da, store_numeric drv we, store_numeric drv mo) of
        (Some pt', Some da', Some we', Some mo') \<Rightarrow>
          (case update_one policy_check (\<lambda>r. lp_ID r = i \<and> lp_Enabled r) (set_policy_caps now pt' da' we' mo') (limit_policies d)
           of (res, rs) \<Rightarrow> (res, d\<lparr>limit_policies := rs\<rparr>))
      | _ \<Rightarrow> (Inl BadInput, d))"

definition ListLimitViolationsByWallet :: "string option \<Rightarrow> int \<Rightarrow> int \<Rightarrow> db \<Rightarrow> LimitViolation list" where
  "ListLimitViolationsByWallet w lim off d =
     newest_page (\<lambda>r. w \<noteq> None \<and> lv_WalletID r = w) lv_CreatedAt lim off (limit_violations d)"

text \<open>
  The table \<open>usage_counters\<close> is only reached by these three queries, so it is a state of its own beside
  the tables of \<^typ>\<open>db\<close>. The comparison of two NUMERIC texts and the collation are PostgreSQL's.
\<close>

record usage_sql =
  ug_greatest :: "string \<Rightarrow> string \<Rightarrow> string"
  ug_collate :: "string \<Rightarrow> int" \<comment> \<open>the rank of a text in the collation order\<close>

definition same_counter :: "string \<Rightarrow> string \<Rightarrow> UsageCounter \<Rightarrow> bool" where
  "same_counter pol period r \<longleftrightarrow> uc_PolicyID r = pol \<and> uc_PeriodKey r = period"

definition GetUsageCounter :: "string \<Rightarrow> string \<Rightarrow> UsageCounter list \<Rightarrow> UsageCounter query_result" where
  "GetUsageCounter pol period us = select_one (same_counter pol period) us"

definition ListUsageCountersForPolicy :: "usage_sql \<Rightarrow> string \<Rightarrow> UsageCounter list \<Rightarrow> UsageCounter list" where
  "ListUsageCountersForPolicy ug pol us = order_desc (\<lambda>r. ug_collate ug (uc_PeriodKey r)) (filter (\<lambda>r. uc_PolicyID r = pol) us)"

definition UpsertUsageCounter ::
    "usage_sql \<Rightarrow> pg_driver \<Rightarrow> time \<Rightarrow> db \<Rightarrow> UsageCounter \<Rightarrow> UsageCounter list \<Rightarrow> UsageCounter query_result \<times> UsageCounter list" where
  "UpsertUsageCounter ug drv now d a us =
     (case pg_numeric_text drv (uc_UsedAmount a) of
        None \<Rightarrow> (Inl BadInput, us)
      | Some amt \<Rightarrow>
          (let r = a\<lparr>uc_UsedAmount := amt, uc_FlushedAt := now\<rparr>; p = same_counter (uc_PolicyID a) (uc_PeriodKey a) in
           if \<not> exists_row lp_ID (uc_PolicyID a) (limit_policies d) \<or> \<not> fk_opt tx_ID (uc_LastTxID a) (transactions d)
           then (Inl ForeignKeyViolation, us)
           else
             (case List.find p us of
                None \<Rightarrow> (Inr r, us @ [r])
              | Some old \<Rightarrow>
                  (let f = (\<lambda>u. r\<lparr>uc_UsedAmount := ug_greatest ug (uc_UsedAmount u) amt\<rparr>) in (Inr (f old), upd_where p f us)))))"

section \<open>session\_keys, virtual\_addresses, webhook\_events\<close>

definition GetActiveSessionKeyByPublicAddress :: "string \<Rightarrow> db \<Rightarrow> SessionKey query_result" where
  "GetActiveSessionKeyByPublicAddress a d =
     select_one (\<lambda>r. sk_PublicAddress r = a \<and> sk_Status r = ''active'') (session_keys d)"

definition ListSessionKeysForTenant :: "string \<Rightarrow> int \<Rightarrow> int \<Rightarrow> db \<Rightarrow> SessionKey list" where
  "ListSessionKeysForTenant t lim off d = newest_page (\<lambda>r. sk_TenantID r = t) sk_CreatedAt lim off (session_keys d)"

definition UpdateSessionKeyNextRotation :: "time \<Rightarrow> string \<Rightarrow> time option \<Rightarrow> db \<Rightarrow> db" where
  "UpdateSessionKeyNextRotation now i nxt d =
     d\<lparr>session_keys := upd_where (\<lambda>r. sk_ID r = i) (\<lambda>r. r\<lparr>sk_NextRotationAt := nxt, sk_UpdatedAt := now\<rparr>) (session_keys d)\<rparr>"

definition GetVirtualAddressByAddress :: "string \<Rightarrow> db \<Rightarrow> VirtualAddress query_result" where
  "GetVirtualAddressByAddress a d = select_one (\<lambda>r. va_Address r = a) (virtual_addresses d)"

definition ListWebhookEventsForEndpoint :: "string option \<Rightarrow> int \<Rightarrow> int \<Rightarrow> db \<Rightarrow> WebhookEvent list" where
  "ListWebhookEventsForEndpoint we lim off d =
     newest_page (\<lambda>r. we \<noteq> None \<and> ev_EndpointID r = we) ev_CreatedAt lim off (webhook_events d)"

definition ListWebhookEventsForTenant :: "string \<Rightarrow> int \<Rightarrow> int \<Rightarrow> db \<Rightarrow> WebhookEvent list" where
  "ListWebhookEventsForTenant t lim off d = newest_page (\<lambda>r. ev_TenantID r = t) ev_CreatedAt lim off (webhook_events d)"

section \<open>Every update keeps the schema\<close>

lemma db_wf_upd_tenants:
  assumes "db_wf d" "\<And>r. tn_ID (f r) = tn_ID r" "\<And>r. tn_PrimaryEmail (f r) = tn_PrimaryEmail r"
  shows "db_wf (d\<lparr>tenants := upd_where p f (tenants d)\<rparr>)"
  by (rule db_wf_update [OF assms(1)])
     (use assms(2-) in \<open>auto simp: ids_of_def tables_ok_def secondary_keys_def key_image_upd pk_unique_upd intro!: wf_table_upd\<close>)

lemma db_wf_upd_groups:
  assumes "db_wf d" "\<And>r. wg_ID (f r) = wg_ID r"
    "\<And>r q. r \<in> set (wallet_groups d) \<Longrightarrow> p r \<Longrightarrow> group_ok q r \<Longrightarrow> group_ok q (f r)"
    "\<And>r. (\<lambda>g. (wg_TenantID g, wg_OwnerRef g)) (f r) = (\<lambda>g. (wg_TenantID g, wg_OwnerRef g)) r"
  shows "db_wf (d\<lparr>wallet_groups := upd_where p f (wallet_groups d)\<rparr>)"
  by (rule db_wf_update [OF assms(1)])
     (use assms(2-) in \<open>auto simp: ids_of_def tables_ok_def secondary_keys_def key_image_upd pk_unique_upd intro!: wf_table_upd\<close>)

lemma db_wf_upd_wallets:
  assumes "db_wf d" "\<And>r. wl_ID (f r) = wl_ID r"
    "\<And>r q. r \<in> set (wallets d) \<Longrightarrow> p r \<Longrightarrow> wallet_ok q r \<Longrightarrow> wallet_ok q (f r)"
    "\<And>r. (\<lambda>w. (wl_GroupID w, wl_Rail w, wl_Chain w)) (f r) = (\<lambda>w. (wl_GroupID w, wl_Rail w, wl_Chain w)) r"
  shows "db_wf (d\<lparr>wallets := upd_where p f (wallets d)\<rparr>)"
  by (rule db_wf_update [OF assms(1)])
     (use assms(2-) in \<open>auto simp: ids_of_def tables_ok_def secondary_keys_def key_image_upd pk_unique_upd intro!: wf_table_upd\<close>)

lemma onramp_index_upd:
  assumes "\<And>r. (\<lambda>t. (oo_TenantID t, oo_IdempotencyKey t)) (f r) = (\<lambda>t. (oo_TenantID t, oo_IdempotencyKey t)) r"
  shows "pk_unique (\<lambda>t. (oo_TenantID t, oo_IdempotencyKey t)) (filter (\<lambda>t. oo_IdempotencyKey t \<noteq> None) (upd_where p f rs))
    \<longleftrightarrow> pk_unique (\<lambda>t. (oo_TenantID t, oo_IdempotencyKey t)) (filter (\<lambda>t. oo_IdempotencyKey t \<noteq> None) rs)"
  using map_filter_upd [of "\<lambda>t. (oo_TenantID t, oo_IdempotencyKey t)" f "\<lambda>x. snd x \<noteq> None" p rs, OF assms]
  by (simp add: pk_unique_def)

lemma db_wf_upd_onramp:
  assumes "db_wf d" "\<And>r. oo_ID (f r) = oo_ID r"
    "\<And>r q. r \<in> set (onramp_orders d) \<Longrightarrow> p r \<Longrightarrow> onramp_ok q r \<Longrightarrow> onramp_ok q (f r)"
    "\<And>r. (\<lambda>t. (oo_TenantID t, oo_IdempotencyKey t)) (f r) = (\<lambda>t. (oo_TenantID t, oo_IdempotencyKey t)) r"
  shows "db_wf (d\<lparr>onramp_orders := upd_where p f (onramp_orders d)\<rparr>)"
  by (rule db_wf_update [OF assms(1)])
     (use assms(2-) in \<open>auto simp: ids_of_def tables_ok_def secondary_keys_def key_image_upd pk_unique_upd onramp_index_upd
        simp del: not_None_eq intro!: wf_table_upd\<close>)

lemma default_index_upd:
  assumes "\<And>r. lp_TenantID (f r) = lp_TenantID r" "\<And>r. lp_ScopeType (f r) = lp_ScopeType r" "\<And>r. lp_Enabled (f r) = lp_Enabled r"
  shows "pk_unique lp_TenantID (filter (\<lambda>p. is_tenant_default (lp_TenantID p) p) (upd_where q f rs))
    \<longleftrightarrow> pk_unique lp_TenantID (filter (\<lambda>p. is_tenant_default (lp_TenantID p) p) rs)"
proof -
  have "map lp_TenantID (filter (\<lambda>p. is_tenant_default (lp_TenantID p) p) (upd_where q f rs))
      = map lp_TenantID (filter (\<lambda>p. is_tenant_default (lp_TenantID p) p) rs)"
    using assms by (induction rs) (auto simp: is_tenant_default_def)
  then show ?thesis by (simp add: pk_unique_def)
qed

lemma db_wf_upd_caps:
  assumes "db_wf d"
  shows "db_wf (d\<lparr>limit_policies := upd_where q (set_policy_caps now pt da we mo) (limit_policies d)\<rparr>)"
  by (rule db_wf_update [OF assms])
     (auto simp: ids_of_def tables_ok_def secondary_keys_def key_image_upd default_index_upd set_policy_caps_def
        policy_ok_def policy_check_def intro!: wf_table_upd)

lemma update_one_cases:
  assumes "\<And>rs'. rs' = rs \<Longrightarrow> P rs'" "\<And>rs'. rs' = upd_where p f rs \<Longrightarrow> \<forall>r \<in> set rs. p r \<longrightarrow> chk (f r) \<Longrightarrow> P rs'"
  shows "P (snd (update_one chk p f rs))"
  using update_one_snd [of chk p f rs] assms by metis

text \<open>The statements of this theory, on a database that the schema accepts.\<close>

theorem maintenance_keeps_the_schema:
  assumes "db_wf d"
  shows "db_wf (snd (UpdateTenantPlan now i s d)) \<and> db_wf (snd (UpdateTenantStatus now i s d)) \<and> db_wf (MarkEmailVerified now i d)
    \<and> db_wf (UpdateUserPassword now i s d) \<and> db_wf (SoftDeleteWalletGroup now i d)
    \<and> db_wf (snd (UpdateWalletGroupDisplayName now i nm d)) \<and> db_wf (snd (UpdateWalletEncryptedKey now i blob ver d))
    \<and> db_wf (snd (UpdateWalletStatus now i s d)) \<and> db_wf (snd (UpdateOnrampOrderStatus drv now i s am code msg d))
    \<and> db_wf (snd (UpdateLimitPolicyCaps drv now i pt da we mo d)) \<and> db_wf (UpdateSessionKeyNextRotation now i nxt d)"
proof (intro conjI)
  have *: "d\<lparr>tenants := tenants d\<rparr> = d" "d\<lparr>wallet_groups := wallet_groups d\<rparr> = d" "d\<lparr>wallets := wallets d\<rparr> = d"
    "d\<lparr>onramp_orders := onramp_orders d\<rparr> = d" "d\<lparr>limit_policies := limit_policies d\<rparr> = d" by simp_all
  show "db_wf (snd (UpdateTenantPlan now i s d))" "db_wf (snd (UpdateTenantStatus now i s d))"
    unfolding UpdateTenantPlan_def UpdateTenantStatus_def update_tenant_def split_beta snd_conv
    by (rule update_one_cases; simp add: assms * db_wf_upd_tenants)+
  show "db_wf (MarkEmailVerified now i d)" "db_wf (UpdateUserPassword now i s d)"
    unfolding MarkEmailVerified_def UpdateUserPassword_def by (rule db_wf_upd_users [OF assms]; simp add: user_ok_def)+
  show "db_wf (SoftDeleteWalletGroup now i d)"
    unfolding SoftDeleteWalletGroup_def by (rule db_wf_upd_groups [OF assms]) (auto simp: group_ok_def wallet_group_check_def)
  show "db_wf (snd (UpdateWalletGroupDisplayName now i nm d))"
    unfolding UpdateWalletGroupDisplayName_def split_beta snd_conv
    by (rule update_one_cases) (auto simp: assms * group_ok_def wallet_group_check_def intro!: db_wf_upd_groups)
  show "db_wf (snd (UpdateWalletEncryptedKey now i blob ver d))"
    by (auto simp: UpdateWalletEncryptedKey_def Let_def assms list_ex_iff wallet_ok_def set_wallet_key_def intro!: db_wf_upd_wallets)
  show "db_wf (snd (UpdateWalletStatus now i s d))"
    unfolding UpdateWalletStatus_def split_beta snd_conv
    by (rule update_one_cases) (auto simp: assms * wallet_ok_def intro!: db_wf_upd_wallets)
  show "db_wf (snd (UpdateOnrampOrderStatus drv now i s am code msg d))"
    unfolding UpdateOnrampOrderStatus_def split_beta
    by (auto simp: assms split: option.split intro!: update_one_cases [where P = "\<lambda>rs. db_wf (d\<lparr>onramp_orders := rs\<rparr>)"] db_wf_upd_onramp)
      (auto simp: onramp_ok_def set_onramp_status_def)
  show "db_wf (snd (UpdateLimitPolicyCaps drv now i pt da we mo d))"
    unfolding UpdateLimitPolicyCaps_def split_beta
    by (auto simp: assms split: option.split intro!: update_one_cases [where P = "\<lambda>rs. db_wf (d\<lparr>limit_policies := rs\<rparr>)"] db_wf_upd_caps)
  show "db_wf (UpdateSessionKeyNextRotation now i nxt d)"
    unfolding UpdateSessionKeyNextRotation_def
    by (rule db_wf_upd_session_keys [OF assms]) (auto simp: session_key_ok_def session_key_check_def)
qed

section \<open>What the statements mean\<close>

text \<open>
  Soft-deleting a group leaves its wallets as they are: the comment of the query expects a cascade that
  an \<open>UPDATE\<close> does not make. The group is gone for every query that loads it, and its owner reference
  stays taken.
\<close>

lemma soft_delete_hides_the_group:
  "GetWalletGroupByID i (SoftDeleteWalletGroup now i d) = Inl NoRows \<and> wallets (SoftDeleteWalletGroup now i d) = wallets d"
proof -
  let ?f = "\<lambda>r. r\<lparr>wg_DeletedAt := Some now, wg_UpdatedAt := now\<rparr>"
  have "\<not> (wg_ID r = i \<and> wg_DeletedAt r = None)" if "r \<in> set (wallet_groups (SoftDeleteWalletGroup now i d))" for r
  proof -
    from that obtain x where "r = (if wg_ID x = i \<and> wg_DeletedAt x = None then ?f x else x)"
      unfolding SoftDeleteWalletGroup_def by (auto simp: set_upd_where simp del: if_image_distrib)
    then show ?thesis by (cases "wg_ID x = i \<and> wg_DeletedAt x = None") simp_all
  qed
  then have "List.find (\<lambda>r. wg_ID r = i \<and> wg_DeletedAt r = None) (wallet_groups (SoftDeleteWalletGroup now i d)) = None"
    unfolding find_None_iff by blast
  then show ?thesis by (simp add: GetWalletGroupByID_def select_one_Inl) (simp add: SoftDeleteWalletGroup_def)
qed

lemma soft_delete_keeps_the_reference:
  assumes "g \<in> set (wallet_groups d)" "json_ok (wg_Metadata a)" "wallet_group_check a"
    "wg_TenantID a = wg_TenantID g" "wg_OwnerRef a = wg_OwnerRef g"
  shows "fst (CreateWalletGroup now' a (SoftDeleteWalletGroup now i d)) = Inl UniqueViolation"
proof -
  have "exists_row (\<lambda>g. (wg_TenantID g, wg_OwnerRef g)) (wg_TenantID a, wg_OwnerRef a) (wallet_groups (SoftDeleteWalletGroup now i d))"
    unfolding exists_row_iff SoftDeleteWalletGroup_def using imageI [OF assms(1), of "\<lambda>g. (wg_TenantID g, wg_OwnerRef g)"] assms(4,5)
    by (simp add: key_image_upd [of "\<lambda>g. (wg_TenantID g, wg_OwnerRef g)"])
  then show ?thesis using assms(2,3) by (simp add: CreateWalletGroup_def wallet_group_check_def Let_def)
qed

text \<open>The completion time of an onramp order is set by the first settled status and never moves.\<close>

lemma completion_time_is_kept:
  "oo_CompletedAt r \<noteq> None \<Longrightarrow> oo_CompletedAt (set_onramp_status now st am code msg r) = oo_CompletedAt r"
  "oo_CompletedAt r = None \<Longrightarrow> oo_CompletedAt (set_onramp_status now st am code msg r) = (if onramp_settled st then Some now else None)"
  by (simp_all add: set_onramp_status_def)

text \<open>The mirror of a counter never goes back, for any comparison that picks an upper bound.\<close>

lemma mirror_never_goes_back:
  assumes upper: "\<And>a b. le a (ug_greatest ug a b) \<and> le b (ug_greatest ug a b)"
    and old: "GetUsageCounter (uc_PolicyID a) (uc_PeriodKey a) us = Inr old"
    and up: "UpsertUsageCounter ug drv now d a us = (Inr new, us')"
  shows "le (uc_UsedAmount old) (uc_UsedAmount new) \<and> uc_FlushedAt new = now"
  using assms by (auto simp: UpsertUsageCounter_def GetUsageCounter_def select_one_Inr Let_def split: option.splits if_splits)

end
