(* ===== verification/Connections.thy ===== *)
theory Connections
  imports Server
begin

text \<open>
  How a process gets hold of the world: \<open>db.Connect\<close>, \<open>cache.Connect\<close>, the constructors of the two rail
  clients, \<open>id.New\<close>, and \<open>main\<close> as a function of its environment variables. The drivers (pgx, go-redis,
  ethclient, net/http, AES-GCM) are the record \<open>drivers\<close>.
\<close>

record pool_config =
  pc_URL :: string
  pc_MaxConns :: int
  pc_MinConns :: int
  pc_MaxConnLifetime :: int

record 'r drivers =
  dr_pg_parse :: "string \<Rightarrow> string option" \<comment> \<open>the error of \<open>pgxpool.ParseConfig\<close>\<close>
  dr_pg_new :: "pool_config \<Rightarrow> string option"
  dr_pg_ping :: "pool_config \<Rightarrow> string option"
  dr_redis_parse :: "string \<Rightarrow> string option"
  dr_redis :: "string \<Rightarrow> 'r redis_ops"
  dr_redis_ping :: "string \<Rightarrow> string option"
  dr_dial :: "string \<Rightarrow> string + eth_client"
  dr_http :: "string \<Rightarrow> string \<Rightarrow> cm_request \<Rightarrow> string + cm_response" \<comment> \<open>requests to a base URL with an API key\<close>
  dr_geth :: geth
  dr_gcm :: gcm

section \<open>internal/db and internal/cache\<close>

definition db_Connect :: "'r drivers \<Rightarrow> pool_config \<Rightarrow> string + pool_config" where
  "db_Connect dr cfg =
     (if pc_URL cfg = [] then Inl ''db: URL is required''
      else
        (case dr_pg_parse dr (pc_URL cfg) of
           Some err \<Rightarrow> Inl (''parse db url: '' @ err)
         | None \<Rightarrow>
             (let pcfg = \<lparr> pc_URL = pc_URL cfg, pc_MaxConns = (if 0 < pc_MaxConns cfg then pc_MaxConns cfg else 10),
                           pc_MinConns = (if 0 < pc_MinConns cfg then pc_MinConns cfg else 2),
                           pc_MaxConnLifetime = (if 0 < pc_MaxConnLifetime cfg then pc_MaxConnLifetime cfg else 30 * 60 * 10 ^ 9) \<rparr> in
              case dr_pg_new dr pcfg of
                Some err \<Rightarrow> Inl (''create pg pool: '' @ err)
              | None \<Rightarrow> (case dr_pg_ping dr pcfg of Some err \<Rightarrow> Inl (''ping postgres: '' @ err) | None \<Rightarrow> Inr pcfg))))"

definition cache_Connect :: "'r drivers \<Rightarrow> string \<Rightarrow> string + 'r redis_ops" where
  "cache_Connect dr url =
     (if url = [] then Inl ''cache: URL is required''
      else
        (case dr_redis_parse dr url of
           Some err \<Rightarrow> Inl (''parse redis url: '' @ err)
         | None \<Rightarrow> (case dr_redis_ping dr url of Some err \<Rightarrow> Inl (''ping redis: '' @ err) | None \<Rightarrow> Inr (dr_redis dr url))))"

section \<open>The rail clients\<close>

text \<open>The chain id of a client is the one it was configured with; the node is not asked for it.\<close>

definition tempo_NewClient :: "'r drivers \<Rightarrow> string \<Rightarrow> int \<Rightarrow> string + eth_client" where
  "tempo_NewClient dr rpcURL chainID =
     (if rpcURL = [] then Inl ''tempo: RPCURL is required''
      else if chainID = 0 then Inl ''tempo: ChainID is required''
      else (case dr_dial dr rpcURL of
              Inl err \<Rightarrow> Inl (''tempo: dial '' @ rpcURL @ '': '' @ err)
            | Inr eth \<Rightarrow> Inr (eth\<lparr>ChainID := chainID\<rparr>)))"

text \<open>The in-memory keystore of an adapter built without one is the component \<open>gw_keys\<close> of the gateway.\<close>

definition tempo_New :: "'r drivers \<Rightarrow> string \<Rightarrow> int \<Rightarrow> string + tempo_adapter" where
  "tempo_New dr rpcURL chainID =
     (case tempo_NewClient dr rpcURL chainID of
        Inl err \<Rightarrow> Inl err
      | Inr eth \<Rightarrow> Inr \<lparr> ta_geth = dr_geth dr, ta_eth = eth \<rparr>)"

definition tempo_Chains :: "string list" where
  "tempo_Chains = [ChainTempo]"

definition crossmint_NewClient :: "'r drivers \<Rightarrow> string \<Rightarrow> string \<Rightarrow> string + (cm_request \<Rightarrow> string + cm_response)" where
  "crossmint_NewClient dr apiKey baseURL =
     (if apiKey = [] then Inl ''crossmint: APIKey is required''
      else (let base = (if baseURL = [] then ''https://www.crossmint.com'' else baseURL) in Inr (dr_http dr base apiKey)))"

definition crossmint_New :: "'r drivers \<Rightarrow> string \<Rightarrow> string \<Rightarrow> string + crossmint_adapter" where
  "crossmint_New dr apiKey baseURL =
     (case crossmint_NewClient dr apiKey baseURL of Inl err \<Rightarrow> Inl err | Inr h \<Rightarrow> Inr \<lparr> cm_http = h \<rparr>)"

definition crossmint_Chains :: "string list" where
  "crossmint_Chains = [''base'', ''ethereum'', ''polygon'', ''solana'', ''stellar'']"

section \<open>internal/id\<close>

text \<open>\<open>None\<close> is the panic; \<open>ulid\<close> is the text of the fresh ULID. The sites of \<open>fresh_id\<close> stand for these calls.\<close>

definition id_New :: "string \<Rightarrow> string \<Rightarrow> string option" where
  "id_New prefix ulid = (if prefix = [] then None else Some (prefix @ ''_'' @ ulid))"

lemma id_New_tells_the_kinds_apart:
  assumes "id_New p u = Some i" "id_New q v = Some i" "CHR ''_'' \<notin> set p" "CHR ''_'' \<notin> set q"
  shows "p = q \<and> u = v"
proof -
  have "i = p @ CHR ''_'' # u" "i = q @ CHR ''_'' # v"
    using assms(1,2) by (simp_all add: id_New_def split: if_splits)
  then have "Cut CHR ''_'' i = (p, u, True)" "Cut CHR ''_'' i = (q, v, True)"
    using Cut_append [OF assms(3), of u] Cut_append [OF assms(4), of v] by simp_all
  then show ?thesis by simp
qed

definition Prefixes :: "string list" where
  "Prefixes = [''tn'', ''u'', ''ak'', ''wg'', ''wlt'', ''tx'', ''ord'', ''sk'', ''pol'', ''we'', ''evt'']"

text \<open>With the constants of the package \<open>New\<close> never panics, and an identifier names its kind.\<close>

lemma every_id_names_its_kind:
  assumes "p \<in> set Prefixes" "q \<in> set Prefixes"
  shows "id_New p u \<noteq> None \<and> (id_New p u = id_New q v \<longrightarrow> p = q \<and> u = v)"
proof -
  have "list_all (\<lambda>x. x \<noteq> [] \<and> CHR ''_'' \<notin> set x) Prefixes" by code_simp
  then have plain: "p \<noteq> []" "CHR ''_'' \<notin> set p" "CHR ''_'' \<notin> set q" using assms by (auto simp: list_all_iff)
  then obtain i where i: "id_New p u = Some i" by (simp add: id_New_def)
  then show ?thesis using id_New_tells_the_kinds_apart [OF i _ plain(2,3), of v] by auto
qed

section \<open>main\<close>

text \<open>What \<open>main\<close> opens, from its environment; the order in which it stops is that of \<^const>\<open>main_deps\<close>.\<close>

definition open_connections :: "'r drivers \<Rightarrow> string list \<Rightarrow> Config \<Rightarrow> 'r connections" where
  "open_connections dr environ cfg =
     \<lparr> cn_postgres = (case db_Connect dr \<lparr> pc_URL = cf_DatabaseURL cfg, pc_MaxConns = 0, pc_MinConns = 0, pc_MaxConnLifetime = 0 \<rparr> of
                        Inl err \<Rightarrow> Some err | Inr _ \<Rightarrow> None),
       cn_redis = cache_Connect dr (cf_RedisURL cfg),
       cn_keystore = (case FromEnv (dr_gcm dr) environ of Inl _ \<Rightarrow> None | Inr ks \<Rightarrow> Some ks),
       cn_crossmint = crossmint_New dr (cf_CrossMintAPIKey cfg) (cf_CrossMintBaseURL cfg),
       cn_tempo = tempo_New dr (cf_TempoRPCURL cfg) (cf_TempoChainID cfg) \<rparr>"

definition main_server ::
    "'r drivers \<Rightarrow> server_lib \<Rightarrow> string list \<Rightarrow> (string \<Rightarrow> string) \<Rightarrow> string + 'r Server" where
  "main_server dr lib environ os =
     (case Load os of
        Inl err \<Rightarrow> Inl (''config: '' @ err)
      | Inr cfg \<Rightarrow>
          (case main_deps (open_connections dr environ cfg) os of
             Inl err \<Rightarrow> Inl err
           | Inr deps \<Rightarrow> Inr (server_New lib deps)))"

lemma tempo_New_chain:
  "tempo_New dr url cid = Inr tp \<Longrightarrow> ChainID (ta_eth tp) = cid \<and> cid \<noteq> 0 \<and> url \<noteq> []"
  by (auto simp: tempo_New_def tempo_NewClient_def split: if_splits sum.splits)

lemma main_deps_wired:
  assumes "main_deps cn os = Inr deps" "Load os = Inr cfg"
  shows "dp_SessionSigningKey deps = cf_SessionSigningKey cfg \<and> dp_Pool deps = (cf_DatabaseURL cfg \<noteq> [])
    \<and> (dp_Pool deps \<longrightarrow> 32 \<le> length (cf_SessionSigningKey cfg))
    \<and> (\<forall>tp. dp_Tempo deps = Some tp \<longrightarrow> cn_tempo cn = Inr tp) \<and> (dp_CrossMint deps \<noteq> None \<or> dp_Tempo deps \<noteq> None)"
  using assms by (auto simp: main_deps_def Let_def opened_def split: option.splits sum.splits if_splits)

text \<open>
  A process that comes up signs Tempo transactions for the chain id of its configuration, which is not
  zero, has at least one rail, and with a database has a signing key that mounts authentication.
\<close>

theorem main_comes_up_wired:
  assumes "Load os = Inr cfg" "main_deps (open_connections dr environ cfg) os = Inr deps"
  shows "(dp_CrossMint deps \<noteq> None \<or> dp_Tempo deps \<noteq> None)
    \<and> (\<forall>tp. dp_Tempo deps = Some tp \<longrightarrow> ChainID (ta_eth tp) = cf_TempoChainID cfg \<and> cf_TempoChainID cfg \<noteq> 0)
    \<and> (dp_Pool deps \<longrightarrow> 32 \<le> length (sv_signingKey (server_New lib deps)) \<and> sv_authHandlers (server_New lib deps) \<noteq> None)"
  using main_deps_wired [OF assms(2,1)] by (auto simp: open_connections_def server_New_def Let_def dest: tempo_New_chain)

end
