(* ===== verification/Metrics_Registry.thy ===== *)
theory Metrics_Registry
  imports Routes
begin

text \<open>
  \<open>internal/metrics\<close>: the collectors the process registers, and what the HTTP middleware asks of them.
  The Prometheus library is outside the repository: a collector is the options it is created with, a
  call of the library an element of \<open>metric_call\<close>. Of the library two documented panics
  matter: registering two collectors with the same full name, and giving a collector another number of label
  values than it has labels; a histogram also wants increasing buckets.
\<close>

section \<open>The collectors\<close>

record Collector =
  mc_Namespace :: string
  mc_Subsystem :: string
  mc_Name :: string
  mc_Help :: string
  mc_Buckets :: "rat list option"
  mc_Labels :: "string list"

record Registry =
  mr_HTTPRequests :: Collector
  mr_HTTPDuration :: Collector
  mr_LimitViolations :: Collector
  mr_WebhookDeliveries :: Collector
  mr_SessionKeyEvents :: Collector
  mr_RailCalls :: Collector
  mr_RailLatency :: Collector

definition NewCounterVec :: "string \<Rightarrow> string \<Rightarrow> string \<Rightarrow> string list \<Rightarrow> Collector" where
  "NewCounterVec sub name help labels =
     \<lparr> mc_Namespace = ''atara_pay'', mc_Subsystem = sub, mc_Name = name, mc_Help = help, mc_Buckets = None, mc_Labels = labels \<rparr>"

definition NewHistogramVec :: "string \<Rightarrow> string \<Rightarrow> string \<Rightarrow> rat list \<Rightarrow> string list \<Rightarrow> Collector" where
  "NewHistogramVec sub name help buckets labels =
     \<lparr> mc_Namespace = ''atara_pay'', mc_Subsystem = sub, mc_Name = name, mc_Help = help, mc_Buckets = Some buckets, mc_Labels = labels \<rparr>"

definition NewRegistry :: Registry where
  "NewRegistry =
     \<lparr> mr_HTTPRequests = NewCounterVec ''http'' ''requests_total''
         ''Total HTTP requests served, partitioned by method, route, status class.'' [''method'', ''route'', ''status_class''],
       mr_HTTPDuration = NewHistogramVec ''http'' ''request_duration_seconds'' ''Time spent serving a request.''
         [1/1000, 5/1000, 1/100, 25/1000, 5/100, 1/10, 25/100, 5/10, 1, 25/10, 5, 10] [''method'', ''route''],
       mr_LimitViolations = NewCounterVec ''limits'' ''violations_total'' ''Spending policy denials by violation type.'' [''type''],
       mr_WebhookDeliveries = NewCounterVec ''webhooks'' ''deliveries_total'' ''Webhook delivery outcomes by terminal state.'' [''outcome''],
       mr_SessionKeyEvents = NewCounterVec ''sessionkey'' ''events_total'' ''Session key lifecycle events by action.'' [''action''],
       mr_RailCalls = NewCounterVec ''rail'' ''calls_total'' ''Outbound rail calls (CrossMint REST, Tempo RPC) by outcome.''
         [''rail'', ''operation'', ''outcome''],
       mr_RailLatency = NewHistogramVec ''rail'' ''call_duration_seconds'' ''Outbound rail call latency.''
         [5/100, 1/10, 25/100, 5/10, 1, 25/10, 5, 10, 30] [''rail'', ''operation''] \<rparr>"

text \<open>The arguments of the second \<open>MustRegister\<close>.\<close>

definition registered :: "Registry \<Rightarrow> Collector list" where
  "registered r = [mr_HTTPRequests r, mr_HTTPDuration r, mr_LimitViolations r, mr_WebhookDeliveries r, mr_SessionKeyEvents r,
                   mr_RailCalls r, mr_RailLatency r]"

definition FQName :: "Collector \<Rightarrow> string" where
  "FQName c = mc_Namespace c @ ''_'' @ mc_Subsystem c @ ''_'' @ mc_Name c"

section \<open>The calls of the middleware\<close>

datatype metric_call = Inc Collector "string list" | Observe Collector "string list" rat

fun call_collector :: "metric_call \<Rightarrow> Collector" where
  "call_collector (Inc c _) = c"
| "call_collector (Observe c _ _) = c"

fun call_labels :: "metric_call \<Rightarrow> string list" where
  "call_labels (Inc _ ls) = ls"
| "call_labels (Observe _ ls _) = ls"

text \<open>\<open>middleware.Metrics\<close>, after the rest of the chain returned \<open>result\<close> in \<open>dur\<close> seconds.\<close>

definition Metrics_calls :: "Registry option \<Rightarrow> string \<Rightarrow> string \<Rightarrow> server_error + int \<Rightarrow> rat \<Rightarrow> metric_call list" where
  "Metrics_calls r method route result dur =
     (case (r, Metrics (r \<noteq> None) method route result) of
        (Some reg, Some s) \<Rightarrow>
          [Inc (mr_HTTPRequests reg) [hs_method s, hs_route s, hs_class s],
           Observe (mr_HTTPDuration reg) [hs_method s, hs_route s] dur]
      | _ \<Rightarrow> [])"

section \<open>What holds of them\<close>

lemma collectors_can_be_registered: "distinct (map FQName (registered NewRegistry))"
  by code_simp

lemma buckets_increase: "c \<in> set (registered NewRegistry) \<Longrightarrow> mc_Buckets c = Some bs \<Longrightarrow> sorted_wrt (<) bs"
  by (auto simp: registered_def NewRegistry_def NewCounterVec_def NewHistogramVec_def)

text \<open>No call of the middleware panics: its collector is registered and gets a value for each of its labels.\<close>

lemma metrics_never_panic:
  assumes "c \<in> set (Metrics_calls (Some NewRegistry) method route result dur)"
  shows "call_collector c \<in> set (registered NewRegistry) \<and> length (call_labels c) = length (mc_Labels (call_collector c))"
  using assms
  by (auto simp: Metrics_calls_def Metrics_def registered_def NewRegistry_def NewCounterVec_def NewHistogramVec_def)

text \<open>
  A request is counted once, under one of five classes; the collectors for violations, deliveries,
  session keys and rails get no call, whatever the request.
\<close>

lemma StatusClass_is_one_of_five: "StatusClass st \<in> {''2xx'', ''3xx'', ''4xx'', ''5xx'', ''unknown''}"
  by (simp add: StatusClass_def)

lemma one_count_per_request:
  "filter (\<lambda>c. call_collector c = mr_HTTPRequests NewRegistry) (Metrics_calls (Some NewRegistry) method route result dur)
     = [Inc (mr_HTTPRequests NewRegistry) [method, if route = [] then ''unknown'' else route,
          StatusClass (case result of Inl _ \<Rightarrow> 200 | Inr st \<Rightarrow> st)]]"
  by (simp add: Metrics_calls_def Metrics_def NewRegistry_def NewCounterVec_def NewHistogramVec_def)

lemma domain_collectors_stay_at_zero:
  assumes "c \<in> set (Metrics_calls (Some NewRegistry) method route result dur)"
  shows "mc_Subsystem (call_collector c) = ''http''"
  using assms by (auto simp: Metrics_calls_def Metrics_def NewRegistry_def NewCounterVec_def NewHistogramVec_def)

end
